(* ===== verification/Prelude.thy ===== *)
theory Prelude
  imports Main "HOL-Library.Word" "HOL-Library.List_Lexorder" "HOL-Library.Char_ord"
begin

unbundle bit_operations_syntax

text \<open>
  Shared vocabulary of the development: bytes and strings as Go has them, the two shapes
  of a Go result (\<open>error\<close> alone as an \<open>option\<close>, a value with an error as a sum), the
  loops over a Go \<open>map[K]bool\<close> used as a set of keys already seen, and the collections
  of rules the component theories add to.
\<close>

section \<open>Rule collections\<close>

named_theorems guard_simps \<open>success of a validator, as the conjunction of its checks\<close>
named_theorems keeps \<open>composition rules for relations kept by every exit of an operation\<close>

section \<open>Bytes, strings, widths\<close>

type_synonym byte = "8 word"
type_synonym u64 = "64 word"

text \<open>
  A Go string is a sequence of bytes: HOL's \<open>char\<close> is an 8-bit value, so \<open>string\<close> is
  exactly that, and \<open>len(s)\<close> is \<open>length s\<close>. The conversions \<open>[]byte(s)\<close> and
  \<open>string(b)\<close> are the two maps below.
\<close>

definition bytes_of :: "string \<Rightarrow> byte list" where
  "bytes_of s = map of_char s"

definition string_of :: "byte list \<Rightarrow> string" where
  "string_of bs = map (\<lambda>b. char_of (unat b)) bs"

lemma char_of_unat_of_char [simp]: "char_of (unat (of_char c :: byte)) = c"
proof -
  have "(of_char c :: byte) = of_nat (of_char c)" by (simp add: of_nat_of_char)
  moreover have "(of_char c :: nat) < 256" by simp
  ultimately have "unat (of_char c :: byte) = of_char c"
    by (simp add: unat_of_nat)
  then show ?thesis by simp
qed

lemma string_of_bytes_of [simp]: "string_of (bytes_of s) = s"
  by (simp add: string_of_def bytes_of_def o_def)

lemma length_bytes_of [simp]: "length (bytes_of s) = length s"
  by (simp add: bytes_of_def)

lemma bytes_of_inj: "bytes_of a = bytes_of b \<Longrightarrow> a = b"
  by (metis string_of_bytes_of)

section \<open>Results\<close>

text \<open>
  A Go function that returns only \<open>error\<close> is an \<open>option\<close>: \<open>None\<close> is \<open>nil\<close>. One that
  returns a value and an \<open>error\<close> is a sum: \<open>Inl\<close> the error, \<open>Inr\<close> the value. The two
  combinators are \<open>if err != nil { return err }\<close> in the two shapes.
\<close>

fun bindR :: "'e + 'a \<Rightarrow> ('a \<Rightarrow> 'e + 'b) \<Rightarrow> 'e + 'b" where
  "bindR (Inl e) f = Inl e"
| "bindR (Inr a) f = f a"

fun checkR :: "'e option \<Rightarrow> 'e + 'b \<Rightarrow> 'e + 'b" where
  "checkR (Some e) r = Inl e"
| "checkR None r = r"

lemma bindR_Inr_iff [simp]: "bindR m f = Inr b \<longleftrightarrow> (\<exists>a. m = Inr a \<and> f a = Inr b)"
  by (cases m) auto

lemma checkR_Inr_iff [simp]: "checkR m r = Inr b \<longleftrightarrow> m = None \<and> r = Inr b"
  by (cases m) auto

text \<open>Two shapes of Go's \<open>if bad { return err }\<close>, solved for the success value.\<close>

lemma if_Some_None_iff [simp]: "(if b then Some e else r) = None \<longleftrightarrow> \<not> b \<and> r = None"
  by simp

lemma if_Inl_Inr_iff [simp]: "(if b then Inl e else r) = Inr a \<longleftrightarrow> \<not> b \<and> r = Inr a"
  by simp

section \<open>Loops over a set of keys already seen\<close>

text \<open>
  \<open>for _, v := range values { if bad(v) || seen[key(v)] { return false }; seen[key(v)] = true }\<close>
\<close>

fun scan_unique :: "('a \<Rightarrow> 'k) \<Rightarrow> ('a \<Rightarrow> bool) \<Rightarrow> 'k set \<Rightarrow> 'a list \<Rightarrow> bool" where
  "scan_unique key ok seen [] = True"
| "scan_unique key ok seen (x # xs) =
     (if \<not> ok x \<or> key x \<in> seen then False
      else scan_unique key ok (insert (key x) seen) xs)"

lemma scan_unique_iff:
  "scan_unique key ok seen xs \<longleftrightarrow>
     (\<forall>x \<in> set xs. ok x) \<and> distinct (map key xs) \<and> key ` set xs \<inter> seen = {}"
  by (induction xs arbitrary: seen) auto

text \<open>
  \<open>for index, v := range values { if index > 0 && values[index-1] >= v || bad(v) ... }\<close>:
  the previous element is carried along.
\<close>

fun scan_ascending :: "'a::linorder option \<Rightarrow> ('a \<Rightarrow> bool) \<Rightarrow> 'a set \<Rightarrow> 'a list \<Rightarrow> bool" where
  "scan_ascending prev ok seen [] = True"
| "scan_ascending prev ok seen (x # xs) =
     (if (case prev of None \<Rightarrow> False | Some p \<Rightarrow> p \<ge> x) then False
      else if \<not> ok x \<or> x \<in> seen then False
      else scan_ascending (Some x) ok (insert x seen) xs)"

lemma scan_ascending_Some:
  "scan_ascending (Some p) ok seen xs \<longleftrightarrow>
     (\<forall>x \<in> set xs. ok x) \<and> sorted_wrt (<) (p # xs) \<and> set xs \<inter> seen = {}"
proof (induction xs arbitrary: p seen)
  case Nil
  then show ?case by simp
next
  case (Cons x xs)
  show ?case
    using Cons.IH [of x "insert x seen"] by (auto simp: not_le intro: less_trans)
qed

lemma scan_ascending_iff:
  "scan_ascending None ok {} xs \<longleftrightarrow> (\<forall>x \<in> set xs. ok x) \<and> sorted_wrt (<) xs"
  by (cases xs) (auto simp: scan_ascending_Some)

section \<open>Strictly ascending lists\<close>

lemma sorted_wrt_less_distinct: "sorted_wrt (<) xs \<Longrightarrow> distinct (xs :: 'a::linorder list)"
  by (induction xs) auto

lemma sorted_wrt_less_unique:
  assumes "sorted_wrt (<) (xs :: 'a::linorder list)" and "sorted_wrt (<) ys" and "set xs = set ys"
  shows "xs = ys"
  using assms by (meson sorted_distinct_set_unique sorted_wrt_less_distinct strict_sorted_iff)

text \<open>As many strictly ascending values as an interval has elements are the interval.\<close>

lemma full_interval:
  assumes asc: "sorted_wrt (<) (xs :: int list)"
    and range: "\<forall>x \<in> set xs. lo \<le> x \<and> x \<le> hi"
    and len: "int (length xs) = hi - lo + 1"
  shows "xs = [lo..hi]"
proof (rule sorted_wrt_less_unique)
  show "sorted_wrt (<) xs" by (rule asc)
  show "sorted_wrt (<) [lo..hi]"
    by (simp add: strict_sorted_iff)
  have sub: "set xs \<subseteq> {lo..hi}" using range by auto
  have "card (set xs) = length xs"
    by (rule distinct_card) (rule sorted_wrt_less_distinct [OF asc])
  with len have "card (set xs) = card {lo..hi}" by simp
  with sub have "set xs = {lo..hi}" by (intro card_subset_eq) auto
  then show "set xs = set [lo..hi]" by simp
qed

end
