(* ===== verification/Contracts.thy ===== *)
theory Contracts
  imports Prelude
begin

text \<open>
  The contracts components rely on, as locales: a guard against replayed messages, a stored
  document, a floor that may only rise, and a relation every exit of an operation keeps. The
  theory of the component that provides the operations interprets them.
\<close>

section \<open>A guard against replays\<close>

text \<open>The keys a guard accepts when it is offered a sequence of messages, in order.\<close>

fun accepted_keys :: "('s \<Rightarrow> 'm \<Rightarrow> bool \<times> 's) \<Rightarrow> ('m \<Rightarrow> 'k) \<Rightarrow> 's \<Rightarrow> 'm list \<Rightarrow> 'k list" where
  "accepted_keys offer key s [] = []"
| "accepted_keys offer key s (m # ms) =
     (case offer s m of (ok, s') \<Rightarrow>
        (if ok then [key m] else []) @ accepted_keys offer key s' ms)"

locale replay_guard =
  fixes offer :: "'s \<Rightarrow> 'm \<Rightarrow> bool \<times> 's"
    and key :: "'m \<Rightarrow> 'k"
    and guarded :: "'s \<Rightarrow> 'k set \<Rightarrow> bool"
  assumes accepted: "guarded s H \<Longrightarrow> offer s m = (True, s') \<Longrightarrow> key m \<notin> H \<and> guarded s' (insert (key m) H)"
    and refused: "guarded s H \<Longrightarrow> offer s m = (False, s') \<Longrightarrow> s' = s"
begin

lemma accepted_keys_fresh:
  "guarded s H \<Longrightarrow> distinct (accepted_keys offer key s ms) \<and> set (accepted_keys offer key s ms) \<inter> H = {}"
proof (induction ms arbitrary: s H)
  case Nil
  then show ?case by simp
next
  case (Cons m ms)
  obtain ok s' where step: "offer s m = (ok, s')" by (metis prod.exhaust)
  show ?case
  proof (cases ok)
    case True
    with accepted [OF Cons.prems] step Cons.IH [of s' "insert (key m) H"] show ?thesis by auto
  next
    case False
    with refused [OF Cons.prems] step Cons.IH [OF Cons.prems] show ?thesis by auto
  qed
qed

lemma never_twice:
  assumes "guarded s {}"
  shows "distinct (accepted_keys offer key s ms)"
  using accepted_keys_fresh [OF assms] by blast

lemma replay_refused:
  assumes "guarded s H" and "offer s m = (True, s')"
  shows "fst (offer s' m) = False"
  using accepted [OF assms] accepted [of s' "insert (key m) H" m] by (cases "offer s' m") auto

end

section \<open>Relations every exit keeps\<close>

text \<open>
  A preorder on states. What every step of an operation keeps, every exit of the operation
  keeps, however the steps are composed.
\<close>

locale kept =
  fixes R :: "'s \<Rightarrow> 's \<Rightarrow> bool"
  assumes kept_refl [simp, intro]: "R s s"
    and kept_trans: "R s t \<Longrightarrow> R t u \<Longrightarrow> R s u"
begin

lemma fold_kept: "(\<And>x s. R s (f x s)) \<Longrightarrow> R s (fold f xs s)"
  by (induction xs arbitrary: s) (auto intro: kept_trans)

lemma if_kept: "(b \<Longrightarrow> R s t) \<Longrightarrow> (\<not> b \<Longrightarrow> R s u) \<Longrightarrow> R s (if b then t else u)"
  by simp

end

section \<open>A store of one value\<close>

text \<open>
  A store that holds at most one value: \<open>get\<close> what a load finds, \<open>ok\<close> the values a save
  admits, \<open>form\<close> the value a load returns for one that was saved. A failed operation leaves
  what was stored.
\<close>

locale single_store =
  fixes get :: "'s \<Rightarrow> 'v option"
    and save :: "'v \<Rightarrow> 's \<Rightarrow> 'e option \<times> 's"
    and delete :: "'s \<Rightarrow> 'e option \<times> 's"
    and ok :: "'v \<Rightarrow> bool"
    and form :: "'v \<Rightarrow> 'v"
  assumes save_ok: "save v s = (None, s') \<Longrightarrow> ok v \<and> get s' = Some (form v)"
    and save_failed: "save v s = (Some e, s') \<Longrightarrow> get s' = get s"
    and delete_ok: "delete s = (None, s') \<Longrightarrow> get s' = None"
    and delete_failed: "delete s = (Some e, s') \<Longrightarrow> get s' = get s"
begin

text \<open>After any save the store holds the old value or the new one: none is lost.\<close>

lemma save_keeps_or_replaces:
  assumes "save v s = (e, s')"
  shows "get s' = (if e = None then Some (form v) else get s)"
  using save_ok save_failed assms by (cases e) auto

lemma delete_keeps_or_clears:
  assumes "delete s = (e, s')"
  shows "get s' = (if e = None then None else get s)"
  using delete_ok delete_failed assms by (cases e) auto

text \<open>Over a sequence of saves the store holds the value of the last that succeeded.\<close>

lemma saves_last:
  "get (fold (\<lambda>v s. snd (save v s)) vs s) = Some w \<Longrightarrow> get s = Some w \<or> (\<exists>v \<in> set vs. w = form v)"
proof (induction vs arbitrary: s)
  case Nil
  then show ?case by simp
next
  case (Cons v vs)
  obtain e s' where step: "save v s = (e, s')" by (metis prod.exhaust)
  with Cons.prems have "get s' = Some w \<or> (\<exists>v \<in> set vs. w = form v)" by (intro Cons.IH) simp
  with save_keeps_or_replaces [OF step] show ?case by (auto split: if_splits)
qed

end

section \<open>A persistent document\<close>

text \<open>
  A document with a load and a save: a save that succeeds is what the next load finds, one
  that fails leaves the old document or the new one, never a third.
\<close>

locale document =
  fixes load :: "'d \<Rightarrow> 'e + 'v"
    and save :: "'w \<Rightarrow> 'v \<Rightarrow> 'd \<Rightarrow> 'e option \<times> 'd"
    and form :: "'v \<Rightarrow> 'v"
  assumes saved: "save w v d = (None, d') \<Longrightarrow> load d' = Inr (form v)"
    and failed: "save w v d = (Some e, d') \<Longrightarrow> load d' = load d \<or> load d' = Inr (form v)"
begin

lemma load_after_save:
  assumes "save w v d = (e, d')"
  shows "load d' = Inr (form v) \<or> e \<noteq> None \<and> load d' = load d"
  using saved [of w v d d'] failed [of w v d _ d'] assms by (cases e) auto

lemma load_after_saves:
  "load (fold (\<lambda>(w, v) d. snd (save w v d)) ops d) = load d \<or>
     (\<exists>(w, v) \<in> set ops. load (fold (\<lambda>(w, v) d. snd (save w v d)) ops d) = Inr (form v))"
proof (induction ops arbitrary: d)
  case Nil
  then show ?case by simp
next
  case (Cons op ops)
  obtain w v where op: "op = (w, v)" by (metis prod.exhaust)
  obtain e d' where step: "save w v d = (e, d')" by (metis prod.exhaust)
  from Cons.IH [of d'] load_after_save [OF step] show ?case by (auto simp: op step)
qed

end

section \<open>A floor that only rises\<close>

text \<open>The numbers accepted for \<open>k\<close> over a sequence of offers, in order.\<close>

fun taken :: "('a \<Rightarrow> 's \<Rightarrow> 'e option \<times> 's) \<Rightarrow> ('a \<Rightarrow> 'k) \<Rightarrow> ('a \<Rightarrow> nat) \<Rightarrow> 'k \<Rightarrow> 's \<Rightarrow> 'a list \<Rightarrow> nat list" where
  "taken offer key number k s [] = []"
| "taken offer key number k s (a # as) =
     (case offer a s of (e, s') \<Rightarrow>
        (if e = None \<and> key a = k then [number a] else []) @ taken offer key number k s' as)"

text \<open>
  \<open>level s k\<close> is the highest number accepted for \<open>k\<close>, zero at first. Offering a number may
  fail; whatever happens, no level falls, and a number is accepted only at or above its level.
\<close>

locale rising_floor =
  fixes level :: "'s \<Rightarrow> 'k \<Rightarrow> nat"
    and offer :: "'a \<Rightarrow> 's \<Rightarrow> 'e option \<times> 's"
    and key :: "'a \<Rightarrow> 'k"
    and number :: "'a \<Rightarrow> nat"
  assumes rises: "offer a s = (e, s') \<Longrightarrow> level s k \<le> level s' k"
    and accepts: "offer a s = (None, s') \<Longrightarrow> level s (key a) \<le> number a \<and> level s' (key a) = number a"
begin

lemma level_rises: "level s k \<le> level (fold (\<lambda>a s. snd (offer a s)) as s) k"
proof (induction as arbitrary: s)
  case Nil
  then show ?case by simp
next
  case (Cons a as)
  obtain e s' where step: "offer a s = (e, s')" by (metis prod.exhaust)
  from Cons.IH [of s'] rises [OF step, of k] show ?case by (simp add: step)
qed

lemma taken_bounds: "sorted (taken offer key number k s as) \<and> (\<forall>n \<in> set (taken offer key number k s as). level s k \<le> n)"
proof (induction as arbitrary: s)
  case Nil
  then show ?case by simp
next
  case (Cons a as)
  obtain e s' where step: "offer a s = (e, s')" by (metis prod.exhaust)
  have rest: "sorted (taken offer key number k s' as)" "\<forall>n \<in> set (taken offer key number k s' as). level s' k \<le> n"
    using Cons.IH [of s'] by auto
  have up: "level s k \<le> level s' k" by (rule rises [OF step])
  show ?case
  proof (cases "e = None \<and> key a = k")
    case True
    with accepts [of a s s'] step have "level s k \<le> number a" "level s' k = number a" by auto
    with rest True up show ?thesis by (auto simp: step intro: le_trans)
  next
    case False
    with rest up show ?thesis by (auto simp: step intro: le_trans)
  qed
qed

lemma never_below: "sorted (taken offer key number k s as)"
  using taken_bounds by blast

end

end
