(* ===== verification/Go_Strings.thy ===== *)
theory Go_Strings
  imports Prelude
begin

text \<open>
  What the source uses of Go's \<open>strings\<close>, \<open>fmt\<close>, \<open>strconv\<close>, \<open>net\<close> and \<open>regexp\<close>: trimming,
  prefixes, decimal numbers, \<open>host:port\<close> splitting and the character classes of the
  patterns. Strings are bytes in UTF-8, so \<open>TrimSpace\<close> works on the byte encodings of the
  Unicode white-space code points. The regular expressions are anchored at both ends and
  their classes are ASCII, so each is a predicate on the whole byte string.
\<close>

section \<open>Character classes\<close>

definition code :: "char \<Rightarrow> nat" where
  "code c = of_char c"

definition is_digit :: "char \<Rightarrow> bool" where
  "is_digit c \<longleftrightarrow> 48 \<le> code c \<and> code c \<le> 57"

definition is_lower :: "char \<Rightarrow> bool" where
  "is_lower c \<longleftrightarrow> 97 \<le> code c \<and> code c \<le> 122"

definition is_upper :: "char \<Rightarrow> bool" where
  "is_upper c \<longleftrightarrow> 65 \<le> code c \<and> code c \<le> 90"

definition is_alnum :: "char \<Rightarrow> bool" where
  "is_alnum c \<longleftrightarrow> is_digit c \<or> is_lower c \<or> is_upper c"

text \<open>The class \<open>[a-f0-9]\<close>.\<close>

definition is_lower_hex :: "char \<Rightarrow> bool" where
  "is_lower_hex c \<longleftrightarrow> is_digit c \<or> 97 \<le> code c \<and> code c \<le> 102"

text \<open>The class \<open>[a-zA-Z0-9_.:-]\<close> of the identifier patterns.\<close>

definition is_id_char :: "char \<Rightarrow> bool" where
  "is_id_char c \<longleftrightarrow> is_alnum c \<or> c = CHR ''_'' \<or> c = CHR ''.'' \<or> c = CHR '':'' \<or> c = CHR ''-''"

text \<open>\<open>^[first][rest]{lo,hi}$\<close>\<close>

fun match_head_rest :: "(char \<Rightarrow> bool) \<Rightarrow> (char \<Rightarrow> bool) \<Rightarrow> nat \<Rightarrow> nat \<Rightarrow> string \<Rightarrow> bool" where
  "match_head_rest first rest lo hi [] = False"
| "match_head_rest first rest lo hi (c # cs) =
     (first c \<and> lo \<le> length cs \<and> length cs \<le> hi \<and> list_all rest cs)"

text \<open>\<open>^[class]{lo,hi}$\<close>\<close>

definition match_all :: "(char \<Rightarrow> bool) \<Rightarrow> nat \<Rightarrow> nat \<Rightarrow> string \<Rightarrow> bool" where
  "match_all class lo hi s \<longleftrightarrow> lo \<le> length s \<and> length s \<le> hi \<and> list_all class s"

section \<open>Prefixes and suffixes\<close>

definition has_prefix :: "string \<Rightarrow> string \<Rightarrow> bool" where
  "has_prefix s p \<longleftrightarrow> take (length p) s = p"

definition has_suffix :: "string \<Rightarrow> string \<Rightarrow> bool" where
  "has_suffix s p \<longleftrightarrow> has_prefix (rev s) (rev p)"

definition trim_prefix :: "string \<Rightarrow> string \<Rightarrow> string" where
  "trim_prefix s p = (if has_prefix s p then drop (length p) s else s)"

lemma has_prefix_append [simp]: "has_prefix (p @ s) p"
  by (simp add: has_prefix_def)

lemma trim_prefix_append [simp]: "trim_prefix (p @ s) p = s"
  by (simp add: trim_prefix_def)

lemma has_prefix_eq: "has_prefix s p \<Longrightarrow> s = p @ trim_prefix s p"
  by (metis append_take_drop_id has_prefix_def trim_prefix_def)

text \<open>\<open>strings.TrimRight(s, "/")\<close>\<close>

definition trim_right_slash :: "string \<Rightarrow> string" where
  "trim_right_slash s = rev (dropWhile (\<lambda>c. c = CHR ''/'') (rev s))"

text \<open>
  \<open>strings.ToLower\<close> as far as a comparison with an ASCII word can see it: ASCII letters and
  the two other letters whose lower case is ASCII, the Kelvin sign U+212A and U+0130.
\<close>

fun to_lower :: "string \<Rightarrow> string" where
  "to_lower [] = []"
| "to_lower (c # cs) =
     (if is_upper c then char_of (code c + 32) # to_lower cs
      else if code c = 0xE2 \<and> map code (take 2 cs) = [0x84, 0xAA] then CHR ''k'' # to_lower (drop 2 cs)
      else if code c = 0xC4 \<and> map code (take 1 cs) = [0xB0] then CHR ''i'' # to_lower (drop 1 cs)
      else c # to_lower cs)"

section \<open>TrimSpace\<close>

text \<open>
  The length in bytes of the white-space rune a string starts with, 0 when it starts with
  none: the ASCII spaces, U+0085, U+00A0, U+1680, U+2000 to U+200A, U+2028, U+2029, U+202F,
  U+205F and U+3000.
\<close>

definition space3 :: "nat \<Rightarrow> nat \<Rightarrow> nat \<Rightarrow> bool" where
  "space3 a b c \<longleftrightarrow>
     a = 0xE1 \<and> b = 0x9A \<and> c = 0x80 \<or>
     a = 0xE2 \<and> b = 0x80 \<and> (0x80 \<le> c \<and> c \<le> 0x8A \<or> c = 0xA8 \<or> c = 0xA9 \<or> c = 0xAF) \<or>
     a = 0xE2 \<and> b = 0x81 \<and> c = 0x9F \<or>
     a = 0xE3 \<and> b = 0x80 \<and> c = 0x80"

definition space2 :: "nat \<Rightarrow> nat \<Rightarrow> bool" where
  "space2 a b \<longleftrightarrow> a = 0xC2 \<and> (b = 0x85 \<or> b = 0xA0)"

definition space1 :: "nat \<Rightarrow> bool" where
  "space1 a \<longleftrightarrow> 9 \<le> a \<and> a \<le> 13 \<or> a = 32"

fun trim_left :: "string \<Rightarrow> string" where
  "trim_left (a # b # c # s) =
     (if space1 (code a) then trim_left (b # c # s)
      else if space2 (code a) (code b) then trim_left (c # s)
      else if space3 (code a) (code b) (code c) then trim_left s
      else a # b # c # s)"
| "trim_left [a, b] =
     (if space1 (code a) then trim_left [b]
      else if space2 (code a) (code b) then [] else [a, b])"
| "trim_left [a] = (if space1 (code a) then [] else [a])"
| "trim_left [] = []"

text \<open>From the right, on the reversed string: the encodings appear backwards.\<close>

fun trim_left_rev :: "string \<Rightarrow> string" where
  "trim_left_rev (c # b # a # s) =
     (if space1 (code c) then trim_left_rev (b # a # s)
      else if space2 (code b) (code c) then trim_left_rev (a # s)
      else if space3 (code a) (code b) (code c) then trim_left_rev s
      else c # b # a # s)"
| "trim_left_rev [b, a] =
     (if space1 (code b) then trim_left_rev [a]
      else if space2 (code a) (code b) then [] else [b, a])"
| "trim_left_rev [a] = (if space1 (code a) then [] else [a])"
| "trim_left_rev [] = []"

definition trim_space :: "string \<Rightarrow> string" where
  "trim_space s = rev (trim_left_rev (rev (trim_left s)))"

text \<open>A printable ASCII character is no part of any white-space rune.\<close>

definition graphic :: "char \<Rightarrow> bool" where
  "graphic c \<longleftrightarrow> 33 \<le> code c \<and> code c \<le> 126"

lemma graphic_not_space:
  assumes "graphic c"
  shows "\<not> space1 (code c)" "\<not> space2 (code c) b" "\<not> space2 b (code c)"
    "\<not> space3 (code c) b d" "\<not> space3 b (code c) d" "\<not> space3 b d (code c)"
  using assms by (auto simp: graphic_def space1_def space2_def space3_def)

lemma trim_left_graphic: "graphic c \<Longrightarrow> trim_left (c # s) = c # s"
  by (cases "c # s" rule: trim_left.cases) (auto simp: graphic_not_space)

lemma trim_left_rev_last:
  "t \<noteq> [] \<Longrightarrow> graphic (last t) \<Longrightarrow> trim_left_rev t \<noteq> [] \<and> last (trim_left_rev t) = last t"
  by (induction t rule: trim_left_rev.induct) (auto simp: graphic_not_space)

lemma trim_space_graphic_head:
  assumes g: "graphic c"
  shows "\<exists>ys. trim_space (c # s) = c # ys"
proof -
  let ?t = "trim_left_rev (rev (c # s))"
  have "?t \<noteq> [] \<and> last ?t = c"
    using trim_left_rev_last [of "rev (c # s)"] g by simp
  then have "rev ?t = c # tl (rev ?t)"
    by (metis hd_Cons_tl hd_rev rev_is_Nil_conv)
  then show ?thesis
    unfolding trim_space_def trim_left_graphic [OF g] by blast
qed

lemma trim_space_graphic_nonempty: "graphic c \<Longrightarrow> trim_space (c # s) \<noteq> []"
  by (metis list.distinct(1) trim_space_graphic_head)

lemma trim_space_Nil [simp]: "trim_space [] = []"
  by (simp add: trim_space_def)

lemma trim_left_rev_graphic: "graphic c \<Longrightarrow> trim_left_rev (c # s) = c # s"
  by (cases "c # s" rule: trim_left_rev.cases) (auto simp: graphic_not_space)

lemma trim_space_all_graphic: "list_all graphic s \<Longrightarrow> trim_space s = s"
proof (cases s)
  case (Cons c t)
  assume g: "list_all graphic s"
  then have left: "trim_left s = s" using Cons by (simp add: trim_left_graphic)
  from Cons obtain d u where r: "rev s = d # u" by (metis list.exhaust rev_is_Nil_conv list.distinct(1))
  then have "d \<in> set s" by (metis list.set_intros(1) set_rev)
  with g have "graphic d" by (simp add: list_all_iff)
  with left r show ?thesis by (metis rev_rev_ident trim_left_rev_graphic trim_space_def)
qed simp

lemma is_alnum_graphic: "is_alnum c \<Longrightarrow> graphic c"
  by (auto simp: is_alnum_def is_digit_def is_lower_def is_upper_def graphic_def)

lemma is_id_char_graphic: "is_id_char c \<Longrightarrow> graphic c"
  by (auto simp: is_id_char_def is_alnum_graphic) (auto simp: graphic_def code_def)

end
