(* ===== verification/Go_Encoding.thy ===== *)
theory Go_Encoding
  imports Go_Strings
begin

text \<open>
  The encodings the source relies on: decimal numbers (\<open>fmt.Sprintf("%d")\<close>), hexadecimal
  (\<open>encoding/hex\<close>), base64 in its padded standard and unpadded URL alphabets
  (\<open>encoding/base64\<close>), big-endian words (\<open>encoding/binary\<close>), and \<open>net.SplitHostPort\<close>. Each
  decoder is the inverse of its encoder; the base64 and hex decoders accept more than the
  encoder produces (line breaks, loose trailing bits, upper-case digits), as Go's do, which
  is why the source re-encodes a decoded key and compares.
\<close>

section \<open>Decimal\<close>

fun show_nat :: "nat \<Rightarrow> string" where
  "show_nat n = (if n < 10 then [char_of (48 + n)] else show_nat (n div 10) @ [char_of (48 + n mod 10)])"

declare show_nat.simps [simp del]

definition show_int :: "int \<Rightarrow> string" where
  "show_int n = (if n < 0 then CHR ''-'' # show_nat (nat (- n)) else show_nat (nat n))"

lemma show_nat_nonempty [simp]: "show_nat n \<noteq> []"
  by (subst show_nat.simps) simp

lemma code_char_of [simp]: "n < 256 \<Longrightarrow> code (char_of n) = n"
  by (simp add: code_def)

lemma show_nat_digits: "\<forall>c \<in> set (show_nat n). is_digit c"
proof (induction n rule: show_nat.induct)
  case (1 n)
  then show ?case
    by (subst show_nat.simps) (auto simp: is_digit_def)
qed

lemma show_int_chars: "\<forall>c \<in> set (show_int n). is_digit c \<or> c = CHR ''-''"
  using show_nat_digits by (auto simp: show_int_def)

fun digits_value :: "nat \<Rightarrow> string \<Rightarrow> nat option" where
  "digits_value acc [] = Some acc"
| "digits_value acc (c # cs) =
     (if is_digit c then digits_value (acc * 10 + (code c - 48)) cs else None)"

definition read_nat :: "string \<Rightarrow> nat option" where
  "read_nat s = (if s = [] then None else digits_value 0 s)"

lemma digits_value_append:
  "digits_value acc (xs @ ys) = Option.bind (digits_value acc xs) (\<lambda>a. digits_value a ys)"
  by (induction xs arbitrary: acc) auto

lemma digits_value_show_nat: "digits_value 0 (show_nat n) = Some n"
proof (induction n rule: show_nat.induct)
  case (1 n)
  show ?case
  proof (cases "n < 10")
    case True
    then show ?thesis by (subst show_nat.simps) (simp add: is_digit_def)
  next
    case False
    with 1 have "digits_value 0 (show_nat (n div 10)) = Some (n div 10)" by simp
    with False show ?thesis
      by (subst show_nat.simps) (simp add: digits_value_append is_digit_def)
  qed
qed

lemma read_nat_show_nat [simp]: "read_nat (show_nat n) = Some n"
  by (simp add: read_nat_def digits_value_show_nat)

lemma show_nat_inj: "show_nat m = show_nat n \<longleftrightarrow> m = n"
  by (metis option.inject read_nat_show_nat)

section \<open>Hexadecimal\<close>

definition hex_digit :: "nat \<Rightarrow> char" where
  "hex_digit n = char_of (if n < 10 then 48 + n else 87 + n)"

definition hex_value :: "char \<Rightarrow> nat option" where
  "hex_value c =
     (if is_digit c then Some (code c - 48)
      else if 97 \<le> code c \<and> code c \<le> 102 then Some (code c - 87)
      else if 65 \<le> code c \<and> code c \<le> 70 then Some (code c - 55)
      else None)"

fun hex_encode :: "byte list \<Rightarrow> string" where
  "hex_encode [] = []"
| "hex_encode (b # bs) = hex_digit (unat b div 16) # hex_digit (unat b mod 16) # hex_encode bs"

fun hex_decode :: "string \<Rightarrow> byte list option" where
  "hex_decode [] = Some []"
| "hex_decode [c] = None"
| "hex_decode (c # d # cs) =
     (case (hex_value c, hex_value d) of
        (Some h, Some l) \<Rightarrow> map_option ((#) (of_nat (16 * h + l))) (hex_decode cs)
      | _ \<Rightarrow> None)"

lemma length_hex_encode [simp]: "length (hex_encode bs) = 2 * length bs"
  by (induction bs) auto

lemma hex_value_digit: "n < 16 \<Longrightarrow> hex_value (hex_digit n) = Some n"
  by (auto simp: hex_value_def hex_digit_def is_digit_def)

lemma byte_lt [simp]: "unat (b :: byte) < 256"
  using unsigned_less [of b] by simp

lemma hex_decode_encode [simp]: "hex_decode (hex_encode bs) = Some bs"
  by (induction bs) (auto simp: hex_value_digit less_mult_imp_div_less)

lemma length_hex_decode: "hex_decode s = Some bs \<Longrightarrow> length s = 2 * length bs"
  by (induction s arbitrary: bs rule: hex_decode.induct) (auto split: option.splits)

lemma hex_digit_lower: "n < 16 \<Longrightarrow> is_lower_hex (hex_digit n)"
  by (auto simp: is_lower_hex_def hex_digit_def is_digit_def)

lemma hex_encode_lower: "list_all is_lower_hex (hex_encode bs)"
  by (induction bs) (auto simp: hex_digit_lower less_mult_imp_div_less)

lemma hex_digit_value: "is_lower_hex c \<Longrightarrow> \<exists>n < 16. hex_value c = Some n \<and> hex_digit n = c"
  by (auto simp: is_lower_hex_def hex_value_def hex_digit_def is_digit_def code_def)

text \<open>On the lower-case alphabet the decoder is also injective.\<close>

lemma hex_encode_decode: "list_all is_lower_hex s \<Longrightarrow> hex_decode s = Some bs \<Longrightarrow> hex_encode bs = s"
proof (induction s arbitrary: bs rule: hex_decode.induct)
  case (3 c d cs)
  from 3(2) obtain h l where h: "h < 16" "hex_value c = Some h" "hex_digit h = c"
    and l: "l < 16" "hex_value d = Some l" "hex_digit l = d"
    using hex_digit_value [of c] hex_digit_value [of d] by auto
  with 3(3) obtain bs' where "hex_decode cs = Some bs'" and bs: "bs = of_nat (16 * h + l) # bs'"
    by auto
  then have "hex_encode bs' = cs" using 3(1) 3(2) h l by auto
  moreover have "unat (of_nat (16 * h + l) :: byte) = 16 * h + l"
    using h(1) l(1) by (simp add: unat_of_nat del: of_nat_add of_nat_mult)
  ultimately show ?case using bs h l by simp
qed auto

section \<open>Base64\<close>

definition b64_std :: "nat \<Rightarrow> char" where
  "b64_std n = char_of (if n < 26 then 65 + n else if n < 52 then 71 + n
     else if n < 62 then n - 4 else if n = 62 then 43 else 47)"

definition b64_url :: "nat \<Rightarrow> char" where
  "b64_url n = char_of (if n < 26 then 65 + n else if n < 52 then 71 + n
     else if n < 62 then n - 4 else if n = 62 then 45 else 95)"

text \<open>The value of a character, given the codes of the last two of the alphabet.\<close>

definition b64_value :: "nat \<Rightarrow> nat \<Rightarrow> char \<Rightarrow> nat option" where
  "b64_value c62 c63 c =
     (if is_upper c then Some (code c - 65)
      else if is_lower c then Some (code c - 71)
      else if is_digit c then Some (code c + 4)
      else if code c = c62 then Some 62
      else if code c = c63 then Some 63
      else None)"

fun b64_encode :: "(nat \<Rightarrow> char) \<Rightarrow> bool \<Rightarrow> byte list \<Rightarrow> string" where
  "b64_encode ch pad [] = []"
| "b64_encode ch pad [a] =
     ch (unat a div 4) # ch (unat a mod 4 * 16) # (if pad then ''=='' else [])"
| "b64_encode ch pad [a, b] =
     ch (unat a div 4) # ch (unat a mod 4 * 16 + unat b div 16) # ch (unat b mod 16 * 4)
       # (if pad then ''='' else [])"
| "b64_encode ch pad (a # b # c # bs) =
     ch (unat a div 4) # ch (unat a mod 4 * 16 + unat b div 16)
       # ch (unat b mod 16 * 4 + unat c div 64) # ch (unat c mod 64) # b64_encode ch pad bs"

text \<open>
  \<open>DecodeString\<close> skips carriage returns and line feeds, wants complete quanta when padded,
  and ignores the unused low bits of the last one.
\<close>

definition byte1 :: "nat \<Rightarrow> nat \<Rightarrow> byte" where "byte1 i j = of_nat (i * 4 + j div 16)"
definition byte2 :: "nat \<Rightarrow> nat \<Rightarrow> byte" where "byte2 j k = of_nat (j mod 16 * 16 + k div 4)"
definition byte3 :: "nat \<Rightarrow> nat \<Rightarrow> byte" where "byte3 k l = of_nat (k mod 4 * 64 + l)"

fun b64_quanta :: "(char \<Rightarrow> nat option) \<Rightarrow> bool \<Rightarrow> string \<Rightarrow> byte list option" where
  "b64_quanta val pad [] = Some []"
| "b64_quanta val pad [p] = None"
| "b64_quanta val pad [p, q] =
     (if pad then None
      else case (val p, val q) of (Some i, Some j) \<Rightarrow> Some [byte1 i j] | _ \<Rightarrow> None)"
| "b64_quanta val pad [p, q, r] =
     (if pad then None
      else case (val p, val q, val r) of
          (Some i, Some j, Some k) \<Rightarrow> Some [byte1 i j, byte2 j k] | _ \<Rightarrow> None)"
| "b64_quanta val pad (p # q # r # s # cs) =
     (case (val p, val q) of
        (Some i, Some j) \<Rightarrow>
          (if pad \<and> r = CHR ''='' then
             (if s = CHR ''='' \<and> cs = [] then Some [byte1 i j] else None)
           else case val r of
               None \<Rightarrow> None
             | Some k \<Rightarrow>
                 (if pad \<and> s = CHR ''='' then (if cs = [] then Some [byte1 i j, byte2 j k] else None)
                  else case val s of
                      None \<Rightarrow> None
                    | Some l \<Rightarrow> map_option (\<lambda>bs. byte1 i j # byte2 j k # byte3 k l # bs)
                                 (b64_quanta val pad cs)))
      | _ \<Rightarrow> None)"

definition strip_newlines :: "string \<Rightarrow> string" where
  "strip_newlines s = filter (\<lambda>c. code c \<noteq> 10 \<and> code c \<noteq> 13) s"

text \<open>\<open>base64.StdEncoding\<close> and \<open>base64.RawURLEncoding\<close>\<close>

definition std_encode :: "byte list \<Rightarrow> string" where
  "std_encode bs = b64_encode b64_std True bs"

definition std_decode :: "string \<Rightarrow> byte list option" where
  "std_decode s = b64_quanta (b64_value 43 47) True (strip_newlines s)"

definition rawurl_encode :: "byte list \<Rightarrow> string" where
  "rawurl_encode bs = b64_encode b64_url False bs"

definition rawurl_decode :: "string \<Rightarrow> byte list option" where
  "rawurl_decode s = b64_quanta (b64_value 45 95) False (strip_newlines s)"

subsection \<open>Decoding what was encoded\<close>

lemma b64_value_std: "n < 64 \<Longrightarrow> b64_value 43 47 (b64_std n) = Some n"
  by (auto simp: b64_value_def b64_std_def is_upper_def is_lower_def is_digit_def)

lemma b64_value_url: "n < 64 \<Longrightarrow> b64_value 45 95 (b64_url n) = Some n"
  by (auto simp: b64_value_def b64_url_def is_upper_def is_lower_def is_digit_def)

lemma b64_std_char: "n < 64 \<Longrightarrow> graphic (b64_std n) \<and> b64_std n \<noteq> CHR ''=''"
  by (auto simp: b64_std_def graphic_def dest!: arg_cong [where f = code]) (auto simp: code_def)

lemma b64_url_char: "n < 64 \<Longrightarrow> graphic (b64_url n) \<and> b64_url n \<noteq> CHR ''=''"
  by (auto simp: b64_url_def graphic_def dest!: arg_cong [where f = code]) (auto simp: code_def)

lemma sextets:
  "unat (a :: byte) div 4 < 64" "unat a mod 4 * 16 < 64" "unat a mod 16 * 4 < 64"
  "unat a mod 64 < 64" "unat a mod 4 * 16 + unat (b :: byte) div 16 < 64"
  "unat a mod 16 * 4 + unat b div 64 < 64"
  using byte_lt [of a] byte_lt [of b] by linarith+

lemma split_byte:
  "x div (d :: nat) * d + (x mod d * e + y div f) div e = x" if "y div f < e"
  using that by (simp add: div_mult_mod_eq)

lemma byte_pieces:
  "byte1 (unat a div 4) (unat a mod 4 * 16 + unat b div 16) = a"
  "byte1 (unat a div 4) (unat a mod 4 * 16) = a"
  "byte2 (unat a mod 4 * 16 + unat b div 16) (unat b mod 16 * 4 + unat c div 64) = b"
  "byte2 (unat a mod 4 * 16 + unat b div 16) (unat b mod 16 * 4) = b"
  "byte3 (unat b mod 16 * 4 + unat c div 64) (unat c mod 64) = c"
proof -
  have lt: "unat b div 16 < 16" "unat c div 64 < 4"
    using byte_lt [of b] byte_lt [of c] by (simp_all add: less_mult_imp_div_less)
  have e1: "unat a div 4 * 4 + (unat a mod 4 * 16 + unat b div 16) div 16 = unat a"
    by (rule split_byte [OF lt(1)])
  show "byte1 (unat a div 4) (unat a mod 4 * 16 + unat b div 16) = a"
    unfolding byte1_def e1 by simp
  have e2: "unat a div 4 * 4 + (unat a mod 4 * 16) div 16 = unat a"
    by (simp add: div_mult_mod_eq)
  show "byte1 (unat a div 4) (unat a mod 4 * 16) = a"
    unfolding byte1_def e2 by simp
  have m: "(unat a mod 4 * 16 + unat b div 16) mod 16 = unat b div 16"
    using lt(1) by simp
  have e3: "unat b div 16 * 16 + (unat b mod 16 * 4 + unat c div 64) div 4 = unat b"
    by (rule split_byte [OF lt(2)])
  show "byte2 (unat a mod 4 * 16 + unat b div 16) (unat b mod 16 * 4 + unat c div 64) = b"
    unfolding byte2_def m e3 by simp
  have e4: "unat b div 16 * 16 + (unat b mod 16 * 4) div 4 = unat b"
    by (simp add: div_mult_mod_eq)
  show "byte2 (unat a mod 4 * 16 + unat b div 16) (unat b mod 16 * 4) = b"
    unfolding byte2_def m e4 by simp
  have n: "(unat b mod 16 * 4 + unat c div 64) mod 4 = unat c div 64"
    using lt(2) by simp
  show "byte3 (unat b mod 16 * 4 + unat c div 64) (unat c mod 64) = c"
    unfolding byte3_def n div_mult_mod_eq by simp
qed

lemma b64_quanta_encode:
  assumes inv: "\<And>n. n < 64 \<Longrightarrow> val (ch n) = Some n"
    and noeq: "\<And>n. n < 64 \<Longrightarrow> ch n \<noteq> CHR ''=''"
  shows "b64_quanta val pad (b64_encode ch pad bs) = Some bs"
  using assms
  by (induction ch pad bs rule: b64_encode.induct) (simp_all add: sextets byte_pieces)

lemma b64_encode_chars:
  assumes "\<And>n. n < 64 \<Longrightarrow> graphic (ch n)"
  shows "list_all graphic (b64_encode ch pad bs)"
  using assms
  by (induction ch pad bs rule: b64_encode.induct) (auto simp: sextets graphic_def code_def)

lemma b64_encode_unpadded_chars:
  assumes "\<And>n. n < 64 \<Longrightarrow> ok (ch n)"
  shows "list_all ok (b64_encode ch False bs)"
  using assms
  by (induction ch "False" bs rule: b64_encode.induct) (auto simp: sextets)

lemma b64_url_class: "n < 64 \<Longrightarrow> is_alnum (b64_url n) \<or> b64_url n = CHR ''_'' \<or> b64_url n = CHR ''-''"
  by (auto simp: b64_url_def is_alnum_def is_upper_def is_lower_def is_digit_def code_def char_of_eq_iff)

lemma strip_newlines_graphic: "list_all graphic s \<Longrightarrow> strip_newlines s = s"
  by (auto simp: strip_newlines_def list_all_iff graphic_def filter_id_conv)

lemma std_encode_graphic: "list_all graphic (std_encode bs)"
  unfolding std_encode_def by (rule b64_encode_chars) (simp add: b64_std_char)

lemma rawurl_encode_graphic: "list_all graphic (rawurl_encode bs)"
  unfolding rawurl_encode_def by (rule b64_encode_chars) (simp add: b64_url_char)

lemma std_decode_encode [simp]: "std_decode (std_encode bs) = Some bs"
  unfolding std_decode_def strip_newlines_graphic [OF std_encode_graphic]
  unfolding std_encode_def by (rule b64_quanta_encode) (auto simp: b64_value_std b64_std_char)

lemma rawurl_decode_encode [simp]: "rawurl_decode (rawurl_encode bs) = Some bs"
  unfolding rawurl_decode_def strip_newlines_graphic [OF rawurl_encode_graphic]
  unfolding rawurl_encode_def by (rule b64_quanta_encode) (auto simp: b64_value_url b64_url_char)

text \<open>Thirty-two bytes take forty-three characters unpadded.\<close>

lemma length_b64_encode_unpadded:
  "length (b64_encode ch False bs) = (length bs * 4 + 2) div 3"
  by (induction ch "False" bs rule: b64_encode.induct) auto

section \<open>Big-endian words\<close>

definition be64 :: "u64 \<Rightarrow> byte list" where
  "be64 w = map (\<lambda>k. ucast (drop_bit (8 * k) w)) [7, 6, 5, 4, 3, 2, 1, 0]"

definition of_be :: "byte list \<Rightarrow> nat" where
  "of_be bs = foldl (\<lambda>acc b. acc * 256 + unat b) 0 bs"

definition be32 :: "nat \<Rightarrow> byte list" where
  "be32 n = map (\<lambda>k. of_nat (n div 256 ^ k)) [3, 2, 1, 0]"

lemma length_be64 [simp]: "length (be64 w) = 8"
  by (simp add: be64_def)

lemma length_be32 [simp]: "length (be32 n) = 4"
  by (simp add: be32_def)

lemma unat_be64_piece: "unat (ucast (drop_bit k (w :: u64)) :: byte) = unat w div 2 ^ k mod 256"
proof -
  have "unat (drop_bit k w) = unat w div 2 ^ k"
    unfolding unat_drop_bit_eq by (rule drop_bit_eq_div)
  then show ?thesis by (simp add: unsigned_ucast_eq take_bit_eq_mod)
qed

lemma base256_digit: "(n :: nat) div (m * 256) * 256 + n div m mod 256 = n div m"
  by (simp add: div_mult2_eq div_mult_mod_eq)

lemma of_be_be64 [simp]: "of_be (be64 w) = unat w"
proof -
  have "unat w < 2 ^ 64" using unsigned_less [of w] by simp
  then have top: "unat w div 2 ^ 56 mod 256 = unat w div 2 ^ 56"
    by (simp add: less_mult_imp_div_less)
  note digit = base256_digit [of "unat w"]
  show ?thesis
    using digit [of "2 ^ 48"] digit [of "2 ^ 40"] digit [of "2 ^ 32"] digit [of "2 ^ 24"]
      digit [of "2 ^ 16"] digit [of "2 ^ 8"] digit [of 1] top unat_be64_piece [of 0 w]
    by (simp add: of_be_def be64_def unat_be64_piece)
qed

lemma of_be_be32 [simp]: "n < 2 ^ 32 \<Longrightarrow> of_be (be32 n) = n"
proof -
  assume "n < 2 ^ 32"
  then have top: "n div 2 ^ 24 mod 256 = n div 2 ^ 24"
    by (simp add: less_mult_imp_div_less)
  show ?thesis
    using base256_digit [of n "2 ^ 16"] base256_digit [of n "2 ^ 8"] base256_digit [of n 1] top
    by (simp add: of_be_def be32_def unat_of_nat)
qed

section \<open>host:port\<close>

text \<open>\<open>strings.LastIndexByte(s, c)\<close>: what stands before and after the last \<open>c\<close>.\<close>

definition split_last :: "char \<Rightarrow> string \<Rightarrow> (string \<times> string) option" where
  "split_last c s =
     (if c \<in> set s
      then Some (rev (tl (dropWhile (\<lambda>x. x \<noteq> c) (rev s))), rev (takeWhile (\<lambda>x. x \<noteq> c) (rev s)))
      else None)"

text \<open>
  \<open>net.SplitHostPort\<close>: the port follows the last colon; a bracketed host must close right
  before it; otherwise the host holds no colon; no stray brackets.
\<close>

definition split_host_port :: "string \<Rightarrow> (string \<times> string) option" where
  "split_host_port s =
     (case split_last CHR '':'' s of
        None \<Rightarrow> None
      | Some (h, p) \<Rightarrow>
          if has_prefix s ''['' then
            (let inner = takeWhile (\<lambda>x. x \<noteq> CHR '']'') (tl h) in
             if h = CHR ''['' # inner @ '']'' \<and> CHR ''['' \<notin> set inner \<and> CHR '']'' \<notin> set p \<and> CHR ''['' \<notin> set p
             then Some (inner, p) else None)
          else if CHR '':'' \<in> set h \<or> CHR ''['' \<in> set s \<or> CHR '']'' \<in> set s then None
          else Some (h, p))"

lemma split_last_unique:
  assumes "c \<notin> set p"
  shows "split_last c (h @ c # p) = Some (h, p)"
proof -
  have "\<And>x. x \<in> set (rev p) \<Longrightarrow> x \<noteq> c" using assms by auto
  then have "dropWhile (\<lambda>x. x \<noteq> c) (rev p @ c # rev h) = c # rev h"
    and "takeWhile (\<lambda>x. x \<noteq> c) (rev p @ c # rev h) = rev p"
    by (subst dropWhile_append2 takeWhile_append2; simp)+
  then show ?thesis by (simp add: split_last_def)
qed

end
