(* ===== verification/Go_Net.thy ===== *)
theory Go_Net
  imports Go_Encoding
begin

text \<open>
  What the source uses of \<open>net/netip\<close>: addresses, \<open>ParseAddr\<close>, \<open>ParsePrefix\<close>,
  \<open>ParseAddrPort\<close>, \<open>Prefix.Contains\<close>, \<open>Addr.IsPrivate\<close> and the canonical text forms. An
  address keeps its bytes as numbers below 256; an IPv6 address also keeps its zone.
\<close>

section \<open>Addresses\<close>

datatype addr = V4 "nat list" | V6 "nat list" (zone: string)

record addr_port =
  ap_addr :: addr
  ap_port :: nat

record prefix =
  pfx_addr :: addr
  pfx_bits :: nat

fun is4 :: "addr \<Rightarrow> bool" where
  "is4 (V4 _) = True"
| "is4 (V6 _ _) = False"

fun bit_len :: "addr \<Rightarrow> nat" where
  "bit_len (V4 _) = 32"
| "bit_len (V6 _ _) = 128"

fun octets :: "addr \<Rightarrow> nat list" where
  "octets (V4 bs) = bs"
| "octets (V6 bs _) = bs"

section \<open>Parsing\<close>

fun split_on :: "char \<Rightarrow> string \<Rightarrow> string list" where
  "split_on c [] = [[]]"
| "split_on c (x # xs) =
     (if x = c then [] # split_on c xs
      else case split_on c xs of [] \<Rightarrow> [[x]] | f # fs \<Rightarrow> (x # f) # fs)"

definition parse_octet :: "string \<Rightarrow> nat option" where
  "parse_octet s =
     (case read_nat s of
        None \<Rightarrow> None
      | Some n \<Rightarrow> if (length s > 1 \<and> hd s = CHR ''0'') \<or> n > 255 then None else Some n)"

definition parse_v4_fields :: "string \<Rightarrow> nat list option" where
  "parse_v4_fields s =
     (case map parse_octet (split_on CHR ''.'' s) of
        [Some a, Some b, Some c, Some d] \<Rightarrow> Some [a, b, c, d]
      | _ \<Rightarrow> None)"

definition is_hex :: "char \<Rightarrow> bool" where
  "is_hex c \<longleftrightarrow> hex_value c \<noteq> None"

definition hex_number :: "string \<Rightarrow> nat" where
  "hex_number s = foldl (\<lambda>acc c. acc * 16 + the (hex_value c)) 0 s"

text \<open>
  The loop of \<open>parseIPv6\<close>: at most eight groups, \<open>acc\<close> the bytes so far, \<open>ell\<close> where the
  ellipsis stood. The result is what is left of the text, the bytes and the ellipsis.
\<close>

fun v6_loop :: "nat \<Rightarrow> string \<Rightarrow> nat list \<Rightarrow> nat option \<Rightarrow> (string \<times> nat list \<times> nat option) option" where
  "v6_loop 0 s acc ell = Some (s, acc, ell)"
| "v6_loop (Suc k) s acc ell =
     (let grp = takeWhile is_hex s; off = length grp; rest = drop off s in
      if off = 0 \<or> off > 4 then None
      else if rest \<noteq> [] \<and> hd rest = CHR ''.'' then
        (if ell = None \<and> length acc \<noteq> 12 \<or> length acc + 4 > 16 then None
         else case parse_v4_fields s of None \<Rightarrow> None | Some q \<Rightarrow> Some ([], acc @ q, ell))
      else
        (let acc' = acc @ [hex_number grp div 256, hex_number grp mod 256] in
         if rest = [] then Some ([], acc', ell)
         else if hd rest \<noteq> CHR '':'' \<or> length rest = 1 then None
         else if hd (tl rest) = CHR '':'' then
           (if ell \<noteq> None then None
            else if tl (tl rest) = [] then Some ([], acc', Some (length acc'))
            else v6_loop k (tl (tl rest)) acc' (Some (length acc')))
         else v6_loop k (tl rest) acc' ell))"

definition v6_finish :: "string \<times> nat list \<times> nat option \<Rightarrow> nat list option" where
  "v6_finish r =
     (case r of (s, acc, ell) \<Rightarrow>
        if s \<noteq> [] then None
        else if length acc < 16 then
          (case ell of
             None \<Rightarrow> None
           | Some e \<Rightarrow> Some (take e acc @ replicate (16 - length acc) 0 @ drop e acc))
        else if ell \<noteq> None then None else Some acc)"

definition parse_v6 :: "string \<Rightarrow> addr option" where
  "parse_v6 inp =
     (let s = takeWhile (\<lambda>c. c \<noteq> CHR ''%'') inp; z = drop (length s + 1) inp in
      if CHR ''%'' \<in> set inp \<and> z = [] then None
      else if has_prefix s ''::'' then
        (if length s = 2 then Some (V6 (replicate 16 0) z)
         else case Option.bind (v6_loop 8 (drop 2 s) [] (Some 0)) v6_finish of
             None \<Rightarrow> None | Some bs \<Rightarrow> Some (V6 bs z))
      else case Option.bind (v6_loop 8 s [] None) v6_finish of
          None \<Rightarrow> None | Some bs \<Rightarrow> Some (V6 bs z))"

text \<open>\<open>netip.ParseAddr\<close> looks for the first of \<open>.\<close>, \<open>:\<close> and \<open>%\<close>.\<close>

definition parse_addr :: "string \<Rightarrow> addr option" where
  "parse_addr s =
     (case dropWhile (\<lambda>c. c \<noteq> CHR ''.'' \<and> c \<noteq> CHR '':'' \<and> c \<noteq> CHR ''%'') s of
        [] \<Rightarrow> None
      | c # _ \<Rightarrow>
          if c = CHR ''.'' then map_option V4 (parse_v4_fields s)
          else if c = CHR '':'' then parse_v6 s
          else None)"

definition parse_prefix :: "string \<Rightarrow> prefix option" where
  "parse_prefix s =
     (case split_last CHR ''/'' s of
        None \<Rightarrow> None
      | Some (a, b) \<Rightarrow>
          (case parse_addr a of
             None \<Rightarrow> None
           | Some ip \<Rightarrow>
               if \<not> is4 ip \<and> zone ip \<noteq> [] then None
               else if length b > 1 \<and> (code (hd b) < 49 \<or> 57 < code (hd b)) then None
               else case read_nat b of
                   None \<Rightarrow> None
                 | Some n \<Rightarrow> if n > bit_len ip then None
                            else Some \<lparr>pfx_addr = ip, pfx_bits = n\<rparr>))"

definition parse_addr_port :: "string \<Rightarrow> addr_port option" where
  "parse_addr_port s =
     (case split_last CHR '':'' s of
        None \<Rightarrow> None
      | Some (h, p) \<Rightarrow>
          if h = [] then None
          else
            (let br = hd h = CHR ''[''; ip = (if br then butlast (tl h) else h) in
             if br \<and> (length h < 2 \<or> last h \<noteq> CHR '']'') then None
             else case (read_nat p, parse_addr ip) of
                 (Some n, Some a) \<Rightarrow>
                   if n > 65535 \<or> br = is4 a then None else Some \<lparr>ap_addr = a, ap_port = n\<rparr>
               | _ \<Rightarrow> None))"

text \<open>\<open>net.ParseIP(s) != nil\<close>: an address without a zone.\<close>

definition parse_ip_ok :: "string \<Rightarrow> bool" where
  "parse_ip_ok s \<longleftrightarrow> (case parse_addr s of None \<Rightarrow> False | Some a \<Rightarrow> is4 a \<or> zone a = [])"

section \<open>Text forms\<close>

definition show_v4 :: "nat list \<Rightarrow> string" where
  "show_v4 bs = concat (case map show_nat bs of [] \<Rightarrow> [] | f # fs \<Rightarrow> f # map ((#) CHR ''.'') fs)"

fun show_hex :: "nat \<Rightarrow> string" where
  "show_hex n = (if n < 16 then [hex_digit n] else show_hex (n div 16) @ [hex_digit (n mod 16)])"

declare show_hex.simps [simp del]

fun groups16 :: "nat list \<Rightarrow> nat list" where
  "groups16 (a # b # bs) = (256 * a + b) # groups16 bs"
| "groups16 _ = []"

text \<open>The first longest run of at least two zero groups, as its start and end.\<close>

definition zero_run :: "nat list \<Rightarrow> (nat \<times> nat) option" where
  "zero_run gs =
     foldl (\<lambda>best i.
         let l = length (takeWhile (\<lambda>g. g = 0) (drop i gs)) in
         if 2 \<le> l \<and> (case best of None \<Rightarrow> True | Some (s, e) \<Rightarrow> e - s < l) then Some (i, i + l) else best)
       None [0..<length gs]"

definition join_groups :: "nat list \<Rightarrow> string" where
  "join_groups gs = concat (case map show_hex gs of [] \<Rightarrow> [] | f # fs \<Rightarrow> f # map ((#) CHR '':'') fs)"

definition show_v6 :: "nat list \<Rightarrow> string" where
  "show_v6 bs =
     (if take 12 bs = replicate 10 0 @ [255, 255] then ''::ffff:'' @ show_v4 (drop 12 bs)
      else let gs = groups16 bs in
        case zero_run gs of
          None \<Rightarrow> join_groups gs
        | Some (s, e) \<Rightarrow> join_groups (take s gs) @ ''::'' @ join_groups (drop e gs))"

fun show_addr :: "addr \<Rightarrow> string" where
  "show_addr (V4 bs) = show_v4 bs"
| "show_addr (V6 bs z) = show_v6 bs @ (if z = [] then [] else CHR ''%'' # z)"

definition show_prefix :: "prefix \<Rightarrow> string" where
  "show_prefix p = show_addr (pfx_addr p) @ CHR ''/'' # show_nat (pfx_bits p)"

definition show_addr_port :: "addr_port \<Rightarrow> string" where
  "show_addr_port a =
     (if is4 (ap_addr a) then show_addr (ap_addr a)
      else CHR ''['' # show_addr (ap_addr a) @ '']'') @ CHR '':'' # show_nat (ap_port a)"

section \<open>Containment and classification\<close>

definition bits_value :: "nat list \<Rightarrow> nat" where
  "bits_value bs = foldl (\<lambda>acc b. acc * 256 + b) 0 bs"

definition contains :: "prefix \<Rightarrow> addr \<Rightarrow> bool" where
  "contains p a \<longleftrightarrow>
     is4 (pfx_addr p) = is4 a \<and> (is4 a \<or> zone a = []) \<and>
     (let shift = 2 ^ (bit_len a - pfx_bits p) in
      bits_value (octets (pfx_addr p)) div shift = bits_value (octets a) div shift)"

fun is_private :: "addr \<Rightarrow> bool" where
  "is_private (V4 [a, b, c, d]) \<longleftrightarrow> a = 10 \<or> a = 172 \<and> 16 \<le> b \<and> b \<le> 31 \<or> a = 192 \<and> b = 168"
| "is_private (V4 _) \<longleftrightarrow> False"
| "is_private (V6 bs _) \<longleftrightarrow> (case bs of [] \<Rightarrow> False | a # _ \<Rightarrow> a div 2 = 126)"

definition localhost :: addr where
  "localhost = V4 [127, 0, 0, 1]"

lemma parse_prefix_bits: "parse_prefix s = Some p \<Longrightarrow> pfx_bits p \<le> bit_len (pfx_addr p)"
  by (auto simp: parse_prefix_def split: option.splits if_splits prod.splits)

lemmas eval_net =
  parse_prefix_def split_last_def parse_addr_def parse_v4_fields_def parse_octet_def read_nat_def
  is_digit_def code_def bits_value_def contains_def

text \<open>Texts of each kind, evaluated.\<close>

lemma parse_prefix_host:
  "parse_prefix ''10.77.0.2/32'' = Some \<lparr>pfx_addr = V4 [10, 77, 0, 2], pfx_bits = 32\<rparr>"
  by (simp add: eval_net)

lemma parse_prefix_loopback32 [simp]:
  "parse_prefix ''127.0.0.1/32'' = Some \<lparr>pfx_addr = localhost, pfx_bits = 32\<rparr>"
  by (simp add: eval_net localhost_def)

lemma parse_ip_loopback [simp]: "parse_ip_ok ''127.0.0.1''"
  by (simp add: eval_net parse_ip_ok_def)

end
