(* ===== verification/Go_Time.thy ===== *)
theory Go_Time
  imports Prelude
begin

text \<open>
  \<open>time.Time\<close> as the source uses it: an instant in nanoseconds since the Unix epoch and
  whether its location is UTC. Comparisons look at the instant only. \<open>Sub\<close> saturates at the
  ends of \<open>int64\<close>. Durations are \<open>int\<close> nanoseconds.
\<close>

record gotime =
  nanos :: int
  utc :: bool

definition second :: int where "second = 1000000000"
definition minute :: int where "minute = 60 * second"
definition hour :: int where "hour = 60 * minute"
definition day :: int where "day = 24 * hour"

lemmas durations = day_def hour_def minute_def second_def

text \<open>The zero \<open>time.Time{}\<close>: the first of January of year 1, UTC.\<close>

definition zero_time :: gotime where
  "zero_time = \<lparr>nanos = - 62135596800 * second, utc = True\<rparr>"

definition is_zero :: "gotime \<Rightarrow> bool" where
  "is_zero t \<longleftrightarrow> nanos t = nanos zero_time"

definition after :: "gotime \<Rightarrow> gotime \<Rightarrow> bool" where
  "after t u \<longleftrightarrow> nanos u < nanos t"

definition before :: "gotime \<Rightarrow> gotime \<Rightarrow> bool" where
  "before t u \<longleftrightarrow> nanos t < nanos u"

definition same_instant :: "gotime \<Rightarrow> gotime \<Rightarrow> bool" where
  "same_instant t u \<longleftrightarrow> nanos t = nanos u"

definition to_utc :: "gotime \<Rightarrow> gotime" where
  "to_utc t = t\<lparr>utc := True\<rparr>"

definition add_dur :: "gotime \<Rightarrow> int \<Rightarrow> gotime" where
  "add_dur t d = t\<lparr>nanos := nanos t + d\<rparr>"

definition saturate :: "int \<Rightarrow> int" where
  "saturate d = max (- (2 ^ 63)) (min (2 ^ 63 - 1) d)"

definition sub_time :: "gotime \<Rightarrow> gotime \<Rightarrow> int" where
  "sub_time t u = saturate (nanos t - nanos u)"

definition nanosecond :: "gotime \<Rightarrow> int" where
  "nanosecond t = nanos t mod second"

text \<open>\<open>Truncate(time.Second)\<close>: seconds of the zero time and of the epoch are aligned.\<close>

definition trunc_second :: "gotime \<Rightarrow> gotime" where
  "trunc_second t = t\<lparr>nanos := nanos t - nanos t mod second\<rparr>"

lemma saturate_le_iff: "d < 2 ^ 63 - 1 \<Longrightarrow> saturate x \<le> d \<longleftrightarrow> x \<le> d" if "- (2 ^ 63) \<le> d"
  using that by (auto simp: saturate_def)

lemma to_utc_simps [simp]: "nanos (to_utc t) = nanos t" "utc (to_utc t)"
  by (simp_all add: to_utc_def)

lemma after_irrefl [simp]: "\<not> after t t"
  by (simp add: after_def)

lemma after_trans: "after t u \<Longrightarrow> after u v \<Longrightarrow> after t v"
  by (simp add: after_def)

lemma trunc_second_simps [simp]:
  "nanosecond (trunc_second t) = 0" "utc (trunc_second t) = utc t"
  by (simp_all add: trunc_second_def nanosecond_def second_def)

text \<open>The canonical times of the wire formats: not zero, UTC, whole seconds.\<close>

definition canonical_time :: "gotime \<Rightarrow> bool" where
  "canonical_time t \<longleftrightarrow> \<not> is_zero t \<and> utc t \<and> nanosecond t = 0"

end
