(* ===== verification/Fault.thy ===== *)
theory Fault
  imports Go_Encoding
begin

text \<open>
  \<open>overlay/fault/fault.go\<close>: the stable error codes and the coded error, which keeps the
  operation that failed and an optional cause. Errors that are not coded are the sentinels
  the source compares with \<open>errors.Is\<close> and plain \<open>errors.New\<close> texts.
\<close>

datatype fault_code =
    CodeInvalidInput
  | CodeStateIO
  | CodeStateConflict
  | CodeAuthenticationFailed
  | CodeAccessDenied
  | CodeControlPlaneRejected
  | CodeControlPlaneUnavailable
  | CodeInvalidResponse
  | CodeInvalidConfig
  | CodeInvalidSignedConfig
  | CodeInvalidSigningKeys
  | CodeInvalidSignature
  | CodeSigningKeyUnknown
  | CodeSigningKeyWindow
  | CodeSignedConfigExpired
  | CodeSignedConfigFuture
  | CodeSignedConfigUnavailable
  | CodeConfigReplay
  | CodeConfigDowngradeBlocked
  | CodeJoinInviteInvalid
  | CodeJoinConstraint
  | CodeJoinRateLimited
  | CodeEnrollmentExpired
  | CodeEnrollmentUnavailable
  | CodeUnsupportedRuntimeCore
  | CodeRuntimeUnavailable
  | CodeRuntimeDependency
  | CodeRuntimePermission
  | CodeRuntimeApplyFailed
  | CodeRuntimeProcessStale
  | CodeRuntimeRollbackFailed
  | CodeRuntimeStatusFailed
  | CodeNotJoined
  | CodeOperationInProgress
  | CodeDeviceLifecyclePending
  | CodePolicyInvalid
  | CodePolicyExpired
  | CodePolicyReplay
  | CodeCredentialInvalid
  | CodeCredentialMissing
  | CodeCredentialExpired
  | CodeCredentialStorage
  | CodeCredentialRotationPending
  | CodeDeviceSessionInvalid
  | CodeRegistrationPending
  | CodeRegistrationTokenInvalid
  | CodeRegistrationRejected
  | CodeRegistrationConsumed
  | CodeRegistrationExpired
  | CodeRegistrationRateLimited

fun code_text :: "fault_code \<Rightarrow> string" where
  "code_text CodeInvalidInput = ''invalid_input''"
| "code_text CodeStateIO = ''state_io''"
| "code_text CodeStateConflict = ''state_conflict''"
| "code_text CodeAuthenticationFailed = ''authentication_failed''"
| "code_text CodeAccessDenied = ''access_denied''"
| "code_text CodeControlPlaneRejected = ''controlplane_rejected''"
| "code_text CodeControlPlaneUnavailable = ''controlplane_unavailable''"
| "code_text CodeInvalidResponse = ''invalid_response''"
| "code_text CodeInvalidConfig = ''invalid_config''"
| "code_text CodeInvalidSignedConfig = ''invalid_signed_config''"
| "code_text CodeInvalidSigningKeys = ''invalid_signing_keys''"
| "code_text CodeInvalidSignature = ''invalid_signature''"
| "code_text CodeSigningKeyUnknown = ''signing_key_unknown''"
| "code_text CodeSigningKeyWindow = ''signing_key_window''"
| "code_text CodeSignedConfigExpired = ''signed_config_expired''"
| "code_text CodeSignedConfigFuture = ''signed_config_future''"
| "code_text CodeSignedConfigUnavailable = ''signed_config_unavailable''"
| "code_text CodeConfigReplay = ''config_replay_detected''"
| "code_text CodeConfigDowngradeBlocked = ''config_downgrade_blocked''"
| "code_text CodeJoinInviteInvalid = ''join_invite_invalid''"
| "code_text CodeJoinConstraint = ''join_constraint_mismatch''"
| "code_text CodeJoinRateLimited = ''join_rate_limited''"
| "code_text CodeEnrollmentExpired = ''enrollment_expired''"
| "code_text CodeEnrollmentUnavailable = ''enrollment_session_unavailable''"
| "code_text CodeUnsupportedRuntimeCore = ''unsupported_runtime_core''"
| "code_text CodeRuntimeUnavailable = ''runtime_unavailable''"
| "code_text CodeRuntimeDependency = ''runtime_dependency_missing''"
| "code_text CodeRuntimePermission = ''runtime_permission_denied''"
| "code_text CodeRuntimeApplyFailed = ''runtime_apply_failed''"
| "code_text CodeRuntimeProcessStale = ''runtime_process_stale''"
| "code_text CodeRuntimeRollbackFailed = ''runtime_rollback_failed''"
| "code_text CodeRuntimeStatusFailed = ''runtime_status_failed''"
| "code_text CodeNotJoined = ''not_joined''"
| "code_text CodeOperationInProgress = ''operation_in_progress''"
| "code_text CodeDeviceLifecyclePending = ''device_lifecycle_contract_pending''"
| "code_text CodePolicyInvalid = ''policy_artifact_invalid''"
| "code_text CodePolicyExpired = ''policy_artifact_expired''"
| "code_text CodePolicyReplay = ''policy_generation_replay''"
| "code_text CodeCredentialInvalid = ''device_credential_invalid''"
| "code_text CodeCredentialMissing = ''device_credential_missing''"
| "code_text CodeCredentialExpired = ''device_credential_expired''"
| "code_text CodeCredentialStorage = ''device_credential_storage_unavailable''"
| "code_text CodeCredentialRotationPending = ''device_credential_rotation_pending''"
| "code_text CodeDeviceSessionInvalid = ''device_session_invalid''"
| "code_text CodeRegistrationPending = ''registration_pending''"
| "code_text CodeRegistrationTokenInvalid = ''invalid_registration_token''"
| "code_text CodeRegistrationRejected = ''registration_rejected''"
| "code_text CodeRegistrationConsumed = ''registration_consumed''"
| "code_text CodeRegistrationExpired = ''registration_expired''"
| "code_text CodeRegistrationRateLimited = ''registration_limited''"

text \<open>
  The sentinel errors: \<open>state.ErrNotFound\<close>, \<open>credential.ErrNotFound\<close>, those of \<open>context\<close>, \<open>io\<close>, \<open>os\<close>
  and \<open>syscall\<close>. \<open>Wrapped\<close> is \<open>fmt.Errorf("...: %w", err)\<close>.
\<close>

datatype sentinel = StateNotFound | CredentialNotFound | Canceled | DeadlineExceeded | ErrShortWrite | ErrEOF
  | ErrNotExist | ErrProcessDone | ErrAddrInUse

datatype error =
    Fault fault_code string "error option"
  | Sentinel sentinel
  | Plain string
  | Wrapped string error
  | Joined "error list"

text \<open>\<open>fault.New(code, operation, nil)\<close>\<close>

abbreviation fault :: "fault_code \<Rightarrow> string \<Rightarrow> error" where
  "fault c op \<equiv> Fault c op None"

abbreviation fault_cause :: "fault_code \<Rightarrow> string \<Rightarrow> error \<Rightarrow> error" where
  "fault_cause c op e \<equiv> Fault c op (Some e)"

text \<open>
  \<open>Error()\<close> withholds the cause; \<open>Unwrap\<close> exposes it to \<open>errors.Is\<close>; \<open>Code\<close> reads the
  first coded error of the chain, which is the outermost.
\<close>

fun sentinel_text :: "sentinel \<Rightarrow> string" where
  "sentinel_text StateNotFound = ''overlay state not found''"
| "sentinel_text CredentialNotFound = ''device credential not found''"
| "sentinel_text Canceled = ''context canceled''"
| "sentinel_text DeadlineExceeded = ''context deadline exceeded''"
| "sentinel_text ErrShortWrite = ''short write''"
| "sentinel_text ErrEOF = ''EOF''"
| "sentinel_text ErrNotExist = ''file does not exist''"
| "sentinel_text ErrProcessDone = ''os: process already finished''"
| "sentinel_text ErrAddrInUse = ''address already in use''"

fun error_text :: "error \<Rightarrow> string" where
  "error_text (Fault c op cause) = (if op = [] then code_text c else op @ '': '' @ code_text c)"
| "error_text (Sentinel x) = sentinel_text x"
| "error_text (Plain s) = s"
| "error_text (Wrapped s e) = s @ '': '' @ error_text e"
| "error_text (Joined []) = []"
| "error_text (Joined [e]) = error_text e"
| "error_text (Joined (e # f # es)) = error_text e @ CHR 0x0A # error_text (Joined (f # es))"

fun unwrap :: "error \<Rightarrow> error option" where
  "unwrap (Fault c op cause) = cause"
| "unwrap (Wrapped s e) = Some e"
| "unwrap _ = None"

fun errors_is :: "error \<Rightarrow> sentinel \<Rightarrow> bool" where
  "errors_is (Sentinel x) t = (x = t)"
| "errors_is (Fault c op (Some e)) t = errors_is e t"
| "errors_is (Fault c op None) t = False"
| "errors_is (Plain s) t = False"
| "errors_is (Wrapped s e) t = errors_is e t"
| "errors_is (Joined []) t = False"
| "errors_is (Joined (e # es)) t = (errors_is e t \<or> errors_is (Joined es) t)"

fun coded :: "error \<Rightarrow> fault_code option" where
  "coded (Fault c op cause) = Some c"
| "coded (Wrapped s e) = coded e"
| "coded (Joined []) = None"
| "coded (Joined (e # es)) = (case coded e of Some c \<Rightarrow> Some c | None \<Rightarrow> coded (Joined es))"
| "coded _ = None"

fun fault_code_of :: "error \<Rightarrow> fault_code" where
  "fault_code_of (Fault c op cause) = c"
| "fault_code_of (Wrapped s e) = (case coded e of Some c \<Rightarrow> c | None \<Rightarrow> CodeInvalidResponse)"
| "fault_code_of (Joined es) = (case coded (Joined es) of Some c \<Rightarrow> c | None \<Rightarrow> CodeInvalidResponse)"
| "fault_code_of _ = CodeInvalidResponse"

text \<open>\<open>errors.Join\<close>: nothing if none of them is an error.\<close>

definition join_errors :: "error option list \<Rightarrow> error option" where
  "join_errors es = (case concat (map (\<lambda>e. case e of None \<Rightarrow> [] | Some x \<Rightarrow> [x]) es) of [] \<Rightarrow> None | xs \<Rightarrow> Some (Joined xs))"

lemma error_text_hides_cause: "error_text (Fault c op (Some e)) = error_text (Fault c op None)"
  by simp

end
