(* ===== verification/Mesh_Config.thy ===== *)
theory Mesh_Config
  imports Go_Net Go_Time Fault
begin

text \<open>
  \<open>overlay/pathmanager/config.go\<close>: the peers Zero signs for direct paths, the
  configuration of the path manager, and their validation. The clock is read twice by
  \<open>Config.Validate\<close>, so it takes two readings; name resolution is a parameter.
\<close>

section \<open>Data\<close>

record peer =
  DeviceID :: string
  PublicKey :: string
  Address :: string
  LocalEndpoint :: string

record mesh_config =
  mc_network :: string
  mc_device :: string
  mc_gateway_key :: string
  mc_relay :: string
  mc_lan_listen :: string
  mc_wg :: string
  mc_interface :: string
  mc_overlay_cidr :: string
  mc_expires :: gotime
  mc_peers :: "peer list"

definition MaxPeers :: nat where "MaxPeers = 256"

section \<open>Validation\<close>

text \<open>A WireGuard key: canonical base64 of 32 bytes.\<close>

definition wg_key_text :: "string \<Rightarrow> bool" where
  "wg_key_text s \<longleftrightarrow>
     (case std_decode s of None \<Rightarrow> False | Some k \<Rightarrow> length k = 32 \<and> std_encode k = s)"

text \<open>A canonical prefix of one host: the address in its shortest form, with all its bits.\<close>

definition host_prefix_text :: "string \<Rightarrow> bool" where
  "host_prefix_text s \<longleftrightarrow>
     (case parse_prefix s of
        None \<Rightarrow> False
      | Some p \<Rightarrow> pfx_bits p = bit_len (pfx_addr p) \<and> show_prefix p = s)"

fun spec_loop :: "string \<Rightarrow> string set \<Rightarrow> string set \<Rightarrow> string set \<Rightarrow> peer list \<Rightarrow> error option" where
  "spec_loop self ids keys addresses [] = None"
| "spec_loop self ids keys addresses (p # ps) =
     (if DeviceID p = [] \<or> length (DeviceID p) > 128 \<or> DeviceID p = self \<or> DeviceID p \<in> ids \<or>
         PublicKey p \<in> keys \<or> \<not> wg_key_text (PublicKey p) \<or> \<not> host_prefix_text (Address p) \<or>
         Address p \<in> addresses \<or> LocalEndpoint p \<noteq> []
      then Some (Plain ''invalid mesh peer'')
      else spec_loop self (insert (DeviceID p) ids) (insert (PublicKey p) keys)
             (insert (Address p) addresses) ps)"

definition spec_validate :: "string \<Rightarrow> peer list \<Rightarrow> error option" where
  "spec_validate self peers =
     (if peers = [] \<or> length peers > MaxPeers then Some (Plain ''invalid mesh peer count'')
      else spec_loop self {} {} {} peers)"

definition loopback :: "string \<Rightarrow> bool" where
  "loopback s \<longleftrightarrow>
     (case parse_addr_port s of
        None \<Rightarrow> False
      | Some a \<Rightarrow> ap_addr a = localhost \<and> ap_port a \<noteq> 0)"

text \<open>The loop over the local endpoints, which also blanks them for the signed form.\<close>

fun endpoint_loop :: "mesh_config \<Rightarrow> string set \<Rightarrow> peer list \<Rightarrow> error + peer list" where
  "endpoint_loop c seen [] = Inr []"
| "endpoint_loop c seen (p # ps) =
     (if \<not> loopback (LocalEndpoint p) \<or> LocalEndpoint p \<in> seen \<or> LocalEndpoint p = mc_relay c \<or>
         LocalEndpoint p = mc_wg c
      then Inl (Plain ''invalid peer local endpoint'')
      else bindR (endpoint_loop c (insert (LocalEndpoint p) seen) ps)
             (\<lambda>qs. Inr (p\<lparr>LocalEndpoint := []\<rparr> # qs)))"

definition mesh_config_validate ::
    "(string \<Rightarrow> bool) \<Rightarrow> gotime \<Rightarrow> gotime \<Rightarrow> mesh_config \<Rightarrow> error option" where
  "mesh_config_validate resolve now1 now2 c =
     (if mc_network c = [] \<or> mc_device c = [] \<or> \<not> after (mc_expires c) now1 \<or>
         after (mc_expires c) (add_dur now2 (16 * minute))
      then Some (Plain ''invalid mesh identity or lifetime'')
      else case endpoint_loop c {} (mc_peers c) of
          Inl e \<Rightarrow> Some e
        | Inr peers \<Rightarrow>
     (case spec_validate (mc_device c) peers of
          Some e \<Rightarrow> Some e
        | None \<Rightarrow>
            if \<not> loopback (mc_relay c) \<or> \<not> loopback (mc_wg c) \<or> mc_relay c = mc_wg c
            then Some (Plain ''invalid local transport'')
            else if parse_prefix (mc_overlay_cidr c) = None then Some (Plain ''invalid overlay prefix'')
            else if \<not> resolve (mc_lan_listen c) then Some (Plain ''invalid LAN listener'')
            else None))"

text \<open>Which side of a pair keeps the path alive when idle.\<close>

definition WireGuardKeepalive :: "string \<Rightarrow> string \<Rightarrow> int" where
  "WireGuardKeepalive self p = (if self < p then 5 else 0)"

lemma keepalive_elects_one:
  "WireGuardKeepalive a b + WireGuardKeepalive b a = (if a = b then 0 else 5)"
  by (cases a b rule: linorder_cases) (auto simp: WireGuardKeepalive_def)

section \<open>What validation means\<close>

definition signed_peer :: "string \<Rightarrow> peer \<Rightarrow> bool" where
  "signed_peer self p \<longleftrightarrow>
     DeviceID p \<noteq> [] \<and> length (DeviceID p) \<le> 128 \<and> DeviceID p \<noteq> self \<and>
     wg_key_text (PublicKey p) \<and> host_prefix_text (Address p) \<and> LocalEndpoint p = []"

lemma spec_loop_iff:
  "spec_loop self ids keys addresses ps = None \<longleftrightarrow>
     (\<forall>p \<in> set ps. signed_peer self p) \<and>
     distinct (map DeviceID ps) \<and> distinct (map PublicKey ps) \<and> distinct (map Address ps) \<and>
     DeviceID ` set ps \<inter> ids = {} \<and> PublicKey ` set ps \<inter> keys = {} \<and> Address ` set ps \<inter> addresses = {}"
proof (induction ps arbitrary: ids keys addresses)
  case Nil
  then show ?case by simp
next
  case (Cons p ps)
  show ?case
    by (simp add: Cons.IH signed_peer_def not_less) blast
qed

lemma spec_validate_iff:
  "spec_validate self ps = None \<longleftrightarrow>
     ps \<noteq> [] \<and> length ps \<le> 256 \<and> (\<forall>p \<in> set ps. signed_peer self p) \<and>
     distinct (map DeviceID ps) \<and> distinct (map PublicKey ps) \<and> distinct (map Address ps)"
  by (auto simp: spec_validate_def spec_loop_iff MaxPeers_def)

lemma endpoint_loop_Inr:
  "endpoint_loop c seen ps = Inr qs \<Longrightarrow>
     qs = map (\<lambda>p. p\<lparr>LocalEndpoint := []\<rparr>) ps \<and> (\<forall>p \<in> set ps. loopback (LocalEndpoint p)) \<and>
     distinct (map LocalEndpoint ps) \<and> LocalEndpoint ` set ps \<inter> seen = {} \<and>
     mc_relay c \<notin> LocalEndpoint ` set ps \<and> mc_wg c \<notin> LocalEndpoint ` set ps"
proof (induction ps arbitrary: seen qs)
  case Nil
  then show ?case by simp
next
  case (Cons p ps)
  then obtain rs where "endpoint_loop c (insert (LocalEndpoint p) seen) ps = Inr rs"
    and "qs = p\<lparr>LocalEndpoint := []\<rparr> # rs" by auto
  with Cons.IH [OF this(1)] Cons.prems show ?case by auto
qed

text \<open>
  A valid configuration gives every socket of the manager its own loopback address: the
  relay, WireGuard and each peer's local endpoint.
\<close>

lemma mesh_config_validate_None:
  assumes "mesh_config_validate resolve n1 n2 c = None"
  shows "distinct (mc_relay c # mc_wg c # map LocalEndpoint (mc_peers c))"
    "\<forall>e \<in> set (mc_relay c # mc_wg c # map LocalEndpoint (mc_peers c)). loopback e"
    "after (mc_expires c) n1" "distinct (map DeviceID (mc_peers c))"
    "mc_device c \<notin> DeviceID ` set (mc_peers c)"
    "\<forall>p \<in> set (mc_peers c). wg_key_text (PublicKey p)"
    "mc_peers c \<noteq> []" "resolve (mc_lan_listen c)"
proof -
  from assms obtain qs where ep: "endpoint_loop c {} (mc_peers c) = Inr qs"
    and sv: "spec_validate (mc_device c) qs = None"
    and rest: "after (mc_expires c) n1" "loopback (mc_relay c)" "loopback (mc_wg c)" "mc_relay c \<noteq> mc_wg c"
      "resolve (mc_lan_listen c)"
    by (auto simp: mesh_config_validate_def split: sum.splits option.splits if_splits)
  note e = endpoint_loop_Inr [OF ep] and s = sv [unfolded spec_validate_iff]
  show "distinct (mc_relay c # mc_wg c # map LocalEndpoint (mc_peers c))"
    using e rest by auto
  show "\<forall>e \<in> set (mc_relay c # mc_wg c # map LocalEndpoint (mc_peers c)). loopback e"
    using e rest by auto
  show "after (mc_expires c) n1" "resolve (mc_lan_listen c)" by (fact rest)+
  show "distinct (map DeviceID (mc_peers c))" using e s by (auto simp: o_def)
  show "mc_device c \<notin> DeviceID ` set (mc_peers c)" using e s by (auto simp: signed_peer_def)
  show "\<forall>p \<in> set (mc_peers c). wg_key_text (PublicKey p)" using e s by (auto simp: signed_peer_def)
  show "mc_peers c \<noteq> []" using e s by auto
qed

section \<open>Properties\<close>

text \<open>
  \<open>Spec.Validate\<close> accepts exactly the well-formed peer lists: 1 to 256 peers, each with
  an identity that is not the device itself, a canonical 32-byte key, a canonical host
  prefix and no local endpoint, with identities, keys and addresses pairwise distinct.
\<close>

theorem spec_validate_spec:
  "spec_validate self ps = None \<longleftrightarrow>
     ps \<noteq> [] \<and> length ps \<le> 256 \<and> (\<forall>p \<in> set ps. signed_peer self p) \<and>
     distinct (map DeviceID ps) \<and> distinct (map PublicKey ps) \<and> distinct (map Address ps)"
  by (rule spec_validate_iff)

text \<open>
  A configuration that \<open>Config.Validate\<close> accepts gives the relay, WireGuard and every
  peer their own loopback endpoint, has pairwise distinct peers none of which is the device
  itself, and has not expired at the reading of the clock.
\<close>

theorem mesh_config_validate_sound:
  assumes "mesh_config_validate resolve n1 n2 c = None"
  shows "distinct (mc_relay c # mc_wg c # map LocalEndpoint (mc_peers c)) \<and>
    (\<forall>e \<in> set (mc_relay c # mc_wg c # map LocalEndpoint (mc_peers c)). loopback e) \<and>
    after (mc_expires c) n1 \<and> distinct (map DeviceID (mc_peers c)) \<and>
    mc_device c \<notin> DeviceID ` set (mc_peers c)"
  using mesh_config_validate_None [OF assms] by blast

definition sample_mesh :: mesh_config where
  "sample_mesh = \<lparr>mc_network = ''n1'', mc_device = ''a'', mc_gateway_key = std_encode (replicate 32 0),
     mc_relay = ''127.0.0.1:1001'', mc_lan_listen = '':0'', mc_wg = ''127.0.0.1:1002'',
     mc_interface = ''xcon0'', mc_overlay_cidr = ''10.9.0.0/16'',
     mc_expires = \<lparr>nanos = 60 * second, utc = True\<rparr>,
     mc_peers = [\<lparr>DeviceID = ''b'', PublicKey = std_encode (replicate 32 0),
       Address = ''10.9.0.2/32'', LocalEndpoint = ''127.0.0.1:1003''\<rparr>]\<rparr>"

lemma sample_mesh_key: "wg_key_text (std_encode (replicate 32 0))"
  by (simp add: wg_key_text_def)

lemma sample_mesh_text:
  "loopback ''127.0.0.1:1001''" "loopback ''127.0.0.1:1002''" "loopback ''127.0.0.1:1003''"
  "host_prefix_text ''10.9.0.2/32''" "parse_prefix ''10.9.0.0/16'' \<noteq> None"
  by (simp_all add: loopback_def host_prefix_text_def eval_net parse_addr_port_def localhost_def
      show_prefix_def show_v4_def show_nat.simps char_of_eq_iff take_bit_eq_mod)

lemma sample_mesh_valid:
  "mesh_config_validate (\<lambda>_. True) \<lparr>nanos = 0, utc = True\<rparr> \<lparr>nanos = 0, utc = True\<rparr> sample_mesh = None"
  by (simp add: mesh_config_validate_def sample_mesh_def sample_mesh_text sample_mesh_key
      spec_validate_def MaxPeers_def after_def add_dur_def durations)

lemma mesh_config_validate_sound_witness:
  "distinct (mc_relay sample_mesh # mc_wg sample_mesh # map LocalEndpoint (mc_peers sample_mesh))"
  using mesh_config_validate_sound [OF sample_mesh_valid] by blast

lemma spec_validate_spec_witness:
  "signed_peer ''a'' ((hd (mc_peers sample_mesh))\<lparr>LocalEndpoint := []\<rparr>)"
proof -
  let ?p = "(hd (mc_peers sample_mesh))\<lparr>LocalEndpoint := []\<rparr>"
  have "spec_validate ''a'' [?p] = None"
    by (simp add: spec_validate_def MaxPeers_def sample_mesh_def sample_mesh_key sample_mesh_text)
  with spec_validate_spec [of "''a''" "[?p]"] show ?thesis by simp
qed

end
