(* ===== verification/Pathwire.thy ===== *)
theory Pathwire
  imports Fault
begin

text \<open>
  \<open>overlay/pathwire/wire.go\<close>: the authenticated frame, its length-prefixed stream form
  for the relay and its fixed binary form for the LAN. HMAC-SHA256, SHA-256, X25519 and the
  JSON codec of a frame are parameters (a record of functions); what a theorem needs of
  them is a hypothesis: SHA-256 and the MAC are 32 bytes, the decoder inverts the encoder.
\<close>

section \<open>Frames and the primitives\<close>

record frame =
  f_type :: string
  f_network :: string
  f_from :: string
  f_to :: string
  f_epoch :: string
  f_seq :: u64
  f_nonce :: string
  f_candidates :: "string list"
  f_payload :: "byte list"
  f_mac :: "byte list"

definition empty_frame :: frame where
  "empty_frame = \<lparr>f_type = [], f_network = [], f_from = [], f_to = [], f_epoch = [], f_seq = 0,
     f_nonce = [], f_candidates = [], f_payload = [], f_mac = []\<rparr>"

record wire_prims =
  sha256 :: "byte list \<Rightarrow> byte list"
  hmac_sha256 :: "byte list \<Rightarrow> byte list \<Rightarrow> byte list"
  x25519_private_ok :: "byte list \<Rightarrow> bool"
  x25519_public_ok :: "byte list \<Rightarrow> bool"
  x25519 :: "byte list \<Rightarrow> byte list \<Rightarrow> byte list option"
  frame_json :: "frame \<Rightarrow> byte list"
  frame_unjson :: "byte list \<Rightarrow> frame option"

definition MaxFrame :: nat where "MaxFrame = 8192"
definition LANHeader :: nat where "LANHeader = 122"

section \<open>Keys and message authentication\<close>

definition wire_key :: "wire_prims \<Rightarrow> string \<Rightarrow> string \<Rightarrow> string \<Rightarrow> string \<Rightarrow> error + byte list" where
  "wire_key P privateText publicText network purpose =
     (case std_decode (trim_space privateText) of
        None \<Rightarrow> Inl (Plain ''invalid local key'')
      | Some private \<Rightarrow>
     (case std_decode publicText of
        None \<Rightarrow> Inl (Plain ''invalid peer key'')
      | Some public \<Rightarrow>
          if \<not> x25519_private_ok P private then Inl (Plain ''invalid local key'')
          else if \<not> x25519_public_ok P public then Inl (Plain ''invalid peer key'')
          else (case x25519 P private public of
                  None \<Rightarrow> Inl (Plain ''invalid peer key agreement'')
                | Some shared \<Rightarrow>
                    Inr (hmac_sha256 P shared
                      (bytes_of (''xconnect-path-v1'' @ [CHR 0x00] @ network @ [CHR 0x00] @ purpose))))))"

definition sign_frame :: "wire_prims \<Rightarrow> frame \<Rightarrow> byte list \<Rightarrow> frame" where
  "sign_frame P f key =
     (let f' = f\<lparr>f_mac := []\<rparr> in f'\<lparr>f_mac := hmac_sha256 P key (frame_json P f')\<rparr>)"

definition verify_frame :: "wire_prims \<Rightarrow> frame \<Rightarrow> byte list \<Rightarrow> bool" where
  "verify_frame P f key \<longleftrightarrow> length (f_mac f) = 32 \<and> f_mac f = f_mac (sign_frame P f key)"

lemma sign_frame_simps [simp]:
  "f_type (sign_frame P f k) = f_type f" "f_network (sign_frame P f k) = f_network f"
  "f_from (sign_frame P f k) = f_from f" "f_to (sign_frame P f k) = f_to f"
  "f_epoch (sign_frame P f k) = f_epoch f" "f_seq (sign_frame P f k) = f_seq f"
  "f_nonce (sign_frame P f k) = f_nonce f" "f_candidates (sign_frame P f k) = f_candidates f"
  "f_payload (sign_frame P f k) = f_payload f"
  "f_mac (sign_frame P f k) = hmac_sha256 P k (frame_json P (f\<lparr>f_mac := []\<rparr>))"
  by (simp_all add: sign_frame_def Let_def)

lemma sign_frame_idem [simp]: "sign_frame P (sign_frame P f k) k = sign_frame P f k"
  by (simp add: sign_frame_def Let_def)

text \<open>Signing determines the frame: a frame verifies exactly when it is its own signed form.\<close>

lemma verify_frame_iff:
  "verify_frame P f k \<longleftrightarrow> length (f_mac f) = 32 \<and> f = sign_frame P f k"
  by (cases f) (auto simp: verify_frame_def sign_frame_def Let_def)

section \<open>The stream form\<close>

definition encode_frame :: "wire_prims \<Rightarrow> frame \<Rightarrow> error + byte list" where
  "encode_frame P f =
     (let b = frame_json P f in
      if length b > MaxFrame then Inl (Plain ''oversized frame'') else Inr b)"

definition decode_frame :: "wire_prims \<Rightarrow> byte list \<Rightarrow> error + frame" where
  "decode_frame P b =
     (if length b > MaxFrame then Inl (Plain ''oversized frame'')
      else case frame_unjson P b of
          None \<Rightarrow> Inl (Plain ''invalid JSON'')
        | Some f \<Rightarrow> Inr f)"

text \<open>
  An \<open>io.Writer\<close> over a state \<open>'s\<close> takes some of the bytes and may fail. \<open>writeAll\<close> calls
  it until everything is written; a write that takes nothing without failing is an error,
  so the loop always ends.
\<close>

type_synonym 's writer = "'s \<Rightarrow> byte list \<Rightarrow> (nat \<times> error option) \<times> 's"

function write_all :: "'s writer \<Rightarrow> 's \<Rightarrow> byte list \<Rightarrow> error option \<times> 's" where
  "write_all w s b =
     (if b = [] then (None, s)
      else case w s b of
          ((n, Some e), s') \<Rightarrow> (Some e, s')
        | ((n, None), s') \<Rightarrow>
            if n = 0 then (Some (Sentinel ErrShortWrite), s') else write_all w s' (drop n b))"
  by pat_completeness auto
termination
  by (relation "measure (\<lambda>(w, s, b). length b)") auto

declare write_all.simps [simp del]

definition write_frame :: "wire_prims \<Rightarrow> 's writer \<Rightarrow> 's \<Rightarrow> frame \<Rightarrow> error option \<times> 's" where
  "write_frame P w s f =
     (case encode_frame P f of
        Inl e \<Rightarrow> (Some e, s)
      | Inr b \<Rightarrow>
          (case write_all w s (be32 (length b)) of
             (Some e, s') \<Rightarrow> (Some e, s')
           | (None, s') \<Rightarrow> write_all w s' b))"

text \<open>A reader is the bytes still to come; \<open>io.ReadFull\<close> takes exactly \<open>n\<close> or fails.\<close>

definition read_full :: "byte list \<Rightarrow> nat \<Rightarrow> error + (byte list \<times> byte list)" where
  "read_full r n = (if length r < n then Inl (Sentinel ErrEOF) else Inr (take n r, drop n r))"

definition read_frame :: "wire_prims \<Rightarrow> byte list \<Rightarrow> error + (frame \<times> byte list)" where
  "read_frame P r =
     bindR (read_full r 4) (\<lambda>(n, r1).
       let size = of_be n in
       if size = 0 \<or> size > MaxFrame then Inl (Plain ''invalid frame length'')
       else bindR (read_full r1 size) (\<lambda>(b, r2).
         bindR (decode_frame P b) (\<lambda>f. Inr (f, r2))))"

text \<open>
  A writer that honours the \<open>io.Writer\<close> contract appends the bytes it takes to what it has
  written (\<open>sink\<close>), and takes no more than it was given.
\<close>

definition honest_writer :: "('s \<Rightarrow> byte list) \<Rightarrow> 's writer \<Rightarrow> bool" where
  "honest_writer sink w \<longleftrightarrow>
     (\<forall>s b n e s'. w s b = ((n, e), s') \<longrightarrow> n \<le> length b \<and> sink s' = sink s @ take n b)"

lemma write_all_sink:
  assumes "honest_writer sink w" and "write_all w s b = (None, s')"
  shows "sink s' = sink s @ b"
  using assms
proof (induction w s b rule: write_all.induct)
  case (1 w s b)
  show ?case
  proof (cases "b = []")
    case True
    with "1.prems" write_all.simps [of w s b] show ?thesis by simp
  next
    case False
    obtain n e s1 where w: "w s b = ((n, e), s1)" by (metis prod.exhaust)
    with "1.prems" False have e: "e = None" and n: "n \<noteq> 0"
      and rest: "write_all w s1 (drop n b) = (None, s')"
      by (auto simp: write_all.simps [of w s b] split: option.splits if_splits)
    from "1.IH" False w e n rest "1.prems"(1) have "sink s' = sink s1 @ drop n b" by simp
    moreover have "sink s1 = sink s @ take n b"
      using "1.prems"(1) w unfolding honest_writer_def by blast
    ultimately show ?thesis by simp
  qed
qed

lemma write_frame_sink:
  assumes "honest_writer sink w" and "write_frame P w s f = (None, s')"
  shows "\<exists>b. encode_frame P f = Inr b \<and> sink s' = sink s @ be32 (length b) @ b"
proof -
  from assms(2) obtain b s1 where "encode_frame P f = Inr b"
    and "write_all w s (be32 (length b)) = (None, s1)" and "write_all w s1 b = (None, s')"
    by (auto simp: write_frame_def split: sum.splits prod.splits option.splits)
  with write_all_sink [OF assms(1)] show ?thesis by force
qed

lemma read_frame_append:
  assumes "encode_frame P f = Inr b" and "frame_unjson P b = Some f" and "b \<noteq> []"
  shows "read_frame P (be32 (length b) @ b @ rest) = Inr (f, rest)"
proof -
  have "length b \<le> 8192" using assms(1) by (auto simp: encode_frame_def MaxFrame_def Let_def split: if_splits)
  then show ?thesis
    using assms by (simp add: read_frame_def read_full_def decode_frame_def MaxFrame_def)
qed

section \<open>The LAN form\<close>

definition slice :: "nat \<Rightarrow> nat \<Rightarrow> 'a list \<Rightarrow> 'a list" where
  "slice i j b = take (j - i) (drop i b)"

definition identity :: "wire_prims \<Rightarrow> string \<Rightarrow> byte list" where
  "identity P s = take 16 (sha256 P (bytes_of s))"

definition lan_kind :: "string \<Rightarrow> byte option" where
  "lan_kind t =
     (if t = ''data'' then Some 1 else if t = ''probe'' then Some 2
      else if t = ''ack'' then Some 3 else None)"

definition encode_lan :: "wire_prims \<Rightarrow> frame \<Rightarrow> error + byte list" where
  "encode_lan P f =
     (case lan_kind (f_type f) of
        None \<Rightarrow> Inl (Plain ''invalid LAN frame'')
      | Some kind \<Rightarrow>
     (case hex_decode (f_epoch f) of
        None \<Rightarrow> Inl (Plain ''invalid LAN header'')
      | Some epoch \<Rightarrow>
          if length epoch \<noteq> 16 \<or> length (f_mac f) \<noteq> 32 then Inl (Plain ''invalid LAN header'')
          else if length (f_payload f) > 4096 then Inl (Plain ''oversized LAN payload'')
          else
            (let ids = identity P (f_network f) @ identity P (f_from f) @ identity P (f_to f);
                 frame_with = (\<lambda>nonce. [1, kind] @ ids @ epoch @ be64 (f_seq f) @ nonce @ f_mac f @ f_payload f)
             in if kind \<noteq> 1 then
                  (case hex_decode (f_nonce f) of
                     None \<Rightarrow> Inl (Plain ''invalid LAN nonce'')
                   | Some nonce \<Rightarrow>
                       if length nonce \<noteq> 16 then Inl (Plain ''invalid LAN nonce'')
                       else Inr (frame_with nonce))
                else Inr (frame_with (replicate 16 0)))))"

text \<open>The loop over the peers stops at the first whose identity is in the frame.\<close>

fun find_peer :: "wire_prims \<Rightarrow> byte list \<Rightarrow> string list \<Rightarrow> string" where
  "find_peer P h [] = []"
| "find_peer P h (p # ps) = (if h = identity P p then p else find_peer P h ps)"

definition decode_lan :: "wire_prims \<Rightarrow> byte list \<Rightarrow> string \<Rightarrow> string \<Rightarrow> string list \<Rightarrow> error + frame" where
  "decode_lan P b network self peers =
     (if length b < LANHeader \<or> length b > LANHeader + 4096 \<or> b ! 0 \<noteq> 1
      then Inl (Plain ''invalid LAN frame'')
      else if slice 2 18 b \<noteq> identity P network \<or> slice 34 50 b \<noteq> identity P self
      then Inl (Plain ''LAN identity mismatch'')
      else
        (let from = find_peer P (slice 18 34 b) peers in
         if from = [] then Inl (Plain ''unknown LAN peer'')
         else
           (let f = empty_frame\<lparr>f_from := from, f_network := network, f_to := self,
                      f_epoch := hex_encode (slice 50 66 b),
                      f_seq := of_nat (of_be (slice 66 74 b)), f_mac := slice 90 122 b\<rparr>;
                typed = (if b ! 1 = 1 then Inr (f\<lparr>f_type := ''data'', f_payload := drop 122 b\<rparr>)
                         else if b ! 1 = 2 then Inr (f\<lparr>f_type := ''probe'', f_nonce := hex_encode (slice 74 90 b)\<rparr>)
                         else if b ! 1 = 3 then Inr (f\<lparr>f_type := ''ack'', f_nonce := hex_encode (slice 74 90 b)\<rparr>)
                         else Inl (Plain ''invalid LAN type''))
            in bindR typed (\<lambda>g.
                 if b ! 1 \<noteq> 1 \<and> length b \<noteq> LANHeader then Inl (Plain ''unexpected LAN payload'')
                 else Inr g))))"

subsection \<open>The layout of a LAN frame\<close>

definition sha_ok :: "wire_prims \<Rightarrow> bool" where
  "sha_ok P \<longleftrightarrow> (\<forall>m. length (sha256 P m) = 32)"

lemma length_identity [simp]: "sha_ok P \<Longrightarrow> length (identity P s) = 16"
  by (simp add: identity_def sha_ok_def)

lemma slice_append1: "length xs = i \<Longrightarrow> slice i j (xs @ ys) = take (j - i) ys"
  by (simp add: slice_def)

lemma lan_layout:
  assumes "length a = 16" "length b = 16" "length c = 16" "length e = 16" "length s = 8"
    "length n = 16" "length m = 32"
    and w: "w = [1, k] @ (a @ b @ c) @ e @ s @ n @ m @ p"
  shows "length w = 122 + length p" "w ! 0 = 1" "w ! 1 = k"
    "slice 2 18 w = a" "slice 18 34 w = b" "slice 34 50 w = c" "slice 50 66 w = e"
    "slice 66 74 w = s" "slice 74 90 w = n" "slice 90 122 w = m" "drop 122 w = p"
  using assms by (simp_all add: slice_def)

lemma slice_length: "j \<le> length b \<Longrightarrow> length (slice i j b) = j - i"
  by (simp add: slice_def)

lemma find_peer_in: "find_peer P h ps \<noteq> [] \<Longrightarrow> find_peer P h ps \<in> set ps \<and> identity P (find_peer P h ps) = h"
  by (induction ps) auto

lemma find_peer_unique:
  "p \<in> set ps \<Longrightarrow> \<forall>q \<in> set ps. identity P q = identity P p \<longrightarrow> q = p \<Longrightarrow>
     find_peer P (identity P p) ps = p"
  by (induction ps) auto

text \<open>
  The frames the LAN form carries whole: an epoch and a nonce in lower-case hexadecimal, no
  candidates, a payload on data frames only and a nonce on the others only.
\<close>

definition lan_frame :: "frame \<Rightarrow> bool" where
  "lan_frame f \<longleftrightarrow>
     f_candidates f = [] \<and> list_all is_lower_hex (f_epoch f) \<and>
     (if f_type f = ''data'' then f_nonce f = [] else f_payload f = [] \<and> list_all is_lower_hex (f_nonce f))"

lemma lan_kind_Some:
  "lan_kind t = Some k \<longleftrightarrow> t = ''data'' \<and> k = 1 \<or> t = ''probe'' \<and> k = 2 \<or> t = ''ack'' \<and> k = 3"
  by (auto simp: lan_kind_def)

lemma decode_encode_lan:
  assumes sha: "sha_ok P" and enc: "encode_lan P f = Inr b" and wf: "lan_frame f"
    and frm: "f_from f \<in> set peers" "f_from f \<noteq> []"
    and nocoll: "\<forall>q \<in> set peers. identity P q = identity P (f_from f) \<longrightarrow> q = f_from f"
  shows "decode_lan P b (f_network f) (f_to f) peers = Inr f"
proof -
  from enc obtain k e where k: "lan_kind (f_type f) = Some k"
    and e: "hex_decode (f_epoch f) = Some e" "length e = 16" "length (f_mac f) = 32"
    and pl: "length (f_payload f) \<le> 4096"
    by (auto simp: encode_lan_def Let_def split: option.splits if_splits)
  define n where "n = (if k = 1 then replicate 16 0 else the (hex_decode (f_nonce f)))"
  have n: "length n = 16" "k \<noteq> 1 \<Longrightarrow> hex_decode (f_nonce f) = Some n"
    and b: "b = [1, k] @ (identity P (f_network f) @ identity P (f_from f) @ identity P (f_to f))
        @ e @ be64 (f_seq f) @ n @ f_mac f @ f_payload f"
    using enc k e pl by (auto simp: encode_lan_def n_def Let_def split: option.splits if_splits)
  note lay = lan_layout [OF length_identity [OF sha] length_identity [OF sha]
      length_identity [OF sha] e(2) length_be64 n(1) e(3) b]
  have ep: "hex_encode e = f_epoch f" using wf e by (auto simp: lan_frame_def intro: hex_encode_decode)
  have no: "k \<noteq> 1 \<Longrightarrow> hex_encode n = f_nonce f"
    using wf n k by (auto simp: lan_frame_def lan_kind_Some intro: hex_encode_decode)
  have fp: "find_peer P (identity P (f_from f)) peers = f_from f"
    using frm(1) nocoll by (rule find_peer_unique)
  have seq: "of_nat (of_be (be64 (f_seq f))) = f_seq f" by simp
  have b1: "b ! Suc 0 = k" and small: "\<not> 4096 < length (f_payload f)" using lay pl by simp_all
  note ev = decode_lan_def lay b1 small LANHeader_def fp frm ep seq empty_frame_def Let_def
  consider "f_type f = ''data''" "k = 1" | "f_type f = ''probe''" "k = 2" | "f_type f = ''ack''" "k = 3"
    using k by (auto simp: lan_kind_Some)
  then show ?thesis
  proof cases
    case 1
    then have "f_nonce f = []" "f_candidates f = []" using wf by (simp_all add: lan_frame_def)
    with 1 show ?thesis by (simp add: ev)
  next
    case 2
    then have "f_payload f = []" "f_candidates f = []" using wf by (simp_all add: lan_frame_def)
    with 2 no show ?thesis by (simp add: ev)
  next
    case 3
    then have "f_payload f = []" "f_candidates f = []" using wf by (simp_all add: lan_frame_def)
    with 3 no show ?thesis by (simp add: ev)
  qed
qed

lemma decode_lan_facts:
  assumes "sha_ok P" and "decode_lan P b network self peers = Inr f"
  shows "f_from f \<in> set peers" "f_network f = network" "f_to f = self"
    "f_type f \<in> {''data'', ''probe'', ''ack''}" "length (f_epoch f) = 32" "length (f_mac f) = 32"
    "length (f_payload f) \<le> 4096" "f_candidates f = []" "lan_frame f"
  using assms find_peer_in [of P "slice 18 34 b" peers]
  by (auto simp: decode_lan_def Let_def LANHeader_def empty_frame_def slice_length lan_frame_def
      hex_encode_lower split: if_splits)

section \<open>Properties\<close>

text \<open>
  C6. LAN round trip. A frame the LAN form carries whole, sent by a configured peer whose
  identity prefix no other peer shares, is decoded by the addressee to exactly the frame
  that was encoded: sender, kind, epoch, sequence number, nonce, payload and MAC.
\<close>

theorem lan_round_trip:
  assumes "sha_ok P" and "encode_lan P f = Inr b" and "lan_frame f"
    and "f_from f \<in> set peers" and "f_from f \<noteq> []"
    and "\<forall>q \<in> set peers. identity P q = identity P (f_from f) \<longrightarrow> q = f_from f"
  shows "decode_lan P b (f_network f) (f_to f) peers = Inr f"
  using assms by (rule decode_encode_lan)

definition sample_prims :: wire_prims where
  "sample_prims = \<lparr>sha256 = (\<lambda>m. take 32 (m @ replicate 32 0)),
     hmac_sha256 = (\<lambda>k m. take 32 (k @ m @ replicate 32 0)),
     x25519_private_ok = (\<lambda>k. length k = 32), x25519_public_ok = (\<lambda>k. length k = 32),
     x25519 = (\<lambda>a b. Some a), frame_json = (\<lambda>f. 123 # bytes_of (f_type f)),
     frame_unjson = (\<lambda>b. Some (empty_frame\<lparr>f_type := string_of (drop 1 b)\<rparr>))\<rparr>"

definition sample_lan :: frame where
  "sample_lan = \<lparr>f_type = ''data'', f_network = ''n1'', f_from = ''a'', f_to = ''b'',
     f_epoch = hex_encode (replicate 16 0), f_seq = 7, f_nonce = [], f_candidates = [],
     f_payload = [1, 2, 3], f_mac = replicate 32 0\<rparr>"

lemma sample_prims_sha: "sha_ok sample_prims"
  by (simp add: sha_ok_def sample_prims_def min_def)

lemma sample_lan_encodes: "\<exists>b. encode_lan sample_prims sample_lan = Inr b"
  by (simp add: encode_lan_def sample_lan_def lan_kind_def Let_def del: hex_encode.simps replicate.simps)

lemma lan_round_trip_witness:
  "\<exists>b. encode_lan sample_prims sample_lan = Inr b \<and>
     decode_lan sample_prims b ''n1'' ''b'' [''c'', ''a''] = Inr sample_lan"
proof -
  obtain b where b: "encode_lan sample_prims sample_lan = Inr b" using sample_lan_encodes by blast
  have wf: "lan_frame sample_lan" by (simp add: lan_frame_def sample_lan_def hex_encode_lower)
  have "identity sample_prims ''c'' \<noteq> identity sample_prims ''a''"
    by (simp add: identity_def sample_prims_def bytes_of_def)
  with lan_round_trip [OF sample_prims_sha b wf, of "[''c'', ''a'']"] b show ?thesis
    by (simp add: sample_lan_def)
qed

text \<open>
  Relay round trip. What \<open>Write\<close> puts on a stream, through any writer that keeps the
  \<open>io.Writer\<close> contract and may take the bytes in pieces, \<open>Read\<close> takes back as the same
  frame, and it leaves the bytes that follow for the next frame.
\<close>

theorem relay_round_trip:
  assumes "honest_writer sink w" and "write_frame P w s f = (None, s')"
    and "frame_unjson P (frame_json P f) = Some f" and "frame_json P f \<noteq> []"
  shows "read_frame P (drop (length (sink s)) (sink s') @ rest) = Inr (f, rest)"
proof -
  from write_frame_sink [OF assms(1,2)] obtain b
    where b: "encode_frame P f = Inr b" and s': "sink s' = sink s @ be32 (length b) @ b" by blast
  from b have "b = frame_json P f" by (auto simp: encode_frame_def Let_def split: if_splits)
  with read_frame_append [OF b] assms(3,4) s' show ?thesis by simp
qed

definition pair_writer :: "byte list writer" where
  "pair_writer s b = ((length (take 2 b), None), s @ take 2 b)"

lemma relay_round_trip_witness:
  "\<exists>s'. write_frame sample_prims pair_writer [9] empty_frame = (None, s') \<and>
     read_frame sample_prims (drop 1 s' @ [5]) = Inr (empty_frame, [5])"
proof -
  have w: "honest_writer (\<lambda>s. s) pair_writer"
    by (auto simp: honest_writer_def pair_writer_def min_def)
  have js: "frame_json sample_prims empty_frame = [123]" "frame_unjson sample_prims [123] = Some empty_frame"
    by (simp_all add: sample_prims_def empty_frame_def bytes_of_def string_of_def)
  have run: "write_frame sample_prims pair_writer [9] empty_frame = (None, [9, 0, 0, 0, 1, 123])"
    by (simp add: write_frame_def encode_frame_def js MaxFrame_def be32_def write_all.simps pair_writer_def Let_def)
  from relay_round_trip [OF w run, of "[5]"] js run show ?thesis by simp
qed

text \<open>
  A datagram that \<open>DecodeLAN\<close> accepts names a configured peer as its sender, carries
  the receiver's own network and identity, is one of the three kinds, has the sizes the
  header fixes, and is again a frame the LAN form carries whole.
\<close>

theorem decode_lan_sound:
  assumes "sha_ok P" and "decode_lan P b network self peers = Inr f"
  shows "f_from f \<in> set peers \<and> f_network f = network \<and> f_to f = self \<and>
    f_type f \<in> {''data'', ''probe'', ''ack''} \<and> length (f_epoch f) = 32 \<and>
    length (f_mac f) = 32 \<and> length (f_payload f) \<le> 4096 \<and> lan_frame f"
  using decode_lan_facts [OF assms] by blast

lemma decode_lan_sound_witness:
  "\<exists>b. encode_lan sample_prims sample_lan = Inr b \<and>
     f_from sample_lan \<in> set [''a''] \<and> length (f_epoch sample_lan) = 32"
proof -
  obtain b where b: "encode_lan sample_prims sample_lan = Inr b" using sample_lan_encodes by blast
  have wf: "lan_frame sample_lan"
    by (simp add: lan_frame_def sample_lan_def hex_encode_lower)
  have "decode_lan sample_prims b ''n1'' ''b'' [''a''] = Inr sample_lan"
    using decode_encode_lan [OF sample_prims_sha b wf, of "[''a'']"] by (simp add: sample_lan_def)
  from decode_lan_sound [OF sample_prims_sha this] b show ?thesis by simp
qed

end
