(* ===== verification/Peer_State.thy ===== *)
theory Peer_State
  imports Contracts Mesh_Config Pathwire
begin

text \<open>
  The state \<open>overlay/pathmanager/manager.go\<close> keeps for one peer, and \<open>accept\<close>, the replay
  guard every authenticated frame passes: a 64-bit sliding window over the sequence numbers
  of the current epoch and a bounded set of retired epochs. The maps of the code are maps
  here; \<open>retired\<close> is the list of the keys of a \<open>map[string]bool\<close>, without repetitions.
\<close>

section \<open>Data\<close>

record cand_health =
  ch_ack :: gotime
  ch_success :: int
  ch_rtt :: int

record probe =
  pb_address :: addr_port
  pb_sent :: gotime

text \<open>
  \<open>ps_obj\<close> is the identity of the Go object (the source compares pointers), \<open>ps_local\<close> the
  handle of its socket, if it is open. \<open>netip.AddrPort{}\<close>, the invalid address, is \<open>None\<close>.
\<close>

record peer_state =
  ps_obj :: nat
  ps_send_epoch :: string
  ps_send_seq :: u64
  ps_health :: "addr_port \<rightharpoonup> cand_health"
  ps_peer :: peer
  ps_key :: "byte list"
  ps_local :: "nat option"
  ps_candidates :: "addr_port list"
  ps_active :: "addr_port option"
  ps_ack :: gotime
  ps_success :: int
  ps_pending :: "string \<rightharpoonup> probe"
  ps_epoch :: string
  ps_high :: u64
  ps_bitmap :: u64
  ps_retired :: "string list"
  ps_rtt :: int
  ps_sent :: u64
  ps_received :: u64
  ps_reason :: string

section \<open>The replay guard\<close>

definition new_epoch :: "peer_state \<Rightarrow> string \<Rightarrow> peer_state" where
  "new_epoch p e = p\<lparr>
     ps_retired := (if ps_epoch p \<noteq> [] then List.insert (ps_epoch p) (ps_retired p) else ps_retired p),
     ps_epoch := e, ps_high := 0, ps_bitmap := 0, ps_active := None, ps_success := 0,
     ps_pending := Map.empty, ps_health := Map.empty\<rparr>"

definition window_step :: "peer_state \<Rightarrow> u64 \<Rightarrow> bool \<times> peer_state" where
  "window_step p seq =
     (if ps_high p < seq then
        (let delta = seq - ps_high p;
             shifted = (if 64 \<le> delta then 0 else push_bit (unat delta) (ps_bitmap p))
         in (True, p\<lparr>ps_bitmap := shifted OR 1, ps_high := seq\<rparr>))
      else
        (let delta = ps_high p - seq in
         if 64 \<le> delta \<or> ps_bitmap p AND push_bit (unat delta) 1 \<noteq> 0 then (False, p)
         else (True, p\<lparr>ps_bitmap := ps_bitmap p OR push_bit (unat delta) 1\<rparr>)))"

definition accept :: "peer_state \<Rightarrow> frame \<Rightarrow> bool \<times> peer_state" where
  "accept p f =
     (if length (f_epoch f) \<noteq> 32 \<or> f_seq f = 0 then (False, p)
      else if f_epoch f \<noteq> ps_epoch p then
        (if f_epoch f \<in> set (ps_retired p) \<or> (ps_epoch p \<noteq> [] \<and> f_type f \<noteq> ''discover'') \<or>
            length (ps_retired p) \<ge> 64
         then (False, p)
         else window_step (new_epoch p (f_epoch f)) (f_seq f))
      else window_step p (f_seq f))"

section \<open>The window as a set of sequence numbers\<close>

text \<open>
  \<open>window_repr high bitmap S\<close>: \<open>S\<close> are the sequence numbers accepted in this epoch,
  \<open>high\<close> the largest, and bit \<open>i\<close> of the bitmap says whether \<open>high - i\<close> is among them.
\<close>

definition window_repr :: "u64 \<Rightarrow> u64 \<Rightarrow> nat set \<Rightarrow> bool" where
  "window_repr h b S \<longleftrightarrow>
     0 \<notin> S \<and> (\<forall>s \<in> S. s \<le> unat h) \<and> (S = {} \<longrightarrow> h = 0) \<and> (S \<noteq> {} \<longrightarrow> unat h \<in> S) \<and>
     (\<forall>i < 64. bit b i \<longleftrightarrow> i \<le> unat h \<and> unat h - i \<in> S)"

text \<open>What the guard promises: a number is accepted unless seen before or 64 behind.\<close>

definition fresh_seq :: "nat set \<Rightarrow> nat \<Rightarrow> bool" where
  "fresh_seq S s \<longleftrightarrow> s \<notin> S \<and> (\<forall>t \<in> S. t < s + 64)"

lemma window_repr_empty [simp]: "window_repr 0 0 {}"
  by (simp add: window_repr_def)

lemma window_repr_fresh:
  assumes "window_repr h b S"
  shows "fresh_seq S s \<longleftrightarrow> s \<notin> S \<and> (S \<noteq> {} \<longrightarrow> unat h < s + 64)"
proof (cases "S = {}")
  case True
  then show ?thesis by (simp add: fresh_seq_def)
next
  case False
  with assms have "unat h \<in> S" "\<forall>t \<in> S. t \<le> unat h" by (auto simp: window_repr_def)
  with False show ?thesis unfolding fresh_seq_def by (meson le_less_trans)
qed

lemma and_push_bit_1: "(w :: u64) AND push_bit n 1 \<noteq> 0 \<longleftrightarrow> n < 64 \<and> bit w n"
proof -
  have "bit (w AND push_bit n 1) k \<longleftrightarrow> k = n \<and> k < 64 \<and> bit w k" for k
    by (auto simp: bit_and_iff bit_exp_iff dest: bit_imp_le_length)
  then show ?thesis by (metis bit_eqI bit_0_eq bot_apply bot_bool_def)
qed

lemma window_ahead:
  assumes w: "window_repr (ps_high p) (ps_bitmap p) S" and lt: "ps_high p < seq"
  shows "\<exists>p'. window_step p seq = (True, p') \<and> fresh_seq S (unat seq) \<and>
    window_repr (ps_high p') (ps_bitmap p') (insert (unat seq) S)"
proof -
  let ?h = "unat (ps_high p)" and ?s = "unat seq" and ?d = "unat (seq - ps_high p)"
  have hs: "?h < ?s" using lt by (simp add: word_less_nat_alt)
  have d: "?d = ?s - ?h" using lt by (simp add: unat_sub)
  have big: "64 \<le> seq - ps_high p \<longleftrightarrow> 64 \<le> ?d" by (simp add: word_le_nat_alt)
  define b' where "b' = (if 64 \<le> seq - ps_high p then 0 else push_bit ?d (ps_bitmap p)) OR 1"
  have step: "window_step p seq = (True, p\<lparr>ps_bitmap := b', ps_high := seq\<rparr>)"
    using lt by (simp add: window_step_def b'_def Let_def)
  have bits: "bit b' i \<longleftrightarrow> i \<le> ?s \<and> ?s - i \<in> insert ?s S" if i: "i < 64" for i
  proof (cases "i = 0")
    case True
    then show ?thesis by (simp add: b'_def bit_or_iff bit_1_iff)
  next
    case False
    have "bit b' i \<longleftrightarrow> ?d < 64 \<and> ?d \<le> i \<and> bit (ps_bitmap p) (i - ?d)"
      using False i by (auto simp: b'_def big bit_or_iff bit_1_iff bit_push_bit_iff not_le)
    also have "\<dots> \<longleftrightarrow> ?d \<le> i \<and> i - ?d \<le> ?h \<and> ?h - (i - ?d) \<in> S"
    proof -
      have "i - ?d < 64" using i by simp
      with w have "bit (ps_bitmap p) (i - ?d) \<longleftrightarrow> i - ?d \<le> ?h \<and> ?h - (i - ?d) \<in> S"
        unfolding window_repr_def by blast
      then show ?thesis using i by auto
    qed
    also have "\<dots> \<longleftrightarrow> i \<le> ?s \<and> ?s - i \<in> S"
    proof -
      have "?d \<le> i" if "i \<le> ?s" "?s - i \<in> S"
        using w that hs d unfolding window_repr_def by force
      moreover have "?h - (i - ?d) = ?s - i" if "?d \<le> i" using that hs d by simp
      ultimately show ?thesis using hs d by auto
    qed
    finally show ?thesis using False hs by auto
  qed
  have "window_repr seq b' (insert ?s S)"
    using w hs bits unfolding window_repr_def by (auto intro: le_trans [OF _ less_imp_le])
  moreover have "fresh_seq S ?s" using w hs unfolding window_repr_def fresh_seq_def by force
  ultimately show ?thesis using step by simp
qed

lemma window_behind:
  assumes w: "window_repr (ps_high p) (ps_bitmap p) S" and le: "\<not> ps_high p < seq" and nz: "seq \<noteq> 0"
  shows "\<exists>ok p'. window_step p seq = (ok, p') \<and> (ok \<longleftrightarrow> fresh_seq S (unat seq)) \<and>
    (if ok then window_repr (ps_high p') (ps_bitmap p') (insert (unat seq) S) else p' = p)"
proof -
  let ?h = "unat (ps_high p)" and ?s = "unat seq" and ?d = "unat (ps_high p - seq)"
  have hs: "?s \<le> ?h" using le by (simp add: word_less_nat_alt)
  have s0: "?s \<noteq> 0" using nz by (simp add: unat_eq_0)
  have d: "?d = ?h - ?s" using le by (simp add: unat_sub not_less)
  have big: "64 \<le> ps_high p - seq \<longleftrightarrow> 64 \<le> ?d" by (simp add: word_le_nat_alt)
  have ne: "S \<noteq> {}" using w hs s0 unfolding window_repr_def by auto
  have fresh: "fresh_seq S ?s \<longleftrightarrow> \<not> (64 \<le> ?d \<or> bit (ps_bitmap p) ?d)"
    using w hs d ne unfolding window_repr_fresh [OF w] by (auto simp: window_repr_def)
  have and64: "ps_bitmap p AND push_bit ?d 1 \<noteq> 0 \<longleftrightarrow> ?d < 64 \<and> bit (ps_bitmap p) ?d"
    by (rule and_push_bit_1)
  show ?thesis
  proof (cases "fresh_seq S ?s")
    case False
    then have "window_step p seq = (False, p)"
      using le fresh and64 big by (auto simp: window_step_def Let_def)
    with False show ?thesis by (intro exI [of _ False] exI [of _ p]) simp
  next
    case True
    let ?b = "ps_bitmap p OR push_bit ?d 1"
    have step: "window_step p seq = (True, p\<lparr>ps_bitmap := ?b\<rparr>)"
      using le fresh and64 big True by (auto simp: window_step_def Let_def)
    have bits: "bit ?b i \<longleftrightarrow> i \<le> ?h \<and> ?h - i \<in> insert ?s S" if i: "i < 64" for i
    proof -
      have "bit ?b i \<longleftrightarrow> i = ?d \<or> bit (ps_bitmap p) i"
        using i by (auto simp: bit_or_iff bit_exp_iff)
      also have "\<dots> \<longleftrightarrow> i = ?d \<or> i \<le> ?h \<and> ?h - i \<in> S"
        using w i unfolding window_repr_def by blast
      finally show ?thesis using hs d by auto
    qed
    have "window_repr (ps_high p) ?b (insert ?s S)"
      using w hs s0 ne bits unfolding window_repr_def by auto
    with step True show ?thesis by (intro exI [of _ True] exI [of _ "p\<lparr>ps_bitmap := ?b\<rparr>"]) simp
  qed
qed

lemma window_step_spec:
  assumes w: "window_repr (ps_high p) (ps_bitmap p) S" and nz: "seq \<noteq> 0"
  shows "\<exists>ok p'. window_step p seq = (ok, p') \<and> (ok \<longleftrightarrow> fresh_seq S (unat seq)) \<and>
    (if ok then window_repr (ps_high p') (ps_bitmap p') (insert (unat seq) S) else p' = p)"
  using window_ahead [OF w] window_behind [OF w _ nz] by (cases "ps_high p < seq") auto

lemma window_step_frame:
  "window_step p seq = (ok, p') \<Longrightarrow>
     ps_epoch p' = ps_epoch p \<and> ps_retired p' = ps_retired p \<and> ps_key p' = ps_key p \<and>
     ps_peer p' = ps_peer p \<and> ps_obj p' = ps_obj p \<and> ps_active p' = ps_active p \<and>
     ps_pending p' = ps_pending p \<and> ps_candidates p' = ps_candidates p \<and> ps_local p' = ps_local p \<and>
     ps_send_epoch p' = ps_send_epoch p"
  by (auto simp: window_step_def Let_def split: if_splits)

section \<open>The guard over a whole session\<close>

text \<open>
  \<open>H\<close> is the set of all (epoch, sequence number) pairs the guard has ever accepted for the
  peer. The record the code keeps (current window, retired epochs) determines enough of it.
\<close>

definition seen_in :: "(string \<times> nat) set \<Rightarrow> string \<Rightarrow> nat set" where
  "seen_in H e = {s. (e, s) \<in> H}"

definition guard_inv :: "peer_state \<Rightarrow> (string \<times> nat) set \<Rightarrow> bool" where
  "guard_inv p H \<longleftrightarrow>
     window_repr (ps_high p) (ps_bitmap p) (seen_in H (ps_epoch p)) \<and>
     (ps_epoch p = [] \<longrightarrow> H = {}) \<and> ps_epoch p \<notin> set (ps_retired p) \<and>
     (\<forall>(e, s) \<in> H. e = ps_epoch p \<or> e \<in> set (ps_retired p)) \<and>
     distinct (ps_retired p) \<and> length (ps_retired p) \<le> 64"

text \<open>The contract, over the abstract history.\<close>

definition may_accept :: "peer_state \<Rightarrow> (string \<times> nat) set \<Rightarrow> frame \<Rightarrow> bool" where
  "may_accept p H f \<longleftrightarrow>
     length (f_epoch f) = 32 \<and> f_seq f \<noteq> 0 \<and>
     (if f_epoch f = ps_epoch p then fresh_seq (seen_in H (f_epoch f)) (unat (f_seq f))
      else f_epoch f \<notin> set (ps_retired p) \<and> (ps_epoch p = [] \<or> f_type f = ''discover'') \<and>
           length (ps_retired p) < 64)"

definition frame_key :: "frame \<Rightarrow> string \<times> nat" where
  "frame_key f = (f_epoch f, unat (f_seq f))"

lemma seen_in_insert [simp]:
  "seen_in (insert (e', s) H) e = (if e = e' then insert s (seen_in H e) else seen_in H e)"
  by (auto simp: seen_in_def)

lemma new_epoch_inv:
  assumes "guard_inv p H" and "e \<noteq> []" and "e \<noteq> ps_epoch p" and "e \<notin> set (ps_retired p)"
    and "length (ps_retired p) < 64"
  shows "guard_inv (new_epoch p e) H" "seen_in H e = {}"
proof -
  show none: "seen_in H e = {}" using assms by (auto simp: guard_inv_def seen_in_def)
  show "guard_inv (new_epoch p e) H"
    using assms none by (auto simp: guard_inv_def new_epoch_def)
qed

lemma guard_inv_window:
  assumes inv: "guard_inv p H" and e: "f_epoch f = ps_epoch p" "length (f_epoch f) = 32"
    and nz: "f_seq f \<noteq> 0" and step: "window_step p (f_seq f) = (ok, p')"
  shows "(ok \<longleftrightarrow> fresh_seq (seen_in H (f_epoch f)) (unat (f_seq f))) \<and>
    (if ok then guard_inv p' (insert (frame_key f) H) else p' = p)"
proof -
  have repr: "window_repr (ps_high p) (ps_bitmap p) (seen_in H (ps_epoch p))"
    using inv by (simp add: guard_inv_def)
  from window_step_spec [OF repr nz] step e
  have ok: "ok \<longleftrightarrow> fresh_seq (seen_in H (f_epoch f)) (unat (f_seq f))"
    and w: "if ok then window_repr (ps_high p') (ps_bitmap p') (insert (unat (f_seq f)) (seen_in H (f_epoch f))) else p' = p"
    by auto
  have "guard_inv p' (insert (frame_key f) H)" if ok
    using that w inv window_step_frame [OF step] e by (auto simp: guard_inv_def frame_key_def)
  with ok w show ?thesis by simp
qed

lemma accept_refines:
  assumes inv: "guard_inv p H" and acc: "accept p f = (ok, p')"
  shows "(ok \<longleftrightarrow> may_accept p H f) \<and>
    (if ok then guard_inv p' (insert (frame_key f) H) else p' = p)"
proof (cases "length (f_epoch f) \<noteq> 32 \<or> f_seq f = 0")
  case True
  with acc show ?thesis by (auto simp: accept_def may_accept_def)
next
  case False
  then have len: "length (f_epoch f) = 32" and nz: "f_seq f \<noteq> 0" by auto
  show ?thesis
  proof (cases "f_epoch f = ps_epoch p")
    case True
    with acc len nz have "window_step p (f_seq f) = (ok, p')" by (simp add: accept_def)
    from guard_inv_window [OF inv True len nz this] True len nz show ?thesis
      by (simp add: may_accept_def)
  next
    case new: False
    show ?thesis
    proof (cases "may_accept p H f")
      case False
      with acc new len nz show ?thesis by (auto simp: accept_def may_accept_def)
    next
      case True
      let ?q = "new_epoch p (f_epoch f)"
      have step: "window_step ?q (f_seq f) = (ok, p')"
        using acc True new len nz by (auto simp: accept_def may_accept_def)
      have "f_epoch f \<noteq> []" using len by auto
      with new_epoch_inv [OF inv] True new
      have q: "guard_inv ?q H" and none: "seen_in H (f_epoch f) = {}" by (auto simp: may_accept_def)
      have "f_epoch f = ps_epoch ?q" by (simp add: new_epoch_def)
      from guard_inv_window [OF q this len nz step] none True show ?thesis
        by (simp add: fresh_seq_def)
    qed
  qed
qed

lemma may_accept_fresh:
  assumes "guard_inv p H" and "may_accept p H f"
  shows "frame_key f \<notin> H"
proof -
  have "f_epoch f \<noteq> []" using assms(2) by (auto simp: may_accept_def)
  then show ?thesis
    using assms new_epoch_inv(2) [OF assms(1), of "f_epoch f"]
    by (auto simp: may_accept_def frame_key_def fresh_seq_def seen_in_def split: if_splits)
qed

interpretation frames: replay_guard accept frame_key guard_inv
proof
  fix p H f p' assume inv: "guard_inv p H"
  show "accept p f = (True, p') \<Longrightarrow> frame_key f \<notin> H \<and> guard_inv p' (insert (frame_key f) H)"
    using accept_refines [OF inv] may_accept_fresh [OF inv] by fastforce
  show "accept p f = (False, p') \<Longrightarrow> p' = p"
    using accept_refines [OF inv] by fastforce
qed

section \<open>Properties\<close>

text \<open>
  C2. The replay guard implements its contract: in a state that represents the history
  \<open>H\<close>, a frame is accepted exactly when its epoch is current and its number is new and at
  most 63 behind the highest, or its epoch is unused, announced by a discovery frame (or the
  first ever) and fewer than 64 epochs are retired; an accepted frame joins the history and
  a refused one changes nothing.
\<close>

theorem accept_contract:
  assumes "guard_inv p H" and "accept p f = (ok, p')"
  shows "(ok \<longleftrightarrow> may_accept p H f) \<and>
    (if ok then guard_inv p' (insert (frame_key f) H) else p' = p)"
  using assms by (rule accept_refines)

text \<open>
  C3. Whatever frames are offered to the guard, and in whatever order, no pair of epoch and
  sequence number is ever accepted twice, across any number of changes of epoch.
\<close>

theorem no_frame_twice:
  assumes "guard_inv p {}"
  shows "distinct (accepted_keys accept frame_key p fs)"
  using assms by (rule frames.never_twice)

definition fresh_peer :: "nat \<Rightarrow> string \<Rightarrow> peer \<Rightarrow> byte list \<Rightarrow> nat option \<Rightarrow> peer_state" where
  "fresh_peer obj sendEpoch spec key sock = \<lparr>ps_obj = obj, ps_send_epoch = sendEpoch, ps_send_seq = 0,
     ps_health = Map.empty, ps_peer = spec, ps_key = key, ps_local = sock, ps_candidates = [],
     ps_active = None, ps_ack = zero_time, ps_success = 0, ps_pending = Map.empty, ps_epoch = [],
     ps_high = 0, ps_bitmap = 0, ps_retired = [], ps_rtt = 0, ps_sent = 0, ps_received = 0,
     ps_reason = ''awaiting LAN proof''\<rparr>"

lemma fresh_peer_guard: "guard_inv (fresh_peer obj e spec key sock) {}"
  by (simp add: guard_inv_def fresh_peer_def seen_in_def)

lemma accept_contract_witness:
  "\<exists>p'. accept (fresh_peer 0 [] (peer.make [] [] [] []) [] None) (sample_lan\<lparr>f_seq := 9\<rparr>) = (True, p')"
proof -
  let ?p = "fresh_peer 0 [] (peer.make [] [] [] []) [] None" and ?f = "sample_lan\<lparr>f_seq := 9\<rparr>"
  obtain ok p' where a: "accept ?p ?f = (ok, p')" by (metis prod.exhaust)
  have "may_accept ?p {} ?f"
    by (simp add: may_accept_def fresh_peer_def sample_lan_def fresh_seq_def seen_in_def)
  with accept_contract [OF fresh_peer_guard a] a show ?thesis by simp
qed

lemma no_frame_twice_witness:
  "distinct (accepted_keys accept frame_key (fresh_peer 0 [] (peer.make [] [] [] []) [] None)
     [sample_lan, sample_lan, sample_lan\<lparr>f_seq := 9\<rparr>])"
  by (rule no_frame_twice [OF fresh_peer_guard])

end
