(* ===== verification/Path_Manager.thy ===== *)
theory Path_Manager
  imports Peer_State
begin

text \<open>
  \<open>overlay/pathmanager/manager.go\<close>: the manager that carries WireGuard datagrams of each
  authorized peer over a proven LAN path or over the relay. Every section the code runs
  under its mutex is a function here; the operations compose the sections in the code's
  order. Readings of the clock, random nonces, network interfaces and the outcome of socket
  calls are arguments. Packets leave as \<open>packet\<close> values; the relay channel is a list.
\<close>

section \<open>State\<close>

record options =
  ProbeInterval :: int
  FailureAfter :: int
  PromoteAfter :: int
  hook_candidates :: "(nat \<Rightarrow> string list) option"
  hook_on_link :: "(addr_port \<Rightarrow> bool) option"

record manager =
  m_cfg :: mesh_config
  m_opt :: options
  m_private :: string
  m_relay_key :: "byte list"
  m_prefixes :: "prefix list"
  m_peers :: "string \<rightharpoonup> peer_state"
  m_relay :: "nat option"
  m_outbound :: "frame list"
  m_expiry :: int
  m_wg :: "addr_port option"
  m_running :: bool
  m_lan_port :: nat
  m_next_obj :: nat

datatype packet = ToLan "byte list" addr_port | ToWG "byte list"

definition set_peer :: "manager \<Rightarrow> string \<Rightarrow> peer_state \<Rightarrow> manager" where
  "set_peer m i p = m\<lparr>m_peers := (m_peers m)(i \<mapsto> p)\<rparr>"

section \<open>Construction\<close>

definition default_options :: "options \<Rightarrow> options" where
  "default_options opt = opt\<lparr>
     ProbeInterval := (if ProbeInterval opt \<le> 0 then second else ProbeInterval opt),
     FailureAfter := (if FailureAfter opt \<le> 0 then 4 * second else FailureAfter opt),
     PromoteAfter := (if PromoteAfter opt \<le> 0 then 3 else PromoteAfter opt)\<rparr>"

fun new_peers :: "wire_prims \<Rightarrow> mesh_config \<Rightarrow> string \<Rightarrow> (nat \<Rightarrow> string) \<Rightarrow> nat \<Rightarrow>
    (string \<rightharpoonup> peer_state) \<Rightarrow> peer list \<Rightarrow> error + (string \<rightharpoonup> peer_state)" where
  "new_peers P c private nonce k acc [] = Inr acc"
| "new_peers P c private nonce k acc (p # ps) =
     bindR (wire_key P private (PublicKey p) (mc_network c) ''peer'') (\<lambda>key.
       new_peers P c private nonce (Suc k)
         (acc(DeviceID p \<mapsto> fresh_peer k (nonce k) p key None)) ps)"

definition new_manager :: "wire_prims \<Rightarrow> (string \<Rightarrow> bool) \<Rightarrow> gotime \<Rightarrow> gotime \<Rightarrow> prefix list \<Rightarrow>
    (nat \<Rightarrow> string) \<Rightarrow> mesh_config \<Rightarrow> string \<Rightarrow> options \<Rightarrow> error + manager" where
  "new_manager P resolve n1 n2 prefixes nonce c private opt =
     checkR (mesh_config_validate resolve n1 n2 c)
       (bindR (wire_key P private (mc_gateway_key c) (mc_network c) ''relay'') (\<lambda>key.
          bindR (new_peers P c private nonce 0 Map.empty (mc_peers c)) (\<lambda>peers.
            Inr \<lparr>m_cfg = c, m_opt = default_options opt, m_private = private, m_relay_key = key,
              m_prefixes = prefixes, m_peers = peers, m_relay = None, m_outbound = [],
              m_expiry = nanos (mc_expires c), m_wg = parse_addr_port (mc_wg c), m_running = False,
              m_lan_port = 0, m_next_obj = length (mc_peers c)\<rparr>)))"

text \<open>
  \<open>Start\<close>: the LAN socket, then one socket per peer; \<open>ids\<close> is the order of the loop over
  the map, \<open>bind\<close> the results of the binds.
\<close>

fun start_peers :: "(string \<Rightarrow> error + nat) \<Rightarrow> string list \<Rightarrow> manager \<Rightarrow> error + manager" where
  "start_peers bind [] m = Inr m"
| "start_peers bind (i # js) m =
     bindR (bind i) (\<lambda>s. start_peers bind js
       (case m_peers m i of None \<Rightarrow> m | Some p \<Rightarrow> set_peer m i (p\<lparr>ps_local := Some s\<rparr>)))"

definition start_manager :: "(error + nat) \<Rightarrow> (string \<Rightarrow> error + nat) \<Rightarrow> string list \<Rightarrow> manager \<Rightarrow> error + manager" where
  "start_manager lan bind ids m =
     bindR lan (\<lambda>port. start_peers bind ids (m\<lparr>m_running := True, m_lan_port := port\<rparr>))"

section \<open>Interfaces, candidates, on-link addresses\<close>

record iface =
  if_name :: string
  if_up :: bool
  if_loopback :: bool
  if_addrs :: "string list"

definition physical_prefixes :: "mesh_config \<Rightarrow> iface list \<Rightarrow> prefix list" where
  "physical_prefixes c ifs = concat (map (\<lambda>i.
     let name = to_lower (if_name i) in
     if \<not> if_up i \<or> if_loopback i \<or> if_name i = mc_interface c \<or> has_prefix name ''utun'' \<or>
        has_prefix name ''tun'' \<or> has_prefix name ''wg'' \<or> has_prefix name ''xcon''
     then [] else List.map_filter parse_prefix (if_addrs i)) ifs)"

definition candidates :: "manager \<Rightarrow> string list" where
  "candidates m =
     (case hook_candidates (m_opt m) of
        Some h \<Rightarrow> h (m_lan_port m)
      | None \<Rightarrow>
          take 32 (map (\<lambda>x. show_addr_port \<lparr>ap_addr = pfx_addr x, ap_port = m_lan_port m\<rparr>)
            (filter (\<lambda>x. is4 (pfx_addr x) \<and> is_private (pfx_addr x)) (m_prefixes m))))"

definition on_link :: "manager \<Rightarrow> addr_port \<Rightarrow> bool" where
  "on_link m a =
     (case hook_on_link (m_opt m) of
        Some h \<Rightarrow> h a
      | None \<Rightarrow>
          if ap_port a = 0 \<or> \<not> is4 (ap_addr a) \<or> \<not> is_private (ap_addr a) then False
          else if (case parse_prefix (mc_overlay_cidr (m_cfg m)) of
                     None \<Rightarrow> False | Some o' \<Rightarrow> contains o' (ap_addr a)) then False
          else list_ex (\<lambda>x. contains x (ap_addr a)) (m_prefixes m))"

section \<open>Sending\<close>

definition mk_frame :: "manager \<Rightarrow> peer_state \<Rightarrow> string \<Rightarrow> frame \<times> peer_state" where
  "mk_frame m p typ =
     (let p' = p\<lparr>ps_send_seq := ps_send_seq p + 1\<rparr> in
      (empty_frame\<lparr>f_type := typ, f_network := mc_network (m_cfg m), f_from := mc_device (m_cfg m),
         f_to := DeviceID (ps_peer p), f_epoch := ps_send_epoch p, f_seq := ps_send_seq p'\<rparr>, p'))"

definition send_lan :: "wire_prims \<Rightarrow> manager \<Rightarrow> frame \<Rightarrow> addr_port \<Rightarrow> gotime \<Rightarrow> bool \<Rightarrow>
    error option \<times> packet list" where
  "send_lan P m f a now written =
     (if (case m_peers m (f_to f) of
            None \<Rightarrow> False
          | Some p \<Rightarrow> f_epoch f = ps_send_epoch p \<and> nanos now < m_expiry m)
      then (case encode_lan P f of
              Inl e \<Rightarrow> (Some e, [])
            | Inr b \<Rightarrow> if written then (None, [ToLan b a]) else (Some (Plain ''write''), []))
      else (Some (Plain ''peer send authority withdrawn''), []))"

definition send_relay :: "manager \<Rightarrow> frame \<Rightarrow> gotime \<Rightarrow> error option \<times> manager" where
  "send_relay m f now =
     (if nanos now \<ge> m_expiry m then (Some (Plain ''relay send authority expired''), m)
      else if length (m_outbound m) < 256 then (None, m\<lparr>m_outbound := m_outbound m @ [f]\<rparr>)
      else (Some (Plain ''relay queue full''), m))"

text \<open>
  One turn of the relay writer for the frame at the head of the channel: dropped when it is
  no longer valid, held while there is no connection, else written.
\<close>

datatype relay_turn = Drop | Hold | WriteTo nat

definition relay_writer_turn :: "wire_prims \<Rightarrow> manager \<Rightarrow> frame \<Rightarrow> gotime \<Rightarrow> relay_turn" where
  "relay_writer_turn P m f now =
     (let live = nanos now < m_expiry m;
          ok = (case m_peers m (f_to f) of
                  Some p \<Rightarrow> f_epoch f = ps_send_epoch p \<and> live \<and> verify_frame P f (ps_key p)
                | None \<Rightarrow> f_type f = ''keepalive'' \<and> live)
      in if \<not> ok then Drop else case m_relay m of None \<Rightarrow> Hold | Some c \<Rightarrow> WriteTo c)"

text \<open>
  One datagram from WireGuard: \<open>i\<close> and \<open>obj\<close> name the peer whose socket received it,
  \<open>t1\<close> and \<open>t2\<close> are the readings of the clock in \<open>sendLAN\<close> and \<open>sendRelay\<close>.
\<close>

definition read_wg :: "wire_prims \<Rightarrow> manager \<Rightarrow> string \<Rightarrow> nat \<Rightarrow> byte list \<Rightarrow> addr_port \<Rightarrow> gotime \<Rightarrow>
    gotime \<Rightarrow> bool \<Rightarrow> manager \<times> packet list" where
  "read_wg P m i obj b src t1 t2 written =
     (if Some src \<noteq> m_wg m \<or> length b = 4096 then (m, [])
      else case m_peers m i of
          None \<Rightarrow> (m, [])
        | Some p \<Rightarrow>
            if ps_obj p \<noteq> obj then (m, [])
            else
              (case mk_frame m (p\<lparr>ps_sent := ps_sent p + 1\<rparr>) ''data'' of
                 (f, p') \<Rightarrow>
                   let m' = set_peer m i p'; g = sign_frame P (f\<lparr>f_payload := b\<rparr>) (ps_key p)
                   in case ps_active p' of
                        Some a \<Rightarrow>
                          (case send_lan P m' g a t1 written of
                             (None, out) \<Rightarrow> (m', out)
                           | (Some e, out) \<Rightarrow> (snd (send_relay m' g t2), out))
                      | None \<Rightarrow> (snd (send_relay m' g t2), [])))"

section \<open>Receiving\<close>

text \<open>
  The checks before the peer's state is touched: the sender is configured, the frame is
  addressed here, authentic and in time, and a datagram came from an on-link address. The
  result is the identity of the peer object the checks were made for.
\<close>

definition receive_gate :: "wire_prims \<Rightarrow> manager \<Rightarrow> frame \<Rightarrow> addr_port option \<Rightarrow> gotime \<Rightarrow> nat option" where
  "receive_gate P m f src now =
     (case m_peers m (f_from f) of
        None \<Rightarrow> None
      | Some p \<Rightarrow>
          if f_network f \<noteq> mc_network (m_cfg m) \<or> f_to f \<noteq> mc_device (m_cfg m) \<or>
             \<not> verify_frame P f (ps_key p) \<or> nanos now \<ge> m_expiry m
          then None
          else (case src of
                  Some a \<Rightarrow> if on_link m a then Some (ps_obj p) else None
                | None \<Rightarrow> Some (ps_obj p)))"

definition on_discover :: "manager \<Rightarrow> peer_state \<Rightarrow> frame \<Rightarrow> addr_port option \<Rightarrow> peer_state" where
  "on_discover m p f src =
     (if src \<noteq> None \<or> length (f_candidates f) > 32 then p
      else
        (let cs = filter (on_link m) (List.map_filter parse_addr_port (f_candidates f));
             p1 = p\<lparr>ps_health := (\<lambda>a. if a \<in> set cs then ps_health p a else None),
                    ps_pending := (\<lambda>n. case ps_pending p n of
                        None \<Rightarrow> None
                      | Some pb \<Rightarrow> if pb_address pb \<in> set cs then Some pb else None),
                    ps_candidates := cs\<rparr>
         in case ps_active p1 of
              None \<Rightarrow> p1
            | Some a \<Rightarrow>
                if a \<in> set cs then p1
                else p1\<lparr>ps_active := None, ps_success := 0, ps_reason := ''LAN candidate changed''\<rparr>))"

text \<open>The readings of the clock in the code's order: \<open>clk 1\<close> to \<open>clk 4\<close>.\<close>

definition on_ack :: "manager \<Rightarrow> peer_state \<Rightarrow> frame \<Rightarrow> addr_port option \<Rightarrow> (nat \<Rightarrow> gotime) \<Rightarrow> peer_state" where
  "on_ack m p f src clk =
     (let p1 = p\<lparr>ps_pending := (ps_pending p)(f_nonce f := None)\<rparr> in
      case (ps_pending p (f_nonce f), src) of
        (Some pb, Some a) \<Rightarrow>
          if a \<noteq> pb_address pb \<or> sub_time (clk 1) (pb_sent pb) > FailureAfter (m_opt m) then p1
          else
            (let h0 = (case ps_health p1 a of
                         None \<Rightarrow> \<lparr>ch_ack = zero_time, ch_success = 0, ch_rtt = 0\<rparr> | Some h \<Rightarrow> h);
                 h1 = (if sub_time (clk 2) (ch_ack h0) > FailureAfter (m_opt m)
                       then h0\<lparr>ch_success := 0\<rparr> else h0);
                 h = h1\<lparr>ch_ack := clk 3, ch_rtt := sub_time (clk 4) (pb_sent pb),
                       ch_success := ch_success h1 + 1\<rparr>;
                 p2 = p1\<lparr>ps_health := (ps_health p1)(a \<mapsto> h)\<rparr>;
                 p3 = (if ps_active p2 = Some a then p2\<lparr>ps_ack := ch_ack h, ps_rtt := ch_rtt h\<rparr> else p2)
             in if ps_active p3 = None \<and> ch_success h \<ge> PromoteAfter (m_opt m)
                then p3\<lparr>ps_active := Some a, ps_ack := ch_ack h, ps_rtt := ch_rtt h,
                        ps_reason := ''authenticated LAN probes healthy''\<rparr>
                else p3)
      | _ \<Rightarrow> p1)"

datatype followup = Done | ReplyTo string addr_port | Deliver "byte list"

definition receive_locked :: "manager \<Rightarrow> nat \<Rightarrow> frame \<Rightarrow> addr_port option \<Rightarrow> (nat \<Rightarrow> gotime) \<Rightarrow>
    manager \<times> followup" where
  "receive_locked m obj f src clk =
     (case m_peers m (f_from f) of
        None \<Rightarrow> (m, Done)
      | Some p \<Rightarrow>
          if ps_obj p \<noteq> obj then (m, Done)
          else
            (case accept p f of
               (False, p1) \<Rightarrow> (set_peer m (f_from f) p1, Done)
             | (True, p1) \<Rightarrow>
                 if f_type f = ''discover'' then
                   (set_peer m (f_from f) (on_discover m p1 f src), Done)
                 else if f_type f = ''probe'' then
                   (set_peer m (f_from f) p1,
                    case src of
                      None \<Rightarrow> Done
                    | Some a \<Rightarrow> if length (f_nonce f) \<noteq> 32 then Done else ReplyTo (f_nonce f) a)
                 else if f_type f = ''ack'' then
                   (set_peer m (f_from f) (on_ack m p1 f src clk), Done)
                 else if f_type f = ''data'' then
                   (set_peer m (f_from f) (p1\<lparr>ps_received := ps_received p1 + 1\<rparr>),
                    if f_payload f = [] \<or> length (f_payload f) > 4096 then Done
                    else Deliver (f_payload f))
                 else (set_peer m (f_from f) p1, Done)))"

text \<open>
  The answer to a probe: a frame of the peer's own sequence, sent to where the probe came
  from. \<open>receive\<close> is the whole handler when nothing else runs between its sections.
\<close>

definition send_reply :: "wire_prims \<Rightarrow> manager \<Rightarrow> string \<Rightarrow> string \<Rightarrow> addr_port \<Rightarrow> gotime \<Rightarrow> bool \<Rightarrow>
    manager \<times> packet list" where
  "send_reply P m i nonce a now written =
     (case m_peers m i of
        None \<Rightarrow> (m, [])
      | Some p \<Rightarrow>
          (case mk_frame m p ''ack'' of
             (f, p') \<Rightarrow>
               let m' = set_peer m i p'
               in (m', snd (send_lan P m' (sign_frame P (f\<lparr>f_nonce := nonce\<rparr>) (ps_key p)) a now written))))"

definition receive :: "wire_prims \<Rightarrow> manager \<Rightarrow> frame \<Rightarrow> addr_port option \<Rightarrow> (nat \<Rightarrow> gotime) \<Rightarrow> bool \<Rightarrow>
    manager \<times> packet list" where
  "receive P m f src clk written =
     (case receive_gate P m f src (clk 0) of
        None \<Rightarrow> (m, [])
      | Some obj \<Rightarrow>
          (case receive_locked m obj f src clk of
             (m', Done) \<Rightarrow> (m', [])
           | (m', Deliver b) \<Rightarrow> (m', [ToWG b])
           | (m', ReplyTo nonce a) \<Rightarrow> send_reply P m' (f_from f) nonce a (clk 5) written))"

definition read_lan :: "wire_prims \<Rightarrow> manager \<Rightarrow> string list \<Rightarrow> byte list \<Rightarrow> addr_port \<Rightarrow> (nat \<Rightarrow> gotime) \<Rightarrow>
    bool \<Rightarrow> manager \<times> packet list" where
  "read_lan P m ids b src clk written =
     (case decode_lan P b (mc_network (m_cfg m)) (mc_device (m_cfg m)) ids of
        Inl e \<Rightarrow> (m, [])
      | Inr f \<Rightarrow> receive P m f (Some src) clk written)"

section \<open>Probing\<close>

text \<open>
  What one tick reads for a peer: the clock at the discovery message, at the check of the
  selected path, for each pending probe, and per candidate the nonce, the time the probe is
  registered, the time it is sent and whether the write succeeded.
\<close>

record probe_inputs =
  pi_discover :: gotime
  pi_active :: gotime
  pi_pending :: "string \<Rightarrow> gotime"
  pi_nonce :: "nat \<Rightarrow> string"
  pi_sent :: "nat \<Rightarrow> gotime"
  pi_send :: "nat \<Rightarrow> gotime"
  pi_written :: "nat \<Rightarrow> bool"

definition probe_timeouts :: "options \<Rightarrow> probe_inputs \<Rightarrow> peer_state \<Rightarrow> peer_state" where
  "probe_timeouts opt x p =
     (let p1 = (if ps_active p \<noteq> None \<and> sub_time (pi_active x) (ps_ack p) > FailureAfter opt
                then p\<lparr>ps_active := None, ps_success := 0, ps_reason := ''LAN probes timed out''\<rparr>
                else p)
      in p1\<lparr>ps_pending := (\<lambda>n. case ps_pending p1 n of
             None \<Rightarrow> None
           | Some pb \<Rightarrow> if sub_time (pi_pending x n) (pb_sent pb) > FailureAfter opt then None else Some pb)\<rparr>)"

definition register_probe :: "string \<Rightarrow> addr_port \<Rightarrow> gotime \<Rightarrow> peer_state \<Rightarrow> peer_state" where
  "register_probe nonce a now p =
     p\<lparr>ps_pending := (ps_pending p)(nonce \<mapsto> \<lparr>pb_address = a, pb_sent = now\<rparr>)\<rparr>"

fun probe_addresses :: "wire_prims \<Rightarrow> string \<Rightarrow> probe_inputs \<Rightarrow> nat \<Rightarrow> addr_port list \<Rightarrow> manager \<Rightarrow>
    packet list \<Rightarrow> manager \<times> packet list" where
  "probe_addresses P i x k [] m out = (m, out)"
| "probe_addresses P i x k (a # as) m out =
     (case m_peers m i of
        None \<Rightarrow> (m, out)
      | Some p \<Rightarrow>
          (case mk_frame m p ''probe'' of
             (f, p') \<Rightarrow>
               let m' = set_peer m i (register_probe (pi_nonce x k) a (pi_sent x k) p');
                   g = sign_frame P (f\<lparr>f_nonce := pi_nonce x k\<rparr>) (ps_key p)
               in probe_addresses P i x (Suc k) as m'
                    (out @ snd (send_lan P m' g a (pi_send x k) (pi_written x k)))))"

definition probe_peer :: "wire_prims \<Rightarrow> string list \<Rightarrow> probe_inputs \<Rightarrow> string \<Rightarrow> manager \<Rightarrow>
    manager \<times> packet list" where
  "probe_peer P cands x i m =
     (case m_peers m i of
        None \<Rightarrow> (m, [])
      | Some p \<Rightarrow>
          (case mk_frame m p ''discover'' of
             (f, p') \<Rightarrow>
               let m1 = set_peer m i p';
                   m2 = snd (send_relay m1 (sign_frame P (f\<lparr>f_candidates := cands\<rparr>) (ps_key p)) (pi_discover x));
                   p2 = probe_timeouts (m_opt m) x p'
               in probe_addresses P i x 0 (ps_candidates p2) (set_peer m2 i p2) []))"

fun probe_peers :: "wire_prims \<Rightarrow> string list \<Rightarrow> (string \<Rightarrow> probe_inputs) \<Rightarrow> string list \<Rightarrow> manager \<Rightarrow>
    manager \<times> packet list" where
  "probe_peers P cands x [] m = (m, [])"
| "probe_peers P cands x (i # js) m =
     (case probe_peer P cands (x i) i m of
        (m1, out1) \<Rightarrow> (case probe_peers P cands x js m1 of (m2, out2) \<Rightarrow> (m2, out1 @ out2)))"

text \<open>\<open>ids\<close> is the order in which the snapshot of the map of peers lists them.\<close>

definition probe_tick :: "wire_prims \<Rightarrow> manager \<Rightarrow> iface list \<Rightarrow> string list \<Rightarrow> gotime \<Rightarrow> gotime \<Rightarrow>
    (string \<Rightarrow> probe_inputs) \<Rightarrow> manager \<times> packet list" where
  "probe_tick P m ifs ids now final x =
     (if nanos now \<ge> m_expiry m then (m\<lparr>m_running := False\<rparr>, [])
      else
        (let m1 = m\<lparr>m_prefixes := physical_prefixes (m_cfg m) ifs\<rparr> in
         case probe_peers P (candidates m1) x ids m1 of
           (m2, out) \<Rightarrow>
             (snd (send_relay m2 (sign_frame P (empty_frame\<lparr>f_type := ''keepalive'',
                f_network := mc_network (m_cfg m2), f_from := mc_device (m_cfg m2)\<rparr>) (m_relay_key m2)) final),
              out)))"

section \<open>The relay session\<close>

definition relay_auth :: "wire_prims \<Rightarrow> manager \<Rightarrow> frame \<Rightarrow> frame option" where
  "relay_auth P m challenge =
     (if f_type challenge \<noteq> ''challenge'' \<or> length (f_nonce challenge) \<noteq> 32 then None
      else Some (sign_frame P (empty_frame\<lparr>f_type := ''auth'', f_network := mc_network (m_cfg m),
        f_from := mc_device (m_cfg m), f_nonce := f_nonce challenge\<rparr>) (m_relay_key m)))"

definition relay_welcome :: "wire_prims \<Rightarrow> manager \<Rightarrow> nat \<Rightarrow> frame \<Rightarrow> frame \<Rightarrow> manager option" where
  "relay_welcome P m conn challenge welcome =
     (if f_type welcome \<noteq> ''welcome'' \<or> f_nonce welcome \<noteq> f_nonce challenge \<or>
         f_network welcome \<noteq> mc_network (m_cfg m) \<or> f_to welcome \<noteq> mc_device (m_cfg m) \<or>
         \<not> verify_frame P welcome (m_relay_key m)
      then None else Some (m\<lparr>m_relay := Some conn\<rparr>))"

definition relay_closed :: "manager \<Rightarrow> nat \<Rightarrow> manager" where
  "relay_closed m conn = (if m_relay m = Some conn then m\<lparr>m_relay := None\<rparr> else m)"

text \<open>One frame from the relay; \<open>None\<close> ends the session.\<close>

definition relay_incoming :: "wire_prims \<Rightarrow> manager \<Rightarrow> frame \<Rightarrow> (nat \<Rightarrow> gotime) \<Rightarrow> bool \<Rightarrow>
    (manager \<times> packet list) option" where
  "relay_incoming P m f clk written =
     (if f_type f = ''keepalive'' then
        (if verify_frame P f (m_relay_key m) then Some (m, []) else None)
      else Some (receive P m f None clk written))"

section \<open>Reconfiguration\<close>

text \<open>
  The loop over the peers of a new configuration: an unchanged peer keeps its object, any
  other gets a new one with a key, a socket (\<open>listen k\<close> is the result of the \<open>k\<close>-th bind)
  and a nonce. The result carries the objects created so far, also on failure.
\<close>

definition kept_peer :: "manager \<Rightarrow> peer \<Rightarrow> peer_state option" where
  "kept_peer m spec =
     (case m_peers m (DeviceID spec) of
        None \<Rightarrow> None
      | Some old \<Rightarrow> if ps_peer old = spec then Some old else None)"

fun reconf_loop :: "wire_prims \<Rightarrow> manager \<Rightarrow> mesh_config \<Rightarrow> (nat \<Rightarrow> string) \<Rightarrow> (nat \<Rightarrow> error + nat) \<Rightarrow>
    (string \<rightharpoonup> peer_state) \<Rightarrow> peer_state list \<Rightarrow> peer list \<Rightarrow>
    (error + (string \<rightharpoonup> peer_state)) \<times> peer_state list" where
  "reconf_loop P m c nonce listen nxt created [] = (Inr nxt, created)"
| "reconf_loop P m c nonce listen nxt created (spec # specs) =
     (case kept_peer m spec of
        Some old \<Rightarrow> reconf_loop P m c nonce listen (nxt(DeviceID spec \<mapsto> old)) created specs
      | None \<Rightarrow>
     (case wire_key P (m_private m) (PublicKey spec) (mc_network c) ''peer'' of
        Inl e \<Rightarrow> (Inl e, created)
      | Inr key \<Rightarrow>
     (case listen (length created) of
        Inl e \<Rightarrow> (Inl e, created)
      | Inr sock \<Rightarrow>
          (let p = fresh_peer (m_next_obj m + length created) (nonce (length created)) spec key (Some sock)
           in reconf_loop P m c nonce listen (nxt(DeviceID spec \<mapsto> p)) (created @ [p]) specs))))"

text \<open>What \<open>Reconfigure\<close> leaves: the error, the manager and the sockets it closed.\<close>

definition sockets :: "peer_state list \<Rightarrow> nat list" where
  "sockets ps = List.map_filter ps_local ps"

definition same_transport :: "mesh_config \<Rightarrow> mesh_config \<Rightarrow> bool" where
  "same_transport c d \<longleftrightarrow>
     mc_network c = mc_network d \<and> mc_device c = mc_device d \<and> mc_gateway_key c = mc_gateway_key d \<and>
     mc_relay c = mc_relay d \<and> mc_lan_listen c = mc_lan_listen d \<and> mc_wg c = mc_wg d \<and>
     mc_interface c = mc_interface d \<and> mc_overlay_cidr c = mc_overlay_cidr d"

definition reconfigure :: "wire_prims \<Rightarrow> (string \<Rightarrow> bool) \<Rightarrow> gotime \<Rightarrow> gotime \<Rightarrow> (nat \<Rightarrow> string) \<Rightarrow>
    (nat \<Rightarrow> error + nat) \<Rightarrow> string list \<Rightarrow> manager \<Rightarrow> mesh_config \<Rightarrow>
    error option \<times> manager \<times> nat list" where
  "reconfigure P resolve n1 n2 nonce listen ids m c =
     (case mesh_config_validate resolve n1 n2 c of
        Some e \<Rightarrow> (Some e, m, [])
      | None \<Rightarrow>
          if \<not> same_transport c (m_cfg m) then (Some (Plain ''mesh transport identity changed''), m, [])
          else if \<not> m_running m then (Some (Plain ''path manager stopped''), m, [])
          else
            (case reconf_loop P m c nonce listen Map.empty [] (mc_peers c) of
               (Inl e, created) \<Rightarrow> (Some e, m, sockets created)
             | (Inr nxt, created) \<Rightarrow>
                 (None,
                  m\<lparr>m_peers := nxt, m_cfg := (m_cfg m)\<lparr>mc_peers := mc_peers c\<rparr>,
                    m_expiry := nanos (mc_expires c), m_next_obj := m_next_obj m + length created\<rparr>,
                  sockets (List.map_filter (\<lambda>i. case m_peers m i of
                       None \<Rightarrow> None
                     | Some p \<Rightarrow> if map_option ps_obj (nxt i) = Some (ps_obj p) then None else Some p) ids))))"

definition refresh_expiry :: "manager \<Rightarrow> gotime \<Rightarrow> manager" where
  "refresh_expiry m t = m\<lparr>m_expiry := nanos t\<rparr>"

section \<open>Status and report\<close>

record peer_status =
  st_device :: string
  st_path :: string
  st_endpoint :: string
  st_rtt_ms :: int
  st_reason :: string
  st_sent :: u64
  st_received :: u64

definition milliseconds :: "int \<Rightarrow> int" where
  "milliseconds d = (if d < 0 then - ((- d) div 1000000) else d div 1000000)"

text \<open>The loop over the configured peers; a peer without a state is a nil dereference.\<close>

definition peer_status_of :: "peer_state \<Rightarrow> peer_status" where
  "peer_status_of p =
     (let s = \<lparr>st_device = DeviceID (ps_peer p), st_path = ''relay'', st_endpoint = [], st_rtt_ms = 0,
               st_reason = ps_reason p, st_sent = ps_sent p, st_received = ps_received p\<rparr>
      in case ps_active p of
           None \<Rightarrow> s
         | Some a \<Rightarrow> s\<lparr>st_path := ''direct-lan'', st_endpoint := show_addr_port a,
                       st_rtt_ms := milliseconds (ps_rtt p)\<rparr>)"

fun status_loop :: "manager \<Rightarrow> peer list \<Rightarrow> peer_status list option" where
  "status_loop m [] = Some []"
| "status_loop m (spec # specs) =
     (case m_peers m (DeviceID spec) of
        None \<Rightarrow> None
      | Some p \<Rightarrow> map_option ((#) (peer_status_of p)) (status_loop m specs))"

definition manager_status :: "manager \<Rightarrow> peer_status list option" where
  "manager_status m = status_loop m (mc_peers (m_cfg m))"

record path_report =
  rp_network :: string
  rp_device :: string
  rp_role :: string
  rp_capabilities :: "string list"
  rp_healthy :: bool
  rp_updated :: gotime
  rp_expires :: gotime
  rp_paths :: "peer_status list"

definition path_report_of :: "manager \<Rightarrow> gotime \<Rightarrow> path_report option" where
  "path_report_of m now =
     (case manager_status m of
        None \<Rightarrow> None
      | Some paths \<Rightarrow>
          Some \<lparr>rp_network = mc_network (m_cfg m), rp_device = mc_device (m_cfg m), rp_role = ''one'',
            rp_capabilities = [''lan-udp-v1'', ''gateway-relay-v1''],
            rp_healthy = (m_relay m \<noteq> None \<or> list_ex (\<lambda>s. st_path s = ''direct-lan'') paths),
            rp_updated = to_utc now, rp_expires = \<lparr>nanos = m_expiry m, utc = True\<rparr>, rp_paths = paths\<rparr>)"

end
