(* ===== verification/Path_Runs.thy ===== *)
theory Path_Runs
  imports Path_Manager
begin

text \<open>
  What holds of the path manager over whole runs, in which the locked sections of its
  goroutines interleave: a frame is checked in one section and processed in a later one,
  and a reconfiguration, a probe tick or any other section may run in between.
\<close>

section \<open>What the sections keep\<close>

definition path_proven :: "peer_state \<Rightarrow> bool" where
  "path_proven p \<longleftrightarrow> (\<forall>a. ps_active p = Some a \<longrightarrow> (\<exists>h. ps_health p a = Some h \<and> ch_success h \<ge> 1))"

definition peer_frame :: "peer_state \<Rightarrow> peer_state \<Rightarrow> bool" where
  "peer_frame p q \<longleftrightarrow>
     ps_obj q = ps_obj p \<and> ps_key q = ps_key p \<and> ps_peer q = ps_peer p \<and>
     ps_send_epoch q = ps_send_epoch p \<and> ps_epoch q = ps_epoch p \<and> ps_high q = ps_high p \<and>
     ps_bitmap q = ps_bitmap p \<and> ps_retired q = ps_retired p \<and> (path_proven p \<longrightarrow> path_proven q)"

definition mgr_frame :: "manager \<Rightarrow> manager \<Rightarrow> bool" where
  "mgr_frame m n \<longleftrightarrow>
     m_cfg n = m_cfg m \<and> m_private n = m_private m \<and> m_next_obj n = m_next_obj m \<and>
     m_expiry n = m_expiry m \<and> m_opt n = m_opt m \<and>
     (\<forall>i. rel_option peer_frame (m_peers m i) (m_peers n i)) \<and>
     (length (m_outbound m) \<le> 256 \<longrightarrow> length (m_outbound n) \<le> 256)"

lemma peer_frame_refl [simp, intro]: "peer_frame p p"
  by (simp add: peer_frame_def)

lemma peer_frame_trans: "peer_frame p q \<Longrightarrow> peer_frame q r \<Longrightarrow> peer_frame p r"
  by (simp add: peer_frame_def)

lemma mgr_frame_refl: "mgr_frame m m"
  by (auto simp: mgr_frame_def option.rel_refl)

lemma mgr_frame_trans:
  assumes "mgr_frame l m" and "mgr_frame m n"
  shows "mgr_frame l n"
proof -
  have "rel_option peer_frame (m_peers l i) (m_peers n i)" for i
    using assms option.rel_transp [of peer_frame]
    by (metis mgr_frame_def peer_frame_trans transpD transpI)
  with assms show ?thesis by (simp add: mgr_frame_def)
qed

interpretation sections: kept mgr_frame
  by unfold_locales (auto intro: mgr_frame_refl mgr_frame_trans)

lemma mgr_frame_set_peer:
  "m_peers m i = Some p \<Longrightarrow> peer_frame p q \<Longrightarrow> mgr_frame m (set_peer m i q)"
  by (auto simp: mgr_frame_def set_peer_def intro: option.rel_refl)

lemma mgr_frame_send_relay: "mgr_frame m (snd (send_relay m f t))"
  by (auto simp: send_relay_def mgr_frame_def intro: option.rel_refl)

lemma peer_frame_mk: "mk_frame m p typ = (f, q) \<Longrightarrow> peer_frame p q"
  by (auto simp: mk_frame_def peer_frame_def path_proven_def Let_def)

lemma peer_frame_sent: "peer_frame p (p\<lparr>ps_sent := n\<rparr>)"
  by (simp add: peer_frame_def path_proven_def)

lemma mk_frame_active: "mk_frame m p typ = (f, q) \<Longrightarrow> ps_active q = ps_active p"
  by (auto simp: mk_frame_def Let_def)

lemma peer_frame_timeouts: "peer_frame p (probe_timeouts opt x p)"
  by (auto simp: probe_timeouts_def peer_frame_def path_proven_def Let_def)

lemma peer_frame_register: "peer_frame p (register_probe n a t p)"
  by (simp add: register_probe_def peer_frame_def path_proven_def)

lemma mgr_frame_read_wg: "mgr_frame m (fst (read_wg P m i obj b src t1 t2 w))"
proof (cases "m_peers m i")
  case None
  then show ?thesis by (simp add: read_wg_def)
next
  case (Some p)
  obtain f q where mk: "mk_frame m (p\<lparr>ps_sent := ps_sent p + 1\<rparr>) ''data'' = (f, q)" by (metis prod.exhaust)
  then have "peer_frame p q"
    using peer_frame_mk peer_frame_sent peer_frame_trans by blast
  then have 1: "mgr_frame m (set_peer m i q)" by (rule mgr_frame_set_peer [OF Some])
  then have "mgr_frame m (snd (send_relay (set_peer m i q) g t))" for g t
    using mgr_frame_send_relay sections.kept_trans by blast
  with 1 show ?thesis
    by (auto simp: read_wg_def Some mk Let_def split: option.splits prod.splits)
qed

lemma mgr_frame_send_reply: "mgr_frame m (fst (send_reply P m i n a t w))"
  by (auto simp: send_reply_def Let_def split: option.splits prod.splits
      intro: mgr_frame_set_peer peer_frame_mk)

lemma mgr_frame_probe_addresses: "mgr_frame m (fst (probe_addresses P i x k as m out))"
proof (induction as arbitrary: k m out)
  case Nil
  then show ?case by simp
next
  case (Cons a as)
  show ?case
  proof (cases "m_peers m i")
    case None
    then show ?thesis by simp
  next
    case (Some p)
    obtain f q where mk: "mk_frame m p ''probe'' = (f, q)" by (metis prod.exhaust)
    have "peer_frame p (register_probe n a t q)" for n t
      using peer_frame_mk [OF mk] peer_frame_register peer_frame_trans by blast
    then have step: "mgr_frame m (set_peer m i (register_probe n a t q))" for n t
      by (rule mgr_frame_set_peer [OF Some])
    show ?thesis
      by (simp add: Some mk Let_def) (rule sections.kept_trans [OF step Cons.IH])
  qed
qed

lemma mgr_frame_probe_peer: "mgr_frame m (fst (probe_peer P cands x i m))"
proof (cases "m_peers m i")
  case None
  then show ?thesis by (simp add: probe_peer_def)
next
  case (Some p)
  obtain f q where mk: "mk_frame m p ''discover'' = (f, q)" by (metis prod.exhaust)
  let ?m1 = "set_peer m i q"
  have pq: "peer_frame p q" by (rule peer_frame_mk [OF mk])
  have 1: "mgr_frame m ?m1" by (rule mgr_frame_set_peer [OF Some pq])
  have 2: "mgr_frame ?m1 (snd (send_relay ?m1 g t))" for g t by (rule mgr_frame_send_relay)
  have at: "m_peers (snd (send_relay ?m1 g t)) i = Some q" for g t
    by (simp add: send_relay_def set_peer_def)
  have 3: "mgr_frame (snd (send_relay ?m1 g t)) (set_peer (snd (send_relay ?m1 g t)) i (probe_timeouts opt x q))"
    for g t opt by (rule mgr_frame_set_peer [OF at peer_frame_timeouts])
  have step: "mgr_frame m (set_peer (snd (send_relay ?m1 g t)) i (probe_timeouts opt x q))" for g t opt
    using 1 2 3 sections.kept_trans by blast
  show ?thesis
    by (simp add: probe_peer_def Some mk Let_def) (rule sections.kept_trans [OF step mgr_frame_probe_addresses])
qed

lemma mgr_frame_probe_peers: "mgr_frame m (fst (probe_peers P cands x js m))"
proof (induction js arbitrary: m)
  case Nil
  then show ?case by simp
next
  case (Cons i js)
  obtain m1 out where p1: "probe_peer P cands (x i) i m = (m1, out)" by (metis prod.exhaust)
  obtain m2 out2 where p2: "probe_peers P cands x js m1 = (m2, out2)" by (metis prod.exhaust)
  from mgr_frame_probe_peer [of m P cands "x i" i] p1 have "mgr_frame m m1" by simp
  moreover from Cons.IH [of m1] p2 have "mgr_frame m1 m2" by simp
  ultimately show ?case using sections.kept_trans by (simp add: p1 p2)
qed

lemma mgr_frame_probe_tick: "mgr_frame m (fst (probe_tick P m ifs ids now final x))"
proof -
  let ?m1 = "m\<lparr>m_prefixes := physical_prefixes (m_cfg m) ifs\<rparr>"
  have 0: "mgr_frame m (m\<lparr>m_running := False\<rparr>)" "mgr_frame m ?m1"
    by (auto simp: mgr_frame_def intro: option.rel_refl)
  obtain m2 out where pp: "probe_peers P (candidates ?m1) x ids ?m1 = (m2, out)" by (metis prod.exhaust)
  with mgr_frame_probe_peers [of ?m1 P "candidates ?m1" x ids] have "mgr_frame ?m1 m2" by simp
  then have "mgr_frame m (snd (send_relay m2 g t))" for g t
    using 0 mgr_frame_send_relay sections.kept_trans by blast
  with 0 show ?thesis by (simp add: probe_tick_def pp Let_def)
qed

section \<open>Processing a received frame\<close>

lemma accept_frame:
  assumes "accept p f = (ok, q)"
  shows "ps_obj q = ps_obj p \<and> ps_key q = ps_key p \<and> ps_peer q = ps_peer p \<and>
    ps_send_epoch q = ps_send_epoch p \<and> (path_proven p \<longrightarrow> path_proven q)"
  using assms
  by (auto simp: accept_def window_step_def new_epoch_def path_proven_def Let_def split: if_splits)

lemma on_discover_frame: "peer_frame p (on_discover m p f src)"
  by (auto simp: on_discover_def peer_frame_def path_proven_def Let_def split: option.splits)

lemma on_ack_frame:
  assumes "1 \<le> PromoteAfter (m_opt m)"
  shows "peer_frame p (on_ack m p f src clk)"
proof -
  define q where "q = on_ack m p f src clk"
  have "ps_obj q = ps_obj p \<and> ps_key q = ps_key p \<and> ps_peer q = ps_peer p \<and>
     ps_send_epoch q = ps_send_epoch p \<and> ps_epoch q = ps_epoch p \<and> ps_high q = ps_high p \<and>
     ps_bitmap q = ps_bitmap p \<and> ps_retired q = ps_retired p"
    by (simp add: q_def on_ack_def Let_def split: option.split)
  moreover have "path_proven q" if "path_proven p"
    using that assms
    by (auto simp: q_def on_ack_def Let_def path_proven_def split: option.splits if_splits)
  ultimately show ?thesis by (simp add: peer_frame_def q_def)
qed

lemma receive_locked_other:
  "receive_locked m obj f src clk = (m', fu) \<Longrightarrow>
     \<not> (\<exists>p. m_peers m (f_from f) = Some p \<and> ps_obj p = obj) \<Longrightarrow> m' = m \<and> fu = Done"
  by (auto simp: receive_locked_def split: option.splits if_splits)

lemma receive_locked_own:
  assumes "receive_locked m obj f src clk = (m', fu)" and p: "m_peers m (f_from f) = Some p" "ps_obj p = obj"
    and "1 \<le> PromoteAfter (m_opt m)" and acc: "accept p f = (ok, p1)"
  shows "\<exists>q. m' = set_peer m (f_from f) q \<and> peer_frame p1 q \<and> (\<not> ok \<longrightarrow> q = p1 \<and> fu = Done)"
  using assms on_ack_frame [of m] on_discover_frame
  by (auto simp: receive_locked_def peer_frame_def path_proven_def split: if_splits bool.splits)

section \<open>Reconfiguration\<close>

lemma kept_peer_Some:
  "kept_peer m spec = Some p \<longleftrightarrow> m_peers m (DeviceID spec) = Some p \<and> ps_peer p = spec"
  by (auto simp: kept_peer_def split: option.splits)

definition created_for :: "wire_prims \<Rightarrow> manager \<Rightarrow> mesh_config \<Rightarrow> peer_state list \<Rightarrow> peer \<Rightarrow> peer_state \<Rightarrow> bool" where
  "created_for P m c created spec p \<longleftrightarrow>
     (\<exists>k e key s. k < length created \<and> created ! k = p \<and>
        p = fresh_peer (m_next_obj m + k) e spec key s \<and>
        wire_key P (m_private m) (PublicKey spec) (mc_network c) ''peer'' = Inr key)"

lemma created_for_append: "created_for P m c created spec p \<Longrightarrow> created_for P m c (created @ ps) spec p"
  unfolding created_for_def by (metis length_append nth_append trans_less_add1)

lemma reconf_loop_Inr:
  assumes "reconf_loop P m c nonce listen nxt created specs = (Inr res, created')"
    and "distinct (map DeviceID specs)"
  shows "(\<exists>ps. created' = created @ ps) \<and> (\<forall>i. i \<notin> DeviceID ` set specs \<longrightarrow> res i = nxt i) \<and>
    (\<forall>spec \<in> set specs. \<exists>p. res (DeviceID spec) = Some p \<and>
       (kept_peer m spec = Some p \<or> kept_peer m spec = None \<and> created_for P m c created' spec p))"
  using assms
proof (induction specs arbitrary: nxt created)
  case Nil
  then show ?case by simp
next
  case (Cons spec specs)
  from Cons.prems(2) have dist: "distinct (map DeviceID specs)" and new: "DeviceID spec \<notin> DeviceID ` set specs"
    by auto
  show ?case
  proof (cases "kept_peer m spec")
    case (Some old)
    with Cons.prems(1) have run: "reconf_loop P m c nonce listen (nxt(DeviceID spec \<mapsto> old)) created specs = (Inr res, created')"
      by simp
    from Cons.IH [OF run dist] new Some show ?thesis by auto
  next
    case None
    with Cons.prems(1) obtain key sock where
      key: "wire_key P (m_private m) (PublicKey spec) (mc_network c) ''peer'' = Inr key" and
      run: "reconf_loop P m c nonce listen
        (nxt(DeviceID spec \<mapsto> fresh_peer (m_next_obj m + length created) (nonce (length created)) spec key (Some sock)))
        (created @ [fresh_peer (m_next_obj m + length created) (nonce (length created)) spec key (Some sock)]) specs
        = (Inr res, created')"
      by (auto simp: Let_def split: sum.splits)
    let ?p = "fresh_peer (m_next_obj m + length created) (nonce (length created)) spec key (Some sock)"
    have mine: "created_for P m c (created @ [?p]) spec ?p"
      unfolding created_for_def using key by (intro exI [of _ "length created"]) (auto simp: nth_append)
    from Cons.IH [OF run dist] obtain ps where ps: "created' = (created @ [?p]) @ ps" by blast
    have "created_for P m c created' spec ?p" unfolding ps by (rule created_for_append [OF mine])
    with Cons.IH [OF run dist] new None show ?thesis by auto
  qed
qed

text \<open>What a successful reconfiguration leaves.\<close>

lemma reconfigure_None:
  assumes "reconfigure P resolve n1 n2 nonce listen ids m c = (None, m', closed)"
  shows "m_running m" "same_transport c (m_cfg m)" "mesh_config_validate resolve n1 n2 c = None"
    "\<exists>res created. reconf_loop P m c nonce listen Map.empty [] (mc_peers c) = (Inr res, created) \<and>
       m' = m\<lparr>m_peers := res, m_cfg := (m_cfg m)\<lparr>mc_peers := mc_peers c\<rparr>,
              m_expiry := nanos (mc_expires c), m_next_obj := m_next_obj m + length created\<rparr>"
  using assms by (auto simp: reconfigure_def split: option.splits if_splits sum.splits prod.splits)

lemma reconfigure_Some:
  "reconfigure P resolve n1 n2 nonce listen ids m c = (Some e, m', closed) \<Longrightarrow> m' = m"
  by (auto simp: reconfigure_def split: option.splits if_splits sum.splits prod.splits)

section \<open>Interleaved runs\<close>

text \<open>
  A state of a run: the manager, the frames that passed the gate and wait for the lock, and,
  as history, what the guard of each peer object has accepted so far.
\<close>

record run_state =
  rs_mgr :: manager
  rs_flight :: "(nat \<times> frame \<times> addr_port option) list"
  rs_seen :: "nat \<Rightarrow> (string \<times> nat) set"

definition accepts_now :: "manager \<Rightarrow> nat \<Rightarrow> frame \<Rightarrow> bool" where
  "accepts_now m obj f \<longleftrightarrow>
     (\<exists>p. m_peers m (f_from f) = Some p \<and> ps_obj p = obj \<and> fst (accept p f))"

inductive path_step :: "wire_prims \<Rightarrow> (string \<Rightarrow> bool) \<Rightarrow> run_state \<Rightarrow> run_state \<Rightarrow> bool"
  for P :: wire_prims and resolve :: "string \<Rightarrow> bool" where
  gate: "receive_gate P (rs_mgr r) f src now = Some obj \<Longrightarrow>
     path_step P resolve r (r\<lparr>rs_flight := (obj, f, src) # rs_flight r\<rparr>)"
| locked: "(obj, f, src) \<in> set (rs_flight r) \<Longrightarrow> receive_locked (rs_mgr r) obj f src clk = (m', fu) \<Longrightarrow>
     path_step P resolve r (r\<lparr>rs_mgr := m', rs_flight := remove1 (obj, f, src) (rs_flight r),
       rs_seen := (if accepts_now (rs_mgr r) obj f
                   then (rs_seen r)(obj := insert (frame_key f) (rs_seen r obj)) else rs_seen r)\<rparr>)"
| reply: "path_step P resolve r (r\<lparr>rs_mgr := fst (send_reply P (rs_mgr r) i n a t w)\<rparr>)"
| wireguard: "path_step P resolve r (r\<lparr>rs_mgr := fst (read_wg P (rs_mgr r) i obj b src t1 t2 w)\<rparr>)"
| tick: "path_step P resolve r (r\<lparr>rs_mgr := fst (probe_tick P (rs_mgr r) ifs ids now final x)\<rparr>)"
| written: "path_step P resolve r (r\<lparr>rs_mgr := (rs_mgr r)\<lparr>m_outbound := tl (m_outbound (rs_mgr r))\<rparr>\<rparr>)"
| relay: "path_step P resolve r (r\<lparr>rs_mgr := (rs_mgr r)\<lparr>m_relay := c\<rparr>\<rparr>)"
| expiry: "path_step P resolve r (r\<lparr>rs_mgr := refresh_expiry (rs_mgr r) t\<rparr>)"
| reconfigured: "reconfigure P resolve n1 n2 nonce listen ids (rs_mgr r) c = (e, m', closed) \<Longrightarrow>
     path_step P resolve r (r\<lparr>rs_mgr := m'\<rparr>)"

definition peer_ok :: "wire_prims \<Rightarrow> manager \<Rightarrow> (nat \<Rightarrow> (string \<times> nat) set) \<Rightarrow> string \<Rightarrow> peer_state \<Rightarrow> bool" where
  "peer_ok P m H i p \<longleftrightarrow>
     DeviceID (ps_peer p) = i \<and> ps_peer p \<in> set (mc_peers (m_cfg m)) \<and>
     wire_key P (m_private m) (PublicKey (ps_peer p)) (mc_network (m_cfg m)) ''peer'' = Inr (ps_key p) \<and>
     ps_obj p < m_next_obj m \<and> guard_inv p (H (ps_obj p)) \<and> path_proven p"

definition flight_ok :: "wire_prims \<Rightarrow> manager \<Rightarrow> nat \<times> frame \<times> addr_port option \<Rightarrow> bool" where
  "flight_ok P m x \<longleftrightarrow>
     (case x of (obj, f, src) \<Rightarrow> obj < m_next_obj m \<and>
        (\<forall>p. m_peers m (f_from f) = Some p \<and> ps_obj p = obj \<longrightarrow> verify_frame P f (ps_key p)))"

definition run_inv :: "wire_prims \<Rightarrow> run_state \<Rightarrow> bool" where
  "run_inv P r \<longleftrightarrow>
     (let m = rs_mgr r in
        (\<forall>i p. m_peers m i = Some p \<longrightarrow> peer_ok P m (rs_seen r) i p) \<and>
        dom (m_peers m) = DeviceID ` set (mc_peers (m_cfg m)) \<and>
        inj_on (\<lambda>i. map_option ps_obj (m_peers m i)) (DeviceID ` set (mc_peers (m_cfg m))) \<and>
        (\<forall>obj \<ge> m_next_obj m. rs_seen r obj = {}) \<and>
        length (m_outbound m) \<le> 256 \<and> 1 \<le> PromoteAfter (m_opt m) \<and>
        (\<forall>x \<in> set (rs_flight r). flight_ok P m x))"

lemma peer_ok_frame:
  assumes "peer_ok P m H i p" and "peer_frame p q"
    and "m_cfg n = m_cfg m" "m_private n = m_private m" "m_next_obj n = m_next_obj m"
  shows "peer_ok P n H i q"
  using assms by (auto simp: peer_ok_def peer_frame_def guard_inv_def)

lemma mgr_frame_back:
  assumes "mgr_frame m n" and "m_peers n i = Some q"
  shows "\<exists>p. m_peers m i = Some p \<and> peer_frame p q"
proof -
  have "rel_option peer_frame (m_peers m i) (m_peers n i)" using assms(1) by (simp add: mgr_frame_def)
  with assms(2) show ?thesis by (simp add: option_rel_Some2)
qed

lemma mgr_frame_objs: "mgr_frame m n \<Longrightarrow> map_option ps_obj (m_peers n i) = map_option ps_obj (m_peers m i)"
proof -
  assume "mgr_frame m n"
  then have "rel_option peer_frame (m_peers m i) (m_peers n i)" by (simp add: mgr_frame_def)
  then show ?thesis by (cases rule: option.rel_cases) (auto simp: peer_frame_def)
qed

lemma mgr_frame_dom: "mgr_frame m n \<Longrightarrow> dom (m_peers n) = dom (m_peers m)"
proof (rule set_eqI)
  fix i
  assume "mgr_frame m n"
  then show "i \<in> dom (m_peers n) \<longleftrightarrow> i \<in> dom (m_peers m)"
    using mgr_frame_objs [of m n i] by (cases "m_peers m i"; cases "m_peers n i") auto
qed

lemma run_inv_frame:
  assumes inv: "run_inv P r" and f: "mgr_frame (rs_mgr r) n"
  shows "run_inv P (r\<lparr>rs_mgr := n\<rparr>)"
proof -
  have same: "m_cfg n = m_cfg (rs_mgr r)" "m_private n = m_private (rs_mgr r)"
    "m_next_obj n = m_next_obj (rs_mgr r)" "m_opt n = m_opt (rs_mgr r)"
    using f by (simp_all add: mgr_frame_def)
  have "peer_ok P n (rs_seen r) i q" if "m_peers n i = Some q" for i q
  proof -
    from mgr_frame_back [OF f that] obtain p where p: "m_peers (rs_mgr r) i = Some p" "peer_frame p q" by blast
    with inv have "peer_ok P (rs_mgr r) (rs_seen r) i p" by (simp add: run_inv_def Let_def)
    from peer_ok_frame [OF this p(2) same(1-3)] show ?thesis .
  qed
  moreover have "flight_ok P n x" if "x \<in> set (rs_flight r)" for x
  proof -
    have x: "flight_ok P (rs_mgr r) x" using that inv by (auto simp: run_inv_def Let_def)
    obtain obj g src where xe: "x = (obj, g, src)" by (metis prod.exhaust)
    have "verify_frame P g (ps_key q)" if "m_peers n (f_from g) = Some q" "ps_obj q = obj" for q
      using mgr_frame_back [OF f that(1)] that(2) x by (auto simp: flight_ok_def xe peer_frame_def)
    with x show ?thesis by (simp add: flight_ok_def xe same)
  qed
  ultimately show ?thesis
    using inv f same mgr_frame_dom [OF f] mgr_frame_objs [OF f]
    by (simp add: run_inv_def Let_def mgr_frame_def)
qed

lemma run_inv_locked:
  assumes inv: "run_inv P r" and x: "(obj, f, src) \<in> set (rs_flight r)"
    and rl: "receive_locked (rs_mgr r) obj f src clk = (m', fu)"
  shows "run_inv P (r\<lparr>rs_mgr := m', rs_flight := remove1 (obj, f, src) (rs_flight r),
       rs_seen := (if accepts_now (rs_mgr r) obj f
                   then (rs_seen r)(obj := insert (frame_key f) (rs_seen r obj)) else rs_seen r)\<rparr>)"
proof (cases "\<exists>p. m_peers (rs_mgr r) (f_from f) = Some p \<and> ps_obj p = obj")
  case False
  then have na: "\<not> accepts_now (rs_mgr r) obj f" by (auto simp: accepts_now_def)
  have "m' = rs_mgr r" using receive_locked_other [OF rl False] by simp
  with na inv show ?thesis
    by (auto simp: run_inv_def Let_def dest: notin_set_remove1 in_set_remove1 [THEN iffD1, rotated] set_remove1_subset [THEN subsetD])
next
  case True
  let ?m = "rs_mgr r"
  from True obtain p where p: "m_peers ?m (f_from f) = Some p" "ps_obj p = obj" by blast
  obtain ok p1 where acc: "accept p f = (ok, p1)" by (metis prod.exhaust)
  have pa: "1 \<le> PromoteAfter (m_opt ?m)" and pok: "peer_ok P ?m (rs_seen r) (f_from f) p"
    using inv p by (auto simp: run_inv_def Let_def)
  from receive_locked_own [OF rl p pa acc] obtain q where m': "m' = set_peer ?m (f_from f) q"
    and q: "peer_frame p1 q" by blast
  have an: "accepts_now ?m obj f \<longleftrightarrow> ok" using p acc by (auto simp: accepts_now_def)
  define H where "H = (if ok then (rs_seen r)(obj := insert (frame_key f) (rs_seen r obj)) else rs_seen r)"
  have g: "guard_inv p (rs_seen r obj)" using pok p by (simp add: peer_ok_def)
  have g1: "guard_inv p1 (H obj)" using accept_refines [OF g acc] g by (auto simp: H_def split: if_splits)
  note fr = accept_frame [OF acc]
  have "peer_ok P m' H (f_from f) p1"
    using pok fr g1 p by (auto simp: peer_ok_def m' set_peer_def)
  then have qok: "peer_ok P m' H (f_from f) q"
    by (rule peer_ok_frame [OF _ q]) (simp_all)
  have objs: "map_option ps_obj (m_peers m' i) = map_option ps_obj (m_peers ?m i)" for i
    using fr q p by (auto simp: m' set_peer_def peer_frame_def)
  have inj: "inj_on (\<lambda>i. map_option ps_obj (m_peers ?m i)) (DeviceID ` set (mc_peers (m_cfg ?m)))"
    and dm: "dom (m_peers ?m) = DeviceID ` set (mc_peers (m_cfg ?m))"
    using inv by (simp_all add: run_inv_def Let_def)
  have other: "peer_ok P m' H i q'" if "m_peers m' i = Some q'" "i \<noteq> f_from f" for i q'
  proof -
    have q': "m_peers ?m i = Some q'" using that by (simp add: m' set_peer_def)
    have mem: "i \<in> DeviceID ` set (mc_peers (m_cfg ?m))" "f_from f \<in> DeviceID ` set (mc_peers (m_cfg ?m))"
      using q' p(1) dm by (metis domI)+
    have "ps_obj q' \<noteq> obj"
    proof
      assume "ps_obj q' = obj"
      then have "map_option ps_obj (m_peers ?m i) = map_option ps_obj (m_peers ?m (f_from f))"
        using q' p by simp
      from inj_onD [OF inj this mem] that(2) show False by simp
    qed
    then show ?thesis
      using inv q' by (auto simp: run_inv_def Let_def peer_ok_def m' set_peer_def H_def)
  qed
  have fl: "flight_ok P m' y" if "y \<in> set (rs_flight r)" for y
  proof -
    obtain o' g' s' where y: "y = (o', g', s')" by (metis prod.exhaust)
    have "flight_ok P ?m y" using that inv by (auto simp: run_inv_def Let_def)
    then show ?thesis using fr q p by (auto simp: flight_ok_def y m' set_peer_def peer_frame_def)
  qed
  have "run_inv P (r\<lparr>rs_mgr := m', rs_flight := remove1 (obj, f, src) (rs_flight r), rs_seen := H\<rparr>)"
  proof -
    have "\<forall>i p. m_peers m' i = Some p \<longrightarrow> peer_ok P m' H i p" using qok other by (auto simp: m' set_peer_def)
    moreover have "dom (m_peers m') = dom (m_peers ?m)" using p by (auto simp: m' set_peer_def)
    moreover have "inj_on (\<lambda>i. map_option ps_obj (m_peers m' i)) (DeviceID ` set (mc_peers (m_cfg ?m)))"
      using inj objs by simp
    moreover have "\<forall>x \<in> set (remove1 (obj, f, src) (rs_flight r)). flight_ok P m' x"
      using fl set_remove1_subset [of "(obj, f, src)" "rs_flight r"] by blast
    moreover have "obj < m_next_obj ?m" using pok p by (simp add: peer_ok_def)
    ultimately show ?thesis
      using inv by (auto simp: run_inv_def Let_def m' set_peer_def H_def)
  qed
  then show ?thesis by (simp add: an H_def)
qed

lemma fresh_peer_sels [simp]:
  "ps_obj (fresh_peer n e spec key s) = n" "ps_peer (fresh_peer n e spec key s) = spec"
  "ps_key (fresh_peer n e spec key s) = key" "path_proven (fresh_peer n e spec key s)"
  by (simp_all add: fresh_peer_def path_proven_def)

lemma run_inv_reconfigured:
  assumes inv: "run_inv P r"
    and rc: "reconfigure P resolve n1 n2 nonce listen ids (rs_mgr r) c = (e, m', closed)"
  shows "run_inv P (r\<lparr>rs_mgr := m'\<rparr>)"
proof (cases e)
  case (Some x)
  with reconfigure_Some rc have "m' = rs_mgr r" by blast
  with inv show ?thesis by simp
next
  case None
  let ?m = "rs_mgr r" and ?D = "DeviceID ` set (mc_peers c)"
  note ok = reconfigure_None [OF rc [unfolded None]]
  from ok(4) obtain res created where run: "reconf_loop P ?m c nonce listen Map.empty [] (mc_peers c) = (Inr res, created)"
    and m': "m' = ?m\<lparr>m_peers := res, m_cfg := (m_cfg ?m)\<lparr>mc_peers := mc_peers c\<rparr>,
              m_expiry := nanos (mc_expires c), m_next_obj := m_next_obj ?m + length created\<rparr>" by blast
  note dist = mesh_config_validate_None(4) [OF ok(3)]
  note loop = reconf_loop_Inr [OF run dist]
  have net: "mc_network c = mc_network (m_cfg ?m)" using ok(2) by (simp add: same_transport_def)
  have old: "peer_ok P ?m (rs_seen r) i p" if "m_peers ?m i = Some p" for i p
    using inv that by (simp add: run_inv_def Let_def)
  have unseen: "rs_seen r obj = {}" if "m_next_obj ?m \<le> obj" for obj
    using inv that by (simp add: run_inv_def Let_def)
  have dom: "dom res = ?D" using loop by fastforce
  have each: "\<exists>spec \<in> set (mc_peers c). i = DeviceID spec \<and>
      (kept_peer ?m spec = Some p \<or> created_for P ?m c created spec p)" if "res i = Some p" for i p
    using that dom loop by fastforce
  have pok: "peer_ok P m' (rs_seen r) i p" if i: "res i = Some p" for i p
  proof -
    from each [OF i] obtain spec where spec: "spec \<in> set (mc_peers c)" "i = DeviceID spec"
      and src: "kept_peer ?m spec = Some p \<or> created_for P ?m c created spec p" by blast
    from src show ?thesis
    proof
      assume "kept_peer ?m spec = Some p"
      then have k: "m_peers ?m (DeviceID spec) = Some p" "ps_peer p = spec" by (simp_all add: kept_peer_Some)
      from old [OF k(1)] k(2) spec show ?thesis by (simp add: peer_ok_def m' trans_less_add1)
    next
      assume "created_for P ?m c created spec p"
      then obtain n e key s where p: "n < length created" "p = fresh_peer (m_next_obj ?m + n) e spec key s"
        "wire_key P (m_private ?m) (PublicKey spec) (mc_network c) ''peer'' = Inr key"
        unfolding created_for_def by blast
      with spec unseen [of "m_next_obj ?m + n"] net show ?thesis
        by (simp add: peer_ok_def m' fresh_peer_guard)
    qed
  qed
  have inj: "inj_on (\<lambda>i. map_option ps_obj (res i)) ?D"
  proof (rule inj_onI)
    fix i j assume i: "i \<in> ?D" and j: "j \<in> ?D" and eq: "map_option ps_obj (res i) = map_option ps_obj (res j)"
    from i obtain p where p: "res i = Some p" by (metis dom domD)
    from j obtain q where q: "res j = Some q" by (metis dom domD)
    have pq: "ps_obj p = ps_obj q" using eq p q by simp
    from each [OF p] obtain s1 where s1: "i = DeviceID s1"
      "kept_peer ?m s1 = Some p \<or> created_for P ?m c created s1 p" by blast
    from each [OF q] obtain s2 where s2: "j = DeviceID s2"
      "kept_peer ?m s2 = Some q \<or> created_for P ?m c created s2 q" by blast
    have low: "ps_obj x < m_next_obj ?m" if "kept_peer ?m sp = Some x" for sp x
      using that old by (auto simp: kept_peer_Some peer_ok_def)
    have inj0: "inj_on (\<lambda>i. map_option ps_obj (m_peers ?m i)) (dom (m_peers ?m))"
      using inv by (simp add: run_inv_def Let_def)
    consider "kept_peer ?m s1 = Some p" "kept_peer ?m s2 = Some q"
      | "created_for P ?m c created s1 p" "created_for P ?m c created s2 q"
      using s1(2) s2(2) low pq by (fastforce simp: created_for_def)
    then show "i = j"
    proof cases
      case 1
      then have "m_peers ?m i = Some p" "m_peers ?m j = Some q" using s1 s2 by (auto simp: kept_peer_Some)
      with pq show ?thesis by (intro inj_onD [OF inj0]) auto
    next
      case 2
      then have "p = q" using pq by (auto simp: created_for_def)
      with 2 have "s1 = s2" by (auto simp: created_for_def) (metis fresh_peer_sels(2))
      with s1 s2 show ?thesis by simp
    qed
  qed
  have fl: "flight_ok P m' x" if x: "x \<in> set (rs_flight r)" for x
  proof -
    obtain obj f src where xe: "x = (obj, f, src)" by (metis prod.exhaust)
    have x0: "flight_ok P ?m x" using inv x by (simp add: run_inv_def Let_def)
    then have lt: "obj < m_next_obj ?m" by (simp add: flight_ok_def xe)
    have "verify_frame P f (ps_key p)" if "res (f_from f) = Some p" "ps_obj p = obj" for p
    proof -
      from each [OF that(1)] that(2) lt obtain spec where "f_from f = DeviceID spec" "kept_peer ?m spec = Some p"
        by (auto simp: created_for_def)
      with x0 that(2) show ?thesis by (simp add: flight_ok_def xe kept_peer_Some)
    qed
    with lt show ?thesis by (simp add: flight_ok_def xe m')
  qed
  show ?thesis
    using inv pok dom inj fl by (simp add: run_inv_def Let_def m')
qed

lemma run_inv_step: "path_step P resolve r r' \<Longrightarrow> run_inv P r \<Longrightarrow> run_inv P r'"
proof (induction rule: path_step.induct)
  case (gate r f src now obj)
  then show ?case
    by (auto simp: run_inv_def Let_def flight_ok_def receive_gate_def peer_ok_def
        split: option.splits if_splits)
next
  case (locked obj f src r clk m' fu)
  then show ?case by (intro run_inv_locked)
next
  case (written r)
  show ?case by (rule run_inv_frame [OF written]) (auto simp: mgr_frame_def intro: option.rel_refl)
next
  case (relay r c)
  show ?case by (rule run_inv_frame [OF relay]) (auto simp: mgr_frame_def intro: option.rel_refl)
next
  case (expiry r t)
  then show ?case
    by (simp add: run_inv_def Let_def refresh_expiry_def peer_ok_def flight_ok_def)
next
  case (reconfigured n1 n2 nonce listen ids r c e m' closed)
  then show ?case by (intro run_inv_reconfigured)
qed (rule run_inv_frame, assumption, rule mgr_frame_send_reply mgr_frame_read_wg mgr_frame_probe_tick)+

lemma run_inv_reachable: "(path_step P resolve)\<^sup>*\<^sup>* r r' \<Longrightarrow> run_inv P r \<Longrightarrow> run_inv P r'"
  by (induction rule: rtranclp_induct) (auto intro: run_inv_step)

section \<open>The start of a run\<close>

lemma new_peers_Inr:
  assumes "new_peers P c private nonce k acc specs = Inr res" and "distinct (map DeviceID specs)"
  shows "(\<forall>i. i \<notin> DeviceID ` set specs \<longrightarrow> res i = acc i) \<and>
    (\<forall>j < length specs. \<exists>key. res (DeviceID (specs ! j)) = Some (fresh_peer (k + j) (nonce (k + j)) (specs ! j) key None) \<and>
       wire_key P private (PublicKey (specs ! j)) (mc_network c) ''peer'' = Inr key)"
  using assms
proof (induction specs arbitrary: k acc)
  case Nil
  then show ?case by simp
next
  case (Cons p ps)
  from Cons.prems(1) obtain key where key: "wire_key P private (PublicKey p) (mc_network c) ''peer'' = Inr key"
    and run: "new_peers P c private nonce (Suc k) (acc(DeviceID p \<mapsto> fresh_peer k (nonce k) p key None)) ps = Inr res"
    by auto
  have dist: "distinct (map DeviceID ps)" and new: "DeviceID p \<notin> DeviceID ` set ps" using Cons.prems(2) by auto
  note IH = Cons.IH [OF run dist]
  have "\<exists>key. res (DeviceID ((p # ps) ! j)) = Some (fresh_peer (k + j) (nonce (k + j)) ((p # ps) ! j) key None) \<and>
       wire_key P private (PublicKey ((p # ps) ! j)) (mc_network c) ''peer'' = Inr key"
    if "j < length (p # ps)" for j
    using that IH key new by (cases j) auto
  then show ?case using IH by auto
qed

definition first_state :: "manager \<Rightarrow> run_state" where
  "first_state m = \<lparr>rs_mgr = m, rs_flight = [], rs_seen = (\<lambda>_. {})\<rparr>"

lemma run_inv_new:
  assumes new: "new_manager P resolve n1 n2 prefixes nonce c private opt = Inr m"
  shows "run_inv P (first_state m)"
proof -
  from new obtain key res where v: "mesh_config_validate resolve n1 n2 c = None"
    and np: "new_peers P c private nonce 0 Map.empty (mc_peers c) = Inr res"
    and m: "m_cfg m = c" "m_opt m = default_options opt" "m_private m = private" "m_peers m = res"
      "m_outbound m = []" "m_next_obj m = length (mc_peers c)"
    by (auto simp: new_manager_def)
  note dist = mesh_config_validate_None(4) [OF v]
  note peers = new_peers_Inr [OF np dist]
  let ?D = "DeviceID ` set (mc_peers c)"
  have each: "\<exists>j < length (mc_peers c). i = DeviceID (mc_peers c ! j) \<and>
     (\<exists>key. p = fresh_peer j (nonce j) (mc_peers c ! j) key None \<and>
        wire_key P private (PublicKey (mc_peers c ! j)) (mc_network c) ''peer'' = Inr key)"
    if "res i = Some p" for i p
  proof -
    have "i \<in> ?D" using that peers by (metis empty_iff option.distinct(1))
    then obtain j where "j < length (mc_peers c)" "i = DeviceID (mc_peers c ! j)" by (metis imageE in_set_conv_nth)
    with that peers show ?thesis by fastforce
  qed
  have dom: "dom res = ?D"
  proof (rule set_eqI)
    fix i show "i \<in> dom res \<longleftrightarrow> i \<in> ?D"
      using each peers by (fastforce simp: in_set_conv_nth image_iff)
  qed
  have pok: "peer_ok P m (\<lambda>_. {}) i p" if "res i = Some p" for i p
    using each [OF that] m by (auto simp: peer_ok_def fresh_peer_guard)
  have inj: "inj_on (\<lambda>i. map_option ps_obj (res i)) ?D"
  proof (rule inj_onI)
    fix i j assume i: "i \<in> ?D" and j: "j \<in> ?D" and eq: "map_option ps_obj (res i) = map_option ps_obj (res j)"
    from i obtain p where p: "res i = Some p" by (metis dom domD)
    from j obtain q where q: "res j = Some q" by (metis dom domD)
    show "i = j" using each [OF p] each [OF q] eq p q by auto
  qed
  show ?thesis
    using pok dom inj m by (simp add: run_inv_def first_state_def Let_def default_options_def)
qed

lemma mgr_frame_start_peers: "start_peers bind ids m = Inr n \<Longrightarrow> mgr_frame m n"
proof (induction ids arbitrary: m)
  case Nil
  then show ?case by simp
next
  case (Cons i js)
  have "mgr_frame m (set_peer m i (p\<lparr>ps_local := Some s\<rparr>))" if "m_peers m i = Some p" for p s
    by (rule mgr_frame_set_peer [OF that]) (simp add: peer_frame_def path_proven_def)
  then have "mgr_frame m (case m_peers m i of None \<Rightarrow> m | Some p \<Rightarrow> set_peer m i (p\<lparr>ps_local := Some s\<rparr>))" for s
    by (simp split: option.split)
  with Cons show ?case by (auto intro: sections.kept_trans)
qed

lemma run_inv_started:
  assumes "new_manager P resolve n1 n2 prefixes nonce c private opt = Inr m"
    and "start_manager lan bind ids m = Inr m'"
  shows "run_inv P (first_state m')"
proof -
  from assms(2) obtain port where sp: "start_peers bind ids (m\<lparr>m_running := True, m_lan_port := port\<rparr>) = Inr m'"
    by (auto simp: start_manager_def)
  have "mgr_frame m (m\<lparr>m_running := True, m_lan_port := port\<rparr>)"
    by (auto simp: mgr_frame_def intro: option.rel_refl)
  with mgr_frame_start_peers [OF sp] sections.kept_trans have "mgr_frame m m'" by blast
  with run_inv_frame [OF run_inv_new [OF assms(1)], of m'] show ?thesis by (simp add: first_state_def)
qed

section \<open>Properties\<close>


lemma accept_False: "accept p f = (False, q) \<Longrightarrow> q = p"
  by (auto simp: accept_def window_step_def new_epoch_def Let_def word_gt_0 split: if_splits)

text \<open>
  C5. A frame from an unconfigured sender, for another network or device, with a wrong MAC,
  after the authority expired, from an address that is not on-link, or refused by the replay
  guard changes nothing and is not answered or delivered.
\<close>

theorem receive_fails_closed:
  assumes "receive P m f src clk w \<noteq> (m, [])"
  shows "\<exists>p. m_peers m (f_from f) = Some p \<and> f_network f = mc_network (m_cfg m) \<and>
    f_to f = mc_device (m_cfg m) \<and> verify_frame P f (ps_key p) \<and> nanos (clk 0) < m_expiry m \<and>
    (\<forall>a. src = Some a \<longrightarrow> on_link m a) \<and> fst (accept p f)"
proof -
  from assms obtain obj where gate: "receive_gate P m f src (clk 0) = Some obj"
    by (auto simp: receive_def split: option.splits)
  then obtain p where p: "m_peers m (f_from f) = Some p" "ps_obj p = obj"
    and ok: "f_network f = mc_network (m_cfg m)" "f_to f = mc_device (m_cfg m)" "verify_frame P f (ps_key p)"
      "nanos (clk 0) < m_expiry m" "\<forall>a. src = Some a \<longrightarrow> on_link m a"
    by (auto simp: receive_gate_def split: option.splits if_splits)
  have "fst (accept p f)"
  proof (rule ccontr)
    assume "\<not> fst (accept p f)"
    then have "accept p f = (False, p)" using accept_False by (metis prod.collapse)
    then have "receive_locked m obj f src clk = (m, Done)"
      using p by (simp add: receive_locked_def set_peer_def fun_upd_idem)
    with gate assms show False by (simp add: receive_def)
  qed
  with p ok show ?thesis by blast
qed

lemma accept_pending:
  assumes "accept p f = (True, q)"
  shows "(ps_active q = ps_active p \<and> ps_pending q = ps_pending p) \<or> (ps_active q = None \<and> ps_pending q = Map.empty)"
  using assms by (auto simp: accept_def window_step_def new_epoch_def Let_def split: if_splits)

lemma on_ack_active:
  assumes "ps_active (on_ack m p f src clk) = Some a" and "ps_active p \<noteq> Some a"
  shows "src = Some a \<and> ps_active p = None \<and>
    (\<exists>pb. ps_pending p (f_nonce f) = Some pb \<and> pb_address pb = a \<and>
       sub_time (clk 1) (pb_sent pb) \<le> FailureAfter (m_opt m)) \<and>
    (\<exists>h. ps_health (on_ack m p f src clk) a = Some h \<and> PromoteAfter (m_opt m) \<le> ch_success h) \<and>
    ps_pending (on_ack m p f src clk) (f_nonce f) = None"
  using assms by (auto simp: on_ack_def Let_def split: option.splits if_splits)

lemma on_discover_active: "ps_active (on_discover m p f src) = Some a \<Longrightarrow> ps_active p = Some a"
  by (auto simp: on_discover_def Let_def split: option.splits if_splits)

text \<open>
  C4. A LAN path is selected only by proof: the selected address of a peer becomes \<open>a\<close> only
  when an acknowledgement from \<open>a\<close> answers a probe that was sent to \<open>a\<close> under this nonce,
  is still pending and not older than \<open>FailureAfter\<close>, when no path was selected, and after
  \<open>PromoteAfter\<close> successes; the nonce is used up.
\<close>

theorem path_selected_by_proof:
  assumes "receive_locked m obj f src clk = (m', fu)"
    and "m_peers m i = Some p" and "m_peers m' i = Some q"
    and "ps_active q = Some a" and "ps_active p \<noteq> Some a"
  shows "i = f_from f \<and> f_type f = ''ack'' \<and> src = Some a \<and>
    (\<exists>pb. ps_pending p (f_nonce f) = Some pb \<and> pb_address pb = a \<and>
       sub_time (clk 1) (pb_sent pb) \<le> FailureAfter (m_opt m)) \<and> ps_active p = None \<and>
    (\<exists>h. ps_health q a = Some h \<and> PromoteAfter (m_opt m) \<le> ch_success h) \<and>
    ps_pending q (f_nonce f) = None"
proof -
  have i: "i = f_from f"
    using assms by (auto simp: receive_locked_def set_peer_def split: option.splits if_splits prod.splits bool.splits)
  obtain ok p1 where acc: "accept p f = (ok, p1)" by (metis prod.exhaust)
  have ok: "ok \<and> f_type f = ''ack'' \<and> q = on_ack m p1 f src clk"
  proof (cases ok)
    case False
    with accept_False [of p f p1] acc have "p1 = p" by simp
    with False acc assms i show ?thesis
      by (auto simp: receive_locked_def set_peer_def split: if_splits)
  next
    case True
    with acc assms i accept_pending [of p f p1] on_discover_active [of m p1 f src a] show ?thesis
      by (auto simp: receive_locked_def set_peer_def split: if_splits)
  qed
  with accept_pending [of p f p1] acc have ap: "ps_active p1 = ps_active p \<and> ps_pending p1 = ps_pending p \<or>
      ps_active p1 = None \<and> ps_pending p1 = Map.empty" by simp
  from ok assms(4) have act: "ps_active (on_ack m p1 f src clk) = Some a" by simp
  have "ps_active p1 \<noteq> Some a" using ap assms(5) by auto
  from on_ack_active [OF act this] ap i ok show ?thesis by auto
qed

text \<open>
  A successful \<open>Reconfigure\<close> keeps the state of every peer whose specification is
  unchanged (its path, its replay window, its sequence) and gives every other configured peer
  a new object with the key of its new public key; exactly the configured peers have a state,
  and the transport identity is untouched. A failed one leaves the manager as it was.
\<close>

theorem reconfigure_contract:
  assumes "reconfigure P resolve n1 n2 nonce listen ids m c = (e, m', closed)"
  shows "(e \<noteq> None \<longrightarrow> m' = m) \<and>
    (e = None \<longrightarrow> m_running m \<and> same_transport (m_cfg m') (m_cfg m) \<and> m_expiry m' = nanos (mc_expires c) \<and>
       mc_peers (m_cfg m') = mc_peers c \<and> dom (m_peers m') = DeviceID ` set (mc_peers c) \<and>
       (\<forall>spec \<in> set (mc_peers c).
          (\<forall>p. m_peers m (DeviceID spec) = Some p \<and> ps_peer p = spec \<longrightarrow> m_peers m' (DeviceID spec) = Some p) \<and>
          (\<forall>q. m_peers m' (DeviceID spec) = Some q \<and> m_peers m (DeviceID spec) \<noteq> Some q \<longrightarrow>
             ps_peer q = spec \<and> m_next_obj m \<le> ps_obj q \<and> ps_epoch q = [] \<and> ps_active q = None \<and>
             wire_key P (m_private m) (PublicKey spec) (mc_network c) ''peer'' = Inr (ps_key q))))"
proof (cases e)
  case (Some x)
  with reconfigure_Some assms show ?thesis by blast
next
  case None
  note ok = reconfigure_None [OF assms [unfolded None]]
  from ok(4) obtain res created where run: "reconf_loop P m c nonce listen Map.empty [] (mc_peers c) = (Inr res, created)"
    and m': "m' = m\<lparr>m_peers := res, m_cfg := (m_cfg m)\<lparr>mc_peers := mc_peers c\<rparr>,
              m_expiry := nanos (mc_expires c), m_next_obj := m_next_obj m + length created\<rparr>" by blast
  note loop = reconf_loop_Inr [OF run mesh_config_validate_None(4) [OF ok(3)]]
  have dom: "dom res = DeviceID ` set (mc_peers c)" using loop by fastforce
  have each: "(\<forall>p. m_peers m (DeviceID spec) = Some p \<and> ps_peer p = spec \<longrightarrow> res (DeviceID spec) = Some p) \<and>
      (\<forall>q. res (DeviceID spec) = Some q \<and> m_peers m (DeviceID spec) \<noteq> Some q \<longrightarrow>
         ps_peer q = spec \<and> m_next_obj m \<le> ps_obj q \<and> ps_epoch q = [] \<and> ps_active q = None \<and>
         wire_key P (m_private m) (PublicKey spec) (mc_network c) ''peer'' = Inr (ps_key q))"
    if spec: "spec \<in> set (mc_peers c)" for spec
  proof -
    from loop spec obtain q where q: "res (DeviceID spec) = Some q"
      and src: "kept_peer m spec = Some q \<or> kept_peer m spec = None \<and> created_for P m c created spec q" by blast
    from src show ?thesis
    proof
      assume "kept_peer m spec = Some q"
      with q show ?thesis by (simp add: kept_peer_Some)
    next
      assume new: "kept_peer m spec = None \<and> created_for P m c created spec q"
      then have no: "\<not> (m_peers m (DeviceID spec) = Some p \<and> ps_peer p = spec)" for p
        using kept_peer_Some [of m spec p] by simp
      from new obtain n x key s where "q = fresh_peer (m_next_obj m + n) x spec key s"
        "wire_key P (m_private m) (PublicKey spec) (mc_network c) ''peer'' = Inr key"
        unfolding created_for_def by blast
      then have facts: "ps_peer q = spec \<and> m_next_obj m \<le> ps_obj q \<and> ps_epoch q = [] \<and> ps_active q = None \<and>
          wire_key P (m_private m) (PublicKey spec) (mc_network c) ''peer'' = Inr (ps_key q)"
        by (simp add: fresh_peer_def)
      have eq: "q' = q" if "res (DeviceID spec) = Some q'" for q' using q that by simp
      show ?thesis
      proof (rule conjI; rule allI; rule impI)
        fix p assume "m_peers m (DeviceID spec) = Some p \<and> ps_peer p = spec"
        then show "res (DeviceID spec) = Some p" by (rule notE [OF no])
      next
        fix q' assume "res (DeviceID spec) = Some q' \<and> m_peers m (DeviceID spec) \<noteq> Some q'"
        then have "q' = q" using eq by simp
        then show "ps_peer q' = spec \<and> m_next_obj m \<le> ps_obj q' \<and> ps_epoch q' = [] \<and> ps_active q' = None \<and>
          wire_key P (m_private m) (PublicKey spec) (mc_network c) ''peer'' = Inr (ps_key q')"
          using facts by simp
      qed
    qed
  qed
  have same: "same_transport (m_cfg m') (m_cfg m)" by (simp add: same_transport_def m')
  have sel: "m_expiry m' = nanos (mc_expires c)" "mc_peers (m_cfg m') = mc_peers c" "m_peers m' = res"
    by (simp_all add: m')
  show ?thesis unfolding sel using None ok(1) same dom each by blast
qed

lemma status_loop_total:
  assumes "\<forall>spec \<in> set specs. \<exists>p. m_peers m (DeviceID spec) = Some p \<and> DeviceID (ps_peer p) = DeviceID spec"
  shows "\<exists>ss. status_loop m specs = Some ss \<and> map st_device ss = map DeviceID specs"
  using assms
proof (induction specs)
  case Nil
  then show ?case by simp
next
  case (Cons spec specs)
  then obtain p ss where "m_peers m (DeviceID spec) = Some p" "DeviceID (ps_peer p) = DeviceID spec"
    "status_loop m specs = Some ss" "map st_device ss = map DeviceID specs" by auto
  moreover have "st_device (peer_status_of p) = DeviceID (ps_peer p)"
    by (simp add: peer_status_of_def Let_def split: option.split)
  ultimately show ?case by simp
qed

text \<open>
  \<open>Status\<close> never dereferences a missing peer: in every reachable state it reports
  exactly the configured peers, in their configured order.
\<close>

theorem status_total:
  assumes "new_manager P resolve n1 n2 prefixes nonce c private opt = Inr m0"
    and "start_manager lan bind ids m0 = Inr m1"
    and "(path_step P resolve)\<^sup>*\<^sup>* (first_state m1) r"
  shows "\<exists>ss. manager_status (rs_mgr r) = Some ss \<and>
    map st_device ss = map DeviceID (mc_peers (m_cfg (rs_mgr r)))"
proof -
  have inv: "run_inv P r" by (rule run_inv_reachable [OF assms(3) run_inv_started [OF assms(1,2)]])
  have "\<exists>p. m_peers (rs_mgr r) (DeviceID spec) = Some p \<and> DeviceID (ps_peer p) = DeviceID spec"
    if "spec \<in> set (mc_peers (m_cfg (rs_mgr r)))" for spec
  proof -
    have "DeviceID spec \<in> dom (m_peers (rs_mgr r))" using inv that by (simp add: run_inv_def Let_def)
    then obtain p where "m_peers (rs_mgr r) (DeviceID spec) = Some p" by blast
    with inv show ?thesis by (auto simp: run_inv_def Let_def peer_ok_def)
  qed
  then show ?thesis unfolding manager_status_def by (intro status_loop_total) blast
qed

section \<open>A concrete run\<close>

text \<open>One peer, started, which receives one data frame over the relay.\<close>

definition sample_private :: string where "sample_private = std_encode (replicate 32 1)"

definition sample_opt :: options where
  "sample_opt = \<lparr>ProbeInterval = 0, FailureAfter = 0, PromoteAfter = 0, hook_candidates = None, hook_on_link = None\<rparr>"

definition sample_frame :: frame where
  "sample_frame = sign_frame sample_prims
     (sample_lan\<lparr>f_from := ''b'', f_to := ''a''\<rparr>) (replicate 32 1)"

lemma sample_key: "wire_key sample_prims sample_private (std_encode (replicate 32 0)) n u = Inr (replicate 32 1)"
  by (simp add: wire_key_def sample_private_def trim_space_all_graphic [OF std_encode_graphic])
    (simp add: sample_prims_def)

definition sample_state :: "nat option \<Rightarrow> peer_state" where
  "sample_state s = fresh_peer 0 ''e'' (hd (mc_peers sample_mesh)) (replicate 32 1) s"

definition sample_manager :: "nat option \<Rightarrow> bool \<Rightarrow> nat \<Rightarrow> manager" where
  "sample_manager s run port = \<lparr>m_cfg = sample_mesh, m_opt = default_options sample_opt, m_private = sample_private,
     m_relay_key = replicate 32 1, m_prefixes = [], m_peers = [''b'' \<mapsto> sample_state s], m_relay = None,
     m_outbound = [], m_expiry = 60 * second, m_wg = parse_addr_port ''127.0.0.1:1002'', m_running = run,
     m_lan_port = port, m_next_obj = 1\<rparr>"

abbreviation epoch_start :: gotime where "epoch_start \<equiv> \<lparr>nanos = 0, utc = True\<rparr>"

lemma sample_new:
  "new_manager sample_prims (\<lambda>_. True) epoch_start epoch_start [] (\<lambda>_. ''e'') sample_mesh sample_private sample_opt
     = Inr (sample_manager None False 0)"
  by (simp add: new_manager_def sample_mesh_valid sample_manager_def sample_state_def)
    (simp add: sample_mesh_def sample_key)

lemma sample_start:
  "start_manager (Inr 5) (\<lambda>_. Inr 6) [''b''] (sample_manager None False 0) = Inr (sample_manager (Some 6) True 5)"
  by (simp add: start_manager_def sample_manager_def sample_state_def set_peer_def fresh_peer_def)

lemma sample_frame_sels:
  "f_from sample_frame = ''b''" "f_to sample_frame = ''a''" "f_network sample_frame = ''n1''"
  "f_type sample_frame = ''data''" "f_seq sample_frame = 7" "length (f_epoch sample_frame) = 32"
  "f_payload sample_frame = [1, 2, 3]"
  by (simp_all add: sample_frame_def sample_lan_def)

lemma sample_verifies: "verify_frame sample_prims sample_frame (replicate 32 1)"
  by (simp add: verify_frame_def sample_frame_def) (simp add: sample_prims_def min_def)

lemma sample_gate:
  "receive_gate sample_prims (sample_manager (Some 6) True 5) sample_frame None epoch_start = Some 0"
  by (simp add: receive_gate_def sample_manager_def sample_frame_sels sample_state_def sample_verifies
      sample_mesh_def fresh_peer_def durations)

lemma sample_accepts: "accept (sample_state s) sample_frame = (True, snd (accept (sample_state s) sample_frame))"
  using accept_refines [OF fresh_peer_guard, of 0 "''e''" "hd (mc_peers sample_mesh)" "replicate 32 1" s sample_frame]
  by (cases "accept (sample_state s) sample_frame")
    (simp add: sample_state_def may_accept_def sample_frame_sels fresh_seq_def seen_in_def fresh_peer_def)

lemma sample_accepts_now: "accepts_now (sample_manager (Some 6) True 5) 0 sample_frame"
  using sample_accepts [of "Some 6"]
  by (cases "accept (sample_state (Some 6)) sample_frame")
    (simp add: accepts_now_def sample_manager_def sample_frame_sels, simp add: sample_state_def)

definition sample_run :: run_state where
  "sample_run = (first_state (sample_manager (Some 6) True 5))\<lparr>rs_flight := [(0, sample_frame, None)]\<rparr>"

lemma sample_reach:
  "(path_step sample_prims (\<lambda>_. True))\<^sup>*\<^sup>* (first_state (sample_manager (Some 6) True 5)) sample_run"
proof -
  have "path_step sample_prims (\<lambda>_. True) (first_state (sample_manager (Some 6) True 5))
      ((first_state (sample_manager (Some 6) True 5))\<lparr>rs_flight :=
        (0, sample_frame, None) # rs_flight (first_state (sample_manager (Some 6) True 5))\<rparr>)"
    by (rule path_step.gate [where now = epoch_start]) (simp add: first_state_def sample_gate)
  then show ?thesis by (simp add: sample_run_def first_state_def)
qed


lemma status_total_witness:
  "\<exists>ss. manager_status (rs_mgr sample_run) = Some ss \<and> map st_device ss = [''b'']"
  using status_total [OF sample_new sample_start sample_reach]
  by (simp add: sample_run_def first_state_def sample_manager_def sample_mesh_def)

lemma receive_fails_closed_witness:
  "verify_frame sample_prims sample_frame (replicate 32 1) \<and>
     receive sample_prims (sample_manager (Some 6) True 5) sample_frame None (\<lambda>_. epoch_start) True \<noteq>
       (sample_manager (Some 6) True 5, [])"
proof -
  let ?m = "sample_manager (Some 6) True 5"
  obtain p1 where acc: "accept (sample_state (Some 6)) sample_frame = (True, p1)"
    using sample_accepts [of "Some 6"] by metis
  have p: "m_peers ?m ''b'' = Some (sample_state (Some 6))" "ps_obj (sample_state (Some 6)) = 0"
    by (simp_all add: sample_manager_def sample_state_def)
  have "snd (receive sample_prims ?m sample_frame None (\<lambda>_. epoch_start) True) = [ToWG [1, 2, 3]]"
    by (simp add: receive_def sample_gate receive_locked_def sample_frame_sels p acc)
  then have run: "receive sample_prims ?m sample_frame None (\<lambda>_. epoch_start) True \<noteq> (?m, [])" by auto
  from receive_fails_closed [OF this] p run show ?thesis
    by (auto simp: sample_frame_sels sample_state_def)
qed

text \<open>A probe answered in time, with promotion after the first success.\<close>

definition sample_lan_address :: addr_port where
  "sample_lan_address = \<lparr>ap_addr = V4 [192, 168, 1, 2], ap_port = 4000\<rparr>"

definition probed_state :: peer_state where
  "probed_state = (sample_state (Some 6))\<lparr>ps_epoch := f_epoch sample_frame, ps_high := 3, ps_bitmap := 1,
     ps_pending := [f_nonce sample_frame \<mapsto> \<lparr>pb_address = sample_lan_address, pb_sent = epoch_start\<rparr>]\<rparr>"

definition probed_manager :: manager where
  "probed_manager = (sample_manager (Some 6) True 5)\<lparr>m_peers := [''b'' \<mapsto> probed_state],
     m_opt := (default_options sample_opt)\<lparr>PromoteAfter := 1\<rparr>\<rparr>"

lemma path_selected_by_proof_witness:
  "\<exists>m' fu q. receive_locked probed_manager 0 (sample_frame\<lparr>f_type := ''ack''\<rparr>) (Some sample_lan_address)
       (\<lambda>_. epoch_start) = (m', fu) \<and> m_peers m' ''b'' = Some q \<and> ps_active q = Some sample_lan_address \<and>
     ps_pending q (f_nonce sample_frame) = None"
proof -
  let ?f = "sample_frame\<lparr>f_type := ''ack''\<rparr>" and ?clk = "\<lambda>_ :: nat. epoch_start"
  obtain p1 where acc: "accept probed_state ?f = (True, p1)"
    and p1: "ps_active p1 = None" "ps_pending p1 = ps_pending probed_state" "ps_health p1 = Map.empty"
    by (simp add: accept_def window_step_def probed_state_def sample_frame_sels Let_def)
      (simp add: sample_state_def fresh_peer_def)
  have p: "m_peers probed_manager ''b'' = Some probed_state" "ps_obj probed_state = 0"
    by (simp_all add: probed_manager_def probed_state_def sample_state_def)
  let ?q = "on_ack probed_manager p1 ?f (Some sample_lan_address) ?clk"
  have run: "receive_locked probed_manager 0 ?f (Some sample_lan_address) ?clk = (set_peer probed_manager ''b'' ?q, Done)"
    by (simp add: receive_locked_def sample_frame_sels p acc)
  have act: "ps_active ?q = Some sample_lan_address"
    by (simp add: on_ack_def p1 Let_def probed_state_def probed_manager_def default_options_def sample_opt_def
        sub_time_def saturate_def zero_time_def durations)
  have q: "m_peers (set_peer probed_manager ''b'' ?q) ''b'' = Some ?q" by (simp add: set_peer_def)
  have "ps_active probed_state \<noteq> Some sample_lan_address"
    by (simp add: probed_state_def sample_state_def fresh_peer_def)
  from path_selected_by_proof [OF run p(1) q act this] run q act show ?thesis by auto
qed

lemma reconfigure_contract_witness:
  "\<exists>m'. reconfigure sample_prims (\<lambda>_. True) epoch_start epoch_start (\<lambda>_. ''e'') (\<lambda>_. Inr 7) [''b'']
       (sample_manager (Some 6) True 5) sample_mesh = (None, m', []) \<and>
     m_peers m' ''b'' = Some (sample_state (Some 6))"
proof -
  let ?m = "sample_manager (Some 6) True 5"
  have kept: "kept_peer ?m (hd (mc_peers sample_mesh)) = Some (sample_state (Some 6))"
    by (simp add: kept_peer_def sample_manager_def sample_state_def) (simp add: sample_mesh_def)
  have ps: "mc_peers sample_mesh = [hd (mc_peers sample_mesh)]" and id: "DeviceID (hd (mc_peers sample_mesh)) = ''b''"
    by (simp_all add: sample_mesh_def)
  have loop: "reconf_loop sample_prims ?m sample_mesh (\<lambda>_. ''e'') (\<lambda>_. Inr 7) Map.empty [] (mc_peers sample_mesh)
      = (Inr [''b'' \<mapsto> sample_state (Some 6)], [])"
    by (subst ps) (simp add: kept id)
  have st: "same_transport sample_mesh (m_cfg ?m)" "m_running ?m" "m_peers ?m ''b'' = Some (sample_state (Some 6))"
    by (simp_all add: same_transport_def sample_manager_def)
  obtain m' where run: "reconfigure sample_prims (\<lambda>_. True) epoch_start epoch_start (\<lambda>_. ''e'') (\<lambda>_. Inr 7) [''b'']
       ?m sample_mesh = (None, m', [])"
    by (simp add: reconfigure_def sample_mesh_valid loop st sockets_def List.map_filter_simps)
  have "hd (mc_peers sample_mesh) \<in> set (mc_peers sample_mesh)" by (subst (2) ps) simp
  moreover have "m_peers ?m (DeviceID (hd (mc_peers sample_mesh))) = Some (sample_state (Some 6)) \<and>
      ps_peer (sample_state (Some 6)) = hd (mc_peers sample_mesh)"
    by (simp add: id st sample_state_def)
  ultimately have "m_peers m' ''b'' = Some (sample_state (Some 6))"
    using reconfigure_contract [OF run] id by auto
  with run show ?thesis by blast
qed

end
