(* ===== verification/Model_Config.thy ===== *)
theory Model_Config
  imports Mesh_Config
begin

text \<open>
  \<open>overlay/model/config.go\<close>: the runtime configuration a node applies, and its
  validation. \<open>LastSeenAt\<close> and \<open>LastHeartbeat\<close> are optional times. The validation of a
  mesh with a relay endpoint reads the clock and resolves a name: \<open>check_env\<close> holds both.
\<close>

section \<open>Data\<close>

record network =
  nw_id :: string
  nw_display_name :: string
  nw_cidr :: string
  nw_gateway_id :: string
  nw_gateway_key :: string
  nw_endpoint_host :: string
  nw_endpoint_port :: int
  nw_server_name :: string
  nw_transport_port :: int
  nw_auth_id :: string
  nw_kind :: string
  nw_path :: string
  nw_mode :: string
  nw_host :: string
  nw_created :: gotime
  nw_updated :: gotime

record device =
  dv_id :: string
  dv_user :: string
  dv_network :: string
  dv_role :: string
  dv_name :: string
  dv_platform :: string
  dv_hostname :: string
  dv_public_key :: string
  dv_address :: string
  dv_created :: gotime
  dv_updated :: gotime
  dv_last_seen :: "gotime option"

record wireguard_config =
  wg_listen_port :: int
  wg_interface :: string
  wg_address :: string
  wg_mtu :: int
  wg_dns :: "string list"
  wg_private_key_ref :: string
  wg_local_proxy :: string
  wg_keepalive :: int
  wg_peer_key :: string
  wg_allowed_ips :: "string list"
  wg_peer_endpoint :: string
  wg_gateway_ip :: string
  wg_gateway_port :: int
  wg_gateway_cidr :: string

record transport_config =
  tr_runtime :: string
  tr_type :: string
  tr_security :: string
  tr_server :: string
  tr_server_name :: string
  tr_port :: int
  tr_uuid :: string
  tr_auth_id :: string
  tr_path :: string
  tr_mode :: string
  tr_host :: string
  tr_flow :: string
  tr_packet_encoding :: string
  tr_local_port :: int

record overlay_node =
  on_id :: string
  on_network :: string
  on_name :: string
  on_role :: string
  on_region :: string
  on_public_key :: string
  on_address :: string
  on_endpoint_host :: string
  on_endpoint_port :: int
  on_type :: string
  on_security :: string
  on_path :: string
  on_mode :: string
  on_uuid :: string
  on_uuid_set :: bool
  on_healthy :: bool
  on_heartbeat :: "gotime option"

record config =
  cf_schema :: int
  cf_revision :: string
  cf_digest :: string
  cf_network :: network
  cf_device :: device
  cf_wireguard :: wireguard_config
  cf_transport :: transport_config
  cf_nodes :: "overlay_node list"
  cf_mesh :: "mesh_config option"
  cf_etag :: string

definition zero_network :: network where
  "zero_network = \<lparr>nw_id = [], nw_display_name = [], nw_cidr = [], nw_gateway_id = [], nw_gateway_key = [],
     nw_endpoint_host = [], nw_endpoint_port = 0, nw_server_name = [], nw_transport_port = 0, nw_auth_id = [],
     nw_kind = [], nw_path = [], nw_mode = [], nw_host = [], nw_created = zero_time, nw_updated = zero_time\<rparr>"

definition zero_device :: device where
  "zero_device = \<lparr>dv_id = [], dv_user = [], dv_network = [], dv_role = [], dv_name = [], dv_platform = [],
     dv_hostname = [], dv_public_key = [], dv_address = [], dv_created = zero_time, dv_updated = zero_time,
     dv_last_seen = None\<rparr>"

section \<open>Predicates\<close>

definition valid_port :: "int \<Rightarrow> bool" where
  "valid_port p \<longleftrightarrow> 1 \<le> p \<and> p \<le> 65535"

definition valid_optional_port :: "int \<Rightarrow> bool" where
  "valid_optional_port p \<longleftrightarrow> p = 0 \<or> valid_port p"

definition valid_cidr :: "string \<Rightarrow> bool" where
  "valid_cidr s \<longleftrightarrow> parse_prefix s \<noteq> None"

definition valid_wireguard_key :: "string \<Rightarrow> bool" where
  "valid_wireguard_key s \<longleftrightarrow> (case std_decode s of None \<Rightarrow> False | Some k \<Rightarrow> length k = 32)"

definition valid_uuid :: "string \<Rightarrow> bool" where
  "valid_uuid s \<longleftrightarrow>
     (case hex_decode (filter (\<lambda>c. c \<noteq> CHR ''-'') s) of None \<Rightarrow> False | Some b \<Rightarrow> length b = 16)"

text \<open>\<open>^[a-zA-Z0-9_=+.-]{1,15}$\<close>\<close>

definition is_interface_char :: "char \<Rightarrow> bool" where
  "is_interface_char c \<longleftrightarrow> is_alnum c \<or> c \<in> {CHR ''_'', CHR ''='', CHR ''+'', CHR ''.'', CHR ''-''}"

definition valid_interface :: "string \<Rightarrow> bool" where
  "valid_interface s \<longleftrightarrow> match_all is_interface_char 1 15 s"

definition valid_xhttp_path :: "string \<Rightarrow> bool" where
  "valid_xhttp_path p \<longleftrightarrow> \<not> (p \<noteq> [] \<and> (\<not> has_prefix p ''/'' \<or> length p > 1024))"

definition valid_xhttp_mode :: "string \<Rightarrow> bool" where
  "valid_xhttp_mode m \<longleftrightarrow> \<not> (m \<noteq> [] \<and> m \<noteq> ''auto'' \<and> m \<noteq> ''packet-up'' \<and> m \<noteq> ''stream-up'')"

definition require_loopback_endpoint :: "string \<Rightarrow> int \<Rightarrow> error option" where
  "require_loopback_endpoint endpoint port =
     (case split_host_port endpoint of
        None \<Rightarrow> Some (Plain ''address'')
      | Some (h, p) \<Rightarrow>
          if h \<noteq> ''127.0.0.1'' \<or> p \<noteq> show_int port
          then Some (Plain ''endpoint must match the configured loopback transport'') else None)"

section \<open>Defaults of the transport\<close>

definition vless_auth_id :: "transport_config \<Rightarrow> string" where
  "vless_auth_id t = (if tr_auth_id t \<noteq> [] then tr_auth_id t else tr_uuid t)"

definition tls_server_name :: "transport_config \<Rightarrow> string" where
  "tls_server_name t = (if trim_space (tr_server_name t) \<noteq> [] then tr_server_name t else tr_server t)"

definition xhttp_path :: "transport_config \<Rightarrow> string" where
  "xhttp_path t = (if trim_space (tr_path t) = [] then ''/xconnect'' else tr_path t)"

definition xhttp_mode :: "transport_config \<Rightarrow> string" where
  "xhttp_mode t = (if trim_space (tr_mode t) = [] then ''auto'' else tr_mode t)"

definition xhttp_host :: "transport_config \<Rightarrow> string" where
  "xhttp_host t = (if trim_space (tr_host t) = [] then tls_server_name t else tr_host t)"

definition relay_target_port :: "wireguard_config \<Rightarrow> int" where
  "relay_target_port w = (if wg_gateway_port w \<noteq> 0 then wg_gateway_port w else 51820)"

definition supported_adapter_id :: "string \<Rightarrow> bool" where
  "supported_adapter_id a \<longleftrightarrow> a = ''libXray'' \<or> a = ''xray-core''"

section \<open>Validation\<close>

record check_env =
  ce_resolve :: "string \<Rightarrow> bool"
  ce_now1 :: gotime
  ce_now2 :: gotime

definition validate_mesh_part :: "check_env \<Rightarrow> config \<Rightarrow> error option" where
  "validate_mesh_part E c =
     (case cf_mesh c of
        None \<Rightarrow> None
      | Some m \<Rightarrow>
          if mc_network m \<noteq> nw_id (cf_network c) \<or> mc_device m \<noteq> dv_id (cf_device c)
          then Some (fault CodeInvalidConfig ''validate mesh binding'')
          else if mc_gateway_key m \<noteq> wg_peer_key (cf_wireguard c) \<or> mc_interface m \<noteq> wg_interface (cf_wireguard c)
          then Some (fault CodeInvalidConfig ''validate mesh transport binding'')
          else if mc_relay m = [] then
            (case spec_validate (dv_id (cf_device c)) (mc_peers m) of
               Some e \<Rightarrow> Some (fault_cause CodeInvalidConfig ''validate mesh peers'' e)
             | None \<Rightarrow> None)
          else
            (case mesh_config_validate (ce_resolve E) (ce_now1 E) (ce_now2 E) m of
               Some e \<Rightarrow> Some (fault_cause CodeInvalidConfig ''validate mesh runtime'' e)
             | None \<Rightarrow> None))"

definition validate_transport_part :: "config \<Rightarrow> error option" where
  "validate_transport_part c =
     (let t = cf_transport c in
      if tr_runtime t \<noteq> ''xray-core'' then Some (fault CodeUnsupportedRuntimeCore ''validate config'')
      else if cf_schema c \<noteq> 1 \<or> trim_space (cf_revision c) = [] \<or> trim_space (cf_digest c) = []
      then Some (fault CodeInvalidConfig ''validate config'')
      else if trim_space (nw_id (cf_network c)) = [] \<or> trim_space (dv_id (cf_device c)) = []
      then Some (fault CodeInvalidConfig ''validate config'')
      else if \<not> valid_port (tr_local_port t) \<or> tr_port t \<noteq> 443
      then Some (fault CodeInvalidConfig ''validate config XHTTP ports'')
      else if (tr_type t \<noteq> ''vless-xhttp'' \<and> tr_type t \<noteq> ''vless-tls-xudp'') \<or> tr_security t \<noteq> ''tls'' \<or>
              tr_packet_encoding t \<noteq> ''xudp''
      then Some (fault CodeInvalidConfig ''validate config'')
      else if \<not> valid_xhttp_path (tr_path t) then Some (fault CodeInvalidConfig ''validate config XHTTP path'')
      else if \<not> valid_xhttp_mode (tr_mode t) then Some (fault CodeInvalidConfig ''validate config XHTTP mode'')
      else if tr_host t \<noteq> [] \<and> trim_space (tr_host t) = []
      then Some (fault CodeInvalidConfig ''validate config XHTTP host'')
      else if trim_space (tr_server t) = [] \<or> \<not> valid_port (tr_port t) \<or> \<not> valid_port (tr_local_port t) \<or>
              \<not> valid_uuid (vless_auth_id t)
      then Some (fault CodeInvalidConfig ''validate config'')
      else if tr_uuid t \<noteq> [] \<and> tr_auth_id t \<noteq> []
      then Some (fault CodeInvalidConfig ''validate config credential'')
      else None)"

definition validate_wireguard_part :: "config \<Rightarrow> error option" where
  "validate_wireguard_part c =
     (let w = cf_wireguard c; port = tr_local_port (cf_transport c) in
      if \<not> valid_interface (wg_interface w) \<or> trim_space (wg_private_key_ref w) = [] \<or> wg_allowed_ips w = []
      then Some (fault CodeInvalidConfig ''validate config'')
      else if \<not> valid_cidr (wg_address w) \<or> \<not> valid_wireguard_key (wg_peer_key w)
      then Some (fault CodeInvalidConfig ''validate config'')
      else if \<not> list_all valid_cidr (wg_allowed_ips w) then Some (fault CodeInvalidConfig ''validate config'')
      else if wg_mtu w < 576 \<or> wg_mtu w > 1500 then Some (fault CodeInvalidConfig ''validate config'')
      else if wg_keepalive w < 0 \<or> wg_keepalive w > 65535 \<or> \<not> parse_ip_ok (wg_gateway_ip w) \<or>
              \<not> valid_cidr (wg_gateway_cidr w) \<or> \<not> valid_optional_port (wg_gateway_port w)
      then Some (fault CodeInvalidConfig ''validate config'')
      else
        (case require_loopback_endpoint (wg_peer_endpoint w) port of
           Some e \<Rightarrow> Some (fault_cause CodeInvalidConfig ''validate config'' e)
         | None \<Rightarrow>
             (case require_loopback_endpoint (wg_local_proxy w) port of
                Some e \<Rightarrow> Some (fault_cause CodeInvalidConfig ''validate config'' e)
              | None \<Rightarrow> None)))"

definition config_validate :: "check_env \<Rightarrow> config \<Rightarrow> error option" where
  "config_validate E c =
     (case validate_mesh_part E c of
        Some e \<Rightarrow> Some e
      | None \<Rightarrow> (case validate_transport_part c of Some e \<Rightarrow> Some e | None \<Rightarrow> validate_wireguard_part c))"

lemma config_validate_None:
  "config_validate E c = None \<longleftrightarrow>
     validate_mesh_part E c = None \<and> validate_transport_part c = None \<and> validate_wireguard_part c = None"
  by (simp add: config_validate_def split: option.split)

lemma show_int_plain: "CHR '':'' \<notin> set (show_int n)" "CHR ''['' \<notin> set (show_int n)" "CHR '']'' \<notin> set (show_int n)"
  using show_int_chars [of n] by (auto simp: is_digit_def code_def)

lemma loopback_endpoint_text:
  "require_loopback_endpoint (''127.0.0.1'' @ '':'' @ show_int port) port = None"
proof -
  have "split_last CHR '':'' (''127.0.0.1'' @ CHR '':'' # show_int port) = Some (''127.0.0.1'', show_int port)"
    by (rule split_last_unique) (rule show_int_plain)
  then have "split_host_port (''127.0.0.1'' @ '':'' @ show_int port) = Some (''127.0.0.1'', show_int port)"
    by (simp add: split_host_port_def has_prefix_def show_int_plain)
  then show ?thesis by (simp add: require_loopback_endpoint_def)
qed

end
