(* ===== verification/Signed_Config.thy ===== *)
theory Signed_Config
  imports Model_Config
begin

text \<open>
  \<open>overlay/signedconfig/contract.go\<close>: the configuration Zero signs, its signing keys, their
  validation, the bytes that are signed, verification, and the compilation to the runtime
  configuration. SHA-256, Ed25519 and \<open>encoding/json\<close> are parameters (\<open>signed_lib\<close>).
\<close>

section \<open>Data\<close>

record signature =
  sg_algorithm :: string
  sg_key_id :: string
  sg_value :: string

record endpoint =
  ep_host :: string
  ep_port :: int

record remote_endpoint =
  re_host :: string
  re_port :: int
  re_server_name :: string

record signed_transport =
  tp_kind :: string
  tp_loopback :: endpoint
  tp_remote :: remote_endpoint
  tp_auth_id :: string
  tp_path :: string
  tp_mode :: string
  tp_host :: string

record gateway_peer =
  gp_gateway :: string
  gp_public_key :: string
  gp_allowed_ips :: "string list"
  gp_endpoint :: endpoint
  gp_keepalive :: int

record signed_wireguard =
  sw_interface :: string
  sw_addresses :: "string list"
  sw_mtu :: int
  sw_peers :: "gateway_peer list"

record policy_ref =
  pr_generation :: u64
  pr_digest :: string
  pr_path :: string
  pr_media_type :: string

record signed_config =
  sc_schema :: int
  sc_id :: string
  sc_network :: string
  sc_device :: string
  sc_generation :: u64
  sc_issued :: gotime
  sc_expires :: gotime
  sc_core :: string
  sc_transport :: signed_transport
  sc_wireguard :: signed_wireguard
  sc_policy :: "policy_ref option"
  sc_mesh :: "peer list option"
  sc_signature :: signature
  sc_etag :: string

record signing_key =
  sk_id :: string
  sk_algorithm :: string
  sk_public_key :: string
  sk_status :: string
  sk_not_before :: gotime
  sk_not_after :: "gotime option"

record signing_keys =
  ks_keys :: "signing_key list"
  ks_etag :: string

text \<open>A decoded JSON value, as the walk over a document sees it.\<close>

datatype json = JNull | JBool bool | JNumber string | JString string
  | JArray "json list" | JObject "(string \<times> json) list"

text \<open>What is signed: version 2 adds the policy reference and the mesh.\<close>

record payload_body =
  pb_schema :: int
  pb_id :: string
  pb_network :: string
  pb_device :: string
  pb_generation :: u64
  pb_issued :: gotime
  pb_expires :: gotime
  pb_core :: string
  pb_transport :: signed_transport
  pb_wireguard :: signed_wireguard

datatype payload = PayloadV1 payload_body | PayloadV2 payload_body "policy_ref option" "peer list option"

record signed_lib =
  sl_sha256 :: "byte list \<Rightarrow> byte list"
  sl_ed25519_verify :: "byte list \<Rightarrow> byte list \<Rightarrow> byte list \<Rightarrow> bool"
  sl_payload_json :: "payload \<Rightarrow> byte list"
  sl_parse_json :: "byte list \<Rightarrow> json option"
  sl_strict_config :: "byte list \<Rightarrow> signed_config option"
  sl_strict_keys :: "byte list \<Rightarrow> signing_keys option"

section \<open>Predicates\<close>

definition valid_id :: "string \<Rightarrow> bool" where
  "valid_id s \<longleftrightarrow> match_head_rest is_alnum is_id_char 2 127 s"

definition valid_digest :: "string \<Rightarrow> bool" where
  "valid_digest s \<longleftrightarrow> match_all is_lower_hex 64 64 s"

definition valid_host :: "string \<Rightarrow> bool" where
  "valid_host h \<longleftrightarrow> trim_space h \<noteq> [] \<and> length h \<le> 253"

definition v4_cidr :: "string \<Rightarrow> bool" where
  "v4_cidr s \<longleftrightarrow> (case parse_prefix s of None \<Rightarrow> False | Some p \<Rightarrow> is4 (pfx_addr p))"

definition valid_unique_cidrs :: "string list \<Rightarrow> bool" where
  "valid_unique_cidrs vs \<longleftrightarrow> vs \<noteq> [] \<and> scan_unique (\<lambda>v. v) v4_cidr {} vs"

definition policy_path :: "u64 \<Rightarrow> string \<Rightarrow> string" where
  "policy_path generation digest =
     ''/api/overlay/v1/enrollment/policy-artifacts/'' @ show_nat (unat generation) @ ''/'' @ digest"

definition policy_ref_validate :: "policy_ref \<Rightarrow> error option" where
  "policy_ref_validate p =
     (if pr_generation p = 0 \<or> \<not> valid_digest (pr_digest p) \<or>
         pr_media_type p \<noteq> ''application/vnd.xconnect.policy.v1+json'' \<or>
         pr_path p \<noteq> policy_path (pr_generation p) (pr_digest p)
      then Some (fault CodeInvalidSignedConfig ''validate signed policy reference'') else None)"

section \<open>Decoding\<close>

definition forbidden_fields :: "string list" where
  "forbidden_fields = [''private_key'', ''wireguard_private_key'', ''refresh_token'', ''vault_token'',
     ''access_token'', ''token'']"

fun walk_forbidden :: "json \<Rightarrow> bool" where
  "walk_forbidden (JObject kvs) =
     list_all (\<lambda>kv. case kv of (k, v) \<Rightarrow> to_lower k \<notin> set forbidden_fields \<and> walk_forbidden v) kvs"
| "walk_forbidden (JArray vs) = list_all walk_forbidden vs"
| "walk_forbidden _ = True"

definition no_forbidden_fields :: "signed_lib \<Rightarrow> byte list \<Rightarrow> bool" where
  "no_forbidden_fields L raw \<longleftrightarrow> (case sl_parse_json L raw of None \<Rightarrow> False | Some v \<Rightarrow> walk_forbidden v)"

section \<open>Validation of a configuration\<close>

text \<open>The binding of each mesh peer to the gateway baseline.\<close>

definition prefix_addr :: "string \<Rightarrow> addr option" where
  "prefix_addr s = map_option pfx_addr (parse_prefix s)"

definition mesh_peer_bound :: "addr option \<Rightarrow> gateway_peer \<Rightarrow> peer \<Rightarrow> bool" where
  "mesh_peer_bound own gateway p \<longleftrightarrow>
     valid_id (DeviceID p) \<and> PublicKey p \<noteq> gp_public_key gateway \<and> prefix_addr (Address p) \<noteq> own \<and>
     list_ex (\<lambda>cidr. case (parse_prefix cidr, prefix_addr (Address p)) of
        (Some x, Some a) \<Rightarrow> contains x a | _ \<Rightarrow> False) (gp_allowed_ips gateway)"

definition signed_mesh_part :: "signed_config \<Rightarrow> error option" where
  "signed_mesh_part c =
     (case sc_mesh c of
        None \<Rightarrow> None
      | Some peers \<Rightarrow>
          if sc_schema c \<noteq> 2 then Some (fault CodeInvalidSignedConfig ''mesh requires signed v2'')
          else
            (case spec_validate (sc_device c) peers of
               Some e \<Rightarrow> Some (fault_cause CodeInvalidSignedConfig ''validate mesh peers'' e)
             | None \<Rightarrow>
                 (case (sw_addresses (sc_wireguard c), sw_peers (sc_wireguard c)) of
                    ([a], [gateway]) \<Rightarrow>
                      if list_all (mesh_peer_bound (prefix_addr a) gateway) peers then None
                      else Some (fault CodeInvalidSignedConfig ''invalid mesh peer binding'')
                  | _ \<Rightarrow> Some (fault CodeInvalidSignedConfig ''mesh requires gateway baseline''))))"

definition signed_identity_part :: "signed_config \<Rightarrow> error option" where
  "signed_identity_part c =
     (if (sc_schema c \<noteq> 1 \<and> sc_schema c \<noteq> 2) \<or> \<not> valid_id (sc_id c) \<or> \<not> valid_id (sc_network c) \<or>
         \<not> valid_id (sc_device c) \<or> sc_generation c = 0
      then Some (fault CodeInvalidSignedConfig ''validate signed config identity'')
      else if is_zero (sc_issued c) \<or> is_zero (sc_expires c) \<or> \<not> after (sc_expires c) (sc_issued c)
      then Some (fault CodeInvalidSignedConfig ''validate signed config lifetime'')
      else if sc_core c \<noteq> ''xray'' then Some (fault CodeUnsupportedRuntimeCore ''validate signed config core'')
      else None)"

definition signed_transport_part :: "signed_transport \<Rightarrow> error option" where
  "signed_transport_part t =
     (if (tp_kind t \<noteq> ''vless-xhttp'' \<and> tp_kind t \<noteq> ''vless-tls-xudp'') \<or> ep_host (tp_loopback t) \<noteq> ''127.0.0.1'' \<or>
         \<not> valid_port (ep_port (tp_loopback t)) \<or> \<not> valid_host (re_host (tp_remote t)) \<or>
         re_port (tp_remote t) \<noteq> 443 \<or> \<not> valid_host (re_server_name (tp_remote t)) \<or> \<not> valid_id (tp_auth_id t)
      then Some (fault CodeInvalidSignedConfig ''validate signed config transport'')
      else if \<not> valid_xhttp_path (tp_path t)
      then Some (fault CodeInvalidSignedConfig ''validate signed config XHTTP path'')
      else if \<not> valid_xhttp_mode (tp_mode t)
      then Some (fault CodeInvalidSignedConfig ''validate signed config XHTTP mode'')
      else if tp_host t \<noteq> [] \<and> \<not> valid_host (tp_host t)
      then Some (fault CodeInvalidSignedConfig ''validate signed config XHTTP host'')
      else None)"

definition gateway_peer_ok :: "gateway_peer \<Rightarrow> bool" where
  "gateway_peer_ok p \<longleftrightarrow>
     valid_wireguard_key (gp_public_key p) \<and> valid_unique_cidrs (gp_allowed_ips p) \<and>
     ep_host (gp_endpoint p) = ''127.0.0.1'' \<and> valid_port (ep_port (gp_endpoint p)) \<and>
     0 \<le> gp_keepalive p \<and> gp_keepalive p \<le> 65535"

fun gateway_loop :: "string set \<Rightarrow> gateway_peer list \<Rightarrow> error option" where
  "gateway_loop seen [] = None"
| "gateway_loop seen (p # ps) =
     (if \<not> valid_id (gp_gateway p) then Some (fault CodeInvalidSignedConfig ''validate signed config gateway'')
      else if gp_gateway p \<in> seen
      then Some (fault CodeInvalidSignedConfig ''validate signed config gateway uniqueness'')
      else if \<not> gateway_peer_ok p
      then Some (fault CodeInvalidSignedConfig ''validate signed config WireGuard peer'')
      else gateway_loop (insert (gp_gateway p) seen) ps)"

definition signed_wireguard_part :: "signed_wireguard \<Rightarrow> error option" where
  "signed_wireguard_part w =
     (if \<not> valid_interface (sw_interface w) \<or> sw_addresses w = [] \<or> sw_mtu w < 576 \<or> sw_mtu w > 1500 \<or>
         sw_peers w = []
      then Some (fault CodeInvalidSignedConfig ''validate signed config WireGuard'')
      else if \<not> valid_unique_cidrs (sw_addresses w)
      then Some (fault CodeInvalidSignedConfig ''validate signed config WireGuard addresses'')
      else gateway_loop {} (sw_peers w))"

definition signed_signature_part :: "signed_config \<Rightarrow> error option" where
  "signed_signature_part c =
     (if sg_algorithm (sc_signature c) \<noteq> ''Ed25519'' \<or> \<not> valid_id (sg_key_id (sc_signature c))
      then Some (fault CodeInvalidSignedConfig ''validate signed config signature metadata'')
      else if (case std_decode (sg_value (sc_signature c)) of None \<Rightarrow> True | Some s \<Rightarrow> length s \<noteq> 64)
      then Some (fault CodeInvalidSignedConfig ''validate signed config signature'')
      else if (sc_schema c = 1 \<and> sc_policy c \<noteq> None) \<or>
              (sc_schema c = 2 \<and> (case sc_policy c of None \<Rightarrow> True | Some p \<Rightarrow> policy_ref_validate p \<noteq> None))
      then Some (fault CodeInvalidSignedConfig ''validate signed config policy'')
      else None)"

definition orelse :: "error option \<Rightarrow> error option \<Rightarrow> error option" where
  "orelse a b = (case a of Some e \<Rightarrow> Some e | None \<Rightarrow> b)"

lemma orelse_None [simp]: "orelse a b = None \<longleftrightarrow> a = None \<and> b = None"
  by (simp add: orelse_def split: option.split)

definition signed_validate :: "signed_config \<Rightarrow> error option" where
  "signed_validate c =
     orelse (signed_mesh_part c)
       (orelse (signed_identity_part c)
         (orelse (signed_transport_part (sc_transport c))
           (orelse (signed_wireguard_part (sc_wireguard c)) (signed_signature_part c))))"

definition decode_config :: "signed_lib \<Rightarrow> byte list \<Rightarrow> error + signed_config" where
  "decode_config L raw =
     (if \<not> no_forbidden_fields L raw then Inl (fault CodeInvalidSignedConfig ''decode signed config'')
      else case sl_strict_config L raw of
          None \<Rightarrow> Inl (fault CodeInvalidSignedConfig ''decode signed config'')
        | Some c \<Rightarrow> checkR (signed_validate c) (Inr c))"

lemma signed_validate_etag [simp]: "signed_validate (c\<lparr>sc_etag := e\<rparr>) = signed_validate c"
  unfolding signed_validate_def signed_mesh_part_def signed_identity_part_def signed_signature_part_def
  by (cases c, hypsubst, unfold signed_config.select_convs signed_config.update_convs, rule refl)

section \<open>Signing keys\<close>

definition ed25519_key_text :: "string \<Rightarrow> bool" where
  "ed25519_key_text s \<longleftrightarrow> (case std_decode s of None \<Rightarrow> False | Some k \<Rightarrow> length k = 32)"

fun keys_loop :: "string set \<Rightarrow> nat \<Rightarrow> signing_key list \<Rightarrow> error + nat" where
  "keys_loop seen current [] = Inr current"
| "keys_loop seen current (k # ks) =
     (if \<not> valid_id (sk_id k) \<or> sk_algorithm k \<noteq> ''Ed25519'' \<or>
         (sk_status k \<noteq> ''current'' \<and> sk_status k \<noteq> ''previous'') \<or> is_zero (sk_not_before k)
      then Inl (fault CodeInvalidSigningKeys ''validate signing key metadata'')
      else if sk_id k \<in> seen then Inl (fault CodeInvalidSigningKeys ''validate signing key uniqueness'')
      else if \<not> ed25519_key_text (sk_public_key k)
      then Inl (fault CodeInvalidSigningKeys ''validate signing key material'')
      else if (case sk_not_after k of None \<Rightarrow> False | Some t \<Rightarrow> \<not> after t (sk_not_before k))
      then Inl (fault CodeInvalidSigningKeys ''validate signing key window'')
      else if sk_status k = ''current'' then keys_loop (insert (sk_id k) seen) (Suc current) ks
      else if sk_not_after k = None
      then Inl (fault CodeInvalidSigningKeys ''validate previous signing key window'')
      else keys_loop (insert (sk_id k) seen) current ks)"

definition keys_validate :: "signing_keys \<Rightarrow> error option" where
  "keys_validate k =
     (if ks_keys k = [] then Some (fault CodeInvalidSigningKeys ''validate signing keys'')
      else case keys_loop {} 0 (ks_keys k) of
          Inl e \<Rightarrow> Some e
        | Inr n \<Rightarrow> if n \<noteq> 1 then Some (fault CodeInvalidSigningKeys ''validate current signing key'') else None)"

definition decode_signing_keys :: "signed_lib \<Rightarrow> byte list \<Rightarrow> error + signing_keys" where
  "decode_signing_keys L raw =
     (if \<not> no_forbidden_fields L raw then Inl (fault CodeInvalidSigningKeys ''decode signing keys'')
      else case sl_strict_keys L raw of
          None \<Rightarrow> Inl (fault CodeInvalidSigningKeys ''decode signing keys'')
        | Some k \<Rightarrow> checkR (keys_validate k) (Inr k))"

section \<open>Signing bytes and verification\<close>

definition payload_of :: "signed_config \<Rightarrow> payload" where
  "payload_of c =
     (let body = \<lparr>pb_schema = sc_schema c, pb_id = sc_id c, pb_network = sc_network c, pb_device = sc_device c,
            pb_generation = sc_generation c, pb_issued = sc_issued c, pb_expires = sc_expires c,
            pb_core = sc_core c, pb_transport = sc_transport c, pb_wireguard = sc_wireguard c\<rparr>
      in if sc_schema c = 2 then PayloadV2 body (sc_policy c) (sc_mesh c) else PayloadV1 body)"

text \<open>\<open>CanonicalTime.MarshalJSON\<close> refuses a time that is not canonical.\<close>

definition signing_bytes :: "signed_lib \<Rightarrow> signed_config \<Rightarrow> byte list option" where
  "signing_bytes L c =
     (if canonical_time (sc_issued c) \<and> canonical_time (sc_expires c)
      then Some (sl_payload_json L (payload_of c)) else None)"

definition select_key :: "string \<Rightarrow> signing_key list \<Rightarrow> signing_key option" where
  "select_key i ks = List.find (\<lambda>k. sk_id k = i) ks"

definition verify :: "signed_lib \<Rightarrow> signed_config \<Rightarrow> signing_keys \<Rightarrow> gotime \<Rightarrow> error option" where
  "verify L c keys now =
     orelse (signed_validate c)
       (orelse (keys_validate keys)
         (if after (sc_issued c) now then Some (fault CodeSignedConfigFuture ''verify signed config lifetime'')
          else if \<not> after (sc_expires c) now
          then Some (fault CodeSignedConfigExpired ''verify signed config lifetime'')
          else case select_key (sg_key_id (sc_signature c)) (ks_keys keys) of
              None \<Rightarrow> Some (fault CodeSigningKeyUnknown ''verify signed config key'')
            | Some k \<Rightarrow>
                if before (sc_issued c) (sk_not_before k) \<or> before now (sk_not_before k)
                then Some (fault CodeSigningKeyWindow ''verify signed config key window'')
                else if (case sk_not_after k of
                           None \<Rightarrow> False
                         | Some t \<Rightarrow> (\<not> before (sc_expires c) t \<and> \<not> same_instant (sc_expires c) t) \<or> \<not> before now t)
                then Some (fault CodeSigningKeyWindow ''verify signed config key window'')
                else case (signing_bytes L c, std_decode (sk_public_key k), std_decode (sg_value (sc_signature c))) of
                    (Some m, Some pk, Some s) \<Rightarrow>
                      if sl_ed25519_verify L pk m s then None
                      else Some (fault CodeInvalidSignature ''verify signed config signature'')
                  | _ \<Rightarrow> Some (fault CodeInvalidSignature ''verify signed config signature'')))"

section \<open>Compilation\<close>

definition signed_xhttp_path :: "signed_transport \<Rightarrow> string" where
  "signed_xhttp_path t = (if trim_space (tp_path t) = [] then ''/xconnect'' else tp_path t)"

definition signed_xhttp_mode :: "signed_transport \<Rightarrow> string" where
  "signed_xhttp_mode t = (if trim_space (tp_mode t) = [] then ''auto'' else tp_mode t)"

definition signed_xhttp_host :: "signed_transport \<Rightarrow> string" where
  "signed_xhttp_host t = (if trim_space (tp_host t) = [] then re_server_name (tp_remote t) else tp_host t)"

definition endpoint_string :: "endpoint \<Rightarrow> string" where
  "endpoint_string e = ep_host e @ '':'' @ show_int (ep_port e)"

definition compiled_wireguard :: "signed_config \<Rightarrow> string \<Rightarrow> gateway_peer \<Rightarrow> wireguard_config" where
  "compiled_wireguard c address p = \<lparr>wg_listen_port = 0, wg_interface = sw_interface (sc_wireguard c),
     wg_address = address, wg_mtu = sw_mtu (sc_wireguard c), wg_dns = [],
     wg_private_key_ref = ''local-secure-state'', wg_local_proxy = endpoint_string (tp_loopback (sc_transport c)),
     wg_keepalive = gp_keepalive p, wg_peer_key = gp_public_key p, wg_allowed_ips = gp_allowed_ips p,
     wg_peer_endpoint = endpoint_string (gp_endpoint p), wg_gateway_ip = ''127.0.0.1'', wg_gateway_port = 51820,
     wg_gateway_cidr = ''127.0.0.1/32''\<rparr>"

definition compiled_transport :: "signed_transport \<Rightarrow> transport_config" where
  "compiled_transport t = \<lparr>tr_runtime = ''xray-core'', tr_type = ''vless-xhttp'', tr_security = ''tls'',
     tr_server = re_host (tp_remote t), tr_server_name = re_server_name (tp_remote t),
     tr_port = re_port (tp_remote t), tr_uuid = [], tr_auth_id = tp_auth_id t, tr_path = signed_xhttp_path t,
     tr_mode = signed_xhttp_mode t, tr_host = signed_xhttp_host t, tr_flow = [],
     tr_packet_encoding = ''xudp'', tr_local_port = ep_port (tp_loopback t)\<rparr>"

definition compiled_mesh :: "signed_config \<Rightarrow> gateway_peer \<Rightarrow> peer list \<Rightarrow> mesh_config" where
  "compiled_mesh c p peers = \<lparr>mc_network = sc_network c, mc_device = sc_device c,
     mc_gateway_key = gp_public_key p, mc_relay = [], mc_lan_listen = ''0.0.0.0:0'', mc_wg = [],
     mc_interface = sw_interface (sc_wireguard c), mc_overlay_cidr = hd (gp_allowed_ips p),
     mc_expires = sc_expires c, mc_peers = peers\<rparr>"

definition compiled_config :: "signed_config \<Rightarrow> string \<Rightarrow> gateway_peer \<Rightarrow> string \<Rightarrow> config" where
  "compiled_config c address p digest =
     (let w = compiled_wireguard c address p;
          base = \<lparr>cf_schema = 1, cf_revision = sc_id c, cf_digest = digest,
            cf_network = zero_network\<lparr>nw_id := sc_network c\<rparr>,
            cf_device = zero_device\<lparr>dv_id := sc_device c, dv_network := sc_network c, dv_address := address\<rparr>,
            cf_wireguard = w, cf_transport = compiled_transport (sc_transport c), cf_nodes = [],
            cf_mesh = None, cf_etag = []\<rparr>
      in case sc_mesh c of
           None \<Rightarrow> base
         | Some peers \<Rightarrow>
             base\<lparr>cf_wireguard := (if wg_mtu w > 1280 then w\<lparr>wg_mtu := 1280\<rparr> else w),
                  cf_mesh := Some (compiled_mesh c p peers)\<rparr>)"

definition compile :: "signed_lib \<Rightarrow> check_env \<Rightarrow> signed_config \<Rightarrow> error + config" where
  "compile L E c =
     checkR (signed_validate c)
       (case (sw_addresses (sc_wireguard c), sw_peers (sc_wireguard c)) of
          ([address], [p]) \<Rightarrow>
            if \<not> valid_uuid (tp_auth_id (sc_transport c))
            then Inl (fault CodeInvalidSignedConfig ''compile Xray VLESS credential'')
            else if gp_endpoint p \<noteq> tp_loopback (sc_transport c)
            then Inl (fault CodeInvalidSignedConfig ''compile loopback endpoint'')
            else
              (case signing_bytes L c of
                 None \<Rightarrow> Inl (fault CodeInvalidSignedConfig ''compile signed config'')
               | Some m \<Rightarrow>
                   (let compiled = compiled_config c address p (hex_encode (sl_sha256 L m))
                    in checkR (config_validate E compiled) (Inr compiled)))
        | _ \<Rightarrow> Inl (fault CodeInvalidSignedConfig ''compile single-gateway runtime''))"

section \<open>What validation means\<close>

lemma gateway_loop_iff:
  "gateway_loop seen ps = None \<longleftrightarrow>
     (\<forall>p \<in> set ps. valid_id (gp_gateway p) \<and> gateway_peer_ok p) \<and>
     distinct (map gp_gateway ps) \<and> gp_gateway ` set ps \<inter> seen = {}"
  by (induction ps arbitrary: seen) auto

lemma valid_unique_cidrs_iff:
  "valid_unique_cidrs vs \<longleftrightarrow> vs \<noteq> [] \<and> (\<forall>v \<in> set vs. v4_cidr v) \<and> distinct vs"
  by (auto simp: valid_unique_cidrs_def scan_unique_iff)

definition key_ok :: "signing_key \<Rightarrow> bool" where
  "key_ok k \<longleftrightarrow>
     valid_id (sk_id k) \<and> sk_algorithm k = ''Ed25519'' \<and>
     (sk_status k = ''current'' \<or> sk_status k = ''previous'' \<and> sk_not_after k \<noteq> None) \<and>
     \<not> is_zero (sk_not_before k) \<and> ed25519_key_text (sk_public_key k) \<and>
     (\<forall>t. sk_not_after k = Some t \<longrightarrow> after t (sk_not_before k))"

lemma keys_loop_iff:
  "keys_loop seen n ks = Inr m \<longleftrightarrow>
     (\<forall>k \<in> set ks. key_ok k) \<and> distinct (map sk_id ks) \<and> sk_id ` set ks \<inter> seen = {} \<and>
     m = n + length (filter (\<lambda>k. sk_status k = ''current'') ks)"
proof (induction ks arbitrary: seen n)
  case Nil
  then show ?case by auto
next
  case (Cons k ks)
  show ?case by (auto simp: Cons.IH key_ok_def split: option.splits)
qed

lemma keys_validate_iff:
  "keys_validate keys = None \<longleftrightarrow>
     (\<forall>k \<in> set (ks_keys keys). key_ok k) \<and> distinct (map sk_id (ks_keys keys)) \<and>
     length (filter (\<lambda>k. sk_status k = ''current'') (ks_keys keys)) = 1"
proof -
  have "keys_validate keys = None \<longleftrightarrow> ks_keys keys \<noteq> [] \<and> keys_loop {} 0 (ks_keys keys) = Inr 1"
    by (auto simp: keys_validate_def split: sum.splits)
  then show ?thesis by (auto simp: keys_loop_iff)
qed

text \<open>All the keys of all the objects in a document.\<close>

fun json_keys :: "json \<Rightarrow> string list" where
  "json_keys (JObject kvs) = concat (map (\<lambda>kv. case kv of (k, v) \<Rightarrow> k # json_keys v) kvs)"
| "json_keys (JArray vs) = concat (map json_keys vs)"
| "json_keys _ = []"

lemma walk_forbidden_iff:
  "walk_forbidden v \<longleftrightarrow> (\<forall>k \<in> set (json_keys v). to_lower k \<notin> set forbidden_fields)"
proof (induction v rule: walk_forbidden.induct)
  case (1 kvs)
  then have "\<forall>kv \<in> set kvs. walk_forbidden (snd kv) \<longleftrightarrow>
      (\<forall>k \<in> set (json_keys (snd kv)). to_lower k \<notin> set forbidden_fields)" by auto
  then show ?case by (fastforce simp: list_all_iff case_prod_beta)
qed (auto simp: list_all_iff)

lemma valid_id_nonblank: "valid_id s \<Longrightarrow> trim_space s \<noteq> []"
  by (cases s) (simp_all add: valid_id_def trim_space_graphic_nonempty is_alnum_graphic)

lemma is_lower_hex_graphic: "is_lower_hex c \<Longrightarrow> graphic c"
  by (auto simp: is_lower_hex_def graphic_def is_digit_def code_def)

lemma hex_encode_nonblank:
  assumes "bs \<noteq> []"
  shows "trim_space (hex_encode bs) \<noteq> []"
proof (cases "hex_encode bs")
  case Nil
  then have "length (hex_encode bs) = 0" by simp
  with assms show ?thesis by (cases bs) auto
next
  case (Cons c cs)
  with hex_encode_lower [of bs] show ?thesis
    by (simp add: trim_space_graphic_nonempty is_lower_hex_graphic)
qed

lemma valid_uuid_nonempty: "valid_uuid s \<Longrightarrow> s \<noteq> []"
  by (auto simp: valid_uuid_def)

section \<open>Compilation never produces an invalid configuration\<close>

lemma compiled_transport_ok:
  assumes "signed_transport_part t = None" and "valid_uuid (tp_auth_id t)"
    and "trim_space rv \<noteq> []" "trim_space dig \<noteq> []" "trim_space net \<noteq> []" "trim_space dev \<noteq> []"
  shows "validate_transport_part \<lparr>cf_schema = 1, cf_revision = rv, cf_digest = dig,
    cf_network = n\<lparr>nw_id := net\<rparr>, cf_device = d\<lparr>dv_id := dev, dv_network := x, dv_address := a\<rparr>, cf_wireguard = w,
    cf_transport = compiled_transport t, cf_nodes = ns, cf_mesh = m, cf_etag = e\<rparr> = None"
  using assms valid_uuid_nonempty [OF assms(2)]
  by (auto simp: validate_transport_part_def compiled_transport_def signed_transport_part_def
      signed_xhttp_path_def signed_xhttp_mode_def signed_xhttp_host_def valid_host_def valid_port_def
      vless_auth_id_def valid_xhttp_path_def valid_xhttp_mode_def has_prefix_def Let_def)

lemma compiled_wireguard_ok:
  assumes "signed_wireguard_part (sc_wireguard c) = None" and "sw_addresses (sc_wireguard c) = [address]"
    and "sw_peers (sc_wireguard c) = [p]" and "gp_endpoint p = tp_loopback (sc_transport c)"
    and "wg_mtu w = sw_mtu (sc_wireguard c) \<or> wg_mtu w = 1280"
    and "w\<lparr>wg_mtu := 0\<rparr> = (compiled_wireguard c address p)\<lparr>wg_mtu := 0\<rparr>"
    and "cf_wireguard cfg = w" and "cf_transport cfg = compiled_transport (sc_transport c)"
  shows "validate_wireguard_part cfg = None"
proof -
  have gp: "gateway_peer_ok p" using assms(1,3) by (simp add: signed_wireguard_part_def gateway_loop_iff split: if_splits)
  have v4: "v4_cidr s \<Longrightarrow> valid_cidr s" for s
    by (simp add: v4_cidr_def valid_cidr_def split: option.splits)
  have ips: "gp_allowed_ips p \<noteq> []" "list_all valid_cidr (gp_allowed_ips p)"
    using gp v4 by (simp_all add: gateway_peer_ok_def valid_unique_cidrs_iff list_all_iff)
  have w: "wg_interface w = sw_interface (sc_wireguard c)" "wg_private_key_ref w = ''local-secure-state''"
    "wg_allowed_ips w = gp_allowed_ips p" "wg_address w = address" "wg_peer_key w = gp_public_key p"
    "wg_keepalive w = gp_keepalive p" "wg_gateway_ip w = ''127.0.0.1''" "wg_gateway_port w = 51820"
    "wg_gateway_cidr w = ''127.0.0.1/32''" "wg_peer_endpoint w = endpoint_string (tp_loopback (sc_transport c))"
    "wg_local_proxy w = endpoint_string (tp_loopback (sc_transport c))"
    using arg_cong [OF assms(6), of wg_interface] arg_cong [OF assms(6), of wg_private_key_ref]
      arg_cong [OF assms(6), of wg_allowed_ips] arg_cong [OF assms(6), of wg_address]
      arg_cong [OF assms(6), of wg_peer_key] arg_cong [OF assms(6), of wg_keepalive]
      arg_cong [OF assms(6), of wg_gateway_ip] arg_cong [OF assms(6), of wg_gateway_port]
      arg_cong [OF assms(6), of wg_gateway_cidr] arg_cong [OF assms(6), of wg_peer_endpoint]
      arg_cong [OF assms(6), of wg_local_proxy] assms(4)
    by (simp_all add: compiled_wireguard_def)
  have mtu: "576 \<le> wg_mtu w" "wg_mtu w \<le> 1500" using assms(1,5) by (auto simp: signed_wireguard_part_def split: if_splits)
  have iface: "valid_interface (sw_interface (sc_wireguard c))" and addr: "valid_cidr address"
    using assms(1,2) v4 by (auto simp: signed_wireguard_part_def valid_unique_cidrs_iff split: if_splits)
  have lp: "ep_host (tp_loopback (sc_transport c)) = ''127.0.0.1''" using gp assms(4) by (simp add: gateway_peer_ok_def)
  have ep: "require_loopback_endpoint (endpoint_string (tp_loopback (sc_transport c)))
      (ep_port (tp_loopback (sc_transport c))) = None"
    using loopback_endpoint_text [of "ep_port (tp_loopback (sc_transport c))"] lp by (simp add: endpoint_string_def)
  have ref: "trim_space ''local-secure-state'' \<noteq> []"
    by (rule trim_space_graphic_nonempty) (simp add: graphic_def code_def)
  have "valid_cidr ''127.0.0.1/32''" by (simp add: valid_cidr_def)
  with gp ips w mtu iface addr ep ref assms(7,8) show ?thesis
    by (simp add: validate_wireguard_part_def gateway_peer_ok_def valid_optional_port_def valid_port_def
        compiled_transport_def Let_def)
qed

lemma compiled_mesh_ok:
  assumes "signed_mesh_part c = None" and "sc_mesh c = Some peers"
  shows "spec_validate (sc_device c) peers = None"
  using assms by (auto simp: signed_mesh_part_def split: option.splits if_splits)

lemma compiled_config_valid:
  assumes v: "signed_validate c = None" and a: "sw_addresses (sc_wireguard c) = [address]"
    and p: "sw_peers (sc_wireguard c) = [p]" and u: "valid_uuid (tp_auth_id (sc_transport c))"
    and e: "gp_endpoint p = tp_loopback (sc_transport c)" and d: "bs \<noteq> []"
  shows "config_validate E (compiled_config c address p (hex_encode bs)) = None"
proof -
  from v have parts: "signed_mesh_part c = None" "signed_identity_part c = None"
    "signed_transport_part (sc_transport c) = None" "signed_wireguard_part (sc_wireguard c) = None"
    by (simp_all add: signed_validate_def)
  have ids: "trim_space (sc_id c) \<noteq> []" "trim_space (sc_network c) \<noteq> []" "trim_space (sc_device c) \<noteq> []"
    using parts(2) valid_id_nonblank by (auto simp: signed_identity_part_def split: if_splits)
  let ?r = "compiled_config c address p (hex_encode bs)"
  have "validate_transport_part ?r = None"
    using compiled_transport_ok [OF parts(3) u ids(1) hex_encode_nonblank [OF d] ids(2,3)]
    by (simp add: compiled_config_def Let_def split: option.split)
  moreover have "validate_wireguard_part ?r = None"
    by (rule compiled_wireguard_ok [OF parts(4) a p e, of "cf_wireguard ?r"])
      (simp_all add: compiled_config_def compiled_wireguard_def Let_def split: option.split)
  moreover have "validate_mesh_part E ?r = None"
  proof (cases "sc_mesh c")
    case None
    then show ?thesis by (simp add: validate_mesh_part_def compiled_config_def Let_def)
  next
    case (Some peers)
    from compiled_mesh_ok [OF parts(1) Some] show ?thesis
      by (simp add: validate_mesh_part_def compiled_config_def compiled_mesh_def compiled_wireguard_def
          zero_network_def zero_device_def Let_def Some)
  qed
  ultimately show ?thesis by (simp add: config_validate_None)
qed

section \<open>Properties\<close>

lemma select_key_Some: "select_key i ks = Some k \<Longrightarrow> k \<in> set ks \<and> sk_id k = i"
  by (auto simp: select_key_def find_Some_iff)

lemma distinct_ids_unique:
  "distinct (map sk_id ks) \<Longrightarrow> k \<in> set ks \<Longrightarrow> k' \<in> set ks \<Longrightarrow> sk_id k' = sk_id k \<Longrightarrow> k' = k"
  by (metis distinct_map inj_onD)

text \<open>
  C7. \<open>Verify\<close> is sound. When it returns no error, the configuration and the keys are valid,
  the configuration was issued and has not expired, exactly one key has the identifier the
  signature names, the configuration's lifetime and the present lie in that key's window, and
  Ed25519 accepts the signature over the bytes of the whole signed payload.
\<close>

theorem verify_sound:
  assumes "verify L c keys now = None"
  shows "signed_validate c = None \<and> keys_validate keys = None \<and>
    nanos (sc_issued c) \<le> nanos now \<and> nanos now < nanos (sc_expires c) \<and>
    (\<exists>!k. k \<in> set (ks_keys keys) \<and> sk_id k = sg_key_id (sc_signature c)) \<and>
    (\<exists>k m pk s. k \<in> set (ks_keys keys) \<and> sk_id k = sg_key_id (sc_signature c) \<and>
       nanos (sk_not_before k) \<le> nanos (sc_issued c) \<and>
       (\<forall>t. sk_not_after k = Some t \<longrightarrow> nanos (sc_expires c) \<le> nanos t \<and> nanos now < nanos t) \<and>
       signing_bytes L c = Some m \<and> std_decode (sk_public_key k) = Some pk \<and> length pk = 32 \<and>
       std_decode (sg_value (sc_signature c)) = Some s \<and> length s = 64 \<and> sl_ed25519_verify L pk m s)"
proof -
  from assms have v: "signed_validate c = None" "keys_validate keys = None"
    by (simp_all add: verify_def)
  from assms v obtain k m pk s where t: "nanos (sc_issued c) \<le> nanos now" "nanos now < nanos (sc_expires c)"
    and k: "select_key (sg_key_id (sc_signature c)) (ks_keys keys) = Some k"
    and w: "nanos (sk_not_before k) \<le> nanos (sc_issued c)"
      "\<forall>t. sk_not_after k = Some t \<longrightarrow> nanos (sc_expires c) \<le> nanos t \<and> nanos now < nanos t"
    and sig: "signing_bytes L c = Some m" "std_decode (sk_public_key k) = Some pk"
      "std_decode (sg_value (sc_signature c)) = Some s" "sl_ed25519_verify L pk m s"
    by (auto simp: verify_def after_def before_def same_instant_def split: option.splits if_splits)
  note km = select_key_Some [OF k] and ks = v(2) [unfolded keys_validate_iff]
  have "length pk = 32" using ks km sig(2) by (auto simp: key_ok_def ed25519_key_text_def)
  moreover have "length s = 64"
    using v(1) sig(3) by (auto simp: signed_validate_def signed_signature_part_def split: if_splits)
  moreover have "\<exists>!k. k \<in> set (ks_keys keys) \<and> sk_id k = sg_key_id (sc_signature c)"
    using km ks distinct_ids_unique by metis
  ultimately show ?thesis using v t km w sig by blast
qed

text \<open>
  The signed bytes cover the configuration: two valid configurations with the same
  signing bytes differ at most in the signature and the ETag (which is not on the wire). In
  version 1 the policy and the mesh are absent from the payload, but validity forces them to
  be absent from the configuration too.
\<close>

theorem signing_bytes_cover:
  assumes "signed_validate c = None" and "signed_validate d = None"
    and "inj_on (sl_payload_json L) {payload_of c, payload_of d}"
    and "signing_bytes L c = Some m" and "signing_bytes L d = Some m"
  shows "d = c\<lparr>sc_signature := sc_signature d, sc_etag := sc_etag d\<rparr>"
proof -
  from assms(3-5) have eq: "payload_of c = payload_of d"
    by (auto simp: signing_bytes_def split: if_splits)
  have v1: "sc_policy x = None \<and> sc_mesh x = None" if "signed_validate x = None" "sc_schema x \<noteq> 2" for x
    using that by (auto simp: signed_validate_def signed_signature_part_def signed_mesh_part_def
        signed_identity_part_def split: if_splits option.splits)
  have sch: "sc_schema c = sc_schema d" using eq by (simp add: payload_of_def Let_def split: if_splits)
  have rest: "sc_policy c = sc_policy d \<and> sc_mesh c = sc_mesh d"
    using eq sch v1 [OF assms(1)] v1 [OF assms(2)] by (simp add: payload_of_def Let_def split: if_splits)
  have "sc_id c = sc_id d \<and> sc_network c = sc_network d \<and> sc_device c = sc_device d \<and>
      sc_generation c = sc_generation d \<and> sc_issued c = sc_issued d \<and> sc_expires c = sc_expires d \<and>
      sc_core c = sc_core d \<and> sc_transport c = sc_transport d \<and> sc_wireguard c = sc_wireguard d"
    using eq by (simp add: payload_of_def Let_def split: if_splits)
  with sch rest show ?thesis by (intro signed_config.equality) simp_all
qed

lemma compile_result:
  assumes "\<forall>m. sl_sha256 L m \<noteq> []"
  shows "compile L E c = Inr r \<longleftrightarrow>
    signed_validate c = None \<and> valid_uuid (tp_auth_id (sc_transport c)) \<and>
    (\<exists>address p m. sw_addresses (sc_wireguard c) = [address] \<and> sw_peers (sc_wireguard c) = [p] \<and>
       gp_endpoint p = tp_loopback (sc_transport c) \<and> signing_bytes L c = Some m \<and>
       r = compiled_config c address p (hex_encode (sl_sha256 L m)))"
proof
  assume "compile L E c = Inr r"
  then show "signed_validate c = None \<and> valid_uuid (tp_auth_id (sc_transport c)) \<and>
    (\<exists>address p m. sw_addresses (sc_wireguard c) = [address] \<and> sw_peers (sc_wireguard c) = [p] \<and>
       gp_endpoint p = tp_loopback (sc_transport c) \<and> signing_bytes L c = Some m \<and>
       r = compiled_config c address p (hex_encode (sl_sha256 L m)))"
    by (auto simp: compile_def Let_def split: list.splits if_splits option.splits)
next
  assume asm: "signed_validate c = None \<and> valid_uuid (tp_auth_id (sc_transport c)) \<and>
    (\<exists>address p m. sw_addresses (sc_wireguard c) = [address] \<and> sw_peers (sc_wireguard c) = [p] \<and>
       gp_endpoint p = tp_loopback (sc_transport c) \<and> signing_bytes L c = Some m \<and>
       r = compiled_config c address p (hex_encode (sl_sha256 L m)))"
  then obtain address p m where a: "sw_addresses (sc_wireguard c) = [address]" "sw_peers (sc_wireguard c) = [p]"
      "gp_endpoint p = tp_loopback (sc_transport c)" "signing_bytes L c = Some m"
      "r = compiled_config c address p (hex_encode (sl_sha256 L m))" by blast
  from asm have v: "signed_validate c = None" and u: "valid_uuid (tp_auth_id (sc_transport c))" by blast+
  have "sl_sha256 L m \<noteq> []" using assms by simp
  from compiled_config_valid [OF v a(1,2) u a(3) this] show "compile L E c = Inr r"
    using v u a(1-4) by (simp add: compile_def Let_def a(5))
qed

text \<open>
  \<open>Compile\<close> succeeds exactly on a valid single-gateway configuration with a VLESS
  credential, matching loopback endpoints and canonical times, and then returns the compiled
  form: its own final validation of the result never fails.
\<close>

theorem compile_iff:
  assumes "\<forall>m. sl_sha256 L m \<noteq> []"
  shows "compile L E c = Inr r \<longleftrightarrow>
    signed_validate c = None \<and> valid_uuid (tp_auth_id (sc_transport c)) \<and>
    (\<exists>address p m. sw_addresses (sc_wireguard c) = [address] \<and> sw_peers (sc_wireguard c) = [p] \<and>
       gp_endpoint p = tp_loopback (sc_transport c) \<and> signing_bytes L c = Some m \<and>
       r = compiled_config c address p (hex_encode (sl_sha256 L m)))"
  using assms by (rule compile_result)

text \<open>
  A key set is valid exactly when every key is well formed, the identifiers are distinct,
  exactly one key is current, and every previous key has an end to its window.
\<close>

theorem keys_validate_spec:
  "keys_validate keys = None \<longleftrightarrow>
     (\<forall>k \<in> set (ks_keys keys). key_ok k) \<and> distinct (map sk_id (ks_keys keys)) \<and>
     length (filter (\<lambda>k. sk_status k = ''current'') (ks_keys keys)) = 1"
  by (rule keys_validate_iff)

text \<open>
  A decoded configuration is valid, and no object at any depth of the document it was
  decoded from has a field whose name, in any case, is that of a secret.
\<close>

theorem decode_config_no_secrets:
  assumes "decode_config L raw = Inr c"
  shows "signed_validate c = None \<and>
    (\<exists>v. sl_parse_json L raw = Some v \<and> (\<forall>k \<in> set (json_keys v). to_lower k \<notin> set forbidden_fields))"
  using assms
  by (auto simp: decode_config_def no_forbidden_fields_def walk_forbidden_iff split: if_splits option.splits)

section \<open>A concrete configuration\<close>

definition sample_lib :: signed_lib where
  "sample_lib = \<lparr>sl_sha256 = (\<lambda>m. take 32 (m @ replicate 32 0)),
     sl_ed25519_verify = (\<lambda>pk m s. take 4 s = take 4 (pk @ m)),
     sl_payload_json = (\<lambda>p. case p of PayloadV1 b \<Rightarrow> [1, of_int (pb_schema b)] | PayloadV2 b q m \<Rightarrow> [2]),
     sl_parse_json = (\<lambda>raw. Some (JObject [(string_of raw, JNull)])),
     sl_strict_config = (\<lambda>_. None), sl_strict_keys = (\<lambda>_. None)\<rparr>"

definition sample_endpoint :: endpoint where
  "sample_endpoint = \<lparr>ep_host = ''127.0.0.1'', ep_port = 10808\<rparr>"

definition sample_uuid :: string where
  "sample_uuid = ''0123456789abcdef0123456789abcdef''"

definition sample_gateway :: gateway_peer where
  "sample_gateway = \<lparr>gp_gateway = ''gw1'', gp_public_key = std_encode (replicate 32 7),
     gp_allowed_ips = [''10.9.0.0/16''], gp_endpoint = sample_endpoint, gp_keepalive = 25\<rparr>"

definition sample_signed :: signed_config where
  "sample_signed = \<lparr>sc_schema = 1, sc_id = ''cfg'', sc_network = ''net'', sc_device = ''dev'',
     sc_generation = 3, sc_issued = \<lparr>nanos = 10 * second, utc = True\<rparr>,
     sc_expires = \<lparr>nanos = 90 * second, utc = True\<rparr>, sc_core = ''xray'',
     sc_transport = \<lparr>tp_kind = ''vless-xhttp'', tp_loopback = sample_endpoint,
       tp_remote = \<lparr>re_host = ''gw'', re_port = 443, re_server_name = ''gw''\<rparr>, tp_auth_id = sample_uuid,
       tp_path = [], tp_mode = [], tp_host = []\<rparr>,
     sc_wireguard = \<lparr>sw_interface = ''xcon0'', sw_addresses = [''10.9.0.2/32''], sw_mtu = 1280,
       sw_peers = [sample_gateway]\<rparr>,
     sc_policy = None, sc_mesh = None,
     sc_signature = \<lparr>sg_algorithm = ''Ed25519'', sg_key_id = ''key'', sg_value = std_encode (replicate 64 7)\<rparr>,
     sc_etag = []\<rparr>"

definition sample_keys :: signing_keys where
  "sample_keys = \<lparr>ks_keys = [\<lparr>sk_id = ''key'', sk_algorithm = ''Ed25519'', sk_public_key = std_encode (replicate 32 7),
     sk_status = ''current'', sk_not_before = \<lparr>nanos = 0, utc = True\<rparr>, sk_not_after = None\<rparr>], ks_etag = []\<rparr>"

lemmas eval_id = valid_id_def is_alnum_def is_id_char_def is_digit_def is_lower_def is_upper_def code_def

lemma sample_ids: "valid_id ''cfg''" "valid_id ''net''" "valid_id ''dev''" "valid_id ''gw1''" "valid_id ''key''"
  "valid_id sample_uuid"
  by (simp_all add: eval_id sample_uuid_def)

lemma sample_uuid_ok: "valid_uuid sample_uuid"
  by (simp add: valid_uuid_def sample_uuid_def hex_value_def is_digit_def code_def)

lemma sample_texts: "valid_host ''gw''" "valid_interface ''xcon0''" "v4_cidr ''10.9.0.0/16''" "v4_cidr ''10.9.0.2/32''"
  by (simp_all add: valid_host_def trim_space_graphic_nonempty graphic_def valid_interface_def match_all_def
      is_interface_char_def is_alnum_def is_digit_def is_lower_def is_upper_def v4_cidr_def eval_net)

lemma sample_key_texts: "valid_wireguard_key (std_encode (replicate 32 7))" "ed25519_key_text (std_encode (replicate 32 7))"
  by (simp_all add: valid_wireguard_key_def ed25519_key_text_def)

lemma sample_signed_valid: "signed_validate sample_signed = None"
  by (simp add: signed_validate_def signed_mesh_part_def signed_identity_part_def signed_transport_part_def
      signed_wireguard_part_def signed_signature_part_def gateway_peer_ok_def valid_unique_cidrs_iff
      sample_signed_def sample_gateway_def sample_endpoint_def sample_ids sample_texts sample_key_texts
      valid_port_def valid_xhttp_path_def valid_xhttp_mode_def is_zero_def zero_time_def after_def durations)

lemma sample_keys_valid: "keys_validate sample_keys = None"
  by (simp add: keys_validate_iff key_ok_def sample_keys_def sample_ids sample_key_texts is_zero_def zero_time_def
      durations)

lemma sample_bytes: "signing_bytes sample_lib sample_signed = Some [1, 1]"
  by (simp add: signing_bytes_def canonical_time_def is_zero_def zero_time_def nanosecond_def durations
      sample_signed_def payload_of_def sample_lib_def Let_def)

lemma sample_verified: "verify sample_lib sample_signed sample_keys \<lparr>nanos = 20 * second, utc = True\<rparr> = None"
proof -
  have s: "sc_issued sample_signed = \<lparr>nanos = 10 * second, utc = True\<rparr>"
    "sc_expires sample_signed = \<lparr>nanos = 90 * second, utc = True\<rparr>"
    "sg_key_id (sc_signature sample_signed) = ''key''"
    "sg_value (sc_signature sample_signed) = std_encode (replicate 64 7)"
    by (simp_all add: sample_signed_def)
  have e: "sl_ed25519_verify sample_lib (replicate 32 7) [1, 1] (replicate 64 7)" by (simp add: sample_lib_def)
  show ?thesis
    by (simp add: verify_def sample_signed_valid sample_keys_valid s)
      (simp add: sample_keys_def select_key_def after_def before_def durations sample_bytes s e)
qed

lemma verify_sound_witness:
  "\<exists>!k. k \<in> set (ks_keys sample_keys) \<and> sk_id k = ''key''"
  using verify_sound [OF sample_verified] by (simp add: sample_signed_def)

lemma signing_bytes_cover_witness:
  "let d = sample_signed\<lparr>sc_etag := ''x''\<rparr> in d = sample_signed\<lparr>sc_signature := sc_signature d, sc_etag := sc_etag d\<rparr>"
proof -
  let ?d = "sample_signed\<lparr>sc_etag := ''x''\<rparr>"
  have v: "signed_validate ?d = None" by (simp add: sample_signed_valid)
  have p: "payload_of ?d = payload_of sample_signed" 
    unfolding payload_of_def sample_signed_def
    by (unfold signed_config.select_convs signed_config.update_convs, rule refl)
  have m: "signing_bytes sample_lib ?d = Some [1, 1]"
    using sample_bytes unfolding signing_bytes_def p by simp
  have "inj_on (sl_payload_json sample_lib) {payload_of sample_signed, payload_of ?d}" unfolding p by simp
  from signing_bytes_cover [OF sample_signed_valid v this sample_bytes m] show ?thesis unfolding Let_def .
qed

definition sample_compiled :: config where
  "sample_compiled = compiled_config sample_signed ''10.9.0.2/32'' sample_gateway (hex_encode (sl_sha256 sample_lib [1, 1]))"

lemma sample_compiles: "compile sample_lib E sample_signed = Inr sample_compiled"
proof -
  have sha: "\<forall>m. sl_sha256 sample_lib m \<noteq> []" by (simp add: sample_lib_def)
  show ?thesis
    unfolding compile_result [OF sha]
    by (simp add: sample_signed_valid sample_bytes)
      (simp add: sample_compiled_def, simp add: sample_signed_def sample_gateway_def sample_uuid_ok)
qed

lemma compile_iff_witness:
  "\<exists>r. compile sample_lib \<lparr>ce_resolve = \<lambda>h. True, ce_now1 = zero_time, ce_now2 = zero_time\<rparr> sample_signed = Inr r \<and>
     cf_revision r = ''cfg''"
proof -
  let ?r = "compiled_config sample_signed ''10.9.0.2/32'' sample_gateway (hex_encode (sl_sha256 sample_lib [1, 1]))"
  have sha: "\<forall>m. sl_sha256 sample_lib m \<noteq> []" by (simp add: sample_lib_def)
  have "compile sample_lib \<lparr>ce_resolve = \<lambda>h. True, ce_now1 = zero_time, ce_now2 = zero_time\<rparr> sample_signed
      = Inr ?r"
    unfolding compile_iff [OF sha]
    by (simp add: sample_signed_valid sample_bytes)
      (simp add: sample_signed_def sample_gateway_def sample_uuid_ok)
  moreover have "cf_revision ?r = ''cfg''"
    by (simp add: compiled_config_def sample_signed_def Let_def)
  ultimately show ?thesis by blast
qed

lemma keys_validate_spec_witness: "key_ok (hd (ks_keys sample_keys))"
  using sample_keys_valid keys_validate_spec [of sample_keys] by (simp add: sample_keys_def)

lemma decode_config_no_secrets_witness:
  "\<exists>v. sl_parse_json (sample_lib\<lparr>sl_strict_config := \<lambda>_. Some sample_signed\<rparr>) (bytes_of ''schema_version'') = Some v \<and>
     (\<forall>k \<in> set (json_keys v). to_lower k \<notin> set forbidden_fields)"
proof -
  have "to_lower ''schema_version'' \<notin> set forbidden_fields"
    by (simp add: forbidden_fields_def is_upper_def code_def)
  then have "decode_config (sample_lib\<lparr>sl_strict_config := \<lambda>_. Some sample_signed\<rparr>) (bytes_of ''schema_version'')
      = Inr sample_signed"
    by (simp add: decode_config_def no_forbidden_fields_def sample_lib_def sample_signed_valid)
  from decode_config_no_secrets [OF this] show ?thesis by blast
qed

end
