(* ===== verification/Policy.thy ===== *)
theory Policy
  imports Go_Time Go_Strings Go_Encoding Fault
begin

text \<open>
  \<open>overlay/policy/consumer.go\<close>: the local policy artifact, the reference that binds it to a
  verified configuration, and \<open>Consume\<close>. The JSON codec and SHA-256 are parameters.
\<close>

section \<open>Data\<close>

record policy_rule =
  rl_whole_device :: bool
  rl_id :: string
  rl_action :: string
  rl_sources :: "string list"
  rl_destinations :: "string list"
  rl_protocols :: "string list"
  rl_ports :: "int list"

record artifact =
  at_schema :: int
  at_compiler :: string
  at_network :: string
  at_revision :: u64
  at_default_action :: string
  at_protected_flows :: "string list"
  at_rules :: "policy_rule list"

record floor =
  fl_network :: string
  fl_generation :: u64
  fl_digest :: string

datatype provenance = ProvenanceNone | ProvenanceSignedConfig | ProvenanceGatewaySnapshot

record reference =
  vr_provenance :: provenance
  vr_network :: string
  vr_generation :: u64
  vr_digest :: string
  vr_expires :: gotime

record accepted =
  ac_artifact :: artifact
  ac_canonical :: "byte list"
  ac_digest :: string
  ac_generation :: u64
  ac_expires :: gotime
  ac_provenance :: provenance

text \<open>The strict decoder fails on unknown fields and on anything after the first value.\<close>

record policy_lib =
  pl_sha256 :: "byte list \<Rightarrow> byte list"
  pl_strict_decode :: "byte list \<Rightarrow> artifact option"
  pl_marshal :: "artifact \<Rightarrow> byte list"

section \<open>Validation of an artifact\<close>

definition protected_flows :: "string list" where
  "protected_flows = [''control:controller-session'', ''control:gateway-apply-result'',
     ''control:gateway-heartbeat'', ''control:gateway-policy-artifact'', ''control:gateway-snapshot'']"

definition policy_id :: "string \<Rightarrow> bool" where
  "policy_id s \<longleftrightarrow> match_head_rest is_alnum is_id_char 0 127 s"

definition policy_digest :: "string \<Rightarrow> bool" where
  "policy_digest s \<longleftrightarrow> match_all is_lower_hex 64 64 s"

definition invalid_policy :: "string \<Rightarrow> error" where
  "invalid_policy op = fault CodePolicyInvalid op"

definition valid_devices :: "string list \<Rightarrow> bool" where
  "valid_devices vs \<longleftrightarrow> scan_ascending None (\<lambda>v. policy_id v \<and> CHR ''@'' \<notin> set v) {} vs"

definition valid_protocols :: "string list \<Rightarrow> bool" where
  "valid_protocols vs \<longleftrightarrow>
     vs \<noteq> [] \<and> scan_ascending None (\<lambda>v. v = ''tcp'' \<or> v = ''udp'' \<or> v = ''icmp'') {} vs"

definition valid_ports :: "string list \<Rightarrow> int list \<Rightarrow> bool" where
  "valid_ports protocols ports \<longleftrightarrow>
     (if protocols = [''icmp''] then ports = []
      else ports \<noteq> [] \<and> scan_ascending None (\<lambda>p. 1 \<le> p \<and> p \<le> 65535) {} ports)"

definition canonical_rule_order :: "policy_rule \<Rightarrow> policy_rule \<Rightarrow> bool" where
  "canonical_rule_order p c \<longleftrightarrow>
     (if rl_action p = rl_action c then rl_id p < rl_id c
      else rl_action p = ''deny'' \<and> rl_action c = ''accept'')"

fun rules_loop :: "policy_rule option \<Rightarrow> string set \<Rightarrow> policy_rule list \<Rightarrow> error option" where
  "rules_loop prev seen [] = None"
| "rules_loop prev seen (r # rs) =
     (if \<not> policy_id (rl_id r) \<or> rl_id r \<in> seen \<or> (rl_action r \<noteq> ''accept'' \<and> rl_action r \<noteq> ''deny'')
      then Some (invalid_policy ''validate policy rule'')
      else if rl_whole_device r \<and>
              (rl_action r \<noteq> ''accept'' \<or> rl_protocols r \<noteq> [''icmp'', ''tcp'', ''udp''] \<or> length (rl_ports r) \<noteq> 65535)
      then Some (invalid_policy ''validate whole-device grant'')
      else if (case prev of None \<Rightarrow> False | Some p \<Rightarrow> \<not> canonical_rule_order p r) \<or> rl_sources r = [] \<or>
              rl_destinations r = [] \<or> \<not> valid_devices (rl_sources r) \<or> \<not> valid_devices (rl_destinations r) \<or>
              \<not> valid_protocols (rl_protocols r) \<or> \<not> valid_ports (rl_protocols r) (rl_ports r)
      then Some (invalid_policy ''validate policy rule scope'')
      else rules_loop (Some r) (insert (rl_id r) seen) rs)"

definition validate_artifact :: "artifact \<Rightarrow> string \<Rightarrow> error option" where
  "validate_artifact a network =
     (if at_schema a \<noteq> 1 \<or> at_compiler a \<noteq> ''xconnect-acl-v1alpha1.1'' \<or> at_network a \<noteq> network \<or>
         at_default_action a \<noteq> ''deny''
      then Some (invalid_policy ''validate policy contract'')
      else if at_protected_flows a \<noteq> protected_flows
      then Some (invalid_policy ''validate protected policy flows'')
      else rules_loop None {} (at_rules a))"

section \<open>References\<close>

definition new_verified_reference ::
    "provenance \<Rightarrow> string \<Rightarrow> u64 \<Rightarrow> string \<Rightarrow> gotime \<Rightarrow> error + reference" where
  "new_verified_reference pv network generation digest expires =
     (if pv = ProvenanceNone \<or> \<not> policy_id network \<or> generation = 0 \<or> \<not> policy_digest digest \<or>
         is_zero expires \<or> \<not> utc expires \<or> nanosecond expires \<noteq> 0
      then Inl (invalid_policy ''bind verified policy reference'')
      else Inr \<lparr>vr_provenance = pv, vr_network = network, vr_generation = generation, vr_digest = digest,
             vr_expires = expires\<rparr>)"

definition reference_from_signed_config :: "string \<Rightarrow> u64 \<Rightarrow> string \<Rightarrow> gotime \<Rightarrow> error + reference" where
  "reference_from_signed_config = new_verified_reference ProvenanceSignedConfig"

section \<open>Consumption\<close>

definition MaximumBody :: nat where "MaximumBody = 4194304"

definition bytes_trim_space :: "byte list \<Rightarrow> byte list" where
  "bytes_trim_space b = bytes_of (trim_space (string_of b))"

text \<open>\<open>clock\<close> is read when the caller passes the zero time.\<close>

definition consume :: "policy_lib \<Rightarrow> byte list \<Rightarrow> reference \<Rightarrow> floor \<Rightarrow> gotime \<Rightarrow> gotime \<Rightarrow> error + accepted" where
  "consume L raw r fl now0 clock =
     (let now = (if is_zero now0 then to_utc clock else to_utc now0) in
      if raw = [] \<or> length raw > MaximumBody then Inl (invalid_policy ''validate policy artifact size'')
      else if vr_provenance r = ProvenanceNone \<or> vr_generation r = 0 \<or> \<not> policy_id (vr_network r) \<or>
              \<not> policy_digest (vr_digest r)
      then Inl (invalid_policy ''validate policy identity'')
      else if \<not> after (vr_expires r) now then Inl (fault CodePolicyExpired ''validate policy lifetime'')
      else if fl_network fl \<noteq> [] \<and> fl_network fl \<noteq> vr_network r
      then Inl (invalid_policy ''validate policy floor ownership'')
      else if vr_generation r < fl_generation fl \<or>
              (vr_generation r = fl_generation fl \<and> fl_digest fl \<noteq> [] \<and> fl_digest fl \<noteq> vr_digest r)
      then Inl (fault CodePolicyReplay ''validate policy generation'')
      else case pl_strict_decode L raw of
          None \<Rightarrow> Inl (invalid_policy ''decode policy artifact'')
        | Some a \<Rightarrow>
            checkR (validate_artifact a (vr_network r))
              (let canonical = pl_marshal L a; digest = hex_encode (pl_sha256 L canonical) in
               if bytes_trim_space raw \<noteq> canonical then Inl (invalid_policy ''validate canonical policy encoding'')
               else if digest \<noteq> vr_digest r then Inl (invalid_policy ''validate policy digest'')
               else Inr \<lparr>ac_artifact = a, ac_canonical = canonical, ac_digest = digest,
                      ac_generation = vr_generation r, ac_expires = vr_expires r,
                      ac_provenance = vr_provenance r\<rparr>))"

section \<open>What a valid artifact is\<close>

definition all_ports :: "int list" where
  "all_ports = [1..65535]"

definition rule_ok :: "policy_rule \<Rightarrow> bool" where
  "rule_ok r \<longleftrightarrow>
     policy_id (rl_id r) \<and> (rl_action r = ''accept'' \<or> rl_action r = ''deny'') \<and>
     rl_sources r \<noteq> [] \<and> rl_destinations r \<noteq> [] \<and>
     (\<forall>d \<in> set (rl_sources r) \<union> set (rl_destinations r). policy_id d \<and> CHR ''@'' \<notin> set d) \<and>
     sorted_wrt (<) (rl_sources r) \<and> sorted_wrt (<) (rl_destinations r) \<and>
     rl_protocols r \<noteq> [] \<and> set (rl_protocols r) \<subseteq> {''tcp'', ''udp'', ''icmp''} \<and> sorted_wrt (<) (rl_protocols r) \<and>
     (if rl_protocols r = [''icmp''] then rl_ports r = []
      else rl_ports r \<noteq> [] \<and> set (rl_ports r) \<subseteq> {1..65535} \<and> sorted_wrt (<) (rl_ports r)) \<and>
     (rl_whole_device r \<longrightarrow>
        rl_action r = ''accept'' \<and> rl_protocols r = [''icmp'', ''tcp'', ''udp''] \<and> rl_ports r = all_ports)"

lemma whole_device_ports:
  assumes "valid_ports [''icmp'', ''tcp'', ''udp''] ports"
  shows "length ports = 65535 \<longleftrightarrow> ports = all_ports"
proof
  assume "length ports = 65535"
  moreover have "sorted_wrt (<) ports" "\<forall>p \<in> set ports. 1 \<le> p \<and> p \<le> 65535"
    using assms by (simp_all add: valid_ports_def scan_ascending_iff)
  ultimately show "ports = all_ports" unfolding all_ports_def by (intro full_interval) simp_all
qed (simp add: all_ports_def del: upto_rec_numeral)

lemma canonical_rule_order_trans:
  assumes pq: "canonical_rule_order p q" and qr: "canonical_rule_order q r"
  shows "canonical_rule_order p r"
proof (cases "rl_action p = rl_action q"; cases "rl_action q = rl_action r")
  assume "rl_action p = rl_action q" "rl_action q = rl_action r"
  with pq qr show ?thesis using less_trans [of "rl_id p" "rl_id q" "rl_id r"] by (simp add: canonical_rule_order_def)
next
  assume "rl_action p = rl_action q" "rl_action q \<noteq> rl_action r"
  with pq qr show ?thesis by (simp add: canonical_rule_order_def)
next
  assume "rl_action p \<noteq> rl_action q" "rl_action q = rl_action r"
  with pq qr show ?thesis by (simp add: canonical_rule_order_def)
next
  assume "rl_action p \<noteq> rl_action q" "rl_action q \<noteq> rl_action r"
  with pq qr show ?thesis by (simp add: canonical_rule_order_def)
qed

lemma canonical_rule_order_irrefl: "\<not> canonical_rule_order r r"
  by (simp add: canonical_rule_order_def)

lemma rule_checks_iff:
  "policy_id (rl_id r) \<and> (rl_action r = ''accept'' \<or> rl_action r = ''deny'') \<and>
   \<not> (rl_whole_device r \<and>
      (rl_action r \<noteq> ''accept'' \<or> rl_protocols r \<noteq> [''icmp'', ''tcp'', ''udp''] \<or> length (rl_ports r) \<noteq> 65535)) \<and>
   rl_sources r \<noteq> [] \<and> rl_destinations r \<noteq> [] \<and> valid_devices (rl_sources r) \<and> valid_devices (rl_destinations r) \<and>
   valid_protocols (rl_protocols r) \<and> valid_ports (rl_protocols r) (rl_ports r) \<longleftrightarrow> rule_ok r"
proof (cases "rl_whole_device r \<and> rl_protocols r = [''icmp'', ''tcp'', ''udp''] \<and> valid_ports (rl_protocols r) (rl_ports r)")
  case True
  then have "length (rl_ports r) = 65535 \<longleftrightarrow> rl_ports r = all_ports"
    by (intro whole_device_ports) metis
  with True show ?thesis
    by (auto simp: rule_ok_def valid_devices_def valid_protocols_def valid_ports_def scan_ascending_iff)
next
  case False
  then show ?thesis
    by (auto simp: rule_ok_def valid_devices_def valid_protocols_def valid_ports_def scan_ascending_iff)
qed

lemma rules_loop_None:
  "rules_loop prev seen rs = None \<longleftrightarrow>
     (\<forall>r \<in> set rs. rule_ok r) \<and> distinct (map rl_id rs) \<and> rl_id ` set rs \<inter> seen = {} \<and>
     sorted_wrt canonical_rule_order (case prev of None \<Rightarrow> rs | Some p \<Rightarrow> p # rs)"
proof (induction rs arbitrary: prev seen)
  case Nil
  then show ?case by (simp split: option.split)
next
  case (Cons r rs)
  have "rules_loop prev seen (r # rs) = None \<longleftrightarrow>
      rule_ok r \<and> rl_id r \<notin> seen \<and> (case prev of None \<Rightarrow> True | Some p \<Rightarrow> canonical_rule_order p r) \<and>
      rules_loop (Some r) (insert (rl_id r) seen) rs = None"
    unfolding rule_checks_iff [of r, symmetric] by (auto split: option.splits)
  also have "\<dots> \<longleftrightarrow> (\<forall>r \<in> set (r # rs). rule_ok r) \<and> distinct (map rl_id (r # rs)) \<and>
      rl_id ` set (r # rs) \<inter> seen = {} \<and>
      sorted_wrt canonical_rule_order (case prev of None \<Rightarrow> r # rs | Some p \<Rightarrow> p # r # rs)"
    unfolding Cons.IH by (cases prev) (auto dest: canonical_rule_order_trans)
  finally show ?case .
qed

lemma validate_artifact_None:
  "validate_artifact a network = None \<longleftrightarrow>
     at_schema a = 1 \<and> at_compiler a = ''xconnect-acl-v1alpha1.1'' \<and> at_network a = network \<and>
     at_default_action a = ''deny'' \<and> at_protected_flows a = protected_flows \<and>
     (\<forall>r \<in> set (at_rules a). rule_ok r) \<and> distinct (map rl_id (at_rules a)) \<and>
     sorted_wrt canonical_rule_order (at_rules a)"
  by (auto simp: validate_artifact_def rules_loop_None)

lemma sorted_rules_unique:
  assumes "sorted_wrt canonical_rule_order xs" "sorted_wrt canonical_rule_order ys" "set xs = set ys"
  shows "xs = ys"
  using assms
proof (induction xs arbitrary: ys)
  case Nil
  then show ?case by simp
next
  case (Cons x xs)
  then obtain y ys' where ys: "ys = y # ys'" by (cases ys) auto
  have xy: "x = y"
  proof (rule ccontr)
    assume "x \<noteq> y"
    then have "canonical_rule_order x y" "canonical_rule_order y x"
      using Cons.prems ys by (auto dest: equalityD1 equalityD2)
    then show False using canonical_rule_order_trans canonical_rule_order_irrefl by blast
  qed
  have "x \<notin> set xs" "y \<notin> set ys'"
    using Cons.prems ys canonical_rule_order_irrefl by auto
  then have "set xs = set ys'" using Cons.prems(3) ys xy by auto
  with Cons ys xy show ?case by simp
qed

lemma consume_Inr:
  "consume L raw r fl now0 clock = Inr a \<longleftrightarrow>
     (let now = (if is_zero now0 then to_utc clock else to_utc now0) in
      raw \<noteq> [] \<and> length raw \<le> MaximumBody \<and> vr_provenance r \<noteq> ProvenanceNone \<and> vr_generation r \<noteq> 0 \<and>
      policy_id (vr_network r) \<and> policy_digest (vr_digest r) \<and> after (vr_expires r) now \<and>
      (fl_network fl = [] \<or> fl_network fl = vr_network r) \<and> fl_generation fl \<le> vr_generation r \<and>
      (vr_generation r = fl_generation fl \<longrightarrow> fl_digest fl = [] \<or> fl_digest fl = vr_digest r) \<and>
      pl_strict_decode L raw = Some (ac_artifact a) \<and>
      validate_artifact (ac_artifact a) (vr_network r) = None \<and>
      bytes_trim_space raw = pl_marshal L (ac_artifact a) \<and>
      hex_encode (pl_sha256 L (pl_marshal L (ac_artifact a))) = vr_digest r \<and>
      a = \<lparr>ac_artifact = ac_artifact a, ac_canonical = pl_marshal L (ac_artifact a), ac_digest = vr_digest r,
           ac_generation = vr_generation r, ac_expires = vr_expires r, ac_provenance = vr_provenance r\<rparr>)"
  by (cases a) (auto simp: consume_def Let_def not_less split: option.splits)

section \<open>Properties\<close>


text \<open>
  The accepted form is canonical: two valid artifacts for the same network and revision
  with the same set of rules are the same artifact, rule order included (deny rules first,
  then by identifier).
\<close>

theorem artifact_canonical:
  assumes "validate_artifact a network = None" and "validate_artifact b network = None"
    and "at_revision a = at_revision b" and "set (at_rules a) = set (at_rules b)"
  shows "a = b"
proof -
  have "at_rules a = at_rules b"
    using assms by (intro sorted_rules_unique) (simp_all add: validate_artifact_None)
  with assms show ?thesis by (intro artifact.equality) (simp_all add: validate_artifact_None)
qed

definition sample_rule :: policy_rule where
  "sample_rule = \<lparr>rl_whole_device = False, rl_id = ''r1'', rl_action = ''accept'', rl_sources = [''a''],
     rl_destinations = [''b''], rl_protocols = [''tcp''], rl_ports = [443]\<rparr>"

definition sample_artifact :: artifact where
  "sample_artifact = \<lparr>at_schema = 1, at_compiler = ''xconnect-acl-v1alpha1.1'', at_network = ''net'',
     at_revision = 2, at_default_action = ''deny'', at_protected_flows = protected_flows, at_rules = [sample_rule]\<rparr>"

definition sample_policy_lib :: policy_lib where
  "sample_policy_lib = \<lparr>pl_sha256 = (\<lambda>m. take 32 (m @ replicate 32 0)),
     pl_strict_decode = (\<lambda>b. if b = bytes_of ''net'' then Some sample_artifact else None),
     pl_marshal = (\<lambda>a. bytes_of (at_network a))\<rparr>"

definition sample_reference :: reference where
  "sample_reference = \<lparr>vr_provenance = ProvenanceSignedConfig, vr_network = ''net'', vr_generation = 4,
     vr_digest = hex_encode (pl_sha256 sample_policy_lib (bytes_of ''net'')),
     vr_expires = \<lparr>nanos = 60 * second, utc = True\<rparr>\<rparr>"

lemma sample_policy_ids: "policy_id ''r1''" "policy_id ''a''" "policy_id ''b''" "policy_id ''net''"
  by (simp_all add: policy_id_def is_alnum_def is_id_char_def is_digit_def is_lower_def is_upper_def code_def)

lemma sample_artifact_valid: "validate_artifact sample_artifact ''net'' = None"
  by (simp add: validate_artifact_None sample_artifact_def rule_ok_def sample_rule_def sample_policy_ids)

definition sample_accepted :: accepted where
  "sample_accepted = \<lparr>ac_artifact = sample_artifact, ac_canonical = bytes_of ''net'',
     ac_digest = vr_digest sample_reference, ac_generation = 4, ac_expires = vr_expires sample_reference,
     ac_provenance = ProvenanceSignedConfig\<rparr>"

lemma policy_digest_hex: "length b = 32 \<Longrightarrow> policy_digest (hex_encode b)"
  by (simp add: policy_digest_def match_all_def hex_encode_lower)

lemma sample_net_trim: "bytes_trim_space (bytes_of ''net'') = bytes_of ''net''"
  by (simp add: bytes_trim_space_def) (simp add: trim_space_all_graphic graphic_def code_def)

lemma sample_consumed:
  "consume sample_policy_lib (bytes_of ''net'') sample_reference \<lparr>fl_network = [], fl_generation = 0, fl_digest = []\<rparr>
     \<lparr>nanos = 20 * second, utc = True\<rparr> clock = Inr sample_accepted"
proof -
  have d: "policy_digest (vr_digest sample_reference)"
    by (simp add: sample_reference_def) (rule policy_digest_hex, simp add: sample_policy_lib_def min_def)
  have m: "pl_marshal sample_policy_lib sample_artifact = bytes_of ''net''"
    and dec: "pl_strict_decode sample_policy_lib (bytes_of ''net'') = Some sample_artifact"
    by (simp_all add: sample_policy_lib_def sample_artifact_def)
  have h: "hex_encode (pl_sha256 sample_policy_lib (bytes_of ''net'')) = vr_digest sample_reference"
    and r: "vr_provenance sample_reference = ProvenanceSignedConfig" "vr_network sample_reference = ''net''"
      "vr_generation sample_reference = 4" "vr_expires sample_reference = \<lparr>nanos = 60 * second, utc = True\<rparr>"
    by (simp_all add: sample_reference_def)
  have ne: "bytes_of ''net'' \<noteq> []" by (simp add: bytes_of_def)
  have ac: "ac_artifact sample_accepted = sample_artifact" by (simp add: sample_accepted_def)
  show ?thesis
    unfolding consume_Inr Let_def ac m h dec sample_net_trim r
    by (simp add: d ne MaximumBody_def sample_policy_ids sample_artifact_valid after_def is_zero_def zero_time_def durations)
      (simp add: sample_accepted_def r durations)
qed


lemma artifact_canonical_witness: "sample_artifact = sample_artifact\<lparr>at_rules := [sample_rule]\<rparr>"
  by (rule artifact_canonical [OF sample_artifact_valid])
    (simp_all add: validate_artifact_None sample_artifact_def rule_ok_def sample_rule_def sample_policy_ids)

end
