(* ===== verification/Invite.thy ===== *)
theory Invite
  imports Go_Encoding Fault
begin

text \<open>
  \<open>overlay/invite/parser.go\<close>: the one-time invite link. \<open>net/url\<close> is a parameter: what
  \<open>url.Parse\<close> returns, as the record of the parts the source reads.
\<close>

record url =
  u_scheme :: string
  u_opaque :: string
  u_has_user :: bool
  u_host :: string
  u_hostname :: string
  u_port :: string
  u_path :: string
  u_escaped_path :: string
  u_raw_query :: string
  u_query :: "(string \<times> string list) list"
  u_fragment :: string

type_synonym url_parser = "string \<Rightarrow> url option"

record target =
  tg_controller :: string
  tg_join_token :: string

definition invalid_invite :: error where
  "invalid_invite = fault CodeJoinInviteInvalid ''parse join invite''"

definition valid_join_token :: "string \<Rightarrow> bool" where
  "valid_join_token v \<longleftrightarrow>
     (if \<not> has_prefix v ''xjt_'' then False
      else let raw = trim_prefix v ''xjt_'' in
        case rawurl_decode raw of
          None \<Rightarrow> False
        | Some d \<Rightarrow> length d = 32 \<and> rawurl_encode d = raw)"

definition parse_controller :: "url_parser \<Rightarrow> string \<Rightarrow> bool \<Rightarrow> error + string" where
  "parse_controller U v insecure =
     (case U v of
        None \<Rightarrow> Inl invalid_invite
      | Some p \<Rightarrow>
          if u_host p = [] \<or> u_hostname p = [] \<or> u_has_user p \<or> u_fragment p \<noteq> [] \<or> u_raw_query p \<noteq> [] \<or>
             u_opaque p \<noteq> [] \<or> (u_path p \<noteq> [] \<and> u_path p \<noteq> ''/'')
          then Inl invalid_invite
          else
            (let secure = (u_scheme p = ''https'');
                 local_dev = (u_scheme p = ''http'' \<and>
                   (u_hostname p = ''localhost'' \<or> u_hostname p = ''127.0.0.1'') \<and> insecure)
             in if \<not> secure \<and> \<not> local_dev then Inl invalid_invite else Inr (trim_right_slash v)))"

definition parse_invite :: "url_parser \<Rightarrow> string \<Rightarrow> bool \<Rightarrow> error + target" where
  "parse_invite U v insecure =
     (if v = [] \<or> trim_space v \<noteq> v then Inl invalid_invite
      else case U v of
          None \<Rightarrow> Inl invalid_invite
        | Some p \<Rightarrow>
            if u_scheme p \<noteq> ''xconnect'' \<or> u_host p \<noteq> ''join'' \<or> u_has_user p \<or> u_fragment p \<noteq> [] \<or>
               u_opaque p \<noteq> [] \<or> u_port p \<noteq> []
            then Inl invalid_invite
            else case u_query p of
                [(k, [controller])] \<Rightarrow>
                  if k \<noteq> ''controller'' then Inl invalid_invite
                  else
                    (let token = trim_prefix (u_path p) ''/'' in
                     if u_path p \<noteq> ''/'' @ token \<or> u_escaped_path p \<noteq> u_path p \<or> \<not> valid_join_token token
                     then Inl invalid_invite
                     else bindR (parse_controller U controller insecure) (\<lambda>c.
                            Inr \<lparr>tg_controller = c, tg_join_token = token\<rparr>))
              | _ \<Rightarrow> Inl invalid_invite)"

lemma valid_join_token_iff:
  "valid_join_token v \<longleftrightarrow> (\<exists>d. length d = 32 \<and> v = ''xjt_'' @ rawurl_encode d)"
proof
  assume "valid_join_token v"
  then obtain d where p: "has_prefix v ''xjt_''" and d: "length d = 32" "rawurl_encode d = trim_prefix v ''xjt_''"
    by (auto simp: valid_join_token_def Let_def split: if_splits option.splits)
  from has_prefix_eq [OF p] d have "v = ''xjt_'' @ rawurl_encode d" by simp
  with d show "\<exists>d. length d = 32 \<and> v = ''xjt_'' @ rawurl_encode d" by blast
next
  assume "\<exists>d. length d = 32 \<and> v = ''xjt_'' @ rawurl_encode d"
  then obtain d where "length d = 32" "v = ''xjt_'' @ rawurl_encode d" by blast
  moreover have "has_prefix (''xjt_'' @ rawurl_encode d) ''xjt_''" by (rule has_prefix_append)
  moreover have "trim_prefix (''xjt_'' @ rawurl_encode d) ''xjt_'' = rawurl_encode d" by (rule trim_prefix_append)
  ultimately show "valid_join_token v" by (simp add: valid_join_token_def)
qed

lemma parse_controller_Inr:
  "parse_controller U v insecure = Inr c \<Longrightarrow>
     c = trim_right_slash v \<and> (\<exists>p. U v = Some p \<and> \<not> u_has_user p \<and> u_raw_query p = [] \<and> u_fragment p = [] \<and>
       (u_path p = [] \<or> u_path p = ''/'') \<and> (u_scheme p = ''https'' \<or> u_scheme p = ''http'' \<and> insecure \<and>
          (u_hostname p = ''localhost'' \<or> u_hostname p = ''127.0.0.1'')))"
  by (auto simp: parse_controller_def Let_def split: option.splits if_splits)

text \<open>
  A parsed invite carries a token of exactly 32 bytes in canonical unpadded base64 and a
  controller that is an \<open>https\<close> origin without user, query, fragment or path, or a plain
  \<open>http\<close> loopback origin when the caller allowed it.
\<close>

theorem parse_invite_sound:
  assumes "parse_invite U v insecure = Inr t"
  shows "(\<exists>d. length d = 32 \<and> tg_join_token t = ''xjt_'' @ rawurl_encode d) \<and>
    (\<exists>c p. tg_controller t = trim_right_slash c \<and> U c = Some p \<and> \<not> u_has_user p \<and> u_raw_query p = [] \<and>
       u_fragment p = [] \<and> (u_path p = [] \<or> u_path p = ''/'') \<and>
       (u_scheme p = ''https'' \<or> insecure \<and> u_scheme p = ''http'' \<and>
          (u_hostname p = ''localhost'' \<or> u_hostname p = ''127.0.0.1'')))"
proof -
  from assms obtain controller where tok: "valid_join_token (tg_join_token t)"
    and c: "parse_controller U controller insecure = Inr (tg_controller t)"
    by (auto simp: parse_invite_def Let_def split: if_splits option.splits list.splits prod.splits)
  from tok parse_controller_Inr [OF c] show ?thesis unfolding valid_join_token_iff by blast
qed

definition sample_url :: url where
  "sample_url = \<lparr>u_scheme = ''https'', u_opaque = [], u_has_user = False, u_host = ''z'', u_hostname = ''z'',
     u_port = [], u_path = [], u_escaped_path = [], u_raw_query = [], u_query = [], u_fragment = []\<rparr>"

definition sample_token :: string where
  "sample_token = ''xjt_'' @ rawurl_encode (replicate 32 5)"

definition sample_urls :: url_parser where
  "sample_urls v = (if v = ''u'' then Some (sample_url\<lparr>u_scheme := ''xconnect'', u_host := ''join'',
       u_path := ''/'' @ sample_token, u_escaped_path := ''/'' @ sample_token,
       u_query := [(''controller'', [''https://z/''])]\<rparr>) else Some sample_url)"

lemma parse_invite_sound_witness:
  "\<exists>t. parse_invite sample_urls ''u'' False = Inr t \<and> tg_controller t = ''https://z''"
proof -
  have tok: "valid_join_token sample_token" unfolding valid_join_token_iff sample_token_def
    by (intro exI [of _ "replicate 32 5"]) simp
  have tr: "trim_space ''u'' = ''u''" by (simp add: trim_space_all_graphic graphic_def code_def)
  have pa: "trim_prefix (''/'' @ sample_token) ''/'' = sample_token" by (rule trim_prefix_append)
  have "parse_invite sample_urls ''u'' False
      = Inr \<lparr>tg_controller = trim_right_slash ''https://z/'', tg_join_token = sample_token\<rparr>"
    using tok pa by (simp add: parse_invite_def tr sample_urls_def sample_url_def parse_controller_def)
  from parse_invite_sound [OF this] this show ?thesis by (simp add: trim_right_slash_def)
qed

end
