(* ===== verification/Credential.thy ===== *)
theory Credential
  imports Contracts Signed_Config Invite
begin

text \<open>
  \<open>overlay/credential\<close>: the durable device credential (\<open>model.go\<close>), its in-memory, protected
  and file stores (\<open>store.go\<close>, \<open>protected_store.go\<close>, \<open>file_store.go\<close>). SHA-256 and \<open>url.Parse\<close> are
  parameters; what a file operation of the store returns is an argument, one outcome per
  system call in the code's order.
\<close>

section \<open>Secrets\<close>

record secret =
  se_id :: string
  se_value :: string

definition invalid_credential :: "string \<Rightarrow> error" where
  "invalid_credential op = fault CodeCredentialInvalid op"

definition is_b64url_char :: "char \<Rightarrow> bool" where
  "is_b64url_char c \<longleftrightarrow> is_alnum c \<or> c = CHR ''_'' \<or> c = CHR ''-''"

text \<open>\<open>credentialPattern.FindStringSubmatch\<close>: the two groups.\<close>

definition match_credential :: "string \<Rightarrow> (string \<times> string) option" where
  "match_credential v =
     (let r = trim_prefix v ''xdc_''; i = take 32 r; rest = drop 32 r in
      if has_prefix v ''xdc_'' \<and> length i = 32 \<and> list_all is_lower_hex i \<and> has_prefix rest ''.'' \<and>
         length rest = 44 \<and> list_all is_b64url_char (tl rest)
      then Some (i, tl rest) else None)"

definition parse_credential :: "string \<Rightarrow> error + secret" where
  "parse_credential v =
     (if v \<noteq> trim_space v then Inl (invalid_credential ''parse device credential'')
      else case match_credential v of
          None \<Rightarrow> Inl (invalid_credential ''parse device credential'')
        | Some (i, t) \<Rightarrow>
            (case rawurl_decode t of
               None \<Rightarrow> Inl (invalid_credential ''parse device credential'')
             | Some d \<Rightarrow>
                 if length d \<noteq> 32 \<or> rawurl_encode d \<noteq> t
                 then Inl (invalid_credential ''parse device credential'')
                 else Inr \<lparr>se_id = ''xdcid_'' @ i, se_value = v\<rparr>))"

text \<open>\<open>GenerateWithReader\<close>: the reader is the bytes it will deliver.\<close>

definition generate_with_reader :: "byte list \<Rightarrow> error + (secret \<times> byte list)" where
  "generate_with_reader r =
     (if length r < 16
      then Inl (fault_cause CodeCredentialStorage ''generate device credential id'' (Sentinel ErrEOF))
      else if length (drop 16 r) < 32
      then Inl (fault_cause CodeCredentialStorage ''generate device credential secret'' (Sentinel ErrEOF))
      else
        (let i = hex_encode (take 16 r) in
         Inr (\<lparr>se_id = ''xdcid_'' @ i,
                se_value = ''xdc_'' @ i @ ''.'' @ rawurl_encode (take 32 (drop 16 r))\<rparr>, drop 48 r)))"

section \<open>Records\<close>

record pending_rotation =
  pe_id :: string
  pe_credential :: string
  pe_verifier :: string
  pe_created :: gotime

record cred_record =
  cr_schema :: int
  cr_controller :: string
  cr_device :: string
  cr_network :: string
  cr_platform :: string
  cr_public_key :: string
  cr_id :: string
  cr_credential :: string
  cr_issued :: gotime
  cr_expires :: gotime
  cr_scope :: "string list"
  cr_keys :: signing_keys
  cr_pending :: "pending_rotation option"

text \<open>\<open>cl_size\<close> is the length of the JSON form of a record.\<close>

record cred_lib =
  cl_sha256 :: "byte list \<Rightarrow> byte list"
  cl_url :: url_parser
  cl_size :: "cred_record \<Rightarrow> nat"

definition verifier :: "cred_lib \<Rightarrow> string \<Rightarrow> error + string" where
  "verifier L v = bindR (parse_credential v) (\<lambda>_. Inr (hex_encode (cl_sha256 L (bytes_of v))))"

definition valid_https_controller :: "cred_lib \<Rightarrow> string \<Rightarrow> bool" where
  "valid_https_controller L v \<longleftrightarrow>
     (case cl_url L v of
        None \<Rightarrow> False
      | Some p \<Rightarrow> u_scheme p = ''https'' \<and> u_host p \<noteq> [] \<and> \<not> u_has_user p \<and> u_raw_query p = [] \<and>
          u_fragment p = [])"

definition valid_platform :: "string \<Rightarrow> bool" where
  "valid_platform p \<longleftrightarrow> p \<in> {''darwin'', ''windows'', ''linux'', ''ios'', ''android''}"

definition credential_scopes :: "string set" where
  "credential_scopes = {''overlay:session:mint'', ''overlay:credential:rotate'', ''overlay:device:revoke''}"

definition valid_scope :: "string list \<Rightarrow> bool" where
  "valid_scope vs \<longleftrightarrow>
     length vs = 3 \<and> scan_unique (\<lambda>v. v) (\<lambda>v. v \<in> credential_scopes) {} vs \<and> credential_scopes \<subseteq> set vs"

definition credential_id_ok :: "string \<Rightarrow> bool" where
  "credential_id_ok s \<longleftrightarrow> has_prefix s ''xdcid_'' \<and> match_all is_lower_hex 32 32 (trim_prefix s ''xdcid_'')"

definition maximum_lifetime :: int where "maximum_lifetime = 31 * day"
definition rotation_lead_time :: int where "rotation_lead_time = 7 * day"

definition pending_ok :: "cred_lib \<Rightarrow> cred_record \<Rightarrow> pending_rotation \<Rightarrow> bool" where
  "pending_ok L r q \<longleftrightarrow>
     (case (parse_credential (pe_credential q), verifier L (pe_credential q)) of
        (Inr s, Inr v) \<Rightarrow>
          se_id s = pe_id q \<and> pe_id q \<noteq> cr_id r \<and> v = pe_verifier q \<and> canonical_time (pe_created q)
      | _ \<Rightarrow> False)"

definition record_validate :: "cred_lib \<Rightarrow> cred_record \<Rightarrow> error option" where
  "record_validate L r =
     (if cr_schema r \<noteq> 1 \<or> \<not> valid_https_controller L (cr_controller r) \<or> \<not> valid_id (cr_device r) \<or>
         \<not> valid_id (cr_network r) \<or> \<not> valid_platform (cr_platform r) \<or> \<not> wg_key_text (cr_public_key r)
      then Some (invalid_credential ''validate device credential binding'')
      else case parse_credential (cr_credential r) of
          Inl e \<Rightarrow> Some (invalid_credential ''validate device credential identity'')
        | Inr s \<Rightarrow>
            if se_id s \<noteq> cr_id r \<or> \<not> credential_id_ok (cr_id r)
            then Some (invalid_credential ''validate device credential identity'')
            else if \<not> canonical_time (cr_issued r) \<or> \<not> canonical_time (cr_expires r) \<or>
                    \<not> after (cr_expires r) (cr_issued r) \<or>
                    sub_time (cr_expires r) (cr_issued r) > maximum_lifetime \<or> \<not> valid_scope (cr_scope r)
            then Some (invalid_credential ''validate device credential lifetime'')
            else if keys_validate (cr_keys r) \<noteq> None
            then Some (invalid_credential ''validate device credential signing keys'')
            else case cr_pending r of
                None \<Rightarrow> None
              | Some q \<Rightarrow>
                  if pending_ok L r q then None
                  else Some (invalid_credential ''validate pending device credential''))"

definition cred_expired :: "cred_record \<Rightarrow> gotime \<Rightarrow> bool" where
  "cred_expired r now \<longleftrightarrow> \<not> after (cr_expires r) (to_utc now)"

definition rotation_due :: "cred_record \<Rightarrow> gotime \<Rightarrow> bool" where
  "rotation_due r now \<longleftrightarrow> \<not> after (cr_expires r) (add_dur (to_utc now) rotation_lead_time)"

definition with_pending :: "cred_lib \<Rightarrow> cred_record \<Rightarrow> secret \<Rightarrow> gotime \<Rightarrow> error + cred_record" where
  "with_pending L r s now =
     (if cr_pending r \<noteq> None
      then Inl (fault CodeCredentialRotationPending ''create pending device credential'')
      else case verifier L (se_value s) of
          Inl e \<Rightarrow> Inl (invalid_credential ''create pending device credential'')
        | Inr v \<Rightarrow>
            if se_id s = cr_id r then Inl (invalid_credential ''create pending device credential'')
            else
              (let copy = r\<lparr>cr_pending := Some \<lparr>pe_id = se_id s, pe_credential = se_value s, pe_verifier = v,
                     pe_created = trunc_second (to_utc now)\<rparr>\<rparr>
               in checkR (record_validate L copy) (Inr copy)))"

definition promote_pending ::
    "cred_lib \<Rightarrow> cred_record \<Rightarrow> gotime \<Rightarrow> gotime \<Rightarrow> string list \<Rightarrow> error + cred_record" where
  "promote_pending L r issued expires scope =
     (case cr_pending r of
        None \<Rightarrow> Inl (fault CodeCredentialRotationPending ''promote missing device credential'')
      | Some q \<Rightarrow>
          (let copy = r\<lparr>cr_id := pe_id q, cr_credential := pe_credential q, cr_issued := to_utc issued,
                 cr_expires := to_utc expires, cr_scope := scope, cr_pending := None\<rparr>
           in checkR (record_validate L copy) (Inr copy)))"

definition pending_record :: "cred_lib \<Rightarrow> cred_record \<Rightarrow> error + cred_record" where
  "pending_record L r =
     (case cr_pending r of
        None \<Rightarrow> Inl (fault CodeCredentialRotationPending ''probe missing device credential'')
      | Some q \<Rightarrow>
          (let copy = r\<lparr>cr_id := pe_id q, cr_credential := pe_credential q, cr_issued := pe_created q,
                 cr_expires := add_dur (pe_created q) (30 * day), cr_pending := None\<rparr>
           in checkR (record_validate L copy) (Inr copy)))"

section \<open>Stores\<close>

text \<open>
  What JSON keeps of a record: everything but the ETag of the keys; it refuses a key window
  that is not canonical.
\<close>

definition record_form :: "cred_record \<Rightarrow> cred_record" where
  "record_form r = r\<lparr>cr_keys := (cr_keys r)\<lparr>ks_etag := []\<rparr>\<rparr>"

definition record_encodes :: "cred_record \<Rightarrow> bool" where
  "record_encodes r \<longleftrightarrow>
     list_all (\<lambda>k. canonical_time (sk_not_before k) \<and>
       (case sk_not_after k of None \<Rightarrow> True | Some t \<Rightarrow> canonical_time t)) (ks_keys (cr_keys r))"

definition clone_record :: "cred_record \<Rightarrow> error + cred_record" where
  "clone_record r =
     (if record_encodes r then Inr (record_form r)
      else Inl (fault CodeCredentialStorage ''copy device credential''))"

record memory_store =
  ms_record :: "cred_record option"
  ms_save_err :: "error option"
  ms_load_err :: "error option"
  ms_delete_err :: "error option"

definition memory_load :: "memory_store \<Rightarrow> error + cred_record" where
  "memory_load s =
     (case ms_load_err s of
        Some e \<Rightarrow> Inl e
      | None \<Rightarrow> (case ms_record s of None \<Rightarrow> Inl (Sentinel CredentialNotFound) | Some r \<Rightarrow> clone_record r))"

definition memory_save :: "cred_lib \<Rightarrow> cred_record \<Rightarrow> memory_store \<Rightarrow> error option \<times> memory_store" where
  "memory_save L r s =
     (case ms_save_err s of
        Some e \<Rightarrow> (Some e, s)
      | None \<Rightarrow>
          (case record_validate L r of
             Some e \<Rightarrow> (Some e, s)
           | None \<Rightarrow>
               (case clone_record r of
                  Inl e \<Rightarrow> (Some e, s)
                | Inr c \<Rightarrow> (None, s\<lparr>ms_record := Some c\<rparr>))))"

definition memory_delete :: "memory_store \<Rightarrow> error option \<times> memory_store" where
  "memory_delete s = (case ms_delete_err s of Some e \<Rightarrow> (Some e, s) | None \<Rightarrow> (None, s\<lparr>ms_record := None\<rparr>))"

text \<open>The store behind the host's protected IPC; \<open>None\<close> is a missing host.\<close>

record 's host_ipc =
  ipc_load :: "'s \<Rightarrow> error + cred_record"
  ipc_save :: "cred_record \<Rightarrow> 's \<Rightarrow> error option \<times> 's"
  ipc_delete :: "'s \<Rightarrow> error option \<times> 's"

definition protected_load :: "'s host_ipc option \<Rightarrow> 's \<Rightarrow> error + cred_record" where
  "protected_load ipc s =
     (case ipc of
        None \<Rightarrow> Inl (fault CodeCredentialStorage ''load protected device credential'')
      | Some h \<Rightarrow> ipc_load h s)"

definition protected_save ::
    "cred_lib \<Rightarrow> 's host_ipc option \<Rightarrow> cred_record \<Rightarrow> 's \<Rightarrow> error option \<times> 's" where
  "protected_save L ipc r s =
     (case ipc of
        None \<Rightarrow> (Some (fault CodeCredentialStorage ''save protected device credential''), s)
      | Some h \<Rightarrow> (case record_validate L r of Some e \<Rightarrow> (Some e, s) | None \<Rightarrow> ipc_save h r s))"

definition protected_delete :: "'s host_ipc option \<Rightarrow> 's \<Rightarrow> error option \<times> 's" where
  "protected_delete ipc s =
     (case ipc of
        None \<Rightarrow> (Some (fault CodeCredentialStorage ''delete protected device credential''), s)
      | Some h \<Rightarrow> ipc_delete h s)"

text \<open>
  The credential file: whether it is a private regular file of the user and within the 64 KiB
  a load reads, and the record its bytes decode to, if they decode. The directory keeps \<open>leftovers\<close>, the temporary files a
  failed save could not remove. \<open>io k\<close> says whether the \<open>k\<close>-th system call succeeds.
\<close>

record cred_file =
  fi_private :: bool
  fi_small :: bool
  fi_content :: "cred_record option"

record cred_dir =
  cd_file :: "cred_file option"
  cd_leftovers :: nat

definition storage_fault :: "string \<Rightarrow> error" where
  "storage_fault op = fault CodeCredentialStorage op"

definition file_load :: "cred_lib \<Rightarrow> (nat \<Rightarrow> bool) \<Rightarrow> cred_dir \<Rightarrow> error + cred_record" where
  "file_load L io d =
     (case cd_file d of
        None \<Rightarrow> Inl (Sentinel CredentialNotFound)
      | Some f \<Rightarrow>
          if \<not> io 0 \<or> \<not> fi_private f then Inl (storage_fault ''validate device credential file'')
          else if \<not> io 1 then Inl (storage_fault ''open device credential file'')
          else if \<not> io 2 \<or> \<not> fi_small f then Inl (storage_fault ''read device credential file'')
          else case fi_content f of
              None \<Rightarrow> Inl (storage_fault ''decode device credential file'')
            | Some r \<Rightarrow> checkR (record_validate L r) (Inr r))"

definition file_save :: "cred_lib \<Rightarrow> (nat \<Rightarrow> bool) \<Rightarrow> cred_record \<Rightarrow> cred_dir \<Rightarrow> error option \<times> cred_dir" where
  "file_save L io r0 d =
     (let r = r0\<lparr>cr_schema := 1\<rparr>;
          abandon = (if io 8 then d else d\<lparr>cd_leftovers := Suc (cd_leftovers d)\<rparr>)
      in case record_validate L r of
           Some e \<Rightarrow> (Some e, d)
         | None \<Rightarrow>
             if \<not> io 0 then (Some (storage_fault ''create device credential directory''), d)
             else if \<not> io 1 then (Some (storage_fault ''validate device credential directory''), d)
             else if \<not> record_encodes r then (Some (storage_fault ''encode device credential file''), d)
             else if \<not> io 2 then (Some (storage_fault ''create device credential file''), d)
             else if \<not> io 3 then (Some (storage_fault ''secure device credential file''), abandon)
             else if \<not> io 4 then (Some (storage_fault ''write device credential file''), abandon)
             else if \<not> io 5 then (Some (storage_fault ''sync device credential file''), abandon)
             else if \<not> io 6 then (Some (storage_fault ''close device credential file''), abandon)
             else if \<not> io 7 then (Some (storage_fault ''commit device credential file''), abandon)
             else (None, d\<lparr>cd_file := Some \<lparr>fi_private = True, fi_small = (cl_size L r < 65536),
               fi_content = Some (record_form r)\<rparr>\<rparr>))"

definition file_delete :: "(nat \<Rightarrow> bool) \<Rightarrow> cred_dir \<Rightarrow> error option \<times> cred_dir" where
  "file_delete io d =
     (case cd_file d of
        None \<Rightarrow> (None, d)
      | Some f \<Rightarrow>
          if \<not> io 0 \<or> \<not> fi_private f then (Some (storage_fault ''validate device credential deletion''), d)
          else if \<not> io 1 then (Some (storage_fault ''delete device credential''), d)
          else (None, d\<lparr>cd_file := None\<rparr>))"

section \<open>Lemmas\<close>

lemma is_b64url_graphic: "is_b64url_char c \<Longrightarrow> graphic c"
  by (auto simp: is_b64url_char_def is_alnum_graphic) (auto simp: graphic_def code_def)

lemma valid_scope_iff: "valid_scope vs \<longleftrightarrow> distinct vs \<and> set vs = credential_scopes"
proof
  assume "valid_scope vs"
  then show "distinct vs \<and> set vs = credential_scopes" by (auto simp: valid_scope_def scan_unique_iff)
next
  assume vs: "distinct vs \<and> set vs = credential_scopes"
  have "card credential_scopes = 3" by (simp add: credential_scopes_def)
  with vs have "length vs = 3" using distinct_card [of vs] by simp
  with vs show "valid_scope vs" by (simp add: valid_scope_def scan_unique_iff)
qed

lemma parse_credential_Inr:
  assumes "parse_credential v = Inr s"
  shows "\<exists>i d. list_all is_lower_hex i \<and> length i = 32 \<and> length d = 32 \<and>
    v = ''xdc_'' @ i @ ''.'' @ rawurl_encode d \<and> s = \<lparr>se_id = ''xdcid_'' @ i, se_value = v\<rparr>"
proof -
  from assms obtain i t d where m: "match_credential v = Some (i, t)"
    and d: "length d = 32" "rawurl_encode d = t" and s: "s = \<lparr>se_id = ''xdcid_'' @ i, se_value = v\<rparr>"
    by (auto simp: parse_credential_def split: if_splits option.splits prod.splits)
  from m have i: "list_all is_lower_hex i" "length i = 32" and pre: "has_prefix v ''xdc_''"
    and it: "i = take 32 (trim_prefix v ''xdc_'')" "t = tl (drop 32 (trim_prefix v ''xdc_''))"
    and dot: "has_prefix (drop 32 (trim_prefix v ''xdc_'')) ''.''"
    by (auto simp: match_credential_def Let_def split: if_splits)
  from dot obtain x where x: "drop 32 (trim_prefix v ''xdc_'') = ''.'' @ x" using has_prefix_eq by blast
  have "trim_prefix v ''xdc_'' = i @ ''.'' @ t"
    using it x append_take_drop_id [of 32 "trim_prefix v ''xdc_''"] by simp
  with has_prefix_eq [OF pre] have "v = ''xdc_'' @ i @ ''.'' @ t" by simp
  with i d s show ?thesis by blast
qed

lemma rawurl_length: "length d = 32 \<Longrightarrow> length (rawurl_encode d) = 43"
  using length_b64_encode_unpadded [of b64_url d] by (simp add: rawurl_encode_def)

lemma parse_credential_form:
  assumes "list_all is_lower_hex i" and "length i = 32" and "length d = 32"
  shows "parse_credential (''xdc_'' @ i @ ''.'' @ rawurl_encode d)
    = Inr \<lparr>se_id = ''xdcid_'' @ i, se_value = ''xdc_'' @ i @ ''.'' @ rawurl_encode d\<rparr>"
proof -
  let ?v = "''xdc_'' @ i @ ''.'' @ rawurl_encode d"
  have chars: "list_all is_b64url_char (rawurl_encode d)"
    unfolding rawurl_encode_def
    by (rule b64_encode_unpadded_chars) (use b64_url_class in \<open>auto simp: is_b64url_char_def\<close>)
  have "list_all graphic ?v"
    using assms(1) chars
    by (auto simp: list_all_iff is_lower_hex_graphic is_b64url_graphic) (simp_all add: graphic_def code_def)
  then have tr: "trim_space ?v = ?v" by (rule trim_space_all_graphic)
  have tp: "trim_prefix ?v ''xdc_'' = i @ ''.'' @ rawurl_encode d" by (rule trim_prefix_append)
  have hp: "has_prefix ?v ''xdc_''" by (rule has_prefix_append)
  have "has_prefix (''.'' @ rawurl_encode d) ''.''" by (rule has_prefix_append)
  then have "match_credential ?v = Some (i, rawurl_encode d)"
    using assms chars rawurl_length [OF assms(3)] hp unfolding match_credential_def tp by (simp add: Let_def)
  then show ?thesis using assms(3) tr by (simp add: parse_credential_def)
qed

lemma generate_Inr:
  "generate_with_reader r = Inr (s, rest) \<longleftrightarrow>
     48 \<le> length r \<and> rest = drop 48 r \<and>
     s = \<lparr>se_id = ''xdcid_'' @ hex_encode (take 16 r),
          se_value = ''xdc_'' @ hex_encode (take 16 r) @ ''.'' @ rawurl_encode (take 32 (drop 16 r))\<rparr>"
  by (auto simp: generate_with_reader_def Let_def)

lemma parse_credential_id:
  assumes "parse_credential v = Inr s"
  shows "credential_id_ok (se_id s)" "se_value s = v"
proof -
  from parse_credential_Inr [OF assms] obtain i where i: "list_all is_lower_hex i" "length i = 32"
    and s: "s = \<lparr>se_id = ''xdcid_'' @ i, se_value = v\<rparr>" by blast
  have "trim_prefix (''xdcid_'' @ i) ''xdcid_'' = i" "has_prefix (''xdcid_'' @ i) ''xdcid_''"
    by (rule trim_prefix_append, rule has_prefix_append)
  with i s show "credential_id_ok (se_id s)" "se_value s = v"
    by (simp_all add: credential_id_ok_def match_all_def)
qed

lemma record_validate_None:
  "record_validate L r = None \<longleftrightarrow>
     cr_schema r = 1 \<and> valid_https_controller L (cr_controller r) \<and> valid_id (cr_device r) \<and>
     valid_id (cr_network r) \<and> valid_platform (cr_platform r) \<and> wg_key_text (cr_public_key r) \<and>
     (\<exists>s. parse_credential (cr_credential r) = Inr s \<and> se_id s = cr_id r) \<and>
     canonical_time (cr_issued r) \<and> canonical_time (cr_expires r) \<and> after (cr_expires r) (cr_issued r) \<and>
     sub_time (cr_expires r) (cr_issued r) \<le> maximum_lifetime \<and> valid_scope (cr_scope r) \<and>
     keys_validate (cr_keys r) = None \<and> (\<forall>q. cr_pending r = Some q \<longrightarrow> pending_ok L r q)"
proof (cases "parse_credential (cr_credential r)")
  case (Inl e)
  then show ?thesis by (simp add: record_validate_def)
next
  case (Inr s)
  with parse_credential_id [OF Inr] show ?thesis
    by (cases "cr_pending r") (auto simp: record_validate_def not_less)
qed

lemma pending_ok_iff:
  "pending_ok L r q \<longleftrightarrow>
     (\<exists>s. parse_credential (pe_credential q) = Inr s \<and> se_id s = pe_id q) \<and> pe_id q \<noteq> cr_id r \<and>
     pe_verifier q = hex_encode (cl_sha256 L (bytes_of (pe_credential q))) \<and> canonical_time (pe_created q)"
  by (cases "parse_credential (pe_credential q)") (auto simp: pending_ok_def verifier_def)

lemma with_pending_Inr:
  assumes "with_pending L r s now = Inr r'"
  shows "record_validate L r' = None" "cr_pending r = None"
    "r' = r\<lparr>cr_pending := cr_pending r'\<rparr>"
    "\<exists>q. cr_pending r' = Some q \<and> pe_credential q = se_value s \<and> pe_id q = se_id s \<and> pe_id q \<noteq> cr_id r"
  using assms by (auto simp: with_pending_def Let_def split: if_splits sum.splits)

lemma promote_pending_Inr:
  assumes "promote_pending L r issued expires scope = Inr r'"
  shows "\<exists>q. cr_pending r = Some q \<and> record_validate L r' = None \<and>
    r' = r\<lparr>cr_id := pe_id q, cr_credential := pe_credential q, cr_issued := to_utc issued,
           cr_expires := to_utc expires, cr_scope := scope, cr_pending := None\<rparr>"
  using assms by (auto simp: promote_pending_def Let_def split: option.splits)

section \<open>The stores keep their contract\<close>

definition dir_content :: "cred_dir \<Rightarrow> cred_record option" where
  "dir_content d = Option.bind (cd_file d) fi_content"

interpretation mem_store: single_store ms_record "memory_save L" memory_delete
    "\<lambda>r. record_validate L r = None" record_form for L
proof
  fix r s s' e
  show "memory_save L r s = (None, s') \<Longrightarrow> record_validate L r = None \<and> ms_record s' = Some (record_form r)"
    by (auto simp: memory_save_def clone_record_def split: option.splits if_splits)
  show "memory_save L r s = (Some e, s') \<Longrightarrow> ms_record s' = ms_record s"
    by (auto simp: memory_save_def clone_record_def split: option.splits if_splits)
  show "memory_delete s = (None, s') \<Longrightarrow> ms_record s' = None"
    by (auto simp: memory_delete_def split: option.splits)
  show "memory_delete s = (Some e, s') \<Longrightarrow> ms_record s' = ms_record s"
    by (auto simp: memory_delete_def split: option.splits)
qed

interpretation file_store: single_store dir_content "file_save L io" "file_delete io"
    "\<lambda>r. record_validate L (r\<lparr>cr_schema := 1\<rparr>) = None" "\<lambda>r. record_form (r\<lparr>cr_schema := 1\<rparr>)" for L io
proof
  fix r d d' e
  show "file_save L io r d = (None, d') \<Longrightarrow> record_validate L (r\<lparr>cr_schema := 1\<rparr>) = None \<and>
      dir_content d' = Some (record_form (r\<lparr>cr_schema := 1\<rparr>))"
    by (auto simp: file_save_def Let_def dir_content_def split: option.splits if_splits)
  show "file_save L io r d = (Some e, d') \<Longrightarrow> dir_content d' = dir_content d"
    by (auto simp: file_save_def Let_def dir_content_def split: option.splits if_splits)
  show "file_delete io d = (None, d') \<Longrightarrow> dir_content d' = None"
    by (auto simp: file_delete_def dir_content_def split: option.splits if_splits)
  show "file_delete io d = (Some e, d') \<Longrightarrow> dir_content d' = dir_content d"
    by (auto simp: file_delete_def dir_content_def split: option.splits if_splits)
qed

section \<open>Properties\<close>

text \<open>
  A generated credential parses back to itself, and its identifier has the canonical
  form: every source of 48 random bytes gives a credential the parser accepts.
\<close>

theorem generate_parse:
  assumes "generate_with_reader r = Inr (s, rest)"
  shows "parse_credential (se_value s) = Inr s \<and> credential_id_ok (se_id s)"
proof -
  from assms [unfolded generate_Inr] have len: "48 \<le> length r"
    and s: "s = \<lparr>se_id = ''xdcid_'' @ hex_encode (take 16 r),
          se_value = ''xdc_'' @ hex_encode (take 16 r) @ ''.'' @ rawurl_encode (take 32 (drop 16 r))\<rparr>" by auto
  have "parse_credential (se_value s) = Inr s"
    unfolding s secret.select_convs
    by (rule parse_credential_form) (use len in \<open>simp_all add: hex_encode_lower\<close>)
  with parse_credential_id [OF this] show ?thesis by blast
qed

text \<open>
  A rotation keeps the binding and replaces exactly the secret. Starting a rotation
  leaves the active credential, lifetime and scope as they were; completing it makes the
  pending secret the active one, with a different identifier, and clears the pending slot;
  both results are valid records for the same controller, device, network and keys.
\<close>

theorem rotation_preserves_binding:
  assumes "with_pending L r s now = Inr r1"
    and "promote_pending L r1 issued expires scope = Inr r2"
  shows "record_validate L r1 = None \<and> record_validate L r2 = None \<and>
    cr_credential r1 = cr_credential r \<and> cr_id r1 = cr_id r \<and> cr_expires r1 = cr_expires r \<and> cr_scope r1 = cr_scope r \<and>
    cr_credential r2 = se_value s \<and> cr_id r2 = se_id s \<and> cr_id r2 \<noteq> cr_id r \<and> cr_pending r2 = None \<and>
    cr_controller r2 = cr_controller r \<and> cr_device r2 = cr_device r \<and> cr_network r2 = cr_network r \<and>
    cr_platform r2 = cr_platform r \<and> cr_public_key r2 = cr_public_key r \<and> cr_keys r2 = cr_keys r"
proof -
  note w = with_pending_Inr [OF assms(1)]
  from w(4) obtain q where q: "cr_pending r1 = Some q" "pe_credential q = se_value s" "pe_id q = se_id s"
    "pe_id q \<noteq> cr_id r" by blast
  from promote_pending_Inr [OF assms(2)] q have v: "record_validate L r2 = None"
    and r2: "r2 = r1\<lparr>cr_id := pe_id q, cr_credential := pe_credential q, cr_issued := to_utc issued,
           cr_expires := to_utc expires, cr_scope := scope, cr_pending := None\<rparr>" by auto
  obtain p where r1: "r1 = r\<lparr>cr_pending := p\<rparr>" using w(3) by blast
  from w(1) v q show ?thesis unfolding r2 by (simp add: r1)
qed

text \<open>
  An interrupted rotation is always recoverable: for a valid record with a pending
  successor made after 1970, the probe record authenticated by that successor exists and is
  itself valid, bound to the same device and network.
\<close>

theorem pending_probe_available:
  assumes "record_validate L r = None" and "cr_pending r = Some q" and "0 \<le> nanos (pe_created q)"
  shows "\<exists>p. pending_record L r = Inr p \<and> record_validate L p = None \<and> cr_pending p = None \<and>
    cr_credential p = pe_credential q \<and> cr_id p = pe_id q \<and> cr_device p = cr_device r \<and> cr_network p = cr_network r"
proof -
  let ?p = "r\<lparr>cr_id := pe_id q, cr_credential := pe_credential q, cr_issued := pe_created q,
                 cr_expires := add_dur (pe_created q) (30 * day), cr_pending := None\<rparr>"
  note v = assms(1) [unfolded record_validate_None]
  have q: "pending_ok L r q" using v assms(2) by blast
  then have c: "canonical_time (pe_created q)" by (simp add: pending_ok_iff)
  have month: "30 * day = 2592000 * second" by (simp add: durations)
  have "nanosecond (add_dur (pe_created q) (30 * day)) = nanosecond (pe_created q)"
    unfolding month nanosecond_def add_dur_def by simp
  then have "canonical_time (add_dur (pe_created q) (30 * day))"
    using c assms(3) by (simp add: canonical_time_def add_dur_def is_zero_def zero_time_def durations)
  moreover have "after (add_dur (pe_created q) (30 * day)) (pe_created q)"
    by (simp add: after_def add_dur_def durations)
  moreover have "sub_time (add_dur (pe_created q) (30 * day)) (pe_created q) \<le> maximum_lifetime"
    by (simp add: sub_time_def add_dur_def saturate_def maximum_lifetime_def durations)
  ultimately have "record_validate L ?p = None"
    using v q c unfolding record_validate_None by (simp add: pending_ok_iff)
  then show ?thesis using assms(2) by (simp add: pending_record_def Let_def)
qed

text \<open>
  The credential file is replaced atomically: whichever system call of \<open>Save\<close> fails, the
  directory still holds the record it held; when none fails, it holds the new one, in the
  form a load returns.
\<close>

theorem file_save_atomic:
  assumes "file_save L io r d = (e, d')"
  shows "dir_content d' = (if e = None then Some (record_form (r\<lparr>cr_schema := 1\<rparr>)) else dir_content d)"
  using assms by (rule file_store.save_keeps_or_replaces)

section \<open>A concrete record\<close>

definition sample_cred_lib :: cred_lib where
  "sample_cred_lib = \<lparr>cl_sha256 = (\<lambda>m. take 32 (m @ replicate 32 0)), cl_url = (\<lambda>_. Some sample_url), cl_size = (\<lambda>_. 900)\<rparr>"

definition sample_secret :: "byte \<Rightarrow> secret" where
  "sample_secret b = \<lparr>se_id = ''xdcid_'' @ hex_encode (replicate 16 b),
     se_value = ''xdc_'' @ hex_encode (replicate 16 b) @ ''.'' @ rawurl_encode (replicate 32 b)\<rparr>"

lemma sample_generated: "generate_with_reader (replicate 48 b) = Inr (sample_secret b, [])"
  unfolding generate_Inr by (simp add: sample_secret_def)

lemma sample_parsed: "parse_credential (se_value (sample_secret b)) = Inr (sample_secret b)"
  unfolding sample_secret_def secret.simps
  by (rule parse_credential_form) (simp_all add: hex_encode_lower)

lemma sample_secret_ids: "se_id (sample_secret 1) \<noteq> se_id (sample_secret 2)"
proof
  assume "se_id (sample_secret 1) = se_id (sample_secret 2)"
  then have "hex_decode (hex_encode (replicate 16 (1 :: byte))) = hex_decode (hex_encode (replicate 16 2))"
    by (simp add: sample_secret_def del: hex_decode_encode)
  then show False by simp
qed

definition sample_record :: cred_record where
  "sample_record = \<lparr>cr_schema = 1, cr_controller = ''https://z'', cr_device = ''dev'', cr_network = ''net'',
     cr_platform = ''linux'', cr_public_key = std_encode (replicate 32 3), cr_id = se_id (sample_secret 1),
     cr_credential = se_value (sample_secret 1), cr_issued = \<lparr>nanos = 10 * second, utc = True\<rparr>,
     cr_expires = \<lparr>nanos = 10 * second + 20 * day, utc = True\<rparr>,
     cr_scope = [''overlay:session:mint'', ''overlay:credential:rotate'', ''overlay:device:revoke''],
     cr_keys = sample_keys, cr_pending = None\<rparr>"

definition sample_pending :: pending_rotation where
  "sample_pending = \<lparr>pe_id = se_id (sample_secret 2), pe_credential = se_value (sample_secret 2),
     pe_verifier = hex_encode (cl_sha256 sample_cred_lib (bytes_of (se_value (sample_secret 2)))),
     pe_created = \<lparr>nanos = 20 * second, utc = True\<rparr>\<rparr>"

lemma sample_scope: "valid_scope [''overlay:session:mint'', ''overlay:credential:rotate'', ''overlay:device:revoke'']"
  by (auto simp: valid_scope_iff credential_scopes_def)

lemma sample_url_ok: "valid_https_controller sample_cred_lib v"
  by (simp add: valid_https_controller_def sample_cred_lib_def sample_url_def)

lemma sample_record_base:
  assumes "cr_pending r = None \<or> cr_pending r = Some sample_pending \<and> cr_id r = se_id (sample_secret 1)"
    and "r = sample_record\<lparr>cr_pending := cr_pending r, cr_id := cr_id r, cr_credential := cr_credential r\<rparr>"
    and "\<exists>b. cr_credential r = se_value (sample_secret b) \<and> cr_id r = se_id (sample_secret b)"
  shows "record_validate sample_cred_lib r = None"
proof -
  obtain p i c where r: "r = sample_record\<lparr>cr_pending := p, cr_id := i, cr_credential := c\<rparr>" using assms(2) by blast
  have "pending_ok sample_cred_lib x sample_pending" if "cr_id x = se_id (sample_secret 1)" for x
    using that sample_secret_ids
    by (simp add: pending_ok_iff sample_pending_def sample_parsed canonical_time_def is_zero_def zero_time_def
        nanosecond_def durations)
  then have pend: "pending_ok sample_cred_lib r q" if "cr_pending r = Some q" for q using assms(1) that by auto
  have cred: "\<exists>s. parse_credential (cr_credential r) = Inr s \<and> se_id s = cr_id r"
    using assms(3) sample_parsed by metis
  have w: "wg_key_text (std_encode (replicate 32 3))" by (simp add: wg_key_text_def)
  show ?thesis
    unfolding record_validate_None
    using pend cred
    by (simp add: r sample_record_def sample_url_ok sample_ids valid_platform_def w sample_scope sample_keys_valid
        canonical_time_def is_zero_def zero_time_def nanosecond_def durations after_def sub_time_def saturate_def
        maximum_lifetime_def)
qed

lemma generate_parse_witness: "parse_credential (se_value (sample_secret 7)) = Inr (sample_secret 7)"
  using generate_parse [OF sample_generated] by blast

lemma sample_with_pending:
  "with_pending sample_cred_lib sample_record (sample_secret 2) \<lparr>nanos = 20 * second + 5, utc = True\<rparr>
     = Inr (sample_record\<lparr>cr_pending := Some sample_pending\<rparr>)"
proof -
  have "record_validate sample_cred_lib (sample_record\<lparr>cr_pending := Some sample_pending\<rparr>) = None"
    by (rule sample_record_base) (auto simp: sample_record_def)
  moreover have "\<lparr>pe_id = se_id (sample_secret 2), pe_credential = se_value (sample_secret 2),
      pe_verifier = hex_encode (cl_sha256 sample_cred_lib (bytes_of (se_value (sample_secret 2)))),
      pe_created = trunc_second (to_utc \<lparr>nanos = 20 * second + 5, utc = True\<rparr>)\<rparr> = sample_pending"
    by (simp add: sample_pending_def trunc_second_def to_utc_def durations)
  moreover have "cr_pending sample_record = None" "cr_id sample_record = se_id (sample_secret 1)"
    by (simp_all add: sample_record_def)
  ultimately show ?thesis
    using sample_secret_ids [symmetric] by (simp add: with_pending_def verifier_def sample_parsed)
qed

lemma sample_promoted:
  "promote_pending sample_cred_lib (sample_record\<lparr>cr_pending := Some sample_pending\<rparr>)
     (cr_issued sample_record) (cr_expires sample_record) (cr_scope sample_record)
   = Inr (sample_record\<lparr>cr_id := se_id (sample_secret 2), cr_credential := se_value (sample_secret 2)\<rparr>)"
proof -
  have "record_validate sample_cred_lib
      (sample_record\<lparr>cr_id := se_id (sample_secret 2), cr_credential := se_value (sample_secret 2)\<rparr>) = None"
    by (rule sample_record_base) (auto simp: sample_record_def)
  then show ?thesis
    by (simp add: promote_pending_def sample_pending_def Let_def sample_record_def to_utc_def)
qed

lemma rotation_preserves_binding_witness:
  "let r2 = sample_record\<lparr>cr_id := se_id (sample_secret 2), cr_credential := se_value (sample_secret 2)\<rparr> in
     cr_id r2 \<noteq> cr_id sample_record \<and> cr_device r2 = ''dev''"
  using rotation_preserves_binding [OF sample_with_pending sample_promoted] by (simp add: sample_record_def)

lemma pending_probe_available_witness:
  "\<exists>p. pending_record sample_cred_lib (sample_record\<lparr>cr_pending := Some sample_pending\<rparr>) = Inr p \<and>
     cr_id p = se_id (sample_secret 2)"
proof -
  have "record_validate sample_cred_lib (sample_record\<lparr>cr_pending := Some sample_pending\<rparr>) = None"
    by (rule sample_record_base) (auto simp: sample_record_def)
  from pending_probe_available [OF this, of sample_pending] show ?thesis
    by (auto simp: sample_pending_def durations)
qed

lemma file_save_atomic_witness:
  "\<exists>d'. file_save sample_cred_lib (\<lambda>k. k \<noteq> 7) sample_record \<lparr>cd_file = None, cd_leftovers = 0\<rparr>
      = (Some (storage_fault ''commit device credential file''), d') \<and> dir_content d' = None"
proof -
  have "record_validate sample_cred_lib sample_record = None"
    by (rule sample_record_base) (auto simp: sample_record_def)
  moreover have "sample_record\<lparr>cr_schema := 1\<rparr> = sample_record" "record_encodes sample_record"
    by (simp_all add: sample_record_def record_encodes_def sample_keys_def canonical_time_def is_zero_def zero_time_def
        nanosecond_def durations)
  ultimately have run: "file_save sample_cred_lib (\<lambda>k. k \<noteq> 7) sample_record \<lparr>cd_file = None, cd_leftovers = 0\<rparr>
      = (Some (storage_fault ''commit device credential file''), \<lparr>cd_file = None, cd_leftovers = 0\<rparr>)"
    by (simp add: file_save_def)
  from file_save_atomic [OF this] this show ?thesis by (simp add: dir_content_def)
qed

end
