(* ===== verification/State_Store.thy ===== *)
theory State_Store
  imports Credential Policy
begin

text \<open>
  \<open>overlay/state/store.go\<close> and the documents of \<open>overlay/state/lifecycle.go\<close>: the private JSON
  files of a node. A file is absent, not private, not decodable, or holds a document. The
  outcome of the system calls of one read or one write is an argument; a write may fail
  before it replaced the file or after.
\<close>

section \<open>Files\<close>

datatype 'a file_state = Absent | Exposed | Garbled | Doc 'a

datatype read_outcome = ReadOk | StatFails | OpenFails

text \<open>
  The steps at which \<open>writeJSON0600\<close> can fail; the last one comes after the rename.
\<close>

datatype write_outcome = WriteOk | FailsBefore string | FailsAfter

definition state_io :: "string \<Rightarrow> error" where
  "state_io op = fault CodeStateIO op"

definition read_json :: "read_outcome \<Rightarrow> 'a file_state \<Rightarrow> error + 'a" where
  "read_json io f =
     (case f of
        Absent \<Rightarrow> Inl (Sentinel StateNotFound)
      | _ \<Rightarrow>
          if io = StatFails then Inl (state_io ''validate overlay state permissions'')
          else (case f of
                  Exposed \<Rightarrow> Inl (state_io ''validate overlay state permissions'')
                | Garbled \<Rightarrow>
                    if io = OpenFails then Inl (state_io ''open overlay state'')
                    else Inl (state_io ''decode overlay state'')
                | Doc v \<Rightarrow> if io = OpenFails then Inl (state_io ''open overlay state'') else Inr v
                | Absent \<Rightarrow> Inl (Sentinel StateNotFound)))"

text \<open>\<open>form\<close> is what the JSON form of a value keeps of it.\<close>

definition write_json :: "write_outcome \<Rightarrow> ('a \<Rightarrow> 'a) \<Rightarrow> 'a \<Rightarrow> 'a file_state \<Rightarrow> error option \<times> 'a file_state" where
  "write_json io form v f =
     (case io of
        WriteOk \<Rightarrow> (None, Doc (form v))
      | FailsBefore op \<Rightarrow> (Some (state_io op), f)
      | FailsAfter \<Rightarrow> (Some (state_io ''secure committed overlay state''), Doc (form v)))"

definition remove_file :: "string \<Rightarrow> bool \<Rightarrow> 'a file_state \<Rightarrow> error option \<times> 'a file_state" where
  "remove_file op fails f =
     (if f = Absent then (None, Absent) else if fails then (Some (state_io op), f) else (None, Absent))"

lemma read_json_Inr: "read_json io f = Inr v \<longleftrightarrow> f = Doc v \<and> io = ReadOk"
  by (cases f; cases io) (auto simp: read_json_def)

lemma read_json_not_found: "errors_is e StateNotFound \<Longrightarrow> read_json io f = Inl e \<Longrightarrow> f = Absent"
  by (cases f) (auto simp: read_json_def state_io_def split: if_splits)

lemma write_json_cases:
  "write_json io form v f = (e, f') \<Longrightarrow> (e = None \<longrightarrow> f' = Doc (form v)) \<and> (f' = f \<or> f' = Doc (form v))"
  by (auto simp: write_json_def split: write_outcome.splits)

section \<open>Documents\<close>

datatype phase = PhaseNone | PhaseStarted | PhaseDeviceRegistered | PhaseConfigFetched
  | PhaseRuntimeApplied | PhaseAcknowledged

record checkpoint =
  cp_schema :: int
  cp_server :: string
  cp_device :: string
  cp_device_name :: string
  cp_platform :: string
  cp_hostname :: string
  cp_network :: string
  cp_node :: string
  cp_private_key :: string
  cp_public_key :: string
  cp_phase :: phase
  cp_config :: "config option"
  cp_contract :: string
  cp_config_id :: string
  cp_generation :: u64
  cp_invite :: bool
  cp_enrollment_expires :: gotime
  cp_last_error :: string
  cp_updated :: gotime

record last_known =
  lk_schema :: int
  lk_server :: string
  lk_device :: string
  lk_network :: string
  lk_node :: string
  lk_private_key :: string
  lk_public_key :: string
  lk_phase :: phase
  lk_config :: config
  lk_contract :: string
  lk_config_id :: string
  lk_generation :: u64
  lk_updated :: gotime

record contract_binding =
  cb_controller :: string
  cb_device :: string
  cb_network :: string
  cb_signed_locked :: bool
  cb_highest :: u64
  cb_config_id :: string
  cb_payload_sha256 :: string
  cb_updated :: gotime

record contract_state =
  cs_schema :: int
  cs_bindings :: "contract_binding list"

record signing_key_cache =
  kc_schema :: int
  kc_controller :: string
  kc_device :: string
  kc_etag :: string
  kc_keys :: signing_keys
  kc_fetched :: gotime

record enrollment_secret =
  en_schema :: int
  en_controller :: string
  en_device_id :: string
  en_network_id :: string
  en_platform :: string
  en_public_key :: string
  en_token :: string
  en_expires :: gotime
  en_scope :: "string list"
  en_device :: device
  en_network :: network
  en_keys :: signing_keys
  en_created :: gotime

record registration_credential =
  rc_id :: string
  rc_credential :: string
  rc_token_type :: string
  rc_issued :: gotime
  rc_expires :: gotime
  rc_scope :: "string list"

record registration_exchange =
  rx_enrollment_token :: string
  rx_token_type :: string
  rx_expires :: gotime
  rx_scope :: "string list"
  rx_credential :: registration_credential
  rx_device :: device
  rx_network :: network
  rx_keys :: signing_keys

record registration_state =
  rs_schema :: int
  rs_controller :: string
  rs_id :: string
  rs_token :: string
  rs_status :: string
  rs_expires :: gotime
  rs_interval :: int
  rs_device :: string
  rs_device_name :: string
  rs_network :: string
  rs_platform :: string
  rs_hostname :: string
  rs_private_key :: string
  rs_public_key :: string
  rs_created :: gotime
  rs_updated :: gotime
  rs_approved :: "registration_exchange option"

record policy_state =
  po_schema :: int
  po_network :: string
  po_generation :: u64
  po_digest :: string
  po_revision :: u64
  po_expires :: gotime
  po_accepted :: gotime

record device_operation =
  do_schema :: int
  do_kind :: string
  do_controller :: string
  do_device :: string
  do_network :: string
  do_nonce :: string
  do_remote_committed :: bool
  do_policy_pending :: bool
  do_updated :: gotime

text \<open>The state directory, without the operation lock.\<close>

record disk =
  dk_checkpoint :: "checkpoint file_state"
  dk_last_known :: "last_known file_state"
  dk_contract :: "contract_state file_state"
  dk_keys :: "signing_key_cache file_state"
  dk_enrollment :: "enrollment_secret file_state"
  dk_registration :: "registration_state file_state"
  dk_policy :: "policy_state file_state"
  dk_device_op :: "device_operation file_state"

definition empty_disk :: disk where
  "empty_disk = \<lparr>dk_checkpoint = Absent, dk_last_known = Absent, dk_contract = Absent, dk_keys = Absent,
     dk_enrollment = Absent, dk_registration = Absent, dk_policy = Absent, dk_device_op = Absent\<rparr>"

section \<open>What JSON keeps\<close>

definition strip_config :: "config \<Rightarrow> config" where
  "strip_config c = c\<lparr>cf_etag := []\<rparr>"

definition strip_keys :: "signing_keys \<Rightarrow> signing_keys" where
  "strip_keys k = k\<lparr>ks_etag := []\<rparr>"

definition checkpoint_form :: "checkpoint \<Rightarrow> checkpoint" where
  "checkpoint_form c = c\<lparr>cp_config := map_option strip_config (cp_config c)\<rparr>"

definition last_known_form :: "last_known \<Rightarrow> last_known" where
  "last_known_form l = l\<lparr>lk_config := strip_config (lk_config l)\<rparr>"

definition registration_form :: "registration_state \<Rightarrow> registration_state" where
  "registration_form r = r\<lparr>rs_approved := map_option (\<lambda>x. x\<lparr>rx_keys := strip_keys (rx_keys x)\<rparr>) (rs_approved r)\<rparr>"

section \<open>Checkpoint and last-known state\<close>

definition load_checkpoint :: "read_outcome \<Rightarrow> disk \<Rightarrow> error + checkpoint" where
  "load_checkpoint io d =
     bindR (read_json io (dk_checkpoint d)) (\<lambda>c.
       if cp_schema c \<noteq> 1 then Inl (state_io ''load join checkpoint'') else Inr c)"

definition save_checkpoint :: "write_outcome \<Rightarrow> checkpoint \<Rightarrow> disk \<Rightarrow> error option \<times> disk" where
  "save_checkpoint io c d =
     (case write_json io checkpoint_form (c\<lparr>cp_schema := 1\<rparr>) (dk_checkpoint d) of
        (e, f) \<Rightarrow> (e, d\<lparr>dk_checkpoint := f\<rparr>))"

definition clear_checkpoint :: "bool \<Rightarrow> disk \<Rightarrow> error option \<times> disk" where
  "clear_checkpoint fails d =
     (case remove_file ''clear join checkpoint'' fails (dk_checkpoint d) of (e, f) \<Rightarrow> (e, d\<lparr>dk_checkpoint := f\<rparr>))"

definition load_last_known :: "read_outcome \<Rightarrow> disk \<Rightarrow> error + last_known" where
  "load_last_known io d =
     bindR (read_json io (dk_last_known d)) (\<lambda>l.
       if lk_schema l \<noteq> 1 then Inl (state_io ''load last-known state'') else Inr l)"

definition save_last_known :: "write_outcome \<Rightarrow> last_known \<Rightarrow> disk \<Rightarrow> error option \<times> disk" where
  "save_last_known io l d =
     (case write_json io last_known_form (l\<lparr>lk_schema := 1\<rparr>) (dk_last_known d) of
        (e, f) \<Rightarrow> (e, d\<lparr>dk_last_known := f\<rparr>))"

section \<open>Registration\<close>

definition valid_registration_token :: "string \<Rightarrow> bool" where
  "valid_registration_token v \<longleftrightarrow>
     (if v \<noteq> trim_space v \<or> \<not> has_prefix v ''xrt_'' then False
      else case rawurl_decode (trim_prefix v ''xrt_'') of None \<Rightarrow> False | Some b \<Rightarrow> length b = 32)"

definition valid_registration_id :: "string \<Rightarrow> bool" where
  "valid_registration_id v \<longleftrightarrow> has_prefix v ''xreg_'' \<and> match_all is_b64url_char 1 123 (trim_prefix v ''xreg_'')"

definition set_utc :: "gotime \<Rightarrow> bool" where
  "set_utc t \<longleftrightarrow> \<not> is_zero t \<and> utc t"

definition validate_registration_state :: "url_parser \<Rightarrow> registration_state \<Rightarrow> error option" where
  "validate_registration_state U r =
     (if rs_schema r \<noteq> 1 \<or>
         (case U (rs_controller r) of
            None \<Rightarrow> True
          | Some p \<Rightarrow> u_scheme p \<noteq> ''https'' \<or> u_host p = [] \<or> u_has_user p \<or> u_raw_query p \<noteq> [] \<or> u_fragment p \<noteq> []) \<or>
         rs_device r = [] \<or> rs_network r = [] \<or> rs_platform r = [] \<or>
         \<not> wg_key_text (rs_private_key r) \<or> \<not> wg_key_text (rs_public_key r) \<or>
         \<not> set_utc (rs_created r) \<or> \<not> set_utc (rs_updated r) \<or> before (rs_updated r) (rs_created r)
      then Some (state_io ''validate registration state'')
      else if rs_status r \<noteq> ''creating'' \<and> rs_status r \<noteq> ''pending'' \<and> rs_status r \<noteq> ''approved''
      then Some (state_io ''validate registration state'')
      else if (if rs_status r = ''creating''
               then rs_id r \<noteq> [] \<or> rs_token r \<noteq> [] \<or> \<not> is_zero (rs_expires r) \<or> rs_interval r \<noteq> 0 \<or> rs_approved r \<noteq> None
               else \<not> valid_registration_id (rs_id r) \<or> \<not> valid_registration_token (rs_token r) \<or>
                    \<not> set_utc (rs_expires r) \<or> rs_interval r < 5 \<or> rs_interval r > 30)
      then Some (state_io ''validate registration state'')
      else if (rs_status r = ''approved'') \<noteq> (rs_approved r \<noteq> None)
      then Some (state_io ''validate registration state'')
      else None)"

definition load_registration :: "url_parser \<Rightarrow> read_outcome \<Rightarrow> disk \<Rightarrow> error + registration_state" where
  "load_registration U io d =
     bindR (read_json io (dk_registration d)) (\<lambda>r. checkR (validate_registration_state U r) (Inr r))"

definition save_registration ::
    "url_parser \<Rightarrow> write_outcome \<Rightarrow> registration_state \<Rightarrow> disk \<Rightarrow> error option \<times> disk" where
  "save_registration U io r0 d =
     (let r = r0\<lparr>rs_schema := 1\<rparr> in
      case validate_registration_state U r of
        Some e \<Rightarrow> (Some e, d)
      | None \<Rightarrow>
          (case write_json io registration_form r (dk_registration d) of (e, f) \<Rightarrow> (e, d\<lparr>dk_registration := f\<rparr>)))"

definition clear_registration :: "bool \<Rightarrow> disk \<Rightarrow> error option \<times> disk" where
  "clear_registration fails d =
     (case remove_file ''clear registration state'' fails (dk_registration d) of
        (e, f) \<Rightarrow> (e, d\<lparr>dk_registration := f\<rparr>))"

section \<open>Enrollment secret and signing keys\<close>

definition valid_enrollment_scope :: "string list \<Rightarrow> bool" where
  "valid_enrollment_scope vs \<longleftrightarrow>
     (length vs = 2 \<or> length vs = 3) \<and>
     scan_unique (\<lambda>v. v) (\<lambda>v. v = ''overlay:config:read'' \<or> v = ''overlay:config:ack'' \<or>
        v = ''overlay:device:revoke'') {} vs \<and>
     ''overlay:config:read'' \<in> set vs \<and> ''overlay:config:ack'' \<in> set vs \<and>
     (length vs = 2 \<or> ''overlay:device:revoke'' \<in> set vs)"

definition validate_enrollment_secret :: "enrollment_secret \<Rightarrow> error option" where
  "validate_enrollment_secret s =
     (if en_schema s \<noteq> 1 \<or> trim_space (en_controller s) = [] \<or> trim_space (en_device_id s) = [] \<or>
         trim_space (en_network_id s) = [] \<or> trim_space (en_platform s) = [] \<or> \<not> has_prefix (en_token s) ''xenr_'' \<or>
         (case rawurl_decode (trim_prefix (en_token s) ''xenr_'') of None \<Rightarrow> True | Some b \<Rightarrow> length b \<noteq> 32) \<or>
         \<not> valid_wireguard_key (en_public_key s) \<or> is_zero (en_created s) \<or> is_zero (en_expires s) \<or>
         \<not> after (en_expires s) (en_created s) \<or> \<not> utc (en_expires s) \<or>
         dv_id (en_device s) \<noteq> en_device_id s \<or> dv_network (en_device s) \<noteq> en_network_id s \<or>
         dv_platform (en_device s) \<noteq> en_platform s \<or> dv_public_key (en_device s) \<noteq> en_public_key s \<or>
         nw_id (en_network s) \<noteq> en_network_id s \<or> \<not> valid_enrollment_scope (en_scope s)
      then Some (state_io ''validate enrollment secret'')
      else case keys_validate (en_keys s) of
          Some e \<Rightarrow> Some (fault_cause CodeStateIO ''validate enrollment signing keys'' e)
        | None \<Rightarrow> None)"

definition load_enrollment_secret ::
    "read_outcome \<Rightarrow> string \<Rightarrow> string \<Rightarrow> string \<Rightarrow> disk \<Rightarrow> error + enrollment_secret" where
  "load_enrollment_secret io controller device key d =
     bindR (read_json io (dk_enrollment d)) (\<lambda>s.
       if en_controller s \<noteq> controller \<or> en_device_id s \<noteq> device \<or> en_public_key s \<noteq> key
       then Inl (fault CodeStateConflict ''load enrollment secret binding'')
       else checkR (validate_enrollment_secret s) (Inr s))"

definition save_enrollment_secret :: "write_outcome \<Rightarrow> enrollment_secret \<Rightarrow> disk \<Rightarrow> error option \<times> disk" where
  "save_enrollment_secret io s0 d =
     (let s = s0\<lparr>en_schema := 1, en_keys := strip_keys (en_keys s0)\<rparr> in
      case validate_enrollment_secret s of
        Some e \<Rightarrow> (Some e, d)
      | None \<Rightarrow>
          (case write_json io (\<lambda>x. x) s (dk_enrollment d) of (e, f) \<Rightarrow> (e, d\<lparr>dk_enrollment := f\<rparr>)))"

definition clear_enrollment_secret :: "bool \<Rightarrow> disk \<Rightarrow> error option \<times> disk" where
  "clear_enrollment_secret fails d =
     (case remove_file ''clear enrollment secret'' fails (dk_enrollment d) of
        (e, f) \<Rightarrow> (e, d\<lparr>dk_enrollment := f\<rparr>))"

definition load_signing_key_cache :: "read_outcome \<Rightarrow> string \<Rightarrow> string \<Rightarrow> disk \<Rightarrow> error + signing_key_cache" where
  "load_signing_key_cache io controller device d =
     bindR (read_json io (dk_keys d)) (\<lambda>c.
       if kc_controller c \<noteq> controller \<or> kc_device c \<noteq> device then Inl (Sentinel StateNotFound)
       else if kc_schema c \<noteq> 1 \<or> trim_space (kc_etag c) = [] then Inl (state_io ''load signing-key cache'')
       else case keys_validate (kc_keys c) of
           Some e \<Rightarrow> Inl (fault_cause CodeStateIO ''validate signing-key cache'' e)
         | None \<Rightarrow> Inr (c\<lparr>kc_keys := (kc_keys c)\<lparr>ks_etag := kc_etag c\<rparr>\<rparr>))"

definition save_signing_key_cache :: "write_outcome \<Rightarrow> signing_key_cache \<Rightarrow> disk \<Rightarrow> error option \<times> disk" where
  "save_signing_key_cache io c d =
     (case write_json io (\<lambda>x. x) (c\<lparr>kc_schema := 1, kc_keys := strip_keys (kc_keys c)\<rparr>) (dk_keys d) of
        (e, f) \<Rightarrow> (e, d\<lparr>dk_keys := f\<rparr>))"

section \<open>The contract floor\<close>

definition load_contract_state :: "read_outcome \<Rightarrow> disk \<Rightarrow> error + contract_state" where
  "load_contract_state io d =
     bindR (read_json io (dk_contract d)) (\<lambda>c.
       if cs_schema c \<noteq> 1 then Inl (state_io ''load config-contract state'') else Inr c)"

definition same_binding :: "string \<Rightarrow> string \<Rightarrow> string \<Rightarrow> contract_binding \<Rightarrow> bool" where
  "same_binding controller device network b \<longleftrightarrow>
     cb_controller b = controller \<and> cb_device b = device \<and> cb_network b = network"

definition is_signed_locked :: "read_outcome \<Rightarrow> string \<Rightarrow> string \<Rightarrow> string \<Rightarrow> disk \<Rightarrow> error + bool" where
  "is_signed_locked io controller device network d =
     (case load_contract_state io d of
        Inl e \<Rightarrow> if errors_is e StateNotFound then Inr False else Inl e
      | Inr c \<Rightarrow>
          Inr (case List.find (same_binding controller device network) (cs_bindings c) of
                 None \<Rightarrow> False | Some b \<Rightarrow> cb_signed_locked b))"

definition valid_floor_args :: "string \<Rightarrow> string \<Rightarrow> string \<Rightarrow> string \<Rightarrow> string \<Rightarrow> u64 \<Rightarrow> bool" where
  "valid_floor_args controller device network config_id payload generation \<longleftrightarrow>
     trim_space controller \<noteq> [] \<and> trim_space device \<noteq> [] \<and> trim_space network \<noteq> [] \<and>
     trim_space config_id \<noteq> [] \<and> generation \<noteq> 0 \<and>
     (case hex_decode payload of None \<Rightarrow> False | Some b \<Rightarrow> length b = 32) \<and> payload = to_lower payload"

text \<open>The loop up to the first binding of this device: the updated list, or a replay.\<close>

datatype floor_result = Replay | Updated "contract_binding list" | Missing

fun raise_floor :: "string \<Rightarrow> string \<Rightarrow> string \<Rightarrow> string \<Rightarrow> string \<Rightarrow> u64 \<Rightarrow> gotime \<Rightarrow>
    contract_binding list \<Rightarrow> floor_result" where
  "raise_floor controller device network config_id payload generation now [] = Missing"
| "raise_floor controller device network config_id payload generation now (b # bs) =
     (if \<not> same_binding controller device network b then
        (case raise_floor controller device network config_id payload generation now bs of
           Updated bs' \<Rightarrow> Updated (b # bs') | r \<Rightarrow> r)
      else if generation < cb_highest b \<or> (generation = cb_highest b \<and> cb_config_id b \<noteq> config_id) then Replay
      else
        (let b1 = (if generation > cb_highest b
                   then b\<lparr>cb_highest := generation, cb_config_id := config_id, cb_payload_sha256 := payload\<rparr>
                   else if cb_payload_sha256 b \<noteq> payload then b\<lparr>cb_payload_sha256 := payload\<rparr> else b)
         in Updated (b1\<lparr>cb_signed_locked := True, cb_updated := to_utc now\<rparr> # bs)))"

definition commit_floor :: "write_outcome \<Rightarrow> string \<Rightarrow> string \<Rightarrow> string \<Rightarrow> string \<Rightarrow> string \<Rightarrow> u64 \<Rightarrow>
    gotime \<Rightarrow> disk \<Rightarrow> contract_state \<Rightarrow> error option \<times> disk" where
  "commit_floor wio controller device network config_id payload generation now d c =
     (let save = (\<lambda>bs. case write_json wio (\<lambda>x. x) (c\<lparr>cs_bindings := bs, cs_schema := 1\<rparr>) (dk_contract d) of
            (e, f) \<Rightarrow> (e, d\<lparr>dk_contract := f\<rparr>))
      in case raise_floor controller device network config_id payload generation now (cs_bindings c) of
           Replay \<Rightarrow> (Some (fault CodeConfigReplay ''accept signed config generation''), d)
         | Updated bs \<Rightarrow> save bs
         | Missing \<Rightarrow> save (cs_bindings c @ [\<lparr>cb_controller = controller, cb_device = device, cb_network = network,
             cb_signed_locked = True, cb_highest = generation, cb_config_id = config_id,
             cb_payload_sha256 = payload, cb_updated = to_utc now\<rparr>]))"

definition accept_signed_config :: "read_outcome \<Rightarrow> write_outcome \<Rightarrow> string \<Rightarrow> string \<Rightarrow> string \<Rightarrow> string \<Rightarrow>
    string \<Rightarrow> u64 \<Rightarrow> gotime \<Rightarrow> disk \<Rightarrow> error option \<times> disk" where
  "accept_signed_config rio wio controller device network config_id payload generation now d =
     (if \<not> valid_floor_args controller device network config_id payload generation
      then (Some (state_io ''validate signed config floor''), d)
      else case load_contract_state rio d of
          Inl e \<Rightarrow>
            if errors_is e StateNotFound
            then commit_floor wio controller device network config_id payload generation now d
                   \<lparr>cs_schema = 1, cs_bindings = []\<rparr>
            else (Some e, d)
        | Inr c \<Rightarrow> commit_floor wio controller device network config_id payload generation now d c)"

definition validate_signed_config_floor ::
    "read_outcome \<Rightarrow> string \<Rightarrow> string \<Rightarrow> string \<Rightarrow> string \<Rightarrow> string \<Rightarrow> u64 \<Rightarrow> disk \<Rightarrow> error option" where
  "validate_signed_config_floor rio controller device network config_id payload generation d =
     (if \<not> valid_floor_args controller device network config_id payload generation
      then Some (state_io ''validate signed config floor'')
      else case load_contract_state rio d of
          Inl e \<Rightarrow> if errors_is e StateNotFound then None else Some e
        | Inr c \<Rightarrow>
            if list_ex (\<lambda>b. same_binding controller device network b \<and>
                 (generation < cb_highest b \<or> (generation = cb_highest b \<and> cb_config_id b \<noteq> config_id)))
                 (cs_bindings c)
            then Some (fault CodeConfigReplay ''validate signed config generation'') else None)"

section \<open>Policy state and the device operation\<close>

definition policy_state_ok :: "policy_state \<Rightarrow> bool" where
  "policy_state_ok p \<longleftrightarrow>
     po_network p \<noteq> [] \<and> po_generation p \<noteq> 0 \<and> po_digest p \<noteq> [] \<and> \<not> is_zero (po_expires p) \<and>
     \<not> is_zero (po_accepted p)"

definition load_policy_state :: "read_outcome \<Rightarrow> disk \<Rightarrow> error + policy_state" where
  "load_policy_state io d =
     bindR (read_json io (dk_policy d)) (\<lambda>p.
       if po_schema p \<noteq> 1 \<or> \<not> policy_state_ok p then Inl (state_io ''validate policy state'') else Inr p)"

definition save_policy_state :: "write_outcome \<Rightarrow> policy_state \<Rightarrow> disk \<Rightarrow> error option \<times> disk" where
  "save_policy_state io p d =
     (if \<not> policy_state_ok p then (Some (state_io ''validate policy state''), d)
      else case write_json io (\<lambda>x. x) (p\<lparr>po_schema := 1\<rparr>) (dk_policy d) of (e, f) \<Rightarrow> (e, d\<lparr>dk_policy := f\<rparr>))"

text \<open>\<open>^[0-9a-f]{8}-[0-9a-f]{4}-4[0-9a-f]{3}-[89ab][0-9a-f]{3}-[0-9a-f]{12}$\<close>\<close>

definition valid_nonce :: "string \<Rightarrow> bool" where
  "valid_nonce s \<longleftrightarrow>
     length s = 36 \<and> s ! 8 = CHR ''-'' \<and> s ! 13 = CHR ''-'' \<and> s ! 18 = CHR ''-'' \<and> s ! 23 = CHR ''-'' \<and>
     s ! 14 = CHR ''4'' \<and> s ! 19 \<in> {CHR ''8'', CHR ''9'', CHR ''a'', CHR ''b''} \<and>
     list_all (\<lambda>i. i \<in> {8, 13, 18, 23} \<or> is_lower_hex (s ! i)) [0..<36]"

definition device_operation_ok :: "device_operation \<Rightarrow> bool" where
  "device_operation_ok o' \<longleftrightarrow>
     do_schema o' = 1 \<and> do_kind o' = ''leave'' \<and> do_controller o' \<noteq> [] \<and> do_device o' \<noteq> [] \<and>
     do_network o' \<noteq> [] \<and> valid_nonce (do_nonce o') \<and> \<not> is_zero (do_updated o')"

definition load_device_operation :: "read_outcome \<Rightarrow> disk \<Rightarrow> error + device_operation" where
  "load_device_operation io d =
     bindR (read_json io (dk_device_op d)) (\<lambda>p.
       if device_operation_ok p then Inr p else Inl (state_io ''validate device operation''))"

definition save_device_operation :: "write_outcome \<Rightarrow> device_operation \<Rightarrow> disk \<Rightarrow> error option \<times> disk" where
  "save_device_operation io p0 d =
     (let p = p0\<lparr>do_schema := 1\<rparr> in
      if \<not> device_operation_ok p then (Some (state_io ''validate device operation''), d)
      else case write_json io (\<lambda>x. x) p (dk_device_op d) of (e, f) \<Rightarrow> (e, d\<lparr>dk_device_op := f\<rparr>))"

section \<open>Clearing the owned state\<close>

text \<open>
  One step of the loop of \<open>ClearOwnedState\<close>: an absent file is skipped, one that is not
  private stops the loop, any other is removed. \<open>fails\<close> says at which of the seven files a
  system call fails. The registration file is not in the list.
\<close>

definition clear_step :: "string \<Rightarrow> bool \<Rightarrow> 'a file_state \<Rightarrow> (error + string list) \<times> 'a file_state" where
  "clear_step name fails f =
     (case f of
        Absent \<Rightarrow> (Inr [], Absent)
      | Exposed \<Rightarrow> (Inl (state_io ''validate owned state cleanup''), f)
      | _ \<Rightarrow> if fails then (Inl (state_io ''remove owned state''), f) else (Inr [name], Absent))"

definition clear_owned_state :: "(nat \<Rightarrow> bool) \<Rightarrow> bool \<Rightarrow> bool \<Rightarrow> disk \<Rightarrow>
    (error + (string list \<times> bool)) \<times> disk" where
  "clear_owned_state fails inspect_fails others d =
     (case clear_step ''join-checkpoint.json'' (fails 0) (dk_checkpoint d) of (r0, f0) \<Rightarrow>
      let d0 = d\<lparr>dk_checkpoint := f0\<rparr> in case r0 of Inl e \<Rightarrow> (Inl e, d0) | Inr n0 \<Rightarrow>
     (case clear_step ''state.json'' (fails 1) (dk_last_known d) of (r1, f1) \<Rightarrow>
      let d1 = d0\<lparr>dk_last_known := f1\<rparr> in case r1 of Inl e \<Rightarrow> (Inl e, d1) | Inr n1 \<Rightarrow>
     (case clear_step ''config-contract.json'' (fails 2) (dk_contract d) of (r2, f2) \<Rightarrow>
      let d2 = d1\<lparr>dk_contract := f2\<rparr> in case r2 of Inl e \<Rightarrow> (Inl e, d2) | Inr n2 \<Rightarrow>
     (case clear_step ''signing-keys.json'' (fails 3) (dk_keys d) of (r3, f3) \<Rightarrow>
      let d3 = d2\<lparr>dk_keys := f3\<rparr> in case r3 of Inl e \<Rightarrow> (Inl e, d3) | Inr n3 \<Rightarrow>
     (case clear_step ''enrollment-secret.json'' (fails 4) (dk_enrollment d) of (r4, f4) \<Rightarrow>
      let d4 = d3\<lparr>dk_enrollment := f4\<rparr> in case r4 of Inl e \<Rightarrow> (Inl e, d4) | Inr n4 \<Rightarrow>
     (case clear_step ''policy-state.json'' (fails 5) (dk_policy d) of (r5, f5) \<Rightarrow>
      let d5 = d4\<lparr>dk_policy := f5\<rparr> in case r5 of Inl e \<Rightarrow> (Inl e, d5) | Inr n5 \<Rightarrow>
     (case clear_step ''device-operation.json'' (fails 6) (dk_device_op d) of (r6, f6) \<Rightarrow>
      let d6 = d5\<lparr>dk_device_op := f6\<rparr> in case r6 of Inl e \<Rightarrow> (Inl e, d6) | Inr n6 \<Rightarrow>
        if inspect_fails then (Inl (state_io ''inspect state cleanup''), d6)
        else (Inr (n0 @ n1 @ n2 @ n3 @ n4 @ n5 @ n6, others \<or> dk_registration d6 \<noteq> Absent), d6))))))))"

section \<open>The documents keep their contract\<close>

lemma save_via_write:
  "(case write_json io form v f of (e, f') \<Rightarrow> (e, upd f')) = (e', d') \<longleftrightarrow>
     (\<exists>f'. write_json io form v f = (e', f') \<and> d' = upd f')"
  by (cases "write_json io form v f") auto

interpretation checkpoint_doc: document "load_checkpoint ReadOk" save_checkpoint "\<lambda>c. checkpoint_form (c\<lparr>cp_schema := 1\<rparr>)"
proof
  fix w c d d' e
  show "save_checkpoint w c d = (None, d') \<Longrightarrow> load_checkpoint ReadOk d' = Inr (checkpoint_form (c\<lparr>cp_schema := 1\<rparr>))"
    by (auto simp: save_checkpoint_def write_json_def load_checkpoint_def read_json_def checkpoint_form_def
        split: write_outcome.splits)
  show "save_checkpoint w c d = (Some e, d') \<Longrightarrow> load_checkpoint ReadOk d' = load_checkpoint ReadOk d \<or>
      load_checkpoint ReadOk d' = Inr (checkpoint_form (c\<lparr>cp_schema := 1\<rparr>))"
    by (auto simp: save_checkpoint_def write_json_def load_checkpoint_def read_json_def checkpoint_form_def
        split: write_outcome.splits)
qed

interpretation last_known_doc: document "load_last_known ReadOk" save_last_known "\<lambda>c. last_known_form (c\<lparr>lk_schema := 1\<rparr>)"
proof
  fix w c d d' e
  show "save_last_known w c d = (None, d') \<Longrightarrow> load_last_known ReadOk d' = Inr (last_known_form (c\<lparr>lk_schema := 1\<rparr>))"
    by (auto simp: save_last_known_def write_json_def load_last_known_def read_json_def last_known_form_def
        split: write_outcome.splits)
  show "save_last_known w c d = (Some e, d') \<Longrightarrow> load_last_known ReadOk d' = load_last_known ReadOk d \<or>
      load_last_known ReadOk d' = Inr (last_known_form (c\<lparr>lk_schema := 1\<rparr>))"
    by (auto simp: save_last_known_def write_json_def load_last_known_def read_json_def last_known_form_def
        split: write_outcome.splits)
qed

lemma validate_registration_form:
  "validate_registration_state U (registration_form r) = validate_registration_state U r"
  unfolding validate_registration_state_def registration_form_def
  by (cases r) (simp add: option.map_disc_iff)

interpretation registration_doc: document "load_registration U ReadOk" "save_registration U"
    "\<lambda>c. registration_form (c\<lparr>rs_schema := 1\<rparr>)" for U
proof
  fix w c d d' e
  show "save_registration U w c d = (None, d') \<Longrightarrow>
      load_registration U ReadOk d' = Inr (registration_form (c\<lparr>rs_schema := 1\<rparr>))"
    by (auto simp: save_registration_def write_json_def load_registration_def read_json_def Let_def
        validate_registration_form split: write_outcome.splits option.splits)
  show "save_registration U w c d = (Some e, d') \<Longrightarrow> load_registration U ReadOk d' = load_registration U ReadOk d \<or>
      load_registration U ReadOk d' = Inr (registration_form (c\<lparr>rs_schema := 1\<rparr>))"
    by (auto simp: save_registration_def write_json_def load_registration_def read_json_def Let_def
        validate_registration_form split: write_outcome.splits option.splits)
qed

interpretation policy_doc: document "load_policy_state ReadOk" save_policy_state "\<lambda>c. c\<lparr>po_schema := 1\<rparr>"
proof
  fix w c d d' e
  show "save_policy_state w c d = (None, d') \<Longrightarrow> load_policy_state ReadOk d' = Inr (c\<lparr>po_schema := 1\<rparr>)"
    by (auto simp: save_policy_state_def write_json_def load_policy_state_def read_json_def policy_state_ok_def
        split: write_outcome.splits if_splits)
  show "save_policy_state w c d = (Some e, d') \<Longrightarrow> load_policy_state ReadOk d' = load_policy_state ReadOk d \<or>
      load_policy_state ReadOk d' = Inr (c\<lparr>po_schema := 1\<rparr>)"
    by (auto simp: save_policy_state_def write_json_def load_policy_state_def read_json_def policy_state_ok_def
        split: write_outcome.splits if_splits)
qed

interpretation device_op_doc: document "load_device_operation ReadOk" save_device_operation "\<lambda>c. c\<lparr>do_schema := 1\<rparr>"
proof
  fix w c d d' e
  show "save_device_operation w c d = (None, d') \<Longrightarrow> load_device_operation ReadOk d' = Inr (c\<lparr>do_schema := 1\<rparr>)"
    by (auto simp: save_device_operation_def write_json_def load_device_operation_def read_json_def Let_def
        split: write_outcome.splits if_splits)
  show "save_device_operation w c d = (Some e, d') \<Longrightarrow> load_device_operation ReadOk d' = load_device_operation ReadOk d \<or>
      load_device_operation ReadOk d' = Inr (c\<lparr>do_schema := 1\<rparr>)"
    by (auto simp: save_device_operation_def write_json_def load_device_operation_def read_json_def Let_def
        split: write_outcome.splits if_splits)
qed

end
