(* ===== verification/Floors.thy ===== *)
theory Floors
  imports State_Store
begin

text \<open>
  The two replay floors of a node: the generation of the signed configuration per
  (controller, device, network), kept by \<open>AcceptSignedConfig\<close> of \<open>overlay/state/store.go\<close>, and the
  generation of the policy artifact, kept by \<open>AcceptPolicyArtifact\<close> of
  \<open>overlay/usecase/policy.go\<close>. Both implement the rising-floor contract.
\<close>

section \<open>Accepting a policy artifact\<close>

definition accept_policy_artifact :: "policy_lib \<Rightarrow> read_outcome \<Rightarrow> write_outcome \<Rightarrow> byte list \<Rightarrow>
    reference \<Rightarrow> gotime \<Rightarrow> gotime \<Rightarrow> disk \<Rightarrow> (error + accepted) \<times> disk" where
  "accept_policy_artifact L rio wio raw ref now0 clock d =
     (let now = (if is_zero now0 then to_utc clock else now0);
          proceed = (\<lambda>fl. case consume L raw ref fl now clock of
             Inl e \<Rightarrow> (Inl e, d)
           | Inr a \<Rightarrow>
               (case save_policy_state wio \<lparr>po_schema = 0, po_network = at_network (ac_artifact a),
                      po_generation = ac_generation a, po_digest = ac_digest a,
                      po_revision = at_revision (ac_artifact a), po_expires = ac_expires a,
                      po_accepted = to_utc now\<rparr> d of
                  (Some e, d') \<Rightarrow> (Inl e, d')
                | (None, d') \<Rightarrow> (Inr a, d')))
      in case load_policy_state rio d of
           Inr c \<Rightarrow> proceed \<lparr>fl_network = po_network c, fl_generation = po_generation c, fl_digest = po_digest c\<rparr>
         | Inl e \<Rightarrow>
             if errors_is e StateNotFound then proceed \<lparr>fl_network = [], fl_generation = 0, fl_digest = []\<rparr>
             else (Inl e, d))"

section \<open>The floor of the signed configuration\<close>

fun highest_in :: "string \<Rightarrow> string \<Rightarrow> string \<Rightarrow> contract_binding list \<Rightarrow> nat" where
  "highest_in c d n [] = 0"
| "highest_in c d n (b # bs) = (if same_binding c d n b then unat (cb_highest b) else highest_in c d n bs)"

definition contract_level :: "disk \<Rightarrow> string \<times> string \<times> string \<Rightarrow> nat" where
  "contract_level d k =
     (case (dk_contract d, k) of (Doc c, (ctl, dev, net)) \<Rightarrow> highest_in ctl dev net (cs_bindings c) | _ \<Rightarrow> 0)"

record floor_offer =
  fo_read :: read_outcome
  fo_write :: write_outcome
  fo_controller :: string
  fo_device :: string
  fo_network :: string
  fo_config_id :: string
  fo_payload :: string
  fo_generation :: u64
  fo_now :: gotime

definition offer_config :: "floor_offer \<Rightarrow> disk \<Rightarrow> error option \<times> disk" where
  "offer_config a d = accept_signed_config (fo_read a) (fo_write a) (fo_controller a) (fo_device a) (fo_network a)
     (fo_config_id a) (fo_payload a) (fo_generation a) (fo_now a) d"

lemma raise_floor_Updated:
  assumes "raise_floor c d n i p g t bs = Updated bs'"
  shows "highest_in c d n bs \<le> unat g \<and> highest_in c d n bs' = unat g \<and>
    (\<forall>c' d' n'. (c', d', n') \<noteq> (c, d, n) \<longrightarrow> highest_in c' d' n' bs' = highest_in c' d' n' bs) \<and>
    map (\<lambda>b. (cb_controller b, cb_device b, cb_network b)) bs' =
      map (\<lambda>b. (cb_controller b, cb_device b, cb_network b)) bs \<and>
    (\<exists>b. List.find (same_binding c d n) bs' = Some b \<and> cb_signed_locked b)"
  using assms
proof (induction bs arbitrary: bs')
  case Nil
  then show ?case by simp
next
  case (Cons b bs)
  show ?case
  proof (cases "same_binding c d n b")
    case False
    with Cons.prems obtain cs where cs: "raise_floor c d n i p g t bs = Updated cs" "bs' = b # cs"
      by (auto split: floor_result.splits)
    with Cons.IH [OF cs(1)] False show ?thesis by auto
  next
    case True
    then have other: "\<not> same_binding c' d' n' b" if "(c', d', n') \<noteq> (c, d, n)" for c' d' n'
      using that by (auto simp: same_binding_def)
    from True Cons.prems show ?thesis
      using other by (auto simp: Let_def same_binding_def word_less_nat_alt word_le_nat_alt not_less split: if_splits)
  qed
qed

lemma raise_floor_Missing:
  "raise_floor c d n i p g t bs = Missing \<Longrightarrow> \<forall>b \<in> set bs. \<not> same_binding c d n b"
  by (induction bs) (auto simp: Let_def split: if_splits floor_result.splits)

lemma highest_in_append:
  "highest_in c d n (bs @ cs) = (if \<exists>b \<in> set bs. same_binding c d n b then highest_in c d n bs else highest_in c d n cs)"
  by (induction bs) auto

lemma highest_in_missing: "\<forall>b \<in> set bs. \<not> same_binding c d n b \<Longrightarrow> highest_in c d n bs = 0"
  by (induction bs) auto

text \<open>The bindings after the floor was raised: the updated ones, or with a new one at the end.\<close>

definition floor_written :: "string \<Rightarrow> string \<Rightarrow> string \<Rightarrow> string \<Rightarrow> string \<Rightarrow> u64 \<Rightarrow> gotime \<Rightarrow>
    contract_binding list \<Rightarrow> contract_binding list \<Rightarrow> bool" where
  "floor_written c d n i p g t bs bs' \<longleftrightarrow>
     raise_floor c d n i p g t bs = Updated bs' \<or>
     raise_floor c d n i p g t bs = Missing \<and>
       bs' = bs @ [\<lparr>cb_controller = c, cb_device = d, cb_network = n, cb_signed_locked = True, cb_highest = g,
         cb_config_id = i, cb_payload_sha256 = p, cb_updated = to_utc t\<rparr>]"

lemma floor_written_levels:
  assumes "floor_written c d n i p g t bs bs'"
  shows "highest_in c d n bs \<le> unat g" "highest_in c d n bs' = unat g"
    "(c', d', n') \<noteq> (c, d, n) \<Longrightarrow> highest_in c' d' n' bs' = highest_in c' d' n' bs"
    "\<exists>b. List.find (same_binding c d n) bs' = Some b \<and> cb_signed_locked b"
proof -
  show "highest_in c d n bs \<le> unat g"
    using assms raise_floor_Updated raise_floor_Missing [THEN highest_in_missing]
    by (metis floor_written_def le0)
  show "highest_in c d n bs' = unat g"
    using assms raise_floor_Updated [of c d n i p g t bs bs'] raise_floor_Missing [of c d n i p g t bs]
    by (auto simp: floor_written_def highest_in_append same_binding_def)
  show "(c', d', n') \<noteq> (c, d, n) \<Longrightarrow> highest_in c' d' n' bs' = highest_in c' d' n' bs"
    using assms raise_floor_Updated [of c d n i p g t bs bs'] highest_in_missing [of bs c' d' n']
    by (auto simp: floor_written_def highest_in_append same_binding_def)
  show "\<exists>b. List.find (same_binding c d n) bs' = Some b \<and> cb_signed_locked b"
  proof (cases "raise_floor c d n i p g t bs = Updated bs'")
    case True
    then show ?thesis using raise_floor_Updated by blast
  next
    case False
    with assms have m: "raise_floor c d n i p g t bs = Missing"
      and bs': "bs' = bs @ [\<lparr>cb_controller = c, cb_device = d, cb_network = n, cb_signed_locked = True, cb_highest = g,
         cb_config_id = i, cb_payload_sha256 = p, cb_updated = to_utc t\<rparr>]"
      by (auto simp: floor_written_def)
    have "List.find P (xs @ [y]) = Some y" if "\<forall>x \<in> set xs. \<not> P x" "P y" for P and xs :: "'x list" and y
      using that by (induction xs) auto
    from this [of bs "same_binding c d n"] raise_floor_Missing [OF m] show ?thesis
      by (auto simp: bs' same_binding_def)
  qed
qed

definition bindings_of :: "contract_state file_state \<Rightarrow> contract_binding list" where
  "bindings_of f = (case f of Doc c \<Rightarrow> cs_bindings c | _ \<Rightarrow> [])"

lemma contract_level_bindings: "contract_level d (c, v, n) = highest_in c v n (bindings_of (dk_contract d))"
  by (simp add: contract_level_def bindings_of_def split: file_state.split)

lemma load_contract_state_Inr: "load_contract_state io d = Inr c \<longleftrightarrow> dk_contract d = Doc c \<and> io = ReadOk \<and> cs_schema c = 1"
  by (auto simp: load_contract_state_def read_json_Inr)

lemma load_contract_state_absent:
  "load_contract_state io d = Inl e \<Longrightarrow> errors_is e StateNotFound \<Longrightarrow> dk_contract d = Absent"
  by (cases "dk_contract d"; cases io)
    (auto simp: load_contract_state_def read_json_def state_io_def split: if_splits)

text \<open>
  Whatever the outcome: the document is unchanged, or it was replaced by one whose bindings
  have the floor raised; and only in the second case can the offer have been accepted.
\<close>

lemma commit_floor_cases:
  assumes "commit_floor wio c v n i p g t d st = (e, d')" and "cs_bindings st = bindings_of (dk_contract d)"
  shows "(e \<noteq> None \<and> d' = d) \<or> (\<exists>st'. d' = d\<lparr>dk_contract := Doc st'\<rparr> \<and> cs_schema st' = 1 \<and>
      floor_written c v n i p g t (bindings_of (dk_contract d)) (cs_bindings st'))"
proof (cases "raise_floor c v n i p g t (cs_bindings st)")
  case Replay
  with assms show ?thesis by (auto simp: commit_floor_def)
next
  case (Updated bs)
  with assms show ?thesis
    by (cases wio) (auto simp: commit_floor_def write_json_def floor_written_def Let_def)
next
  case Missing
  with assms show ?thesis
    by (cases wio) (auto simp: commit_floor_def write_json_def floor_written_def Let_def)
qed

lemma accept_signed_config_cases:
  assumes "accept_signed_config rio wio c v n i p g t d = (e, d')"
  shows "(e \<noteq> None \<and> d' = d) \<or>
    (\<exists>st. d' = d\<lparr>dk_contract := Doc st\<rparr> \<and> cs_schema st = 1 \<and>
       floor_written c v n i p g t (bindings_of (dk_contract d)) (cs_bindings st))"
proof (cases "valid_floor_args c v n i p g")
  case False
  with assms show ?thesis by (auto simp: accept_signed_config_def)
next
  case args: True
  show ?thesis
  proof (cases "load_contract_state rio d")
    case (Inr st)
    then have "cs_bindings st = bindings_of (dk_contract d)" by (simp add: load_contract_state_Inr bindings_of_def)
    with commit_floor_cases assms args Inr show ?thesis by (simp add: accept_signed_config_def)
  next
    case (Inl x)
    show ?thesis
    proof (cases "errors_is x StateNotFound")
      case False
      with assms args Inl show ?thesis by (auto simp: accept_signed_config_def)
    next
      case True
      then have "cs_bindings \<lparr>cs_schema = 1, cs_bindings = []\<rparr> = bindings_of (dk_contract d)"
        using load_contract_state_absent [OF Inl] by (simp add: bindings_of_def)
      from commit_floor_cases [OF _ this] assms args Inl True show ?thesis by (simp add: accept_signed_config_def)
    qed
  qed
qed

interpretation config_floor: rising_floor contract_level offer_config
    "\<lambda>a. (fo_controller a, fo_device a, fo_network a)" "\<lambda>a. unat (fo_generation a)"
proof
  fix a d e d' and k :: "string \<times> string \<times> string"
  assume step: "offer_config a d = (e, d')"
  obtain c v n where k: "k = (c, v, n)" by (metis prod.exhaust)
  from accept_signed_config_cases [OF step [unfolded offer_config_def]]
  show "contract_level d k \<le> contract_level d' k"
  proof
    assume "e \<noteq> None \<and> d' = d"
    then show ?thesis by simp
  next
    assume "\<exists>st. d' = d\<lparr>dk_contract := Doc st\<rparr> \<and> cs_schema st = 1 \<and>
       floor_written (fo_controller a) (fo_device a) (fo_network a) (fo_config_id a) (fo_payload a)
         (fo_generation a) (fo_now a) (bindings_of (dk_contract d)) (cs_bindings st)"
    then obtain st where d': "d' = d\<lparr>dk_contract := Doc st\<rparr>" and w: "floor_written (fo_controller a) (fo_device a)
        (fo_network a) (fo_config_id a) (fo_payload a) (fo_generation a) (fo_now a) (bindings_of (dk_contract d)) (cs_bindings st)"
      by blast
    have "bindings_of (dk_contract d') = cs_bindings st" by (simp add: d' bindings_of_def)
    with floor_written_levels(1,2) [OF w] floor_written_levels(3) [OF w, of c v n] show ?thesis
      by (cases "(c, v, n) = (fo_controller a, fo_device a, fo_network a)") (auto simp: k contract_level_bindings)
  qed
next
  fix a d d'
  assume step: "offer_config a d = (None, d')"
  from accept_signed_config_cases [OF step [unfolded offer_config_def]] obtain st
    where d': "d' = d\<lparr>dk_contract := Doc st\<rparr>" and w: "floor_written (fo_controller a) (fo_device a) (fo_network a)
        (fo_config_id a) (fo_payload a) (fo_generation a) (fo_now a) (bindings_of (dk_contract d)) (cs_bindings st)"
    by blast
  have "bindings_of (dk_contract d') = cs_bindings st" by (simp add: d' bindings_of_def)
  with floor_written_levels(1,2) [OF w]
  show "contract_level d (fo_controller a, fo_device a, fo_network a) \<le> unat (fo_generation a) \<and>
      contract_level d' (fo_controller a, fo_device a, fo_network a) = unat (fo_generation a)"
    by (simp add: contract_level_bindings)
qed

text \<open>
  The preflight check agrees with the acceptance: with one binding per device, a
  configuration passes \<open>ValidateSignedConfigFloor\<close> exactly when \<open>AcceptSignedConfig\<close>, its disk
  permitting, accepts it.
\<close>

definition one_binding_each :: "contract_binding list \<Rightarrow> bool" where
  "one_binding_each bs \<longleftrightarrow> distinct (map (\<lambda>b. (cb_controller b, cb_device b, cb_network b)) bs)"

lemma raise_floor_Replay:
  "one_binding_each bs \<Longrightarrow> raise_floor c d n i p g t bs = Replay \<longleftrightarrow>
     (\<exists>b \<in> set bs. same_binding c d n b \<and> (g < cb_highest b \<or> (g = cb_highest b \<and> cb_config_id b \<noteq> i)))"
proof (induction bs)
  case Nil
  then show ?case by simp
next
  case (Cons b bs)
  then have IH: "raise_floor c d n i p g t bs = Replay \<longleftrightarrow>
      (\<exists>b \<in> set bs. same_binding c d n b \<and> (g < cb_highest b \<or> (g = cb_highest b \<and> cb_config_id b \<noteq> i)))"
    by (simp add: one_binding_each_def)
  show ?case
  proof (cases "same_binding c d n b")
    case False
    with IH show ?thesis by (auto split: floor_result.splits)
  next
    case True
    with Cons.prems have "\<forall>x \<in> set bs. \<not> same_binding c d n x"
      by (auto simp: one_binding_each_def same_binding_def image_iff)
    with True show ?thesis by (auto simp: Let_def)
  qed
qed

lemma commit_floor_accepted:
  "(fst (commit_floor WriteOk c v n i p g t d st) = None) = (raise_floor c v n i p g t (cs_bindings st) \<noteq> Replay)"
  by (simp add: commit_floor_def write_json_def split: floor_result.split)

lemma preflight_agrees:
  assumes "one_binding_each (bindings_of (dk_contract d))"
  shows "validate_signed_config_floor rio c v n i p g d = None \<longleftrightarrow>
    fst (accept_signed_config rio WriteOk c v n i p g t d) = None"
proof (cases "load_contract_state rio d")
  case (Inl e)
  then show ?thesis
    by (simp add: validate_signed_config_floor_def accept_signed_config_def commit_floor_accepted)
next
  case (Inr st)
  then have b: "one_binding_each (cs_bindings st)" using assms by (simp add: load_contract_state_Inr bindings_of_def)
  show ?thesis
    unfolding validate_signed_config_floor_def accept_signed_config_def Inr
    by (simp add: commit_floor_accepted raise_floor_Replay [OF b] list_ex_iff)
qed

lemma floor_written_one_each:
  assumes "floor_written c v n i p g t bs bs'" and "one_binding_each bs"
  shows "one_binding_each bs'"
proof -
  have "map (\<lambda>b. (cb_controller b, cb_device b, cb_network b)) bs' =
      map (\<lambda>b. (cb_controller b, cb_device b, cb_network b)) bs"
    if "raise_floor c v n i p g t bs = Updated bs'"
    using raise_floor_Updated [OF that] by blast
  moreover have "(c, v, n) \<notin> (\<lambda>b. (cb_controller b, cb_device b, cb_network b)) ` set bs"
    if "raise_floor c v n i p g t bs = Missing"
    using raise_floor_Missing [OF that] by (auto simp: same_binding_def)
  ultimately show ?thesis using assms by (auto simp: floor_written_def one_binding_each_def)
qed

section \<open>The floor of the policy\<close>

definition policy_level :: "disk \<Rightarrow> unit \<Rightarrow> nat" where
  "policy_level d k = (case dk_policy d of Doc p \<Rightarrow> unat (po_generation p) | _ \<Rightarrow> 0)"

record policy_offer =
  pf_read :: read_outcome
  pf_write :: write_outcome
  pf_lib :: policy_lib
  pf_raw :: "byte list"
  pf_reference :: reference
  pf_now :: gotime
  pf_clock :: gotime

definition offer_policy :: "policy_offer \<Rightarrow> disk \<Rightarrow> error option \<times> disk" where
  "offer_policy a d =
     (case accept_policy_artifact (pf_lib a) (pf_read a) (pf_write a) (pf_raw a) (pf_reference a) (pf_now a)
         (pf_clock a) d of
        (Inl e, d') \<Rightarrow> (Some e, d') | (Inr x, d') \<Rightarrow> (None, d'))"

lemma save_policy_state_cases:
  "save_policy_state io p d = (e, d') \<Longrightarrow>
     (e \<noteq> None \<and> d' = d) \<or> (d' = d\<lparr>dk_policy := Doc (p\<lparr>po_schema := 1\<rparr>)\<rparr> \<and> policy_state_ok p)"
  by (auto simp: save_policy_state_def write_json_def split: if_splits write_outcome.splits)

lemma load_policy_state_Inr:
  "load_policy_state io d = Inr p \<longleftrightarrow> dk_policy d = Doc p \<and> io = ReadOk \<and> po_schema p = 1 \<and> policy_state_ok p"
  by (auto simp: load_policy_state_def read_json_Inr)

lemma load_policy_state_absent:
  "load_policy_state io d = Inl e \<Longrightarrow> errors_is e StateNotFound \<Longrightarrow> dk_policy d = Absent"
  by (cases "dk_policy d"; cases io) (auto simp: load_policy_state_def read_json_def state_io_def split: if_splits)

text \<open>The floor \<open>Consume\<close> is called with.\<close>

definition stored_floor :: "disk \<Rightarrow> floor" where
  "stored_floor d = (case dk_policy d of
     Doc c \<Rightarrow> \<lparr>fl_network = po_network c, fl_generation = po_generation c, fl_digest = po_digest c\<rparr>
   | _ \<Rightarrow> \<lparr>fl_network = [], fl_generation = 0, fl_digest = []\<rparr>)"

definition policy_of :: "accepted \<Rightarrow> gotime \<Rightarrow> policy_state" where
  "policy_of a now = \<lparr>po_schema = 0, po_network = at_network (ac_artifact a), po_generation = ac_generation a,
     po_digest = ac_digest a, po_revision = at_revision (ac_artifact a), po_expires = ac_expires a,
     po_accepted = to_utc now\<rparr>"

lemma accept_policy_cases:
  assumes "accept_policy_artifact L rio wio raw r now0 clock d = (res, d')"
  shows "(\<exists>e. res = Inl e) \<and> d' = d \<or>
    (\<exists>a now. consume L raw r (stored_floor d) now clock = Inr a \<and> (res = Inr a \<or> (\<exists>e. res = Inl e)) \<and>
       save_policy_state wio (policy_of a now) d = ((case res of Inl e \<Rightarrow> Some e | Inr x \<Rightarrow> None), d'))"
proof -
  define now where "now = (if is_zero now0 then to_utc clock else now0)"
  define fl where "fl = stored_floor d"
  have main: ?thesis if run: "(case consume L raw r fl now clock of Inl e \<Rightarrow> (Inl e, d)
       | Inr a \<Rightarrow> (case save_policy_state wio (policy_of a now) d of
                  (Some e, d') \<Rightarrow> (Inl e, d') | (None, d') \<Rightarrow> (Inr a, d'))) = (res, d')"
  proof (cases "consume L raw r fl now clock")
    case (Inl e)
    with run have "res = Inl e" "d' = d" unfolding Inl by simp_all
    then show ?thesis by blast
  next
    case (Inr a)
    obtain e0 d0 where s: "save_policy_state wio (policy_of a now) d = (e0, d0)" by (metis prod.exhaust)
    with run have "d' = d0" and r: "res = (case e0 of None \<Rightarrow> Inr a | Some e \<Rightarrow> Inl e)"
      unfolding Inr by (simp_all split: option.splits)
    then have "save_policy_state wio (policy_of a now) d = ((case res of Inl e \<Rightarrow> Some e | Inr x \<Rightarrow> None), d')"
      using s by (simp split: option.split)
    moreover have "res = Inr a \<or> (\<exists>e. res = Inl e)" by (simp add: r split: option.split)
    ultimately show ?thesis using Inr unfolding fl_def by blast
  qed
  show ?thesis
  proof (cases "load_policy_state rio d")
    case (Inl e)
    show ?thesis
    proof (cases "errors_is e StateNotFound")
      case True
      then have "dk_policy d = Absent" by (rule load_policy_state_absent [OF Inl])
      then have "fl = \<lparr>fl_network = [], fl_generation = 0, fl_digest = []\<rparr>" by (simp add: fl_def stored_floor_def)
      with assms True Inl show ?thesis unfolding accept_policy_artifact_def Let_def
        by (intro main) (unfold policy_of_def now_def, simp)
    next
      case False
      with assms Inl show ?thesis by (auto simp: accept_policy_artifact_def Let_def)
    qed
  next
    case (Inr c)
    then have "fl = \<lparr>fl_network = po_network c, fl_generation = po_generation c, fl_digest = po_digest c\<rparr>"
      by (simp add: load_policy_state_Inr fl_def stored_floor_def)
    with assms Inr show ?thesis unfolding accept_policy_artifact_def Let_def
      by (intro main) (unfold policy_of_def now_def, simp)
  qed
qed

lemma policy_level_stored: "policy_level d k = unat (fl_generation (stored_floor d))"
  by (simp add: policy_level_def stored_floor_def split: file_state.split)

lemma consume_floor:
  "consume L raw r fl now clock = Inr a \<Longrightarrow> ac_generation a = vr_generation r \<and> unat (fl_generation fl) \<le> unat (vr_generation r)"
  by (auto simp: consume_Inr Let_def word_le_nat_alt dest: arg_cong [where f = ac_generation])

interpretation policy_floor: rising_floor policy_level offer_policy "\<lambda>a. ()" "\<lambda>a. unat (vr_generation (pf_reference a))"
proof
  fix a d e d' and k :: unit
  assume step: "offer_policy a d = (e, d')"
  then obtain res where "accept_policy_artifact (pf_lib a) (pf_read a) (pf_write a) (pf_raw a) (pf_reference a)
      (pf_now a) (pf_clock a) d = (res, d')"
    by (auto simp: offer_policy_def split: prod.splits sum.splits)
  from accept_policy_cases [OF this] show "policy_level d k \<le> policy_level d' k"
    by (auto dest!: save_policy_state_cases consume_floor simp: policy_level_stored [of d])
      (auto simp: policy_level_def policy_of_def)
next
  fix a d d'
  assume step: "offer_policy a d = (None, d')"
  then obtain x where "accept_policy_artifact (pf_lib a) (pf_read a) (pf_write a) (pf_raw a) (pf_reference a)
      (pf_now a) (pf_clock a) d = (Inr x, d')"
    by (auto simp: offer_policy_def split: prod.splits sum.splits)
  from accept_policy_cases [OF this] show "policy_level d () \<le> unat (vr_generation (pf_reference a)) \<and>
      policy_level d' () = unat (vr_generation (pf_reference a))"
    by (auto dest!: save_policy_state_cases consume_floor simp: policy_level_stored [of d])
      (auto simp: policy_level_def policy_of_def)
qed

section \<open>Properties\<close>

text \<open>
  Whatever sequence of configurations is offered to the state store, with whatever
  outcome of the file operations, the generations accepted for one controller, device and
  network never go down, none is below the stored floor, and the floor itself never falls.
\<close>

theorem config_generations_rise:
  "sorted (taken offer_config (\<lambda>a. (fo_controller a, fo_device a, fo_network a)) (\<lambda>a. unat (fo_generation a)) k d as) \<and>
   set (taken offer_config (\<lambda>a. (fo_controller a, fo_device a, fo_network a)) (\<lambda>a. unat (fo_generation a)) k d as)
     \<subseteq> {contract_level d k..} \<and>
   contract_level d k \<le> contract_level (fold (\<lambda>a d. snd (offer_config a d)) as d) k"
  using config_floor.taken_bounds [of k d as] config_floor.level_rises [of d k as] by blast

text \<open>
  \<open>AcceptSignedConfig\<close>: only the contract document can change; a failed call leaves it or
  writes the raised floor, and after a successful one the device is locked to signed
  configurations and its floor is the accepted generation.
\<close>

theorem accept_signed_config_contract:
  assumes "accept_signed_config rio wio c v n i p g t d = (e, d')"
  shows "d' = d\<lparr>dk_contract := dk_contract d'\<rparr> \<and>
    (e = None \<or> d' \<noteq> d \<longrightarrow> is_signed_locked ReadOk c v n d' = Inr True \<and> contract_level d' (c, v, n) = unat g)"
proof -
  have written: "is_signed_locked ReadOk c v n d' = Inr True \<and> contract_level d' (c, v, n) = unat g"
    if "d' = d\<lparr>dk_contract := Doc st\<rparr>" "cs_schema st = 1"
      and w: "floor_written c v n i p g t (bindings_of (dk_contract d)) (cs_bindings st)" for st
  proof -
    from that have "load_contract_state ReadOk d' = Inr st" "bindings_of (dk_contract d') = cs_bindings st"
      by (simp_all add: load_contract_state_Inr bindings_of_def)
    with floor_written_levels(2,4) [OF w] show ?thesis
      by (auto simp: is_signed_locked_def contract_level_bindings)
  qed
  from accept_signed_config_cases [OF assms] show ?thesis
  proof
    assume "e \<noteq> None \<and> d' = d"
    then show ?thesis by auto
  next
    assume "\<exists>st. d' = d\<lparr>dk_contract := Doc st\<rparr> \<and> cs_schema st = 1 \<and>
       floor_written c v n i p g t (bindings_of (dk_contract d)) (cs_bindings st)"
    then obtain st where d': "d' = d\<lparr>dk_contract := Doc st\<rparr>" "cs_schema st = 1"
      "floor_written c v n i p g t (bindings_of (dk_contract d)) (cs_bindings st)" by blast
    from written [OF this] d'(1) show ?thesis by simp
  qed
qed

text \<open>
  The preflight check \<open>ValidateSignedConfigFloor\<close> agrees with \<open>AcceptSignedConfig\<close>: with at
  most one binding per device in the document, it passes exactly the configurations that a
  write that does not fail accepts.
\<close>

theorem preflight_iff_accept:
  assumes "distinct (map (\<lambda>b. (cb_controller b, cb_device b, cb_network b)) (bindings_of (dk_contract d)))"
  shows "validate_signed_config_floor rio c v n i p g d = None \<longleftrightarrow>
    fst (accept_signed_config rio WriteOk c v n i p g t d) = None"
  by (rule preflight_agrees) (use assms in \<open>simp add: one_binding_each_def\<close>)

text \<open>
  Whatever sequence of policy artifacts is offered, the generations accepted never go
  down, none is below the stored floor, and the floor never falls.
\<close>

theorem policy_generations_rise:
  "sorted (taken offer_policy (\<lambda>a. ()) (\<lambda>a. unat (vr_generation (pf_reference a))) k d as) \<and>
   set (taken offer_policy (\<lambda>a. ()) (\<lambda>a. unat (vr_generation (pf_reference a))) k d as) \<subseteq> {policy_level d k..} \<and>
   policy_level d k \<le> policy_level (fold (\<lambda>a d. snd (offer_policy a d)) as d) k"
  using policy_floor.taken_bounds [of k d as] policy_floor.level_rises [of d k as] by blast

text \<open>
  \<open>AcceptPolicyArtifact\<close> accepts only what \<open>Consume\<close> accepts against the stored floor, and
  what it accepted is in the stored policy state; no other document changes.
\<close>

theorem accept_policy_sound:
  assumes "accept_policy_artifact L rio wio raw r now0 clock d = (Inr a, d')"
  shows "(\<exists>now. consume L raw r (stored_floor d) now clock = Inr a) \<and>
    (\<exists>p. dk_policy d' = Doc p \<and> po_network p = at_network (ac_artifact a) \<and> po_generation p = ac_generation a \<and>
       po_digest p = ac_digest a \<and> po_expires p = ac_expires a) \<and> d' = d\<lparr>dk_policy := dk_policy d'\<rparr>"
proof -
  from accept_policy_cases [OF assms] obtain now where c: "consume L raw r (stored_floor d) now clock = Inr a"
    and s: "save_policy_state wio (policy_of a now) d = (None, d')"
    by auto
  from save_policy_state_cases [OF s] have "d' = d\<lparr>dk_policy := Doc ((policy_of a now)\<lparr>po_schema := 1\<rparr>)\<rparr>" by simp
  with c show ?thesis by (auto simp: policy_of_def)
qed

section \<open>Witnesses\<close>

lemma to_lower_lower_hex: "list_all is_lower_hex s \<Longrightarrow> to_lower s = s"
  by (induction s) (auto simp: is_lower_hex_def is_digit_def is_upper_def)

definition sample_payload :: string where
  "sample_payload = hex_encode (replicate 32 7)"

lemma sample_floor_args: "valid_floor_args ''ctl'' ''dev'' ''net'' ''cfg'' sample_payload 3"
proof -
  have "to_lower sample_payload = sample_payload" "hex_decode sample_payload = Some (replicate 32 7)"
    unfolding sample_payload_def by (rule to_lower_lower_hex [OF hex_encode_lower]) (rule hex_decode_encode)
  then show ?thesis by (simp add: valid_floor_args_def trim_space_graphic_nonempty graphic_def code_def)
qed

definition sample_floor_disk :: disk where
  "sample_floor_disk = empty_disk\<lparr>dk_contract := Doc \<lparr>cs_schema = 1, cs_bindings =
     [\<lparr>cb_controller = ''ctl'', cb_device = ''dev'', cb_network = ''net'', cb_signed_locked = True, cb_highest = 2,
       cb_config_id = ''old'', cb_payload_sha256 = sample_payload, cb_updated = zero_time\<rparr>]\<rparr>\<rparr>"

lemma sample_floor_accepted:
  "\<exists>d'. accept_signed_config ReadOk WriteOk ''ctl'' ''dev'' ''net'' ''cfg'' sample_payload 3 zero_time sample_floor_disk
     = (None, d')"
  by (simp add: accept_signed_config_def sample_floor_args)
    (simp add: load_contract_state_def read_json_def sample_floor_disk_def commit_floor_def same_binding_def
      write_json_def Let_def)

lemma accept_signed_config_contract_witness:
  "\<exists>d'. accept_signed_config ReadOk WriteOk ''ctl'' ''dev'' ''net'' ''cfg'' sample_payload 3 zero_time sample_floor_disk
      = (None, d') \<and> contract_level d' (''ctl'', ''dev'', ''net'') = 3"
proof -
  obtain d' where s: "accept_signed_config ReadOk WriteOk ''ctl'' ''dev'' ''net'' ''cfg'' sample_payload 3 zero_time
      sample_floor_disk = (None, d')"
    using sample_floor_accepted by blast
  from accept_signed_config_contract [OF this] have "contract_level d' (''ctl'', ''dev'', ''net'') = 3" by simp
  with s show ?thesis by blast
qed

lemma preflight_iff_accept_witness:
  "validate_signed_config_floor ReadOk ''ctl'' ''dev'' ''net'' ''cfg'' sample_payload 3 sample_floor_disk = None"
proof -
  have "distinct (map (\<lambda>b. (cb_controller b, cb_device b, cb_network b)) (bindings_of (dk_contract sample_floor_disk)))"
    by (simp add: bindings_of_def sample_floor_disk_def)
  from preflight_iff_accept [OF this] sample_floor_accepted show ?thesis by (metis fst_conv)
qed

lemma config_generations_rise_witness:
  "contract_level sample_floor_disk (''ctl'', ''dev'', ''net'') \<le> contract_level (snd (offer_config
     \<lparr>fo_read = ReadOk, fo_write = FailsAfter, fo_controller = ''ctl'', fo_device = ''dev'', fo_network = ''net'',
      fo_config_id = ''cfg'', fo_payload = sample_payload, fo_generation = 3, fo_now = zero_time\<rparr> sample_floor_disk))
     (''ctl'', ''dev'', ''net'')"
proof -
  define a where "a = \<lparr>fo_read = ReadOk, fo_write = FailsAfter, fo_controller = ''ctl'', fo_device = ''dev'',
      fo_network = ''net'', fo_config_id = ''cfg'', fo_payload = sample_payload, fo_generation = 3, fo_now = zero_time\<rparr>"
  from config_generations_rise [of "(''ctl'', ''dev'', ''net'')" sample_floor_disk "[a]"] show ?thesis
    unfolding a_def [symmetric] by simp
qed

lemma accept_policy_sound_witness:
  "\<exists>d' p. accept_policy_artifact sample_policy_lib ReadOk WriteOk (bytes_of ''net'') sample_reference
     \<lparr>nanos = 20 * second, utc = True\<rparr> zero_time empty_disk = (Inr sample_accepted, d') \<and>
     dk_policy d' = Doc p \<and> po_generation p = 4"
proof -
  have ok: "policy_state_ok \<lparr>po_schema = 0, po_network = at_network (ac_artifact sample_accepted),
      po_generation = ac_generation sample_accepted, po_digest = ac_digest sample_accepted,
      po_revision = at_revision (ac_artifact sample_accepted), po_expires = ac_expires sample_accepted,
      po_accepted = \<lparr>nanos = 20 * second, utc = True\<rparr>\<rparr>"
  proof -
    have "ac_digest sample_accepted \<noteq> []"
      by (simp add: sample_accepted_def sample_reference_def sample_policy_lib_def bytes_of_def)
    then show ?thesis
      by (simp add: policy_state_ok_def)
        (simp add: sample_accepted_def sample_artifact_def sample_reference_def is_zero_def zero_time_def durations)
  qed
  have "\<exists>d'. accept_policy_artifact sample_policy_lib ReadOk WriteOk (bytes_of ''net'') sample_reference
     \<lparr>nanos = 20 * second, utc = True\<rparr> zero_time empty_disk = (Inr sample_accepted, d')"
    by (simp add: accept_policy_artifact_def load_policy_state_def read_json_def empty_disk_def is_zero_def
        zero_time_def durations sample_consumed [unfolded durations, simplified])
      (simp add: save_policy_state_def ok [unfolded durations, simplified] write_json_def to_utc_def)
  then obtain d' where s: "accept_policy_artifact sample_policy_lib ReadOk WriteOk (bytes_of ''net'') sample_reference
     \<lparr>nanos = 20 * second, utc = True\<rparr> zero_time empty_disk = (Inr sample_accepted, d')" by blast
  from accept_policy_sound [OF this] have "\<exists>p. dk_policy d' = Doc p \<and> po_generation p = 4"
    by (auto simp: sample_accepted_def)
  with s show ?thesis by blast
qed

end
