(* ===== verification/Steps.thy ===== *)
theory Steps
  imports Fault
begin

text \<open>
  Operations on a state with the code's early returns: a step is a function of the state that
  ends with an error or a value. Composition, success of composed steps, the relations that
  every exit keeps, and weakest preconditions, for any type of state.
\<close>

named_theorems wp_simps \<open>the precondition of a composed step\<close>

section \<open>Steps and their composition\<close>

type_synonym ('w, 'a) step = "'w \<Rightarrow> (error + 'a) \<times> 'w"

definition ret :: "'a \<Rightarrow> ('w, 'a) step" where
  "ret a w = (Inr a, w)"

definition raise :: "error \<Rightarrow> ('w, 'a) step" where
  "raise e w = (Inl e, w)"

definition bindW :: "('w, 'a) step \<Rightarrow> ('a \<Rightarrow> ('w, 'b) step) \<Rightarrow> ('w, 'b) step" where
  "bindW m f w = (case m w of (Inl e, w') \<Rightarrow> (Inl e, w') | (Inr a, w') \<Rightarrow> f a w')"

text \<open>The result of a step as a value, for the code that looks at the error.\<close>

definition tryW :: "('w, 'a) step \<Rightarrow> ('w, error + 'a) step" where
  "tryW m w = (case m w of (r, w') \<Rightarrow> (Inr r, w'))"

definition ifW :: "bool \<Rightarrow> error \<Rightarrow> ('w, 'a) step \<Rightarrow> ('w, 'a) step" where
  "ifW b e m = (if b then raise e else m)"

definition of_result :: "error + 'a \<Rightarrow> ('w, 'a) step" where
  "of_result r w = (r, w)"

definition of_option :: "error option \<Rightarrow> error + unit" where
  "of_option e = (case e of None \<Rightarrow> Inr () | Some e \<Rightarrow> Inl e)"

section \<open>Success of a step\<close>

lemma ret_simps [simp]: "ret a w = (Inr a, w)"
  by (simp add: ret_def)

lemma raise_simps [simp]: "raise e w = (Inl e, w)"
  by (simp add: raise_def)

lemma of_result_simps [simp]: "of_result r w = (r, w)"
  by (simp add: of_result_def)

lemma of_option_Inr [simp]: "of_option e = Inr u \<longleftrightarrow> e = None"
  by (simp add: of_option_def split: option.split)

lemma of_option_Inl [simp]: "of_option e = Inl x \<longleftrightarrow> e = Some x"
  by (simp add: of_option_def split: option.split)

lemma bindW_Inr [guard_simps]:
  "bindW m f w = (Inr b, w') \<longleftrightarrow> (\<exists>a v. m w = (Inr a, v) \<and> f a v = (Inr b, w'))"
  by (auto simp: bindW_def split: prod.splits sum.splits)

lemma ifW_Inr [guard_simps]: "ifW b e m w = (Inr a, w') \<longleftrightarrow> \<not> b \<and> m w = (Inr a, w')"
  by (simp add: ifW_def)

lemma tryW_eq [guard_simps]: "tryW m w = (r, w') \<longleftrightarrow> (\<exists>x. m w = (x, w') \<and> r = Inr x)"
  by (auto simp: tryW_def split: prod.splits)

lemma bind_try: "m w = (x, v) \<Longrightarrow> bindW (tryW m) f w = f x v"
  by (simp add: bindW_def tryW_def)

lemma of_option_sym [simp]: "Inr u = of_option e \<longleftrightarrow> e = None" "Inl x = of_option e \<longleftrightarrow> e = Some x"
  by (auto simp: of_option_def split: option.split)

lemma sum_case_eq [guard_simps]:
  "(case s of Inl e \<Rightarrow> f e | Inr a \<Rightarrow> g a) w = (r, w') \<longleftrightarrow>
     (\<exists>e. s = Inl e \<and> f e w = (r, w')) \<or> (\<exists>a. s = Inr a \<and> g a w = (r, w'))"
  by (cases s) auto

lemma option_case_eq [guard_simps]:
  "(case s of None \<Rightarrow> f | Some a \<Rightarrow> g a) w = (r, w') \<longleftrightarrow>
     (s = None \<and> f w = (r, w')) \<or> (\<exists>a. s = Some a \<and> g a w = (r, w'))"
  by (cases s) auto

text \<open>Every exit of two composed steps: the first failed, or the second ran after it.\<close>

lemma bindW_cases:
  assumes "bindW m f w = (r, w')"
  obtains (stopped) e where "m w = (Inl e, w')" "r = Inl e"
    | (went) a v where "m w = (Inr a, v)" "f a v = (r, w')"
  using assms by (auto simp: bindW_def split: prod.splits sum.splits)

section \<open>Relations every exit keeps\<close>

text \<open>
  A relation between the state before and after, closed under composition. A step keeps it if
  it holds whatever the result; composed steps keep what each of them keeps.
\<close>

definition keeps_rel :: "('w \<Rightarrow> 'w \<Rightarrow> bool) \<Rightarrow> ('w, 'a) step \<Rightarrow> bool" where
  "keeps_rel R m \<longleftrightarrow> (\<forall>w. R w (snd (m w)))"

lemma keeps_relI: "(\<And>w. R w (snd (m w))) \<Longrightarrow> keeps_rel R m"
  by (simp add: keeps_rel_def)

lemma keeps_relD: "keeps_rel R m \<Longrightarrow> m w = (r, w') \<Longrightarrow> R w w'"
  by (metis keeps_rel_def snd_conv)

locale step_preorder =
  fixes R :: "'w \<Rightarrow> 'w \<Rightarrow> bool"
  assumes R_refl: "R w w"
    and R_trans: "R u v \<Longrightarrow> R v w \<Longrightarrow> R u w"
begin

lemma ret_keeps [keeps]: "keeps_rel R (ret a)"
  by (simp add: keeps_rel_def R_refl)

lemma raise_keeps [keeps]: "keeps_rel R (raise e)"
  by (simp add: keeps_rel_def R_refl)

lemma of_result_keeps [keeps]: "keeps_rel R (of_result r)"
  by (simp add: keeps_rel_def R_refl)

lemma bindW_keeps [keeps]:
  assumes "keeps_rel R m" and "\<And>a. keeps_rel R (f a)"
  shows "keeps_rel R (bindW m f)"
proof (rule keeps_relI)
  fix w
  obtain r v where step: "m w = (r, v)" by (metis prod.exhaust)
  have first: "R w v" by (rule keeps_relD [OF assms(1) step])
  show "R w (snd (bindW m f w))"
  proof (cases r)
    case (Inl e)
    with first show ?thesis by (simp add: bindW_def step)
  next
    case (Inr a)
    have "R v (snd (f a v))" using assms(2) [of a] by (simp add: keeps_rel_def)
    with first Inr show ?thesis by (auto simp: bindW_def step intro: R_trans)
  qed
qed

lemma tryW_keeps [keeps]: "keeps_rel R m \<Longrightarrow> keeps_rel R (tryW m)"
  by (auto simp: keeps_rel_def tryW_def split: prod.splits) (metis snd_conv)

lemma ifW_keeps [keeps]: "keeps_rel R m \<Longrightarrow> keeps_rel R (ifW b e m)"
  by (simp add: ifW_def raise_keeps)

lemma if_keeps [keeps]: "keeps_rel R m \<Longrightarrow> keeps_rel R n \<Longrightarrow> keeps_rel R (if b then m else n)"
  by simp

lemma sum_keeps [keeps]:
  "(\<And>e. keeps_rel R (f e)) \<Longrightarrow> (\<And>a. keeps_rel R (g a)) \<Longrightarrow> keeps_rel R (case r of Inl e \<Rightarrow> f e | Inr a \<Rightarrow> g a)"
  by (simp split: sum.split)

lemma option_keeps [keeps]:
  "keeps_rel R m \<Longrightarrow> (\<And>a. keeps_rel R (g a)) \<Longrightarrow> keeps_rel R (case r of None \<Rightarrow> m | Some a \<Rightarrow> g a)"
  by (simp split: option.split)

end

section \<open>Weakest preconditions\<close>

text \<open>
  What has to hold before a step so that one condition holds if it succeeds and another if it
  fails. The equations compute them for composed steps.
\<close>

definition wp :: "('w, 'a) step \<Rightarrow> ('a \<Rightarrow> 'w \<Rightarrow> bool) \<Rightarrow> (error \<Rightarrow> 'w \<Rightarrow> bool) \<Rightarrow> 'w \<Rightarrow> bool" where
  "wp m Q F w = (case m w of (r, v) \<Rightarrow> (case r of Inl e \<Rightarrow> F e v | Inr a \<Rightarrow> Q a v))"

lemma wpI:
  assumes "\<And>a v. m w = (Inr a, v) \<Longrightarrow> Q a v" and "\<And>e v. m w = (Inl e, v) \<Longrightarrow> F e v"
  shows "wp m Q F w"
  using assms by (auto simp: wp_def split: prod.split sum.split)

lemma wpD:
  assumes "wp m Q F w" and "m w = (r, v)"
  shows "case r of Inl e \<Rightarrow> F e v | Inr a \<Rightarrow> Q a v"
  using assms by (simp add: wp_def)

lemma wp_conseq:
  assumes "wp m Q F w" and "\<And>a v. Q a v \<Longrightarrow> Q' a v" and "\<And>e v. F e v \<Longrightarrow> F' e v"
  shows "wp m Q' F' w"
  using assms by (auto simp: wp_def split: prod.splits sum.splits)

lemma wp_keeps:
  assumes "keeps_rel R m" and "\<And>a v. R w v \<Longrightarrow> Q a v" and "\<And>e v. R w v \<Longrightarrow> F e v"
  shows "wp m Q F w"
  by (intro wpI assms(2,3) keeps_relD [OF assms(1)])

text \<open>Composed steps.\<close>

lemma wp_bind [wp_simps]: "wp (bindW m f) Q F = wp m (\<lambda>a. wp (f a) Q F) F"
  by (rule ext) (simp add: wp_def bindW_def split: prod.split sum.split)

lemma wp_try [wp_simps]: "wp (tryW m) Q F = wp m (\<lambda>a. Q (Inr a)) (\<lambda>e. Q (Inl e))"
  by (rule ext) (simp add: wp_def tryW_def split: prod.split sum.split)

lemma wp_ret [wp_simps]: "wp (ret a) Q F = Q a"
  by (rule ext) (simp add: wp_def)

lemma wp_raise [wp_simps]: "wp (raise e) Q F = F e"
  by (rule ext) (simp add: wp_def)

lemma wp_of_result [wp_simps]: "wp (of_result r) Q F w = (case r of Inl e \<Rightarrow> F e w | Inr a \<Rightarrow> Q a w)"
  by (simp add: wp_def)

lemma wp_ifW [wp_simps]: "wp (ifW b e m) Q F w = (if b then F e w else wp m Q F w)"
  by (simp add: ifW_def wp_raise)

lemma wp_if [wp_simps]: "wp (if b then m else n) Q F w = (if b then wp m Q F w else wp n Q F w)"
  by simp

lemma wp_sum [wp_simps]:
  "wp (case s of Inl e \<Rightarrow> f e | Inr a \<Rightarrow> g a) Q F w = (case s of Inl e \<Rightarrow> wp (f e) Q F w | Inr a \<Rightarrow> wp (g a) Q F w)"
  by (simp split: sum.split)

lemma wp_option [wp_simps]:
  "wp (case s of None \<Rightarrow> m | Some a \<Rightarrow> g a) Q F w = (case s of None \<Rightarrow> wp m Q F w | Some a \<Rightarrow> wp (g a) Q F w)"
  by (simp split: option.split)

lemma wp_prod [wp_simps]: "wp (case s of (a, b) \<Rightarrow> f a b) Q F w = (case s of (a, b) \<Rightarrow> wp (f a b) Q F w)"
  by (simp split: prod.split)

text \<open>Results that are known.\<close>

lemma wp_of_option [wp_simps]:
  "wp (of_result (of_option e)) Q F w = (case e of None \<Rightarrow> Q () w | Some e \<Rightarrow> F e w)"
  by (simp add: wp_of_result of_option_def split: option.split)

end
