(* ===== verification/Node.thy ===== *)
theory Node
  imports Floors Path_Manager Steps
begin

text \<open>
  The node the use cases of \<open>overlay/usecase\<close> run on: the state directory, the credential
  store, and the calls that leave the process, in order. Whatever comes back from outside (the
  control plane, the tunnel runtime, the clock, random nonces, the outcome of a file
  operation) is read from an environment, by the number of the call: any environment may be
  taken. An operation is a function of the world, with the code's early returns.
\<close>

section \<open>What the control plane and the runtime answer\<close>

record session_response =
  sr_nonce :: string
  sr_token :: string
  sr_token_type :: string
  sr_issued :: gotime
  sr_expires :: gotime
  sr_scope :: "string list"
  sr_device :: string
  sr_network :: string
  sr_keys :: "signing_key list"

record rotate_response =
  ro_id :: string
  ro_replaces :: string
  ro_token_type :: string
  ro_issued :: gotime
  ro_expires :: gotime
  ro_scope :: "string list"

record lifecycle_device =
  ld_id :: string
  ld_user :: string
  ld_network :: string
  ld_name :: string
  ld_platform :: string
  ld_hostname :: string
  ld_public_key :: string
  ld_address :: string
  ld_created :: gotime
  ld_updated :: gotime
  ld_last_seen :: "gotime option"
  ld_status :: string
  ld_state_version :: u64
  ld_key_version :: u64
  ld_revoked_at :: "gotime option"
  ld_revoked_reason :: string

record revoke_response =
  rv_revoked :: bool
  rv_duplicate :: bool
  rv_device :: lifecycle_device
  rv_policy_generation :: u64
  rv_policy_digest :: string
  rv_policy_pending :: bool

record config_ack =
  ak_device :: string
  ak_config_id :: string
  ak_generation :: u64
  ak_applied :: gotime
  ak_received :: gotime

record ack_response =
  ar_acked :: bool
  ar_duplicate :: bool
  ar_ack :: config_ack

record apply_result =
  ap_revision :: string
  ap_core :: string
  ap_adapter :: string

record runtime_status =
  rt_paths :: "peer_status list"
  rt_available :: bool
  rt_applied :: bool
  rt_managed :: bool
  rt_version :: string
  rt_revision :: string
  rt_core :: string
  rt_adapter :: string
  rt_interface :: string

record config_request =
  cq_device :: string
  cq_network :: string
  cq_node :: string

section \<open>The world\<close>

text \<open>The calls that leave the process, as they are made.\<close>

datatype event =
    Acquired string
  | Released
  | Mint cred_record string
  | FetchConfig bool string config_request
  | FetchPolicy string policy_ref
  | Ack string u64 string string
  | Apply config string
  | RuntimeDown
  | RuntimeCleanup
  | Rotate cred_record string string
  | Revoke cred_record string
  | RevokeLegacy string string string
  | RegisterDevice string string string
  | ExchangeToken string string string
  | FetchKeys string
  | FetchSigned config_request
  | FetchLegacy config_request
  | AckSigned u64 string string
  | CreateRegistration string string string
  | PollRegistration string string
  | Wait int

record world =
  w_tick :: nat
  w_disk :: disk
  w_creds :: "cred_record option"
  w_log :: "event list"

record env =
  ev_signed :: signed_lib
  ev_cred :: cred_lib
  ev_policy :: policy_lib
  ev_now :: "nat \<Rightarrow> gotime"
  ev_check :: "nat \<Rightarrow> check_env"
  ev_lock :: "nat \<Rightarrow> error option"
  ev_read :: "nat \<Rightarrow> read_outcome"
  ev_write :: "nat \<Rightarrow> write_outcome"
  ev_remove :: "nat \<Rightarrow> bool"
  ev_clear :: "nat \<Rightarrow> (nat \<Rightarrow> bool) \<times> bool \<times> bool"
  ev_has_creds :: bool
  ev_cred_load :: "nat \<Rightarrow> error option"
  ev_cred_save :: "nat \<Rightarrow> error option"
  ev_cred_delete :: "nat \<Rightarrow> error option"
  ev_nonce :: "nat \<Rightarrow> error + string"
  ev_secret :: "nat \<Rightarrow> error + secret"
  ev_mint :: "nat \<Rightarrow> error + session_response"
  ev_config :: "nat \<Rightarrow> error + signed_config"
  ev_artifact :: "nat \<Rightarrow> error + byte list"
  ev_ack :: "nat \<Rightarrow> error + ack_response"
  ev_rotate :: "nat \<Rightarrow> error + rotate_response"
  ev_revoke :: "nat \<Rightarrow> error + revoke_response"
  ev_status :: "nat \<Rightarrow> error + runtime_status"
  ev_apply :: "nat \<Rightarrow> error + apply_result"
  ev_down :: "nat \<Rightarrow> error option"
  ev_cleanup :: "nat \<Rightarrow> error option"
  ev_lifecycle :: bool

section \<open>Steps\<close>

type_synonym 'a io = "(world, 'a) step"

definition tick :: "world \<Rightarrow> world" where
  "tick w = w\<lparr>w_tick := Suc (w_tick w)\<rparr>"

text \<open>A call out of the process: what it is, and the answer the environment holds.\<close>

definition call :: "event list \<Rightarrow> (nat \<Rightarrow> error + 'a) \<Rightarrow> 'a io" where
  "call es f w = (f (w_tick w), tick (w\<lparr>w_log := w_log w @ es\<rparr>))"

definition clock :: "env \<Rightarrow> gotime io" where
  "clock E = call [] (\<lambda>n. Inr (ev_now E n))"

definition disk_read :: "env \<Rightarrow> (read_outcome \<Rightarrow> disk \<Rightarrow> error + 'a) \<Rightarrow> 'a io" where
  "disk_read E f w = (f (ev_read E (w_tick w)) (w_disk w), tick w)"

definition disk_write :: "env \<Rightarrow> (write_outcome \<Rightarrow> disk \<Rightarrow> error option \<times> disk) \<Rightarrow> unit io" where
  "disk_write E f w =
     (case f (ev_write E (w_tick w)) (w_disk w) of (e, d) \<Rightarrow> (of_option e, tick (w\<lparr>w_disk := d\<rparr>)))"

definition disk_remove :: "env \<Rightarrow> (bool \<Rightarrow> disk \<Rightarrow> error option \<times> disk) \<Rightarrow> unit io" where
  "disk_remove E f w =
     (case f (ev_remove E (w_tick w)) (w_disk w) of (e, d) \<Rightarrow> (of_option e, tick (w\<lparr>w_disk := d\<rparr>)))"

text \<open>A read and a write of one operation, as \<open>AcceptSignedConfig\<close> makes them.\<close>

definition disk_update :: "env \<Rightarrow> (read_outcome \<Rightarrow> write_outcome \<Rightarrow> disk \<Rightarrow> error option \<times> disk) \<Rightarrow> unit io" where
  "disk_update E f w =
     (case f (ev_read E (w_tick w)) (ev_write E (w_tick w)) (w_disk w) of
        (e, d) \<Rightarrow> (of_option e, tick (w\<lparr>w_disk := d\<rparr>)))"

section \<open>The credential store\<close>

definition store_of :: "env \<Rightarrow> world \<Rightarrow> memory_store" where
  "store_of E w = \<lparr>ms_record = w_creds w, ms_save_err = ev_cred_save E (w_tick w),
     ms_load_err = ev_cred_load E (w_tick w), ms_delete_err = ev_cred_delete E (w_tick w)\<rparr>"

definition creds_load :: "env \<Rightarrow> cred_record io" where
  "creds_load E w = (memory_load (store_of E w), tick w)"

definition creds_save :: "env \<Rightarrow> cred_record \<Rightarrow> unit io" where
  "creds_save E r w =
     (case memory_save (ev_cred E) r (store_of E w) of
        (e, s) \<Rightarrow> (of_option e, tick (w\<lparr>w_creds := ms_record s\<rparr>)))"

definition creds_delete :: "env \<Rightarrow> unit io" where
  "creds_delete E w =
     (case memory_delete (store_of E w) of (e, s) \<Rightarrow> (of_option e, tick (w\<lparr>w_creds := ms_record s\<rparr>)))"

section \<open>The operation lock around a use case\<close>

text \<open>\<open>AcquireOperation\<close>, the body, and the deferred \<open>Release\<close>, whose error is dropped.\<close>

definition with_lock :: "env \<Rightarrow> string \<Rightarrow> 'a io \<Rightarrow> 'a io" where
  "with_lock E name body w =
     (case ev_lock E (w_tick w) of
        Some e \<Rightarrow> (Inl e, tick w)
      | None \<Rightarrow>
          (case body (tick (w\<lparr>w_log := w_log w @ [Acquired name]\<rparr>)) of
             (r, w') \<Rightarrow> (r, w'\<lparr>w_log := w_log w' @ [Released]\<rparr>)))"

section \<open>Success of a step\<close>

lemma tick_simps [simp]:
  "w_disk (tick w) = w_disk w" "w_creds (tick w) = w_creds w" "w_log (tick w) = w_log w"
  "w_tick (tick w) = Suc (w_tick w)"
  by (simp_all add: tick_def)

lemma call_eq [guard_simps]:
  "call es f w = (r, w') \<longleftrightarrow> r = f (w_tick w) \<and> w' = tick (w\<lparr>w_log := w_log w @ es\<rparr>)"
  by (auto simp: call_def)

lemma disk_read_eq [guard_simps]:
  "disk_read E f w = (r, w') \<longleftrightarrow> r = f (ev_read E (w_tick w)) (w_disk w) \<and> w' = tick w"
  by (auto simp: disk_read_def)

lemma disk_write_eq [guard_simps]:
  "disk_write E f w = (r, w') \<longleftrightarrow> (\<exists>e d. f (ev_write E (w_tick w)) (w_disk w) = (e, d) \<and> r = of_option e \<and>
     w' = tick (w\<lparr>w_disk := d\<rparr>))"
  by (auto simp: disk_write_def split: prod.splits)

lemma disk_remove_eq [guard_simps]:
  "disk_remove E f w = (r, w') \<longleftrightarrow> (\<exists>e d. f (ev_remove E (w_tick w)) (w_disk w) = (e, d) \<and> r = of_option e \<and>
     w' = tick (w\<lparr>w_disk := d\<rparr>))"
  by (auto simp: disk_remove_def split: prod.splits)

lemma disk_update_eq [guard_simps]:
  "disk_update E f w = (r, w') \<longleftrightarrow> (\<exists>e d. f (ev_read E (w_tick w)) (ev_write E (w_tick w)) (w_disk w) = (e, d) \<and>
     r = of_option e \<and> w' = tick (w\<lparr>w_disk := d\<rparr>))"
  by (auto simp: disk_update_def split: prod.splits)

text \<open>The first step of a run, executed.\<close>

lemma bind_clock: "bindW (clock E) f w = f (ev_now E (w_tick w)) (tick w)"
  by (simp add: bindW_def clock_def call_def)

lemma bind_try_call: "bindW (tryW (call es g)) f w = f (g (w_tick w)) (tick (w\<lparr>w_log := w_log w @ es\<rparr>))"
  by (simp add: bindW_def tryW_def call_def)

locale preorder_rel = step_preorder R
  for R :: "world \<Rightarrow> world \<Rightarrow> bool" +
  assumes R_tick: "R w (tick w)"
begin

lemma disk_read_keeps [keeps]: "keeps_rel R (disk_read E f)"
  by (simp add: keeps_rel_def disk_read_def R_tick)

lemma clock_keeps [keeps]: "keeps_rel R (clock E)"
  using R_tick by (simp add: keeps_rel_def clock_def call_def)

lemma creds_load_keeps [keeps]: "keeps_rel R (creds_load E)"
  by (simp add: keeps_rel_def creds_load_def R_tick)

lemma silent_call_keeps [keeps]: "keeps_rel R (call [] f)"
  using R_tick by (simp add: keeps_rel_def call_def)

text \<open>Steps that write: the relation has to hold for what is written.\<close>

lemma disk_write_keeps:
  assumes "\<And>io w. R w (w\<lparr>w_disk := snd (f io (w_disk w))\<rparr>)"
  shows "keeps_rel R (disk_write E f)"
  using assms R_tick R_trans by (auto simp: keeps_rel_def disk_write_def split: prod.splits) (metis snd_conv)

lemma disk_remove_keeps:
  assumes "\<And>io w. R w (w\<lparr>w_disk := snd (f io (w_disk w))\<rparr>)"
  shows "keeps_rel R (disk_remove E f)"
  using assms R_tick R_trans by (auto simp: keeps_rel_def disk_remove_def split: prod.splits) (metis snd_conv)

lemma disk_update_keeps:
  assumes "\<And>rio wio w. R w (w\<lparr>w_disk := snd (f rio wio (w_disk w))\<rparr>)"
  shows "keeps_rel R (disk_update E f)"
  using assms R_tick R_trans by (auto simp: keeps_rel_def disk_update_def split: prod.splits) (metis snd_conv)

lemma call_keeps:
  assumes "\<And>w. R w (w\<lparr>w_log := w_log w @ es\<rparr>)"
  shows "keeps_rel R (call es f)"
  using assms R_tick R_trans by (simp add: keeps_rel_def call_def) metis

end

lemma with_lock_cases:
  assumes "with_lock E name body w = (r, w')"
  obtains (refused) e where "ev_lock E (w_tick w) = Some e" "r = Inl e" "w' = tick w"
    | (ran) v where "body (tick (w\<lparr>w_log := w_log w @ [Acquired name]\<rparr>)) = (r, v)"
        "w' = v\<lparr>w_log := w_log v @ [Released]\<rparr>"
  using assms by (auto simp: with_lock_def split: prod.splits option.splits)

end
