(* ===== verification/Device_Session.thy ===== *)
theory Device_Session
  imports Node
begin

text \<open>
  \<open>overlay/usecase/device_session.go\<close>: the synchronization of a joined device (\<open>Sync\<close>) and the
  rotation of its durable credential (\<open>Rotate\<close>), in the order the code makes its calls.
\<close>

section \<open>Sessions\<close>

definition exact_session_scope :: "string list \<Rightarrow> bool" where
  "exact_session_scope vs \<longleftrightarrow>
     vs = [''overlay:config:read'', ''overlay:config:ack''] \<or> vs = [''overlay:config:ack'', ''overlay:config:read'']"

text \<open>An expired session is forgotten; the error is returned as it came.\<close>

definition handle_session_error :: "env \<Rightarrow> error \<Rightarrow> 'a io" where
  "handle_session_error E e =
     (if fault_code_of e = CodeEnrollmentExpired
      then bindW (tryW (disk_remove E clear_enrollment_secret)) (\<lambda>_. raise e)
      else raise e)"

definition load_credential :: "env \<Rightarrow> cred_record io" where
  "load_credential E =
     (if \<not> ev_has_creds E then raise (fault CodeCredentialStorage ''use protected device credential storage'')
      else bindW (tryW (creds_load E)) (\<lambda>r.
        case r of
          Inl e \<Rightarrow>
            if errors_is e CredentialNotFound then raise (fault CodeCredentialMissing ''load device credential'')
            else raise e
        | Inr rec \<Rightarrow>
            bindW (clock E) (\<lambda>now.
              ifW (cred_expired rec now) (fault CodeCredentialExpired ''load device credential'') (ret rec))))"

definition load_bound_credential :: "env \<Rightarrow> string \<Rightarrow> string \<Rightarrow> string \<Rightarrow> string \<Rightarrow> cred_record io" where
  "load_bound_credential E controller device network key =
     bindW (load_credential E) (\<lambda>rec.
       ifW (cr_controller rec \<noteq> controller \<or> cr_device rec \<noteq> device \<or> cr_network rec \<noteq> network \<or>
            cr_public_key rec \<noteq> key)
         (fault CodeStateConflict ''validate device credential state binding'') (ret rec))"

text \<open>The session a minted response becomes.\<close>

definition session_of :: "cred_record \<Rightarrow> session_response \<Rightarrow> gotime \<Rightarrow> enrollment_secret" where
  "session_of rec s created = \<lparr>en_schema = 0, en_controller = cr_controller rec, en_device_id = cr_device rec,
     en_network_id = cr_network rec, en_platform = cr_platform rec, en_public_key = cr_public_key rec,
     en_token = sr_token s, en_expires = sr_expires s, en_scope = sr_scope s,
     en_device = zero_device\<lparr>dv_id := cr_device rec, dv_network := cr_network rec, dv_platform := cr_platform rec,
       dv_public_key := cr_public_key rec\<rparr>,
     en_network = zero_network\<lparr>nw_id := cr_network rec\<rparr>,
     en_keys = \<lparr>ks_keys = sr_keys s, ks_etag = []\<rparr>, en_created = to_utc created\<rparr>"

definition mint_session :: "env \<Rightarrow> cred_record \<Rightarrow> enrollment_secret io" where
  "mint_session E rec =
     bindW (tryW (disk_remove E clear_enrollment_secret)) (\<lambda>_.
     bindW (tryW (call [] (ev_nonce E))) (\<lambda>n.
       case n of
         Inl e \<Rightarrow> raise (fault_cause CodeDeviceSessionInvalid ''generate device session nonce'' e)
       | Inr nonce \<Rightarrow>
           bindW (clock E) (\<lambda>_.
           bindW (call [Mint rec nonce] (ev_mint E)) (\<lambda>s.
           bindW (clock E) (\<lambda>created.
           bindW (disk_write E (\<lambda>io. save_enrollment_secret io (session_of rec s created))) (\<lambda>_.
             ret (session_of rec s created)))))))"

definition load_or_mint_session :: "env \<Rightarrow> cred_record \<Rightarrow> enrollment_secret io" where
  "load_or_mint_session E rec =
     bindW (tryW (disk_read E (\<lambda>io. load_enrollment_secret io (cr_controller rec) (cr_device rec) (cr_public_key rec))))
       (\<lambda>r. case r of
          Inl e \<Rightarrow> if \<not> errors_is e StateNotFound then raise e else mint_session E rec
        | Inr enr \<Rightarrow>
            if exact_session_scope (en_scope enr) then
              bindW (clock E) (\<lambda>now.
                if after (en_expires enr) (to_utc now) \<and> en_network_id enr = cr_network rec then ret enr
                else mint_session E rec)
            else mint_session E rec)"

section \<open>Runtime\<close>

definition runtime_matches :: "runtime_status \<Rightarrow> config \<Rightarrow> bool" where
  "runtime_matches s c \<longleftrightarrow>
     rt_applied s \<and> rt_revision s = cf_revision c \<and> rt_core s = ''xray'' \<and> supported_adapter_id (rt_adapter s)"

definition runtime_apply_error_code :: "error \<Rightarrow> fault_code" where
  "runtime_apply_error_code e =
     (if fault_code_of e \<in> {CodeRuntimeUnavailable, CodeRuntimeDependency, CodeRuntimePermission,
          CodeRuntimeProcessStale, CodeRuntimeRollbackFailed}
      then fault_code_of e else CodeRuntimeApplyFailed)"

text \<open>\<open>runtime.Apply\<close> and the check of what it says it applied.\<close>

definition apply_checked :: "env \<Rightarrow> string \<Rightarrow> config \<Rightarrow> string \<Rightarrow> unit io" where
  "apply_checked E op c key =
     bindW (call [Apply c key] (ev_apply E)) (\<lambda>a.
       ifW (ap_revision a \<noteq> cf_revision c \<or> ap_core a \<noteq> ''xray'' \<or> \<not> supported_adapter_id (ap_adapter a))
         (fault CodeRuntimeApplyFailed op) (ret ()))"

definition apply_runtime :: "env \<Rightarrow> string \<Rightarrow> string \<Rightarrow> config \<Rightarrow> string \<Rightarrow> unit io" where
  "apply_runtime E check_op op c key =
     bindW (tryW (apply_checked E check_op c key)) (\<lambda>r.
       case r of Inl e \<Rightarrow> raise (fault_cause (runtime_apply_error_code e) op e) | Inr u \<Rightarrow> ret ())"

text \<open>
  Applied, then read back: a status that cannot be read or does not match is a failure.
\<close>

definition sync_runtime :: "env \<Rightarrow> config \<Rightarrow> string \<Rightarrow> bool io" where
  "sync_runtime E c key =
     bindW (tryW (call [] (ev_status E))) (\<lambda>s.
       case s of
         Inl e \<Rightarrow> raise (fault_cause CodeRuntimeStatusFailed ''read runtime before sync'' e)
       | Inr st \<Rightarrow>
           if runtime_matches st c then ret True
           else
             bindW (apply_runtime E ''validate synchronized runtime'' ''apply synchronized runtime'' c key) (\<lambda>_.
             bindW (tryW (call [] (ev_status E))) (\<lambda>b.
               case b of
                 Inl e \<Rightarrow> raise (fault_cause CodeRuntimeApplyFailed ''read back synchronized runtime'' e)
               | Inr rb \<Rightarrow>
                   ifW (\<not> runtime_matches rb c) (fault CodeRuntimeApplyFailed ''read back synchronized runtime'')
                     (ret False))))"

section \<open>Synchronization\<close>

record sync_result =
  sy_device :: string
  sy_network :: string
  sy_revision :: string
  sy_generation :: u64
  sy_current :: bool

text \<open>
  The configuration: fetched, verified with the keys of the stored credential, for this
  device, compiled, and not below the floor. Version 1 raises the floor here.
\<close>

definition sync_config :: "env \<Rightarrow> bool \<Rightarrow> last_known \<Rightarrow> cred_record \<Rightarrow> enrollment_secret \<Rightarrow> (signed_config \<times> config) io" where
  "sync_config E v2 lk rec enr =
     bindW (tryW (call [FetchConfig v2 (en_token enr) \<lparr>cq_device = cr_device rec, cq_network = cr_network rec,
         cq_node = lk_node lk\<rparr>] (ev_config E))) (\<lambda>f.
       case f of
         Inl e \<Rightarrow> handle_session_error E e
       | Inr c \<Rightarrow>
           bindW (clock E) (\<lambda>now.
           bindW (of_result (of_option (verify (ev_signed E) c (cr_keys rec) now))) (\<lambda>_.
           ifW (sc_device c \<noteq> cr_device rec \<or> sc_network c \<noteq> cr_network rec)
             (fault CodeInvalidSignedConfig ''validate device sync ownership'')
             (bindW (call [] (\<lambda>n. compile (ev_signed E) (ev_check E n) c)) (\<lambda>k.
              bindW (disk_read E (\<lambda>io d. of_option (validate_signed_config_floor io (cr_controller rec) (cr_device rec)
                (cr_network rec) (sc_id c) (cf_digest k) (sc_generation c) d))) (\<lambda>_.
              if v2 then ret (c, k)
              else
                bindW (clock E) (\<lambda>now.
                bindW (disk_update E (\<lambda>rio wio. accept_signed_config rio wio (cr_controller rec) (cr_device rec)
                  (cr_network rec) (sc_id c) (cf_digest k) (sc_generation c) now)) (\<lambda>_. ret (c, k)))))))))"

definition session_policy_floor :: "env \<Rightarrow> string \<Rightarrow> floor io" where
  "session_policy_floor E network =
     bindW (tryW (disk_read E load_policy_state)) (\<lambda>r.
       case r of
         Inr p \<Rightarrow> ret \<lparr>fl_network = po_network p, fl_generation = po_generation p, fl_digest = po_digest p\<rparr>
       | Inl e \<Rightarrow>
           if errors_is e StateNotFound then ret \<lparr>fl_network = network, fl_generation = 0, fl_digest = []\<rparr>
           else raise e)"

definition sync_policy :: "env \<Rightarrow> cred_record \<Rightarrow> enrollment_secret \<Rightarrow> signed_config \<Rightarrow> accepted io" where
  "sync_policy E rec enr c =
     (case sc_policy c of
        None \<Rightarrow> raise (fault CodeInvalidSignedConfig ''validate device sync v2 policy'')
      | Some p \<Rightarrow>
          ifW (sc_schema c \<noteq> 2) (fault CodeInvalidSignedConfig ''validate device sync v2 policy'')
            (bindW (of_result (reference_from_signed_config (sc_network c) (pr_generation p) (pr_digest p) (sc_expires c)))
              (\<lambda>r.
             bindW (session_policy_floor E (cr_network rec)) (\<lambda>fl.
             bindW (tryW (call [FetchPolicy (en_token enr) p] (ev_artifact E))) (\<lambda>a.
               case a of
                 Inl e \<Rightarrow> handle_session_error E e
               | Inr raw \<Rightarrow>
                   bindW (clock E) (\<lambda>now. call [] (\<lambda>n. consume (ev_policy E) raw r fl now (ev_now E n))))))))"

definition sync_ack :: "env \<Rightarrow> cred_record \<Rightarrow> enrollment_secret \<Rightarrow> signed_config \<Rightarrow> unit io" where
  "sync_ack E rec enr c =
     bindW (clock E) (\<lambda>_.
     bindW (tryW (call [Ack (en_token enr) (sc_generation c) (sc_id c) (cr_device rec)] (ev_ack E))) (\<lambda>r.
       case r of
         Inl e \<Rightarrow> handle_session_error E e
       | Inr a \<Rightarrow>
           ifW (\<not> ar_acked a \<or> ak_device (ar_ack a) \<noteq> cr_device rec \<or> ak_config_id (ar_ack a) \<noteq> sc_id c \<or>
                ak_generation (ar_ack a) \<noteq> sc_generation c)
             (fault CodeInvalidResponse ''acknowledge device sync'') (ret ())))"

text \<open>After the acknowledgement of a version 2 configuration: the floor, then the policy.\<close>

definition sync_commit_v2 :: "env \<Rightarrow> cred_record \<Rightarrow> signed_config \<Rightarrow> config \<Rightarrow> accepted \<Rightarrow> unit io" where
  "sync_commit_v2 E rec c k a =
     bindW (clock E) (\<lambda>now.
     bindW (disk_update E (\<lambda>rio wio. accept_signed_config rio wio (cr_controller rec) (cr_device rec)
       (cr_network rec) (sc_id c) (cf_digest k) (sc_generation c) now)) (\<lambda>_.
     bindW (clock E) (\<lambda>now'. disk_write E (\<lambda>io. save_policy_state io (policy_of a now')))))"

definition sync_commit :: "env \<Rightarrow> last_known \<Rightarrow> cred_record \<Rightarrow> enrollment_secret \<Rightarrow> signed_config \<Rightarrow> config \<Rightarrow> unit io" where
  "sync_commit E lk rec enr c k =
     bindW (clock E) (\<lambda>now.
     bindW (disk_write E (\<lambda>io. save_last_known io (lk\<lparr>lk_config := k, lk_contract := ''signed'', lk_config_id := sc_id c,
       lk_generation := sc_generation c, lk_updated := to_utc now\<rparr>))) (\<lambda>_.
     bindW (tryW (creds_save E (rec\<lparr>cr_keys := en_keys enr\<rparr>))) (\<lambda>r.
       case r of
         Inl e \<Rightarrow> raise (fault_cause CodeCredentialStorage ''commit verified signing keys'' e)
       | Inr u \<Rightarrow> disk_remove E clear_enrollment_secret)))"

text \<open>What comes after the configuration is known: policy, runtime, acknowledgement, commit.\<close>

definition sync_finish :: "env \<Rightarrow> bool \<Rightarrow> last_known \<Rightarrow> cred_record \<Rightarrow> enrollment_secret \<Rightarrow> signed_config \<Rightarrow> config \<Rightarrow>
    accepted option \<Rightarrow> bool \<Rightarrow> sync_result io" where
  "sync_finish E v2 lk rec enr c k pol current =
     bindW (sync_ack E rec enr c) (\<lambda>_.
     bindW (case pol of None \<Rightarrow> ret () | Some a \<Rightarrow> sync_commit_v2 E rec c k a) (\<lambda>_.
     bindW (sync_commit E lk rec enr c k) (\<lambda>_.
       ret \<lparr>sy_device = cr_device rec, sy_network = cr_network rec, sy_revision = cf_revision k,
         sy_generation = sc_generation c, sy_current = current\<rparr>)))"

definition sync_body :: "env \<Rightarrow> bool \<Rightarrow> sync_result io" where
  "sync_body E v2 =
     bindW (tryW (disk_read E load_last_known)) (\<lambda>l.
       case l of
         Inl e \<Rightarrow> if errors_is e StateNotFound then raise (fault CodeNotJoined ''sync overlay'') else raise e
       | Inr lk \<Rightarrow>
           bindW (load_bound_credential E (lk_server lk) (lk_device lk) (lk_network lk) (lk_public_key lk)) (\<lambda>rec.
           bindW (load_or_mint_session E rec) (\<lambda>enr.
           bindW (sync_config E v2 lk rec enr) (\<lambda>ck.
           bindW (if v2 then bindW (sync_policy E rec enr (fst ck)) (\<lambda>a. ret (Some a)) else ret None) (\<lambda>pol.
           bindW (sync_runtime E (snd ck) (lk_private_key lk)) (\<lambda>current.
             sync_finish E v2 lk rec enr (fst ck) (snd ck) pol current))))))"

definition sync :: "env \<Rightarrow> bool \<Rightarrow> sync_result io" where
  "sync E v2 = with_lock E ''sync'' (sync_body E v2)"

section \<open>Rotation of the credential\<close>

record rotation_result =
  rn_id :: string
  rn_expires :: gotime
  rn_recovered :: bool

text \<open>The pending credential is tried first: the controller may already have it.\<close>

definition rotate_request :: "env \<Rightarrow> cred_record \<Rightarrow> rotation_result io" where
  "rotate_request E rec =
     (case cr_pending rec of
        None \<Rightarrow> raise (Plain ''nil pending rotation'')
      | Some q \<Rightarrow>
          bindW (clock E) (\<lambda>_.
          bindW (call [Rotate rec (pe_id q) (pe_verifier q)] (ev_rotate E)) (\<lambda>resp.
          bindW (of_result (promote_pending (ev_cred E) rec (ro_issued resp) (ro_expires resp) (ro_scope resp))) (\<lambda>new.
          bindW (creds_save E new) (\<lambda>_.
            ret \<lparr>rn_id = cr_id new, rn_expires = cr_expires new, rn_recovered = False\<rparr>)))))"

definition rotate_pending :: "env \<Rightarrow> cred_record \<Rightarrow> rotation_result io" where
  "rotate_pending E rec =
     bindW (of_result (pending_record (ev_cred E) rec)) (\<lambda>probe.
     bindW (tryW (call [] (ev_nonce E))) (\<lambda>n.
       case n of
         Inl e \<Rightarrow> raise (fault_cause CodeDeviceSessionInvalid ''generate credential probe nonce'' e)
       | Inr nonce \<Rightarrow>
           bindW (clock E) (\<lambda>_.
           bindW (tryW (call [Mint probe nonce] (ev_mint E))) (\<lambda>m.
             case m of
               Inr s \<Rightarrow>
                 bindW (of_result (promote_pending (ev_cred E) rec (cr_issued probe) (cr_expires probe) (cr_scope rec)))
                   (\<lambda>new. bindW (creds_save E new) (\<lambda>_.
                     ret \<lparr>rn_id = cr_id new, rn_expires = cr_expires new, rn_recovered = True\<rparr>))
             | Inl e \<Rightarrow>
                 if fault_code_of e \<noteq> CodeCredentialInvalid then raise e else rotate_request E rec))))"

definition rotate_fresh :: "env \<Rightarrow> cred_record \<Rightarrow> rotation_result io" where
  "rotate_fresh E rec =
     bindW (tryW (call [] (ev_secret E))) (\<lambda>s.
       case s of
         Inl e \<Rightarrow> raise (fault_cause CodeCredentialStorage ''generate successor device credential'' e)
       | Inr secret \<Rightarrow>
           bindW (clock E) (\<lambda>now.
           bindW (of_result (with_pending (ev_cred E) rec secret now)) (\<lambda>rec'.
           bindW (creds_save E rec') (\<lambda>_. rotate_request E rec'))))"

definition rotate_body :: "env \<Rightarrow> rotation_result io" where
  "rotate_body E =
     bindW (load_credential E) (\<lambda>rec.
       if cr_pending rec \<noteq> None then rotate_pending E rec else rotate_fresh E rec)"

definition rotate_credential :: "env \<Rightarrow> rotation_result io" where
  "rotate_credential E = with_lock E ''credential-rotate'' (rotate_body E)"

end
