(* ===== verification/Session_Runs.thy ===== *)
theory Session_Runs
  imports Device_Session
begin

text \<open>
  What every run of \<open>Sync\<close> and \<open>Rotate\<close> keeps, on whichever exit, and what a successful one
  has done. The runs are taken apart stage by stage; each stage keeps a relation between the
  world before and after.
\<close>

section \<open>What the stages before the acknowledgement keep\<close>

definition acks :: "world \<Rightarrow> event list" where
  "acks w = filter (\<lambda>e. case e of Ack t g i d \<Rightarrow> True | _ \<Rightarrow> False) (w_log w)"

text \<open>
  No acknowledgement, the last-known state, the credential and the policy as they were, and no
  floor lowered.
\<close>

definition staged :: "world \<Rightarrow> world \<Rightarrow> bool" where
  "staged w w' \<longleftrightarrow>
     acks w' = acks w \<and> dk_last_known (w_disk w') = dk_last_known (w_disk w) \<and> w_creds w' = w_creds w \<and>
     dk_policy (w_disk w') = dk_policy (w_disk w) \<and>
     (\<forall>k. contract_level (w_disk w) k \<le> contract_level (w_disk w') k)"

interpretation staged: preorder_rel staged
proof
  fix u v w
  show "staged w w" by (simp add: staged_def)
  show "staged u v \<Longrightarrow> staged v w \<Longrightarrow> staged u w"
    unfolding staged_def by (metis le_trans)
  show "staged w (tick w)" by (simp add: staged_def acks_def)
qed

lemma acks_other [simp]: "acks (w\<lparr>w_disk := d\<rparr>) = acks w" "acks (w\<lparr>w_creds := c\<rparr>) = acks w" "acks (tick w) = acks w"
  by (simp_all add: acks_def)

lemma clear_enrollment_staged: "staged w (w\<lparr>w_disk := snd (clear_enrollment_secret io (w_disk w))\<rparr>)"
  by (simp add: clear_enrollment_secret_def remove_file_def staged_def contract_level_def)

lemma save_enrollment_staged: "staged w (w\<lparr>w_disk := snd (save_enrollment_secret io s (w_disk w))\<rparr>)"
  by (auto simp: save_enrollment_secret_def write_json_def Let_def staged_def contract_level_def
      split: option.splits write_outcome.splits)

lemma accept_signed_staged:
  "staged w (w\<lparr>w_disk := snd (accept_signed_config rio wio c v n i p g t (w_disk w))\<rparr>)"
proof -
  obtain e d' where step: "accept_signed_config rio wio c v n i p g t (w_disk w) = (e, d')" by (metis prod.exhaust)
  define a where "a = \<lparr>fo_read = rio, fo_write = wio, fo_controller = c, fo_device = v, fo_network = n,
    fo_config_id = i, fo_payload = p, fo_generation = g, fo_now = t\<rparr>"
  have offer: "offer_config a (w_disk w) = (e, d')" by (simp add: offer_config_def a_def step)
  have "contract_level (w_disk w) k \<le> contract_level d' k" for k by (rule config_floor.rises [OF offer])
  moreover have "dk_last_known d' = dk_last_known (w_disk w) \<and> dk_policy d' = dk_policy (w_disk w)"
    using accept_signed_config_cases [OF step] by auto
  ultimately show ?thesis by (simp add: staged_def step)
qed

lemma silent_event_staged: "\<forall>e \<in> set es. (case e of Ack t g i d \<Rightarrow> False | _ \<Rightarrow> True) \<Longrightarrow> staged w (w\<lparr>w_log := w_log w @ es\<rparr>)"
  by (auto simp: staged_def acks_def contract_level_def filter_empty_conv split: event.splits)

lemmas staged_steps = staged.disk_write_keeps [OF save_enrollment_staged]
  staged.disk_remove_keeps [OF clear_enrollment_staged]
  staged.disk_update_keeps [OF accept_signed_staged]

lemma staged_call: "\<forall>e \<in> set es. (case e of Ack t g i d \<Rightarrow> False | _ \<Rightarrow> True) \<Longrightarrow> keeps_rel staged (call es f)"
  by (intro staged.call_keeps silent_event_staged)

lemma handle_session_error_staged: "keeps_rel staged (handle_session_error E e)"
  unfolding handle_session_error_def by (intro keeps staged_steps)

lemma load_credential_staged: "keeps_rel staged (load_credential E)"
  unfolding load_credential_def by (intro keeps)

lemma load_bound_credential_staged: "keeps_rel staged (load_bound_credential E c d n k)"
  unfolding load_bound_credential_def by (intro keeps load_credential_staged)

lemma mint_session_staged: "keeps_rel staged (mint_session E rec)"
  unfolding mint_session_def by (intro keeps staged_steps staged_call) simp

lemma load_or_mint_session_staged: "keeps_rel staged (load_or_mint_session E rec)"
  unfolding load_or_mint_session_def by (intro keeps mint_session_staged)

lemma sync_config_staged: "keeps_rel staged (sync_config E v2 lk rec enr)"
  unfolding sync_config_def
  by (intro keeps staged_steps handle_session_error_staged staged_call) simp

lemma sync_policy_staged: "keeps_rel staged (sync_policy E rec enr c)"
  unfolding sync_policy_def session_policy_floor_def
  by (intro keeps staged_steps handle_session_error_staged staged_call) simp

lemma apply_runtime_staged: "keeps_rel staged (apply_runtime E check_op op c key)"
  unfolding apply_runtime_def apply_checked_def by (intro keeps staged_call) simp

lemma sync_runtime_staged: "keeps_rel staged (sync_runtime E c key)"
  unfolding sync_runtime_def by (intro keeps apply_runtime_staged)

section \<open>What a successful stage has established\<close>

lemma handle_session_error_fails [simp]: "handle_session_error E e w \<noteq> (Inr a, w')"
  by (simp add: handle_session_error_def bindW_def split: prod.split sum.split)

lemma load_credential_Inr:
  assumes "load_credential E w = (Inr rec, w')"
  shows "\<exists>r n. w_creds w = Some r \<and> clone_record r = Inr rec \<and> \<not> cred_expired rec (ev_now E n)"
  using assms
  by (auto simp: load_credential_def guard_simps clock_def creds_load_def memory_load_def store_of_def
      split: if_splits sum.splits option.splits)

lemma load_bound_credential_Inr:
  assumes "load_bound_credential E c d n k w = (Inr rec, w')"
  shows "\<exists>r m. w_creds w = Some r \<and> clone_record r = Inr rec \<and> \<not> cred_expired rec (ev_now E m) \<and>
    cr_controller rec = c \<and> cr_device rec = d \<and> cr_network rec = n \<and> cr_public_key rec = k"
  using assms load_credential_Inr by (fastforce simp: load_bound_credential_def guard_simps)

lemma load_last_known_Inr:
  "load_last_known io d = Inr l \<longleftrightarrow> dk_last_known d = Doc l \<and> io = ReadOk \<and> lk_schema l = 1"
  by (auto simp: load_last_known_def read_json_Inr)

text \<open>The configuration a run stages: verified with the stored keys, for this device, compiled.\<close>

definition proven_config :: "env \<Rightarrow> cred_record \<Rightarrow> signed_config \<Rightarrow> config \<Rightarrow> bool" where
  "proven_config E rec c k \<longleftrightarrow>
     (\<exists>n. verify (ev_signed E) c (cr_keys rec) (ev_now E n) = None) \<and>
     sc_device c = cr_device rec \<and> sc_network c = cr_network rec \<and>
     (\<exists>n. compile (ev_signed E) (ev_check E n) c = Inr k)"

lemma sync_config_Inr:
  assumes "sync_config E v2 lk rec enr w = (Inr ck, w')"
  shows "proven_config E rec (fst ck) (snd ck)"
proof -
  from assms obtain c k where "ck = (c, k)" "\<exists>n. verify (ev_signed E) c (cr_keys rec) (ev_now E n) = None"
    "sc_device c = cr_device rec" "sc_network c = cr_network rec" "\<exists>n. compile (ev_signed E) (ev_check E n) c = Inr k"
    by (cases v2) (auto simp: sync_config_def guard_simps clock_def eq_commute [of "Inr _" "compile _ _ _"])
  then show ?thesis by (simp add: proven_config_def)
qed

lemma accept_signed_level:
  assumes "accept_signed_config rio wio c v n i p g now d = (None, d')"
  shows "contract_level d' (c, v, n) = unat g"
proof -
  define a where "a = \<lparr>fo_read = rio, fo_write = wio, fo_controller = c, fo_device = v, fo_network = n,
    fo_config_id = i, fo_payload = p, fo_generation = g, fo_now = now\<rparr>"
  have "offer_config a d = (None, d')" by (simp add: offer_config_def a_def assms)
  from config_floor.accepts [OF this] show ?thesis by (simp add: a_def)
qed

lemma sync_config_level:
  assumes "sync_config E False lk rec enr w = (Inr ck, w')"
  shows "contract_level (w_disk w') (cr_controller rec, cr_device rec, cr_network rec) = unat (sc_generation (fst ck))"
proof -
  from assms have "\<exists>rio wio i p now d. accept_signed_config rio wio (cr_controller rec) (cr_device rec)
      (cr_network rec) i p (sc_generation (fst ck)) now d = (None, w_disk w')"
    by (auto simp: sync_config_def guard_simps clock_def eq_commute [of "Inr _" "compile _ _ _"]) blast
  with accept_signed_level show ?thesis by blast
qed

lemma session_policy_floor_Inr:
  assumes "session_policy_floor E n w = (Inr fl, w')"
  shows "unat (fl_generation fl) = policy_level (w_disk w) () \<and> w' = tick w"
  using assms load_policy_state_absent [of "ev_read E (w_tick w)" "w_disk w"]
  by (auto simp: session_policy_floor_def guard_simps load_policy_state_Inr policy_level_def
      split: if_splits)

lemma sync_policy_Inr:
  assumes "sync_policy E rec enr c w = (Inr a, w')"
  shows "\<exists>p raw r fl now m. sc_policy c = Some p \<and> sc_schema c = 2 \<and>
    reference_from_signed_config (sc_network c) (pr_generation p) (pr_digest p) (sc_expires c) = Inr r \<and>
    consume (ev_policy E) raw r fl now (ev_now E m) = Inr a \<and>
    policy_level (w_disk w) () \<le> unat (ac_generation a)"
proof -
  from assms obtain p r fl v raw now m where p: "sc_policy c = Some p" "sc_schema c = 2"
    and r: "reference_from_signed_config (sc_network c) (pr_generation p) (pr_digest p) (sc_expires c) = Inr r"
    and fl: "session_policy_floor E (cr_network rec) w = (Inr fl, v)"
    and c: "consume (ev_policy E) raw r fl now (ev_now E m) = Inr a"
    by (auto simp: sync_policy_def guard_simps clock_def)
  have "policy_level (w_disk w) () \<le> unat (ac_generation a)"
    using session_policy_floor_Inr [OF fl] consume_floor [OF c] by simp
  with p r c show ?thesis by blast
qed

lemma sync_runtime_Inr:
  assumes "sync_runtime E k key w = (Inr b, w')"
  shows "\<exists>n st. ev_status E n = Inr st \<and> runtime_matches st k"
  using assms by (auto simp: sync_runtime_def guard_simps split: if_splits)

lemma sync_ack_Inr:
  assumes "sync_ack E rec enr c w = (Inr u, w')"
  shows "\<exists>n a. ev_ack E n = Inr a \<and> ar_acked a \<and> ak_device (ar_ack a) = cr_device rec \<and>
    ak_config_id (ar_ack a) = sc_id c \<and> ak_generation (ar_ack a) = sc_generation c"
  using assms by (auto simp: sync_ack_def guard_simps clock_def)

section \<open>Taking a synchronization apart\<close>

text \<open>
  A run of the body either stops before the acknowledgement, or it reaches \<open>sync_finish\<close> with
  a configuration, a policy and a runtime that are proven.
\<close>

lemma sync_body_stages:
  assumes "sync_body E v2 w = (r, w')"
  obtains (early) e where "r = Inl e" "staged w w'"
    | (finish) lk cr m rec enr c k pol current v where
        "dk_last_known (w_disk w) = Doc lk" "w_creds w = Some cr" "clone_record cr = Inr rec"
        "\<not> cred_expired rec (ev_now E m)"
        "cr_controller rec = lk_server lk" "cr_device rec = lk_device lk" "cr_network rec = lk_network lk"
        "cr_public_key rec = lk_public_key lk" "proven_config E rec c k"
        "case pol of None \<Rightarrow> \<not> v2 | Some a \<Rightarrow> v2 \<and> policy_level (w_disk v) () \<le> unat (ac_generation a)"
        "\<exists>n st. ev_status E n = Inr st \<and> runtime_matches st k"
        "v2 \<or> unat (sc_generation c) \<le> contract_level (w_disk v) (cr_controller rec, cr_device rec, cr_network rec)"
        "staged w v" "sync_finish E v2 lk rec enr c k pol current v = (r, w')"
proof -
  from assms obtain x w1 where s1: "tryW (disk_read E load_last_known) w = (Inr x, w1)"
    and rest: "(case x of
         Inl e \<Rightarrow> if errors_is e StateNotFound then raise (fault CodeNotJoined ''sync overlay'') else raise e
       | Inr lk \<Rightarrow>
           bindW (load_bound_credential E (lk_server lk) (lk_device lk) (lk_network lk) (lk_public_key lk)) (\<lambda>rec.
           bindW (load_or_mint_session E rec) (\<lambda>enr.
           bindW (sync_config E v2 lk rec enr) (\<lambda>ck.
           bindW (if v2 then bindW (sync_policy E rec enr (fst ck)) (\<lambda>a. ret (Some a)) else ret None) (\<lambda>pol.
           bindW (sync_runtime E (snd ck) (lk_private_key lk)) (\<lambda>current.
             sync_finish E v2 lk rec enr (fst ck) (snd ck) pol current)))))) w1 = (r, w')"
    unfolding sync_body_def by (auto elim!: bindW_cases simp: guard_simps)
  have w1: "staged w w1" using s1 by (auto simp: guard_simps staged.R_tick)
  show ?thesis
  proof (cases x)
    case (Inl e)
    with rest have "w' = w1" "\<exists>e. r = Inl e" by (auto split: if_splits)
    with w1 early show ?thesis by blast
  next
    case (Inr lk)
    have lk: "dk_last_known (w_disk w) = Doc lk"
      using s1 Inr by (simp add: guard_simps load_last_known_Inr eq_commute [of "Inr lk"])
    note rest = rest [unfolded Inr sum.case]
    have stop: thesis if "staged w1 w'" "r = Inl e" for e
      using early staged.R_trans [OF w1] that by blast
    from rest show ?thesis
    proof (cases rule: bindW_cases)
      case (stopped e)
      then show ?thesis using stop keeps_relD [OF load_bound_credential_staged] by blast
    next
      case (went rec w2)
      have st2: "staged w w2"
        using staged.R_trans [OF w1] keeps_relD [OF load_bound_credential_staged went(1)] by blast
      from load_bound_credential_Inr [OF went(1)] w1 obtain cr m where rec: "w_creds w = Some cr"
        "clone_record cr = Inr rec" "\<not> cred_expired rec (ev_now E m)" "cr_controller rec = lk_server lk"
        "cr_device rec = lk_device lk" "cr_network rec = lk_network lk" "cr_public_key rec = lk_public_key lk"
        by (auto simp: staged_def)
      from went(2) show ?thesis
      proof (cases rule: bindW_cases)
        case (stopped e)
        then show ?thesis using early staged.R_trans [OF st2] keeps_relD [OF load_or_mint_session_staged] by blast
      next
        case (went enr w3)
        have st3: "staged w w3"
          using staged.R_trans [OF st2] keeps_relD [OF load_or_mint_session_staged went(1)] by blast
        from went(2) show ?thesis
        proof (cases rule: bindW_cases)
          case (stopped e)
          then show ?thesis using early staged.R_trans [OF st3] keeps_relD [OF sync_config_staged] by blast
        next
          case (went ck w4)
          have st4: "staged w w4"
            using staged.R_trans [OF st3] keeps_relD [OF sync_config_staged went(1)] by blast
          note ck = sync_config_Inr [OF went(1)]
          have lvl: "v2 \<or> contract_level (w_disk w4) (cr_controller rec, cr_device rec, cr_network rec)
              = unat (sc_generation (fst ck))"
            using sync_config_level went(1) by (cases v2) auto
          have pol_staged: "keeps_rel staged
              (if v2 then bindW (sync_policy E rec enr (fst ck)) (\<lambda>a. ret (Some a)) else ret None)"
            by (intro keeps sync_policy_staged)
          from went(2) show ?thesis
          proof (cases rule: bindW_cases)
            case (stopped e)
            then show ?thesis using early staged.R_trans [OF st4] keeps_relD [OF pol_staged] by blast
          next
            case (went pol w5)
            have st45: "staged w4 w5" by (rule keeps_relD [OF pol_staged went(1)])
            have pol: "case pol of None \<Rightarrow> \<not> v2 | Some a \<Rightarrow> v2 \<and> policy_level (w_disk w4) () \<le> unat (ac_generation a)"
              using went(1) by (auto simp: guard_simps dest!: sync_policy_Inr split: if_splits)
            from went(2) show ?thesis
            proof (cases rule: bindW_cases)
              case (stopped e)
              then show ?thesis
                using early staged.R_trans [OF st4] staged.R_trans [OF st45] keeps_relD [OF sync_runtime_staged] by blast
            next
              case (went current v)
              have st5v: "staged w5 v" by (rule keeps_relD [OF sync_runtime_staged went(1)])
              have "policy_level (w_disk v) () = policy_level (w_disk w4) ()"
                using st45 st5v by (simp add: staged_def policy_level_def)
              with pol have polv: "case pol of None \<Rightarrow> \<not> v2
                  | Some a \<Rightarrow> v2 \<and> policy_level (w_disk v) () \<le> unat (ac_generation a)"
                by (simp split: option.splits)
              have st4v: "staged w4 v" by (rule staged.R_trans [OF st45 st5v])
              have stv: "staged w v" by (rule staged.R_trans [OF st4 st4v])
              have lvlv: "v2 \<or> unat (sc_generation (fst ck)) \<le>
                  contract_level (w_disk v) (cr_controller rec, cr_device rec, cr_network rec)"
              proof -
                have "contract_level (w_disk w4) k \<le> contract_level (w_disk v) k" for k
                  using st4v unfolding staged_def by blast
                with lvl show ?thesis by metis
              qed
              show ?thesis
                by (rule finish [OF lk rec ck polv sync_runtime_Inr [OF went(1)] lvlv stv went(2)])
            qed
          qed
        qed
      qed
    qed
  qed
qed

section \<open>The acknowledgement and what follows it\<close>

text \<open>The last-known state a synchronization writes.\<close>

definition next_known :: "last_known \<Rightarrow> signed_config \<Rightarrow> config \<Rightarrow> gotime \<Rightarrow> last_known" where
  "next_known lk c k now = last_known_form (lk\<lparr>lk_config := k, lk_contract := ''signed'', lk_config_id := sc_id c,
     lk_generation := sc_generation c, lk_updated := to_utc now, lk_schema := 1\<rparr>)"

lemma sync_ack_any:
  assumes "sync_ack E rec enr c w = (r, w')"
  shows "acks w' = acks w @ [Ack (en_token enr) (sc_generation c) (sc_id c) (cr_device rec)] \<and>
    dk_last_known (w_disk w') = dk_last_known (w_disk w) \<and> w_creds w' = w_creds w \<and>
    dk_policy (w_disk w') = dk_policy (w_disk w) \<and>
    (\<forall>k. contract_level (w_disk w) k \<le> contract_level (w_disk w') k)"
proof -
  let ?ev = "Ack (en_token enr) (sc_generation c) (sc_id c) (cr_device rec)"
  let ?rest = "\<lambda>r. case r of
         Inl e \<Rightarrow> handle_session_error E e
       | Inr a \<Rightarrow>
           ifW (\<not> ar_acked a \<or> ak_device (ar_ack a) \<noteq> cr_device rec \<or> ak_config_id (ar_ack a) \<noteq> sc_id c \<or>
                ak_generation (ar_ack a) \<noteq> sc_generation c)
             (fault CodeInvalidResponse ''acknowledge device sync'') (ret ())"
  define w1 where "w1 = tick ((tick w)\<lparr>w_log := w_log w @ [?ev]\<rparr>)"
  have run: "?rest (ev_ack E (Suc (w_tick w))) w1 = (r, w')"
    using assms unfolding sync_ack_def w1_def
    by (simp only: bind_clock bind_try_call tick_simps)
  have "keeps_rel staged (?rest x)" for x by (intro keeps handle_session_error_staged)
  from keeps_relD [OF this run] have "staged w1 w'" .
  moreover have "acks w1 = acks w @ [?ev]" by (simp add: w1_def acks_def)
  ultimately show ?thesis by (simp add: staged_def w1_def)
qed

text \<open>The floors between two worlds; no acknowledgement, the last-known state as it was.\<close>

definition floors_rise :: "world \<Rightarrow> world \<Rightarrow> bool" where
  "floors_rise w w' \<longleftrightarrow>
     (\<forall>k. contract_level (w_disk w) k \<le> contract_level (w_disk w') k) \<and>
     policy_level (w_disk w) () \<le> policy_level (w_disk w') ()"

lemma floors_rise_trans: "floors_rise u v \<Longrightarrow> floors_rise v w \<Longrightarrow> floors_rise u w"
  unfolding floors_rise_def by (metis le_trans)

lemma staged_floors: "staged w w' \<Longrightarrow> floors_rise w w'"
  by (simp add: staged_def floors_rise_def policy_level_def)

lemma save_policy_any:
  assumes "disk_write E (\<lambda>io. save_policy_state io (policy_of a now)) w = (r, w')"
    and "policy_level (w_disk w) () \<le> unat (ac_generation a)"
  shows "floors_rise w w' \<and> acks w' = acks w \<and> dk_last_known (w_disk w') = dk_last_known (w_disk w) \<and>
    w_creds w' = w_creds w"
proof -
  from assms(1) obtain e d where s: "save_policy_state (ev_write E (w_tick w)) (policy_of a now) (w_disk w) = (e, d)"
    and w': "w' = tick (w\<lparr>w_disk := d\<rparr>)"
    by (auto simp: guard_simps)
  from save_policy_state_cases [OF s] assms(2) show ?thesis
    by (auto simp: w' floors_rise_def contract_level_def policy_level_def policy_of_def)
qed

lemma sync_commit_v2_any:
  assumes "sync_commit_v2 E rec c k a w = (r, w')" and "policy_level (w_disk w) () \<le> unat (ac_generation a)"
  shows "floors_rise w w' \<and> acks w' = acks w \<and> dk_last_known (w_disk w') = dk_last_known (w_disk w) \<and>
    w_creds w' = w_creds w"
proof -
  define acc where "acc = bindW (clock E) (\<lambda>now. disk_update E (\<lambda>rio wio. accept_signed_config rio wio
    (cr_controller rec) (cr_device rec) (cr_network rec) (sc_id c) (cf_digest k) (sc_generation c) now))"
  have acc: "keeps_rel staged acc" unfolding acc_def by (intro keeps staged_steps)
  have split: "sync_commit_v2 E rec c k a = bindW acc (\<lambda>u. bindW (clock E) (\<lambda>now'.
      disk_write E (\<lambda>io. save_policy_state io (policy_of a now'))))"
    by (rule ext) (auto simp: sync_commit_v2_def acc_def bindW_def split: prod.splits sum.splits)
  from assms(1) [unfolded split] show ?thesis
  proof (cases rule: bindW_cases)
    case (stopped e)
    with keeps_relD [OF acc] staged_floors show ?thesis by (fastforce simp: staged_def)
  next
    case (went u v)
    have st: "staged w v" by (rule keeps_relD [OF acc went(1)])
    from went(2) obtain now where "disk_write E (\<lambda>io. save_policy_state io (policy_of a now)) (tick v) = (r, w')"
      by (auto simp: clock_def call_def bindW_def tick_def)
    moreover have "policy_level (w_disk (tick v)) () \<le> unat (ac_generation a)"
      using st assms(2) by (simp add: staged_def policy_level_def)
    ultimately have "floors_rise (tick v) w' \<and> acks w' = acks (tick v) \<and>
        dk_last_known (w_disk w') = dk_last_known (w_disk (tick v)) \<and> w_creds w' = w_creds (tick v)"
      by (rule save_policy_any)
    with st staged_floors [OF st] show ?thesis
      using floors_rise_trans [of w "tick v" w'] by (simp add: staged_def floors_rise_def)
  qed
qed

text \<open>Only the enrollment secret and the credential change after the last-known state is written.\<close>

definition settled :: "world \<Rightarrow> world \<Rightarrow> bool" where
  "settled w w' \<longleftrightarrow> acks w' = acks w \<and> dk_contract (w_disk w') = dk_contract (w_disk w) \<and>
     dk_policy (w_disk w') = dk_policy (w_disk w) \<and> dk_last_known (w_disk w') = dk_last_known (w_disk w)"

interpretation settled: preorder_rel settled
  by unfold_locales (auto simp: settled_def)

lemma clear_enrollment_settled: "settled w (w\<lparr>w_disk := snd (clear_enrollment_secret io (w_disk w))\<rparr>)"
  by (simp add: clear_enrollment_secret_def remove_file_def settled_def)

lemma creds_save_settled: "keeps_rel settled (creds_save E r)"
  by (auto simp: keeps_rel_def creds_save_def settled_def split: prod.split)

lemma sync_commit_any:
  assumes "sync_commit E lk rec enr c k w = (r, w')"
  shows "acks w' = acks w \<and> floors_rise w w' \<and>
    (dk_last_known (w_disk w') = dk_last_known (w_disk w) \<or>
     (\<exists>n. dk_last_known (w_disk w') = Doc (next_known lk c k (ev_now E n))))"
proof -
  let ?new = "\<lambda>now. lk\<lparr>lk_config := k, lk_contract := ''signed'', lk_config_id := sc_id c,
    lk_generation := sc_generation c, lk_updated := to_utc now\<rparr>"
  let ?rest = "bindW (tryW (creds_save E (rec\<lparr>cr_keys := en_keys enr\<rparr>))) (\<lambda>r.
       case r of
         Inl e \<Rightarrow> raise (fault_cause CodeCredentialStorage ''commit verified signing keys'' e)
       | Inr u \<Rightarrow> disk_remove E clear_enrollment_secret)"
  have rest: "keeps_rel settled ?rest"
    by (intro keeps creds_save_settled settled.disk_remove_keeps clear_enrollment_settled)
  define now where "now = ev_now E (w_tick w)"
  have run: "bindW (disk_write E (\<lambda>io. save_last_known io (?new now))) (\<lambda>_. ?rest) (tick w) = (r, w')"
    using assms unfolding sync_commit_def now_def by (simp add: bindW_def clock_def call_def tick_def)
  have first: "acks v = acks w \<and> dk_contract (w_disk v) = dk_contract (w_disk w) \<and>
      dk_policy (w_disk v) = dk_policy (w_disk w) \<and>
      (dk_last_known (w_disk v) = dk_last_known (w_disk w) \<or>
       dk_last_known (w_disk v) = Doc (next_known lk c k (ev_now E (w_tick w))))"
    if "disk_write E (\<lambda>io. save_last_known io (?new now)) (tick w) = (x, v)" for x v
    using that
    by (auto simp: guard_simps save_last_known_def write_json_def next_known_def now_def
        split: write_outcome.splits)
  from run show ?thesis
  proof (cases rule: bindW_cases)
    case (stopped e)
    from first [OF stopped(1)] show ?thesis
      by (auto simp: floors_rise_def contract_level_def policy_level_def)
  next
    case (went u v)
    from first [OF went(1)] keeps_relD [OF rest went(2)] show ?thesis
      by (auto simp: settled_def floors_rise_def contract_level_def policy_level_def)
  qed
qed

lemma sync_finish_any:
  assumes run: "sync_finish E v2 lk rec enr c k pol current w = (r, w')"
    and pol: "case pol of None \<Rightarrow> \<not> v2 | Some a \<Rightarrow> v2 \<and> policy_level (w_disk w) () \<le> unat (ac_generation a)"
  shows "acks w' = acks w @ [Ack (en_token enr) (sc_generation c) (sc_id c) (cr_device rec)] \<and> floors_rise w w' \<and>
    (dk_last_known (w_disk w') = dk_last_known (w_disk w) \<or>
     (\<exists>n. dk_last_known (w_disk w') = Doc (next_known lk c k (ev_now E n))))"
  using run unfolding sync_finish_def
proof (cases rule: bindW_cases)
  case (stopped e)
  from sync_ack_any [OF stopped(1)] show ?thesis by (simp add: floors_rise_def policy_level_def)
next
  case (went u w1)
  note ack = sync_ack_any [OF went(1)]
  have lvl: "floors_rise w w1" using ack by (simp add: floors_rise_def policy_level_def)
  from went(2) show ?thesis
  proof (cases rule: bindW_cases)
    case (stopped e)
    then obtain a where a: "pol = Some a" "sync_commit_v2 E rec c k a w1 = (Inl e, w')" by (cases pol) auto
    have "policy_level (w_disk w1) () \<le> unat (ac_generation a)" using pol a(1) ack by (simp add: policy_level_def)
    from sync_commit_v2_any [OF a(2) this] ack floors_rise_trans [OF lvl] show ?thesis by auto
  next
    case (went u' w2)
    have c2: "floors_rise w1 w2 \<and> acks w2 = acks w1 \<and> dk_last_known (w_disk w2) = dk_last_known (w_disk w1)"
    proof (cases pol)
      case None
      with went(1) show ?thesis by (simp add: floors_rise_def)
    next
      case (Some a)
      then have "policy_level (w_disk w1) () \<le> unat (ac_generation a)" using pol ack by (simp add: policy_level_def)
      with went(1) Some show ?thesis using sync_commit_v2_any by auto
    qed
    from went(2) obtain x where "sync_commit E lk rec enr c k w2 = (x, w')"
      by (auto elim: bindW_cases)
    from sync_commit_any [OF this] c2 ack floors_rise_trans [OF lvl] show ?thesis
      using floors_rise_trans [of w w2 w'] by auto
  qed
qed

section \<open>Properties of a synchronization\<close>

text \<open>The lock around the body adds only its own two events.\<close>

lemma with_lock_staged:
  assumes "with_lock E name body w = (r, w')"
  obtains (refused) e where "r = Inl e" "staged w w'" "dk_contract (w_disk w') = dk_contract (w_disk w)"
    | (ran) u v where "body u = (r, v)" "acks u = acks w" "w_disk u = w_disk w" "w_creds u = w_creds w"
        "acks w' = acks v" "w_disk w' = w_disk v" "w_creds w' = w_creds v"
  using assms
proof (cases rule: with_lock_cases)
  case (refused e)
  with that(1) show ?thesis by (simp add: staged.R_tick)
next
  case (ran v)
  with that(2) [OF ran(1)] show ?thesis by (simp add: acks_def)
qed

text \<open>
  C9. Whatever the control plane, the runtime, the clock and the file system answer, and on
  every exit, a synchronization lowers neither the floor of any signed configuration nor that
  of the policy.
\<close>

theorem sync_never_lowers_floors:
  assumes "sync E v2 w = (r, w')"
  shows "contract_level (w_disk w) k \<le> contract_level (w_disk w') k \<and>
    policy_level (w_disk w) () \<le> policy_level (w_disk w') ()"
  using assms unfolding sync_def
proof (cases rule: with_lock_staged)
  case (refused e)
  then show ?thesis using staged_floors unfolding floors_rise_def by blast
next
  case (ran u v)
  from ran(1) have "floors_rise u v"
  proof (cases rule: sync_body_stages)
    case (early e)
    then show ?thesis by (simp add: staged_floors)
  next
    case (finish lk cr m rec enr c k pol current x)
    from staged_floors [OF finish(13)] sync_finish_any [OF finish(14) finish(10)] show ?thesis
      using floors_rise_trans [of u x v] by blast
  qed
  with ran show ?thesis by (cases k) (simp add: floors_rise_def)
qed

text \<open>
  What a run has proven about a configuration: it was verified with the signing keys of the
  stored credential, unexpired and bound to the last-known state, is for this device and
  network, compiles to \<open>k\<close>, and the runtime reported \<open>k\<close> as applied.
\<close>

definition proven_run :: "env \<Rightarrow> world \<Rightarrow> last_known \<Rightarrow> cred_record \<Rightarrow> signed_config \<Rightarrow> config \<Rightarrow> bool" where
  "proven_run E w lk rec c k \<longleftrightarrow>
     dk_last_known (w_disk w) = Doc lk \<and> (\<exists>cr. w_creds w = Some cr \<and> clone_record cr = Inr rec) \<and>
     (\<exists>n. \<not> cred_expired rec (ev_now E n)) \<and> cr_controller rec = lk_server lk \<and> cr_device rec = lk_device lk \<and>
     cr_network rec = lk_network lk \<and> cr_public_key rec = lk_public_key lk \<and> proven_config E rec c k \<and>
     (\<exists>n st. ev_status E n = Inr st \<and> runtime_matches st k)"

text \<open>
  C8. A synchronization acknowledges at most one configuration, and only one that was
  verified with the signing keys of the stored, unexpired and bound credential, is for this
  device and network, and that the runtime reported as applied. Without an acknowledgement the
  last-known state is untouched; with one it is the old one, or that of the acknowledged
  configuration with the device's identity and keys unchanged.
\<close>

theorem sync_acknowledges_only_proven:
  assumes "sync E v2 w = (r, w')"
  shows "acks w' = acks w \<and> dk_last_known (w_disk w') = dk_last_known (w_disk w) \<or>
    (\<exists>lk rec c k t. proven_run E w lk rec c k \<and>
       acks w' = acks w @ [Ack t (sc_generation c) (sc_id c) (lk_device lk)] \<and>
       (dk_last_known (w_disk w') = dk_last_known (w_disk w) \<or>
        (\<exists>now. dk_last_known (w_disk w') = Doc (next_known lk c k now))))"
  using assms unfolding sync_def
proof (cases rule: with_lock_staged)
  case (refused e)
  then show ?thesis by (simp add: staged_def)
next
  case (ran u v)
  from ran(1) show ?thesis
  proof (cases rule: sync_body_stages)
    case (early e)
    with ran show ?thesis by (simp add: staged_def)
  next
    case (finish lk cr m rec enr c k pol current x)
    have run: "proven_run E w lk rec c k"
      unfolding proven_run_def using finish(1-9,11) ran by metis
    have x: "acks x = acks w" "dk_last_known (w_disk x) = dk_last_known (w_disk w)"
      using finish(13) ran by (simp_all add: staged_def)
    have "acks w' = acks w @ [Ack (en_token enr) (sc_generation c) (sc_id c) (lk_device lk)]"
      "dk_last_known (w_disk w') = dk_last_known (w_disk w) \<or>
       (\<exists>now. dk_last_known (w_disk w') = Doc (next_known lk c k now))"
      using sync_finish_any [OF finish(14) finish(10)] x ran finish(6) by auto
    with run show ?thesis by blast
  qed
qed

text \<open>A commit that succeeds wrote the last-known state and the verified keys.\<close>

lemma creds_save_any:
  assumes "creds_save E r w = (x, w')"
  shows "w_disk w' = w_disk w \<and> w_log w' = w_log w \<and>
    (if x = Inr () then record_validate (ev_cred E) r = None \<and> w_creds w' = Some (record_form r)
     else w_creds w' = w_creds w)"
proof -
  obtain e s where m: "memory_save (ev_cred E) r (store_of E w) = (e, s)" by (metis prod.exhaust)
  with assms have x: "x = of_option e" and w': "w' = tick (w\<lparr>w_creds := ms_record s\<rparr>)"
    by (auto simp: creds_save_def)
  show ?thesis
    using mem_store.save_ok [of "ev_cred E" r "store_of E w" s] mem_store.save_failed [of "ev_cred E" r "store_of E w" _ s] m
    by (cases e) (auto simp: x w' of_option_def store_of_def)
qed

lemma sync_commit_Inr:
  assumes "sync_commit E lk rec enr c k w = (Inr u, w')"
  shows "(\<exists>now. dk_last_known (w_disk w') = Doc (next_known lk c k now)) \<and>
    w_creds w' = Some (record_form (rec\<lparr>cr_keys := en_keys enr\<rparr>)) \<and> dk_contract (w_disk w') = dk_contract (w_disk w) \<and>
    dk_policy (w_disk w') = dk_policy (w_disk w)"
proof -
  from assms obtain now v1 v2 x v3 where known: "disk_write E (\<lambda>io. save_last_known io (lk\<lparr>lk_config := k,
        lk_contract := ''signed'', lk_config_id := sc_id c, lk_generation := sc_generation c, lk_updated := to_utc now\<rparr>))
        v1 = (Inr (), v2)"
    and v1: "w_disk v1 = w_disk w"
    and save: "creds_save E (rec\<lparr>cr_keys := en_keys enr\<rparr>) v2 = (Inr x, v3)"
    and clear: "disk_remove E clear_enrollment_secret v3 = (Inr u, w')"
    unfolding sync_commit_def bind_clock by (fastforce simp: bindW_Inr tryW_eq sum_case_eq)
  from known have k1: "dk_last_known (w_disk v2) = Doc (next_known lk c k now)"
    "dk_contract (w_disk v2) = dk_contract (w_disk w)" "dk_policy (w_disk v2) = dk_policy (w_disk w)"
    by (auto simp: disk_write_eq save_last_known_def write_json_def next_known_def v1 split: write_outcome.splits)
  from clear have "dk_last_known (w_disk w') = dk_last_known (w_disk v3)" "w_creds w' = w_creds v3"
    "dk_contract (w_disk w') = dk_contract (w_disk v3)" "dk_policy (w_disk w') = dk_policy (w_disk v3)"
    by (auto simp: disk_remove_eq clear_enrollment_secret_def remove_file_def split: if_splits)
  with k1 creds_save_any [OF save] show ?thesis by auto
qed

lemma sync_commit_v2_Inr:
  assumes "sync_commit_v2 E rec c k a w = (Inr u, w')"
  shows "contract_level (w_disk w') (cr_controller rec, cr_device rec, cr_network rec) = unat (sc_generation c) \<and>
    (\<exists>now. dk_policy (w_disk w') = Doc ((policy_of a now)\<lparr>po_schema := 1\<rparr>))"
proof -
  from assms obtain u1 v2 where acc: "disk_update E (\<lambda>rio wio. accept_signed_config rio wio (cr_controller rec)
        (cr_device rec) (cr_network rec) (sc_id c) (cf_digest k) (sc_generation c) (ev_now E (w_tick w))) (tick w)
        = (Inr u1, v2)"
    and pol: "disk_write E (\<lambda>io. save_policy_state io (policy_of a (ev_now E (w_tick v2)))) (tick v2) = (Inr u, w')"
    unfolding sync_commit_v2_def bind_clock bindW_Inr by blast
  from acc have "contract_level (w_disk v2) (cr_controller rec, cr_device rec, cr_network rec) = unat (sc_generation c)"
    by (auto simp: disk_update_eq dest: accept_signed_level)
  moreover from pol obtain io now d where saved: "save_policy_state io (policy_of a now) (w_disk v2) = (None, d)"
    and d: "w_disk w' = d" by (auto simp: disk_write_eq)
  from save_policy_state_cases [OF saved] d have "contract_level (w_disk w') x = contract_level (w_disk v2) x" for x
    by (cases x) (simp add: contract_level_bindings)
  moreover from save_policy_state_cases [OF saved] d have "dk_policy (w_disk w') = Doc ((policy_of a now)\<lparr>po_schema := 1\<rparr>)"
    by simp
  ultimately show ?thesis by auto
qed

lemma sync_finish_Inr:
  assumes run: "sync_finish E v2 lk rec enr c k pol current w = (Inr s, w')"
    and lvl: "pol \<noteq> None \<or> unat (sc_generation c) \<le> contract_level (w_disk w) (cr_controller rec, cr_device rec, cr_network rec)"
  shows "s = \<lparr>sy_device = cr_device rec, sy_network = cr_network rec, sy_revision = cf_revision k,
      sy_generation = sc_generation c, sy_current = current\<rparr> \<and>
    (\<exists>now. dk_last_known (w_disk w') = Doc (next_known lk c k now)) \<and>
    w_creds w' = Some (record_form (rec\<lparr>cr_keys := en_keys enr\<rparr>)) \<and>
    unat (sc_generation c) \<le> contract_level (w_disk w') (cr_controller rec, cr_device rec, cr_network rec) \<and>
    (\<forall>a. pol = Some a \<longrightarrow> (\<exists>now. dk_policy (w_disk w') = Doc ((policy_of a now)\<lparr>po_schema := 1\<rparr>)))"
proof -
  from run obtain u1 u2 u3 w1 w2 where ack: "sync_ack E rec enr c w = (Inr u1, w1)"
    and two: "(case pol of None \<Rightarrow> ret () | Some a \<Rightarrow> sync_commit_v2 E rec c k a) w1 = (Inr u2, w2)"
    and com: "sync_commit E lk rec enr c k w2 = (Inr u3, w')"
    and s: "s = \<lparr>sy_device = cr_device rec, sy_network = cr_network rec, sy_revision = cf_revision k,
      sy_generation = sc_generation c, sy_current = current\<rparr>"
    unfolding sync_finish_def by (auto simp: bindW_Inr)
  have levels: "unat (sc_generation c) \<le> contract_level (w_disk w2) (cr_controller rec, cr_device rec, cr_network rec) \<and>
      (\<forall>a. pol = Some a \<longrightarrow> (\<exists>now. dk_policy (w_disk w2) = Doc ((policy_of a now)\<lparr>po_schema := 1\<rparr>)))"
  proof (cases pol)
    case None
    with two lvl sync_ack_any [OF ack] show ?thesis by (auto intro: le_trans)
  next
    case (Some a)
    with two sync_commit_v2_Inr [of E rec c k a w1 u2 w2] show ?thesis by auto
  qed
  note sync_commit_Inr [OF com]
  moreover from this have "contract_level (w_disk w') x = contract_level (w_disk w2) x" for x
    by (cases x) (simp add: contract_level_bindings)
  ultimately show ?thesis using s levels by simp
qed

text \<open>
  A synchronization that returns a result has done everything it reports: a configuration
  was proven and is now the last-known state, the credential holds the keys of the session
  with everything else unchanged, and the floor is at least the configuration's generation.
\<close>

theorem sync_success:
  assumes "sync E v2 w = (Inr s, w')"
  shows "\<exists>lk rec c k keys now. proven_run E w lk rec c k \<and> sy_device s = lk_device lk \<and> sy_network s = lk_network lk \<and>
    sy_revision s = cf_revision k \<and> sy_generation s = sc_generation c \<and>
    dk_last_known (w_disk w') = Doc (next_known lk c k now) \<and> w_creds w' = Some (record_form (rec\<lparr>cr_keys := keys\<rparr>)) \<and>
    unat (sc_generation c) \<le> contract_level (w_disk w') (lk_server lk, lk_device lk, lk_network lk)"
  using assms unfolding sync_def
proof (cases rule: with_lock_staged)
  case (refused e)
  then show ?thesis by simp
next
  case (ran u v)
  from ran(1) show ?thesis
  proof (cases rule: sync_body_stages)
    case (early e)
    then show ?thesis by simp
  next
    case (finish lk cr m rec enr c k pol current x)
    have run: "proven_run E w lk rec c k"
      unfolding proven_run_def using finish(1-9,11) ran by metis
    have "pol \<noteq> None \<or> unat (sc_generation c) \<le> contract_level (w_disk x) (cr_controller rec, cr_device rec, cr_network rec)"
      using finish(10,12) by (cases pol) auto
    note fin = sync_finish_Inr [OF finish(14) this]
    then obtain now where now: "dk_last_known (w_disk w') = Doc (next_known lk c k now)" using ran by auto
    show ?thesis
      by (intro exI [of _ lk] exI [of _ rec] exI [of _ c] exI [of _ k] exI [of _ "en_keys enr"] exI [of _ now])
        (use run fin now ran finish(5-7) in simp)
  qed
qed

section \<open>Properties of a rotation\<close>

definition rotates :: "world \<Rightarrow> event list" where
  "rotates w = filter (\<lambda>e. case e of Rotate r i v \<Rightarrow> True | _ \<Rightarrow> False) (w_log w)"

lemma rotates_other [simp]: "rotates (w\<lparr>w_disk := d\<rparr>) = rotates w" "rotates (w\<lparr>w_creds := c\<rparr>) = rotates w"
  "rotates (tick w) = rotates w"
  by (simp_all add: rotates_def)

definition still :: "world \<Rightarrow> world \<Rightarrow> bool" where
  "still w w' \<longleftrightarrow> rotates w' = rotates w \<and> w_creds w' = w_creds w"

interpretation still: preorder_rel still
  by unfold_locales (auto simp: still_def)

text \<open>
  What a rotation may leave in the store: the binding, the secret it had and its pending
  successor, or that successor as the secret.
\<close>

definition same_owner :: "cred_record \<Rightarrow> cred_record \<Rightarrow> bool" where
  "same_owner a b \<longleftrightarrow> cr_controller b = cr_controller a \<and> cr_device b = cr_device a \<and> cr_network b = cr_network a \<and>
     cr_platform b = cr_platform a \<and> cr_public_key b = cr_public_key a"

definition holds_secret :: "cred_record \<Rightarrow> pending_rotation \<Rightarrow> bool" where
  "holds_secret r q \<longleftrightarrow> cr_pending r = Some q \<or> (cr_id r = pe_id q \<and> cr_credential r = pe_credential q)"

text \<open>The new secret is active only after the controller answered for it.\<close>

definition answered :: "env \<Rightarrow> bool" where
  "answered E \<longleftrightarrow> (\<exists>n s. ev_mint E n = Inr s) \<or> (\<exists>n x. ev_rotate E n = Inr x)"

definition rotated :: "env \<Rightarrow> cred_record \<Rightarrow> pending_rotation \<Rightarrow> error + rotation_result \<Rightarrow> world \<Rightarrow> bool" where
  "rotated E rec q r w \<longleftrightarrow>
     (\<exists>c. w_creds w = Some c \<and> same_owner rec c \<and> holds_secret c q \<and>
        (cr_credential c = cr_credential rec \<and> cr_id c = cr_id rec \<or> answered E) \<and>
        (\<forall>x. r = Inr x \<longrightarrow> cr_pending c = None \<and> cr_id c = rn_id x \<and> rn_id x = pe_id q \<and> answered E))"

lemma record_form_simps [simp]:
  "cr_controller (record_form r) = cr_controller r" "cr_device (record_form r) = cr_device r"
  "cr_network (record_form r) = cr_network r" "cr_platform (record_form r) = cr_platform r"
  "cr_public_key (record_form r) = cr_public_key r" "cr_id (record_form r) = cr_id r"
  "cr_credential (record_form r) = cr_credential r" "cr_pending (record_form r) = cr_pending r"
  by (simp_all add: record_form_def)

lemma save_promoted:
  assumes "promote_pending (ev_cred E) rec i x s = Inr new" and "cr_pending rec = Some q"
    and "creds_save E new w = (res, v)" and "w_creds w = Some c" and "same_owner rec c" "cr_pending c = Some q"
    "cr_credential c = cr_credential rec" "cr_id c = cr_id rec" and "answered E"
  shows "rotates v = rotates w \<and> rotated E rec q
    (case res of Inl e \<Rightarrow> Inl e | Inr u \<Rightarrow> Inr \<lparr>rn_id = cr_id new, rn_expires = cr_expires new, rn_recovered = b\<rparr>) v"
proof -
  from promote_pending_Inr [OF assms(1)] assms(2) have new: "new = rec\<lparr>cr_id := pe_id q, cr_credential := pe_credential q,
      cr_issued := to_utc i, cr_expires := to_utc x, cr_scope := s, cr_pending := None\<rparr>" by auto
  note save = creds_save_any [OF assms(3)]
  show ?thesis
  proof (cases res)
    case (Inl e)
    with save assms(4-9) show ?thesis by (simp add: rotated_def holds_secret_def rotates_def)
  next
    case (Inr u)
    with save assms(9) show ?thesis
      by (simp add: rotated_def holds_secret_def rotates_def same_owner_def new)
  qed
qed

lemma rotate_request_any:
  assumes run: "rotate_request E rec w = (r, w')" and q: "cr_pending rec = Some q"
    and c: "w_creds w = Some c" "same_owner rec c" "cr_pending c = Some q"
      "cr_credential c = cr_credential rec" "cr_id c = cr_id rec"
  shows "rotates w' = rotates w @ [Rotate rec (pe_id q) (pe_verifier q)] \<and> rotated E rec q r w'"
proof -
  let ?ev = "Rotate rec (pe_id q) (pe_verifier q)"
  define w1 where "w1 = tick ((tick w)\<lparr>w_log := w_log w @ [?ev]\<rparr>)"
  have w1: "w_creds w1 = Some c" "rotates w1 = rotates w @ [?ev]" by (simp_all add: w1_def c rotates_def)
  have keep: "rotated E rec q (Inl e) w1" for e using c w1(1) by (simp add: rotated_def holds_secret_def)
  show ?thesis
  proof (cases "ev_rotate E (Suc (w_tick w))")
    case (Inl e)
    with run have "r = Inl e" "w' = w1"
      by (auto simp: rotate_request_def q bind_clock w1_def) (auto simp: bindW_def call_def)
    with w1 keep show ?thesis by simp
  next
    case (Inr resp)
    then have ans: "answered E" unfolding answered_def by blast
    show ?thesis
    proof (cases "promote_pending (ev_cred E) rec (ro_issued resp) (ro_expires resp) (ro_scope resp)")
      case (Inl e)
      with run Inr have "r = Inl e" "w' = w1"
        by (auto simp: rotate_request_def q bind_clock w1_def) (auto simp: bindW_def call_def)
      with w1 keep show ?thesis by simp
    next
      case new: (Inr new)
      obtain res v where s: "creds_save E new w1 = (res, v)" by (metis prod.exhaust)
      have "w' = v \<and> r = (case res of Inl e \<Rightarrow> Inl e
          | Inr u \<Rightarrow> Inr \<lparr>rn_id = cr_id new, rn_expires = cr_expires new, rn_recovered = False\<rparr>)"
        using run Inr new s
        by (simp add: rotate_request_def q bind_clock) (auto simp: bindW_def call_def w1_def split: sum.splits)
      with save_promoted [OF new q s w1(1) c(2-5) ans, where b = False] w1(2) show ?thesis by simp
    qed
  qed
qed

lemma rotate_pending_any:
  assumes run: "rotate_pending E rec w = (r, w')" and q: "cr_pending rec = Some q"
    and c: "w_creds w = Some c" "same_owner rec c" "cr_pending c = Some q"
      "cr_credential c = cr_credential rec" "cr_id c = cr_id rec"
  shows "(rotates w' = rotates w \<or> (\<exists>rec' q'. rotates w' = rotates w @ [Rotate rec' (pe_id q') (pe_verifier q')] \<and>
      (\<forall>c. w_creds w' = Some c \<longrightarrow> holds_secret c q'))) \<and> rotated E rec q r w'"
proof (cases "pending_record (ev_cred E) rec")
  case (Inl e)
  with run have "r = Inl e" "w' = w" by (auto simp: rotate_pending_def bindW_def)
  with c show ?thesis by (simp add: rotated_def holds_secret_def)
next
  case probe: (Inr probe)
  have start: "bindW (of_result (pending_record (ev_cred E) rec)) f w = f probe w" for f :: "cred_record \<Rightarrow> rotation_result io"
    by (simp add: bindW_def probe)
  define w1 where "w1 = tick (w\<lparr>w_log := w_log w @ []\<rparr>)"
  have w1: "w_creds w1 = Some c" "rotates w1 = rotates w" by (simp_all add: w1_def c rotates_def)
  have keep: "rotated E rec q (Inl e) v" if "w_creds v = Some c" for e v
    using c that by (simp add: rotated_def holds_secret_def)
  show ?thesis
  proof (cases "ev_nonce E (w_tick w)")
    case (Inl e)
    with run have "\<exists>e. r = Inl e" "w' = w1" unfolding rotate_pending_def start bind_try_call w1_def by auto
    with w1 keep [OF w1(1)] show ?thesis by auto
  next
    case nonce: (Inr nonce)
    define w2 where "w2 = tick ((tick w1)\<lparr>w_log := w_log (tick w1) @ [Mint probe nonce]\<rparr>)"
    have w2: "w_creds w2 = Some c" "rotates w2 = rotates w" by (simp_all add: w2_def w1 rotates_def w1_def c)
    note step = run [unfolded rotate_pending_def start bind_try_call, folded w1_def, unfolded nonce sum.case bind_clock
        bind_try_call, folded w2_def]
    show ?thesis
    proof (cases "ev_mint E (w_tick (tick w1))")
      case (Inr s)
      then have ans: "answered E" unfolding answered_def by blast
      show ?thesis
      proof (cases "promote_pending (ev_cred E) rec (cr_issued probe) (cr_expires probe) (cr_scope rec)")
        case (Inl e)
        with step Inr have "\<exists>e. r = Inl e" "w' = w2" by (auto simp: bindW_def)
        with w2 keep [OF w2(1)] show ?thesis by auto
      next
        case new: (Inr new)
        obtain res v where s: "creds_save E new w2 = (res, v)" by (metis prod.exhaust)
        have "w' = v \<and> r = (case res of Inl e \<Rightarrow> Inl e
            | Inr u \<Rightarrow> Inr \<lparr>rn_id = cr_id new, rn_expires = cr_expires new, rn_recovered = True\<rparr>)"
          using step Inr new s by (auto simp: bindW_def split: sum.splits)
        with save_promoted [OF new q s w2(1) c(2-5) ans, where b = True] w2(2) show ?thesis by simp
      qed
    next
      case (Inl e)
      show ?thesis
      proof (cases "fault_code_of e = CodeCredentialInvalid")
        case False
        with step Inl have "r = Inl e" "w' = w2" by simp_all
        with w2 keep [OF w2(1)] show ?thesis by auto
      next
        case True
        with step Inl have "rotate_request E rec w2 = (r, w')" by simp
        from rotate_request_any [OF this q w2(1) c(2-5)] w2(2) show ?thesis by (auto simp: rotated_def)
      qed
    qed
  qed
qed

lemma rotate_fresh_any:
  assumes run: "rotate_fresh E rec w = (r, w')" and c: "w_creds w = Some c" "same_owner rec c"
      "cr_credential c = cr_credential rec" "cr_id c = cr_id rec"
  shows "rotates w' = rotates w \<and> w_creds w' = w_creds w \<and> (\<exists>e. r = Inl e) \<or>
    (\<exists>q rec'. (rotates w' = rotates w \<or> rotates w' = rotates w @ [Rotate rec' (pe_id q) (pe_verifier q)]) \<and>
      rotated E rec q r w')"
proof (cases "ev_secret E (w_tick w)")
  case (Inl e)
  with run have "\<exists>e. r = Inl e" "w' = tick (w\<lparr>w_log := w_log w @ []\<rparr>)" unfolding rotate_fresh_def bind_try_call by auto
  then show ?thesis by (auto simp: rotates_def)
next
  case (Inr secret)
  define w1 where "w1 = tick (tick (w\<lparr>w_log := w_log w @ []\<rparr>))"
  have w1: "w_creds w1 = w_creds w" "rotates w1 = rotates w" by (simp_all add: w1_def rotates_def)
  define now where "now = ev_now E (w_tick (tick (w\<lparr>w_log := w_log w @ []\<rparr>)))"
  note step = run [unfolded rotate_fresh_def bind_try_call Inr sum.case bind_clock, folded w1_def now_def]
  show ?thesis
  proof (cases "with_pending (ev_cred E) rec secret now")
    case (Inl e)
    with step have "r = Inl e" "w' = w1" by (simp_all add: bindW_def)
    with w1 show ?thesis by simp
  next
    case pend: (Inr rec')
    from with_pending_Inr(3,4) [OF pend] obtain p q where rec': "rec' = rec\<lparr>cr_pending := p\<rparr>"
      and q: "cr_pending rec' = Some q" by blast
    obtain res v where s: "creds_save E rec' w1 = (res, v)" by (metis prod.exhaust)
    note save = creds_save_any [OF s]
    have rv: "rotates v = rotates w" using save w1(2) by (simp add: rotates_def)
    show ?thesis
    proof (cases res)
      case (Inl e)
      with step pend s have "r = Inl e" "w' = v" by (simp_all add: bindW_def)
      with save Inl w1 rv show ?thesis by simp
    next
      case (Inr u)
      with step pend s have run': "rotate_request E rec' v = (r, w')" by (simp add: bindW_def)
      have "w_creds v = Some (record_form rec')" using save Inr by simp
      from rotate_request_any [OF run' q this _ _ _ _] q
      have "rotates w' = rotates v @ [Rotate rec' (pe_id q) (pe_verifier q)] \<and> rotated E rec' q r w'"
        by (simp add: same_owner_def)
      moreover have "rotated E rec q r w'" if "rotated E rec' q r w'"
        using that by (auto simp: rotated_def rec' same_owner_def)
      ultimately show ?thesis using rv by auto
    qed
  qed
qed


section \<open>A concrete device\<close>

definition sample_session :: enrollment_secret where
  "sample_session = \<lparr>en_schema = 1, en_controller = ''https://z'', en_device_id = ''dev'', en_network_id = ''net'',
     en_platform = ''linux'', en_public_key = std_encode (replicate 32 3),
     en_token = ''xenr_'' @ rawurl_encode (replicate 32 5), en_expires = \<lparr>nanos = 60 * second, utc = True\<rparr>,
     en_scope = [''overlay:config:read'', ''overlay:config:ack''],
     en_device = zero_device\<lparr>dv_id := ''dev'', dv_network := ''net'', dv_platform := ''linux'',
       dv_public_key := std_encode (replicate 32 3)\<rparr>,
     en_network = zero_network\<lparr>nw_id := ''net''\<rparr>, en_keys = sample_keys,
     en_created = \<lparr>nanos = 10 * second, utc = True\<rparr>\<rparr>"

definition sample_known :: last_known where
  "sample_known = \<lparr>lk_schema = 1, lk_server = ''https://z'', lk_device = ''dev'', lk_network = ''net'', lk_node = [],
     lk_private_key = std_encode (replicate 32 9), lk_public_key = std_encode (replicate 32 3),
     lk_phase = PhaseAcknowledged, lk_config = sample_compiled, lk_contract = ''signed'', lk_config_id = ''old'',
     lk_generation = 2, lk_updated = \<lparr>nanos = 5 * second, utc = True\<rparr>\<rparr>"

definition sample_world :: world where
  "sample_world = \<lparr>w_tick = 0,
     w_disk = empty_disk\<lparr>dk_last_known := Doc sample_known, dk_enrollment := Doc sample_session\<rparr>,
     w_creds = Some sample_record, w_log = []\<rparr>"

definition sample_status :: runtime_status where
  "sample_status = \<lparr>rt_paths = [], rt_available = True, rt_applied = True, rt_managed = True, rt_version = [],
     rt_revision = ''cfg'', rt_core = ''xray'', rt_adapter = ''libXray'', rt_interface = ''xcon0''\<rparr>"

definition sample_time :: gotime where
  "sample_time = \<lparr>nanos = 20 * second, utc = True\<rparr>"

definition sample_env :: env where
  "sample_env = \<lparr>ev_signed = sample_lib, ev_cred = sample_cred_lib, ev_policy = sample_policy_lib,
     ev_now = (\<lambda>_. sample_time),
     ev_check = (\<lambda>_. \<lparr>ce_resolve = (\<lambda>_. True), ce_now1 = zero_time, ce_now2 = zero_time\<rparr>),
     ev_lock = (\<lambda>_. None), ev_read = (\<lambda>_. ReadOk), ev_write = (\<lambda>_. WriteOk), ev_remove = (\<lambda>_. False),
     ev_clear = (\<lambda>_. (\<lambda>_. False, False, False)), ev_has_creds = True, ev_cred_load = (\<lambda>_. None),
     ev_cred_save = (\<lambda>_. None), ev_cred_delete = (\<lambda>_. None), ev_nonce = (\<lambda>_. Inr ''nonce''),
     ev_secret = (\<lambda>_. Inr (sample_secret 2)), ev_mint = (\<lambda>_. Inl (Plain ''mint'')),
     ev_config = (\<lambda>_. Inr sample_signed), ev_artifact = (\<lambda>_. Inl (Plain ''artifact'')),
     ev_ack = (\<lambda>_. Inr \<lparr>ar_acked = True, ar_duplicate = False, ar_ack = \<lparr>ak_device = ''dev'', ak_config_id = ''cfg'',
       ak_generation = 3, ak_applied = sample_time, ak_received = sample_time\<rparr>\<rparr>),
     ev_rotate = (\<lambda>_. Inl (fault CodeControlPlaneUnavailable ''rotate'')), ev_revoke = (\<lambda>_. Inl (Plain ''revoke'')),
     ev_status = (\<lambda>_. Inr sample_status), ev_apply = (\<lambda>_. Inl (Plain ''apply'')), ev_down = (\<lambda>_. None),
     ev_cleanup = (\<lambda>_. None), ev_lifecycle = True\<rparr>"

lemma sample_env_simps [simp]:
  "ev_signed sample_env = sample_lib" "ev_cred sample_env = sample_cred_lib" "ev_now sample_env n = sample_time"
  "ev_lock sample_env n = None" "ev_read sample_env n = ReadOk" "ev_write sample_env n = WriteOk"
  "ev_remove sample_env n = False" "ev_has_creds sample_env" "ev_cred_load sample_env n = None"
  "ev_cred_save sample_env n = None" "ev_cred_delete sample_env n = None" "ev_config sample_env n = Inr sample_signed"
  "ev_status sample_env n = Inr sample_status" "ev_secret sample_env n = Inr (sample_secret 2)"
  "ev_rotate sample_env n = Inl (fault CodeControlPlaneUnavailable ''rotate'')"
  "ev_ack sample_env n = Inr \<lparr>ar_acked = True, ar_duplicate = False, ar_ack = \<lparr>ak_device = ''dev'', ak_config_id = ''cfg'',
     ak_generation = 3, ak_applied = sample_time, ak_received = sample_time\<rparr>\<rparr>"
  by (simp_all add: sample_env_def)

lemma sample_record_ok: "record_validate sample_cred_lib sample_record = None"
  by (rule sample_record_base) (auto simp: sample_record_def)

lemma sample_record_form: "record_form sample_record = sample_record" "record_encodes sample_record"
  by (simp_all add: record_form_def sample_record_def record_encodes_def sample_keys_def canonical_time_def is_zero_def
      zero_time_def nanosecond_def durations)

lemma sample_record_loads: "clone_record sample_record = Inr sample_record"
  by (simp add: clone_record_def sample_record_form)

lemma sample_session_valid: "validate_enrollment_secret sample_session = None"
proof -
  have tok: "has_prefix (en_token sample_session) ''xenr_''"
    "trim_prefix (en_token sample_session) ''xenr_'' = rawurl_encode (replicate 32 5)"
    unfolding sample_session_def enrollment_secret.simps by (rule has_prefix_append, rule trim_prefix_append)
  show ?thesis
    unfolding validate_enrollment_secret_def tok(2)
    by (simp add: tok(1))
      (simp add: sample_session_def zero_device_def zero_network_def sample_keys_valid sample_key_texts
        valid_wireguard_key_def trim_space_graphic_nonempty graphic_def code_def is_zero_def zero_time_def durations
        after_def valid_enrollment_scope_def)
qed

lemma sample_known_loads: "load_last_known ReadOk (w_disk sample_world) = Inr sample_known"
  by (simp add: load_last_known_Inr sample_world_def) (simp add: sample_known_def)

lemma sample_session_loads:
  "load_enrollment_secret ReadOk ''https://z'' ''dev'' (std_encode (replicate 32 3)) (w_disk sample_world) = Inr sample_session"
  by (simp add: load_enrollment_secret_def read_json_Inr sample_session_valid)
    (simp add: sample_world_def sample_session_def)

lemma sample_fields:
  "lk_server sample_known = ''https://z''" "lk_device sample_known = ''dev''" "lk_network sample_known = ''net''"
  "lk_public_key sample_known = std_encode (replicate 32 3)" "cr_controller sample_record = ''https://z''"
  "cr_device sample_record = ''dev''" "cr_network sample_record = ''net''"
  "cr_public_key sample_record = std_encode (replicate 32 3)" "cr_keys sample_record = sample_keys"
  "sc_device sample_signed = ''dev''" "sc_network sample_signed = ''net''" "sc_id sample_signed = ''cfg''"
  "sc_generation sample_signed = 3" "en_keys sample_session = sample_keys"
  "en_scope sample_session = [''overlay:config:read'', ''overlay:config:ack'']" "en_network_id sample_session = ''net''"
  "w_creds sample_world = Some sample_record" "cr_pending sample_record = None"
  by (simp_all add: sample_known_def sample_record_def sample_signed_def sample_session_def sample_world_def)

lemma sample_times: "\<not> cred_expired sample_record sample_time" "after (en_expires sample_session) (to_utc sample_time)"
  by (simp_all add: cred_expired_def sample_record_def sample_time_def sample_session_def after_def durations)

lemma sample_config_verifies: "verify sample_lib sample_signed sample_keys sample_time = None"
  using sample_verified by (simp add: sample_time_def)

lemma sample_digest_ok: "valid_floor_args ''https://z'' ''dev'' ''net'' ''cfg'' (cf_digest sample_compiled) 3"
proof -
  define h where "h = hex_encode (sl_sha256 sample_lib [1, 1])"
  have d: "cf_digest sample_compiled = h"
    by (simp add: sample_compiled_def compiled_config_def Let_def h_def split: option.split)
  have "to_lower h = h" unfolding h_def by (rule to_lower_lower_hex [OF hex_encode_lower])
  moreover have "hex_decode h = Some (sl_sha256 sample_lib [1, 1])" by (simp add: h_def)
  ultimately show ?thesis
    unfolding d by (simp add: valid_floor_args_def trim_space_graphic_nonempty graphic_def code_def sample_lib_def)
qed

lemma sample_contract_absent: "load_contract_state ReadOk (w_disk sample_world) = Inl (Sentinel StateNotFound)"
  by (simp add: load_contract_state_def read_json_def sample_world_def empty_disk_def)

lemma sample_runtime: "runtime_matches sample_status sample_compiled"
proof -
  have "cf_revision sample_compiled = ''cfg''"
    by (simp add: sample_compiled_def compiled_config_def Let_def sample_signed_def split: option.split)
  then show ?thesis by (simp add: runtime_matches_def sample_status_def supported_adapter_id_def)
qed

lemma sample_sync: "\<exists>s w'. sync sample_env False sample_world = (Inr s, w')"
proof -
  have keys: "sample_record\<lparr>cr_keys := sample_keys\<rparr> = sample_record" by (simp add: sample_record_def)
  have save: "memory_save sample_cred_lib sample_record s = (None, s\<lparr>ms_record := Some sample_record\<rparr>)"
    if "ms_save_err s = None" for s
    using that by (simp add: memory_save_def sample_record_ok sample_record_loads)
  show ?thesis
    unfolding sync_def with_lock_def sync_body_def load_bound_credential_def load_credential_def load_or_mint_session_def
      sync_config_def sync_runtime_def sync_finish_def sync_ack_def sync_commit_def
    by (simp add: bindW_def tryW_def disk_read_def creds_load_def memory_load_def store_of_def sample_known_loads
        sample_session_loads clock_def call_def ifW_def sample_fields sample_times sample_record_loads sample_config_verifies
        sample_compiles exact_session_scope_def of_option_def validate_signed_config_floor_def sample_digest_ok
        sample_contract_absent disk_update_def accept_signed_config_def commit_floor_def write_json_def sample_runtime
        disk_write_def save_last_known_def creds_save_def keys save disk_remove_def clear_enrollment_secret_def
        remove_file_def)
qed

lemma sync_never_lowers_floors_witness:
  "\<exists>s w'. sync sample_env False sample_world = (Inr s, w') \<and> policy_level (w_disk sample_world) () \<le> policy_level (w_disk w') ()"
proof -
  obtain s w' where run: "sync sample_env False sample_world = (Inr s, w')" using sample_sync by blast
  from sync_never_lowers_floors [OF run] run show ?thesis by blast
qed

lemma sync_acknowledges_only_proven_witness:
  "\<exists>s w'. sync sample_env False sample_world = (Inr s, w') \<and>
     (acks w' = [] \<or> (\<exists>t g i. acks w' = [Ack t g i ''dev'']))"
proof -
  obtain s w' where run: "sync sample_env False sample_world = (Inr s, w')" using sample_sync by blast
  have "acks sample_world = []" by (simp add: acks_def sample_world_def)
  moreover have "lk_device lk = ''dev''" if "proven_run sample_env sample_world lk rec c k" for lk rec c k
    using that by (auto simp: proven_run_def sample_world_def sample_known_def)
  ultimately have "acks w' = [] \<or> (\<exists>t g i. acks w' = [Ack t g i ''dev''])"
    using sync_acknowledges_only_proven [OF run] by (elim disjE conjE exE) auto
  with run show ?thesis by blast
qed

lemma sync_success_witness:
  "\<exists>s w'. sync sample_env False sample_world = (Inr s, w') \<and> sy_device s = ''dev''"
proof -
  obtain s w' where run: "sync sample_env False sample_world = (Inr s, w')" using sample_sync by blast
  have "lk_device lk = ''dev''" if "proven_run sample_env sample_world lk rec c k" for lk rec c k
    using that by (auto simp: proven_run_def sample_world_def sample_known_def)
  with sync_success [OF run] have "sy_device s = ''dev''" by (elim exE conjE) simp
  with run show ?thesis by blast
qed


end
