(* ===== verification/Lifecycle.thy ===== *)
theory Lifecycle
  imports Device_Session
begin

text \<open>
  \<open>overlay/usecase/lifecycle.go\<close>: \<open>Up\<close> (always refused), \<open>Down\<close>, \<open>Leave\<close> and the durable
  \<open>LeaveWithDeviceCredential\<close>, which revokes the device at the controller before it removes
  anything, and can be resumed with the same nonce.
\<close>

section \<open>Results\<close>

record lifecycle_result =
  lr_state :: string
  lr_device :: string
  lr_network :: string
  lr_revision :: string
  lr_already :: bool
  lr_local_only :: bool
  lr_removed :: "string list"
  lr_retained :: bool
  lr_policy_pending :: bool

definition plain_result :: "string \<Rightarrow> lifecycle_result" where
  "plain_result s = \<lparr>lr_state = s, lr_device = [], lr_network = [], lr_revision = [], lr_already = False,
     lr_local_only = False, lr_removed = [], lr_retained = False, lr_policy_pending = False\<rparr>"

definition known_result :: "string \<Rightarrow> last_known \<Rightarrow> lifecycle_result" where
  "known_result s lk = (plain_result s)\<lparr>lr_device := lk_device lk, lr_network := lk_network lk,
     lr_revision := cf_revision (lk_config lk)\<rparr>"

section \<open>Steps\<close>

definition clear_state :: "env \<Rightarrow> (string list \<times> bool) io" where
  "clear_state E w =
     (case ev_clear E (w_tick w) of (fails, inspect, others) \<Rightarrow>
        (case clear_owned_state fails inspect others (w_disk w) of (r, d) \<Rightarrow> (r, tick (w\<lparr>w_disk := d\<rparr>))))"

definition runtime_down :: "env \<Rightarrow> unit io" where
  "runtime_down E = call [RuntimeDown] (\<lambda>n. of_option (ev_down E n))"

definition runtime_cleanup :: "env \<Rightarrow> unit io" where
  "runtime_cleanup E = call [RuntimeCleanup] (\<lambda>n. of_option (ev_cleanup E n))"

text \<open>A load that may find nothing: \<open>None\<close> for the store's \<open>ErrNotFound\<close>, any other error returned.\<close>

definition optional :: "sentinel \<Rightarrow> 'a io \<Rightarrow> 'a option io" where
  "optional missing m =
     bindW (tryW m) (\<lambda>r. case r of
        Inl e \<Rightarrow> if errors_is e missing then ret None else raise e
      | Inr a \<Rightarrow> ret (Some a))"

definition runtime_state :: "env \<Rightarrow> string \<Rightarrow> runtime_status io" where
  "runtime_state E op =
     bindW (tryW (call [] (ev_status E))) (\<lambda>s. case s of
        Inl e \<Rightarrow> raise (fault_cause CodeRuntimeStatusFailed op e)
      | Inr st \<Rightarrow> ret st)"

section \<open>Up and down\<close>

definition up :: "lifecycle_result io" where
  "up = raise (fault CodeConfigDowngradeBlocked ''cached up disabled; run sync to verify and start the tunnel'')"

definition down_body :: "env \<Rightarrow> lifecycle_result io" where
  "down_body E =
     bindW (optional StateNotFound (disk_read E load_last_known)) (\<lambda>lk.
     bindW (runtime_state E ''read runtime status'') (\<lambda>st.
     ifW (\<not> rt_available st) (fault CodeRuntimeUnavailable ''stop overlay runtime'')
       (ifW (\<not> ev_lifecycle E) (fault CodeRuntimeUnavailable ''stop overlay runtime'')
         (bindW (runtime_down E) (\<lambda>_.
            ret ((case lk of None \<Rightarrow> plain_result ''down'' | Some l \<Rightarrow> known_result ''down'' l)
              \<lparr>lr_already := (\<not> rt_applied st \<and> rt_revision st = [] \<and> lk = None)\<rparr>))))))"

definition down :: "env \<Rightarrow> lifecycle_result io" where
  "down E = with_lock E ''down'' (down_body E)"

section \<open>Leave\<close>

definition leave_without_last_known :: "env \<Rightarrow> bool \<Rightarrow> lifecycle_result io" where
  "leave_without_last_known E local_only =
     bindW (optional StateNotFound (disk_read E load_checkpoint)) (\<lambda>cp.
       if \<not> local_only then
         ifW (cp \<noteq> None) (fault CodeDeviceLifecyclePending ''revoke partial overlay enrollment'')
           (ret ((plain_result ''left'')\<lparr>lr_already := True\<rparr>))
       else
         bindW (runtime_state E ''read runtime status'') (\<lambda>st.
         bindW (if rt_applied st \<or> rt_revision st \<noteq> [] then
                  ifW (\<not> ev_lifecycle E) (fault CodeRuntimeUnavailable ''leave partial overlay runtime'')
                    (bindW (if rt_applied st then runtime_down E else ret ()) (\<lambda>_. runtime_cleanup E))
                else ret ()) (\<lambda>_.
         bindW (clear_state E) (\<lambda>cleaned.
           ret ((plain_result ''left'')\<lparr>lr_already := (cp = None \<and> fst cleaned = []), lr_local_only := True,
             lr_removed := fst cleaned, lr_retained := snd cleaned\<rparr>)))))"

text \<open>
  \<open>legacy\<close> is the answer of the older device lifecycle, if the caller has one: whether the
  device was revoked.
\<close>

definition leave_body :: "env \<Rightarrow> (nat \<Rightarrow> error + bool) option \<Rightarrow> bool \<Rightarrow> lifecycle_result io" where
  "leave_body E legacy local_only =
     ifW (\<not> local_only \<and> legacy = None) (fault CodeDeviceLifecyclePending ''revoke overlay device'')
       (bindW (optional StateNotFound (disk_read E load_last_known)) (\<lambda>l.
          case l of
            None \<Rightarrow> leave_without_last_known E local_only
          | Some lk \<Rightarrow>
              bindW (if local_only then ret () else
                       (case legacy of
                          None \<Rightarrow> ret ()
                        | Some answer \<Rightarrow>
                            bindW (call [RevokeLegacy (lk_server lk) (lk_device lk) (lk_network lk)] answer) (\<lambda>revoked.
                              ifW (\<not> revoked) (fault CodeInvalidResponse ''validate device revocation'') (ret ()))))
                (\<lambda>_.
              ifW (\<not> ev_lifecycle E) (fault CodeRuntimeUnavailable ''leave overlay runtime'')
                (bindW (runtime_down E) (\<lambda>_.
                 bindW (runtime_cleanup E) (\<lambda>_.
                 bindW (clear_state E) (\<lambda>cleaned.
                   ret ((known_result ''left'' lk)\<lparr>lr_local_only := local_only, lr_removed := fst cleaned,
                     lr_retained := snd cleaned\<rparr>))))))))"

definition leave :: "env \<Rightarrow> (nat \<Rightarrow> error + bool) option \<Rightarrow> bool \<Rightarrow> lifecycle_result io" where
  "leave E legacy local_only = with_lock E ''leave'' (leave_body E legacy local_only)"

section \<open>Leave with the device credential\<close>

definition cleanup_owned_runtime :: "env \<Rightarrow> unit io" where
  "cleanup_owned_runtime E =
     bindW (runtime_state E ''read runtime before leave'') (\<lambda>st.
       if \<not> rt_applied st \<and> rt_revision st = [] then ret ()
       else ifW (\<not> ev_lifecycle E \<or> \<not> rt_available st) (fault CodeRuntimeUnavailable ''leave overlay runtime'')
         (bindW (if rt_applied st then runtime_down E else ret ()) (\<lambda>_. runtime_cleanup E)))"

text \<open>The identity the leave is for; \<open>[]\<close> where nothing names it.\<close>

definition leave_target :: "last_known option \<Rightarrow> cred_record option \<Rightarrow> device_operation option \<Rightarrow>
    error + string \<times> string \<times> string" where
  "leave_target lk rec op =
     (if (case (lk, rec) of
            (Some l, Some r) \<Rightarrow> cr_controller r \<noteq> lk_server l \<or> cr_device r \<noteq> lk_device l \<or>
              cr_network r \<noteq> lk_network l \<or> cr_public_key r \<noteq> lk_public_key l
          | _ \<Rightarrow> False)
      then Inl (fault CodeStateConflict ''validate leave credential binding'')
      else
        (let base = (case (lk, rec) of
               (Some l, _) \<Rightarrow> (lk_server l, lk_device l, lk_network l)
             | (None, Some r) \<Rightarrow> (cr_controller r, cr_device r, cr_network r)
             | (None, None) \<Rightarrow> ([], [], []));
             t = (case op of
               Some p \<Rightarrow> if fst base = [] then (do_controller p, do_device p, do_network p) else base
             | None \<Rightarrow> base)
         in if (case op of
                  Some p \<Rightarrow> (do_controller p, do_device p, do_network p) \<noteq> t
                | None \<Rightarrow> False)
            then Inl (fault CodeStateConflict ''resume device leave'') else Inr t))"

text \<open>
  The remote part: the operation, with its nonce, is stored before the controller is asked,
  and stored again once it has answered.
\<close>

definition new_operation :: "string \<times> string \<times> string \<Rightarrow> string \<Rightarrow> gotime \<Rightarrow> device_operation" where
  "new_operation t nonce now = \<lparr>do_schema = 0, do_kind = ''leave'', do_controller = fst t, do_device = fst (snd t),
     do_network = snd (snd t), do_nonce = nonce, do_remote_committed = False, do_policy_pending = False,
     do_updated = to_utc now\<rparr>"

definition start_operation :: "env \<Rightarrow> string \<times> string \<times> string \<Rightarrow> device_operation io" where
  "start_operation E t =
     bindW (tryW (call [] (ev_nonce E))) (\<lambda>n. case n of
        Inl e \<Rightarrow> raise (fault_cause CodeStateIO ''create leave replay identity'' e)
      | Inr nonce \<Rightarrow>
          bindW (clock E) (\<lambda>now.
          bindW (disk_write E (\<lambda>io. save_device_operation io (new_operation t nonce now))) (\<lambda>_.
            ret (new_operation t nonce now))))"

definition revoke_remote :: "env \<Rightarrow> cred_record \<Rightarrow> device_operation \<Rightarrow> device_operation io" where
  "revoke_remote E rec op =
     bindW (clock E) (\<lambda>_.
     bindW (call [Revoke rec (do_nonce op)] (ev_revoke E)) (\<lambda>resp.
     ifW (\<not> rv_revoked resp) (fault CodeInvalidResponse ''validate durable device revocation'')
       (bindW (clock E) (\<lambda>now.
          let op' = op\<lparr>do_remote_committed := True, do_policy_pending := rv_policy_pending resp,
                do_updated := to_utc now\<rparr>
          in bindW (disk_write E (\<lambda>io. save_device_operation io op')) (\<lambda>_. ret op')))))"

definition remote_leave :: "env \<Rightarrow> bool \<Rightarrow> cred_record option \<Rightarrow> device_operation option \<Rightarrow>
    string \<times> string \<times> string \<Rightarrow> device_operation io" where
  "remote_leave E has_control rec op t =
     (case rec of
        None \<Rightarrow> raise (fault CodeCredentialMissing ''revoke overlay device'')
      | Some r \<Rightarrow>
          bindW (clock E) (\<lambda>now.
          ifW (cred_expired r (to_utc now)) (fault CodeCredentialExpired ''revoke overlay device'')
            (ifW (\<not> has_control) (fault CodeDeviceLifecyclePending ''revoke overlay device'')
              (bindW (case op of Some p \<Rightarrow> ret p | None \<Rightarrow> start_operation E t) (revoke_remote E r)))))"

text \<open>After the remote part: the runtime, the credential, the state, in this order.\<close>

definition local_leave :: "env \<Rightarrow> bool \<Rightarrow> (string list \<times> bool) io" where
  "local_leave E credential_present =
     bindW (cleanup_owned_runtime E) (\<lambda>_.
     bindW (if credential_present then creds_delete E else ret ()) (\<lambda>_. clear_state E))"

definition leave_with_credential_body :: "env \<Rightarrow> bool \<Rightarrow> bool \<Rightarrow> lifecycle_result io" where
  "leave_with_credential_body E has_control local_only =
     bindW (optional StateNotFound (disk_read E load_last_known)) (\<lambda>lk.
     bindW (if ev_has_creds E then optional CredentialNotFound (creds_load E) else ret None) (\<lambda>rec.
     bindW (optional StateNotFound (disk_read E load_device_operation)) (\<lambda>op.
       if lk = None \<and> rec = None \<and> op = None
       then ret ((plain_result ''left'')\<lparr>lr_already := True, lr_local_only := local_only\<rparr>)
       else
         bindW (of_result (leave_target lk rec op)) (\<lambda>t.
         bindW (if \<not> local_only \<and> \<not> (case op of Some p \<Rightarrow> do_remote_committed p | None \<Rightarrow> False)
                then bindW (remote_leave E has_control rec op t) (\<lambda>p. ret (Some p)) else ret op) (\<lambda>op'.
         bindW (local_leave E (rec \<noteq> None)) (\<lambda>cleaned.
           ret ((plain_result ''left'')\<lparr>lr_device := fst (snd t), lr_network := snd (snd t), lr_local_only := local_only,
             lr_removed := fst cleaned, lr_retained := snd cleaned,
             lr_policy_pending := (case op' of Some p \<Rightarrow> do_policy_pending p | None \<Rightarrow> False),
             lr_revision := (case lk of Some l \<Rightarrow> cf_revision (lk_config l) | None \<Rightarrow> [])\<rparr>)))))))"

definition leave_with_credential :: "env \<Rightarrow> bool \<Rightarrow> bool \<Rightarrow> lifecycle_result io" where
  "leave_with_credential E has_control local_only =
     with_lock E ''leave'' (leave_with_credential_body E has_control local_only)"

end
