(* ===== verification/Lifecycle_Runs.thy ===== *)
theory Lifecycle_Runs
  imports Lifecycle Session_Runs
begin

text \<open>
  What every run of \<open>LeaveWithDeviceCredential\<close> keeps: nothing local goes before the
  controller's confirmation is stored, and a repeated leave asks with the same nonce.
\<close>

section \<open>The remote part leaves the node as it is\<close>

definition teardown :: "world \<Rightarrow> event list" where
  "teardown w = filter (\<lambda>e. e = RuntimeDown \<or> e = RuntimeCleanup) (w_log w)"

definition revokes :: "world \<Rightarrow> event list" where
  "revokes w = filter (\<lambda>e. case e of Revoke c n \<Rightarrow> True | _ \<Rightarrow> False) (w_log w)"

text \<open>The credential, every file but the stored operation, and the runtime, as they were.\<close>

definition untouched :: "world \<Rightarrow> world \<Rightarrow> bool" where
  "untouched w w' \<longleftrightarrow>
     w_creds w' = w_creds w \<and> teardown w' = teardown w \<and>
     (w_disk w')\<lparr>dk_device_op := Absent\<rparr> = (w_disk w)\<lparr>dk_device_op := Absent\<rparr>"

interpretation untouched: preorder_rel untouched
  by unfold_locales (auto simp: untouched_def teardown_def)

lemma save_operation_untouched:
  "untouched w (w\<lparr>w_disk := snd (save_device_operation io p (w_disk w))\<rparr>)"
  by (auto simp: save_device_operation_def Let_def untouched_def teardown_def split: prod.splits)

lemma untouched_call: "\<forall>e \<in> set es. e \<noteq> RuntimeDown \<and> e \<noteq> RuntimeCleanup \<Longrightarrow> keeps_rel untouched (call es f)"
  by (intro untouched.call_keeps) (auto simp: untouched_def teardown_def filter_empty_conv)

lemmas untouched_steps = untouched.disk_write_keeps [OF save_operation_untouched] untouched_call

lemma start_operation_untouched: "keeps_rel untouched (start_operation E t)"
  unfolding start_operation_def by (intro keeps untouched_steps) simp

lemma revoke_remote_untouched: "keeps_rel untouched (revoke_remote E rec op)"
  unfolding revoke_remote_def Let_def by (intro keeps untouched_steps) simp

lemma remote_leave_untouched: "keeps_rel untouched (remote_leave E has_control rec op t)"
  unfolding remote_leave_def by (intro keeps start_operation_untouched revoke_remote_untouched)

lemma optional_untouched [keeps]: "keeps_rel untouched m \<Longrightarrow> keeps_rel untouched (optional s m)"
  unfolding optional_def by (intro keeps)

section \<open>The stored operation\<close>

text \<open>The operation a later run of \<open>leave\<close> will read.\<close>

definition stored_op :: "world \<Rightarrow> device_operation \<Rightarrow> bool" where
  "stored_op w p \<longleftrightarrow> load_device_operation ReadOk (w_disk w) = Inr p"

definition same_request :: "device_operation \<Rightarrow> device_operation \<Rightarrow> bool" where
  "same_request p q \<longleftrightarrow> do_nonce q = do_nonce p \<and> do_controller q = do_controller p \<and>
     do_device q = do_device p \<and> do_network q = do_network p"

lemma load_operation_stored: "load_device_operation io (w_disk w) = Inr p \<Longrightarrow> stored_op w p"
  by (auto simp: stored_op_def load_device_operation_def guard_simps read_json_Inr split: if_splits)

lemma save_operation_Some:
  assumes "save_device_operation io q d = (e, d')" and "same_request p q"
    and "load_device_operation ReadOk d = Inr p"
  shows "\<exists>q'. load_device_operation ReadOk d' = Inr q' \<and> same_request p q'"
proof (cases e)
  case None
  with device_op_doc.saved assms(1) show ?thesis using assms(2) by (fastforce simp: same_request_def)
next
  case (Some x)
  with device_op_doc.failed assms(1) have "load_device_operation ReadOk d' = load_device_operation ReadOk d \<or>
    load_device_operation ReadOk d' = Inr (q\<lparr>do_schema := 1\<rparr>)" by blast
  then show ?thesis using assms(2,3) by (auto simp: same_request_def)
qed

lemma start_operation_Inr:
  assumes "start_operation E t w = (Inr p, w')"
  shows "\<exists>q. stored_op w' q \<and> same_request q p \<and> (do_controller p, do_device p, do_network p) = t \<and>
    w_creds w' = w_creds w \<and> revokes w' = revokes w"
proof -
  from assms obtain nonce now io d where p: "p = new_operation t nonce now"
    and save: "save_device_operation io p (w_disk w) = (None, w_disk w')"
    and w': "w_creds w' = w_creds w" "w_log w' = w_log w"
    by (auto simp: start_operation_def guard_simps clock_def split: sum.splits)
  have "stored_op w' (p\<lparr>do_schema := 1\<rparr>)" using device_op_doc.saved [OF save] by (simp add: stored_op_def)
  moreover have "(do_controller p, do_device p, do_network p) = t" by (simp add: p new_operation_def)
  ultimately show ?thesis using w' by (auto simp: same_request_def revokes_def)
qed

lemma revoke_remote_any:
  assumes "revoke_remote E rec op w = (r, w')" and "stored_op w q" and "same_request q op"
  shows "revokes w' = revokes w @ [Revoke rec (do_nonce q)] \<and> (\<exists>q'. stored_op w' q' \<and> same_request q q')"
proof -
  let ?v = "tick ((tick w)\<lparr>w_log := w_log w @ [Revoke rec (do_nonce q)]\<rparr>)"
  have nonce: "do_nonce op = do_nonce q" using assms(3) by (simp add: same_request_def)
  have v: "stored_op ?v q" "revokes ?v = revokes w @ [Revoke rec (do_nonce q)]"
    using assms(2) by (simp_all add: stored_op_def revokes_def)
  have self: "same_request q q" by (simp add: same_request_def)
  define commit where "commit resp = (\<lambda>now. let op' = op\<lparr>do_remote_committed := True,
      do_policy_pending := rv_policy_pending resp, do_updated := to_utc now\<rparr>
    in bindW (disk_write E (\<lambda>io. save_device_operation io op')) (\<lambda>_. ret op'))" for resp :: revoke_response
  from assms(1) have "bindW (call [Revoke rec (do_nonce q)] (ev_revoke E)) (\<lambda>resp.
      ifW (\<not> rv_revoked resp) (fault CodeInvalidResponse ''validate durable device revocation'')
        (bindW (clock E) (commit resp))) (tick w) = (r, w')"
    by (simp add: revoke_remote_def bind_clock nonce commit_def [abs_def])
  then consider "w' = ?v" | resp where "bindW (clock E) (commit resp) ?v = (r, w')"
    by (elim bindW_cases) (auto simp: call_def ifW_def split: if_splits)
  then show ?thesis
  proof cases
    case 1
    with v self show ?thesis by blast
  next
    case (2 resp)
    define op' where "op' = op\<lparr>do_remote_committed := True, do_policy_pending := rv_policy_pending resp,
      do_updated := to_utc (ev_now E (w_tick ?v))\<rparr>"
    have "same_request op op'" by (simp add: same_request_def op'_def)
    moreover from 2 obtain io e where save: "save_device_operation io op' (w_disk ?v) = (e, w_disk w')"
      and log: "w_log w' = w_log ?v"
      unfolding bind_clock commit_def Let_def op'_def [symmetric]
      by (elim bindW_cases) (auto simp: disk_write_eq)
    moreover note assms(3)
    ultimately have "same_request q op'" by (simp add: same_request_def)
    from save_operation_Some [OF save this v(1) [unfolded stored_op_def]] log v(2) show ?thesis
      by (auto simp: stored_op_def revokes_def)
  qed
qed

lemma revoke_remote_Inr:
  assumes "revoke_remote E rec op w = (Inr p, w')"
  shows "stored_op w' (p\<lparr>do_schema := 1\<rparr>) \<and> do_remote_committed p \<and> same_request op p \<and>
    (\<exists>n resp. ev_revoke E n = Inr resp \<and> rv_revoked resp)"
proof -
  from assms obtain io d where save: "save_device_operation io p d = (None, w_disk w')"
    and p: "do_remote_committed p" "same_request op p" and n: "\<exists>n resp. ev_revoke E n = Inr resp \<and> rv_revoked resp"
    by (fastforce simp: revoke_remote_def guard_simps clock_def Let_def same_request_def eq_commute [of "Inr _" "ev_revoke _ _"])
  with device_op_doc.saved [OF save] show ?thesis by (simp add: stored_op_def)
qed

text \<open>
  The controller was asked once, for the credential the store holds, with the nonce of the
  operation that is stored; an operation that was stored before keeps its nonce.
\<close>

definition asked :: "world \<Rightarrow> world \<Rightarrow> bool" where
  "asked w v \<longleftrightarrow>
     (\<exists>rec p. revokes v = revokes w @ [Revoke rec (do_nonce p)] \<and> stored_op v p \<and>
       (\<forall>q. stored_op w q \<longrightarrow> do_nonce q = do_nonce p))"

definition confirmed :: "env \<Rightarrow> world \<Rightarrow> device_operation \<Rightarrow> bool" where
  "confirmed E w p \<longleftrightarrow> stored_op w p \<or> (\<exists>n resp. ev_revoke E n = Inr resp \<and> rv_revoked resp)"

lemma missing_operation:
  "load_device_operation io d = Inl e \<Longrightarrow> errors_is e StateNotFound \<Longrightarrow> load_device_operation ReadOk d \<noteq> Inr q"
  by (cases "read_json io (dk_device_op d)")
    (auto simp: load_device_operation_def read_json_Inr state_io_def dest: read_json_not_found split: if_splits)

lemma remote_leave_any:
  assumes "remote_leave E has_control rec op t w = (r, w')"
    and "case op of None \<Rightarrow> \<forall>q. \<not> stored_op w q | Some p \<Rightarrow> stored_op w p"
  shows "revokes w' = revokes w \<or> asked w w'"
proof (cases rec)
  case None
  with assms(1) show ?thesis by (simp add: remote_leave_def)
next
  case (Some c)
  let ?m = "case op of Some p \<Rightarrow> ret p | None \<Rightarrow> start_operation E t"
  from assms(1) Some consider "revokes w' = revokes w" | "bindW ?m (revoke_remote E c) (tick w) = (r, w')"
    by (auto simp: remote_leave_def bind_clock ifW_def revokes_def split: if_splits)
  then show ?thesis
  proof cases
    case 2
    then show ?thesis
    proof (cases rule: bindW_cases)
      case (stopped e)
      show ?thesis
      proof (cases op)
        case None
        with stopped have "start_operation E t (tick w) = (Inl e, w')" by simp
        then have "w_log w' = w_log w"
          by (auto simp: start_operation_def bindW_def tryW_def call_def clock_def disk_write_def
              split: sum.splits prod.splits)
        then show ?thesis by (simp add: revokes_def)
      qed (use stopped in simp)
    next
      case (went p v)
      have "\<exists>q. stored_op v q \<and> same_request q p \<and> revokes v = revokes w \<and> (\<forall>q'. stored_op w q' \<longrightarrow> q' = q)"
      proof (cases op)
        case None
        with went(1) assms(2) start_operation_Inr [of E t "tick w" p v] show ?thesis
          by (auto simp: revokes_def)
      next
        case (Some q)
        with went(1) assms(2) show ?thesis by (auto simp: stored_op_def revokes_def same_request_def)
      qed
      then obtain q where q: "stored_op v q" "same_request q p" "revokes v = revokes w" "\<forall>q'. stored_op w q' \<longrightarrow> q' = q"
        by blast
      from revoke_remote_any [OF went(2) q(1,2)] obtain q' where
        "revokes w' = revokes w @ [Revoke c (do_nonce q)]" "stored_op w' q'" "do_nonce q' = do_nonce q"
        unfolding q(3) same_request_def by blast
      with q(4) have "asked w w'" unfolding asked_def by metis
      then show ?thesis ..
    qed
  qed simp
qed

lemma remote_leave_Inr:
  assumes "remote_leave E has_control rec op t w = (Inr p, w')"
  shows "rec \<noteq> None \<and> (\<exists>q. stored_op w' q \<and> do_remote_committed q) \<and>
    (\<exists>n resp. ev_revoke E n = Inr resp \<and> rv_revoked resp)"
proof -
  from assms obtain c op' v where "rec = Some c" "revoke_remote E c op' v = (Inr p, w')"
    by (auto simp: remote_leave_def guard_simps clock_def)
  with revoke_remote_Inr [OF this(2)] show ?thesis by fastforce
qed

section \<open>The local part\<close>

definition owned_cleared :: "disk \<Rightarrow> bool" where
  "owned_cleared d \<longleftrightarrow> dk_checkpoint d = Absent \<and> dk_last_known d = Absent \<and> dk_contract d = Absent \<and>
     dk_keys d = Absent \<and> dk_enrollment d = Absent \<and> dk_policy d = Absent \<and> dk_device_op d = Absent"

lemma clear_step_Inr: "clear_step name fails f = (Inr ns, f') \<Longrightarrow> f' = Absent"
  by (auto simp: clear_step_def split: file_state.splits if_splits)

lemma clear_owned_state_Inr:
  "clear_owned_state fails inspect others d = (Inr x, d') \<Longrightarrow> owned_cleared d' \<and> dk_registration d' = dk_registration d"
  by (auto simp: clear_owned_state_def owned_cleared_def Let_def split: prod.splits sum.splits if_splits
      dest!: clear_step_Inr)

definition quiet :: "world \<Rightarrow> world \<Rightarrow> bool" where
  "quiet w w' \<longleftrightarrow> revokes w' = revokes w \<and> w_disk w' = w_disk w \<and> w_creds w' = w_creds w"

interpretation quiet: preorder_rel quiet
  by unfold_locales (auto simp: quiet_def revokes_def)

lemma quiet_call: "\<forall>e \<in> set es. (case e of Revoke c n \<Rightarrow> False | _ \<Rightarrow> True) \<Longrightarrow> keeps_rel quiet (call es f)"
  by (intro quiet.call_keeps) (auto simp: quiet_def revokes_def filter_empty_conv split: event.splits)

lemma cleanup_runtime_quiet: "keeps_rel quiet (cleanup_owned_runtime E)"
  unfolding cleanup_owned_runtime_def runtime_state_def runtime_down_def runtime_cleanup_def
  by (intro keeps quiet_call) simp_all

lemma clear_state_any:
  assumes "clear_state E w = (r, w')"
  shows "w_creds w' = w_creds w \<and> revokes w' = revokes w \<and>
    (\<forall>x. r = Inr x \<longrightarrow> owned_cleared (w_disk w') \<and> dk_registration (w_disk w') = dk_registration (w_disk w))"
  using assms clear_owned_state_Inr by (auto simp: clear_state_def revokes_def split: prod.splits)

lemma local_leave_any:
  assumes "local_leave E present w = (r, w')"
  shows "revokes w' = revokes w \<and> (present \<longrightarrow> w_disk w' = w_disk w \<or> w_creds w' = None) \<and>
    (\<forall>x. r = Inr x \<longrightarrow> owned_cleared (w_disk w') \<and> dk_registration (w_disk w') = dk_registration (w_disk w) \<and>
       (present \<longrightarrow> w_creds w' = None))"
  using assms unfolding local_leave_def
proof (cases rule: bindW_cases)
  case (stopped e)
  with keeps_relD [OF cleanup_runtime_quiet] show ?thesis by (fastforce simp: quiet_def)
next
  case (went a v)
  have v: "revokes v = revokes w" "w_disk v = w_disk w" "w_creds v = w_creds w"
    using keeps_relD [OF cleanup_runtime_quiet went(1)] by (simp_all add: quiet_def)
  from went(2) show ?thesis
  proof (cases rule: bindW_cases)
    case (stopped e)
    then have "w_disk w' = w_disk v \<and> revokes w' = revokes v"
      by (auto simp: creds_delete_def revokes_def split: prod.splits if_splits)
    with stopped v show ?thesis by simp
  next
    case (went b u)
    then have u: "w_disk u = w_disk w" "revokes u = revokes w" "present \<longrightarrow> w_creds u = None"
      using v mem_store.delete_ok [of "store_of E v"]
      by (auto simp: creds_delete_def revokes_def split: prod.splits if_splits)
    from clear_state_any [OF went(2)] u show ?thesis by simp
  qed
qed

section \<open>A run of the leave\<close>

lemma optional_Inr:
  assumes "optional s m w = (Inr x, w')"
  shows "case x of None \<Rightarrow> \<exists>e. m w = (Inl e, w') \<and> errors_is e s | Some a \<Rightarrow> m w = (Inr a, w')"
  using assms by (auto simp: optional_def guard_simps split: sum.splits if_splits)

text \<open>The credential store held nothing, or answered so.\<close>

definition answered_missing :: "env \<Rightarrow> world \<Rightarrow> bool" where
  "answered_missing E w \<longleftrightarrow> \<not> ev_has_creds E \<or>
     (\<exists>u e. w_creds u = w_creds w \<and> memory_load (store_of E u) = Inl e \<and> errors_is e CredentialNotFound)"

lemma leave_credential:
  assumes "(if ev_has_creds E then optional CredentialNotFound (creds_load E) else ret None) w = (Inr rec, w')"
  shows "(rec \<noteq> None \<longrightarrow> w_creds w \<noteq> None) \<and> (rec = None \<longrightarrow> answered_missing E w)"
proof (cases "ev_has_creds E")
  case True
  with assms have "optional CredentialNotFound (creds_load E) w = (Inr rec, w')" by simp
  note found = optional_Inr [OF this]
  show ?thesis
  proof (cases rec)
    case None
    with found obtain e where "memory_load (store_of E w) = Inl e" "errors_is e CredentialNotFound"
      by (auto simp: creds_load_def)
    with None show ?thesis unfolding answered_missing_def by blast
  next
    case (Some c)
    with found have "memory_load (store_of E w) = Inr c" by (simp add: creds_load_def)
    with Some show ?thesis by (auto simp: memory_load_def store_of_def split: option.splits)
  qed
next
  case False
  with assms show ?thesis by (simp add: answered_missing_def)
qed

text \<open>
  The body stops with nothing to leave, stops in the remote part, or passes the remote part and
  runs the local one.
\<close>

definition local_stage :: "env \<Rightarrow> bool \<Rightarrow> world \<Rightarrow> bool \<Rightarrow> world \<Rightarrow> bool" where
  "local_stage E local_only w present v \<longleftrightarrow>
     untouched w v \<and> (revokes v = revokes w \<or> asked w v \<and> present) \<and>
     (present \<longrightarrow> w_creds w \<noteq> None) \<and> (\<not> present \<longrightarrow> answered_missing E w) \<and>
     (\<not> local_only \<longrightarrow> (\<exists>p. stored_op v p \<and> do_remote_committed p \<and> confirmed E w p))"

lemma leave_stage:
  assumes "(if \<not> local_only \<and> \<not> (case op of Some p \<Rightarrow> do_remote_committed p | None \<Rightarrow> False)
      then bindW (remote_leave E has_control rec op t) (\<lambda>p. ret (Some p)) else ret op) w = (q, v)"
    and "case op of None \<Rightarrow> \<forall>q. \<not> stored_op w q | Some p \<Rightarrow> stored_op w p"
  shows "untouched w v \<and> (revokes v = revokes w \<or> asked w v \<and> rec \<noteq> None) \<and>
    (\<forall>op'. q = Inr op' \<longrightarrow> \<not> local_only \<longrightarrow> (\<exists>p. stored_op v p \<and> do_remote_committed p \<and> confirmed E w p))"
proof (cases "\<not> local_only \<and> \<not> (case op of Some p \<Rightarrow> do_remote_committed p | None \<Rightarrow> False)")
  case True
  with assms(1) obtain r where run: "remote_leave E has_control rec op t w = (r, v)" and r: "\<And>x. q = Inr x \<Longrightarrow> \<exists>p. r = Inr p"
    by (auto simp: bindW_def split: prod.splits sum.splits)
  have "revokes v = revokes w \<or> rec \<noteq> None" using run by (cases rec) (auto simp: remote_leave_def)
  with remote_leave_any [OF run assms(2)] keeps_relD [OF remote_leave_untouched run]
  have "untouched w v \<and> (revokes v = revokes w \<or> asked w v \<and> rec \<noteq> None)" by blast
  moreover have "\<exists>p. stored_op v p \<and> do_remote_committed p \<and> confirmed E w p" if "q = Inr op'" for op'
  proof -
    from r [OF that] obtain p where "r = Inr p" by blast
    from remote_leave_Inr [OF run [unfolded this]] show ?thesis unfolding confirmed_def by blast
  qed
  ultimately show ?thesis by blast
next
  case False
  with assms show ?thesis
    by (auto simp: untouched.R_refl confirmed_def split: option.splits)
qed

text \<open>The steps that only read.\<close>

definition idle :: "world \<Rightarrow> world \<Rightarrow> bool" where
  "idle u v \<longleftrightarrow> w_disk v = w_disk u \<and> w_creds v = w_creds u \<and> w_log v = w_log u"

interpretation idle: preorder_rel idle
  by unfold_locales (auto simp: idle_def)

lemma optional_idle: "keeps_rel idle (optional s (disk_read E f))"
  "keeps_rel idle (if ev_has_creds E then optional s (creds_load E) else ret None)"
  unfolding optional_def by (intro keeps)+

lemma idle_simps:
  assumes "idle u v"
  shows "stored_op v p \<longleftrightarrow> stored_op u p" "asked v z \<longleftrightarrow> asked u z" "untouched v z \<longleftrightarrow> untouched u z" "revokes v = revokes u"
    "w_creds v = w_creds u" "confirmed E v p \<longleftrightarrow> confirmed E u p" "answered_missing E v \<longleftrightarrow> answered_missing E u"
    "local_stage E lo v c z \<longleftrightarrow> local_stage E lo u c z"
  using assms
  by (simp_all add: idle_def stored_op_def asked_def untouched_def revokes_def teardown_def confirmed_def
      answered_missing_def local_stage_def)

lemma leave_body_stages:
  assumes "leave_with_credential_body E has_control local_only w = (r, w')"
  obtains (stop) "untouched w w'" "revokes w' = revokes w \<or> asked w w' \<and> w_creds w \<noteq> None"
      "\<And>x. r = Inr x \<Longrightarrow> lr_already x"
    | (torn) present v r' where "local_stage E local_only w present v" "local_leave E present v = (r', w')"
        "\<And>x. r = Inr x \<Longrightarrow> \<exists>y. r' = Inr y"
proof -
  have early: thesis if "idle w w'" "r = Inl e" for e
    using stop [OF _ disjI1] idle_simps(3,4) [OF that(1)] untouched.R_refl that(2) by blast
  from assms [unfolded leave_with_credential_body_def] show ?thesis
  proof (cases rule: bindW_cases)
    case (stopped e)
    then show ?thesis using early keeps_relD [OF optional_idle(1)] by blast
  next
    case (went lk w1)
    have i1: "idle w w1" by (rule keeps_relD [OF optional_idle(1) went(1)])
    from went(2) show ?thesis
    proof (cases rule: bindW_cases)
      case (stopped e)
      then show ?thesis using early idle.R_trans [OF i1] keeps_relD [OF optional_idle(2)] by blast
    next
      case (went rec w2)
      have i2: "idle w w2" by (rule idle.R_trans [OF i1 keeps_relD [OF optional_idle(2) went(1)]])
      have rec: "rec \<noteq> None \<longrightarrow> w_creds w \<noteq> None" "rec = None \<longrightarrow> answered_missing E w"
        using leave_credential [OF went(1)] idle_simps [OF i1] by auto
      from went(2) show ?thesis
      proof (cases rule: bindW_cases)
        case (stopped e)
        then show ?thesis using early idle.R_trans [OF i2] keeps_relD [OF optional_idle(1)] by blast
      next
        case (went op w3)
        have i3: "idle w w3" by (rule idle.R_trans [OF i2 keeps_relD [OF optional_idle(1) went(1)]])
        note i = idle_simps [OF i3]
        have op: "case op of None \<Rightarrow> \<forall>q. \<not> stored_op w3 q | Some p \<Rightarrow> stored_op w3 p"
          using optional_Inr [OF went(1)] missing_operation load_operation_stored
          by (cases op) (auto simp: disk_read_def stored_op_def)
        show ?thesis
        proof (cases "lk = None \<and> rec = None \<and> op = None")
          case True
          with went(2) show ?thesis
            using stop [OF _ disjI1] i(4) untouched.R_refl [of w3, unfolded i(3)] by auto
        next
          case False
          with went(2) have rest: "bindW (of_result (leave_target lk rec op)) (\<lambda>t.
            bindW (if \<not> local_only \<and> \<not> (case op of Some p \<Rightarrow> do_remote_committed p | None \<Rightarrow> False)
              then bindW (remote_leave E has_control rec op t) (\<lambda>p. ret (Some p)) else ret op) (\<lambda>op'.
            bindW (local_leave E (rec \<noteq> None)) (\<lambda>cleaned.
              ret ((plain_result ''left'')\<lparr>lr_device := fst (snd t), lr_network := snd (snd t), lr_local_only := local_only,
                lr_removed := fst cleaned, lr_retained := snd cleaned,
                lr_policy_pending := (case op' of Some p \<Rightarrow> do_policy_pending p | None \<Rightarrow> False),
                lr_revision := (case lk of Some l \<Rightarrow> cf_revision (lk_config l) | None \<Rightarrow> [])\<rparr>)))) w3 = (r, w')"
            by (simp only: if_False)
          from rest show ?thesis
          proof (cases rule: bindW_cases)
            case (stopped e)
            then show ?thesis using early i3 by simp
          next
            case (went t w4)
            then have w4: "w4 = w3" by simp
            from went(2) show ?thesis unfolding w4
            proof (cases rule: bindW_cases)
              case (stopped e)
              from leave_stage [OF stopped(1) op] show ?thesis
                using stop rec(1) i(2-4) stopped(2) by auto
            next
              case (went op' v)
              from leave_stage [OF went(1) op] rec have st: "local_stage E local_only w (rec \<noteq> None) v"
                unfolding local_stage_def i [symmetric] by blast
              from went(2) show ?thesis
                by (cases rule: bindW_cases) (use torn [OF st] in auto)
            qed
          qed
        qed
      qed
    qed
  qed
qed

section \<open>Properties\<close>

lemma released_simps [simp]:
  "stored_op (w\<lparr>w_log := w_log w @ [Released]\<rparr>) p \<longleftrightarrow> stored_op w p"
  "revokes (w\<lparr>w_log := w_log w @ [Released]\<rparr>) = revokes w"
  "asked u (w\<lparr>w_log := w_log w @ [Released]\<rparr>) \<longleftrightarrow> asked u w"
  "untouched u (w\<lparr>w_log := w_log w @ [Released]\<rparr>) \<longleftrightarrow> untouched u w"
  by (simp_all add: stored_op_def revokes_def asked_def untouched_def teardown_def)

lemma acquired_simps [simp]:
  "stored_op (tick (w\<lparr>w_log := w_log w @ [Acquired n]\<rparr>)) p \<longleftrightarrow> stored_op w p"
  "revokes (tick (w\<lparr>w_log := w_log w @ [Acquired n]\<rparr>)) = revokes w"
  "asked (tick (w\<lparr>w_log := w_log w @ [Acquired n]\<rparr>)) u \<longleftrightarrow> asked w u"
  "untouched (tick (w\<lparr>w_log := w_log w @ [Acquired n]\<rparr>)) u \<longleftrightarrow> untouched w u"
  "confirmed E (tick (w\<lparr>w_log := w_log w @ [Acquired n]\<rparr>)) p \<longleftrightarrow> confirmed E w p"
  "answered_missing E (tick (w\<lparr>w_log := w_log w @ [Acquired n]\<rparr>)) \<longleftrightarrow> answered_missing E w"
  "local_stage E lo (tick (w\<lparr>w_log := w_log w @ [Acquired n]\<rparr>)) c v \<longleftrightarrow> local_stage E lo w c v"
  by (simp_all add: stored_op_def revokes_def asked_def untouched_def teardown_def confirmed_def
      answered_missing_def local_stage_def)


lemma leave_any:
  assumes "leave_with_credential E has_control local_only w = (r, w')"
  shows "revokes w' = revokes w \<or> w_creds w \<noteq> None \<and>
    (\<exists>c p. revokes w' = revokes w @ [Revoke c (do_nonce p)] \<and> (\<forall>q. stored_op w q \<longrightarrow> do_nonce q = do_nonce p) \<and>
      (w_creds w' = None \<or> stored_op w' p))"
  using assms unfolding leave_with_credential_def
proof (cases rule: with_lock_cases)
  case (refused e)
  then show ?thesis by (simp add: revokes_def)
next
  case (ran z)
  let ?u = "tick (w\<lparr>w_log := w_log w @ [Acquired ''leave'']\<rparr>)"
  have z: "w_creds z = w_creds w'" "w_creds ?u = w_creds w" by (simp_all add: ran(2))
  have ends: ?thesis if "asked ?u v" "revokes z = revokes v" "w_creds w \<noteq> None" "w_disk z = w_disk v \<or> w_creds z = None" for v
    using that z unfolding ran(2) asked_def by (fastforce simp: stored_op_def)
  from ran(1) show ?thesis
  proof (cases rule: leave_body_stages)
    case stop
    show ?thesis
    proof (cases "revokes z = revokes ?u")
      case True
      then show ?thesis by (simp add: ran(2))
    next
      case False
      with stop(2) z have "asked ?u z" "w_creds w \<noteq> None" by simp_all
      then show ?thesis using ends [of z] by blast
    qed
  next
    case (torn present v r')
    note after = local_leave_any [OF torn(2)]
    show ?thesis
    proof (cases "revokes v = revokes ?u")
      case True
      with after show ?thesis by (simp add: ran(2))
    next
      case False
      with torn(1) z have "asked ?u v" "present" "w_creds w \<noteq> None" unfolding local_stage_def by auto
      with after show ?thesis using ends [of v] by blast
    qed
  qed
qed

text \<open>
  C12. A leave can be repeated. Each run asks the controller at most once; and when a run that
  asked did not finish, a later run from the state and the credential it left behind, in
  whatever environment, either asks nothing or asks with the same nonce, so the controller can
  recognise the repetition.
\<close>

theorem leave_retries_same_nonce:
  assumes "leave_with_credential E has_control local_only w = (r, w1)"
    and "w_disk u = w_disk w1" and "w_creds u = w_creds w1"
    and "leave_with_credential E' has_control' local_only' u = (r', u')"
  shows "\<exists>asks asks'. revokes w1 = revokes w @ asks \<and> revokes u' = revokes u @ asks' \<and>
    length asks \<le> 1 \<and> length asks' \<le> 1 \<and>
    (\<forall>c n c' n'. asks = [Revoke c n] \<longrightarrow> asks' = [Revoke c' n'] \<longrightarrow> n' = n)"
proof -
  have none: ?thesis if "revokes w1 = revokes w \<or> revokes u' = revokes u"
    using that leave_any [OF assms(1)] leave_any [OF assms(4)] by fastforce
  show ?thesis
  proof (cases "revokes w1 = revokes w \<or> revokes u' = revokes u")
    case False
    with leave_any [OF assms(1)] obtain c p where one: "revokes w1 = revokes w @ [Revoke c (do_nonce p)]"
      "w_creds w1 = None \<or> stored_op w1 p" by blast
    from False leave_any [OF assms(4)] obtain c' and p' :: device_operation where two: "revokes u' = revokes u @ [Revoke c' (do_nonce p')]"
      "\<forall>q. stored_op u q \<longrightarrow> do_nonce q = do_nonce p'" "w_creds u \<noteq> None" by blast
    have "stored_op u p" using one(2) two(3) assms(2,3) by (auto simp: stored_op_def)
    with two(2) have "do_nonce p' = do_nonce p" by metis
    with one(1) two(1) show ?thesis by auto
  qed (use none in blast)
qed

section \<open>Examples\<close>

text \<open>A leave the controller confirms, and one whose confirmation is lost on the way.\<close>

definition sample_device :: lifecycle_device where
  "sample_device = \<lparr>ld_id = ''dev'', ld_user = ''user'', ld_network = ''net'', ld_name = [], ld_platform = ''linux'',
     ld_hostname = [], ld_public_key = [], ld_address = [], ld_created = sample_time, ld_updated = sample_time,
     ld_last_seen = None, ld_status = ''revoked'', ld_state_version = 2, ld_key_version = 1,
     ld_revoked_at = Some sample_time, ld_revoked_reason = []\<rparr>"

definition leave_env :: "error + revoke_response \<Rightarrow> env" where
  "leave_env answer = sample_env\<lparr>ev_nonce := (\<lambda>_. Inr ''123e4567-e89b-42d3-a456-426614174000''),
     ev_revoke := (\<lambda>_. answer)\<rparr>"

definition sample_revoked :: revoke_response where
  "sample_revoked = \<lparr>rv_revoked = True, rv_duplicate = False, rv_device = sample_device, rv_policy_generation = 1,
     rv_policy_digest = [], rv_policy_pending = False\<rparr>"

lemma sample_nonce_ok: "valid_nonce ''123e4567-e89b-42d3-a456-426614174000''"
  by (simp add: valid_nonce_def upt_rec is_lower_hex_def is_digit_def hex_value_def code_def)

lemma leave_env_simps [simp]:
  "ev_now (leave_env a) n = sample_time" "ev_lock (leave_env a) n = None" "ev_read (leave_env a) n = ReadOk"
  "ev_write (leave_env a) n = WriteOk" "ev_has_creds (leave_env a)" "ev_cred_load (leave_env a) n = None"
  "ev_cred_delete (leave_env a) n = None" "ev_status (leave_env a) n = Inr sample_status"
  "ev_nonce (leave_env a) n = Inr ''123e4567-e89b-42d3-a456-426614174000''" "ev_revoke (leave_env a) n = a"
  "ev_down (leave_env a) n = None" "ev_cleanup (leave_env a) n = None" "ev_lifecycle (leave_env a)"
  "ev_clear (leave_env a) n = (\<lambda>_. False, False, False)"
  "rt_applied sample_status" "rt_available sample_status" "\<not> is_zero sample_time" "to_utc sample_time = sample_time"
  by (simp_all add: leave_env_def sample_env_def sample_status_def sample_time_def is_zero_def zero_time_def durations
      to_utc_def)

lemma sample_remote:
  assumes "w_disk w = w_disk sample_world"
  shows "\<exists>p v. remote_leave (leave_env (Inr sample_revoked)) True (Some sample_record) None (''https://z'', ''dev'', ''net'') w =
    (Inr p, v) \<and> w_creds v = w_creds w \<and> (\<exists>q. w_disk v = (w_disk sample_world)\<lparr>dk_device_op := Doc q\<rparr>)"
  unfolding remote_leave_def start_operation_def revoke_remote_def
  by (simp add: bindW_def tryW_def clock_def call_def ifW_def sample_times disk_write_def save_device_operation_def
      new_operation_def device_operation_ok_def sample_nonce_ok write_json_def of_option_def assms sample_revoked_def
      Let_def) blast

lemma sample_local:
  assumes "w_disk v = (w_disk sample_world)\<lparr>dk_device_op := Doc q\<rparr>"
  shows "\<exists>x w'. local_leave (leave_env a) True v = (Inr x, w')"
  unfolding local_leave_def cleanup_owned_runtime_def runtime_state_def runtime_down_def runtime_cleanup_def
  by (simp add: bindW_def tryW_def call_def ifW_def of_option_def creds_delete_def memory_delete_def store_of_def
      clear_state_def assms clear_owned_state_def clear_step_def Let_def sample_world_def empty_disk_def)
    (rule exI [of _ False], simp)

lemma sample_leave: "\<exists>x w'. leave_with_credential (leave_env (Inr sample_revoked)) True False sample_world = (Inr x, w') \<and>
   \<not> lr_already x"
proof -
  let ?E = "leave_env (Inr sample_revoked)"
  define w where "w = tick (tick (tick (tick (sample_world\<lparr>w_log := w_log sample_world @ [Acquired ''leave'']\<rparr>))))"
  have op: "load_device_operation ReadOk (w_disk sample_world) = Inl (Sentinel StateNotFound)"
    by (simp add: load_device_operation_def read_json_def sample_world_def empty_disk_def)
  obtain p v q where remote: "remote_leave ?E True (Some sample_record) None (''https://z'', ''dev'', ''net'') w = (Inr p, v)"
    "w_disk v = (w_disk sample_world)\<lparr>dk_device_op := Doc q\<rparr>"
    using sample_remote [of w] by (auto simp: w_def)
  obtain x w' where gone: "local_leave ?E True v = (Inr x, w')" using sample_local [OF remote(2)] by blast
  show ?thesis
    unfolding leave_with_credential_def with_lock_def leave_with_credential_body_def optional_def
    by (simp add: bindW_def tryW_def disk_read_def creds_load_def memory_load_def store_of_def sample_known_loads
        sample_fields sample_record_loads op leave_target_def w_def [symmetric] remote(1) gone plain_result_def)
qed


text \<open>The confirmation of the first leave is lost; the second one asks again.\<close>

lemma leave_retries_same_nonce_witness:
  "\<exists>w1 u' asks asks'. leave_with_credential (leave_env (Inl (Plain ''lost''))) True False sample_world = (Inl (Plain ''lost''), w1) \<and>
     revokes w1 = asks \<and> revokes u' = asks @ asks' \<and> length asks \<le> 1 \<and> length asks' \<le> 1 \<and>
     (\<forall>c n c' n'. asks = [Revoke c n] \<longrightarrow> asks' = [Revoke c' n'] \<longrightarrow> n' = n)"
proof -
  let ?E = "leave_env (Inl (Plain ''lost''))"
  have op: "load_device_operation ReadOk (w_disk sample_world) = Inl (Sentinel StateNotFound)"
    by (simp add: load_device_operation_def read_json_def sample_world_def empty_disk_def)
  have "\<exists>w1. leave_with_credential ?E True False sample_world = (Inl (Plain ''lost''), w1)"
    unfolding leave_with_credential_def with_lock_def leave_with_credential_body_def optional_def remote_leave_def
      start_operation_def revoke_remote_def
    by (simp add: bindW_def tryW_def disk_read_def creds_load_def memory_load_def store_of_def sample_known_loads
        sample_fields sample_record_loads op leave_target_def clock_def call_def ifW_def sample_times disk_write_def
        save_device_operation_def new_operation_def device_operation_ok_def sample_nonce_ok write_json_def of_option_def)
  then obtain w1 where one: "leave_with_credential ?E True False sample_world = (Inl (Plain ''lost''), w1)" by blast
  obtain r u' where two: "leave_with_credential (leave_env (Inr sample_revoked)) True False w1 = (r, u')"
    by (metis prod.exhaust)
  have "revokes sample_world = []" by (simp add: revokes_def sample_world_def)
  with leave_retries_same_nonce [OF one refl refl two] one show ?thesis by (auto simp del: length_0_conv)
qed

end
