(* ===== verification/Messages.thy ===== *)
theory Messages
  imports Node
begin

text \<open>
  The requests and responses of the control plane that enrollment uses
  (\<open>overlay/controlplane\<close>): registration of a device, exchange of a join token, the signing
  keys, and the approval of a registration.
\<close>

record register_request =
  rq_device :: string
  rq_name :: string
  rq_platform :: string
  rq_hostname :: string
  rq_network :: string
  rq_public_key :: string

record register_response =
  rg_device :: device
  rg_network :: network

record keys_response =
  kr_keys :: signing_keys
  kr_etag :: string
  kr_not_modified :: bool

record device_credential =
  dc_id :: string
  dc_credential :: string
  dc_token_type :: string
  dc_issued :: gotime
  dc_expires :: gotime
  dc_scope :: "string list"

record exchange_request =
  xq_token :: string
  xq_device :: string
  xq_name :: string
  xq_platform :: string
  xq_hostname :: string
  xq_public_key :: string
  xq_now :: gotime

record exchange_response =
  xr_token :: string
  xr_token_type :: string
  xr_expires :: gotime
  xr_scope :: "string list"
  xr_credential :: device_credential
  xr_device :: device
  xr_network :: network
  xr_keys :: "signing_key list"

record create_request =
  nq_network :: string
  nq_device :: string
  nq_name :: string
  nq_hostname :: string
  nq_platform :: string
  nq_public_key :: string

record create_response =
  nr_id :: string
  nr_token :: string
  nr_status :: string
  nr_expires :: gotime
  nr_interval :: int

record pending_response =
  pn_status :: string
  pn_expires :: gotime
  pn_interval :: int

record poll_response =
  pq_pending :: "pending_response option"
  pq_exchange :: "exchange_response option"

end
