(* ===== verification/Join.thy ===== *)
theory Join
  imports Device_Session Messages
begin

text \<open>
  \<open>overlay/usecase/join.go\<close>: the resumable join. A checkpoint on disk says how far it got:
  started, registered, configuration fetched, runtime applied, acknowledged. Each stage saves
  the checkpoint before the next one begins.
\<close>

section \<open>The joiner\<close>

text \<open>
  What the joiner is built with. Three flags say which of the optional interfaces its control
  plane implements; the rest are answers by the number of the call, as in \<open>env\<close>.
\<close>

record joiner =
  jo_env :: env
  jo_contract :: string
  jo_invite :: bool
  jo_signed :: bool
  jo_session :: bool
  jo_key :: "nat \<Rightarrow> error + string \<times> string"
  jo_register :: "nat \<Rightarrow> error + register_response"
  jo_legacy :: "nat \<Rightarrow> error + config"
  jo_keys :: "nat \<Rightarrow> error + keys_response"
  jo_config :: "nat \<Rightarrow> error + signed_config"
  jo_ack :: "nat \<Rightarrow> error + ack_response"
  jo_exchange :: "nat \<Rightarrow> error + exchange_response"

record join_request =
  jq_server :: string
  jq_device :: string
  jq_device_name :: string
  jq_platform :: string
  jq_hostname :: string
  jq_network :: string
  jq_node :: string
  jq_token :: string

record join_result =
  jr_device :: string
  jr_network :: string
  jr_revision :: string
  jr_already :: bool

record fetched_config =
  fc_config :: config
  fc_contract :: string
  fc_id :: string
  fc_generation :: u64

definition parse_config_contract :: "string \<Rightarrow> error + string" where
  "parse_config_contract v =
     (let c = to_lower (trim_space v) in
      if c = ''auto'' \<or> c = ''signed'' \<or> c = ''legacy'' then Inr c
      else Inl (fault CodeInvalidInput ''parse config contract''))"

fun phase_rank :: "phase \<Rightarrow> nat" where
  "phase_rank PhaseNone = 0"
| "phase_rank PhaseStarted = 1"
| "phase_rank PhaseDeviceRegistered = 2"
| "phase_rank PhaseConfigFetched = 3"
| "phase_rank PhaseRuntimeApplied = 4"
| "phase_rank PhaseAcknowledged = 5"

definition phase_at_least :: "phase \<Rightarrow> phase \<Rightarrow> bool" where
  "phase_at_least current target \<longleftrightarrow> phase_rank target \<le> phase_rank current"

definition save_cp :: "joiner \<Rightarrow> checkpoint \<Rightarrow> unit io" where
  "save_cp J cp = disk_write (jo_env J) (\<lambda>io. save_checkpoint io cp)"

section \<open>The enrollment session\<close>

text \<open>What an exchanged token becomes: the credential, and the first session.\<close>

definition exchanged_record :: "checkpoint \<Rightarrow> exchange_response \<Rightarrow> cred_record" where
  "exchanged_record cp x = \<lparr>cr_schema = 1, cr_controller = cp_server cp, cr_device = cp_device cp,
     cr_network = nw_id (xr_network x), cr_platform = cp_platform cp, cr_public_key = cp_public_key cp,
     cr_id = dc_id (xr_credential x), cr_credential = dc_credential (xr_credential x),
     cr_issued = dc_issued (xr_credential x), cr_expires = dc_expires (xr_credential x),
     cr_scope = dc_scope (xr_credential x), cr_keys = \<lparr>ks_keys = xr_keys x, ks_etag = []\<rparr>, cr_pending = None\<rparr>"

definition exchanged_session :: "checkpoint \<Rightarrow> exchange_response \<Rightarrow> gotime \<Rightarrow> enrollment_secret" where
  "exchanged_session cp x created = \<lparr>en_schema = 0, en_controller = cp_server cp, en_device_id = cp_device cp,
     en_network_id = nw_id (xr_network x), en_platform = cp_platform cp, en_public_key = cp_public_key cp,
     en_token = xr_token x, en_expires = xr_expires x, en_scope = xr_scope x, en_device = xr_device x,
     en_network = xr_network x, en_keys = \<lparr>ks_keys = xr_keys x, ks_etag = []\<rparr>, en_created = to_utc created\<rparr>"

definition exchange_enrollment :: "joiner \<Rightarrow> checkpoint \<Rightarrow> string \<Rightarrow> enrollment_secret io" where
  "exchange_enrollment J cp token =
     ifW (trim_space token = []) (fault CodeEnrollmentUnavailable ''renew enrollment with a new invite'')
       (ifW (\<not> jo_invite J) (fault CodeEnrollmentUnavailable ''exchange join invite'')
         (bindW (clock (jo_env J)) (\<lambda>now.
          bindW (call [ExchangeToken token (cp_device cp) (cp_public_key cp)] (jo_exchange J)) (\<lambda>x.
          bindW (tryW (creds_save (jo_env J) (exchanged_record cp x))) (\<lambda>s. case s of
             Inl e \<Rightarrow> raise (fault_cause CodeCredentialStorage ''persist device credential before enrollment'' e)
           | Inr _ \<Rightarrow>
               bindW (clock (jo_env J)) (\<lambda>created.
               bindW (disk_write (jo_env J) (\<lambda>io. save_enrollment_secret io (exchanged_session cp x created))) (\<lambda>_.
                 ret (exchanged_session cp x created))))))))"

text \<open>The session a minted response becomes.\<close>

definition minted_session :: "checkpoint \<Rightarrow> cred_record \<Rightarrow> session_response \<Rightarrow> gotime \<Rightarrow> enrollment_secret" where
  "minted_session cp rec s created = \<lparr>en_schema = 0, en_controller = cp_server cp, en_device_id = cp_device cp,
     en_network_id = cr_network rec, en_platform = cp_platform cp, en_public_key = cp_public_key cp,
     en_token = sr_token s, en_expires = sr_expires s, en_scope = sr_scope s,
     en_device = zero_device\<lparr>dv_id := cr_device rec, dv_network := cr_network rec, dv_platform := cr_platform rec,
       dv_public_key := cr_public_key rec\<rparr>,
     en_network = zero_network\<lparr>nw_id := cr_network rec\<rparr>,
     en_keys = \<lparr>ks_keys = sr_keys s, ks_etag = []\<rparr>, en_created = to_utc created\<rparr>"

definition mint_enrollment :: "joiner \<Rightarrow> checkpoint \<Rightarrow> cred_record \<Rightarrow> enrollment_secret io" where
  "mint_enrollment J cp rec =
     ifW (cr_controller rec \<noteq> cp_server cp \<or> cr_device rec \<noteq> cp_device cp \<or> cr_public_key rec \<noteq> cp_public_key cp \<or>
          (cp_network cp \<noteq> [] \<and> cr_network rec \<noteq> cp_network cp))
       (fault CodeStateConflict ''validate device credential binding'')
       (ifW (\<not> jo_session J) (fault CodeEnrollmentUnavailable ''mint device enrollment session'')
         (bindW (tryW (call [] (ev_nonce (jo_env J)))) (\<lambda>n. case n of
             Inl e \<Rightarrow> raise (fault_cause CodeDeviceSessionInvalid ''generate device session nonce'' e)
           | Inr nonce \<Rightarrow>
               bindW (clock (jo_env J)) (\<lambda>_.
               bindW (call [Mint rec nonce] (ev_mint (jo_env J))) (\<lambda>s.
               bindW (clock (jo_env J)) (\<lambda>created.
               bindW (disk_write (jo_env J) (\<lambda>io. save_enrollment_secret io (minted_session cp rec s created))) (\<lambda>_.
                 ret (minted_session cp rec s created))))))))"

text \<open>The checkpoint follows the session it was renewed with.\<close>

definition adopt_session :: "joiner \<Rightarrow> checkpoint \<Rightarrow> enrollment_secret \<Rightarrow> (enrollment_secret \<times> checkpoint) io" where
  "adopt_session J cp enr =
     bindW (clock (jo_env J)) (\<lambda>now.
       let cp' = cp\<lparr>cp_network := en_network_id enr, cp_contract := ''signed'',
             cp_enrollment_expires := en_expires enr, cp_updated := to_utc now\<rparr>
       in bindW (save_cp J cp') (\<lambda>_. ret (enr, cp')))"

definition renew_by_token :: "joiner \<Rightarrow> checkpoint \<Rightarrow> string \<Rightarrow> (enrollment_secret \<times> checkpoint) io" where
  "renew_by_token J cp token =
     ifW (trim_space token = []) (fault CodeEnrollmentExpired ''enrollment expired; a new invite is required'')
       (bindW (exchange_enrollment J cp token) (\<lambda>enr.
          if cp_network cp \<noteq> [] \<and> en_network_id enr \<noteq> cp_network cp
          then bindW (tryW (disk_remove (jo_env J) clear_enrollment_secret)) (\<lambda>_.
                 raise (fault CodeStateConflict ''validate renewed enrollment network''))
          else adopt_session J cp enr))"

definition renew_enrollment :: "joiner \<Rightarrow> checkpoint \<Rightarrow> string \<Rightarrow> (enrollment_secret \<times> checkpoint) io" where
  "renew_enrollment J cp token =
     (if \<not> ev_has_creds (jo_env J) then renew_by_token J cp token
      else bindW (tryW (creds_load (jo_env J))) (\<lambda>r. case r of
         Inl e \<Rightarrow> if \<not> errors_is e CredentialNotFound then raise e else renew_by_token J cp token
       | Inr rec \<Rightarrow>
           bindW (clock (jo_env J)) (\<lambda>now.
             if cred_expired rec now
             then bindW (tryW (creds_delete (jo_env J))) (\<lambda>_. renew_by_token J cp token)
             else bindW (mint_enrollment J cp rec) (\<lambda>enr. adopt_session J cp enr))))"

definition load_or_renew :: "joiner \<Rightarrow> checkpoint \<Rightarrow> string \<Rightarrow> (enrollment_secret \<times> checkpoint) io" where
  "load_or_renew J cp token =
     bindW (tryW (disk_read (jo_env J)
       (\<lambda>io. load_enrollment_secret io (cp_server cp) (cp_device cp) (cp_public_key cp)))) (\<lambda>r. case r of
        Inl e \<Rightarrow> if \<not> errors_is e StateNotFound then raise e else renew_enrollment J cp token
      | Inr enr \<Rightarrow>
          bindW (clock (jo_env J)) (\<lambda>now.
            if after (en_expires enr) (to_utc now) \<and> (cp_network cp = [] \<or> en_network_id enr = cp_network cp)
            then ret (enr, cp)
            else bindW (tryW (disk_remove (jo_env J) clear_enrollment_secret)) (\<lambda>_. renew_enrollment J cp token)))"

section \<open>The configuration\<close>

text \<open>Verified, for this device, compiled, and the floor raised to its generation.\<close>

definition accept_fetched :: "joiner \<Rightarrow> checkpoint \<Rightarrow> string \<Rightarrow> signing_keys \<Rightarrow> signed_config \<Rightarrow> fetched_config io" where
  "accept_fetched J cp op keys c =
     bindW (clock (jo_env J)) (\<lambda>now.
     bindW (of_result (of_option (verify (ev_signed (jo_env J)) c keys now))) (\<lambda>_.
     ifW (sc_device c \<noteq> cp_device cp \<or> sc_network c \<noteq> cp_network cp) (fault CodeInvalidSignedConfig op)
       (bindW (call [] (\<lambda>n. compile (ev_signed (jo_env J)) (ev_check (jo_env J) n) c)) (\<lambda>k.
        bindW (clock (jo_env J)) (\<lambda>now'.
        bindW (disk_update (jo_env J) (\<lambda>rio wio. accept_signed_config rio wio (cp_server cp) (cp_device cp)
          (cp_network cp) (sc_id c) (cf_digest k) (sc_generation c) now')) (\<lambda>_.
          ret \<lparr>fc_config = k, fc_contract = ''signed'', fc_id = sc_id c, fc_generation = sc_generation c\<rparr>))))))"

definition config_request_of :: "checkpoint \<Rightarrow> config_request" where
  "config_request_of cp = \<lparr>cq_device = cp_device cp, cq_network = cp_network cp, cq_node = cp_node cp\<rparr>"

definition handle_enrollment_error :: "joiner \<Rightarrow> error \<Rightarrow> 'a io" where
  "handle_enrollment_error J e =
     (if fault_code_of e = CodeEnrollmentExpired
      then bindW (tryW (disk_remove (jo_env J) clear_enrollment_secret)) (\<lambda>_. raise e) else raise e)"

text \<open>The keys a session's configuration is verified with: those the device has committed to.\<close>

definition session_keys :: "joiner \<Rightarrow> enrollment_secret \<Rightarrow> signing_keys io" where
  "session_keys J enr =
     (if exact_session_scope (en_scope enr) \<and> ev_has_creds (jo_env J)
      then bindW (creds_load (jo_env J)) (\<lambda>rec. ret (cr_keys rec)) else ret (en_keys enr))"

definition fetch_enrollment_config :: "joiner \<Rightarrow> checkpoint \<Rightarrow> string \<Rightarrow> (fetched_config \<times> checkpoint) io" where
  "fetch_enrollment_config J cp0 token =
     bindW (load_or_renew J cp0 token) (\<lambda>ec. case ec of (enr, cp) \<Rightarrow>
       ifW (\<not> jo_invite J) (fault CodeEnrollmentUnavailable ''use enrollment signed config'')
         (bindW (tryW (call [FetchConfig False (en_token enr) (config_request_of cp)] (ev_config (jo_env J)))) (\<lambda>f. case f of
             Inl e \<Rightarrow> handle_enrollment_error J e
           | Inr c \<Rightarrow>
               bindW (session_keys J enr) (\<lambda>keys.
               bindW (accept_fetched J cp ''validate enrollment signed config ownership'' keys c) (\<lambda>fc. ret (fc, cp))))))"

text \<open>The keys: fresh from the control plane, or the cached ones where it has nothing newer.\<close>

definition refresh_keys :: "joiner \<Rightarrow> checkpoint \<Rightarrow> signing_key_cache option \<Rightarrow> signing_keys io" where
  "refresh_keys J cp cache =
     (let etag = (case cache of None \<Rightarrow> [] | Some k \<Rightarrow> kc_etag k) in
      bindW (tryW (call [FetchKeys etag] (jo_keys J))) (\<lambda>r. case r of
         Inl e \<Rightarrow>
           (case cache of
              Some k \<Rightarrow> if fault_code_of e \<noteq> CodeSignedConfigUnavailable then raise e else ret (kc_keys k)
            | None \<Rightarrow> raise e)
       | Inr resp \<Rightarrow>
           if kr_not_modified resp then
             (case cache of
                Some k \<Rightarrow> ifW (trim_space etag = []) (fault CodeInvalidSigningKeys ''reuse missing signing-key cache'')
                  (ret (kc_keys k))
              | None \<Rightarrow> raise (fault CodeInvalidSigningKeys ''reuse missing signing-key cache''))
           else
             bindW (of_result (of_option (keys_validate (kr_keys resp)))) (\<lambda>_.
             bindW (clock (jo_env J)) (\<lambda>now.
             bindW (disk_write (jo_env J) (\<lambda>io. save_signing_key_cache io
               \<lparr>kc_schema = 0, kc_controller = cp_server cp, kc_device = cp_device cp, kc_etag = kr_etag resp,
                kc_keys = kr_keys resp, kc_fetched = to_utc now\<rparr>)) (\<lambda>_. ret (kr_keys resp))))))"

definition signing_keys_for :: "joiner \<Rightarrow> checkpoint \<Rightarrow> signing_keys io" where
  "signing_keys_for J cp =
     bindW (tryW (disk_read (jo_env J) (\<lambda>io. load_signing_key_cache io (cp_server cp) (cp_device cp)))) (\<lambda>c. case c of
        Inl e \<Rightarrow> if \<not> errors_is e StateNotFound then raise e else refresh_keys J cp None
      | Inr k \<Rightarrow> refresh_keys J cp (Some k))"

definition fetch_signed_config :: "joiner \<Rightarrow> checkpoint \<Rightarrow> fetched_config io" where
  "fetch_signed_config J cp =
     ifW (\<not> jo_signed J) (fault CodeSignedConfigUnavailable ''use signed config control plane'')
       (bindW (signing_keys_for J cp) (\<lambda>keys.
        bindW (call [FetchSigned (config_request_of cp)] (jo_config J)) (\<lambda>c.
          accept_fetched J cp ''validate signed config ownership'' keys c)))"

definition fetch_legacy_config :: "joiner \<Rightarrow> checkpoint \<Rightarrow> fetched_config io" where
  "fetch_legacy_config J cp =
     bindW (call [FetchLegacy (config_request_of cp)] (jo_legacy J)) (\<lambda>k.
       ret \<lparr>fc_config = k, fc_contract = ''legacy'', fc_id = [], fc_generation = 0\<rparr>)"

definition fetch_runtime_config :: "joiner \<Rightarrow> checkpoint \<Rightarrow> string \<Rightarrow> (fetched_config \<times> checkpoint) io" where
  "fetch_runtime_config J cp token =
     (if cp_invite cp then fetch_enrollment_config J cp token
      else
        bindW (disk_read (jo_env J) (\<lambda>io. is_signed_locked io (cp_server cp) (cp_device cp) (cp_network cp))) (\<lambda>locked.
          if jo_contract J = ''legacy'' then
            ifW locked (fault CodeConfigDowngradeBlocked ''fetch legacy config after signed lock'')
              (bindW (fetch_legacy_config J cp) (\<lambda>f. ret (f, cp)))
          else if jo_contract J = ''signed'' then bindW (fetch_signed_config J cp) (\<lambda>f. ret (f, cp))
          else if jo_contract J = ''auto'' then
            bindW (tryW (fetch_signed_config J cp)) (\<lambda>r. case r of
               Inr f \<Rightarrow> ret (f, cp)
             | Inl e \<Rightarrow>
                 if fault_code_of e \<noteq> CodeSignedConfigUnavailable then raise e
                 else if locked
                 then raise (fault_cause CodeConfigDowngradeBlocked ''fetch legacy config after signed lock'' e)
                 else raise (fault_cause CodeSignedConfigUnavailable ''control plane does not support signed config'' e))
          else raise (fault CodeInvalidInput ''select config contract'')))"

section \<open>A device that has joined before\<close>

text \<open>
  The last-known configuration is put back without asking the control plane: the floor is
  checked again, and the runtime applied if it does not run that configuration.
\<close>

definition recover_last_known :: "joiner \<Rightarrow> last_known \<Rightarrow> join_result io" where
  "recover_last_known J lk =
     bindW (if lk_contract lk = ''signed''
            then bindW (clock (jo_env J)) (\<lambda>now. disk_update (jo_env J) (\<lambda>rio wio. accept_signed_config rio wio
              (lk_server lk) (lk_device lk) (lk_network lk) (lk_config_id lk) (cf_digest (lk_config lk))
              (lk_generation lk) now))
            else ret ()) (\<lambda>_.
     bindW (tryW (call [] (ev_status (jo_env J)))) (\<lambda>s. case s of
        Inl e \<Rightarrow> raise (fault_cause CodeRuntimeStatusFailed ''read existing runtime status'' e)
      | Inr st \<Rightarrow>
          bindW (if runtime_matches st (lk_config lk) then ret ()
                 else apply_runtime (jo_env J) ''validate recovered runtime'' ''recover existing runtime'' (lk_config lk)
                   (lk_private_key lk)) (\<lambda>_.
            ret \<lparr>jr_device = lk_device lk, jr_network = lk_network lk, jr_revision = cf_revision (lk_config lk),
              jr_already = True\<rparr>)))"

definition seed_migration_checkpoint :: "joiner \<Rightarrow> last_known \<Rightarrow> unit io" where
  "seed_migration_checkpoint J lk =
     bindW (tryW (disk_read (jo_env J) load_checkpoint)) (\<lambda>r. case r of
        Inr cp \<Rightarrow>
          ifW (cp_server cp \<noteq> lk_server lk \<or> cp_device cp \<noteq> lk_device lk \<or> cp_network cp \<noteq> lk_network lk)
            (fault CodeStateConflict ''resume config-contract migration'') (ret ())
      | Inl e \<Rightarrow>
          if \<not> errors_is e StateNotFound then raise e
          else bindW (clock (jo_env J)) (\<lambda>now. save_cp J
            \<lparr>cp_schema = 0, cp_server = lk_server lk, cp_device = lk_device lk, cp_device_name = [], cp_platform = [],
             cp_hostname = [], cp_network = lk_network lk, cp_node = lk_node lk, cp_private_key = lk_private_key lk,
             cp_public_key = lk_public_key lk, cp_phase = PhaseDeviceRegistered, cp_config = None, cp_contract = [],
             cp_config_id = [], cp_generation = 0, cp_invite = False, cp_enrollment_expires = zero_time,
             cp_last_error = [], cp_updated = to_utc now\<rparr>))"

definition rejoin :: "joiner \<Rightarrow> bool \<Rightarrow> last_known \<Rightarrow> join_result option io" where
  "rejoin J last_signed lk =
     bindW (if last_signed then disk_remove (jo_env J) clear_enrollment_secret else ret ()) (\<lambda>_.
     bindW (recover_last_known J lk) (\<lambda>r. ret (Some r)))"

text \<open>\<open>Some\<close> result: the join ends here; \<open>None\<close>: it goes on with the checkpoint.\<close>

definition join_known :: "joiner \<Rightarrow> join_request \<Rightarrow> last_known \<Rightarrow> join_result option io" where
  "join_known J q lk =
     (if lk_server lk = jq_server q \<and> lk_device lk = jq_device q \<and> lk_phase lk = PhaseAcknowledged then
        (let last = (if lk_contract lk = [] then ''legacy'' else lk_contract lk) in
         ifW (trim_space (jq_network q) \<noteq> [] \<and> trim_space (jq_network q) \<noteq> lk_network lk)
           (fault CodeStateConflict ''join existing device'')
           (ifW (trim_space (jq_node q) \<noteq> [] \<and> trim_space (jq_node q) \<noteq> lk_node lk)
             (fault CodeStateConflict ''join existing device'')
             (ifW (last = ''signed'' \<and> jo_contract J = ''legacy'')
               (fault CodeConfigDowngradeBlocked ''join signed device with legacy config'')
               (if last = ''signed'' \<or> jo_contract J = ''legacy'' then rejoin J (last = ''signed'') lk
                else bindW (seed_migration_checkpoint J lk) (\<lambda>_. ret None)))))
      else ret None)"

section \<open>The stages\<close>

definition load_or_create_checkpoint :: "joiner \<Rightarrow> join_request \<Rightarrow> checkpoint io" where
  "load_or_create_checkpoint J q =
     bindW (tryW (disk_read (jo_env J) load_checkpoint)) (\<lambda>r. case r of
        Inr cp \<Rightarrow>
          ifW (cp_server cp \<noteq> jq_server q \<or> cp_device cp \<noteq> jq_device q) (fault CodeStateConflict ''resume join'')
            (ifW (trim_space (jq_token q) \<noteq> [] \<and> \<not> cp_invite cp)
              (fault CodeStateConflict ''resume join enrollment mode'') (ret cp))
      | Inl e \<Rightarrow>
          if \<not> errors_is e StateNotFound then raise e
          else bindW (tryW (call [] (jo_key J))) (\<lambda>k. case k of
             Inl e \<Rightarrow> raise (fault_cause CodeInvalidConfig ''generate WireGuard key'' e)
           | Inr key \<Rightarrow>
               bindW (clock (jo_env J)) (\<lambda>now.
                 let cp = \<lparr>cp_schema = 0, cp_server = jq_server q, cp_device = jq_device q,
                       cp_device_name = trim_space (jq_device_name q), cp_platform = trim_space (jq_platform q),
                       cp_hostname = trim_space (jq_hostname q), cp_network = trim_space (jq_network q),
                       cp_node = trim_space (jq_node q), cp_private_key = fst key, cp_public_key = snd key,
                       cp_phase = PhaseStarted, cp_config = None, cp_contract = [], cp_config_id = [], cp_generation = 0,
                       cp_invite = (trim_space (jq_token q) \<noteq> []), cp_enrollment_expires = zero_time,
                       cp_last_error = [], cp_updated = to_utc now\<rparr>
                 in bindW (save_cp J cp) (\<lambda>_. ret cp))))"

text \<open>The checkpoint moved to the next phase and saved.\<close>

definition advance :: "joiner \<Rightarrow> phase \<Rightarrow> checkpoint \<Rightarrow> checkpoint io" where
  "advance J p cp =
     bindW (clock (jo_env J)) (\<lambda>now.
       let cp' = cp\<lparr>cp_phase := p, cp_last_error := [], cp_updated := to_utc now\<rparr>
       in bindW (save_cp J cp') (\<lambda>_. ret cp'))"

definition register_device :: "joiner \<Rightarrow> checkpoint \<Rightarrow> checkpoint io" where
  "register_device J cp =
     bindW (call [RegisterDevice (cp_device cp) (cp_network cp) (cp_public_key cp)] (jo_register J)) (\<lambda>resp.
       ifW (dv_id (rg_device resp) = [] \<or> dv_id (rg_device resp) \<noteq> cp_device cp \<or> dv_network (rg_device resp) = [] \<or>
            nw_id (rg_network resp) \<noteq> dv_network (rg_device resp))
         (fault CodeInvalidResponse ''register overlay device'')
         (ret (cp\<lparr>cp_network := dv_network (rg_device resp)\<rparr>)))"

definition register_invited :: "joiner \<Rightarrow> string \<Rightarrow> checkpoint \<Rightarrow> checkpoint io" where
  "register_invited J token cp =
     bindW (load_or_renew J cp token) (\<lambda>ec. case ec of (enr, cp1) \<Rightarrow>
       ifW (cp_network cp1 \<noteq> [] \<and> cp_network cp1 \<noteq> en_network_id enr)
         (fault CodeStateConflict ''validate invite network'')
         (ret (cp1\<lparr>cp_network := en_network_id enr, cp_contract := ''signed'',
            cp_enrollment_expires := en_expires enr\<rparr>)))"

definition register_stage :: "joiner \<Rightarrow> string \<Rightarrow> checkpoint \<Rightarrow> checkpoint io" where
  "register_stage J token cp =
     (if phase_at_least (cp_phase cp) PhaseDeviceRegistered then ret cp
      else
        bindW (if cp_invite cp then register_invited J token cp else register_device J cp)
          (advance J PhaseDeviceRegistered))"

definition with_fetched :: "fetched_config \<Rightarrow> checkpoint \<Rightarrow> checkpoint" where
  "with_fetched f cp = cp\<lparr>cp_config := Some (fc_config f), cp_contract := fc_contract f, cp_config_id := fc_id f,
     cp_generation := fc_generation f\<rparr>"

definition store_fetched :: "joiner \<Rightarrow> fetched_config \<Rightarrow> checkpoint \<Rightarrow> checkpoint io" where
  "store_fetched J f cp =
     bindW (call [] (\<lambda>n. of_option (config_validate (ev_check (jo_env J) n) (fc_config f)))) (\<lambda>_.
       ifW (dv_id (cf_device (fc_config f)) \<noteq> cp_device cp \<or> dv_network (cf_device (fc_config f)) \<noteq> cp_network cp \<or>
            nw_id (cf_network (fc_config f)) \<noteq> cp_network cp)
         (fault CodeInvalidConfig ''validate config ownership'')
         (advance J PhaseConfigFetched (with_fetched f cp)))"

definition fetch_stage :: "joiner \<Rightarrow> string \<Rightarrow> checkpoint \<Rightarrow> checkpoint io" where
  "fetch_stage J token cp =
     (if phase_at_least (cp_phase cp) PhaseConfigFetched then ret cp
      else bindW (fetch_runtime_config J cp token) (\<lambda>fc. store_fetched J (fst fc) (snd fc)))"

text \<open>A runtime that cannot be applied leaves its code in the checkpoint.\<close>

definition apply_stage :: "joiner \<Rightarrow> config \<Rightarrow> checkpoint \<Rightarrow> checkpoint io" where
  "apply_stage J k cp =
     (if phase_at_least (cp_phase cp) PhaseRuntimeApplied then ret cp
      else
        bindW (tryW (apply_checked (jo_env J) ''validate runtime apply result'' k (cp_private_key cp))) (\<lambda>r. case r of
           Inr _ \<Rightarrow> advance J PhaseRuntimeApplied cp
         | Inl e \<Rightarrow>
             bindW (clock (jo_env J)) (\<lambda>now.
             bindW (tryW (save_cp J (cp\<lparr>cp_last_error := code_text (runtime_apply_error_code e),
                 cp_updated := to_utc now\<rparr>))) (\<lambda>_.
               raise (fault_cause (runtime_apply_error_code e) ''apply runtime profile'' e)))))"

text \<open>The answer is for what was acknowledged.\<close>

definition ack_matches :: "checkpoint \<Rightarrow> ack_response \<Rightarrow> bool" where
  "ack_matches cp a \<longleftrightarrow> ar_acked a \<and> ak_device (ar_ack a) = cp_device cp \<and> ak_config_id (ar_ack a) = cp_config_id cp \<and>
     ak_generation (ar_ack a) = cp_generation cp"

definition commit_keys :: "joiner \<Rightarrow> enrollment_secret \<Rightarrow> unit io" where
  "commit_keys J enr =
     (if exact_session_scope (en_scope enr) \<and> ev_has_creds (jo_env J) then
        bindW (creds_load (jo_env J)) (\<lambda>rec.
        bindW (tryW (creds_save (jo_env J) (rec\<lparr>cr_keys := en_keys enr\<rparr>))) (\<lambda>s. case s of
           Inl e \<Rightarrow> raise (fault_cause CodeCredentialStorage ''commit verified signing keys'' e)
         | Inr _ \<Rightarrow> ret ()))
      else ret ())"

definition ack_enrollment :: "joiner \<Rightarrow> string \<Rightarrow> checkpoint \<Rightarrow> checkpoint io" where
  "ack_enrollment J token cp0 =
     bindW (load_or_renew J cp0 token) (\<lambda>ec. case ec of (enr, cp) \<Rightarrow>
       ifW (\<not> jo_invite J) (fault CodeEnrollmentUnavailable ''ack enrollment signed config'')
         (bindW (clock (jo_env J)) (\<lambda>_.
          bindW (tryW (call [Ack (en_token enr) (cp_generation cp) (cp_config_id cp) (cp_device cp)]
              (ev_ack (jo_env J)))) (\<lambda>r. case r of
             Inl e \<Rightarrow> handle_enrollment_error J e
           | Inr a \<Rightarrow>
               ifW (\<not> ack_matches cp a) (fault CodeInvalidResponse ''acknowledge enrollment signed config'')
                 (bindW (commit_keys J enr) (\<lambda>_. ret cp))))))"

definition ack_signed :: "joiner \<Rightarrow> checkpoint \<Rightarrow> checkpoint io" where
  "ack_signed J cp =
     ifW (\<not> jo_signed J) (fault CodeSignedConfigUnavailable ''ack signed config'')
       (bindW (clock (jo_env J)) (\<lambda>_.
        bindW (call [AckSigned (cp_generation cp) (cp_config_id cp) (cp_device cp)] (jo_ack J)) (\<lambda>a.
          ifW (\<not> ack_matches cp a) (fault CodeInvalidResponse ''acknowledge signed config'') (ret cp))))"

definition ack_stage :: "joiner \<Rightarrow> string \<Rightarrow> checkpoint \<Rightarrow> checkpoint io" where
  "ack_stage J token cp =
     (if phase_at_least (cp_phase cp) PhaseAcknowledged then ret cp
      else
        bindW (if cp_invite cp then ack_enrollment J token cp
               else if cp_contract cp = ''signed'' then ack_signed J cp
               else raise (fault CodeSignedConfigUnavailable ''control plane does not support signed config''))
          (\<lambda>cp1. bindW (clock (jo_env J)) (\<lambda>now.
             let cp2 = cp1\<lparr>cp_phase := PhaseAcknowledged, cp_updated := to_utc now\<rparr>
             in bindW (save_cp J cp2) (\<lambda>_. ret cp2))))"

definition joined_state :: "checkpoint \<Rightarrow> config \<Rightarrow> gotime \<Rightarrow> last_known" where
  "joined_state cp k now = \<lparr>lk_schema = 0, lk_server = cp_server cp, lk_device = cp_device cp, lk_network = cp_network cp,
     lk_node = cp_node cp, lk_private_key = cp_private_key cp, lk_public_key = cp_public_key cp,
     lk_phase = PhaseAcknowledged, lk_config = k, lk_contract = cp_contract cp, lk_config_id = cp_config_id cp,
     lk_generation = cp_generation cp, lk_updated = to_utc now\<rparr>"

definition commit_stage :: "joiner \<Rightarrow> config \<Rightarrow> checkpoint \<Rightarrow> join_result io" where
  "commit_stage J k cp =
     bindW (clock (jo_env J)) (\<lambda>now.
     bindW (disk_write (jo_env J) (\<lambda>io. save_last_known io (joined_state cp k now))) (\<lambda>_.
     bindW (disk_remove (jo_env J) clear_checkpoint) (\<lambda>_.
     bindW (if cp_invite cp then disk_remove (jo_env J) clear_enrollment_secret else ret ()) (\<lambda>_.
       ret \<lparr>jr_device = cp_device cp, jr_network = cp_network cp, jr_revision = cf_revision k, jr_already = False\<rparr>))))"

section \<open>Join\<close>

definition normal_request :: "join_request \<Rightarrow> join_request" where
  "normal_request q = q\<lparr>jq_server := trim_right_slash (trim_space (jq_server q)), jq_device := trim_space (jq_device q)\<rparr>"

text \<open>The checks of the checkpoint against how this joiner is set up.\<close>

definition resume_check :: "joiner \<Rightarrow> checkpoint \<Rightarrow> error option" where
  "resume_check J cp =
     (if cp_invite cp \<and> \<not> ev_has_creds (jo_env J)
      then Some (fault CodeCredentialStorage ''use protected device credential storage'')
      else if cp_contract cp = ''signed'' \<and> jo_contract J = ''legacy''
      then Some (fault CodeConfigDowngradeBlocked ''resume signed config with legacy contract'')
      else if cp_contract cp = ''legacy'' \<and> jo_contract J = ''signed'' \<and> phase_at_least (cp_phase cp) PhaseConfigFetched
      then Some (fault CodeStateConflict ''resume legacy config with signed contract'')
      else None)"

definition join_stages :: "joiner \<Rightarrow> string \<Rightarrow> checkpoint \<Rightarrow> join_result io" where
  "join_stages J token cp0 =
     bindW (register_stage J token cp0) (\<lambda>cp1.
     bindW (fetch_stage J token cp1) (\<lambda>cp2.
       case cp_config cp2 of
         None \<Rightarrow> raise (fault CodeStateIO ''resume join'')
       | Some k \<Rightarrow>
           bindW (apply_stage J k cp2) (\<lambda>cp3.
           bindW (ack_stage J token cp3) (\<lambda>cp4. commit_stage J k cp4))))"

definition join :: "joiner \<Rightarrow> join_request \<Rightarrow> join_result io" where
  "join J q0 =
     (let q = normal_request q0 in
      ifW (jq_server q = [] \<or> jq_device q = []) (fault CodeInvalidInput ''join overlay'')
        (bindW (bindW (tryW (disk_read (jo_env J) load_last_known)) (\<lambda>l. case l of
                  Inl e \<Rightarrow> if \<not> errors_is e StateNotFound then raise e else ret None
                | Inr lk \<Rightarrow> join_known J q lk)) (\<lambda>known. case known of
            Some r \<Rightarrow> ret r
          | None \<Rightarrow>
              bindW (load_or_create_checkpoint J q) (\<lambda>cp.
              bindW (of_result (of_option (resume_check J cp))) (\<lambda>_.
                join_stages J (jq_token q) cp)))))"

end
