(* ===== verification/Weakest.thy ===== *)
theory Weakest
  imports Node
begin

text \<open>
  Weakest preconditions of the calls of \<open>Node\<close>: the log, the clock and the state directory.
\<close>

section \<open>Calls and files\<close>

lemma wp_call [wp_simps]:
  "wp (call es f) Q F w = (let v = tick (w\<lparr>w_log := w_log w @ es\<rparr>) in
     case f (w_tick w) of Inl e \<Rightarrow> F e v | Inr a \<Rightarrow> Q a v)"
  by (simp add: wp_def call_def Let_def)

lemma wp_clock [wp_simps]: "wp (clock E) Q F w = Q (ev_now E (w_tick w)) (tick w)"
  by (simp add: clock_def wp_call)

lemma wp_disk_read [wp_simps]:
  "wp (disk_read E f) Q F w = (case f (ev_read E (w_tick w)) (w_disk w) of Inl e \<Rightarrow> F e (tick w) | Inr a \<Rightarrow> Q a (tick w))"
  by (simp add: wp_def disk_read_def)

lemma wp_disk_write [wp_simps]:
  "wp (disk_write E f) Q F w = (case f (ev_write E (w_tick w)) (w_disk w) of (e, d) \<Rightarrow>
     (case e of Some e \<Rightarrow> F e (tick (w\<lparr>w_disk := d\<rparr>)) | None \<Rightarrow> Q () (tick (w\<lparr>w_disk := d\<rparr>))))"
  by (simp add: wp_def disk_write_def of_option_def split: prod.split option.split)

lemma wp_disk_remove [wp_simps]:
  "wp (disk_remove E f) Q F w = (case f (ev_remove E (w_tick w)) (w_disk w) of (e, d) \<Rightarrow>
     (case e of Some e \<Rightarrow> F e (tick (w\<lparr>w_disk := d\<rparr>)) | None \<Rightarrow> Q () (tick (w\<lparr>w_disk := d\<rparr>))))"
  by (simp add: wp_def disk_remove_def of_option_def split: prod.split option.split)

end
