(* ===== verification/Join_Runs.thy ===== *)
theory Join_Runs
  imports Join Weakest Session_Runs
begin

text \<open>
  What every run of \<open>Join\<close> keeps, on whichever exit: the checkpoint on disk only moves forward
  and keeps its keys, a legacy configuration is not fetched past a signed lock, and nothing is
  acknowledged before the runtime runs it.
\<close>

section \<open>Progress of the checkpoint\<close>

text \<open>The same enrollment, at least as far.\<close>

definition cp_progress :: "checkpoint \<Rightarrow> checkpoint \<Rightarrow> bool" where
  "cp_progress c c' \<longleftrightarrow>
     cp_server c' = cp_server c \<and> cp_device c' = cp_device c \<and> cp_private_key c' = cp_private_key c \<and>
     cp_public_key c' = cp_public_key c \<and> cp_invite c' = cp_invite c \<and> phase_rank (cp_phase c) \<le> phase_rank (cp_phase c')"

lemma cp_progress_refl [simp]: "cp_progress c c"
  by (simp add: cp_progress_def)

lemma cp_progress_trans: "cp_progress a b \<Longrightarrow> cp_progress b c \<Longrightarrow> cp_progress a c"
  by (auto simp: cp_progress_def)

definition saved_form :: "checkpoint \<Rightarrow> checkpoint" where
  "saved_form cp = checkpoint_form (cp\<lparr>cp_schema := 1\<rparr>)"

lemma saved_form_sels [simp]:
  "cp_server (saved_form c) = cp_server c" "cp_device (saved_form c) = cp_device c"
  "cp_private_key (saved_form c) = cp_private_key c" "cp_public_key (saved_form c) = cp_public_key c"
  "cp_invite (saved_form c) = cp_invite c" "cp_phase (saved_form c) = cp_phase c"
  by (simp_all add: saved_form_def checkpoint_form_def)

lemma cp_progress_saved [simp]: "cp_progress a (saved_form c) \<longleftrightarrow> cp_progress a c" "cp_progress (saved_form c) a \<longleftrightarrow> cp_progress c a"
  by (simp_all add: cp_progress_def)

text \<open>The checkpoint on disk is at most as far as the one in hand.\<close>

definition on_disk :: "world \<Rightarrow> checkpoint \<Rightarrow> bool" where
  "on_disk w cp \<longleftrightarrow> (\<exists>c. dk_checkpoint (w_disk w) = Doc c \<and> cp_progress c cp)"

definition climbed :: "world \<Rightarrow> world \<Rightarrow> bool" where
  "climbed w v \<longleftrightarrow> (\<forall>c. dk_checkpoint (w_disk w) = Doc c \<longrightarrow>
     (\<exists>c'. dk_checkpoint (w_disk v) = Doc c' \<and> cp_progress c c'))"

lemma climbed_refl [simp]: "climbed w w"
  by (simp add: climbed_def)

lemma climbed_trans: "climbed u v \<Longrightarrow> climbed v w \<Longrightarrow> climbed u w"
  unfolding climbed_def by (meson cp_progress_trans)

section \<open>What a join says to the outside\<close>

definition legacy_fetches :: "world \<Rightarrow> event list" where
  "legacy_fetches w = filter (\<lambda>e. case e of FetchLegacy r \<Rightarrow> True | _ \<Rightarrow> False) (w_log w)"

definition join_acks :: "world \<Rightarrow> event list" where
  "join_acks w = filter (\<lambda>e. case e of Ack t g i d \<Rightarrow> True | AckSigned g i d \<Rightarrow> True | _ \<Rightarrow> False) (w_log w)"

lemma join_log_simps [simp]:
  "legacy_fetches (w\<lparr>w_disk := d\<rparr>) = legacy_fetches w" "legacy_fetches (w\<lparr>w_creds := c\<rparr>) = legacy_fetches w"
  "legacy_fetches (tick w) = legacy_fetches w" "join_acks (w\<lparr>w_disk := d\<rparr>) = join_acks w"
  "join_acks (w\<lparr>w_creds := c\<rparr>) = join_acks w" "join_acks (tick w) = join_acks w"
  by (simp_all add: legacy_fetches_def join_acks_def)

text \<open>
  A step beside the checkpoint: it changes neither the checkpoint, nor the last-known state, nor
  the floors, and neither fetches a legacy configuration nor acknowledges one.
\<close>

definition aside :: "world \<Rightarrow> world \<Rightarrow> bool" where
  "aside w v \<longleftrightarrow> dk_checkpoint (w_disk v) = dk_checkpoint (w_disk w) \<and>
     dk_last_known (w_disk v) = dk_last_known (w_disk w) \<and> dk_contract (w_disk v) = dk_contract (w_disk w) \<and>
     legacy_fetches v = legacy_fetches w \<and> join_acks v = join_acks w"

interpretation aside: preorder_rel aside
  by unfold_locales (auto simp: aside_def)

lemma aside_call:
  "\<forall>e \<in> set es. (case e of FetchLegacy r \<Rightarrow> False | Ack t g i d \<Rightarrow> False | AckSigned g i d \<Rightarrow> False | _ \<Rightarrow> True) \<Longrightarrow>
     keeps_rel aside (call es f)"
  by (intro aside.call_keeps)
    (auto simp: aside_def legacy_fetches_def join_acks_def filter_empty_conv split: event.splits)

lemma clear_enrollment_aside: "aside w (w\<lparr>w_disk := snd (clear_enrollment_secret io (w_disk w))\<rparr>)"
  by (simp add: clear_enrollment_secret_def aside_def split: prod.split)

lemma save_enrollment_aside: "aside w (w\<lparr>w_disk := snd (save_enrollment_secret io s (w_disk w))\<rparr>)"
  by (auto simp: save_enrollment_secret_def Let_def aside_def split: option.splits prod.splits)

lemma save_keys_aside: "aside w (w\<lparr>w_disk := snd (save_signing_key_cache io s (w_disk w))\<rparr>)"
  by (auto simp: save_signing_key_cache_def aside_def split: prod.splits)

lemma creds_aside: "keeps_rel aside (creds_save E r)" "keeps_rel aside (creds_delete E)"
  by (auto simp: keeps_rel_def creds_save_def creds_delete_def aside_def split: prod.splits)

lemmas aside_steps = aside.disk_write_keeps [OF save_enrollment_aside] aside.disk_write_keeps [OF save_keys_aside]
  aside.disk_remove_keeps [OF clear_enrollment_aside] creds_aside aside_call

lemma mint_enrollment_aside: "keeps_rel aside (mint_enrollment J cp rec)"
  unfolding mint_enrollment_def by (intro keeps aside_steps) simp

lemma exchange_enrollment_aside: "keeps_rel aside (exchange_enrollment J cp token)"
  unfolding exchange_enrollment_def by (intro keeps aside_steps) simp

lemma handle_enrollment_error_aside: "keeps_rel aside (handle_enrollment_error J e)"
  unfolding handle_enrollment_error_def by (intro keeps aside_steps)

lemma signing_keys_aside: "keeps_rel aside (signing_keys_for J cp)"
  unfolding signing_keys_for_def refresh_keys_def Let_def by (intro keeps aside_steps) simp_all

lemma register_device_aside: "keeps_rel aside (register_device J cp)"
  unfolding register_device_def by (intro keeps aside_steps) simp

lemma apply_checked_aside: "keeps_rel aside (apply_checked E op k key)"
  unfolding apply_checked_def by (intro keeps aside_steps) simp

section \<open>The stages\<close>

text \<open>What every stage before the commit keeps, on every exit.\<close>

definition moved :: "world \<Rightarrow> world \<Rightarrow> bool" where
  "moved w v \<longleftrightarrow> climbed w v \<and> dk_last_known (w_disk v) = dk_last_known (w_disk w)"

definition hushed :: "world \<Rightarrow> world \<Rightarrow> bool" where
  "hushed w v \<longleftrightarrow> legacy_fetches v = legacy_fetches w \<and> join_acks v = join_acks w"

definition same_floors :: "world \<Rightarrow> world \<Rightarrow> bool" where
  "same_floors w v \<longleftrightarrow> dk_contract (w_disk v) = dk_contract (w_disk w)"

lemma moved_refl [simp]: "moved w w" "hushed w w" "same_floors w w"
  by (simp_all add: moved_def hushed_def same_floors_def)

lemma moved_trans: "moved u v \<Longrightarrow> moved v w \<Longrightarrow> moved u w"
  by (auto simp: moved_def intro: climbed_trans)

lemma hushed_trans: "hushed u v \<Longrightarrow> hushed v w \<Longrightarrow> hushed u w"
  by (simp add: hushed_def)

lemma same_floors_trans: "same_floors u v \<Longrightarrow> same_floors v w \<Longrightarrow> same_floors u w"
  by (simp add: same_floors_def)

text \<open>A stage with the checkpoint \<open>cp\<close> in hand, from \<open>w\<close> on: calm so far.\<close>

definition calm :: "world \<Rightarrow> checkpoint \<Rightarrow> world \<Rightarrow> bool" where
  "calm w cp v \<longleftrightarrow> moved w v \<and> hushed w v \<and> same_floors w v \<and> on_disk v cp"

definition left_off :: "world \<Rightarrow> world \<Rightarrow> bool" where
  "left_off w v \<longleftrightarrow> moved w v \<and> hushed w v"

lemma calm_refl: "on_disk w cp \<Longrightarrow> calm w cp w"
  by (simp add: calm_def)

lemma calm_left_off: "calm w cp v \<Longrightarrow> left_off w v"
  by (simp add: calm_def left_off_def)

lemma left_off_tick [simp]: "left_off w (tick v) \<longleftrightarrow> left_off w v"
  by (simp add: left_off_def moved_def hushed_def climbed_def)

lemma calm_trans: "calm u cp v \<Longrightarrow> calm v cp' w \<Longrightarrow> calm u cp' w"
  by (meson calm_def moved_trans hushed_trans same_floors_trans)

lemma left_off_trans: "calm u cp v \<Longrightarrow> left_off v w \<Longrightarrow> left_off u w"
  by (meson calm_def left_off_def moved_trans hushed_trans)

lemma calm_aside: "calm u cp v \<Longrightarrow> aside v w \<Longrightarrow> calm u cp w"
  by (auto simp: calm_def aside_def moved_def climbed_def hushed_def same_floors_def on_disk_def)

lemma calm_tick [simp]: "calm u cp v \<Longrightarrow> calm u cp (tick v)"
  by (rule calm_aside [OF _ aside.R_tick])

lemma wp_aside:
  assumes "keeps_rel aside m" and "calm w cp u"
    and "\<And>a v. calm w cp v \<Longrightarrow> Q a v" and "\<And>e v. calm w cp v \<Longrightarrow> F e v"
  shows "wp m Q F u"
  using assms(1) by (rule wp_keeps) (use assms(2-4) calm_aside in blast)+

text \<open>Saving the checkpoint touches nothing else.\<close>

definition beside :: "world \<Rightarrow> world \<Rightarrow> bool" where
  "beside u v \<longleftrightarrow> dk_last_known (w_disk v) = dk_last_known (w_disk u) \<and> dk_contract (w_disk v) = dk_contract (w_disk u) \<and>
     w_log v = w_log u \<and> w_creds v = w_creds u"

lemma wp_save_any:
  assumes "on_disk u cp" and "cp_progress cp cp'"
    and "\<And>v. beside u v \<Longrightarrow> climbed u v \<Longrightarrow> on_disk v cp' \<Longrightarrow> dk_checkpoint (w_disk v) = Doc (saved_form cp') \<Longrightarrow> Q () v"
    and "\<And>e v. beside u v \<Longrightarrow> climbed u v \<Longrightarrow> F e v"
  shows "wp (save_cp J cp') Q F u"
proof -
  obtain e f where save: "save_checkpoint (ev_write (jo_env J) (w_tick u)) cp' (w_disk u) = (e, (w_disk u)\<lparr>dk_checkpoint := f\<rparr>)"
    and f: "f = dk_checkpoint (w_disk u) \<and> e \<noteq> None \<or> f = Doc (saved_form cp')"
  proof -
    obtain e f where w: "write_json (ev_write (jo_env J) (w_tick u)) checkpoint_form (cp'\<lparr>cp_schema := 1\<rparr>)
      (dk_checkpoint (w_disk u)) = (e, f)" by (metis prod.exhaust)
    show thesis
      by (rule that [of e f])
        (use write_json_cases [OF w] in \<open>auto simp: save_checkpoint_def w saved_form_def\<close>)
  qed
  let ?v = "tick (u\<lparr>w_disk := (w_disk u)\<lparr>dk_checkpoint := f\<rparr>\<rparr>)"
  obtain c where c: "dk_checkpoint (w_disk u) = Doc c" "cp_progress c cp" using assms(1) by (auto simp: on_disk_def)
  have up: "cp_progress c cp'" by (rule cp_progress_trans [OF c(2) assms(2)])
  have "climbed u ?v" "beside u ?v" "on_disk ?v cp'" using f c up by (auto simp: climbed_def beside_def on_disk_def)
  with f assms(3,4) show ?thesis
    by (cases e) (auto simp: save_cp_def wp_disk_write save)
qed

lemma wp_save_cp:
  assumes "calm w cp u" and "cp_progress cp cp'"
    and "\<And>v. calm w cp' v \<Longrightarrow> Q () v" and "\<And>e v. left_off w v \<Longrightarrow> F e v"
  shows "wp (save_cp J cp') Q F u"
proof -
  have left: "left_off w v \<and> same_floors w v" if "beside u v" "climbed u v" for v
    using assms(1) that climbed_trans
    by (auto simp: calm_def left_off_def beside_def moved_def hushed_def same_floors_def legacy_fetches_def join_acks_def)
  show ?thesis
    by (rule wp_save_any [of u cp]) (use assms left in \<open>auto simp: calm_def left_off_def\<close>)
qed

text \<open>A checkpoint that only took over the network and the lifetime of a session.\<close>

definition renewed :: "checkpoint \<Rightarrow> checkpoint \<Rightarrow> bool" where
  "renewed cp cp' \<longleftrightarrow> cp_progress cp cp' \<and> cp_phase cp' = cp_phase cp \<and> cp_config cp' = cp_config cp \<and>
     cp_config_id cp' = cp_config_id cp \<and> cp_generation cp' = cp_generation cp"

lemma renewed_refl [simp]: "renewed cp cp"
  by (simp add: renewed_def)

lemma adopt_session_wp:
  assumes "calm w cp u"
  shows "wp (adopt_session J cp enr) (\<lambda>ec v. calm w (snd ec) v \<and> renewed cp (snd ec)) (\<lambda>e v. left_off w v) u"
  unfolding adopt_session_def Let_def wp_simps
  by (rule wp_save_cp [OF calm_tick [OF assms]]) (simp_all add: wp_simps cp_progress_def renewed_def)

lemma renew_by_token_wp:
  assumes "calm w cp u"
  shows "wp (renew_by_token J cp token) (\<lambda>ec v. calm w (snd ec) v \<and> renewed cp (snd ec)) (\<lambda>e v. left_off w v) u"
proof -
  have clear: "wp (tryW (disk_remove (jo_env J) clear_enrollment_secret))
      (\<lambda>_. wp (raise x) (\<lambda>ec v. calm w (snd ec) v \<and> renewed cp (snd ec)) (\<lambda>e v. left_off w v)) (\<lambda>e v. left_off w v) v"
    if "calm w cp v" for v x
    by (rule wp_aside [OF _ that]) (auto intro: keeps aside_steps simp: wp_raise calm_left_off)
  have exchanged: "wp (exchange_enrollment J cp token) (\<lambda>enr.
      wp (if cp_network cp \<noteq> [] \<and> en_network_id enr \<noteq> cp_network cp
          then bindW (tryW (disk_remove (jo_env J) clear_enrollment_secret)) (\<lambda>_.
                 raise (fault CodeStateConflict ''validate renewed enrollment network''))
          else adopt_session J cp enr)
        (\<lambda>ec v. calm w (snd ec) v \<and> renewed cp (snd ec)) (\<lambda>e v. left_off w v)) (\<lambda>e v. left_off w v) u"
    by (rule wp_aside [OF exchange_enrollment_aside assms])
      (simp_all add: wp_if wp_bind clear adopt_session_wp calm_left_off)
  then show ?thesis
    unfolding renew_by_token_def wp_ifW wp_bind using calm_left_off [OF assms] by simp
qed

lemma renew_enrollment_wp:
  assumes "calm w cp u"
  shows "wp (renew_enrollment J cp token) (\<lambda>ec v. calm w (snd ec) v \<and> renewed cp (snd ec)) (\<lambda>e v. left_off w v) u"
proof -
  let ?Q = "\<lambda>ec v. calm w (snd ec) v \<and> renewed cp (snd ec)" and ?F = "\<lambda>e v. left_off w v"
  have minted: "wp (mint_enrollment J cp rec) (\<lambda>enr. wp (adopt_session J cp enr) ?Q ?F) ?F v" if "calm w cp v" for rec v
    by (rule wp_aside [OF mint_enrollment_aside that]) (simp_all add: adopt_session_wp calm_left_off)
  have deleted: "wp (tryW (creds_delete (jo_env J))) (\<lambda>_. wp (renew_by_token J cp token) ?Q ?F) ?F v" if "calm w cp v" for v
    by (rule wp_aside [OF _ that]) (auto intro: keeps aside_steps simp: renew_by_token_wp calm_left_off)
  have "wp (tryW (creds_load (jo_env J))) (\<lambda>r. wp (case r of
       Inl e \<Rightarrow> if \<not> errors_is e CredentialNotFound then raise e else renew_by_token J cp token
     | Inr rec \<Rightarrow> bindW (clock (jo_env J)) (\<lambda>now.
         if cred_expired rec now then bindW (tryW (creds_delete (jo_env J))) (\<lambda>_. renew_by_token J cp token)
         else bindW (mint_enrollment J cp rec) (\<lambda>enr. adopt_session J cp enr))) ?Q ?F) ?F u"
  proof (rule wp_aside [OF _ assms])
    show "keeps_rel aside (tryW (creds_load (jo_env J)))" by (intro keeps)
    show "wp (case r of
       Inl e \<Rightarrow> if \<not> errors_is e CredentialNotFound then raise e else renew_by_token J cp token
     | Inr rec \<Rightarrow> bindW (clock (jo_env J)) (\<lambda>now.
         if cred_expired rec now then bindW (tryW (creds_delete (jo_env J))) (\<lambda>_. renew_by_token J cp token)
         else bindW (mint_enrollment J cp rec) (\<lambda>enr. adopt_session J cp enr))) ?Q ?F v"
      if "calm w cp v" for r v
      using that by (cases r) (simp_all add: wp_if wp_raise wp_bind wp_clock renew_by_token_wp minted deleted calm_left_off)
  qed (simp add: calm_left_off)
  then show ?thesis
    by (simp add: renew_enrollment_def wp_if wp_bind renew_by_token_wp assms)
qed

lemma load_or_renew_wp:
  assumes "calm w cp u"
  shows "wp (load_or_renew J cp token) (\<lambda>ec v. calm w (snd ec) v \<and> renewed cp (snd ec)) (\<lambda>e v. left_off w v) u"
proof -
  have cleared: "wp (tryW (disk_remove (jo_env J) clear_enrollment_secret))
      (\<lambda>_. wp (renew_enrollment J cp token) (\<lambda>ec v. calm w (snd ec) v \<and> renewed cp (snd ec)) (\<lambda>e v. left_off w v))
      (\<lambda>e v. left_off w v) v" if "calm w cp v" for v
    by (rule wp_aside [OF _ that]) (auto intro: keeps aside_steps simp: renew_enrollment_wp calm_left_off)
  show ?thesis
    unfolding load_or_renew_def wp_bind wp_try [of "disk_read _ _"] wp_disk_read
    by (auto simp: wp_bind wp_clock wp_if wp_ret wp_raise cleared renew_enrollment_wp assms calm_left_off [OF assms]
        split: sum.split)
qed

section \<open>Fetching the configuration\<close>

text \<open>What a fetched configuration has passed.\<close>

definition fetched_ok :: "joiner \<Rightarrow> checkpoint \<Rightarrow> fetched_config \<Rightarrow> bool" where
  "fetched_ok J cp f \<longleftrightarrow> fc_contract f = ''signed'' \<and>
     (\<exists>c keys now. verify (ev_signed (jo_env J)) c keys now = None \<and> sc_device c = cp_device cp \<and>
        sc_network c = cp_network cp \<and> fc_id f = sc_id c \<and> fc_generation f = sc_generation c \<and>
        (\<exists>n. compile (ev_signed (jo_env J)) (ev_check (jo_env J) n) c = Inr (fc_config f)))"

text \<open>The floors may have risen, the rest is as before.\<close>

definition fetched :: "world \<Rightarrow> checkpoint \<Rightarrow> world \<Rightarrow> bool" where
  "fetched w cp v \<longleftrightarrow> left_off w v \<and> on_disk v cp"

lemma calm_fetched: "calm w cp v \<Longrightarrow> fetched w cp v"
  by (simp add: calm_def fetched_def left_off_def)

lemma wp_disk_update [wp_simps]:
  "wp (disk_update E f) Q F w = (case f (ev_read E (w_tick w)) (ev_write E (w_tick w)) (w_disk w) of (e, d) \<Rightarrow>
     (case e of Some e \<Rightarrow> F e (tick (w\<lparr>w_disk := d\<rparr>)) | None \<Rightarrow> Q () (tick (w\<lparr>w_disk := d\<rparr>))))"
  by (simp add: wp_def disk_update_def of_option_def split: prod.split option.split)

lemma wp_accept:
  assumes "calm w cp u"
    and "\<And>v. fetched w cp v \<Longrightarrow> Q () v" and "\<And>e v. left_off w v \<Longrightarrow> F e v"
  shows "wp (disk_update E (\<lambda>rio wio. accept_signed_config rio wio a b n i p g t)) Q F u"
proof -
  obtain e d where step: "accept_signed_config (ev_read E (w_tick u)) (ev_write E (w_tick u)) a b n i p g t (w_disk u) = (e, d)"
    by (metis prod.exhaust)
  have "dk_checkpoint d = dk_checkpoint (w_disk u) \<and> dk_last_known d = dk_last_known (w_disk u)"
    using accept_signed_config_cases [OF step] by auto
  then have "fetched w cp (tick (u\<lparr>w_disk := d\<rparr>))"
    using assms(1) by (auto simp: fetched_def left_off_def calm_def moved_def climbed_def hushed_def on_disk_def)
  with assms(2,3) show ?thesis
    by (simp add: wp_disk_update step fetched_def split: option.split)
qed

lemma accept_fetched_wp:
  assumes "calm w cp u"
  shows "wp (accept_fetched J cp op keys c) (\<lambda>f v. fetched w cp v \<and> fetched_ok J cp f) (\<lambda>e v. left_off w v) u"
proof -
  let ?F = "\<lambda>e v. left_off w v"
  have accepted: "wp (disk_update (jo_env J) (\<lambda>rio wio. accept_signed_config rio wio (cp_server cp) (cp_device cp)
      (cp_network cp) (sc_id c) (cf_digest k) (sc_generation c) t)) (\<lambda>_ v. fetched w cp v) ?F v" if "calm w cp v" for v k t
    by (rule wp_accept [OF that])
  have compiled: "wp (call [] (\<lambda>n. compile (ev_signed (jo_env J)) (ev_check (jo_env J) n) c)) (\<lambda>k.
      wp (bindW (clock (jo_env J)) (\<lambda>now'.
        bindW (disk_update (jo_env J) (\<lambda>rio wio. accept_signed_config rio wio (cp_server cp) (cp_device cp)
          (cp_network cp) (sc_id c) (cf_digest k) (sc_generation c) now')) (\<lambda>_.
          ret \<lparr>fc_config = k, fc_contract = ''signed'', fc_id = sc_id c, fc_generation = sc_generation c\<rparr>)))
        (\<lambda>f v. fetched w cp v \<and> fetched_ok J cp f) ?F) ?F v"
    if v: "calm w cp v" and ok: "verify (ev_signed (jo_env J)) c keys now = None" "sc_device c = cp_device cp"
      "sc_network c = cp_network cp" for v now
  proof (cases "compile (ev_signed (jo_env J)) (ev_check (jo_env J) (w_tick v)) c")
    case (Inl e)
    with v show ?thesis by (simp add: wp_call calm_left_off)
  next
    case (Inr k)
    have "fetched_ok J cp \<lparr>fc_config = k, fc_contract = ''signed'', fc_id = sc_id c, fc_generation = sc_generation c\<rparr>"
      using ok Inr by (auto simp: fetched_ok_def)
    with v Inr show ?thesis by (simp add: wp_call wp_bind wp_clock wp_ret accepted)
  qed
  show ?thesis
    unfolding accept_fetched_def wp_bind [of "clock _"] wp_clock wp_bind [of "of_result _"] wp_of_option wp_ifW
      wp_bind [of "call _ _"]
    using assms compiled [unfolded wp_bind [of "clock _"] wp_clock] by (auto simp: calm_left_off split: option.split)
qed

lemma fetched_tick [simp]: "fetched w cp v \<Longrightarrow> fetched w cp (tick v)"
  by (simp add: fetched_def on_disk_def)

lemma fetch_signed_wp:
  assumes "calm w cp u"
  shows "wp (fetch_signed_config J cp) (\<lambda>f v. fetched w cp v \<and> fetched_ok J cp f) (\<lambda>e v. left_off w v) u"
proof -
  let ?Q = "\<lambda>f v. fetched w cp v \<and> fetched_ok J cp f" and ?F = "\<lambda>e v. left_off w v"
  have got: "wp (call [FetchSigned (config_request_of cp)] (jo_config J))
      (\<lambda>c. wp (accept_fetched J cp ''validate signed config ownership'' keys c) ?Q ?F) ?F v"
    if "calm w cp v" for keys v
    by (rule wp_aside [OF _ that]) (auto intro: aside_steps simp: accept_fetched_wp calm_left_off)
  have "wp (signing_keys_for J cp) (\<lambda>keys. wp (bindW (call [FetchSigned (config_request_of cp)] (jo_config J)) (\<lambda>c.
      accept_fetched J cp ''validate signed config ownership'' keys c)) ?Q ?F) ?F u"
    by (rule wp_aside [OF signing_keys_aside assms]) (simp_all add: wp_bind got calm_left_off)
  then show ?thesis
    using assms by (simp add: fetch_signed_config_def wp_ifW wp_bind calm_left_off)
qed

lemma handle_enrollment_error_fails:
  assumes "\<And>v. aside u v \<Longrightarrow> F x v"
  shows "wp (handle_enrollment_error J x) Q F u"
proof -
  have "wp (tryW (disk_remove (jo_env J) clear_enrollment_secret)) (\<lambda>_. F x) F u"
    unfolding wp_try
    by (rule wp_keeps [OF aside.disk_remove_keeps [OF clear_enrollment_aside]]) (rule assms, assumption)+
  then show ?thesis using assms [OF aside.R_refl] by (simp add: handle_enrollment_error_def wp_if wp_bind wp_raise)
qed

lemma handle_enrollment_error_wp:
  assumes "calm w cp u"
  shows "wp (handle_enrollment_error J x) Q (\<lambda>e v. left_off w v) u"
  by (rule handle_enrollment_error_fails) (rule calm_left_off [OF calm_aside [OF assms]])

text \<open>A session, then the configuration it may fetch.\<close>

lemma fetch_enrollment_wp:
  assumes "calm w cp u"
  shows "wp (fetch_enrollment_config J cp token)
    (\<lambda>fc v. fetched w (snd fc) v \<and> renewed cp (snd fc) \<and> fetched_ok J (snd fc) (fst fc)) (\<lambda>e v. left_off w v) u"
proof -
  let ?Q = "\<lambda>fc v. fetched w (snd fc) v \<and> renewed cp (snd fc) \<and> fetched_ok J (snd fc) (fst fc)"
    and ?F = "\<lambda>e v. left_off w v"
  have accepted: "wp (accept_fetched J cp' op keys c) (\<lambda>f. wp (ret (f, cp')) ?Q ?F) ?F v"
    if "calm w cp' v" "renewed cp cp'" for cp' op keys c v
    by (rule wp_conseq [OF accept_fetched_wp [OF that(1)]]) (simp_all add: wp_ret that(2))
  have keyed: "wp (session_keys J enr) (\<lambda>keys. wp (bindW (accept_fetched J cp' op keys c) (\<lambda>f. ret (f, cp'))) ?Q ?F) ?F v"
    if "calm w cp' v" "renewed cp cp'" for cp' op enr c v
  proof (rule wp_aside [OF _ that(1)])
    show "keeps_rel aside (session_keys J enr)" unfolding session_keys_def by (intro keeps)
  qed (simp_all add: wp_bind accepted that(2) calm_left_off)
  have answered: "wp (tryW (call [FetchConfig False (en_token enr) (config_request_of cp')] (ev_config (jo_env J))))
      (\<lambda>f. wp (case f of
          Inl e \<Rightarrow> handle_enrollment_error J e
        | Inr c \<Rightarrow> bindW (session_keys J enr) (\<lambda>keys. bindW (accept_fetched J cp' op keys c) (\<lambda>f. ret (f, cp')))) ?Q ?F) ?F v"
    if "calm w cp' v" "renewed cp cp'" for cp' enr v op
  proof (rule wp_aside [OF _ that(1)])
    show "keeps_rel aside (tryW (call [FetchConfig False (en_token enr) (config_request_of cp')] (ev_config (jo_env J))))"
      by (intro keeps aside_steps) simp
  qed (simp_all add: wp_sum wp_bind [of "session_keys _ _"] keyed handle_enrollment_error_wp that(2) calm_left_off
      split: sum.split)
  show ?thesis
    unfolding fetch_enrollment_config_def wp_bind [of "load_or_renew _ _ _"]
    by (rule wp_conseq [OF load_or_renew_wp [OF assms]])
      (auto simp: wp_prod wp_ifW wp_bind [of "tryW _"] answered calm_left_off split: prod.split)
qed

section \<open>Legacy configurations\<close>

text \<open>
  At most one legacy configuration was asked for, by a joiner set to the legacy contract, for a
  device whose signed lock was not set.
\<close>

definition legacy_ok :: "joiner \<Rightarrow> string \<Rightarrow> world \<Rightarrow> world \<Rightarrow> bool" where
  "legacy_ok J server w v \<longleftrightarrow> legacy_fetches v = legacy_fetches w \<or>
     (\<exists>r. legacy_fetches v = legacy_fetches w @ [FetchLegacy r] \<and> jo_contract J = ''legacy'' \<and>
       is_signed_locked ReadOk server (cq_device r) (cq_network r) (w_disk w) = Inr False)"

lemma unlocked_read: "is_signed_locked io s d n k = Inr False \<Longrightarrow> is_signed_locked ReadOk s d n k = Inr False"
  by (cases "dk_contract k"; cases io)
    (auto simp: is_signed_locked_def load_contract_state_def read_json_def state_io_def split: if_splits)

definition held :: "joiner \<Rightarrow> string \<Rightarrow> world \<Rightarrow> world \<Rightarrow> bool" where
  "held J server w v \<longleftrightarrow> moved w v \<and> join_acks v = join_acks w \<and> legacy_ok J server w v"

lemma left_off_held: "left_off w v \<Longrightarrow> held J s w v"
  by (simp add: left_off_def held_def hushed_def legacy_ok_def)

lemma held_left_off: "held J s u v \<Longrightarrow> left_off v w \<Longrightarrow> held J s u w"
  by (auto simp: left_off_def held_def hushed_def legacy_ok_def intro: moved_trans)

lemma held_tick [simp]: "held J s w (tick v) \<longleftrightarrow> held J s w v"
  by (simp add: held_def moved_def climbed_def legacy_ok_def)

lemma on_disk_tick [simp]: "on_disk (tick v) cp \<longleftrightarrow> on_disk v cp"
  by (simp add: on_disk_def)

definition config_passed :: "joiner \<Rightarrow> checkpoint \<Rightarrow> fetched_config \<Rightarrow> bool" where
  "config_passed J cp f \<longleftrightarrow> fetched_ok J cp f \<or> fc_contract f = ''legacy'' \<and> \<not> cp_invite cp"

lemma fetch_legacy_wp:
  assumes "calm w cp u" and "jo_contract J = ''legacy''" and "\<not> cp_invite cp"
    and "is_signed_locked ReadOk (cp_server cp) (cp_device cp) (cp_network cp) (w_disk u) = Inr False"
  shows "wp (fetch_legacy_config J cp) (\<lambda>f v. held J (cp_server cp) w v \<and> on_disk v cp \<and> config_passed J cp f)
    (\<lambda>e v. held J (cp_server cp) w v) u"
proof -
  let ?v = "tick (u\<lparr>w_log := w_log u @ [FetchLegacy (config_request_of cp)]\<rparr>)"
  have "is_signed_locked ReadOk (cp_server cp) (cp_device cp) (cp_network cp) (w_disk w) = Inr False"
    using assms(1,4) by (simp add: calm_def same_floors_def is_signed_locked_def load_contract_state_def)
  moreover have "legacy_fetches ?v = legacy_fetches w @ [FetchLegacy (config_request_of cp)]"
    using assms(1) by (simp add: calm_def hushed_def legacy_fetches_def)
  ultimately have "legacy_ok J (cp_server cp) w ?v"
    unfolding legacy_ok_def using assms(2) by (auto simp: config_request_of_def)
  then have "held J (cp_server cp) w ?v" "on_disk ?v cp"
    using assms(1) by (auto simp: held_def calm_def moved_def climbed_def hushed_def join_acks_def on_disk_def)
  then show ?thesis
    using assms(3) by (simp add: fetch_legacy_config_def wp_bind wp_call wp_ret config_passed_def Let_def split: sum.split)
qed

lemma fetch_runtime_wp:
  assumes "calm w cp u"
  shows "wp (fetch_runtime_config J cp token) (\<lambda>fc v. held J (cp_server cp) w v \<and> on_disk v (snd fc) \<and>
      renewed cp (snd fc) \<and> config_passed J (snd fc) (fst fc)) (\<lambda>e v. held J (cp_server cp) w v) u"
    (is "wp _ ?Q ?F u")
proof (cases "cp_invite cp")
  case True
  then show ?thesis unfolding fetch_runtime_config_def
    by (simp add: wp_if) (rule wp_conseq [OF fetch_enrollment_wp [OF assms]],
      auto simp: fetched_def config_passed_def intro: left_off_held)
next
  case False
  have signed: "wp (fetch_signed_config J cp) (\<lambda>f v. held J (cp_server cp) w v \<and> on_disk v cp \<and> config_passed J cp f)
      (\<lambda>e v. left_off w v) (tick u)"
    by (rule wp_conseq [OF fetch_signed_wp [OF calm_tick [OF assms]]])
      (auto simp: fetched_def config_passed_def intro: left_off_held)
  have held: "held J (cp_server cp) w u" by (rule left_off_held [OF calm_left_off [OF assms]])
  have legacy: "wp (fetch_legacy_config J cp) (\<lambda>f v. held J (cp_server cp) w v \<and> on_disk v cp \<and> config_passed J cp f) ?F (tick u)"
    if "is_signed_locked (ev_read (jo_env J) (w_tick u)) (cp_server cp) (cp_device cp) (cp_network cp) (w_disk u) = Inr False"
      "jo_contract J = ''legacy''"
    using fetch_legacy_wp [OF calm_tick [OF assms] that(2) False] unlocked_read [OF that(1)] by simp
  have signed': "wp (fetch_signed_config J cp) (\<lambda>f v. held J (cp_server cp) w v \<and> on_disk v cp \<and> config_passed J cp f) ?F (tick u)"
    by (rule wp_conseq [OF signed]) (simp_all add: left_off_held)
  have pair: "wp (bindW m (\<lambda>f. ret (f, cp))) ?Q ?F x"
    if "wp m (\<lambda>f v. held J (cp_server cp) w v \<and> on_disk v cp \<and> config_passed J cp f) ?F x" for m x
    unfolding wp_bind wp_ret by (rule wp_conseq [OF that]) simp_all
  have auto: "wp (bindW (tryW (fetch_signed_config J cp)) (\<lambda>r. case r of
       Inr f \<Rightarrow> ret (f, cp)
     | Inl e \<Rightarrow>
         if fault_code_of e \<noteq> CodeSignedConfigUnavailable then raise e
         else if locked
         then raise (fault_cause CodeConfigDowngradeBlocked ''fetch legacy config after signed lock'' e)
         else raise (fault_cause CodeSignedConfigUnavailable ''control plane does not support signed config'' e)))
     ?Q ?F (tick u)" for locked
    unfolding wp_bind wp_try
    by (rule wp_conseq [OF signed']) (simp_all add: wp_sum wp_ret wp_if wp_raise)
  show ?thesis
    unfolding fetch_runtime_config_def wp_if wp_bind [of "disk_read _ _"] wp_disk_read
    using False held legacy signed' by (auto simp: wp_ifW wp_raise auto pair split: sum.split)
qed

section \<open>The stages up to the acknowledgement\<close>

lemma calm_saved_advance:
  assumes "calm w cp u" and "cp_progress cp (cp\<lparr>cp_phase := p\<rparr>)"
  shows "wp (advance J p cp) (\<lambda>cp' v. calm w cp' v \<and> (\<exists>e t. cp' = cp\<lparr>cp_phase := p, cp_last_error := e, cp_updated := t\<rparr>))
    (\<lambda>e v. left_off w v) u"
  unfolding advance_def Let_def wp_bind wp_clock
  by (rule wp_save_cp [OF calm_tick [OF assms(1)]]) (use assms(2) in \<open>auto simp: wp_ret cp_progress_def\<close>)

lemma register_invited_wp:
  assumes "calm w cp u"
  shows "wp (register_invited J token cp) (\<lambda>cp' v. calm w cp' v \<and> cp_progress cp cp' \<and> cp_phase cp' = cp_phase cp)
    (\<lambda>e v. left_off w v) u"
proof -
  have later: "calm w (c\<lparr>cp_network := n, cp_contract := x, cp_enrollment_expires := y\<rparr>) v" if "calm w c v" for c n x y v
    using that by (simp add: calm_def on_disk_def cp_progress_def)
  show ?thesis
    unfolding register_invited_def wp_bind
    by (rule wp_conseq [OF load_or_renew_wp [OF assms]])
      (auto simp: wp_prod wp_ifW wp_ret renewed_def cp_progress_def later calm_left_off split: prod.split)
qed

lemma register_device_wp:
  assumes "calm w cp u"
  shows "wp (register_device J cp) (\<lambda>cp' v. calm w cp' v \<and> cp_progress cp cp' \<and> cp_phase cp' = cp_phase cp)
    (\<lambda>e v. left_off w v) u"
  unfolding register_device_def wp_bind
proof (rule wp_aside [OF _ assms])
  show "keeps_rel aside (call [RegisterDevice (cp_device cp) (cp_network cp) (cp_public_key cp)] (jo_register J))"
    by (rule aside_call) simp
qed (auto simp: wp_ifW wp_ret calm_left_off cp_progress_def calm_def on_disk_def)

lemma register_stage_wp:
  assumes "calm w cp u"
  shows "wp (register_stage J token cp) (\<lambda>cp' v. calm w cp' v \<and> cp_progress cp cp' \<and>
      (cp' = cp \<or> \<not> phase_at_least (cp_phase cp) PhaseDeviceRegistered \<and> cp_phase cp' = PhaseDeviceRegistered))
    (\<lambda>e v. left_off w v) u" (is "wp _ ?Q ?F u")
proof (cases "phase_at_least (cp_phase cp) PhaseDeviceRegistered")
  case True
  with assms show ?thesis by (simp add: register_stage_def wp_ret)
next
  case early: False
  have advanced: "wp (advance J PhaseDeviceRegistered cp') ?Q ?F v"
    if "calm w cp' v \<and> cp_progress cp cp' \<and> cp_phase cp' = cp_phase cp" for cp' v
  proof -
    have "cp_progress cp' (cp'\<lparr>cp_phase := PhaseDeviceRegistered\<rparr>)"
      using early that by (simp add: cp_progress_def phase_at_least_def)
    with that calm_saved_advance have "wp (advance J PhaseDeviceRegistered cp') (\<lambda>cp2 v. calm w cp2 v \<and>
      (\<exists>e t. cp2 = cp'\<lparr>cp_phase := PhaseDeviceRegistered, cp_last_error := e, cp_updated := t\<rparr>)) ?F v" by blast
    then show ?thesis
      by (rule wp_conseq) (use early that in \<open>auto simp: cp_progress_def phase_at_least_def\<close>)
  qed
  have "wp (if cp_invite cp then register_invited J token cp else register_device J cp)
      (\<lambda>cp'. wp (advance J PhaseDeviceRegistered cp') ?Q ?F) ?F u"
    unfolding wp_if
    using wp_conseq [OF register_invited_wp [OF assms] advanced] wp_conseq [OF register_device_wp [OF assms] advanced]
    by simp
  with early show ?thesis by (simp add: register_stage_def wp_bind)
qed

lemma held_aside: "held J s w u \<Longrightarrow> aside u v \<Longrightarrow> held J s w v"
  by (auto simp: held_def aside_def moved_def climbed_def legacy_ok_def)

lemma on_disk_aside: "on_disk u cp \<Longrightarrow> aside u v \<Longrightarrow> on_disk v cp"
  by (simp add: on_disk_def aside_def)

lemma held_beside: "held J s w u \<Longrightarrow> beside u v \<Longrightarrow> climbed u v \<Longrightarrow> held J s w v"
  by (auto simp: held_def beside_def moved_def legacy_ok_def legacy_fetches_def join_acks_def intro: climbed_trans)

lemma advance_held:
  assumes "held J s w u" and "on_disk u cp" and "cp_progress cp (cp\<lparr>cp_phase := p\<rparr>)"
    and "\<And>v e t. held J s w v \<Longrightarrow> on_disk v (cp\<lparr>cp_phase := p, cp_last_error := e, cp_updated := t\<rparr>) \<Longrightarrow>
      Q (cp\<lparr>cp_phase := p, cp_last_error := e, cp_updated := t\<rparr>) v"
    and "\<And>e v. held J s w v \<Longrightarrow> F e v"
  shows "wp (advance J p cp) Q F u"
  unfolding advance_def Let_def wp_bind wp_clock
  by (rule wp_save_any [of _ cp])
    (use assms held_beside [of J s w "tick u"] in \<open>auto simp: wp_ret cp_progress_def\<close>)

text \<open>A checkpoint whose configuration has passed every check.\<close>

definition passed_config :: "joiner \<Rightarrow> checkpoint \<Rightarrow> bool" where
  "passed_config J cp \<longleftrightarrow>
     (\<exists>f. config_passed J cp f \<and> cp_config cp = Some (fc_config f) \<and> cp_contract cp = fc_contract f \<and>
        cp_config_id cp = fc_id f \<and> cp_generation cp = fc_generation f \<and>
        (\<exists>n. config_validate (ev_check (jo_env J) n) (fc_config f) = None) \<and>
        dv_id (cf_device (fc_config f)) = cp_device cp \<and> nw_id (cf_network (fc_config f)) = cp_network cp)"

lemma store_fetched_wp:
  assumes "held J s w u" and "on_disk u cp" and "config_passed J cp f"
    and "\<not> phase_at_least (cp_phase cp) PhaseConfigFetched"
  shows "wp (store_fetched J f cp) (\<lambda>cp' v. held J s w v \<and> on_disk v cp' \<and> cp_progress cp cp' \<and>
      cp_phase cp' = PhaseConfigFetched \<and> passed_config J cp') (\<lambda>e v. held J s w v) u" (is "wp _ ?Q ?F u")
proof -
  have step: "wp (advance J PhaseConfigFetched (with_fetched f cp)) ?Q ?F (tick u)"
    if valid: "config_validate (ev_check (jo_env J) n) (fc_config f) = None"
      "dv_id (cf_device (fc_config f)) = cp_device cp" "nw_id (cf_network (fc_config f)) = cp_network cp" for n
  proof (rule advance_held [where w = w and s = s])
    show "held J s w (tick u)" "on_disk (tick u) (with_fetched f cp)"
      "cp_progress (with_fetched f cp) ((with_fetched f cp)\<lparr>cp_phase := PhaseConfigFetched\<rparr>)"
      using assms by (simp_all add: on_disk_def cp_progress_def with_fetched_def phase_at_least_def)
    fix e t v
    let ?cp = "(with_fetched f cp)\<lparr>cp_phase := PhaseConfigFetched, cp_last_error := e, cp_updated := t\<rparr>"
    have "config_passed J ?cp f" using assms(3) by (simp add: config_passed_def fetched_ok_def with_fetched_def)
    then have "passed_config J ?cp"
      unfolding passed_config_def using valid by (intro exI [of _ f]) (auto simp: with_fetched_def)
    moreover assume "held J s w v" "on_disk v ?cp"
    ultimately show "?Q ?cp v"
      using assms(4) by (simp add: cp_progress_def with_fetched_def phase_at_least_def)
  qed
  then show ?thesis
    unfolding store_fetched_def wp_bind wp_call using assms(1) by (auto simp: wp_ifW Let_def split: sum.split)
qed

lemma fetch_stage_wp:
  assumes "calm w cp u"
  shows "wp (fetch_stage J token cp) (\<lambda>cp' v. held J (cp_server cp) w v \<and> on_disk v cp' \<and> cp_progress cp cp' \<and>
      (cp' = cp \<and> phase_at_least (cp_phase cp) PhaseConfigFetched \<or>
       cp_phase cp' = PhaseConfigFetched \<and> passed_config J cp')) (\<lambda>e v. held J (cp_server cp) w v) u"
    (is "wp _ ?Q ?F u")
proof (cases "phase_at_least (cp_phase cp) PhaseConfigFetched")
  case True
  with assms left_off_held [OF calm_left_off [OF assms]] show ?thesis
    by (simp add: fetch_stage_def wp_ret calm_def)
next
  case early: False
  have stored: "wp (store_fetched J (fst fc) (snd fc)) ?Q ?F v"
    if "held J (cp_server cp) w v \<and> on_disk v (snd fc) \<and> renewed cp (snd fc) \<and> config_passed J (snd fc) (fst fc)" for fc v
    by (rule wp_conseq [OF store_fetched_wp]) (use that early cp_progress_trans in \<open>auto simp: renewed_def\<close>)
  have "wp (fetch_runtime_config J cp token) (\<lambda>fc. wp (store_fetched J (fst fc) (snd fc)) ?Q ?F) ?F u"
    by (rule wp_conseq [OF fetch_runtime_wp [OF assms]]) (use stored in simp_all)
  with early show ?thesis by (simp add: fetch_stage_def wp_bind [of "fetch_runtime_config _ _ _"])
qed

section \<open>The runtime and the acknowledgement\<close>

definition applied :: "joiner \<Rightarrow> config \<Rightarrow> bool" where
  "applied J k \<longleftrightarrow> (\<exists>n a. ev_apply (jo_env J) n = Inr a \<and> ap_revision a = cf_revision k \<and> ap_core a = ''xray'' \<and>
     supported_adapter_id (ap_adapter a))"

text \<open>The same enrollment and configuration, only the phase moved.\<close>

definition same_config :: "checkpoint \<Rightarrow> checkpoint \<Rightarrow> bool" where
  "same_config cp cp' \<longleftrightarrow> cp_progress cp cp' \<and> cp_config cp' = cp_config cp \<and> cp_config_id cp' = cp_config_id cp \<and>
     cp_generation cp' = cp_generation cp"

lemma apply_stage_wp:
  assumes "held J s w u" and "on_disk u cp"
  shows "wp (apply_stage J k cp) (\<lambda>cp' v. held J s w v \<and> on_disk v cp' \<and> same_config cp cp' \<and>
      (cp' = cp \<and> phase_at_least (cp_phase cp) PhaseRuntimeApplied \<or>
        cp_phase cp' = PhaseRuntimeApplied \<and> cp_contract cp' = cp_contract cp \<and> cp_network cp' = cp_network cp \<and> applied J k))
    (\<lambda>e v. held J s w v) u" (is "wp _ ?Q ?F u")
proof (cases "phase_at_least (cp_phase cp) PhaseRuntimeApplied")
  case True
  with assms show ?thesis by (simp add: apply_stage_def wp_ret same_config_def)
next
  case early: False
  have next_phase: "cp_progress cp (cp\<lparr>cp_phase := PhaseRuntimeApplied\<rparr>)"
    using early by (simp add: cp_progress_def phase_at_least_def)
  have checked: "wp (apply_checked (jo_env J) ''validate runtime apply result'' k (cp_private_key cp))
      (\<lambda>a v. held J s w v \<and> on_disk v cp \<and> applied J k) (\<lambda>e v. held J s w v \<and> on_disk v cp) u"
  proof (rule wpI)
    let ?run = "apply_checked (jo_env J) ''validate runtime apply result'' k (cp_private_key cp) u"
    have kept: "held J s w v \<and> on_disk v cp" if "?run = (r, v)" for r v
      using assms keeps_relD [OF apply_checked_aside that] by (auto intro: held_aside on_disk_aside)
    show "held J s w v \<and> on_disk v cp \<and> applied J k" if "?run = (Inr a, v)" for a v
      using kept [OF that] that by (auto simp: apply_checked_def guard_simps applied_def eq_commute [of "Inr _" "ev_apply _ _"])
    show "held J s w v \<and> on_disk v cp" if "?run = (Inl e, v)" for e v by (rule kept [OF that])
  qed
  have went: "wp (advance J PhaseRuntimeApplied cp) ?Q ?F v" if "held J s w v \<and> on_disk v cp \<and> applied J k" for v
    by (rule advance_held [where w = w and s = s])
      (use that next_phase early in \<open>auto simp: same_config_def cp_progress_def phase_at_least_def\<close>)
  have noted: "wp (bindW (clock (jo_env J)) (\<lambda>now. bindW (tryW (save_cp J (cp\<lparr>cp_last_error := x, cp_updated := to_utc now\<rparr>)))
      (\<lambda>_. raise y))) ?Q ?F v" if "held J s w v \<and> on_disk v cp" for v x y
    unfolding wp_bind wp_clock wp_try wp_raise
    by (rule wp_save_any [of _ cp])
      (use that held_beside [of J s w "tick v"] in \<open>auto simp: cp_progress_def\<close>)
  show ?thesis
    using early
    by (simp add: apply_stage_def wp_bind [of "tryW _"] wp_try [of "apply_checked _ _ _ _"])
      (rule wp_conseq [OF checked], use went noted in simp_all)
qed

text \<open>At most one acknowledgement was sent.\<close>

definition spoke :: "joiner \<Rightarrow> string \<Rightarrow> world \<Rightarrow> world \<Rightarrow> bool" where
  "spoke J s w v \<longleftrightarrow> moved w v \<and> legacy_ok J s w v \<and> (\<exists>as. join_acks v = join_acks w @ as \<and> length as \<le> 1)"

lemma held_spoke: "held J s w v \<Longrightarrow> spoke J s w v"
  by (auto simp: held_def spoke_def)

lemma spoke_aside: "spoke J s w u \<Longrightarrow> aside u v \<Longrightarrow> spoke J s w v"
  by (auto simp: spoke_def aside_def moved_def climbed_def legacy_ok_def)

lemma spoke_beside: "spoke J s w u \<Longrightarrow> beside u v \<Longrightarrow> climbed u v \<Longrightarrow> spoke J s w v"
  by (auto simp: spoke_def beside_def moved_def legacy_ok_def legacy_fetches_def join_acks_def intro: climbed_trans)

lemma spoke_tick [simp]: "spoke J s w (tick v) \<longleftrightarrow> spoke J s w v"
  by (simp add: spoke_def moved_def climbed_def legacy_ok_def)

lemma held_call_ack:
  assumes "held J s w u" and "case e of Ack t g i d \<Rightarrow> True | AckSigned g i d \<Rightarrow> True | _ \<Rightarrow> False"
  shows "spoke J s w (u\<lparr>w_log := w_log u @ [e]\<rparr>)"
proof -
  have "legacy_fetches (u\<lparr>w_log := w_log u @ [e]\<rparr>) = legacy_fetches u" "join_acks (u\<lparr>w_log := w_log u @ [e]\<rparr>) = join_acks u @ [e]"
    using assms(2) by (cases e; simp add: legacy_fetches_def join_acks_def)+
  with assms(1) show ?thesis by (auto simp: held_def spoke_def moved_def climbed_def legacy_ok_def)
qed

definition acknowledged :: "joiner \<Rightarrow> checkpoint \<Rightarrow> bool" where
  "acknowledged J cp \<longleftrightarrow> (\<exists>n a. (ev_ack (jo_env J) n = Inr a \<or> jo_ack J n = Inr a) \<and> ack_matches cp a)"

lemma acknowledged_same:
  "cp_device cp' = cp_device cp \<Longrightarrow> cp_config_id cp' = cp_config_id cp \<Longrightarrow> cp_generation cp' = cp_generation cp \<Longrightarrow>
     acknowledged J cp' \<longleftrightarrow> acknowledged J cp"
  by (simp add: acknowledged_def ack_matches_def)

lemma on_disk_log [simp]: "on_disk (u\<lparr>w_log := l\<rparr>) cp \<longleftrightarrow> on_disk u cp"
  by (simp add: on_disk_def)

text \<open>The keys of the session are committed to after the acknowledgement.\<close>

lemma commit_keys_wp:
  assumes "spoke J s w u" and "on_disk u cp"
  shows "wp (commit_keys J enr) (\<lambda>_ v. spoke J s w v \<and> on_disk v cp) (\<lambda>e v. spoke J s w v) u"
proof (rule wp_keeps)
  show "keeps_rel aside (commit_keys J enr)" unfolding commit_keys_def by (intro keeps aside_steps)
qed (use assms in \<open>auto intro: spoke_aside on_disk_aside\<close>)

lemma ack_enrollment_wp:
  assumes "held J s w u" and "on_disk u cp"
  shows "wp (ack_enrollment J token cp) (\<lambda>cp' v. spoke J s w v \<and> on_disk v cp' \<and> same_config cp cp' \<and> cp_phase cp' = cp_phase cp \<and>
      acknowledged J cp') (\<lambda>e v. spoke J s w v) u" (is "wp _ ?Q ?F u")
proof -
  have answered: "wp (tryW (call [Ack (en_token enr) (cp_generation cp') (cp_config_id cp') (cp_device cp')] (ev_ack (jo_env J))))
      (\<lambda>r. wp (case r of
         Inl e \<Rightarrow> handle_enrollment_error J e
       | Inr a \<Rightarrow> ifW (\<not> ack_matches cp' a) (fault CodeInvalidResponse ''acknowledge enrollment signed config'')
           (bindW (commit_keys J enr) (\<lambda>_. ret cp'))) ?Q ?F) ?F v"
    if v: "held J s w v" "on_disk v cp'" and same: "same_config cp cp'" "cp_phase cp' = cp_phase cp" for cp' v enr
  proof -
    let ?v = "tick (v\<lparr>w_log := w_log v @ [Ack (en_token enr) (cp_generation cp') (cp_config_id cp') (cp_device cp')]\<rparr>)"
    have said: "spoke J s w ?v" "on_disk ?v cp'" using held_call_ack [OF v(1)] v(2) by simp_all
    have failed: "wp (handle_enrollment_error J e) ?Q ?F ?v" for e
      by (rule handle_enrollment_error_fails) (rule spoke_aside [OF said(1)])
    have committed: "wp (commit_keys J enr) (\<lambda>_. wp (ret cp') ?Q ?F) ?F ?v" if "acknowledged J cp'"
      unfolding wp_ret by (rule wp_conseq [OF commit_keys_wp [OF said]]) (use same that in simp_all)
    have "acknowledged J cp'" if "ev_ack (jo_env J) n = Inr a" "ack_matches cp' a" for n a
      using that by (auto simp: acknowledged_def)
    with failed committed said(1) show ?thesis
      by (auto simp: wp_try wp_call wp_ifW wp_bind [of "commit_keys _ _"] Let_def split: sum.split)
  qed
  have renewed: "held J s w v \<and> on_disk v cp'" if "calm u cp' v" for v cp'
    using that assms(1) held_left_off [OF assms(1) calm_left_off [OF that]] by (simp add: calm_def)
  show ?thesis
    unfolding ack_enrollment_def wp_bind [of "load_or_renew _ _ _"]
  proof (rule wp_conseq [OF load_or_renew_wp [OF calm_refl [OF assms(2)]]])
    fix ec :: "enrollment_secret \<times> checkpoint" and v
    assume got: "calm u (snd ec) v \<and> renewed cp (snd ec)"
    obtain enr cp' where ec: "ec = (enr, cp')" by (cases ec)
    have "calm u cp' v" using got by (simp add: ec)
    from renewed [OF this] have v: "held J s w (tick v)" "on_disk (tick v) cp'" by simp_all
    have same: "same_config cp cp'" "cp_phase cp' = cp_phase cp" using got by (simp_all add: ec renewed_def same_config_def)
    show "wp (case ec of (enr, cp) \<Rightarrow>
        ifW (\<not> jo_invite J) (fault CodeEnrollmentUnavailable ''ack enrollment signed config'')
          (bindW (clock (jo_env J)) (\<lambda>_. bindW (tryW (call [Ack (en_token enr) (cp_generation cp) (cp_config_id cp)
              (cp_device cp)] (ev_ack (jo_env J)))) (\<lambda>r. case r of
             Inl e \<Rightarrow> handle_enrollment_error J e
           | Inr a \<Rightarrow> ifW (\<not> ack_matches cp a) (fault CodeInvalidResponse ''acknowledge enrollment signed config'')
               (bindW (commit_keys J enr) (\<lambda>_. ret cp)))))) ?Q ?F v"
      unfolding ec prod.case wp_ifW wp_bind [of "clock _"] wp_clock wp_bind [of "tryW _"]
      using answered [OF v same] held_spoke [of J s w v] v(1) by simp
  next
    show "?F e v" if "left_off u v" for e v by (rule held_spoke [OF held_left_off [OF assms(1) that]])
  qed
qed

lemma ack_signed_wp:
  assumes "held J s w u" and "on_disk u cp"
  shows "wp (ack_signed J cp) (\<lambda>cp' v. spoke J s w v \<and> on_disk v cp' \<and> same_config cp cp' \<and> cp_phase cp' = cp_phase cp \<and>
      acknowledged J cp') (\<lambda>e v. spoke J s w v) u"
proof -
  have said: "spoke J s w ((tick u)\<lparr>w_log := w_log (tick u) @ [AckSigned (cp_generation cp) (cp_config_id cp) (cp_device cp)]\<rparr>)"
    by (rule held_call_ack) (simp_all add: assms(1))
  have "acknowledged J cp" if "jo_ack J n = Inr a" "ack_matches cp a" for n a
    using that by (auto simp: acknowledged_def)
  with said assms held_spoke [OF assms(1)] show ?thesis
    by (auto simp: ack_signed_def wp_ifW wp_bind wp_clock wp_call wp_ret same_config_def split: sum.split)
qed

lemma ack_stage_wp:
  assumes "held J s w u" and "on_disk u cp"
  shows "wp (ack_stage J token cp) (\<lambda>cp' v. spoke J s w v \<and> on_disk v cp' \<and> same_config cp cp' \<and>
      (cp' = cp \<and> phase_at_least (cp_phase cp) PhaseAcknowledged \<or>
       cp_phase cp' = PhaseAcknowledged \<and> acknowledged J cp' \<and> (cp_invite cp \<or> cp_contract cp = ''signed'')))
    (\<lambda>e v. spoke J s w v) u" (is "wp _ ?Q ?F u")
proof (cases "phase_at_least (cp_phase cp) PhaseAcknowledged")
  case True
  with assms held_spoke [OF assms(1)] show ?thesis by (simp add: ack_stage_def wp_ret same_config_def)
next
  case early: False
  let ?m = "if cp_invite cp then ack_enrollment J token cp else if cp_contract cp = ''signed'' then ack_signed J cp
    else raise (fault CodeSignedConfigUnavailable ''control plane does not support signed config'')"
  let ?P = "\<lambda>cp' v. spoke J s w v \<and> on_disk v cp' \<and> same_config cp cp' \<and> cp_phase cp' = cp_phase cp \<and> acknowledged J cp' \<and>
    (cp_invite cp \<or> cp_contract cp = ''signed'')"
  have acked: "wp ?m ?P ?F u"
  proof (cases "cp_invite cp")
    case True
    then show ?thesis by simp (rule wp_conseq [OF ack_enrollment_wp [OF assms]], simp_all)
  next
    case False
    show ?thesis
    proof (cases "cp_contract cp = ''signed''")
      case True
      with False show ?thesis by simp (rule wp_conseq [OF ack_signed_wp [OF assms]], simp_all)
    qed (use False held_spoke [OF assms(1)] in \<open>simp add: wp_raise\<close>)
  qed
  have saved: "wp (bindW (clock (jo_env J)) (\<lambda>now. let cp2 = cp1\<lparr>cp_phase := PhaseAcknowledged, cp_updated := to_utc now\<rparr>
        in bindW (save_cp J cp2) (\<lambda>_. ret cp2))) ?Q ?F v" if "?P cp1 v" for cp1 v
    unfolding wp_bind wp_clock Let_def wp_ret
  proof (rule wp_save_any [of _ cp1])
    show "on_disk (tick v) cp1" using that by simp
    show "cp_progress cp1 (cp1\<lparr>cp_phase := PhaseAcknowledged, cp_updated := t\<rparr>)" for t
      using that early by (simp add: cp_progress_def phase_at_least_def)
    show "?F e x" if "beside (tick v) x" "climbed (tick v) x" for e x
      using \<open>?P cp1 v\<close> spoke_beside [OF _ that, of J s w] by simp
    show "?Q (cp1\<lparr>cp_phase := PhaseAcknowledged, cp_updated := t\<rparr>) x"
      if "beside (tick v) x" "climbed (tick v) x" "on_disk x (cp1\<lparr>cp_phase := PhaseAcknowledged, cp_updated := t\<rparr>)" for t x
    proof -
      have "acknowledged J (cp1\<lparr>cp_phase := PhaseAcknowledged, cp_updated := t\<rparr>) \<longleftrightarrow> acknowledged J cp1"
        by (rule acknowledged_same) simp_all
      with \<open>?P cp1 v\<close> spoke_beside [OF _ that(1,2), of J s w] that(3) early show ?thesis
        by (simp add: same_config_def cp_progress_def phase_at_least_def)
    qed
  qed
  have "wp ?m (\<lambda>cp1. wp (bindW (clock (jo_env J)) (\<lambda>now. let cp2 = cp1\<lparr>cp_phase := PhaseAcknowledged, cp_updated := to_utc now\<rparr>
        in bindW (save_cp J cp2) (\<lambda>_. ret cp2))) ?Q ?F) ?F u"
    by (rule wp_conseq [OF acked saved])
  then show ?thesis using early by (simp only: ack_stage_def if_False wp_bind [of ?m])
qed

section \<open>The commit\<close>

text \<open>The checkpoint is still there, or the last-known state has taken over its keys.\<close>

definition kept :: "checkpoint \<Rightarrow> world \<Rightarrow> bool" where
  "kept c v \<longleftrightarrow>
     (\<exists>c'. dk_checkpoint (w_disk v) = Doc c' \<and> cp_progress c c') \<or>
     (dk_checkpoint (w_disk v) = Absent \<and> (\<exists>l. dk_last_known (w_disk v) = Doc l \<and> lk_server l = cp_server c \<and>
        lk_device l = cp_device c \<and> lk_private_key l = cp_private_key c \<and> lk_public_key l = cp_public_key c \<and>
        lk_phase l = PhaseAcknowledged))"

definition saved_known :: "checkpoint \<Rightarrow> config \<Rightarrow> gotime \<Rightarrow> last_known" where
  "saved_known cp k t = last_known_form ((joined_state cp k t)\<lparr>lk_schema := 1\<rparr>)"

text \<open>A join that has ended: the state of the device is stored, the checkpoint gone.\<close>

definition joined :: "checkpoint \<Rightarrow> config \<Rightarrow> join_result \<Rightarrow> world \<Rightarrow> bool" where
  "joined cp k x v \<longleftrightarrow> x = \<lparr>jr_device = cp_device cp, jr_network = cp_network cp, jr_revision = cf_revision k, jr_already = False\<rparr> \<and>
     dk_checkpoint (w_disk v) = Absent \<and> (\<exists>t. dk_last_known (w_disk v) = Doc (saved_known cp k t)) \<and>
     (cp_invite cp \<longrightarrow> dk_enrollment (w_disk v) = Absent)"

lemma commit_stage_any:
  assumes "commit_stage J k cp u = (r, v)" and "on_disk u cp"
  shows "w_log v = w_log u \<and> (\<forall>c. dk_checkpoint (w_disk u) = Doc c \<longrightarrow> kept c v) \<and> (\<forall>x. r = Inr x \<longrightarrow> joined cp k x v)"
proof -
  obtain c where c: "dk_checkpoint (w_disk u) = Doc c" "cp_progress c cp" using assms(2) by (auto simp: on_disk_def)
  have "wp (commit_stage J k cp) (\<lambda>x v. w_log v = w_log u \<and> kept c v \<and> joined cp k x v) (\<lambda>e v. w_log v = w_log u \<and> kept c v) u"
    using c unfolding commit_stage_def wp_simps
    by (auto simp: wp_if wp_disk_remove wp_ret save_last_known_def write_json_def clear_checkpoint_def remove_file_def
        clear_enrollment_secret_def kept_def joined_def saved_known_def last_known_form_def joined_state_def cp_progress_def
        split: write_outcome.split)
  from wpD [OF this assms(1)] c(1) show ?thesis by (cases r) auto
qed

section \<open>How a join begins\<close>

interpretation left_off: preorder_rel left_off
proof
  fix u v w
  show "left_off w w" by (simp add: left_off_def)
  then show "left_off w (tick w)" by simp
  show "left_off u v \<Longrightarrow> left_off v w \<Longrightarrow> left_off u w" by (auto simp: left_off_def intro: moved_trans hushed_trans)
qed

lemma left_off_aside: "aside u v \<Longrightarrow> left_off u v"
  by (auto simp: left_off_def aside_def moved_def hushed_def climbed_def)

lemma aside_left_off: "keeps_rel aside m \<Longrightarrow> keeps_rel left_off m"
  by (simp add: keeps_rel_def left_off_aside)

lemma accept_left_off: "keeps_rel left_off (disk_update E (\<lambda>rio wio. accept_signed_config rio wio a b n i p g t))"
proof (rule left_off.disk_update_keeps)
  fix rio wio and w :: world
  obtain e d where step: "accept_signed_config rio wio a b n i p g t (w_disk w) = (e, d)" by (metis prod.exhaust)
  have "dk_checkpoint d = dk_checkpoint (w_disk w) \<and> dk_last_known d = dk_last_known (w_disk w)"
    using accept_signed_config_cases [OF step] by auto
  then show "left_off w (w\<lparr>w_disk := snd (accept_signed_config rio wio a b n i p g t (w_disk w))\<rparr>)"
    by (simp add: step left_off_def moved_def climbed_def hushed_def)
qed

lemma recover_left_off: "keeps_rel left_off (recover_last_known J lk)"
proof -
  have "keeps_rel aside (apply_runtime E op op' k key)" for E op op' k key
    unfolding apply_runtime_def by (intro keeps apply_checked_aside)
  then show ?thesis unfolding recover_last_known_def by (intro keeps accept_left_off aside_left_off)
qed

lemma recover_already: "recover_last_known J lk u = (Inr x, v) \<Longrightarrow> jr_already x"
  by (auto simp: recover_last_known_def guard_simps)

text \<open>So far nothing happened but, at most, a first checkpoint before the configuration.\<close>

definition opened :: "world \<Rightarrow> world \<Rightarrow> bool" where
  "opened w v \<longleftrightarrow> left_off w v \<and> same_floors w v \<and>
     (dk_checkpoint (w_disk v) = dk_checkpoint (w_disk w) \<or>
      dk_checkpoint (w_disk w) = Absent \<and> (\<exists>c. dk_checkpoint (w_disk v) = Doc c \<and> phase_rank (cp_phase c) \<le> 2))"

lemma opened_refl [simp]: "opened w w"
  by (simp add: opened_def left_off_def)

lemma opened_aside: "opened w u \<Longrightarrow> aside u v \<Longrightarrow> opened w v"
  using left_off.R_trans [OF _ left_off_aside]
  by (auto simp: opened_def same_floors_def aside_def)

lemma opened_tick [simp]: "opened w u \<Longrightarrow> opened w (tick u)"
  by (rule opened_aside [OF _ aside.R_tick])

lemma opened_left_off: "opened w u \<Longrightarrow> left_off w u"
  by (simp add: opened_def)

text \<open>The first checkpoint is written where there was none.\<close>

lemma wp_first_save:
  assumes "opened w u" and "dk_checkpoint (w_disk u) = Absent" and "phase_rank (cp_phase cp) \<le> 2"
    and "\<And>v. opened w v \<Longrightarrow> dk_checkpoint (w_disk v) = Doc (saved_form cp) \<Longrightarrow> Q () v" and "\<And>e v. left_off w v \<Longrightarrow> F e v"
  shows "wp (save_cp J cp) Q F u"
proof -
  obtain e f where w: "write_json (ev_write (jo_env J) (w_tick u)) checkpoint_form (cp\<lparr>cp_schema := 1\<rparr>) Absent = (e, f)"
    by (metis prod.exhaust)
  have save: "save_checkpoint (ev_write (jo_env J) (w_tick u)) cp (w_disk u) = (e, (w_disk u)\<lparr>dk_checkpoint := f\<rparr>)"
    by (simp add: save_checkpoint_def assms(2) w)
  have f: "f = Absent \<and> e \<noteq> None \<or> f = Doc (saved_form cp)"
    using write_json_cases [OF w] by (auto simp: saved_form_def)
  have start: "dk_checkpoint (w_disk w) = Absent" using assms(1,2) by (auto simp: opened_def)
  let ?v = "tick (u\<lparr>w_disk := (w_disk u)\<lparr>dk_checkpoint := f\<rparr>\<rparr>)"
  have "left_off w ?v" "same_floors w ?v"
    using assms(1) start by (auto simp: opened_def left_off_def moved_def climbed_def hushed_def same_floors_def)
  moreover from this have "f \<noteq> Absent \<Longrightarrow> opened w ?v" using f start assms(3) by (auto simp: opened_def)
  ultimately show ?thesis
    using f assms(4,5) by (cases e) (auto simp: save_cp_def wp_disk_write save)
qed

lemma load_checkpoint_missing: "load_checkpoint io d = Inl e \<Longrightarrow> errors_is e StateNotFound \<Longrightarrow> dk_checkpoint d = Absent"
  by (cases "read_json io (dk_checkpoint d)") (auto simp: load_checkpoint_def state_io_def dest: read_json_not_found split: if_splits)

lemma load_checkpoint_found: "load_checkpoint io d = Inr c \<Longrightarrow> dk_checkpoint d = Doc c"
  by (auto simp: load_checkpoint_def guard_simps read_json_Inr split: if_splits)

lemma seed_wp:
  assumes "opened w u"
  shows "wp (seed_migration_checkpoint J lk) (\<lambda>_ v. opened w v) (\<lambda>e v. left_off w v) u"
proof (cases "load_checkpoint (ev_read (jo_env J) (w_tick u)) (w_disk u)")
  case (Inr cp)
  with assms show ?thesis
    by (simp add: seed_migration_checkpoint_def wp_bind wp_try wp_disk_read wp_ifW wp_ret opened_left_off)
next
  case (Inl e)
  show ?thesis
  proof (cases "errors_is e StateNotFound")
    case True
    have "wp (save_cp J cp) (\<lambda>_ v. opened w v) (\<lambda>e v. left_off w v) (tick (tick u))" if "phase_rank (cp_phase cp) \<le> 2" for cp
      by (rule wp_first_save [of w]) (use assms load_checkpoint_missing [OF Inl True] that in simp_all)
    with Inl True show ?thesis
      by (simp add: seed_migration_checkpoint_def wp_bind wp_try wp_disk_read wp_clock)
  next
    case False
    with Inl assms show ?thesis
      by (simp add: seed_migration_checkpoint_def wp_bind wp_try wp_disk_read wp_raise opened_left_off)
  qed
qed

text \<open>A known device: the join ends with the recovered state, or goes on.\<close>

lemma join_known_wp:
  assumes "opened w u"
  shows "wp (join_known J q lk) (\<lambda>x v. case x of None \<Rightarrow> opened w v | Some y \<Rightarrow> left_off w v \<and> jr_already y)
    (\<lambda>e v. left_off w v) u" (is "wp _ ?Q ?F u")
proof -
  have recovered: "wp (recover_last_known J lk) (\<lambda>y. ?Q (Some y)) ?F v" if "opened w v" for v
    by (rule wpI) (auto intro: left_off.R_trans [OF opened_left_off [OF that] keeps_relD [OF recover_left_off]]
        simp: recover_already)
  have rejoined: "wp (rejoin J b lk) ?Q ?F u" for b
    unfolding rejoin_def wp_bind [of "If _ _ _"]
  proof (rule wp_keeps)
    show "keeps_rel aside (if b then disk_remove (jo_env J) clear_enrollment_secret else ret ())"
      by (intro keeps aside_steps)
  qed (use assms recovered in \<open>auto simp: wp_bind wp_ret dest: opened_aside opened_left_off\<close>)
  have seeded: "wp (seed_migration_checkpoint J lk) (\<lambda>_. ?Q None) ?F u"
    by (rule wp_conseq [OF seed_wp [OF assms]]) simp_all
  have stop: "left_off w u" "opened w u" using assms by (simp_all add: opened_left_off)
  show ?thesis
    unfolding join_known_def Let_def wp_if wp_ifW wp_ret wp_bind [of "seed_migration_checkpoint _ _"]
    using stop rejoined seeded by simp
qed

text \<open>The checkpoint the stages start from: the stored one, or a fresh one.\<close>

definition starting :: "world \<Rightarrow> checkpoint \<Rightarrow> bool" where
  "starting w cp \<longleftrightarrow> dk_checkpoint (w_disk w) = Doc cp \<or>
     dk_checkpoint (w_disk w) = Absent \<and> phase_rank (cp_phase cp) \<le> 2"

lemma opened_calm:
  assumes "opened w v" and "dk_checkpoint (w_disk v) = Doc c" and "cp_progress c cp"
  shows "calm w cp v"
  using assms by (auto simp: opened_def left_off_def calm_def on_disk_def)

lemma load_or_create_wp:
  assumes "opened w u"
  shows "wp (load_or_create_checkpoint J q) (\<lambda>cp v. calm w cp v \<and> starting w cp \<and> cp_server cp = jq_server q \<and>
      cp_device cp = jq_device q) (\<lambda>e v. left_off w v) u" (is "wp _ ?Q ?F u")
proof (cases "load_checkpoint (ev_read (jo_env J) (w_tick u)) (w_disk u)")
  case (Inr cp)
  have c: "dk_checkpoint (w_disk (tick u)) = Doc cp" using load_checkpoint_found [OF Inr] by simp
  have "calm w cp (tick u)" "starting w cp"
    using opened_calm [OF opened_tick [OF assms] c] assms c by (auto simp: opened_def starting_def)
  with Inr assms show ?thesis
    by (auto simp: load_or_create_checkpoint_def wp_bind wp_try wp_disk_read wp_ifW wp_ret opened_left_off)
next
  case (Inl e)
  show ?thesis
  proof (cases "errors_is e StateNotFound")
    case True
    have absent: "dk_checkpoint (w_disk u) = Absent" by (rule load_checkpoint_missing [OF Inl True])
    then have start: "dk_checkpoint (w_disk w) = Absent" using assms by (auto simp: opened_def)
    have saved: "wp (save_cp J cp) (\<lambda>_. wp (ret cp) ?Q ?F) ?F (tick (tick (tick u)))"
      if "phase_rank (cp_phase cp) \<le> 2" "cp_server cp = jq_server q" "cp_device cp = jq_device q" for cp
      by (rule wp_first_save [of w])
        (use assms absent start that opened_calm [of w _ "saved_form cp" cp] in \<open>auto simp: wp_ret starting_def\<close>)
    have key: "wp (tryW (call [] (jo_key J))) Q ?F v = (case jo_key J (w_tick v) of Inl e \<Rightarrow> Q (Inl e) (tick v)
      | Inr k \<Rightarrow> Q (Inr k) (tick v))" for Q v
      by (simp add: wp_try wp_call Let_def)
    from Inl True assms saved show ?thesis
      by (auto simp: load_or_create_checkpoint_def wp_bind wp_try [of "disk_read _ _"] wp_disk_read key wp_clock Let_def
          wp_raise opened_left_off split: sum.split)
  next
    case False
    with Inl assms show ?thesis
      by (simp add: load_or_create_checkpoint_def wp_bind wp_try wp_disk_read wp_raise opened_left_off)
  qed
qed

section \<open>The whole join\<close>

text \<open>An earlier run had got there.\<close>

definition reached :: "world \<Rightarrow> phase \<Rightarrow> bool" where
  "reached w p \<longleftrightarrow> (\<exists>c. dk_checkpoint (w_disk w) = Doc c \<and> phase_at_least (cp_phase c) p)"

lemma starting_reached: "starting w cp \<Longrightarrow> phase_at_least (cp_phase cp) p \<Longrightarrow> 2 < phase_rank p \<Longrightarrow> reached w p"
  by (auto simp: starting_def reached_def phase_at_least_def)

definition broke_off :: "joiner \<Rightarrow> string \<Rightarrow> world \<Rightarrow> world \<Rightarrow> bool" where
  "broke_off J s w v \<longleftrightarrow> (\<forall>c. dk_checkpoint (w_disk w) = Doc c \<longrightarrow> kept c v) \<and> legacy_ok J s w v \<and>
     (join_acks v = join_acks w \<or>
      (\<exists>a. join_acks v = join_acks w @ [a]) \<and> ((\<exists>k. applied J k) \<or> reached w PhaseRuntimeApplied))"

text \<open>What a join that came to its end has behind it.\<close>

definition finished :: "joiner \<Rightarrow> world \<Rightarrow> checkpoint \<Rightarrow> config \<Rightarrow> bool" where
  "finished J w cp k \<longleftrightarrow>
     (reached w PhaseConfigFetched \<or> (\<exists>c f. fetched_ok J c f \<and> cp_device c = cp_device cp \<and> fc_config f = k \<and>
        fc_id f = cp_config_id cp \<and> fc_generation f = cp_generation cp)) \<and>
     (reached w PhaseRuntimeApplied \<or> applied J k) \<and>
     (reached w PhaseAcknowledged \<or> acknowledged J cp)"

lemma moved_kept: "moved w v \<Longrightarrow> dk_checkpoint (w_disk w) = Doc c \<Longrightarrow> kept c v"
  by (auto simp: moved_def climbed_def kept_def)

lemma held_broke_off: "held J s w v \<Longrightarrow> broke_off J s w v"
  by (auto simp: held_def broke_off_def moved_kept)

lemma spoke_broke_off: "spoke J s w v \<Longrightarrow> (\<exists>k. applied J k) \<or> reached w PhaseRuntimeApplied \<Longrightarrow> broke_off J s w v"
proof -
  assume s: "spoke J s w v" and ready: "(\<exists>k. applied J k) \<or> reached w PhaseRuntimeApplied"
  from s obtain as where "join_acks v = join_acks w @ as" "length as \<le> 1" by (auto simp: spoke_def)
  then have "join_acks v = join_acks w \<or> (\<exists>a. join_acks v = join_acks w @ [a])" by (cases as) auto
  with s ready show ?thesis by (auto simp: spoke_def broke_off_def moved_kept)
qed

lemma kept_progress: "cp_progress c c' \<Longrightarrow> kept c' v \<Longrightarrow> kept c v"
  by (auto simp: kept_def cp_progress_def)

lemma join_stages_wp:
  assumes "calm w cp u" and "starting w cp"
  shows "wp (join_stages J token cp)
    (\<lambda>x v. broke_off J (cp_server cp) w v \<and> (\<exists>cp' k. joined cp' k x v \<and> cp_progress cp cp' \<and> finished J w cp' k))
    (\<lambda>e v. broke_off J (cp_server cp) w v) u" (is "wp _ ?Q ?F u")
proof -
  let ?held = "held J (cp_server cp) w"
  have closing: "wp (commit_stage J k cp4) ?Q ?F v"
    if s: "spoke J (cp_server cp) w v" and disk: "on_disk v cp4" and prog: "cp_progress cp cp4" and fin: "finished J w cp4 k" for cp4 k v
  proof -
    have ready: "(\<exists>k. applied J k) \<or> reached w PhaseRuntimeApplied" using fin by (auto simp: finished_def)
    have after: "broke_off J (cp_server cp) w x \<and> (\<forall>y. r = Inr y \<longrightarrow> joined cp4 k y x)" if run: "commit_stage J k cp4 v = (r, x)" for r x
    proof -
      note any = commit_stage_any [OF run disk]
      have "kept c x" if "dk_checkpoint (w_disk w) = Doc c" for c
        using any s that kept_progress by (fastforce simp: spoke_def moved_def climbed_def)
      moreover have "legacy_fetches x = legacy_fetches v" "join_acks x = join_acks v"
        using any by (simp_all add: legacy_fetches_def join_acks_def)
      ultimately show ?thesis
        using any spoke_broke_off [OF s ready] by (simp add: broke_off_def legacy_ok_def)
    qed
    show ?thesis by (rule wpI) (use after prog fin in blast)+
  qed
  have acked: "wp (ack_stage J token cp3) (\<lambda>cp4. wp (commit_stage J k cp4) ?Q ?F) ?F v"
    if h: "?held v" "on_disk v cp3" "cp_progress cp cp3"
      and cfg: "reached w PhaseConfigFetched \<or> (\<exists>f. fetched_ok J cp3 f \<and> fc_config f = k \<and> fc_id f = cp_config_id cp3 \<and>
        fc_generation f = cp_generation cp3) \<or> cp_contract cp3 \<noteq> ''signed'' \<and> \<not> cp_invite cp3"
      and app: "reached w PhaseRuntimeApplied \<or> applied J k" and ph: "phase_at_least (cp_phase cp3) PhaseAcknowledged \<Longrightarrow> reached w PhaseAcknowledged"
    for cp3 k v
  proof (rule wp_conseq [OF ack_stage_wp [OF h(1,2)]])
    have ready: "(\<exists>k. applied J k) \<or> reached w PhaseRuntimeApplied" using app by blast
    show "?F e x" if "spoke J (cp_server cp) w x" for e x by (rule spoke_broke_off [OF that ready])
    fix cp4 x
    assume a: "spoke J (cp_server cp) w x \<and> on_disk x cp4 \<and> same_config cp3 cp4 \<and>
      (cp4 = cp3 \<and> phase_at_least (cp_phase cp3) PhaseAcknowledged \<or>
       cp_phase cp4 = PhaseAcknowledged \<and> acknowledged J cp4 \<and> (cp_invite cp3 \<or> cp_contract cp3 = ''signed''))"
    have up: "reached w PhaseAcknowledged \<Longrightarrow> reached w PhaseConfigFetched"
      by (auto simp: reached_def phase_at_least_def)
    have fetched: "reached w PhaseConfigFetched \<or> (\<exists>f. fetched_ok J cp3 f \<and> fc_config f = k \<and> fc_id f = cp_config_id cp3 \<and>
        fc_generation f = cp_generation cp3)"
      using a cfg ph up by blast
    have same: "cp_device cp3 = cp_device cp4" "cp_config_id cp3 = cp_config_id cp4" "cp_generation cp3 = cp_generation cp4"
      using a by (simp_all add: same_config_def cp_progress_def)
    have "reached w PhaseAcknowledged \<or> acknowledged J cp4" using a ph by blast
    moreover have "reached w PhaseConfigFetched \<or> (\<exists>c f. fetched_ok J c f \<and> cp_device c = cp_device cp4 \<and> fc_config f = k \<and>
        fc_id f = cp_config_id cp4 \<and> fc_generation f = cp_generation cp4)"
      using fetched same by metis
    ultimately have "finished J w cp4 k" using app by (simp add: finished_def)
    with a h(3) show "wp (commit_stage J k cp4) ?Q ?F x"
      by (intro closing) (auto simp: same_config_def intro: cp_progress_trans)
  qed
  have went: "wp (bindW (apply_stage J k cp2) (\<lambda>cp3. bindW (ack_stage J token cp3) (\<lambda>cp4. commit_stage J k cp4))) ?Q ?F v"
    if h: "?held v" "on_disk v cp2" "cp_progress cp cp2" and k: "cp_config cp2 = Some k"
      and cfg: "cp2 = cp \<and> phase_at_least (cp_phase cp) PhaseConfigFetched \<or> cp_phase cp2 = PhaseConfigFetched \<and> passed_config J cp2"
    for cp2 k v
    unfolding wp_bind
  proof (rule wp_conseq [OF apply_stage_wp [OF h(1,2)]])
    fix cp3 x
    assume a: "?held x \<and> on_disk x cp3 \<and> same_config cp2 cp3 \<and> (cp3 = cp2 \<and> phase_at_least (cp_phase cp2) PhaseRuntimeApplied \<or>
        cp_phase cp3 = PhaseRuntimeApplied \<and> cp_contract cp3 = cp_contract cp2 \<and> cp_network cp3 = cp_network cp2 \<and> applied J k)"
    have resumed: "reached w p" if "phase_at_least (cp_phase cp2) p" "3 < phase_rank p" for p
      using cfg that starting_reached [OF assms(2), of p] by (auto simp: phase_at_least_def)
    have contract: "cp_contract cp3 = cp_contract cp2" using a by auto
    have "reached w PhaseConfigFetched \<or> passed_config J cp2"
      using cfg starting_reached [OF assms(2), of PhaseConfigFetched] by auto
    then have "reached w PhaseConfigFetched \<or> (\<exists>f. fetched_ok J cp3 f \<and> fc_config f = k \<and> fc_id f = cp_config_id cp3 \<and>
        fc_generation f = cp_generation cp3) \<or> cp_contract cp3 \<noteq> ''signed'' \<and> \<not> cp_invite cp3"
    proof
      assume "passed_config J cp2"
      then obtain f where f: "config_passed J cp2 f" "fc_config f = k" "cp_contract cp2 = fc_contract f" "fc_id f = cp_config_id cp2"
        "fc_generation f = cp_generation cp2" using k by (auto simp: passed_config_def)
      have "fetched_ok J cp3 f \<longleftrightarrow> fetched_ok J cp2 f" if "cp_network cp3 = cp_network cp2"
        using a that by (simp add: fetched_ok_def same_config_def cp_progress_def)
      with f a contract show ?thesis by (auto simp: config_passed_def same_config_def cp_progress_def)
    qed blast
    moreover have "reached w PhaseRuntimeApplied \<or> applied J k" using a resumed by auto
    moreover have "reached w PhaseAcknowledged" if "phase_at_least (cp_phase cp3) PhaseAcknowledged"
      using a that resumed by (auto simp: phase_at_least_def)
    moreover have "cp_progress cp cp3" using a h(3) by (auto simp: same_config_def intro: cp_progress_trans)
    ultimately show "wp (ack_stage J token cp3) (\<lambda>cp4. wp (commit_stage J k cp4) ?Q ?F) ?F x"
      using a acked by blast
  qed (rule held_broke_off)
  have fetched: "wp (fetch_stage J token cp1) (\<lambda>cp2. wp (case cp_config cp2 of
         None \<Rightarrow> raise (fault CodeStateIO ''resume join'')
       | Some k \<Rightarrow> bindW (apply_stage J k cp2) (\<lambda>cp3. bindW (ack_stage J token cp3) (\<lambda>cp4. commit_stage J k cp4))) ?Q ?F) ?F v"
    if c1: "calm w cp1 v" "cp_progress cp cp1" "cp1 = cp \<or> cp_phase cp1 = PhaseDeviceRegistered" for cp1 v
  proof -
    have server: "cp_server cp1 = cp_server cp" using c1(2) by (simp add: cp_progress_def)
    have "wp (case cp_config cp2 of
         None \<Rightarrow> raise (fault CodeStateIO ''resume join'')
       | Some k \<Rightarrow> bindW (apply_stage J k cp2) (\<lambda>cp3. bindW (ack_stage J token cp3) (\<lambda>cp4. commit_stage J k cp4))) ?Q ?F x"
      if "?held x \<and> on_disk x cp2 \<and> cp_progress cp1 cp2 \<and> (cp2 = cp1 \<and> phase_at_least (cp_phase cp1) PhaseConfigFetched \<or>
         cp_phase cp2 = PhaseConfigFetched \<and> passed_config J cp2)" for cp2 x
    proof -
      have cfg: "cp2 = cp \<and> phase_at_least (cp_phase cp) PhaseConfigFetched \<or> cp_phase cp2 = PhaseConfigFetched \<and> passed_config J cp2"
        using that c1(3) by (auto simp: phase_at_least_def)
      have "cp_progress cp cp2" using that c1(2) by (auto intro: cp_progress_trans)
      with that went [OF _ _ _ _ cfg] held_broke_off show ?thesis
        by (auto simp: wp_option wp_raise split: option.split)
    qed
    then show ?thesis
      by (intro wp_conseq [OF fetch_stage_wp [OF c1(1)]]) (simp_all add: server held_broke_off)
  qed
  show ?thesis
    unfolding join_stages_def wp_bind [of "register_stage _ _ _"] wp_bind [of "fetch_stage _ _ _"]
    by (rule wp_conseq [OF register_stage_wp [OF assms(1)]])
      (use fetched in \<open>auto intro: held_broke_off left_off_held\<close>)
qed

lemma left_off_broke: "left_off w v \<Longrightarrow> broke_off J s w v"
  by (rule held_broke_off [OF left_off_held])

lemma join_wp:
  "wp (join J q) (\<lambda>x v. broke_off J (jq_server (normal_request q)) w v \<and> (jr_already x \<and> left_off w v \<or>
      (\<exists>cp k. joined cp k x v \<and> cp_server cp = jq_server (normal_request q) \<and> cp_device cp = jq_device (normal_request q) \<and>
        (\<forall>c. dk_checkpoint (w_disk w) = Doc c \<longrightarrow> cp_progress c cp) \<and> finished J w cp k)))
    (\<lambda>e v. broke_off J (jq_server (normal_request q)) w v) w" (is "wp _ ?Q ?F w")
proof -
  let ?q = "normal_request q"
  have staged: "wp (join_stages J token cp) ?Q ?F v"
    if "calm w cp v" "starting w cp" "cp_server cp = jq_server ?q" "cp_device cp = jq_device ?q" for token cp v
  proof -
    note st = that
    show ?thesis
  proof (rule wp_conseq [OF join_stages_wp [OF st(1,2)]])
    fix x z
    assume "broke_off J (cp_server cp) w z \<and> (\<exists>cp' k. joined cp' k x z \<and> cp_progress cp cp' \<and> finished J w cp' k)"
    then obtain cp' k where "broke_off J (jq_server ?q) w z" "joined cp' k x z" "cp_progress cp cp'" "finished J w cp' k"
      using st(3) by auto
    moreover have "cp_progress c cp'" if "dk_checkpoint (w_disk w) = Doc c" for c
      using that st(2) \<open>cp_progress cp cp'\<close> by (auto simp: starting_def)
    moreover have "cp_server cp' = jq_server ?q" "cp_device cp' = jq_device ?q"
      using st(3,4) \<open>cp_progress cp cp'\<close> by (simp_all add: cp_progress_def)
    ultimately show "?Q x z" by blast
  qed (use st(3) in simp)
  qed
  have resumed: "wp (bindW (load_or_create_checkpoint J ?q) (\<lambda>cp. bindW (of_result (of_option (resume_check J cp))) (\<lambda>_.
      join_stages J (jq_token ?q) cp))) ?Q ?F v" if "opened w v" for v
    unfolding wp_bind
    by (rule wp_conseq [OF load_or_create_wp [OF that]])
      (use staged in \<open>auto simp: wp_of_option intro: left_off_broke calm_left_off split: option.split\<close>)
  have went_on: "wp (case x of Some r \<Rightarrow> ret r | None \<Rightarrow> bindW (load_or_create_checkpoint J ?q) (\<lambda>cp.
      bindW (of_result (of_option (resume_check J cp))) (\<lambda>_. join_stages J (jq_token ?q) cp))) ?Q ?F v"
    if "case x of None \<Rightarrow> opened w v | Some y \<Rightarrow> left_off w v \<and> jr_already y" for x v
    using that resumed by (cases x) (auto simp: wp_ret intro: left_off_broke)
  have known: "wp (join_known J ?q lk) (\<lambda>x. wp (case x of Some r \<Rightarrow> ret r | None \<Rightarrow> bindW (load_or_create_checkpoint J ?q) (\<lambda>cp.
      bindW (of_result (of_option (resume_check J cp))) (\<lambda>_. join_stages J (jq_token ?q) cp))) ?Q ?F) ?F (tick w)" for lk
    by (rule wp_conseq [OF join_known_wp [OF opened_tick [OF opened_refl]]]) (use went_on left_off_broke in auto)
  have start: "left_off w (tick w)" "left_off w w" by (simp_all add: left_off.R_tick left_off.R_refl)
  have fresh: "wp (case None of Some r \<Rightarrow> ret r | None \<Rightarrow> bindW (load_or_create_checkpoint J ?q) (\<lambda>cp.
      bindW (of_result (of_option (resume_check J cp))) (\<lambda>_. join_stages J (jq_token ?q) cp))) ?Q ?F (tick w)"
    by (rule went_on) simp
  show ?thesis
    unfolding join_def Let_def wp_ifW wp_bind [of "bindW _ _"] wp_bind [of "tryW (disk_read _ load_last_known)"] wp_try wp_disk_read
    using start known fresh left_off_broke by (auto simp: wp_raise wp_ret split: sum.split)
qed

section \<open>Properties\<close>

text \<open>
  C13. A join can always be taken up again. If a checkpoint was stored, then on every exit, whatever
  failed, either a checkpoint of the same enrollment is still stored, with the same WireGuard keys
  and at least as far, or the checkpoint is gone because the last-known state has been stored with
  those keys.
\<close>

theorem join_keeps_progress:
  assumes "join J q w = (r, v)" and "dk_checkpoint (w_disk w) = Doc c"
  shows "(\<exists>c'. dk_checkpoint (w_disk v) = Doc c' \<and> cp_progress c c') \<or>
     (dk_checkpoint (w_disk v) = Absent \<and> (\<exists>l. dk_last_known (w_disk v) = Doc l \<and> lk_server l = cp_server c \<and>
        lk_device l = cp_device c \<and> lk_private_key l = cp_private_key c \<and> lk_public_key l = cp_public_key c \<and>
        lk_phase l = PhaseAcknowledged))"
proof -
  have "broke_off J (jq_server (normal_request q)) w v"
    using wpD [OF join_wp assms(1)] by (auto split: sum.splits)
  with assms(2) have "kept c v" by (simp add: broke_off_def)
  then show ?thesis by (simp add: kept_def)
qed



section \<open>Examples\<close>

text \<open>A join interrupted at some phase, and taken up again.\<close>

definition sample_checkpoint :: "phase \<Rightarrow> checkpoint" where
  "sample_checkpoint p = \<lparr>cp_schema = 1, cp_server = ''https://z'', cp_device = ''dev'', cp_device_name = [],
     cp_platform = ''linux'', cp_hostname = [], cp_network = ''net'', cp_node = [], cp_private_key = std_encode (replicate 32 9),
     cp_public_key = std_encode (replicate 32 3), cp_phase = p, cp_config = Some sample_compiled, cp_contract = [],
     cp_config_id = ''cfg'', cp_generation = 3, cp_invite = False, cp_enrollment_expires = zero_time, cp_last_error = [],
     cp_updated = sample_time\<rparr>"

definition join_world :: "checkpoint \<Rightarrow> world" where
  "join_world c = \<lparr>w_tick = 0, w_disk = empty_disk\<lparr>dk_checkpoint := Doc c\<rparr>, w_creds = None, w_log = []\<rparr>"

definition sample_joiner :: "string \<Rightarrow> joiner" where
  "sample_joiner contract = \<lparr>jo_env = sample_env, jo_contract = contract, jo_invite = False, jo_signed = True, jo_session = False,
     jo_key = (\<lambda>_. Inl (Plain ''key'')), jo_register = (\<lambda>_. Inl (Plain ''register'')), jo_legacy = (\<lambda>_. Inl (Plain ''legacy'')),
     jo_keys = (\<lambda>_. Inl (Plain ''keys'')), jo_config = (\<lambda>_. Inl (Plain ''config'')),
     jo_ack = (\<lambda>_. Inr \<lparr>ar_acked = True, ar_duplicate = False, ar_ack = \<lparr>ak_device = ''dev'', ak_config_id = ''cfg'',
       ak_generation = 3, ak_applied = sample_time, ak_received = sample_time\<rparr>\<rparr>),
     jo_exchange = (\<lambda>_. Inl (Plain ''exchange''))\<rparr>"

definition sample_request :: join_request where
  "sample_request = \<lparr>jq_server = ''https://z'', jq_device = ''dev'', jq_device_name = [], jq_platform = [], jq_hostname = [],
     jq_network = [], jq_node = [], jq_token = []\<rparr>"

lemma sample_normal: "normal_request sample_request = sample_request"
proof -
  have "trim_space ''https://z'' = ''https://z''" "trim_space ''dev'' = ''dev''"
    by (rule trim_space_all_graphic, simp add: graphic_def code_def)+
  then show ?thesis by (simp add: normal_request_def sample_request_def trim_right_slash_def)
qed

lemma sample_joiner_sels [simp]:
  "jo_env (sample_joiner c) = sample_env" "jo_contract (sample_joiner c) = c" "jo_signed (sample_joiner c)"
  "jo_legacy (sample_joiner c) n = Inl (Plain ''legacy'')"
  "jo_ack (sample_joiner c) n = Inr \<lparr>ar_acked = True, ar_duplicate = False, ar_ack = \<lparr>ak_device = ''dev'', ak_config_id = ''cfg'',
     ak_generation = 3, ak_applied = sample_time, ak_received = sample_time\<rparr>\<rparr>"
  by (simp_all add: sample_joiner_def)

lemma join_world_start:
  "load_last_known ReadOk (w_disk (join_world c)) = Inl (Sentinel StateNotFound)"
  "cp_schema c = 1 \<Longrightarrow> load_checkpoint ReadOk (w_disk (join_world c)) = Inr c"
  "is_signed_locked ReadOk s d n (w_disk (join_world c)) = Inr False"
  by (simp_all add: join_world_def empty_disk_def load_last_known_def read_json_def load_checkpoint_def is_signed_locked_def
      load_contract_state_def)

lemma sample_resume:
  "\<exists>x v. join (sample_joiner ''signed'') sample_request (join_world ((sample_checkpoint PhaseRuntimeApplied)\<lparr>cp_contract := ''signed''\<rparr>)) =
     (Inr x, v) \<and> \<not> jr_already x"
  unfolding join_def Let_def sample_normal join_stages_def register_stage_def fetch_stage_def apply_stage_def ack_stage_def
    ack_signed_def commit_stage_def load_or_create_checkpoint_def
  by (simp add: bindW_def tryW_def disk_read_def join_world_start sample_request_def ifW_def sample_checkpoint_def resume_check_def
      phase_at_least_def of_option_def clock_def call_def ack_matches_def save_cp_def disk_write_def save_checkpoint_def
      write_json_def save_last_known_def disk_remove_def clear_checkpoint_def remove_file_def)

lemma join_keeps_progress_witness:
  "\<exists>r v l. join (sample_joiner ''signed'') sample_request (join_world ((sample_checkpoint PhaseRuntimeApplied)\<lparr>cp_contract := ''signed''\<rparr>)) =
     (Inr r, v) \<and> dk_last_known (w_disk v) = Doc l \<and> lk_private_key l = std_encode (replicate 32 9)"
proof -
  let ?c = "(sample_checkpoint PhaseRuntimeApplied)\<lparr>cp_contract := ''signed''\<rparr>"
  obtain x v where run: "join (sample_joiner ''signed'') sample_request (join_world ?c) = (Inr x, v)" "\<not> jr_already x"
    using sample_resume by blast
  have c: "dk_checkpoint (w_disk (join_world ?c)) = Doc ?c" by (simp add: join_world_def)
  have "dk_checkpoint (w_disk v) = Absent"
    using wpD [OF join_wp run(1)] run(2) by (auto simp: joined_def)
  with join_keeps_progress [OF run(1) c] run(1) show ?thesis by (auto simp: sample_checkpoint_def)
qed


text \<open>A joiner of the legacy contract asks, and gets no answer.\<close>

lemma sample_legacy:
  "\<exists>v. join (sample_joiner ''legacy'') sample_request (join_world (sample_checkpoint PhaseDeviceRegistered)) = (Inl (Plain ''legacy''), v) \<and>
     legacy_fetches v = [FetchLegacy \<lparr>cq_device = ''dev'', cq_network = ''net'', cq_node = []\<rparr>]"
  unfolding join_def Let_def sample_normal join_stages_def register_stage_def fetch_stage_def fetch_runtime_config_def
    fetch_legacy_config_def load_or_create_checkpoint_def
  by (simp add: bindW_def tryW_def disk_read_def join_world_start sample_request_def ifW_def sample_checkpoint_def resume_check_def
      phase_at_least_def of_option_def call_def config_request_of_def legacy_fetches_def)
    (simp add: join_world_def)


end
