(* ===== verification/Register.thy ===== *)
theory Register
  imports Join
begin

text \<open>
  \<open>overlay/usecase/register.go\<close>: a device registers itself, polls until its registration is
  approved, and joins with what the approval hands out. The polling loop takes the number of
  its rounds as fuel; it ends by itself when the registration expires.
\<close>

section \<open>The registrar\<close>

text \<open>
  What the registrar is built with: the joiner it will run, the answers of the registration
  calls and of the two contexts, and the timer, which is asked for a duration.
\<close>

record registrar =
  re_join :: joiner
  re_urls :: url_parser
  re_runtime :: bool
  re_key :: "nat \<Rightarrow> error + string \<times> string"
  re_create :: "nat \<Rightarrow> error + create_response"
  re_poll :: "nat \<Rightarrow> error + poll_response"
  re_wait :: "int \<Rightarrow> nat \<Rightarrow> error option"
  re_poll_ctx :: "nat \<Rightarrow> error option"
  re_ctx :: "nat \<Rightarrow> error option"

abbreviation re_env :: "registrar \<Rightarrow> env" where
  "re_env R \<equiv> jo_env (re_join R)"

record registration_request =
  rr_controller :: string
  rr_device :: string
  rr_device_name :: string
  rr_network :: string
  rr_platform :: string
  rr_hostname :: string

record register_result =
  rl_device :: string
  rl_network :: string
  rl_registration :: string
  rl_status :: string
  rl_revision :: string

definition PollInterval :: int where
  "PollInterval = 5 * second"

definition MaximumLifetime :: int where
  "MaximumLifetime = 15 * minute"

definition valid_register_controller :: "url_parser \<Rightarrow> string \<Rightarrow> bool" where
  "valid_register_controller U v \<longleftrightarrow>
     (case U v of None \<Rightarrow> False
      | Some p \<Rightarrow> u_scheme p = ''https'' \<and> u_host p \<noteq> [] \<and> \<not> u_has_user p \<and> u_raw_query p = [] \<and> u_fragment p = [])"

definition plain_text :: "string \<Rightarrow> bool" where
  "plain_text s \<longleftrightarrow> list_all (\<lambda>c. code c \<noteq> 13 \<and> code c \<noteq> 10 \<and> code c \<noteq> 0) s"

definition valid_registration_fields :: "registration_request \<Rightarrow> bool" where
  "valid_registration_fields q \<longleftrightarrow>
     rr_device q \<noteq> [] \<and> rr_network q \<noteq> [] \<and> rr_platform q \<noteq> [] \<and> length (rr_device_name q) \<le> 255 \<and>
     length (rr_hostname q) \<le> 255 \<and> plain_text (rr_device_name q @ rr_hostname q)"

section \<open>The stored registration\<close>

definition save_reg :: "registrar \<Rightarrow> registration_state \<Rightarrow> unit io" where
  "save_reg R reg = disk_write (re_env R) (\<lambda>io. save_registration (re_urls R) io reg)"

definition load_or_create_registration :: "registrar \<Rightarrow> registration_request \<Rightarrow> registration_state io" where
  "load_or_create_registration R q =
     bindW (tryW (disk_read (re_env R) (load_registration (re_urls R)))) (\<lambda>r. case r of
        Inr reg \<Rightarrow>
          ifW (rs_controller reg \<noteq> rr_controller q \<or> rs_device reg \<noteq> rr_device q \<or> rs_network reg \<noteq> rr_network q \<or>
               rs_platform reg \<noteq> rr_platform q \<or> rs_public_key reg = [])
            (fault CodeStateConflict ''resume registration binding'')
            (bindW (clock (re_env R)) (\<lambda>now.
               ifW (rs_approved reg = None \<and> \<not> is_zero (rs_expires reg) \<and> \<not> after (rs_expires reg) (to_utc now))
                 (fault CodeRegistrationExpired ''resume registration'') (ret reg)))
      | Inl e \<Rightarrow>
          if \<not> errors_is e StateNotFound then raise e
          else bindW (tryW (call [] (re_key R))) (\<lambda>k. case k of
             Inl e \<Rightarrow> raise (fault_cause CodeInvalidConfig ''generate registration WireGuard key'' e)
           | Inr key \<Rightarrow>
               bindW (clock (re_env R)) (\<lambda>now.
                 let reg = \<lparr>rs_schema = 0, rs_controller = rr_controller q, rs_id = [], rs_token = [],
                       rs_status = ''creating'', rs_expires = zero_time, rs_interval = 0, rs_device = rr_device q,
                       rs_device_name = trim_space (rr_device_name q), rs_network = rr_network q,
                       rs_platform = rr_platform q, rs_hostname = trim_space (rr_hostname q), rs_private_key = fst key,
                       rs_public_key = snd key, rs_created = to_utc now, rs_updated = to_utc now, rs_approved = None\<rparr>
                 in bindW (save_reg R reg) (\<lambda>_. ret reg))))"

text \<open>A registration the controller has not seen yet is created and stored as pending.\<close>

definition create_registration :: "registrar \<Rightarrow> registration_state \<Rightarrow> registration_state io" where
  "create_registration R reg =
     (if rs_id reg \<noteq> [] then ret reg
      else bindW (call [CreateRegistration (rs_network reg) (rs_device reg) (rs_public_key reg)] (re_create R)) (\<lambda>c.
        bindW (clock (re_env R)) (\<lambda>now.
        bindW (clock (re_env R)) (\<lambda>now'.
        ifW (\<not> utc (nr_expires c) \<or> \<not> after (nr_expires c) (to_utc now) \<or>
             sub_time (nr_expires c) (to_utc now') > MaximumLifetime \<or> nr_interval c \<noteq> PollInterval div second \<or>
             nr_status c \<noteq> ''pending'')
          (fault CodeInvalidResponse ''validate registration response'')
          (bindW (clock (re_env R)) (\<lambda>updated.
             let reg' = reg\<lparr>rs_id := nr_id c, rs_token := nr_token c, rs_status := ''pending'',
                   rs_expires := nr_expires c, rs_interval := nr_interval c, rs_updated := to_utc updated\<rparr>
             in bindW (save_reg R reg') (\<lambda>_. ret reg')))))))"

section \<open>Polling\<close>

definition poll_delay :: "registration_state \<Rightarrow> int \<Rightarrow> gotime \<Rightarrow> int" where
  "poll_delay reg delay now =
     (let remaining = sub_time (rs_expires reg) (to_utc now)
      in if remaining \<le> 0 then 0 else if remaining < delay then remaining else delay)"

definition start_delay :: "registration_state \<Rightarrow> int" where
  "start_delay reg =
     (let d = rs_interval reg * second; d1 = (if d < PollInterval then PollInterval else d)
      in if d1 > 30 * second then 30 * second else d1)"

definition next_delay :: "int \<Rightarrow> int" where
  "next_delay d = (if d < 30 * second then min (d * 2) (30 * second) else d)"

text \<open>The deadline of the registration has passed while the caller still waits.\<close>

definition deadline_passed :: "registrar \<Rightarrow> bool io" where
  "deadline_passed R =
     bindW (call [] (\<lambda>n. Inr (re_poll_ctx R n))) (\<lambda>p.
     bindW (call [] (\<lambda>n. Inr (re_ctx R n))) (\<lambda>c.
       ret ((case p of Some e \<Rightarrow> errors_is e DeadlineExceeded | None \<Rightarrow> False) \<and> c = None)))"

definition poll_wait :: "registrar \<Rightarrow> registration_state \<Rightarrow> int \<Rightarrow> unit io" where
  "poll_wait R reg delay =
     bindW (clock (re_env R)) (\<lambda>now.
     let d = poll_delay reg delay now in
     bindW (tryW (call [Wait d] (\<lambda>n. of_option (re_wait R d n)))) (\<lambda>r. case r of
        Inr _ \<Rightarrow> ret ()
      | Inl e \<Rightarrow>
          bindW (deadline_passed R) (\<lambda>over.
            if over then raise (fault CodeRegistrationExpired ''poll registration'')
            else bindW (call [] (\<lambda>n. Inr (re_ctx R n))) (\<lambda>c.
              if errors_is e Canceled \<or> errors_is e DeadlineExceeded \<or> c \<noteq> None
              then raise (fault_cause CodeRegistrationPending ''registration remains pending'' e) else raise e))))"

definition final_codes :: "fault_code list" where
  "final_codes = [CodeRegistrationTokenInvalid, CodeRegistrationRejected, CodeRegistrationConsumed,
     CodeRegistrationExpired, CodeInvalidResponse]"

text \<open>One round of the loop: the exchange, or the delay of the next round.\<close>

definition poll_round :: "registrar \<Rightarrow> registration_state \<Rightarrow> int \<Rightarrow> (exchange_response + int) io" where
  "poll_round R reg delay =
     bindW (clock (re_env R)) (\<lambda>now.
     ifW (\<not> before (to_utc now) (rs_expires reg)) (fault CodeRegistrationExpired ''poll registration'')
       (bindW (tryW (call [PollRegistration (rs_id reg) (rs_token reg)] (re_poll R))) (\<lambda>r. case r of
          Inl e \<Rightarrow>
            bindW (deadline_passed R) (\<lambda>over.
              ifW over (fault CodeRegistrationExpired ''poll registration'')
                (ifW (fault_code_of e \<in> set final_codes) e
                  (bindW (poll_wait R reg delay) (\<lambda>_. ret (Inr (next_delay delay))))))
        | Inr resp \<Rightarrow>
            (case pq_pending resp of
               Some p \<Rightarrow>
                 ifW (pn_status p \<noteq> ''pending'' \<or> pn_interval p \<noteq> rs_interval reg \<or>
                      \<not> same_instant (pn_expires p) (rs_expires reg) \<or> \<not> utc (pn_expires p))
                   (fault CodeInvalidResponse ''validate pending registration'')
                   (bindW (poll_wait R reg delay) (\<lambda>_. ret (Inr delay)))
             | None \<Rightarrow>
                 (case pq_exchange resp of
                    Some x \<Rightarrow> ret (Inl x)
                  | None \<Rightarrow> raise (fault CodeInvalidResponse ''decode registration exchange''))))))"

text \<open>\<open>None\<close>: the rounds given ran out while the registration was still pending.\<close>

fun poll_loop :: "nat \<Rightarrow> registrar \<Rightarrow> registration_state \<Rightarrow> int \<Rightarrow> exchange_response option io" where
  "poll_loop 0 R reg delay = ret None"
| "poll_loop (Suc n) R reg delay =
     bindW (poll_round R reg delay) (\<lambda>x. case x of Inl x \<Rightarrow> ret (Some x) | Inr d \<Rightarrow> poll_loop n R reg d)"

text \<open>The clock is read for the deadline of the context the calls are made with.\<close>

definition poll :: "nat \<Rightarrow> registrar \<Rightarrow> registration_state \<Rightarrow> exchange_response option io" where
  "poll n R reg = bindW (clock (re_env R)) (\<lambda>_. poll_loop n R reg (start_delay reg))"

section \<open>The approval\<close>

definition exchange_to_state :: "exchange_response \<Rightarrow> registration_exchange" where
  "exchange_to_state x = \<lparr>rx_enrollment_token = xr_token x, rx_token_type = xr_token_type x, rx_expires = xr_expires x,
     rx_scope = xr_scope x,
     rx_credential = \<lparr>rc_id = dc_id (xr_credential x), rc_credential = dc_credential (xr_credential x),
       rc_token_type = dc_token_type (xr_credential x), rc_issued = dc_issued (xr_credential x),
       rc_expires = dc_expires (xr_credential x), rc_scope = dc_scope (xr_credential x)\<rparr>,
     rx_device = xr_device x, rx_network = xr_network x, rx_keys = \<lparr>ks_keys = xr_keys x, ks_etag = []\<rparr>\<rparr>"

definition exchange_of_state :: "registration_exchange \<Rightarrow> exchange_response" where
  "exchange_of_state x = \<lparr>xr_token = rx_enrollment_token x, xr_token_type = rx_token_type x, xr_expires = rx_expires x,
     xr_scope = rx_scope x,
     xr_credential = \<lparr>dc_id = rc_id (rx_credential x), dc_credential = rc_credential (rx_credential x),
       dc_token_type = rc_token_type (rx_credential x), dc_issued = rc_issued (rx_credential x),
       dc_expires = rc_expires (rx_credential x), dc_scope = rc_scope (rx_credential x)\<rparr>,
     xr_device = rx_device x, xr_network = rx_network x, xr_keys = ks_keys (rx_keys x)\<rparr>"

definition registered_record :: "registration_state \<Rightarrow> exchange_response \<Rightarrow> cred_record" where
  "registered_record reg x = \<lparr>cr_schema = 1, cr_controller = rs_controller reg, cr_device = rs_device reg,
     cr_network = rs_network reg, cr_platform = rs_platform reg, cr_public_key = rs_public_key reg,
     cr_id = dc_id (xr_credential x), cr_credential = dc_credential (xr_credential x),
     cr_issued = dc_issued (xr_credential x), cr_expires = dc_expires (xr_credential x),
     cr_scope = dc_scope (xr_credential x), cr_keys = \<lparr>ks_keys = xr_keys x, ks_etag = []\<rparr>, cr_pending = None\<rparr>"

definition registered_session :: "int \<Rightarrow> registration_state \<Rightarrow> exchange_response \<Rightarrow> gotime \<Rightarrow> enrollment_secret" where
  "registered_session schema reg x now = \<lparr>en_schema = schema, en_controller = rs_controller reg,
     en_device_id = rs_device reg, en_network_id = rs_network reg, en_platform = rs_platform reg,
     en_public_key = rs_public_key reg, en_token = xr_token x, en_expires = xr_expires x, en_scope = xr_scope x,
     en_device = xr_device x, en_network = xr_network x, en_keys = \<lparr>ks_keys = xr_keys x, ks_etag = []\<rparr>,
     en_created = to_utc now\<rparr>"

text \<open>The approval is for the device, network and key that were registered.\<close>

definition approval_bound :: "registration_state \<Rightarrow> exchange_response \<Rightarrow> bool" where
  "approval_bound reg x \<longleftrightarrow> dv_id (xr_device x) = rs_device reg \<and> dv_network (xr_device x) = rs_network reg \<and>
     dv_platform (xr_device x) = rs_platform reg \<and> dv_public_key (xr_device x) = rs_public_key reg \<and>
     nw_id (xr_network x) = rs_network reg"

definition validate_approved_exchange :: "registrar \<Rightarrow> registration_state \<Rightarrow> exchange_response \<Rightarrow> cred_record io" where
  "validate_approved_exchange R reg x =
     ifW (\<not> approval_bound reg x) (fault CodeStateConflict ''validate approved registration binding'')
       (ifW (case parse_credential (dc_credential (xr_credential x)) of
               Inl e \<Rightarrow> True | Inr s \<Rightarrow> se_id s \<noteq> dc_id (xr_credential x))
         (fault CodeInvalidResponse ''validate approved registration credential'')
         (ifW (record_validate (ev_cred (re_env R)) (registered_record reg x) \<noteq> None)
           (fault CodeInvalidResponse ''validate approved registration credential'')
           (bindW (clock (re_env R)) (\<lambda>now.
              ifW (validate_enrollment_secret (registered_session 1 reg x now) \<noteq> None)
                (fault CodeInvalidResponse ''validate approved registration enrollment'')
                (ret (registered_record reg x))))))"

text \<open>
  What is stored is kept: the credential, the session and the checkpoint of this very
  registration, or nothing is done.
\<close>

definition stage_credential :: "registrar \<Rightarrow> cred_record \<Rightarrow> unit io" where
  "stage_credential R rec =
     bindW (tryW (creds_load (re_env R))) (\<lambda>l. case l of
        Inr old \<Rightarrow>
          ifW (cr_controller old \<noteq> cr_controller rec \<or> cr_device old \<noteq> cr_device rec \<or>
               cr_network old \<noteq> cr_network rec \<or> cr_public_key old \<noteq> cr_public_key rec \<or> cr_id old \<noteq> cr_id rec \<or>
               cr_credential old \<noteq> cr_credential rec)
            (fault CodeStateConflict ''preserve existing device credential'') (ret ())
      | Inl e \<Rightarrow>
          if errors_is e CredentialNotFound
          then bindW (tryW (creds_save (re_env R) rec)) (\<lambda>s. case s of
             Inl e \<Rightarrow> raise (fault_cause CodeCredentialStorage ''persist registered device credential'' e)
           | Inr _ \<Rightarrow> ret ())
          else raise e)"

definition stage_session :: "registrar \<Rightarrow> registration_state \<Rightarrow> exchange_response \<Rightarrow> unit io" where
  "stage_session R reg x =
     bindW (clock (re_env R)) (\<lambda>now.
     bindW (tryW (disk_read (re_env R)
       (\<lambda>io. load_enrollment_secret io (rs_controller reg) (rs_device reg) (rs_public_key reg)))) (\<lambda>l. case l of
        Inr old \<Rightarrow>
          ifW (en_token old \<noteq> xr_token x \<or> \<not> same_instant (en_expires old) (xr_expires x))
            (fault CodeStateConflict ''preserve existing enrollment session'') (ret ())
      | Inl e \<Rightarrow>
          if errors_is e StateNotFound
          then disk_write (re_env R) (\<lambda>io. save_enrollment_secret io (registered_session 0 reg x now))
          else raise e))"

definition registered_checkpoint :: "registration_state \<Rightarrow> exchange_response \<Rightarrow> gotime \<Rightarrow> checkpoint" where
  "registered_checkpoint reg x now = \<lparr>cp_schema = 0, cp_server = rs_controller reg, cp_device = rs_device reg,
     cp_device_name = rs_device_name reg, cp_platform = rs_platform reg, cp_hostname = rs_hostname reg,
     cp_network = rs_network reg, cp_node = [], cp_private_key = rs_private_key reg, cp_public_key = rs_public_key reg,
     cp_phase = PhaseDeviceRegistered, cp_config = None, cp_contract = ''signed'', cp_config_id = [], cp_generation = 0,
     cp_invite = True, cp_enrollment_expires = xr_expires x, cp_last_error = [], cp_updated = to_utc now\<rparr>"

definition stage_checkpoint :: "registrar \<Rightarrow> registration_state \<Rightarrow> exchange_response \<Rightarrow> unit io" where
  "stage_checkpoint R reg x =
     bindW (tryW (disk_read (re_env R) load_checkpoint)) (\<lambda>l. case l of
        Inl e \<Rightarrow>
          if errors_is e StateNotFound
          then bindW (clock (re_env R)) (\<lambda>now. save_cp (re_join R) (registered_checkpoint reg x now))
          else raise e
      | Inr cp \<Rightarrow>
          ifW (cp_server cp \<noteq> rs_controller reg \<or> cp_device cp \<noteq> rs_device reg \<or> cp_network cp \<noteq> rs_network reg \<or>
               cp_public_key cp \<noteq> rs_public_key reg \<or> \<not> cp_invite cp \<or>
               \<not> phase_at_least (cp_phase cp) PhaseDeviceRegistered)
            (fault CodeStateConflict ''preserve existing join state'') (ret ()))"

text \<open>The joiner the registrar builds: signed configurations only, by enrollment session.\<close>

definition registrar_joiner :: "registrar \<Rightarrow> joiner" where
  "registrar_joiner R = (re_join R)\<lparr>jo_contract := ''signed'', jo_invite := True\<rparr>"

definition registered_request :: "registration_state \<Rightarrow> join_request" where
  "registered_request reg = \<lparr>jq_server = rs_controller reg, jq_device = rs_device reg,
     jq_device_name = rs_device_name reg, jq_platform = rs_platform reg, jq_hostname = rs_hostname reg,
     jq_network = rs_network reg, jq_node = [], jq_token = []\<rparr>"

definition stage_and_join :: "registrar \<Rightarrow> registration_state \<Rightarrow> exchange_response \<Rightarrow> join_result io" where
  "stage_and_join R reg x =
     bindW (validate_approved_exchange R reg x) (\<lambda>rec.
     bindW (stage_credential R rec) (\<lambda>_.
     bindW (stage_session R reg x) (\<lambda>_.
     bindW (stage_checkpoint R reg x) (\<lambda>_.
       join (registrar_joiner R) (registered_request reg)))))"

section \<open>Register\<close>

definition normal_registration :: "registration_request \<Rightarrow> registration_request" where
  "normal_registration q = q\<lparr>rr_controller := trim_right_slash (trim_space (rr_controller q)),
     rr_device := trim_space (rr_device q), rr_network := trim_space (rr_network q),
     rr_platform := trim_space (rr_platform q)\<rparr>"

text \<open>The exchange is stored with the registration before it is used.\<close>

definition approve :: "registrar \<Rightarrow> registration_state \<Rightarrow> exchange_response \<Rightarrow> registration_state io" where
  "approve R reg x =
     bindW (validate_approved_exchange R reg x) (\<lambda>_.
     bindW (clock (re_env R)) (\<lambda>now.
       let reg' = reg\<lparr>rs_status := ''approved'', rs_approved := Some (exchange_to_state x), rs_updated := to_utc now\<rparr>
       in bindW (save_reg R reg') (\<lambda>_. ret reg')))"

definition await_approval :: "nat \<Rightarrow> registrar \<Rightarrow> registration_state \<Rightarrow> (registration_state \<times> exchange_response) option io" where
  "await_approval n R reg0 =
     (case rs_approved reg0 of
        Some x \<Rightarrow> ret (Some (reg0, exchange_of_state x))
      | None \<Rightarrow>
          bindW (create_registration R reg0) (\<lambda>reg.
          bindW (poll n R reg) (\<lambda>r. case r of
             None \<Rightarrow> ret None
           | Some x \<Rightarrow> bindW (approve R reg x) (\<lambda>reg'. ret (Some (reg', x))))))"

text \<open>Before the registration: a sound request, and a device that has not joined.\<close>

definition open_registration :: "registrar \<Rightarrow> registration_request \<Rightarrow> registration_state io" where
  "open_registration R q0 =
     (let q = normal_registration q0 in
      ifW (\<not> valid_register_controller (re_urls R) (rr_controller q) \<or> \<not> valid_registration_fields q \<or>
           \<not> ev_has_creds (re_env R) \<or> \<not> re_runtime R)
        (fault CodeInvalidInput ''register overlay'')
        (bindW (tryW (disk_read (re_env R) load_last_known)) (\<lambda>l. case l of
            Inr lk \<Rightarrow> raise (fault CodeStateConflict ''register already joined device'')
          | Inl e \<Rightarrow> if \<not> errors_is e StateNotFound then raise e else load_or_create_registration R q)))"

definition finish_registration :: "registrar \<Rightarrow> registration_state \<Rightarrow> exchange_response \<Rightarrow> register_result io" where
  "finish_registration R reg x =
     bindW (stage_and_join R reg x) (\<lambda>j.
     bindW (disk_remove (re_env R) clear_registration) (\<lambda>_.
       ret \<lparr>rl_device = jr_device j, rl_network = jr_network j, rl_registration = rs_id reg,
         rl_status = ''approved'', rl_revision = jr_revision j\<rparr>))"

definition register_body :: "nat \<Rightarrow> registrar \<Rightarrow> registration_request \<Rightarrow> register_result option io" where
  "register_body n R q =
     bindW (open_registration R q) (\<lambda>reg0.
     bindW (await_approval n R reg0) (\<lambda>a. case a of
        None \<Rightarrow> ret None
      | Some p \<Rightarrow> bindW (finish_registration R (fst p) (snd p)) (\<lambda>r. ret (Some r))))"

definition register :: "nat \<Rightarrow> registrar \<Rightarrow> registration_request \<Rightarrow> register_result option io" where
  "register n R q = with_lock (re_env R) ''register'' (register_body n R q)"

text \<open>What the progress callback is told of the key.\<close>

definition key_fingerprint :: "(byte list \<Rightarrow> byte list) \<Rightarrow> string \<Rightarrow> string" where
  "key_fingerprint sha key =
     (case std_decode key of
        None \<Rightarrow> []
      | Some raw \<Rightarrow> if length raw \<noteq> 32 \<or> std_encode raw \<noteq> key then [] else hex_encode (sha raw))"

end
