(* ===== verification/Register_Runs.thy ===== *)
theory Register_Runs
  imports Register Join_Runs
begin

text \<open>
  What every run of \<open>Register\<close> keeps: the polling ends, and an approval that was stored is
  neither asked for again nor lost before the device has joined.
\<close>

section \<open>The polling ends\<close>

text \<open>
  The clock does not go back, and a timer that fires has waited for its duration: what
  \<open>time.NewTimer\<close> and \<open>time.Now\<close> promise.
\<close>

definition fair_timer :: "registrar \<Rightarrow> bool" where
  "fair_timer R \<longleftrightarrow>
     (\<forall>m n. m \<le> n \<longrightarrow> nanos (ev_now (re_env R) m) \<le> nanos (ev_now (re_env R) n)) \<and>
     (\<forall>d k m n. k < m \<longrightarrow> m < n \<longrightarrow> re_wait R d m = None \<longrightarrow>
        nanos (ev_now (re_env R) k) + d \<le> nanos (ev_now (re_env R) n))"

lemma clock_rises: "fair_timer R \<Longrightarrow> m \<le> n \<Longrightarrow> nanos (ev_now (re_env R) m) \<le> nanos (ev_now (re_env R) n)"
  by (simp add: fair_timer_def)

lemma timer_waits:
  "fair_timer R \<Longrightarrow> k < m \<Longrightarrow> m < n \<Longrightarrow> re_wait R d m = None \<Longrightarrow>
     nanos (ev_now (re_env R) k) + d \<le> nanos (ev_now (re_env R) n)"
  by (simp add: fair_timer_def)

text \<open>The time a registration has left, at the next reading of the clock.\<close>

definition time_left :: "registrar \<Rightarrow> registration_state \<Rightarrow> world \<Rightarrow> int" where
  "time_left R reg w = nanos (rs_expires reg) - nanos (ev_now (re_env R) (w_tick w))"

definition sane_delay :: "int \<Rightarrow> bool" where
  "sane_delay d \<longleftrightarrow> PollInterval \<le> d \<and> d \<le> 30 * second"

lemma sane_delays: "sane_delay (start_delay reg)" "sane_delay d \<Longrightarrow> sane_delay (next_delay d)"
  by (auto simp: sane_delay_def start_delay_def next_delay_def PollInterval_def second_def Let_def)

lemma poll_delay_eq:
  assumes "sane_delay d"
  shows "poll_delay reg d now = max 0 (min d (nanos (rs_expires reg) - nanos now))"
  using assms by (auto simp: poll_delay_def sub_time_def saturate_def sane_delay_def PollInterval_def second_def Let_def)

definition later :: "world \<Rightarrow> world \<Rightarrow> bool" where
  "later w v \<longleftrightarrow> w_tick w \<le> w_tick v"

interpretation later: preorder_rel later
  by unfold_locales (auto simp: later_def)

lemma later_left: "fair_timer R \<Longrightarrow> later w v \<Longrightarrow> time_left R reg v \<le> time_left R reg w"
  using clock_rises by (simp add: time_left_def later_def)

lemma poll_wait_shortens:
  assumes fair: "fair_timer R" and sane: "sane_delay d" and run: "poll_wait R reg d w = (Inr u, v)"
  shows "time_left R reg v \<le> max 0 (time_left R reg w - PollInterval)"
proof -
  from run have wait: "re_wait R (poll_delay reg d (ev_now (re_env R) (w_tick w))) (Suc (w_tick w)) = None"
    and v: "w_tick v = Suc (Suc (w_tick w))"
    unfolding poll_wait_def Let_def
    by (auto simp: guard_simps clock_def deadline_passed_def of_option_def split: sum.splits option.splits if_splits)
  have "nanos (ev_now (re_env R) (w_tick w)) + poll_delay reg d (ev_now (re_env R) (w_tick w)) \<le>
      nanos (ev_now (re_env R) (w_tick v))"
    by (rule timer_waits [OF fair _ _ wait]) (simp_all add: v)
  with sane show ?thesis by (auto simp: time_left_def poll_delay_eq sane_delay_def)
qed

lemma poll_round_goes_on:
  assumes fair: "fair_timer R" and sane: "sane_delay d" and run: "poll_round R reg d w = (Inr (Inr d'), v)"
  shows "sane_delay d' \<and> 0 < time_left R reg w \<and> time_left R reg v \<le> max 0 (time_left R reg w - PollInterval)"
proof -
  from run obtain u u' x where pending: "before (to_utc (ev_now (re_env R) (w_tick w))) (rs_expires reg)"
    and wait: "poll_wait R reg d u = (Inr x, v)" and u: "later w u" and d': "d' = d \<or> d' = next_delay d"
    unfolding poll_round_def
    by (auto simp: guard_simps clock_def deadline_passed_def later_def)
  from poll_wait_shortens [OF fair sane wait] later_left [OF fair u, of reg]
  have "time_left R reg v \<le> max 0 (time_left R reg w - PollInterval)" by simp
  moreover from pending have "0 < time_left R reg w" by (simp add: before_def time_left_def)
  ultimately show ?thesis using d' sane_delays sane by auto
qed

lemma poll_loop_runs_out:
  "poll_loop (Suc n) R reg d w = (Inr None, v) \<longleftrightarrow>
     (\<exists>d' u. poll_round R reg d w = (Inr (Inr d'), u) \<and> poll_loop n R reg d' u = (Inr None, v))"
  by (auto simp: guard_simps)

text \<open>As many rounds as the poll interval goes into the time left, and one more.\<close>

lemma poll_loop_ends:
  assumes fair: "fair_timer R"
  shows "sane_delay d \<Longrightarrow> time_left R reg w \<le> PollInterval * int n \<Longrightarrow> poll_loop (Suc n) R reg d w \<noteq> (Inr None, v)"
proof (induction n arbitrary: d w)
  case 0
  show ?case
  proof
    assume "poll_loop (Suc 0) R reg d w = (Inr None, v)"
    then obtain d' u where "poll_round R reg d w = (Inr (Inr d'), u)" unfolding poll_loop_runs_out by blast
    from poll_round_goes_on [OF fair "0.prems"(1) this] "0.prems"(2) show False by simp
  qed
next
  case (Suc n)
  show ?case
  proof
    assume "poll_loop (Suc (Suc n)) R reg d w = (Inr None, v)"
    then obtain d' u where first: "poll_round R reg d w = (Inr (Inr d'), u)"
      and rest: "poll_loop (Suc n) R reg d' u = (Inr None, v)" unfolding poll_loop_runs_out [of "Suc n"] by blast
    from poll_round_goes_on [OF fair Suc.prems(1) first] Suc.prems(2)
    have "sane_delay d'" "time_left R reg u \<le> PollInterval * int n"
      by (auto simp: PollInterval_def second_def)
    from Suc.IH [OF this] rest show False by simp
  qed
qed

text \<open>More rounds change nothing once the loop has ended.\<close>

lemma poll_loop_more:
  "poll_loop n R reg d w = (r, v) \<Longrightarrow> r \<noteq> Inr None \<Longrightarrow> n \<le> m \<Longrightarrow> poll_loop m R reg d w = (r, v)"
proof (induction n arbitrary: m d w)
  case 0
  then show ?case by simp
next
  case (Suc n)
  then obtain k where m: "m = Suc k" "n \<le> k" by (cases m) auto
  from Suc.prems(1) have "bindW (poll_round R reg d)
      (\<lambda>x. case x of Inl x \<Rightarrow> ret (Some x) | Inr d \<Rightarrow> poll_loop n R reg d) w = (r, v)" by simp
  then show ?case
  proof (cases rule: bindW_cases)
    case (stopped e)
    then show ?thesis by (simp add: m bindW_def)
  next
    case (went a u)
    show ?thesis
    proof (cases a)
      case (Inl x)
      with went show ?thesis by (simp add: m bindW_def)
    next
      case (Inr d')
      with went have "poll_loop n R reg d' u = (r, v)" by simp
      then have "poll_loop k R reg d' u = (r, v)" by (rule Suc.IH [OF _ Suc.prems(2) m(2)])
      with went Inr show ?thesis by (simp add: m bindW_def)
    qed
  qed
qed

lemma bindW_more:
  assumes "bindW m f w = (r, v)" and "\<And>a u. m w = (Inr a, u) \<Longrightarrow> f a u = (r, v) \<Longrightarrow> g a u = (r, v)"
  shows "bindW m g w = (r, v)"
  using assms(1) by (cases rule: bindW_cases) (auto simp: bindW_def assms(2))

lemma poll_more: "poll n R reg w = (r, v) \<Longrightarrow> r \<noteq> Inr None \<Longrightarrow> n \<le> m \<Longrightarrow> poll m R reg w = (r, v)"
  unfolding poll_def by (erule bindW_more) (rule poll_loop_more)

lemma await_more:
  assumes run: "await_approval n R reg0 w = (r, v)" and fine: "r \<noteq> Inr None" and n: "n \<le> m"
  shows "await_approval m R reg0 w = (r, v)"
proof (cases "rs_approved reg0")
  case (Some x)
  with run show ?thesis by (simp add: await_approval_def)
next
  case None
  define k where "k = (\<lambda>reg r. case r of None \<Rightarrow> ret None
    | Some x \<Rightarrow> bindW (approve R reg x) (\<lambda>reg'. ret (Some (reg', x :: exchange_response))))"
  have eq: "await_approval i R reg0 = bindW (create_registration R reg0) (\<lambda>reg. bindW (poll i R reg) (k reg))" for i
    by (simp add: await_approval_def None k_def)
  from run show ?thesis unfolding eq
  proof (rule bindW_more)
    fix reg u
    assume "bindW (poll n R reg) (k reg) u = (r, v)"
    then show "bindW (poll m R reg) (k reg) u = (r, v)"
    proof (cases rule: bindW_cases)
      case (stopped e)
      with poll_more [OF stopped(1) _ n] show ?thesis by (simp add: bindW_def)
    next
      case (went a z)
      have "a \<noteq> None"
      proof
        assume "a = None"
        with went(2) fine show False by (simp add: k_def)
      qed
      with poll_more [OF went(1) _ n] went(2) show ?thesis by (simp add: bindW_def)
    qed
  qed
qed

text \<open>A registration that was just created has fifteen minutes left, 180 intervals.\<close>

lemma created_short:
  assumes fair: "fair_timer R" and fresh: "rs_id reg0 = []" and run: "create_registration R reg0 w = (Inr reg, v)"
  shows "time_left R reg v \<le> PollInterval * int 180"
proof -
  let ?short = "\<lambda>(reg :: registration_state) (v :: world).
      sub_time (rs_expires reg) (to_utc (ev_now (re_env R) (Suc (Suc (w_tick w))))) \<le> MaximumLifetime \<and>
      Suc (Suc (w_tick w)) \<le> w_tick v"
  have "wp (create_registration R reg0) ?short (\<lambda>e v. True) w"
    unfolding create_registration_def save_reg_def
    by (auto simp: wp_simps fresh Let_def not_less split: sum.split prod.split option.split)
  from wpD [OF this run] have c: "sub_time (rs_expires reg) (to_utc (ev_now (re_env R) (Suc (Suc (w_tick w))))) \<le> MaximumLifetime"
    and v: "Suc (Suc (w_tick w)) \<le> w_tick v" by simp_all
  from c have "nanos (rs_expires reg) - nanos (ev_now (re_env R) (Suc (Suc (w_tick w)))) \<le> MaximumLifetime"
    by (simp add: sub_time_def saturate_def MaximumLifetime_def durations)
  with clock_rises [OF fair v] show ?thesis
    by (simp add: time_left_def MaximumLifetime_def PollInterval_def durations)
qed

lemma poll_ends:
  assumes fair: "fair_timer R" and left: "time_left R reg w \<le> PollInterval * int n"
  shows "poll (Suc n) R reg w \<noteq> (Inr None, v)"
proof -
  have "time_left R reg (tick w) \<le> PollInterval * int n"
    using later_left [OF fair later.R_tick, of reg w] left by simp
  then show ?thesis
    unfolding poll_def bind_clock by (rule poll_loop_ends [OF fair sane_delays(1)])
qed

lemma await_ends:
  assumes fair: "fair_timer R"
  obtains n where "rs_id reg0 = [] \<Longrightarrow> n = 181" "\<And>v. await_approval n R reg0 w \<noteq> (Inr None, v)"
proof (cases "create_registration R reg0 w")
  case (Pair r u)
  define left where "left = (case r of Inl e \<Rightarrow> 0 | Inr reg \<Rightarrow> nat (time_left R reg u))"
  define n where "n = (if rs_id reg0 = [] then 180 else left)"
  have "await_approval (Suc n) R reg0 w \<noteq> (Inr None, v)" for v
  proof
    assume run: "await_approval (Suc n) R reg0 w = (Inr None, v)"
    then have "rs_approved reg0 = None" by (cases "rs_approved reg0") (auto simp: await_approval_def)
    with run Pair obtain reg where reg: "r = Inr reg" and out: "poll (Suc n) R reg u = (Inr None, v)"
      unfolding await_approval_def by (auto simp: guard_simps)
    have "time_left R reg u \<le> PollInterval * int n"
    proof (cases "rs_id reg0 = []")
      case True
      from created_short [OF fair True] Pair reg show ?thesis by (simp add: n_def True)
    next
      case False
      then show ?thesis by (simp add: n_def left_def reg PollInterval_def second_def)
    qed
    from poll_ends [OF fair this] out show False by blast
  qed
  then show thesis by (intro that [of "Suc n"]) (auto simp: n_def)
qed

lemma open_fresh:
  assumes "dk_registration (w_disk w) = Absent" and "open_registration R q w = (Inr reg0, v)"
  shows "rs_id reg0 = []"
proof -
  have "wp (open_registration R q) (\<lambda>reg v. rs_id reg = []) (\<lambda>e v. True) w"
    unfolding open_registration_def load_or_create_registration_def save_reg_def load_registration_def
    by (auto simp: wp_simps Let_def assms(1) read_json_def split: sum.split prod.split option.split)
  from wpD [OF this assms(2)] show ?thesis by simp
qed

lemma register_body_more:
  assumes run: "register_body n R q w = (r, v)" and fine: "r \<noteq> Inr None" and n: "n \<le> m"
  shows "register_body m R q w = (r, v)"
proof -
  define k where "k = (\<lambda>a. case a of None \<Rightarrow> ret None
    | Some p \<Rightarrow> bindW (finish_registration R (fst p) (snd p)) (\<lambda>r. ret (Some r)))"
  have eq: "register_body i R q = bindW (open_registration R q) (\<lambda>reg0. bindW (await_approval i R reg0) k)" for i
    by (simp add: register_body_def k_def)
  from run show ?thesis unfolding eq
  proof (rule bindW_more)
    fix reg u
    assume "bindW (await_approval n R reg) k u = (r, v)"
    then show "bindW (await_approval m R reg) k u = (r, v)"
    proof (cases rule: bindW_cases)
      case (stopped e)
      with await_more [OF stopped(1) _ n] show ?thesis by (simp add: bindW_def)
    next
      case (went a z)
      have "a \<noteq> None"
      proof
        assume "a = None"
        with went(2) fine show False by (simp add: k_def)
      qed
      with await_more [OF went(1) _ n] went(2) show ?thesis by (simp add: bindW_def)
    qed
  qed
qed

lemma body_runs_out:
  "register_body n R q w = (Inr None, v) \<longleftrightarrow>
     (\<exists>reg u. open_registration R q w = (Inr reg, u) \<and> await_approval n R reg u = (Inr None, v))"
  unfolding register_body_def by (auto simp: guard_simps)

lemma body_ends:
  assumes fair: "fair_timer R"
  obtains n where "dk_registration (w_disk w) = Absent \<Longrightarrow> n = 181" "\<And>v. register_body n R q w \<noteq> (Inr None, v)"
proof (cases "\<exists>reg u. open_registration R q w = (Inr reg, u)")
  case True
  then obtain reg u where opened: "open_registration R q w = (Inr reg, u)" by blast
  obtain n where n: "rs_id reg = [] \<Longrightarrow> n = 181" "\<And>v. await_approval n R reg u \<noteq> (Inr None, v)"
    using await_ends [OF fair, of reg u] by blast
  show ?thesis
  proof (rule that [of n])
    show "n = 181" if "dk_registration (w_disk w) = Absent" using n(1) open_fresh [OF that opened] by blast
    show "register_body n R q w \<noteq> (Inr None, v)" for v unfolding body_runs_out using opened n(2) by auto
  qed
next
  case False
  then show ?thesis by (intro that [of 181]) (auto simp: body_runs_out)
qed

text \<open>
  C22. Registering always returns. While the clock does not go back and a timer that fires has
  waited its duration, there is a number of polling rounds after which \<open>Register\<close> has
  returned, with a result or an error, and that more rounds would not change; for a device
  without a stored registration 181 rounds are enough, the fifteen minutes a controller may
  grant at the poll interval, and one.
\<close>

theorem register_returns:
  assumes "fair_timer R"
  shows "\<exists>n r v. (dk_registration (w_disk w) = Absent \<longrightarrow> n = 181) \<and> r \<noteq> Inr None \<and>
    (\<forall>m. n \<le> m \<longrightarrow> register m R q w = (r, v))"
proof -
  let ?u = "tick (w\<lparr>w_log := w_log w @ [Acquired ''register'']\<rparr>)"
  obtain n where n: "dk_registration (w_disk ?u) = Absent \<Longrightarrow> n = 181" "\<And>v. register_body n R q ?u \<noteq> (Inr None, v)"
    using body_ends [OF assms, of ?u q] by blast
  obtain r v where run: "register_body n R q ?u = (r, v)" by (metis prod.exhaust)
  with n(2) have r: "r \<noteq> Inr None" by auto
  show ?thesis
  proof (cases "ev_lock (re_env R) (w_tick w)")
    case None
    have "\<forall>m. n \<le> m \<longrightarrow> register m R q w = (r, v\<lparr>w_log := w_log v @ [Released]\<rparr>)"
      using register_body_more [OF run r] by (simp add: register_def with_lock_def None)
    moreover from n(1) have "dk_registration (w_disk w) = Absent \<longrightarrow> n = 181" by simp
    ultimately show ?thesis using r by blast
  next
    case (Some e)
    then have "\<forall>m. 181 \<le> m \<longrightarrow> register m R q w = (Inl e, tick w)" by (simp add: register_def with_lock_def)
    then show ?thesis by blast
  qed
qed

section \<open>A stored approval\<close>

definition registration_calls :: "world \<Rightarrow> event list" where
  "registration_calls w =
     filter (\<lambda>e. case e of CreateRegistration n d k \<Rightarrow> True | PollRegistration i t \<Rightarrow> True | _ \<Rightarrow> False) (w_log w)"

lemma registration_calls_simps [simp]:
  "registration_calls (w\<lparr>w_disk := d\<rparr>) = registration_calls w"
  "registration_calls (w\<lparr>w_creds := c\<rparr>) = registration_calls w"
  "registration_calls (tick w) = registration_calls w"
  by (simp_all add: registration_calls_def)

text \<open>The registration on disk is left as it is, and the controller is not asked about it.\<close>

definition reg_kept :: "world \<Rightarrow> world \<Rightarrow> bool" where
  "reg_kept w v \<longleftrightarrow> dk_registration (w_disk v) = dk_registration (w_disk w) \<and> registration_calls v = registration_calls w"

interpretation reg_kept: preorder_rel reg_kept
  by unfold_locales (auto simp: reg_kept_def)

lemma reg_kept_call:
  "\<forall>e \<in> set es. (case e of CreateRegistration n d k \<Rightarrow> False | PollRegistration i t \<Rightarrow> False | _ \<Rightarrow> True) \<Longrightarrow>
     keeps_rel reg_kept (call es f)"
  by (intro reg_kept.call_keeps) (auto simp: reg_kept_def registration_calls_def filter_empty_conv split: event.splits)

lemma reg_kept_saves:
  "reg_kept w (w\<lparr>w_disk := snd (save_checkpoint io c (w_disk w))\<rparr>)"
  "reg_kept w (w\<lparr>w_disk := snd (save_last_known io l (w_disk w))\<rparr>)"
  "reg_kept w (w\<lparr>w_disk := snd (save_enrollment_secret io s (w_disk w))\<rparr>)"
  "reg_kept w (w\<lparr>w_disk := snd (save_signing_key_cache io k (w_disk w))\<rparr>)"
  by (auto simp: save_checkpoint_def save_last_known_def save_enrollment_secret_def save_signing_key_cache_def Let_def
    reg_kept_def split: option.splits prod.splits)

lemma reg_kept_clears:
  "reg_kept w (w\<lparr>w_disk := snd (clear_checkpoint b (w_disk w))\<rparr>)"
  "reg_kept w (w\<lparr>w_disk := snd (clear_enrollment_secret b (w_disk w))\<rparr>)"
  by (auto simp: clear_checkpoint_def clear_enrollment_secret_def reg_kept_def split: prod.splits)

lemma reg_kept_floor: "reg_kept w (w\<lparr>w_disk := snd (accept_signed_config rio wio c d n i p g t (w_disk w))\<rparr>)"
  by (auto simp: accept_signed_config_def commit_floor_def reg_kept_def Let_def
    split: sum.splits prod.splits floor_result.splits)

lemma reg_kept_creds: "keeps_rel reg_kept (creds_save E r)" "keeps_rel reg_kept (creds_delete E)"
  by (auto simp: keeps_rel_def creds_save_def creds_delete_def reg_kept_def split: prod.splits)

lemmas reg_steps = reg_kept_saves [THEN reg_kept.disk_write_keeps] reg_kept_clears [THEN reg_kept.disk_remove_keeps]
  reg_kept_floor [THEN reg_kept.disk_update_keeps] reg_kept_creds reg_kept_call

lemma reg_kept_load_or_renew: "keeps_rel reg_kept (load_or_renew J cp token)"
  unfolding load_or_renew_def renew_enrollment_def renew_by_token_def adopt_session_def mint_enrollment_def
    exchange_enrollment_def save_cp_def Let_def
  by (intro keeps reg_steps) simp_all

lemma reg_kept_pieces:
  "keeps_rel reg_kept (handle_enrollment_error J e)" "keeps_rel reg_kept (session_keys J enr)"
  "keeps_rel reg_kept (accept_fetched J cp op keys c)" "keeps_rel reg_kept (signing_keys_for J cp)"
  "keeps_rel reg_kept (advance J p cp)" "keeps_rel reg_kept (apply_checked E op k key)"
  "keeps_rel reg_kept (commit_keys J enr)"
  unfolding handle_enrollment_error_def session_keys_def accept_fetched_def signing_keys_for_def refresh_keys_def
    advance_def apply_checked_def commit_keys_def save_cp_def Let_def
  by (intro keeps reg_steps; simp)+

lemma reg_kept_register_stage: "keeps_rel reg_kept (register_stage J token cp)"
  unfolding register_stage_def register_device_def register_invited_def case_prod_beta
  by (intro keeps reg_steps reg_kept_pieces reg_kept_load_or_renew) simp

lemma reg_kept_fetch_stage: "keeps_rel reg_kept (fetch_stage J token cp)"
  unfolding fetch_stage_def store_fetched_def fetch_runtime_config_def fetch_enrollment_config_def
    fetch_legacy_config_def fetch_signed_config_def case_prod_beta
  by (intro keeps reg_steps reg_kept_pieces reg_kept_load_or_renew; simp)

lemma reg_kept_apply_stage: "keeps_rel reg_kept (apply_stage J k cp)"
  unfolding apply_stage_def save_cp_def by (intro keeps reg_steps reg_kept_pieces; simp)

lemma reg_kept_ack_stage: "keeps_rel reg_kept (ack_stage J token cp)"
  unfolding ack_stage_def ack_enrollment_def ack_signed_def save_cp_def case_prod_beta Let_def
  by (intro keeps reg_steps reg_kept_pieces reg_kept_load_or_renew; simp)

lemma reg_kept_commit_stage: "keeps_rel reg_kept (commit_stage J k cp)"
  unfolding commit_stage_def by (intro keeps reg_steps; simp)

lemma reg_kept_known: "keeps_rel reg_kept (join_known J q lk)"
  unfolding join_known_def rejoin_def recover_last_known_def seed_migration_checkpoint_def apply_runtime_def
    save_cp_def Let_def
  by (intro keeps reg_steps reg_kept_pieces; simp)

lemma reg_kept_join: "keeps_rel reg_kept (join J q)"
  unfolding join_def join_stages_def load_or_create_checkpoint_def save_cp_def Let_def
  by (intro keeps reg_steps reg_kept_register_stage reg_kept_fetch_stage reg_kept_apply_stage reg_kept_ack_stage
    reg_kept_commit_stage reg_kept_known; simp)

lemma reg_kept_stage_and_join: "keeps_rel reg_kept (stage_and_join R reg x)"
  unfolding stage_and_join_def validate_approved_exchange_def stage_credential_def stage_session_def
    stage_checkpoint_def save_cp_def
  by (intro keeps reg_steps reg_kept_join; simp)

lemma load_registration_doc:
  assumes "dk_registration d = Doc reg" and "load_registration U io d = Inl e"
  shows "\<not> errors_is e StateNotFound"
  using assms unfolding load_registration_def
  by (auto simp: read_json_def validate_registration_state_def state_io_def split: if_splits)

lemma reg_kept_tick [simp]: "reg_kept w (tick v) \<longleftrightarrow> reg_kept w v" "reg_kept w w"
  by (simp_all add: reg_kept_def)

lemma load_resumes:
  assumes "dk_registration (w_disk w) = Doc reg"
  shows "wp (load_or_create_registration R q) (\<lambda>reg' v. reg' = reg \<and> reg_kept w v) (\<lambda>e v. reg_kept w v) w"
proof (cases "load_registration (re_urls R) (ev_read (re_env R) (w_tick w)) (w_disk w)")
  case (Inl e)
  with load_registration_doc [OF assms Inl] show ?thesis
    by (simp add: load_or_create_registration_def wp_simps)
next
  case (Inr reg')
  then have "reg' = reg" using assms by (auto simp: load_registration_def read_json_def split: if_splits)
  with Inr show ?thesis by (simp add: load_or_create_registration_def wp_simps)
qed

lemma open_resumes:
  assumes "dk_registration (w_disk w) = Doc reg"
  shows "wp (open_registration R q) (\<lambda>reg' v. reg' = reg \<and> reg_kept w v) (\<lambda>e v. reg_kept w v) w"
proof -
  have "wp (load_or_create_registration R (normal_registration q)) (\<lambda>reg' v. reg' = reg \<and> reg_kept w v)
      (\<lambda>e v. reg_kept w v) (tick w)"
    by (rule wp_conseq [OF load_resumes]) (simp_all add: assms reg_kept_def)
  then show ?thesis unfolding open_registration_def Let_def by (auto simp: wp_simps split: sum.split)
qed

lemma finish_exits:
  assumes run: "finish_registration R reg x w = (r, v)"
  shows "case r of Inl e \<Rightarrow> reg_kept w v
    | Inr y \<Rightarrow> dk_registration (w_disk v) = Absent \<and> registration_calls v = registration_calls w"
proof -
  let ?done = "\<lambda>y v. dk_registration (w_disk v) = Absent \<and> registration_calls v = registration_calls w"
  have "wp (stage_and_join R reg x) (\<lambda>a v. reg_kept w v) (\<lambda>e v. reg_kept w v) w"
    by (rule wp_keeps [OF reg_kept_stage_and_join])
  then have "wp (finish_registration R reg x) ?done (\<lambda>e v. reg_kept w v) w"
    unfolding finish_registration_def wp_bind
    by (rule wp_conseq)
      (auto simp: wp_simps reg_kept_def clear_registration_def remove_file_def split: prod.splits option.splits if_splits)
  from wpD [OF this run] show ?thesis .
qed

text \<open>
  C21. A stored approval is not lost. When the registration on disk has been approved, a run of
  \<open>Register\<close> neither creates nor polls a registration, whatever happens, and every exit but
  success leaves the approval where it was; success has removed it.
\<close>

theorem register_keeps_approval:
  assumes "dk_registration (w_disk w) = Doc reg" and "rs_approved reg \<noteq> None" and "register n R q w = (r, v)"
  shows "registration_calls v = registration_calls w \<and>
    (dk_registration (w_disk v) = (if \<exists>y. r = Inr y then Absent else Doc reg))"
  using assms(3) unfolding register_def
proof (cases rule: with_lock_cases)
  case (refused e)
  with assms(1) show ?thesis by simp
next
  case (ran u)
  let ?w = "tick (w\<lparr>w_log := w_log w @ [Acquired ''register'']\<rparr>)"
  have start: "dk_registration (w_disk ?w) = Doc reg" "registration_calls ?w = registration_calls w"
    using assms(1) by (simp_all add: registration_calls_def)
  obtain x where x: "rs_approved reg = Some x" using assms(2) by blast
  have "(\<forall>y. r \<noteq> Inr y) \<and> reg_kept ?w u \<or>
      (\<exists>y. r = Inr y) \<and> dk_registration (w_disk u) = Absent \<and> registration_calls u = registration_calls ?w"
    using ran(1) unfolding register_body_def
  proof (cases rule: bindW_cases)
    case (stopped e)
    from wpD [OF open_resumes [OF start(1)] stopped(1)] stopped(2) show ?thesis by simp
  next
    case (went reg' z)
    from wpD [OF open_resumes [OF start(1)] went(1)] have reg': "reg' = reg" and z: "reg_kept ?w z" by simp_all
    obtain r' u' where fin: "finish_registration R reg (exchange_of_state x) z = (r', u')" by (metis prod.exhaust)
    from went(2) fin have "r = (case r' of Inl e \<Rightarrow> Inl e | Inr a \<Rightarrow> Inr (Some a)) \<and> u' = u"
      by (auto simp: reg' await_approval_def x bindW_def split: sum.splits)
    with finish_exits [OF fin] z show ?thesis
      by (auto simp: reg_kept_def split: sum.splits)
  qed
  with start ran(2) assms(1) show ?thesis by (auto simp: reg_kept_def registration_calls_def)
qed

section \<open>Sample runs\<close>

definition sample_registrar :: registrar where
  "sample_registrar = \<lparr>re_join = (sample_joiner ''signed'')\<lparr>jo_env := sample_env\<lparr>
       ev_now := (\<lambda>n. \<lparr>nanos = 20 * second + int n * (30 * second), utc = True\<rparr>)\<rparr>\<rparr>,
     re_urls = sample_urls, re_runtime = True, re_key = (\<lambda>_. Inl (Plain ''key'')),
     re_create = (\<lambda>_. Inl (Plain ''create'')), re_poll = (\<lambda>_. Inl (Plain ''poll'')),
     re_wait = (\<lambda>d n. if d \<le> 60 * second then None else Some (Plain ''timer'')),
     re_poll_ctx = (\<lambda>_. None), re_ctx = (\<lambda>_. None)\<rparr>"

definition sample_register_request :: registration_request where
  "sample_register_request = \<lparr>rr_controller = ''https://z'', rr_device = ''dev'', rr_device_name = [], rr_network = ''net'',
     rr_platform = ''linux'', rr_hostname = []\<rparr>"

lemma sample_timer_fair: "fair_timer sample_registrar"
  unfolding fair_timer_def sample_registrar_def
  by (auto simp: second_def split: if_splits)

lemma register_returns_witness:
  "\<exists>n r v. (dk_registration empty_disk = Absent \<longrightarrow> n = 181) \<and> r \<noteq> Inr None \<and>
     (\<forall>m. n \<le> m \<longrightarrow> register m sample_registrar sample_register_request
        \<lparr>w_tick = 0, w_disk = empty_disk, w_creds = None, w_log = []\<rparr> = (r, v))"
  using register_returns [OF sample_timer_fair, of "\<lparr>w_tick = 0, w_disk = empty_disk, w_creds = None, w_log = []\<rparr>"
    sample_register_request] by simp

definition sample_registration :: registration_state where
  "sample_registration = \<lparr>rs_schema = 1, rs_controller = ''https://z'', rs_id = ''xreg_a'',
     rs_token = ''xrt_'' @ rawurl_encode (replicate 32 5), rs_status = ''approved'',
     rs_expires = \<lparr>nanos = 900 * second, utc = True\<rparr>, rs_interval = 5, rs_device = ''dev'', rs_device_name = [],
     rs_network = ''net'', rs_platform = ''linux'', rs_hostname = [], rs_private_key = std_encode (replicate 32 3),
     rs_public_key = std_encode (replicate 32 3), rs_created = sample_time, rs_updated = sample_time,
     rs_approved = Some \<lparr>rx_enrollment_token = [], rx_token_type = [], rx_expires = sample_time, rx_scope = [],
       rx_credential = \<lparr>rc_id = [], rc_credential = [], rc_token_type = [], rc_issued = sample_time,
         rc_expires = sample_time, rc_scope = []\<rparr>,
       rx_device = zero_device, rx_network = zero_network, rx_keys = sample_keys\<rparr>\<rparr>"

lemma sample_registration_ok: "validate_registration_state sample_urls sample_registration = None"
proof -
  have key: "wg_key_text (std_encode (replicate 32 3))" by (simp add: wg_key_text_def)
  have tok: "has_prefix (rs_token sample_registration) ''xrt_''"
    "trim_prefix (rs_token sample_registration) ''xrt_'' = rawurl_encode (replicate 32 5)"
    unfolding sample_registration_def registration_state.simps by (rule has_prefix_append, rule trim_prefix_append)
  have id: "valid_registration_id ''xreg_a''"
    by (simp add: valid_registration_id_def has_prefix_def trim_prefix_def match_all_def is_b64url_char_def is_alnum_def is_digit_def is_lower_def is_upper_def code_def)
  have "list_all is_b64url_char (rawurl_encode (replicate 32 5))"
    unfolding rawurl_encode_def
    by (rule b64_encode_unpadded_chars) (use b64_url_class in \<open>auto simp: is_b64url_char_def\<close>)
  then have "list_all graphic (rs_token sample_registration)"
    by (auto simp: sample_registration_def list_all_iff is_b64url_graphic) (simp_all add: graphic_def code_def)
  then have "trim_space (rs_token sample_registration) = rs_token sample_registration" by (rule trim_space_all_graphic)
  then have "valid_registration_token (rs_token sample_registration)"
    unfolding valid_registration_token_def tok(2) by (simp add: tok(1))
  then show ?thesis
    unfolding validate_registration_state_def
    by (simp add: sample_registration_def key id sample_urls_def sample_url_def set_utc_def is_zero_def zero_time_def
      sample_time_def before_def durations)
qed

definition resumed_world :: world where
  "resumed_world = \<lparr>w_tick = 0, w_disk = empty_disk\<lparr>dk_registration := Doc sample_registration\<rparr>, w_creds = None, w_log = []\<rparr>"

lemma sample_registration_resumes:
  "\<exists>v. register 1 sample_registrar sample_register_request resumed_world =
     (Inl (fault CodeStateConflict ''validate approved registration binding''), v)"
proof -
  have norm: "normal_registration sample_register_request = sample_register_request"
  proof -
    have "trim_space ''https://z'' = ''https://z''" "trim_space ''dev'' = ''dev''" "trim_space ''net'' = ''net''"
      "trim_space ''linux'' = ''linux''"
      by (simp_all add: trim_space_all_graphic graphic_def code_def)
    then show ?thesis by (simp add: normal_registration_def sample_register_request_def trim_right_slash_def)
  qed
  have load: "load_registration (re_urls sample_registrar) ReadOk (w_disk resumed_world) = Inr sample_registration"
    by (simp add: load_registration_def resumed_world_def sample_registrar_def read_json_def sample_registration_ok)
  have valid: "valid_register_controller (re_urls sample_registrar) (rr_controller sample_register_request)"
    "valid_registration_fields sample_register_request" "re_runtime sample_registrar" "ev_has_creds (re_env sample_registrar)"
    by (simp_all add: valid_register_controller_def sample_registrar_def sample_register_request_def sample_urls_def
      sample_url_def valid_registration_fields_def plain_text_def)
  have env: "ev_lock (re_env sample_registrar) n = None" "ev_read (re_env sample_registrar) n = ReadOk" for n
    by (simp_all add: sample_registrar_def)
  have bound: "\<not> approval_bound sample_registration x" if "xr_device x = zero_device" for x
    by (simp add: approval_bound_def sample_registration_def that zero_device_def)
  have known: "load_last_known ReadOk (w_disk resumed_world) = Inl (Sentinel StateNotFound)"
    by (simp add: load_last_known_def resumed_world_def empty_disk_def read_json_def)
  have key: "std_encode (replicate 32 3) \<noteq> []"
    using std_decode_encode [of "replicate 32 3"] std_decode_encode [of "[]"]
    by (metis Zero_not_Suc length_0_conv length_replicate numeral_eq_Suc option.inject b64_encode.simps(1) std_encode_def)
  have held: "rs_controller sample_registration = rr_controller sample_register_request"
    "rs_device sample_registration = rr_device sample_register_request"
    "rs_network sample_registration = rr_network sample_register_request"
    "rs_platform sample_registration = rr_platform sample_register_request" "rs_public_key sample_registration \<noteq> []"
    using key by (simp_all add: sample_registration_def sample_register_request_def)
  obtain x where x: "rs_approved sample_registration = Some x" "xr_device (exchange_of_state x) = zero_device"
    by (simp add: sample_registration_def exchange_of_state_def)
  have opened: "\<exists>v. open_registration sample_registrar sample_register_request u = (Inr sample_registration, v)"
    if "w_disk u = w_disk resumed_world" for u
    unfolding open_registration_def norm load_or_create_registration_def Let_def
    by (simp add: env bindW_def tryW_def disk_read_def valid ifW_def known load clock_def call_def held x that)
  have body: "\<exists>v. register_body 1 sample_registrar sample_register_request u =
      (Inl (fault CodeStateConflict ''validate approved registration binding''), v)"
    if "w_disk u = w_disk resumed_world" for u
    using opened [OF that]
    by (auto simp: register_body_def bindW_def await_approval_def x finish_registration_def stage_and_join_def
      validate_approved_exchange_def ifW_def bound)
  obtain v where "register_body 1 sample_registrar sample_register_request
      (tick (resumed_world\<lparr>w_log := w_log resumed_world @ [Acquired ''register'']\<rparr>)) =
      (Inl (fault CodeStateConflict ''validate approved registration binding''), v)"
    using body [of "tick (resumed_world\<lparr>w_log := w_log resumed_world @ [Acquired ''register'']\<rparr>)"] by auto
  then show ?thesis by (simp add: register_def with_lock_def env)
qed

lemma register_keeps_approval_witness:
  "\<exists>v. register 1 sample_registrar sample_register_request resumed_world =
     (Inl (fault CodeStateConflict ''validate approved registration binding''), v) \<and>
     registration_calls v = [] \<and> dk_registration (w_disk v) = Doc sample_registration"
proof -
  obtain v where run: "register 1 sample_registrar sample_register_request resumed_world =
      (Inl (fault CodeStateConflict ''validate approved registration binding''), v)"
    using sample_registration_resumes by blast
  have "dk_registration (w_disk resumed_world) = Doc sample_registration" "rs_approved sample_registration \<noteq> None"
    "registration_calls resumed_world = []"
    by (simp_all add: resumed_world_def sample_registration_def registration_calls_def)
  with register_keeps_approval [OF _ _ run] run show ?thesis by simp
qed

end
