(* ===== verification/Sync_Loop.thy ===== *)
theory Sync_Loop
  imports Device_Session
begin

text \<open>
  \<open>overlay/usecase/sync_loop.go\<close>: the daemon that synchronizes again and again, waiting longer
  after each failure, until its context ends or an error cannot be cured by waiting. The loop
  takes the number of its rounds as fuel: it is meant to run for ever.
\<close>

section \<open>The loop\<close>

definition DefaultSyncInterval :: int where "DefaultSyncInterval = 60 * second"
definition MinSyncInterval :: int where "MinSyncInterval = 15 * second"
definition MaxSyncInterval :: int where "MaxSyncInterval = 100 * second"

definition validate_sync_interval :: "int \<Rightarrow> error option" where
  "validate_sync_interval d =
     (if d < MinSyncInterval \<or> d > MaxSyncInterval
      then Some (fault_cause CodeInvalidInput ''validate sync interval'' (Plain ''sync interval out of range'')) else None)"

text \<open>\<open>strings.Contains\<close>\<close>

definition contains :: "string \<Rightarrow> string \<Rightarrow> bool" where
  "contains s sub \<longleftrightarrow> list_ex (\<lambda>i. has_prefix (drop i s) sub) [0 ..< Suc (length s)]"

definition is_conflict :: "error \<Rightarrow> bool" where
  "is_conflict e \<longleftrightarrow> fault_code_of e = CodeStateConflict \<or> contains (error_text e) ''409''"

definition is_fatal :: "error \<Rightarrow> bool" where
  "is_fatal e \<longleftrightarrow> fault_code_of e \<in> {CodeAuthenticationFailed, CodeAccessDenied, CodeCredentialExpired,
     CodeCredentialMissing, CodeCredentialInvalid, CodeNotJoined}"

definition next_backoff :: "int \<Rightarrow> int \<Rightarrow> int" where
  "next_backoff current limit = (if current \<le> 0 then 5 * second else if current * 2 > limit then limit else current * 2)"

text \<open>
  What the loop is built with: the answers of the calls of \<open>Sync\<close>, whether the wait of a round
  ended with the context, and whether the context had ended right after it. The log holds the
  waits, the calls, and what the two callbacks are told, where they are set.
\<close>

datatype loop_event = Waited int | Synced "error + sync_result" | Reported sync_result | Warned error

record loop_env =
  le_sync :: "nat \<Rightarrow> error + sync_result"
  le_done :: "nat \<Rightarrow> bool"
  le_err :: "nat \<Rightarrow> bool"

text \<open>How a round ends: the loop returns, or goes on with a backoff.\<close>

datatype round_end = Returned "error option" | Backoff int

text \<open>The end of a round after its last call.\<close>

definition settle :: "int \<Rightarrow> int \<Rightarrow> error + sync_result \<Rightarrow> loop_event list \<times> round_end" where
  "settle interval backoff r =
     (case r of
        Inr res \<Rightarrow> ([Reported res], Backoff 0)
      | Inl e \<Rightarrow> if is_fatal e then ([Warned e], Returned (Some e))
                  else ([Warned e], Backoff (next_backoff backoff interval)))"

definition sync_round :: "loop_env \<Rightarrow> int \<Rightarrow> int \<Rightarrow> nat \<Rightarrow> nat \<Rightarrow> loop_event list \<times> round_end \<times> nat" where
  "sync_round E interval backoff i c =
     (let wait = Waited (if backoff > 0 then backoff else interval) in
      if le_done E i \<or> le_err E i then ([wait], Returned None, c)
      else let r = le_sync E c in
        if (case r of Inl e \<Rightarrow> \<not> is_fatal e \<and> is_conflict e | Inr _ \<Rightarrow> False)
        then let r' = le_sync E (Suc c) in
          case settle interval backoff r' of (es, x) \<Rightarrow> (wait # Synced r # Synced r' # es, x, Suc (Suc c))
        else case settle interval backoff r of (es, x) \<Rightarrow> (wait # Synced r # es, x, Suc c))"

fun sync_rounds :: "nat \<Rightarrow> loop_env \<Rightarrow> int \<Rightarrow> int \<Rightarrow> nat \<Rightarrow> nat \<Rightarrow> loop_event list \<times> error option option" where
  "sync_rounds 0 E interval backoff i c = ([], None)"
| "sync_rounds (Suc n) E interval backoff i c =
     (case sync_round E interval backoff i c of (es, x, c') \<Rightarrow>
        (case x of
           Returned r \<Rightarrow> (es, Some r)
         | Backoff b \<Rightarrow> (case sync_rounds n E interval b (Suc i) c' of (es', r) \<Rightarrow> (es @ es', r))))"

text \<open>\<open>Run\<close>: the log, and what it returned; \<open>None\<close>: it is still running.\<close>

definition sync_interval :: "int \<Rightarrow> int" where
  "sync_interval d = (if d = 0 then DefaultSyncInterval else d)"

definition run_loop :: "nat \<Rightarrow> loop_env \<Rightarrow> int \<Rightarrow> loop_event list \<times> error option option" where
  "run_loop n E d =
     (case validate_sync_interval (sync_interval d) of
        Some e \<Rightarrow> ([], Some (Some e))
      | None \<Rightarrow> sync_rounds n E (sync_interval d) 0 0 0)"

section \<open>The pace\<close>

text \<open>Failures since the last success.\<close>

definition failures :: "loop_event list \<Rightarrow> nat" where
  "failures log = fold (\<lambda>e k. case e of Reported _ \<Rightarrow> 0 | Warned _ \<Rightarrow> Suc k | _ \<Rightarrow> k) log 0"

definition ladder :: "int \<Rightarrow> nat \<Rightarrow> int" where
  "ladder interval k = (case k of 0 \<Rightarrow> interval | Suc j \<Rightarrow> min (5 * second * 2 ^ j) interval)"

lemma failures_simps [simp]:
  "failures [] = 0" "failures (log @ [Reported r]) = 0" "failures (log @ [Warned e]) = Suc (failures log)"
  "failures (log @ [Waited d]) = failures log" "failures (log @ [Synced x]) = failures log"
  by (simp_all add: failures_def)

lemma failures_append: "failures (log @ e # es) = failures ((log @ [e]) @ es)"
  by simp

text \<open>The backoff the loop holds is the step of the ladder it has climbed.\<close>

definition on_ladder :: "int \<Rightarrow> nat \<Rightarrow> int \<Rightarrow> bool" where
  "on_ladder interval k b \<longleftrightarrow> b = (if k = 0 then 0 else ladder interval k)"

lemma ladder_pos: "5 * second \<le> interval \<Longrightarrow> 0 < ladder interval k \<and> ladder interval k \<le> interval"
  by (cases k) (auto simp: ladder_def second_def)

lemma on_ladder_wait:
  assumes "5 * second \<le> interval" and "on_ladder interval k b"
  shows "(if b > 0 then b else interval) = ladder interval k"
  using assms ladder_pos [OF assms(1), of k] by (auto simp: on_ladder_def) (simp add: ladder_def)

lemma on_ladder_next:
  assumes "5 * second \<le> interval" and "on_ladder interval k b"
  shows "on_ladder interval (Suc k) (next_backoff b interval)"
proof (cases k)
  case 0
  with assms show ?thesis by (simp add: on_ladder_def next_backoff_def ladder_def)
next
  case (Suc j)
  with assms have b: "b = min (5 * second * 2 ^ j) interval" by (simp add: on_ladder_def ladder_def)
  have pos: "0 < 5 * second * 2 ^ j" by (simp add: second_def)
  with assms(1) b have "0 < b" by (auto simp: min_def second_def)
  then show ?thesis using b pos assms(1) unfolding Suc on_ladder_def ladder_def next_backoff_def
    by (auto simp: min_def second_def algebra_simps)
qed

text \<open>A log is paced when each wait in it is the step of the ladder reached before it.\<close>

definition paced :: "int \<Rightarrow> loop_event list \<Rightarrow> bool" where
  "paced interval log \<longleftrightarrow> (\<forall>pre d post. log = pre @ Waited d # post \<longrightarrow> d = ladder interval (failures pre))"

lemma paced_Nil [simp]: "paced interval []"
  by (simp add: paced_def)

lemma paced_snoc:
  "paced interval (log @ [e]) \<longleftrightarrow>
     paced interval log \<and> (case e of Waited d \<Rightarrow> d = ladder interval (failures log) | _ \<Rightarrow> True)"
proof
  assume p: "paced interval (log @ [e])"
  then have "paced interval log" unfolding paced_def by (metis append.assoc append_Cons)
  moreover from p have "d = ladder interval (failures log)" if "e = Waited d" for d
    using that unfolding paced_def by blast
  ultimately show "paced interval log \<and> (case e of Waited d \<Rightarrow> d = ladder interval (failures log) | _ \<Rightarrow> True)"
    by (auto split: loop_event.split)
next
  assume "paced interval log \<and> (case e of Waited d \<Rightarrow> d = ladder interval (failures log) | _ \<Rightarrow> True)"
  then show "paced interval (log @ [e])"
    unfolding paced_def by (auto simp: append_eq_append_conv2 append_eq_Cons_conv Cons_eq_append_conv)
qed

lemma snoc_snoc: "log @ a # b # es = (log @ [a]) @ b # es"
  by simp

lemma round_paced:
  assumes I: "5 * second \<le> interval" and b: "on_ladder interval (failures log) b" and p: "paced interval log"
    and round: "sync_round E interval b i c = (es, x, c')"
  shows "paced interval (log @ es) \<and> (\<forall>b'. x = Backoff b' \<longrightarrow> on_ladder interval (failures (log @ es)) b')"
proof -
  have zero: "on_ladder interval 0 0" by (simp add: on_ladder_def)
  show ?thesis
    using round p on_ladder_wait [OF I b] on_ladder_next [OF I b] zero
    unfolding sync_round_def settle_def Let_def
    by (auto simp: snoc_snoc paced_snoc simp del: append_assoc split: if_splits sum.splits)
qed

lemma rounds_paced:
  assumes I: "5 * second \<le> interval"
  shows "on_ladder interval (failures log) b \<Longrightarrow> paced interval log \<Longrightarrow> sync_rounds n E interval b i c = (es, r) \<Longrightarrow>
     paced interval (log @ es)"
proof (induction n arbitrary: log b i c es)
  case 0
  then show ?case by simp
next
  case (Suc n)
  obtain es1 x c' where round: "sync_round E interval b i c = (es1, x, c')" by (metis prod.exhaust)
  from round_paced [OF I Suc.prems(1,2) round]
  have paced: "paced interval (log @ es1)" and next_: "\<And>b'. x = Backoff b' \<Longrightarrow> on_ladder interval (failures (log @ es1)) b'"
    by auto
  show ?case
  proof (cases x)
    case (Returned e)
    with Suc.prems(3) round paced show ?thesis by simp
  next
    case (Backoff b')
    with Suc.prems(3) round obtain es2 where rest: "sync_rounds n E interval b' (Suc i) c' = (es2, r)" "es = es1 @ es2"
      by (auto split: prod.splits)
    from Suc.IH [OF next_ [OF Backoff] paced rest(1)] rest(2) show ?thesis by simp
  qed
qed

lemma interval_bounds:
  "validate_sync_interval d = None \<longleftrightarrow> MinSyncInterval \<le> d \<and> d \<le> MaxSyncInterval"
  by (auto simp: validate_sync_interval_def)

text \<open>
  C23. The daemon keeps its pace. Every wait of \<open>Run\<close>, however long it runs, is the interval
  when the last round succeeded, and after the \<open>k\<close>-th failure in a row \<open>5 s\<close> doubled \<open>k - 1\<close>
  times, at most the interval; so it is positive and at most \<open>100 s\<close>.
\<close>

theorem run_loop_paced:
  assumes "run_loop n E d = (log, r)" and "log = pre @ Waited w # post"
  shows "w = ladder (sync_interval d) (failures pre) \<and> 0 < w \<and> w \<le> MaxSyncInterval"
proof -
  from assms have valid: "validate_sync_interval (sync_interval d) = None"
    and rounds: "sync_rounds n E (sync_interval d) 0 0 0 = (log, r)"
    by (auto simp: run_loop_def split: option.splits)
  from valid have I: "5 * second \<le> sync_interval d" "sync_interval d \<le> MaxSyncInterval"
    by (simp_all add: interval_bounds MinSyncInterval_def second_def)
  have "paced (sync_interval d) ([] @ log)"
    by (rule rounds_paced [OF I(1) _ _ rounds]) (simp_all add: on_ladder_def)
  with assms(2) have w: "w = ladder (sync_interval d) (failures pre)" by (simp add: paced_def)
  with ladder_pos [OF I(1), of "failures pre"] I(2) show ?thesis by simp
qed

section \<open>When it stops\<close>

definition fatal_free :: "loop_event list \<Rightarrow> bool" where
  "fatal_free es \<longleftrightarrow> (\<forall>e. Synced (Inl e) \<in> set es \<longrightarrow> \<not> is_fatal e)"

text \<open>Either no call failed for good, or the last one did and the loop returns its error.\<close>

definition stops_well :: "loop_event list \<Rightarrow> error option \<Rightarrow> bool" where
  "stops_well es r = (case r of
     None \<Rightarrow> fatal_free es
   | Some e \<Rightarrow> (\<exists>pre. es = pre @ [Synced (Inl e), Warned e] \<and> fatal_free pre) \<and> is_fatal e)"

lemma stops_well_append: "fatal_free es \<Longrightarrow> stops_well es' r \<Longrightarrow> stops_well (es @ es') r"
  by (auto simp: stops_well_def fatal_free_def split: option.splits)

lemma round_stops:
  assumes "sync_round E interval b i c = (es, x, c')"
  shows "stops_well es (case x of Returned r \<Rightarrow> r | Backoff b' \<Rightarrow> None)"
proof -
  have two: "\<exists>pre. [a, Synced (Inl e), Warned e] = pre @ [Synced (Inl e), Warned e] \<and> fatal_free pre"
    if "fatal_free [a]" for a e
    using that by (intro exI [of _ "[a]"]) simp
  have three: "\<exists>pre. [a, b, Synced (Inl e), Warned e] = pre @ [Synced (Inl e), Warned e] \<and> fatal_free pre"
    if "fatal_free [a, b]" for a b e
    using that by (intro exI [of _ "[a, b]"]) simp
  show ?thesis
    using assms unfolding sync_round_def settle_def Let_def stops_well_def
    by (auto intro!: two three split: if_splits sum.splits) (auto simp: fatal_free_def)
qed

lemma rounds_stop:
  "sync_rounds n E interval b i c = (es, r) \<Longrightarrow> stops_well es (case r of Some (Some e) \<Rightarrow> Some e | _ \<Rightarrow> None)"
proof (induction n arbitrary: b i c es)
  case 0
  then show ?case by (auto simp: stops_well_def fatal_free_def)
next
  case (Suc n)
  obtain es1 x c' where round: "sync_round E interval b i c = (es1, x, c')" by (metis prod.exhaust)
  note stops = round_stops [OF round]
  show ?case
  proof (cases x)
    case (Returned e)
    with Suc.prems round stops show ?thesis by (cases e) auto
  next
    case (Backoff b')
    with Suc.prems round obtain es2 where rest: "sync_rounds n E interval b' (Suc i) c' = (es2, r)" "es = es1 @ es2"
      by (auto split: prod.splits)
    from stops Backoff have "fatal_free es1" by (simp add: stops_well_def)
    with stops_well_append [OF this Suc.IH [OF rest(1)]] rest(2) show ?thesis by simp
  qed
qed

text \<open>
  C24. The daemon gives up exactly on errors that waiting cannot cure. Once its interval is
  accepted, \<open>Run\<close> returns an error only when that error is what the last call of \<open>Sync\<close> failed
  with and it is fatal; and after a fatal error there is neither another wait nor another call.
\<close>

theorem run_loop_stops_on_fatal:
  assumes "run_loop n E d = (log, r)" and "validate_sync_interval (sync_interval d) = None"
  shows "(\<forall>e. r = Some (Some e) \<longrightarrow> is_fatal e \<and> (\<exists>pre. log = pre @ [Synced (Inl e), Warned e])) \<and>
    (\<forall>pre e post. log = pre @ Synced (Inl e) # post \<longrightarrow> is_fatal e \<longrightarrow> post = [Warned e] \<and> r = Some (Some e))"
proof -
  from assms have "sync_rounds n E (sync_interval d) 0 0 0 = (log, r)" by (simp add: run_loop_def)
  note stops = rounds_stop [OF this]
  have "is_fatal e \<and> (\<exists>pre. log = pre @ [Synced (Inl e), Warned e])" if "r = Some (Some e)" for e
    using stops that by (auto simp: stops_well_def)
  moreover have "post = [Warned e] \<and> r = Some (Some e)"
    if log: "log = pre @ Synced (Inl e) # post" and fatal: "is_fatal e" for pre e post
  proof -
    from log fatal have "\<not> fatal_free log" by (auto simp: fatal_free_def)
    with stops obtain e' pre' where r: "r = Some (Some e')" and log': "log = pre' @ [Synced (Inl e'), Warned e']"
      and free: "fatal_free pre'"
      by (auto simp: stops_well_def split: option.splits)
    from free fatal have "Synced (Inl e) \<notin> set pre'" by (auto simp: fatal_free_def)
    with log log' have "pre @ Synced (Inl e) # post = pre' @ [Synced (Inl e'), Warned e']" by simp
    with \<open>Synced (Inl e) \<notin> set pre'\<close> have "e' = e \<and> post = [Warned e]"
      by (auto simp: append_eq_append_conv2 append_eq_Cons_conv Cons_eq_append_conv)
    with r show ?thesis by simp
  qed
  ultimately show ?thesis by blast
qed

definition sync_calls :: "loop_event list \<Rightarrow> loop_event list" where
  "sync_calls log = filter (\<lambda>e. case e of Synced _ \<Rightarrow> True | _ \<Rightarrow> False) log"

text \<open>An environment in which nothing ends the loop.\<close>

definition undisturbed :: "loop_env \<Rightarrow> bool" where
  "undisturbed E \<longleftrightarrow> (\<forall>i. \<not> le_done E i \<and> \<not> le_err E i) \<and> (\<forall>c e. le_sync E c = Inl e \<longrightarrow> \<not> is_fatal e)"

lemma round_tries:
  assumes "undisturbed E" and "sync_round E interval b i c = (es, x, c')"
  shows "(\<exists>b'. x = Backoff b') \<and> 1 \<le> length (sync_calls es)"
  using assms unfolding sync_round_def settle_def Let_def undisturbed_def sync_calls_def
  by (auto split: if_splits sum.splits)

lemma rounds_try:
  "undisturbed E \<Longrightarrow> sync_rounds n E interval b i c = (es, r) \<Longrightarrow> r = None \<and> n \<le> length (sync_calls es)"
proof (induction n arbitrary: b i c es)
  case 0
  then show ?case by (auto simp: sync_calls_def)
next
  case (Suc n)
  obtain es1 x c' where round: "sync_round E interval b i c = (es1, x, c')" by (metis prod.exhaust)
  from round_tries [OF Suc.prems(1) round] obtain b' where x: "x = Backoff b'" and one: "1 \<le> length (sync_calls es1)"
    by blast
  with Suc.prems(2) round obtain es2 where rest: "sync_rounds n E interval b' (Suc i) c' = (es2, r)" "es = es1 @ es2"
    by (auto split: prod.splits)
  with Suc.IH [OF Suc.prems(1) rest(1)] one show ?case by (simp add: sync_calls_def)
qed

text \<open>
  C25. The daemon does not give up by itself. While its context lives and no call fails for good,
  \<open>Run\<close> is still running after any number \<open>n\<close> of rounds, and has called \<open>Sync\<close> at least \<open>n\<close>
  times.
\<close>

theorem run_loop_keeps_trying:
  assumes "undisturbed E" and "validate_sync_interval (sync_interval d) = None"
  shows "\<exists>log. run_loop n E d = (log, None) \<and> n \<le> length (sync_calls log)"
proof -
  obtain log r where rounds: "sync_rounds n E (sync_interval d) 0 0 0 = (log, r)" by (metis prod.exhaust)
  from rounds_try [OF assms(1) rounds] rounds assms(2) show ?thesis by (simp add: run_loop_def)
qed

section \<open>Sample runs\<close>

definition sample_loop :: loop_env where
  "sample_loop = \<lparr>le_sync = (\<lambda>n. if n < 3 then Inl (Plain ''down'') else Inl (fault CodeAccessDenied ''sync'')),
     le_done = (\<lambda>_. False), le_err = (\<lambda>_. False)\<rparr>"

definition sample_loop_log :: "loop_event list" where
  "sample_loop_log = (let down = Inl (Plain ''down''); denied = Inl (fault CodeAccessDenied ''sync'') in
     [Waited (60 * second), Synced down, Warned (Plain ''down''), Waited (5 * second), Synced down, Warned (Plain ''down''),
      Waited (10 * second), Synced down, Warned (Plain ''down''), Waited (20 * second), Synced denied,
      Warned (fault CodeAccessDenied ''sync'')])"

lemma sample_loop_run: "run_loop 9 sample_loop 0 = (sample_loop_log, Some (Some (fault CodeAccessDenied ''sync'')))"
  by code_simp

lemma run_loop_paced_witness:
  "run_loop 9 sample_loop 0 = (sample_loop_log, Some (Some (fault CodeAccessDenied ''sync''))) \<and>
     20 * second = ladder (sync_interval 0) (failures (take 9 sample_loop_log))"
  using sample_loop_run run_loop_paced [OF sample_loop_run, of "take 9 sample_loop_log" "20 * second" "drop 10 sample_loop_log"]
  by (simp add: sample_loop_log_def Let_def)

lemma run_loop_stops_on_fatal_witness:
  "run_loop 9 sample_loop 0 = (sample_loop_log, Some (Some (fault CodeAccessDenied ''sync''))) \<and>
     is_fatal (fault CodeAccessDenied ''sync'') \<and>
     (\<exists>pre. sample_loop_log = pre @ [Synced (Inl (fault CodeAccessDenied ''sync'')), Warned (fault CodeAccessDenied ''sync'')])"
proof -
  have "validate_sync_interval (sync_interval 0) = None" by code_simp
  from run_loop_stops_on_fatal [OF sample_loop_run this] sample_loop_run show ?thesis by blast
qed

definition flaky_loop :: loop_env where
  "flaky_loop = sample_loop\<lparr>le_sync := (\<lambda>n. Inl (if even n then Plain ''down'' else fault CodeStateConflict ''sync''))\<rparr>"

lemma run_loop_keeps_trying_witness:
  "\<exists>log. run_loop 1000 flaky_loop (15 * second) = (log, None) \<and> 1000 \<le> length (sync_calls log)"
proof -
  have "undisturbed flaky_loop"
    by (simp add: undisturbed_def flaky_loop_def sample_loop_def is_fatal_def)
  moreover have "validate_sync_interval (sync_interval (15 * second)) = None" by code_simp
  ultimately show ?thesis by (rule run_loop_keeps_trying)
qed

end
