(* ===== verification/Op_Lock.thy ===== *)
theory Op_Lock
  imports State_Store
begin

text \<open>
  The operation lock of \<open>overlay/state/lifecycle.go\<close>: a directory that one process makes, with
  a file that says who owns it. Processes run \<open>AcquireOperation\<close> and \<open>Release\<close> side by side;
  each step is one call on the file system, and they interleave freely.
\<close>

section \<open>What a contender reads\<close>

record op_owner =
  oo_schema :: int
  oo_token :: string
  oo_operation :: string
  oo_started :: gotime

definition stale_operation_age :: int where
  "stale_operation_age = 5 * minute"

definition owner_valid :: "op_owner \<Rightarrow> gotime \<Rightarrow> bool" where
  "owner_valid ow now \<longleftrightarrow> oo_schema ow = 1 \<and> oo_token ow \<noteq> [] \<and> oo_operation ow \<noteq> [] \<and> \<not> is_zero (oo_started ow) \<and>
     \<not> after (oo_started ow) (add_dur now (30 * second))"

text \<open>The lock is held, it was left behind, or its owner cannot be told.\<close>

datatype verdict = Busy | Abandoned | Unclear

definition judge_owner :: "error + op_owner \<Rightarrow> gotime \<Rightarrow> verdict" where
  "judge_owner r now =
     (case r of
        Inl e \<Rightarrow> Unclear
      | Inr ow \<Rightarrow>
          if owner_valid ow now
          then if after (add_dur (oo_started ow) stale_operation_age) now then Busy else Abandoned
          else Unclear)"

record lock_dir =
  ld_owner :: "op_owner file_state"
  ld_mtime :: gotime

definition fresh_dir :: "lock_dir option \<Rightarrow> gotime \<Rightarrow> bool" where
  "fresh_dir d now = (case d of None \<Rightarrow> False | Some l \<Rightarrow> after (add_dur (ld_mtime l) stale_operation_age) now)"

definition read_owner :: "read_outcome \<Rightarrow> lock_dir option \<Rightarrow> error + op_owner" where
  "read_owner io d = (case d of None \<Rightarrow> Inl (Sentinel StateNotFound) | Some l \<Rightarrow> read_json io (ld_owner l))"

section \<open>Processes and their steps\<close>

text \<open>
  Where a process is: outside, at the head of the loop, after a \<open>Mkdir\<close> that found the
  directory or made it, after the owner was read, before the rename that recovers the lock, or
  holding it and releasing it. \<open>ls_taken\<close> counts the renames that found a directory.
\<close>

datatype stage = Outside | Contending | Looking | Doubting | Recovering | Creating | Holding | Emptying | Closing

record lock_state =
  ls_dir :: "lock_dir option"
  ls_now :: gotime
  ls_stage :: "nat \<Rightarrow> stage"
  ls_taken :: nat

definition owner_of :: "(nat \<Rightarrow> string) \<Rightarrow> string \<Rightarrow> nat \<Rightarrow> gotime \<Rightarrow> op_owner" where
  "owner_of token op p now = \<lparr>oo_schema = 1, oo_token = token p, oo_operation = op, oo_started = to_utc now\<rparr>"

definition goes :: "lock_state \<Rightarrow> nat \<Rightarrow> stage \<Rightarrow> lock_state" where
  "goes s p g = s\<lparr>ls_stage := (ls_stage s)(p := g)\<rparr>"

inductive lock_step :: "(nat \<Rightarrow> string) \<Rightarrow> lock_state \<Rightarrow> lock_state \<Rightarrow> bool" for token where
  time: "nanos (ls_now s) \<le> nanos t \<Longrightarrow> lock_step token s (s\<lparr>ls_now := t\<rparr>)"
| acquire: "ls_stage s p = Outside \<Longrightarrow> lock_step token s (goes s p Contending)"
| give_up: "ls_stage s p \<in> {Contending, Recovering} \<Longrightarrow> lock_step token s (goes s p Outside)"
| make: "ls_stage s p = Contending \<Longrightarrow> ls_dir s = None \<Longrightarrow>
    lock_step token s ((goes s p Creating)\<lparr>ls_dir := Some \<lparr>ld_owner = Absent, ld_mtime = ls_now s\<rparr>\<rparr>)"
| own: "ls_stage s p = Creating \<Longrightarrow> ls_dir s = Some l \<Longrightarrow> op \<noteq> [] \<Longrightarrow>
    lock_step token s ((goes s p Holding)\<lparr>ls_dir := Some \<lparr>ld_owner = Doc (owner_of token op p (ls_now s)), ld_mtime = ls_now s\<rparr>\<rparr>)"
| own_failed: "ls_stage s p = Creating \<Longrightarrow> lock_step token s ((goes s p Outside)\<lparr>ls_dir := None\<rparr>)"
| bump: "ls_stage s p = Contending \<Longrightarrow> ls_dir s = Some l \<Longrightarrow> lock_step token s (goes s p Looking)"
| look: "ls_stage s p = Looking \<Longrightarrow>
    lock_step token s (goes s p (case judge_owner (read_owner io (ls_dir s)) (ls_now s) of
      Busy \<Rightarrow> Outside | Abandoned \<Rightarrow> Recovering | Unclear \<Rightarrow> Doubting))"
| doubt: "ls_stage s p = Doubting \<Longrightarrow>
    lock_step token s (goes s p (if fresh_dir (ls_dir s) (ls_now s) then Outside else Recovering))"
| recover: "ls_stage s p = Recovering \<Longrightarrow> ls_dir s = Some l \<Longrightarrow>
    lock_step token s ((goes s p Contending)\<lparr>ls_dir := None, ls_taken := Suc (ls_taken s)\<rparr>)"
| recovered: "ls_stage s p = Recovering \<Longrightarrow> ls_dir s = None \<Longrightarrow> lock_step token s (goes s p Contending)"
| release: "ls_stage s p = Holding \<Longrightarrow>
    lock_step token s (goes s p (case read_owner io (ls_dir s) of Inl e \<Rightarrow> Outside | Inr ow \<Rightarrow> if oo_token ow \<noteq> token p then Outside else Emptying))"
| empty: "ls_stage s p = Emptying \<Longrightarrow> ls_dir s = Some l \<Longrightarrow>
    lock_step token s ((goes s p Closing)\<lparr>ls_dir := Some \<lparr>ld_owner = Absent, ld_mtime = ls_now s\<rparr>\<rparr>)"
| empty_failed: "ls_stage s p = Emptying \<Longrightarrow> lock_step token s (goes s p Outside)"
| close: "ls_stage s p = Closing \<Longrightarrow> ls_dir s = Some l \<Longrightarrow> ld_owner l = Absent \<Longrightarrow>
    lock_step token s ((goes s p Outside)\<lparr>ls_dir := None\<rparr>)"
| close_failed: "ls_stage s p = Closing \<Longrightarrow> lock_step token s (goes s p Outside)"

definition free_lock :: "gotime \<Rightarrow> lock_state" where
  "free_lock now = \<lparr>ls_dir = None, ls_now = now, ls_stage = (\<lambda>_. Outside), ls_taken = 0\<rparr>"

definition lock_reaches :: "(nat \<Rightarrow> string) \<Rightarrow> gotime \<Rightarrow> lock_state \<Rightarrow> bool" where
  "lock_reaches token now s \<longleftrightarrow> (lock_step token)\<^sup>*\<^sup>* (free_lock now) s"

section \<open>One holder at a time\<close>

text \<open>The stages in which a process takes the directory for its own.\<close>

definition inside :: "stage set" where
  "inside = {Creating, Holding, Emptying, Closing}"

definition exclusive :: "lock_state \<Rightarrow> bool" where
  "exclusive s \<longleftrightarrow> (\<forall>p q. ls_stage s p \<in> inside \<longrightarrow> ls_stage s q \<in> inside \<longrightarrow> p = q) \<and>
     (\<forall>p. ls_stage s p \<in> inside \<longrightarrow> ls_dir s \<noteq> None)"

lemma goes_sels [simp]:
  "ls_dir (goes s p g) = ls_dir s" "ls_now (goes s p g) = ls_now s" "ls_taken (goes s p g) = ls_taken s"
  "ls_stage (goes s p g) q = (if q = p then g else ls_stage s q)"
  by (simp_all add: goes_def)

lemma step_taken: "lock_step token s t \<Longrightarrow> ls_taken s \<le> ls_taken t"
  by (induction rule: lock_step.induct) auto

text \<open>A move that enters no new process, one that keeps the directory, one that gives it up.\<close>

lemma goes_exclusive: "exclusive s \<Longrightarrow> g \<in> inside \<longrightarrow> ls_stage s p \<in> inside \<Longrightarrow> exclusive (goes s p g)"
  by (simp add: exclusive_def) metis

lemma dir_exclusive: "exclusive s \<Longrightarrow> exclusive (s\<lparr>ls_dir := Some l\<rparr>)"
  by (simp add: exclusive_def)

lemma leave_exclusive:
  "exclusive s \<Longrightarrow> ls_stage s p \<in> inside \<Longrightarrow> g \<notin> inside \<Longrightarrow> exclusive ((goes s p g)\<lparr>ls_dir := None\<rparr>)"
  by (simp add: exclusive_def) metis

lemma enter_exclusive: "exclusive s \<Longrightarrow> ls_dir s = None \<Longrightarrow> exclusive ((goes s p g)\<lparr>ls_dir := Some l\<rparr>)"
  by (simp add: exclusive_def)

lemma clock_exclusive: "exclusive (s\<lparr>ls_now := t\<rparr>) = exclusive s"
  by (simp add: exclusive_def)

lemma inside_simps [simp]:
  "Creating \<in> inside" "Holding \<in> inside" "Emptying \<in> inside" "Closing \<in> inside" "Outside \<notin> inside"
  "Contending \<notin> inside" "Looking \<notin> inside" "Doubting \<notin> inside" "Recovering \<notin> inside"
  by (simp_all add: inside_def)

lemma step_exclusive: "lock_step token s t \<Longrightarrow> exclusive s \<Longrightarrow> ls_taken t = ls_taken s \<Longrightarrow> exclusive t"
proof (induction rule: lock_step.induct)
  case (time s t) then show ?case by (simp add: clock_exclusive)
next
  case (acquire s p) then show ?case by (simp add: goes_exclusive)
next
  case (give_up s p) then show ?case by (simp add: goes_exclusive)
next
  case (make s p) then show ?case by (intro enter_exclusive)
next
  case (own s p l op) then show ?case by (intro dir_exclusive goes_exclusive) simp_all
next
  case (own_failed s p) then show ?case by (intro leave_exclusive) simp_all
next
  case (bump s p l) then show ?case by (simp add: goes_exclusive)
next
  case (look s p io) then show ?case by (intro goes_exclusive) (simp_all split: verdict.split)
next
  case (doubt s p) then show ?case by (intro goes_exclusive) simp_all
next
  case (recover s p l) then show ?case by simp
next
  case (recovered s p) then show ?case by (simp add: goes_exclusive)
next
  case (release s p io) then show ?case by (intro goes_exclusive) (simp_all split: sum.split)
next
  case (empty s p l) then show ?case by (intro dir_exclusive goes_exclusive) simp_all
next
  case (empty_failed s p) then show ?case by (simp add: goes_exclusive)
next
  case (close s p l) then show ?case by (intro leave_exclusive) simp_all
next
  case (close_failed s p) then show ?case by (simp add: goes_exclusive)
qed

lemma free_exclusive: "exclusive (free_lock now)"
  by (simp add: exclusive_def free_lock_def)

lemma run_exclusive:
  "(lock_step token)\<^sup>*\<^sup>* s t \<Longrightarrow> exclusive s \<Longrightarrow> ls_taken t = ls_taken s \<Longrightarrow> exclusive t \<and> ls_taken s \<le> ls_taken t"
proof (induction rule: rtranclp_induct)
  case base
  then show ?case by simp
next
  case (step t u)
  have "ls_taken s \<le> ls_taken t" using step.hyps(1)
    by (induction rule: rtranclp_induct) (auto dest: step_taken intro: le_trans)
  with step_taken [OF step.hyps(2)] step.prems step.IH step_exclusive [OF step.hyps(2)] show ?case by auto
qed

text \<open>
  C35. One operation at a time, as long as no lock is recovered. In every interleaving of any
  number of processes in which no rename took a directory away, at most one process is between
  making the lock and giving it up, and the lock directory is there while one is.
\<close>

theorem lock_exclusive:
  assumes "lock_reaches token now s" and "ls_taken s = 0"
  shows "(ls_stage s p \<in> inside \<and> ls_stage s q \<in> inside \<longrightarrow> p = q) \<and> (ls_stage s p \<in> inside \<longrightarrow> ls_dir s \<noteq> None)"
proof -
  have "exclusive s"
    using run_exclusive [OF assms(1) [unfolded lock_reaches_def] free_exclusive] assms(2) by (simp add: free_lock_def)
  then show ?thesis by (auto simp: exclusive_def)
qed

section \<open>How recovery breaks it\<close>

lemma reach_step: "lock_reaches token now s \<Longrightarrow> lock_step token s t \<Longrightarrow> lock_reaches token now t"
  by (simp add: lock_reaches_def)

definition made :: "gotime \<Rightarrow> lock_dir" where
  "made now = \<lparr>ld_owner = Absent, ld_mtime = now\<rparr>"

definition owned :: "(nat \<Rightarrow> string) \<Rightarrow> nat \<Rightarrow> gotime \<Rightarrow> lock_dir" where
  "owned token p now = \<lparr>ld_owner = Doc (owner_of token ''join'' p now), ld_mtime = now\<rparr>"

text \<open>A state by the directory, and where the first three processes are.\<close>

definition three :: "gotime \<Rightarrow> lock_dir option \<Rightarrow> stage \<Rightarrow> stage \<Rightarrow> stage \<Rightarrow> nat \<Rightarrow> lock_state" where
  "three now d a b c k =
     \<lparr>ls_dir = d, ls_now = now, ls_stage = (\<lambda>_. Outside)(0 := a, 1 := b, 2 := c), ls_taken = k\<rparr>"

lemma three_sels [simp]:
  "ls_dir (three now d a b c k) = d" "ls_now (three now d a b c k) = now" "ls_taken (three now d a b c k) = k"
  "ls_stage (three now d a b c k) 0 = a" "ls_stage (three now d a b c k) (Suc 0) = b" "ls_stage (three now d a b c k) 2 = c"
  by (simp_all add: three_def)

lemma three_moves:
  "goes (three now d a b c k) 0 g = three now d g b c k" "goes (three now d a b c k) (Suc 0) g = three now d a g c k"
  "goes (three now d a b c k) 2 g = three now d a b g k" "(three now d a b c k)\<lparr>ls_dir := d'\<rparr> = three now d' a b c k"
  "(three now d a b c k)\<lparr>ls_taken := k'\<rparr> = three now d a b c k'"
  by (auto simp: three_def goes_def fun_eq_iff)

lemma moves_to: "lock_reaches token now s \<Longrightarrow> lock_step token s t \<Longrightarrow> t = u \<Longrightarrow> lock_reaches token now u"
  by (simp add: lock_reaches_def)

lemmas race_simps = three_moves made_def owned_def owner_of_def read_owner_def read_json_def judge_owner_def fresh_dir_def

text \<open>
  Process 1 finds the lock of process 0, which is then released. Process 1 reads no owner, finds
  no directory to take the age of, and decides to recover; before it renames, process 2 takes
  the lock. The rename takes it from process 2, and process 1 makes its own. No clock has
  moved, and no lock was left behind.
\<close>

theorem lock_recovery_race:
  "\<exists>s. lock_reaches token now s \<and> ls_now s = now \<and> ls_stage s 1 = Holding \<and> ls_stage s 2 = Holding"
proof -
  have "lock_reaches token now (three now None Outside Outside Outside 0)"
    by (simp add: lock_reaches_def three_def free_lock_def fun_upd_idem)
  then have "lock_reaches token now (three now None Contending Outside Outside 0)"
    by (rule moves_to [OF _ acquire [where p = 0]]) (simp_all add: race_simps)
  then have "lock_reaches token now (three now None Contending Contending Outside 0)"
    by (rule moves_to [OF _ acquire [where p = "Suc 0"]]) (simp_all add: race_simps)
  then have "lock_reaches token now (three now None Contending Contending Contending 0)"
    by (rule moves_to [OF _ acquire [where p = 2]]) (simp_all add: race_simps)
  then have "lock_reaches token now (three now (Some (made now)) Creating Contending Contending 0)"
    by (rule moves_to [OF _ make [where p = 0]]) (simp_all add: race_simps)
  then have "lock_reaches token now (three now (Some (owned token 0 now)) Holding Contending Contending 0)"
    by (rule moves_to [OF _ own [where p = 0 and op = "''join''"]]) (simp_all add: race_simps)
  then have "lock_reaches token now (three now (Some (owned token 0 now)) Holding Looking Contending 0)"
    by (rule moves_to [OF _ bump [where p = "Suc 0"]]) (simp_all add: race_simps)
  then have "lock_reaches token now (three now (Some (owned token 0 now)) Emptying Looking Contending 0)"
    by (rule moves_to [OF _ release [where p = 0 and io = ReadOk]]) (simp_all add: race_simps)
  then have "lock_reaches token now (three now (Some (made now)) Closing Looking Contending 0)"
    by (rule moves_to [OF _ empty [where p = 0]]) (simp_all add: race_simps)
  then have "lock_reaches token now (three now None Outside Looking Contending 0)"
    by (rule moves_to [OF _ close [where p = 0 and l = "made now"]]) (simp_all add: race_simps)
  then have "lock_reaches token now (three now None Outside Doubting Contending 0)"
    by (rule moves_to [OF _ look [where p = "Suc 0" and io = ReadOk]]) (simp_all add: race_simps)
  then have "lock_reaches token now (three now None Outside Recovering Contending 0)"
    by (rule moves_to [OF _ doubt [where p = "Suc 0"]]) (simp_all add: race_simps)
  then have "lock_reaches token now (three now (Some (made now)) Outside Recovering Creating 0)"
    by (rule moves_to [OF _ make [where p = 2]]) (simp_all add: race_simps)
  then have "lock_reaches token now (three now (Some (owned token 2 now)) Outside Recovering Holding 0)"
    by (rule moves_to [OF _ own [where p = 2 and op = "''join''"]]) (simp_all add: race_simps)
  then have "lock_reaches token now (three now None Outside Contending Holding 1)"
    by (rule moves_to [OF _ recover [where p = "Suc 0"]]) (simp_all add: race_simps)
  then have "lock_reaches token now (three now (Some (made now)) Outside Creating Holding 1)"
    by (rule moves_to [OF _ make [where p = "Suc 0"]]) (simp_all add: race_simps)
  then have "lock_reaches token now (three now (Some (owned token (Suc 0) now)) Outside Holding Holding 1)"
    by (rule moves_to [OF _ own [where p = "Suc 0" and op = "''join''"]]) (simp_all add: race_simps)
  then show ?thesis by (intro exI conjI) (assumption, simp_all)
qed

section \<open>A sample run\<close>

lemma lock_exclusive_witness:
  "\<exists>s. lock_reaches (\<lambda>_. ''token'') zero_time s \<and> ls_stage s 0 = Holding \<and> ls_stage s 1 \<notin> inside"
proof -
  let ?token = "\<lambda>_. ''token''"
  have "lock_reaches ?token zero_time (three zero_time None Outside Outside Outside 0)"
    by (simp add: lock_reaches_def three_def free_lock_def fun_upd_idem)
  then have "lock_reaches ?token zero_time (three zero_time None Contending Outside Outside 0)"
    by (rule moves_to [OF _ acquire [where p = 0]]) (simp_all add: race_simps)
  then have "lock_reaches ?token zero_time (three zero_time (Some (made zero_time)) Creating Outside Outside 0)"
    by (rule moves_to [OF _ make [where p = 0]]) (simp_all add: race_simps)
  then have run: "lock_reaches ?token zero_time (three zero_time (Some (owned ?token 0 zero_time)) Holding Outside Outside 0)"
    by (rule moves_to [OF _ own [where p = 0 and op = "''join''"]]) (simp_all add: race_simps)
  from lock_exclusive [OF run, of 0 1] have "ls_stage (three zero_time (Some (owned ?token 0 zero_time)) Holding Outside Outside 0) 1 \<notin> inside"
    by simp
  with run show ?thesis by (intro exI [of _ "three zero_time (Some (owned ?token 0 zero_time)) Holding Outside Outside 0"]) simp
qed

end
