(* ===== verification/Wg_Conf.thy ===== *)
theory Wg_Conf
  imports Signed_Config
begin

text \<open>
  The two files the desktop runtime writes for a configuration
  (\<open>renderWireGuardConfig\<close>, \<open>renderXrayConfig\<close> of \<open>overlay/runtime/desktop.go\<close>), and what
  \<open>overlay/runtime/path_manager.go\<close> does with the first: the private key it reads from it and
  the lines it keeps for \<open>wg syncconf\<close>.
\<close>

section \<open>The WireGuard file\<close>

definition newline :: char where
  "newline = CHR 0x0A"

text \<open>\<open>strings.Join\<close>\<close>

fun join_with :: "string \<Rightarrow> string list \<Rightarrow> string" where
  "join_with sep [] = []"
| "join_with sep [x] = x"
| "join_with sep (x # y # xs) = x @ sep @ join_with sep (y # xs)"

definition render_mesh_peer :: "string \<Rightarrow> peer \<Rightarrow> string" where
  "render_mesh_peer self p =
     [newline] @ ''[Peer]'' @ [newline] @ ''PublicKey = '' @ PublicKey p @ [newline] @ ''AllowedIPs = '' @ Address p @
     [newline] @ ''Endpoint = '' @ LocalEndpoint p @ [newline] @ ''PersistentKeepalive = '' @
     show_int (WireGuardKeepalive self (DeviceID p)) @ [newline]"

definition render_wireguard_config :: "config \<Rightarrow> string \<Rightarrow> string" where
  "render_wireguard_config c key =
     (let w = cf_wireguard c in
      ''[Interface]'' @ [newline] @ ''PrivateKey = '' @ trim_space key @ [newline] @ ''Address = '' @ wg_address w @
      [newline] @ ''MTU = '' @ show_int (wg_mtu w) @ [newline] @
      (if cf_mesh c \<noteq> None then ''ListenPort = '' @ show_int (wg_listen_port w) @ [newline] else []) @
      (if wg_dns w \<noteq> [] then ''DNS = '' @ join_with '', '' (wg_dns w) @ [newline] else []) @
      [newline] @ ''[Peer]'' @ [newline] @ ''PublicKey = '' @ wg_peer_key w @ [newline] @ ''AllowedIPs = '' @
      join_with '', '' (wg_allowed_ips w) @ [newline] @ ''Endpoint = '' @ wg_peer_endpoint w @
      (if wg_keepalive w > 0 then [newline] @ ''PersistentKeepalive = '' @ show_int (wg_keepalive w) else []) @
      [newline] @
      (case cf_mesh c of None \<Rightarrow> [] | Some m \<Rightarrow> concat (map (render_mesh_peer (mc_device m)) (mc_peers m))))"

section \<open>The Xray profile\<close>

text \<open>
  The JSON value of the profile; its text is left to \<open>encoding/json\<close>. The fields of an object
  are in the order the source writes them.
\<close>

datatype json = JString string | JNumber int | JBool bool | JList "json list" | JObject "(string \<times> json) list"

definition xray_user :: "transport_config \<Rightarrow> json" where
  "xray_user t = JObject ([(''id'', JString (vless_auth_id t)), (''encryption'', JString ''none''),
     (''packetEncoding'', JString (tr_packet_encoding t))] @
     (if tr_flow t \<noteq> [] then [(''flow'', JString (tr_flow t))] else []))"

definition xray_inbound :: "config \<Rightarrow> json" where
  "xray_inbound c = JObject [(''tag'', JString ''xconnect-wireguard-in''), (''listen'', JString ''127.0.0.1''),
     (''port'', JNumber (tr_local_port (cf_transport c))), (''protocol'', JString ''dokodemo-door''),
     (''settings'', JObject [(''address'', JString (wg_gateway_ip (cf_wireguard c))),
        (''port'', JNumber (relay_target_port (cf_wireguard c))), (''network'', JString ''udp'')])]"

definition xray_outbound :: "transport_config \<Rightarrow> json" where
  "xray_outbound t = JObject [(''tag'', JString ''xconnect-vless-out''), (''protocol'', JString ''vless''),
     (''settings'', JObject [(''vnext'', JList [JObject [(''address'', JString (tr_server t)),
        (''port'', JNumber (tr_port t)), (''users'', JList [xray_user t])]])]),
     (''streamSettings'', JObject [(''network'', JString ''xhttp''), (''security'', JString ''tls''),
        (''tlsSettings'', JObject [(''serverName'', JString (tls_server_name t)), (''allowInsecure'', JBool False),
          (''fingerprint'', JString ''chrome'')]),
        (''xhttpSettings'', JObject [(''path'', JString (xhttp_path t)), (''mode'', JString (xhttp_mode t)),
          (''host'', JString (xhttp_host t))])])]"

text \<open>\<open>strconv.Atoi\<close> of the port with its error dropped.\<close>

definition port_number :: "string \<Rightarrow> int" where
  "port_number s = (case read_nat s of Some n \<Rightarrow> int n | None \<Rightarrow> 0)"

definition xray_relay_inbound :: "string \<Rightarrow> json" where
  "xray_relay_inbound endpoint =
     (case (case split_host_port endpoint of None \<Rightarrow> ([], []) | Some hp \<Rightarrow> hp) of (host, port) \<Rightarrow>
        JObject [(''tag'', JString ''xconnect-peer-relay-in''), (''listen'', JString host), (''port'', JNumber (port_number port)),
          (''protocol'', JString ''dokodemo-door''),
          (''settings'', JObject [(''address'', JString ''127.0.0.1''), (''port'', JNumber 51821), (''network'', JString ''tcp'')])])"

definition render_xray_config :: "config \<Rightarrow> json" where
  "render_xray_config c =
     JObject [(''log'', JObject [(''loglevel'', JString ''warning'')]),
       (''inbounds'', JList ([xray_inbound c] @
          (case cf_mesh c of None \<Rightarrow> [] | Some m \<Rightarrow> [xray_relay_inbound (mc_relay m)]))),
       (''outbounds'', JList [xray_outbound (cf_transport c)])]"

section \<open>Reading the file back\<close>

text \<open>\<open>strings.Cut(line, "=")\<close>, where there is one.\<close>

definition cut_equals :: "string \<Rightarrow> (string \<times> string) option" where
  "cut_equals l = (if CHR ''='' \<in> set l
     then Some (takeWhile (\<lambda>c. c \<noteq> CHR ''='') l, tl (dropWhile (\<lambda>c. c \<noteq> CHR ''='') l)) else None)"

definition setting :: "string \<Rightarrow> (string \<times> string) option" where
  "setting l = map_option (\<lambda>(n, v). (trim_space n, trim_space v)) (cut_equals l)"

fun first_private_key :: "string list \<Rightarrow> string" where
  "first_private_key [] = []"
| "first_private_key (l # ls) =
     (case setting l of Some (n, v) \<Rightarrow> if n = ''PrivateKey'' then v else first_private_key ls | None \<Rightarrow> first_private_key ls)"

definition private_key_of :: "string \<Rightarrow> string" where
  "private_key_of raw = first_private_key (split_on newline raw)"

text \<open>The lines \<open>wg-quick\<close> alone understands are left out for \<open>wg syncconf\<close>.\<close>

definition sync_config :: "string \<Rightarrow> string" where
  "sync_config raw = join_with [newline] (filter (\<lambda>l. case setting l of
       Some (n, v) \<Rightarrow> \<not> (n = ''Address'' \<or> n = ''MTU'' \<or> n = ''DNS'') | None \<Rightarrow> True) (split_on newline raw))"

section \<open>Lines\<close>

abbreviation one_line :: "string \<Rightarrow> bool" where
  "one_line s \<equiv> newline \<notin> set s"

lemma split_on_line: "c \<notin> set s \<Longrightarrow> split_on c (s @ c # rest) = s # split_on c rest"
  by (induction s) auto

lemma split_on_last: "c \<notin> set s \<Longrightarrow> split_on c s = [s]"
  by (induction s) auto

text \<open>What the two functions write, as lines.\<close>

definition mesh_peer_lines :: "string \<Rightarrow> peer \<Rightarrow> string list" where
  "mesh_peer_lines self p = [[], ''[Peer]'', ''PublicKey = '' @ PublicKey p, ''AllowedIPs = '' @ Address p,
     ''Endpoint = '' @ LocalEndpoint p, ''PersistentKeepalive = '' @ show_int (WireGuardKeepalive self (DeviceID p))]"

definition config_lines :: "config \<Rightarrow> string \<Rightarrow> string list" where
  "config_lines c key = (let w = cf_wireguard c in
     [''[Interface]'', ''PrivateKey = '' @ trim_space key, ''Address = '' @ wg_address w, ''MTU = '' @ show_int (wg_mtu w)] @
     (if cf_mesh c \<noteq> None then [''ListenPort = '' @ show_int (wg_listen_port w)] else []) @
     (if wg_dns w \<noteq> [] then [''DNS = '' @ join_with '', '' (wg_dns w)] else []) @
     [[], ''[Peer]'', ''PublicKey = '' @ wg_peer_key w, ''AllowedIPs = '' @ join_with '', '' (wg_allowed_ips w),
      ''Endpoint = '' @ wg_peer_endpoint w] @
     (if wg_keepalive w > 0 then [''PersistentKeepalive = '' @ show_int (wg_keepalive w)] else []) @
     (case cf_mesh c of None \<Rightarrow> [] | Some m \<Rightarrow> concat (map (mesh_peer_lines (mc_device m)) (mc_peers m))))"

fun end_lines :: "string list \<Rightarrow> string" where
  "end_lines [] = []"
| "end_lines (l # ls) = l @ newline # end_lines ls"

lemma end_lines_append [simp]: "end_lines (a @ b) = end_lines a @ end_lines b"
  by (induction a) auto

lemma end_lines_concat: "end_lines (concat ls) = concat (map end_lines ls)"
  by (induction ls) auto

lemma split_end_lines: "list_all one_line ls \<Longrightarrow> split_on newline (end_lines ls) = ls @ [[]]"
  by (induction ls) (simp_all add: split_on_line)

lemma render_lines: "render_wireguard_config c key = end_lines (config_lines c key)"
proof -
  have peer: "end_lines (mesh_peer_lines self p) = render_mesh_peer self p" for self p
    by (simp add: mesh_peer_lines_def render_mesh_peer_def)
  show ?thesis
    by (simp add: render_wireguard_config_def config_lines_def Let_def end_lines_concat o_def peer split: option.split)
qed

section \<open>Validated fields stay on one line\<close>

lemma newline_neq [simp]: "newline \<noteq> CHR ''-''" "newline \<noteq> CHR ''.''" "newline \<noteq> CHR '':''" "newline \<noteq> CHR ''/''" "newline \<noteq> CHR ''%''"
  by (simp_all add: newline_def)

lemma newline_no_digit: "\<not> is_digit newline" "\<not> is_hex newline" "\<not> graphic newline" "\<not> is_interface_char newline"
  by (simp_all add: newline_def is_digit_def is_hex_def hex_value_def graphic_def is_interface_char_def is_alnum_def is_lower_def
    is_upper_def code_def)

lemma digits_one_line: "digits_value acc s = Some n \<Longrightarrow> one_line s"
  using newline_no_digit(1) by (induction s arbitrary: acc) (auto split: if_splits)

lemma read_nat_one_line: "read_nat s = Some n \<Longrightarrow> one_line s"
  by (auto simp: read_nat_def dest: digits_one_line split: if_splits)

lemma show_int_one_line: "one_line (show_int n)"
  using show_int_chars [of n] newline_no_digit(1) by auto

lemma split_on_chars: "x \<in> set s \<Longrightarrow> x = c \<or> (\<exists>f \<in> set (split_on c s). x \<in> set f)"
  by (induction s) (auto split: list.splits)

lemma octet_one_line: "parse_octet s = Some n \<Longrightarrow> one_line s"
  by (auto simp: parse_octet_def dest: read_nat_one_line split: option.splits if_splits)

lemma v4_one_line:
  assumes "parse_v4_fields s = Some q"
  shows "one_line s"
proof
  assume "newline \<in> set s"
  then obtain f where f: "f \<in> set (split_on CHR ''.'' s)" "newline \<in> set f"
    using split_on_chars [of newline s "CHR ''.''"] by auto
  from assms obtain a b c d where "map parse_octet (split_on CHR ''.'' s) = [Some a, Some b, Some c, Some d]"
    by (auto simp: parse_v4_fields_def split: list.splits option.splits)
  then have "parse_octet f \<in> {Some a, Some b, Some c, Some d}" using f(1)
    by (metis image_eqI image_set list.set(1) list.set(2))
  then obtain n where "parse_octet f = Some n" by auto
  from octet_one_line [OF this] f(2) show False by simp
qed

lemma group_one_line: "newline \<in> set s \<Longrightarrow> newline \<in> set (drop (length (takeWhile is_hex s)) s)"
proof -
  assume "newline \<in> set s"
  then have "newline \<in> set (takeWhile is_hex s) \<union> set (dropWhile is_hex s)" by (metis set_append takeWhile_dropWhile_id)
  with newline_no_digit(2) have "newline \<in> set (dropWhile is_hex s)" by (auto dest: set_takeWhileD)
  then show ?thesis by (simp add: dropWhile_eq_drop)
qed

lemma newline_tl: "newline \<in> set s \<Longrightarrow> hd s \<noteq> newline \<Longrightarrow> newline \<in> set (tl s)"
  by (cases s) auto

lemma v6_loop_one_line: "v6_loop k s acc ell = Some (s', acc', ell') \<Longrightarrow> newline \<in> set s \<Longrightarrow> newline \<in> set s'"
proof (induction k arbitrary: s acc ell)
  case 0
  then show ?case by simp
next
  case (Suc k)
  let ?rest = "drop (length (takeWhile is_hex s)) s"
  have rest: "newline \<in> set ?rest" by (rule group_one_line [OF Suc.prems(2)])
  have colon: "newline \<in> set (tl ?rest)" if "hd ?rest = CHR '':''"
    using newline_tl [OF rest] that by (simp add: newline_def)
  have colons: "newline \<in> set (tl (tl ?rest))" if "hd ?rest = CHR '':''" "hd (tl ?rest) = CHR '':''"
    using newline_tl [OF colon [OF that(1)]] that by (simp add: newline_def)
  show ?case
    using Suc.prems(1) v4_one_line [of s] Suc.prems(2) rest
    by (auto simp: Let_def split: if_splits option.splits dest: Suc.IH intro: colon colons)
      (use colon colons Suc.IH in auto)
qed

lemma v6_body_one_line:
  assumes "Option.bind (v6_loop k s acc ell) v6_finish = Some bs"
  shows "one_line s"
  using assms v6_loop_one_line [of k s acc ell] by (auto simp: bind_eq_Some_conv v6_finish_def split: if_splits)

lemma addr_one_line:
  assumes "parse_addr s = Some a" and "is4 a \<or> zone a = []"
  shows "one_line s"
proof -
  have v6: "one_line s" if v6: "parse_v6 s = Some (V6 bs [])" for bs
  proof -
    have plain: "takeWhile (\<lambda>c. c \<noteq> CHR ''%'') s = s"
    proof -
      from v6 have "drop (length (takeWhile (\<lambda>c. c \<noteq> CHR ''%'') s) + 1) s = []" "CHR ''%'' \<notin> set s"
        by (auto simp: parse_v6_def Let_def split: if_splits option.splits)
      then show ?thesis by (simp add: takeWhile_eq_all_conv) (metis)
    qed
    show ?thesis
    proof (cases "has_prefix s ''::''")
      case True
      then have s: "s = ''::'' @ drop 2 s" by (metis has_prefix_eq append_eq_conv_conj length_Cons list.size(3) numeral_2_eq_2)
      show ?thesis
      proof (cases "length s = 2")
        case True
        with s have "s = ''::''" by (metis append_self_conv drop_all order_refl)
        then show ?thesis by simp
      next
        case False
        with v6 plain \<open>has_prefix s ''::''\<close> have "one_line (drop 2 s)"
          by (auto simp: parse_v6_def Let_def split: if_splits option.splits dest: v6_body_one_line)
        then show ?thesis by (subst s) simp
      qed
    next
      case False
      with v6 plain show ?thesis
        by (auto simp: parse_v6_def Let_def split: if_splits option.splits dest: v6_body_one_line)
    qed
  qed
  show ?thesis
  proof (cases a)
    case (V4 q)
    with assms(1) have "parse_v4_fields s = Some q"
      by (auto simp: parse_addr_def parse_v6_def Let_def split: list.splits if_splits option.splits)
    then show ?thesis by (rule v4_one_line)
  next
    case (V6 bs z)
    with assms have "parse_v6 s = Some (V6 bs [])"
      by (auto simp: parse_addr_def split: list.splits if_splits option.splits)
    then show ?thesis by (rule v6)
  qed
qed

lemma split_last_eq: "split_last c s = Some (a, b) \<Longrightarrow> s = a @ c # b"
proof -
  assume "split_last c s = Some (a, b)"
  then have c: "c \<in> set s" and a: "a = rev (tl (dropWhile (\<lambda>x. x \<noteq> c) (rev s)))" and b: "b = rev (takeWhile (\<lambda>x. x \<noteq> c) (rev s))"
    by (auto simp: split_last_def split: if_splits)
  from c have "dropWhile (\<lambda>x. x \<noteq> c) (rev s) \<noteq> []" by (simp add: dropWhile_eq_Nil_conv)
  then have "dropWhile (\<lambda>x. x \<noteq> c) (rev s) = c # tl (dropWhile (\<lambda>x. x \<noteq> c) (rev s))"
    by (metis (mono_tags, lifting) hd_dropWhile list.collapse)
  then have "rev s = takeWhile (\<lambda>x. x \<noteq> c) (rev s) @ c # tl (dropWhile (\<lambda>x. x \<noteq> c) (rev s))"
    by (metis takeWhile_dropWhile_id)
  then have "s = rev (takeWhile (\<lambda>x. x \<noteq> c) (rev s) @ c # tl (dropWhile (\<lambda>x. x \<noteq> c) (rev s)))" by (metis rev_rev_ident)
  then show ?thesis by (simp add: a b)
qed

lemma cidr_one_line:
  assumes "valid_cidr s"
  shows "one_line s"
proof -
  from assms obtain p where "parse_prefix s = Some p" by (auto simp: valid_cidr_def)
  then obtain a b ip n where s: "split_last CHR ''/'' s = Some (a, b)" and ip: "parse_addr a = Some ip" "is4 ip \<or> zone ip = []"
    and b: "read_nat b = Some n"
    by (auto simp: parse_prefix_def split: option.splits if_splits prod.splits)
  from split_last_eq [OF s] addr_one_line [OF ip] read_nat_one_line [OF b] show ?thesis by simp
qed

lemma loopback_one_line:
  assumes "loopback s"
  shows "one_line s"
proof -
  from assms obtain a where p: "parse_addr_port s = Some a" "ap_addr a = localhost" by (auto simp: loopback_def split: option.splits)
  then obtain h q n where s: "split_last CHR '':'' s = Some (h, q)" and q: "read_nat q = Some n"
    and h: "parse_addr h = Some localhost"
    by (auto simp: parse_addr_port_def Let_def localhost_def split: option.splits if_splits prod.splits)
  from split_last_eq [OF s] addr_one_line [OF h] read_nat_one_line [OF q] show ?thesis by (simp add: localhost_def)
qed

lemma std_one_line: "one_line (std_encode bs)"
  using std_encode_graphic [of bs] newline_no_digit(3) by (auto simp: list_all_iff)

lemma wg_key_one_line: "wg_key_text s \<Longrightarrow> one_line s"
proof -
  assume "wg_key_text s"
  then obtain k where "s = std_encode k" by (auto simp: wg_key_text_def split: option.splits)
  then show ?thesis by (simp add: std_one_line)
qed

lemma join_one_line: "list_all one_line xs \<Longrightarrow> one_line (join_with '', '' xs)"
  by (induction "'', ''" xs rule: join_with.induct) (auto simp: newline_def)

lemma endpoint_one_line:
  assumes "require_loopback_endpoint e port = None"
  shows "one_line e"
proof -
  from assms have "split_host_port e = Some (''127.0.0.1'', show_int port)"
    by (auto simp: require_loopback_endpoint_def split: option.splits if_splits)
  then have "e = ''127.0.0.1'' @ CHR '':'' # show_int port \<or> e = ''[127.0.0.1]'' @ CHR '':'' # show_int port"
    by (auto simp: split_host_port_def Let_def split: option.splits if_splits dest!: split_last_eq)
  then show ?thesis using show_int_one_line [of port] by (auto simp: newline_def)
qed

text \<open>The key is trimmed to the text that was in the file.\<close>

lemma trim_left_blank: "trim_left (CHR '' '' # s) = trim_left s"
  by (cases s rule: trim_left.cases) (simp_all add: space1_def code_def)

lemma trim_blank: "trim_space (CHR '' '' # s) = trim_space s"
  by (simp add: trim_space_def trim_left_blank)

lemma mesh_peer_one_line:
  assumes "mesh_config_validate resolve n1 n2 m = None" and p: "p \<in> set (mc_peers m)"
  shows "one_line (PublicKey p)" "one_line (Address p)" "one_line (LocalEndpoint p)"
proof -
  from assms(1) obtain qs where ep: "endpoint_loop m {} (mc_peers m) = Inr qs" and sv: "spec_validate (mc_device m) qs = None"
    by (auto simp: mesh_config_validate_def split: if_splits sum.splits option.splits)
  from endpoint_loop_Inr [OF ep] p have q: "p\<lparr>LocalEndpoint := []\<rparr> \<in> set qs" and lo: "loopback (LocalEndpoint p)" by auto
  from sv q have "signed_peer (mc_device m) (p\<lparr>LocalEndpoint := []\<rparr>)" by (auto simp: spec_validate_iff)
  then have "wg_key_text (PublicKey p)" "valid_cidr (Address p)"
    by (auto simp: signed_peer_def host_prefix_text_def valid_cidr_def split: option.splits)
  with lo show "one_line (PublicKey p)" "one_line (Address p)" "one_line (LocalEndpoint p)"
    by (simp_all add: wg_key_one_line cidr_one_line loopback_one_line)
qed

text \<open>No field of a validated configuration reaches past its line, the DNS servers apart.\<close>

lemma config_lines_one_line:
  assumes valid: "config_validate E c = None" and mesh: "\<forall>m. cf_mesh c = Some m \<longrightarrow> mc_relay m \<noteq> []"
    and dns: "list_all one_line (wg_dns (cf_wireguard c))" and peer: "wg_key_text (wg_peer_key (cf_wireguard c))"
    and key: "wg_key_text (trim_space key)"
  shows "list_all one_line (config_lines c key)"
proof -
  let ?w = "cf_wireguard c"
  from valid have w: "valid_cidr (wg_address ?w)" "list_all valid_cidr (wg_allowed_ips ?w)"
    "require_loopback_endpoint (wg_peer_endpoint ?w) (tr_local_port (cf_transport c)) = None"
    by (auto simp: config_validate_None validate_wireguard_part_def Let_def split: option.splits)
  have ips: "list_all one_line (wg_allowed_ips ?w)" using w(2) by (auto simp: list_all_iff cidr_one_line)
  have fields: "one_line (trim_space key)" "one_line (wg_address ?w)" "one_line (wg_peer_key ?w)"
    "one_line (join_with '', '' (wg_allowed_ips ?w))" "one_line (wg_peer_endpoint ?w)" "one_line (join_with '', '' (wg_dns ?w))"
    using key peer w endpoint_one_line [OF w(3)] by (simp_all add: wg_key_one_line cidr_one_line join_one_line ips dns)
  have peers: "list_all one_line (mesh_peer_lines self p)" if m: "cf_mesh c = Some m" and p: "p \<in> set (mc_peers m)" for self m p
  proof -
    from valid m mesh have "mesh_config_validate (ce_resolve E) (ce_now1 E) (ce_now2 E) m = None"
      by (auto simp: config_validate_None validate_mesh_part_def split: if_splits option.splits)
    from mesh_peer_one_line [OF this p] show ?thesis
      by (simp add: mesh_peer_lines_def show_int_one_line) (simp add: newline_def)
  qed
  have labels: "one_line ''[Interface]''" "one_line ''PrivateKey = ''" "one_line ''Address = ''" "one_line ''MTU = ''"
    "one_line ''ListenPort = ''" "one_line ''DNS = ''" "one_line ''[Peer]''" "one_line ''PublicKey = ''"
    "one_line ''AllowedIPs = ''" "one_line ''Endpoint = ''" "one_line ''PersistentKeepalive = ''"
    by (simp_all add: newline_def)
  from peers have all: "list_all one_line (case cf_mesh c of None \<Rightarrow> [] | Some m \<Rightarrow> concat (map (mesh_peer_lines (mc_device m)) (mc_peers m)))"
    by (cases "cf_mesh c") (auto simp: list_all_iff)
  show ?thesis
    unfolding config_lines_def Let_def list_all_append
    using all fields labels by (auto simp: show_int_one_line simp del: set_append)
qed

lemma first_key_line:
  assumes "wg_key_text key"
  shows "setting (''PrivateKey = '' @ key) = Some (''PrivateKey'', key)"
proof -
  obtain k where k: "key = std_encode k" using assms by (auto simp: wg_key_text_def split: option.splits)
  have "trim_space key = key" unfolding k by (rule trim_space_all_graphic [OF std_encode_graphic])
  moreover have "trim_space ''PrivateKey '' = ''PrivateKey''"
    by (simp add: trim_space_def space1_def space2_def space3_def code_def)
  ultimately show ?thesis by (simp add: setting_def cut_equals_def trim_blank)
qed


lemma compile_valid: "compile L E s = Inr c \<Longrightarrow> config_validate E c = None"
  unfolding compile_def Let_def by (auto split: list.splits option.splits if_splits)

text \<open>
  The DNS servers are not validated: a configuration of the legacy contract can write any line
  into the file \<open>wg-quick\<close> executes the hooks of.
\<close>

definition injected :: "config \<Rightarrow> config" where
  "injected c = c\<lparr>cf_wireguard := (cf_wireguard c)\<lparr>wg_dns := [''1.1.1.1'' @ [newline] @ ''PostUp = id'']\<rparr>\<rparr>"

lemma injected_sels:
  "cf_transport (injected c) = cf_transport c" "cf_mesh (injected c) = cf_mesh c" "cf_network (injected c) = cf_network c"
  "cf_device (injected c) = cf_device c" "cf_schema (injected c) = cf_schema c" "cf_revision (injected c) = cf_revision c"
  "cf_digest (injected c) = cf_digest c" "wg_interface (cf_wireguard (injected c)) = wg_interface (cf_wireguard c)"
  "wg_private_key_ref (cf_wireguard (injected c)) = wg_private_key_ref (cf_wireguard c)"
  "wg_allowed_ips (cf_wireguard (injected c)) = wg_allowed_ips (cf_wireguard c)"
  "wg_address (cf_wireguard (injected c)) = wg_address (cf_wireguard c)"
  "wg_peer_key (cf_wireguard (injected c)) = wg_peer_key (cf_wireguard c)"
  "wg_mtu (cf_wireguard (injected c)) = wg_mtu (cf_wireguard c)"
  "wg_keepalive (cf_wireguard (injected c)) = wg_keepalive (cf_wireguard c)"
  "wg_gateway_ip (cf_wireguard (injected c)) = wg_gateway_ip (cf_wireguard c)"
  "wg_gateway_cidr (cf_wireguard (injected c)) = wg_gateway_cidr (cf_wireguard c)"
  "wg_gateway_port (cf_wireguard (injected c)) = wg_gateway_port (cf_wireguard c)"
  "wg_peer_endpoint (cf_wireguard (injected c)) = wg_peer_endpoint (cf_wireguard c)"
  "wg_local_proxy (cf_wireguard (injected c)) = wg_local_proxy (cf_wireguard c)"
  by (simp_all add: injected_def)

lemma injected_valid: "config_validate E c = None \<Longrightarrow> config_validate E (injected c) = None"
proof -
  have "config_validate E (injected c) = config_validate E c"
    unfolding config_validate_def validate_mesh_part_def validate_transport_part_def validate_wireguard_part_def Let_def
      injected_sels ..
  then show "config_validate E c = None \<Longrightarrow> config_validate E (injected c) = None" by simp
qed

lemma split_on_append: "\<exists>xs. split_on c (a @ c # b) = xs @ split_on c b"
proof (induction a)
  case (Cons x a)
  then obtain xs where xs: "split_on c (a @ c # b) = xs @ split_on c b" by blast
  have "xs \<noteq> []"
  proof
    assume "xs = []"
    with xs have "length (split_on c (a @ c # b)) = length (split_on c b)" by simp
    moreover have "length (split_on c s) = Suc (length (filter ((=) c) s))" for s
      by (induction s) (auto split: list.split)
    ultimately show False by simp
  qed
  with xs show ?case by (cases xs) auto
qed simp

theorem dns_line_injected:
  assumes "config_validate E c = None"
  shows "config_validate E (injected c) = None \<and> ''PostUp = id'' \<in> set (split_on newline (render_wireguard_config (injected c) key))"
proof -
  define a where "a = ''[Interface]'' @ [newline] @ ''PrivateKey = '' @ trim_space key @ [newline] @ ''Address = '' @
    wg_address (cf_wireguard c) @ [newline] @ ''MTU = '' @ show_int (wg_mtu (cf_wireguard c)) @ [newline] @
    (if cf_mesh c \<noteq> None then ''ListenPort = '' @ show_int (wg_listen_port (cf_wireguard c)) @ [newline] else []) @
    ''DNS = 1.1.1.1''"
  obtain b where "render_wireguard_config (injected c) key = a @ newline # ''PostUp = id'' @ newline # b"
    by (simp add: render_wireguard_config_def injected_def Let_def a_def)
  moreover obtain xs where "split_on newline (a @ newline # ''PostUp = id'' @ newline # b) =
      xs @ split_on newline (''PostUp = id'' @ newline # b)" using split_on_append by blast
  moreover have "split_on newline (''PostUp = id'' @ newline # b) = ''PostUp = id'' # split_on newline b"
    by (rule split_on_line) (simp add: newline_def)
  ultimately show ?thesis using injected_valid [OF assms] by simp
qed


end
