(* ===== verification/Go_Path.thy ===== *)
theory Go_Path
  imports Go_Net
begin

text \<open>
  What the source uses of \<open>path/filepath\<close>, on Unix: \<open>Clean\<close>, \<open>Join\<close>, \<open>Dir\<close>, \<open>Base\<close>, \<open>Rel\<close>
  and \<open>IsAbs\<close>, by the elements between slashes.
\<close>

section \<open>Elements\<close>

definition is_abs :: "string \<Rightarrow> bool" where
  "is_abs p \<longleftrightarrow> has_prefix p ''/''"

definition elements :: "string \<Rightarrow> string list" where
  "elements p = filter (\<lambda>e. e \<noteq> [] \<and> e \<noteq> ''.'') (split_on CHR ''/'' p)"

text \<open>\<open>..\<close> takes the element before it, if there is one; the kept elements are in reverse.\<close>

fun resolve :: "bool \<Rightarrow> string list \<Rightarrow> string list \<Rightarrow> string list" where
  "resolve rooted kept [] = rev kept"
| "resolve rooted kept (e # es) =
     (if e = ''..'' then
        (case kept of
           k # ks \<Rightarrow> if k = ''..'' then resolve rooted (e # kept) es else resolve rooted ks es
         | [] \<Rightarrow> if rooted then resolve rooted [] es else resolve rooted [e] es)
      else resolve rooted (e # kept) es)"

definition clean_elements :: "string \<Rightarrow> string list" where
  "clean_elements p = resolve (is_abs p) [] (elements p)"

fun join_slash :: "string list \<Rightarrow> string" where
  "join_slash [] = []"
| "join_slash [e] = e"
| "join_slash (e # f # es) = e @ CHR ''/'' # join_slash (f # es)"

definition path_of :: "bool \<Rightarrow> string list \<Rightarrow> string" where
  "path_of rooted es = (if rooted then CHR ''/'' # join_slash es else if es = [] then ''.'' else join_slash es)"

definition clean :: "string \<Rightarrow> string" where
  "clean p = path_of (is_abs p) (clean_elements p)"

definition join_path :: "string list \<Rightarrow> string" where
  "join_path ps = (case filter (\<lambda>p. p \<noteq> []) ps of [] \<Rightarrow> [] | qs \<Rightarrow> clean (join_slash qs))"

definition dir_of :: "string \<Rightarrow> string" where
  "dir_of p = clean (rev (dropWhile (\<lambda>c. c \<noteq> CHR ''/'') (rev p)))"

definition base_of :: "string \<Rightarrow> string" where
  "base_of p =
     (if p = [] then ''.''
      else let q = rev (dropWhile (\<lambda>c. c = CHR ''/'') (rev p)) in
        if q = [] then ''/'' else rev (takeWhile (\<lambda>c. c \<noteq> CHR ''/'') (rev q)))"

text \<open>The elements of the second after those both have.\<close>

fun common :: "string list \<Rightarrow> string list \<Rightarrow> string list \<times> string list" where
  "common (b # bs) (t # ts) = (if b = t then common bs ts else (b # bs, t # ts))"
| "common bs ts = (bs, ts)"

text \<open>\<open>None\<close>: the target cannot be made relative to the base.\<close>

definition rel_path :: "string \<Rightarrow> string \<Rightarrow> string option" where
  "rel_path base target =
     (if is_abs (clean base) \<noteq> is_abs (clean target) then None
      else case common (clean_elements base) (clean_elements target) of (bs, ts) \<Rightarrow>
        if bs \<noteq> [] \<and> hd bs = ''..'' then None
        else Some (path_of False (replicate (length bs) ''..'' @ ts)))"

section \<open>Clean paths\<close>

definition element :: "string \<Rightarrow> bool" where
  "element e \<longleftrightarrow> e \<noteq> [] \<and> e \<noteq> ''.'' \<and> CHR ''/'' \<notin> set e"

lemma split_on_parts: "e \<in> set (split_on c s) \<Longrightarrow> c \<notin> set e"
  by (induction s arbitrary: e) (auto split: if_splits list.splits)

lemma elements_ok: "list_all element (elements p)"
  by (auto simp: elements_def list_all_iff element_def dest: split_on_parts)

lemma resolve_ok: "list_all element kept \<Longrightarrow> list_all element es \<Longrightarrow> list_all element (resolve r kept es)"
  by (induction r kept es rule: resolve.induct) (auto split: list.splits)

lemma clean_elements_ok: "list_all element (clean_elements p)"
  by (simp add: clean_elements_def resolve_ok elements_ok)

lemma split_join_slash: "es \<noteq> [] \<Longrightarrow> list_all element es \<Longrightarrow> split_on CHR ''/'' (join_slash es) = es"
proof (induction es rule: join_slash.induct)
  case (2 e)
  have "split_on CHR ''/'' s = [s]" if "CHR ''/'' \<notin> set s" for s using that by (induction s) auto
  with 2 show ?case by (simp add: element_def)
next
  case (3 e f es)
  have line: "split_on CHR ''/'' (s @ CHR ''/'' # rest) = s # split_on CHR ''/'' rest" if "CHR ''/'' \<notin> set s" for s rest
    using that by (induction s) auto
  from 3 show ?case by (simp add: line element_def)
qed simp

text \<open>A path that is only \<open>..\<close>s at the front, none where it is rooted.\<close>

definition settled :: "bool \<Rightarrow> string list \<Rightarrow> bool" where
  "settled rooted es \<longleftrightarrow> (\<exists>n es'. es = replicate n ''..'' @ es' \<and> ''..'' \<notin> set es' \<and> (rooted \<longrightarrow> n = 0))"

lemma settled_push: "settled r es \<Longrightarrow> e \<noteq> ''..'' \<Longrightarrow> settled r (es @ [e])"
proof -
  assume "settled r es" and e: "e \<noteq> ''..''"
  then obtain n es' where "es = replicate n ''..'' @ es'" "''..'' \<notin> set es'" "r \<longrightarrow> n = 0" unfolding settled_def by blast
  with e show ?thesis unfolding settled_def by (intro exI [of _ n] exI [of _ "es' @ [e]"]) auto
qed

lemma settled_up: "settled False es \<Longrightarrow> es \<noteq> [] \<Longrightarrow> last es = ''..'' \<Longrightarrow> settled False (es @ [''..''])"
proof -
  assume s: "settled False es" and ne: "es \<noteq> []" and l: "last es = ''..''"
  from s obtain n es' where es: "es = replicate n ''..'' @ es'" "''..'' \<notin> set es'" unfolding settled_def by blast
  from es l ne have "es' = []" by (cases es' rule: rev_cases) auto
  with es have "es @ [''..''] = replicate (Suc n) ''..'' @ []" by (simp add: replicate_append_same)
  then show ?thesis unfolding settled_def by (metis empty_iff list.set(1))
qed

lemma settled_rooted_last: "settled True es \<Longrightarrow> es \<noteq> [] \<Longrightarrow> last es \<noteq> ''..''"
  unfolding settled_def by (metis append_Nil last_in_set replicate_0)

lemma settled_pop: "settled r (es @ [e]) \<Longrightarrow> e \<noteq> ''..'' \<Longrightarrow> settled r es"
proof -
  assume s: "settled r (es @ [e])" and e: "e \<noteq> ''..''"
  from s obtain n es' where es: "es @ [e] = replicate n ''..'' @ es'" "''..'' \<notin> set es'" "r \<longrightarrow> n = 0"
    unfolding settled_def by blast
  have "es' \<noteq> []"
  proof
    assume "es' = []"
    with es(1) have "e \<in> set (replicate n ''..'')" by (metis append_Nil2 in_set_conv_decomp)
    with e show False by auto
  qed
  with es(1) obtain es'' where "es' = es'' @ [e]" by (cases es' rule: rev_cases) auto
  with es show ?thesis unfolding settled_def by auto
qed

lemma settled_part: "settled r (cs @ es @ [e]) \<Longrightarrow> settled False es"
proof -
  assume "settled r (cs @ es @ [e])"
  then obtain n es' where eq: "cs @ es @ [e] = replicate n ''..'' @ es'" and names: "''..'' \<notin> set es'" unfolding settled_def by blast
  have es: "es = take (length es) (drop (length cs) (replicate n ''..'' @ es'))" by (simp flip: eq)
  show ?thesis unfolding settled_def
    by (intro exI [of _ "min (length es) (n - length cs)"] exI [of _ "take (length es - (n - length cs)) (drop (length cs - n) es')"],
      subst es) (use names in \<open>auto dest!: in_set_takeD in_set_dropD simp: drop_replicate take_replicate min.commute\<close>)
qed

lemma resolve_settled: "settled r (rev kept) \<Longrightarrow> settled r (resolve r kept es)"
proof (induction r kept es rule: resolve.induct)
  case (1 r kept)
  then show ?case by simp
next
  case (2 r kept e es)
  show ?case
  proof (cases "e = ''..''")
    case False
    with 2 show ?thesis by (simp add: settled_push)
  next
    case up: True
    show ?thesis
    proof (cases kept)
      case Nil
      have "settled False [''..'']" unfolding settled_def by (intro exI [of _ 1] exI [of _ "[]"]) simp
      with up Nil 2 show ?thesis by (cases r) simp_all
    next
      case (Cons k ks)
      show ?thesis
      proof (cases "k = ''..''")
        case True
        have "\<not> r"
        proof
          assume r
          with "2.prems" Cons have "settled True (rev kept)" by simp
          from settled_rooted_last [OF this] Cons True show False by (simp add: last_rev)
        qed
        with True up Cons 2 show ?thesis using settled_up [of "rev kept"] by (simp add: last_rev)
      next
        case False
        with up Cons 2 show ?thesis using settled_pop [of r "rev ks" k] by simp
      qed
    qed
  qed
qed

lemma clean_settled: "settled (is_abs p) (clean_elements p)"
proof -
  have "settled r []" for r unfolding settled_def by (intro exI [of _ 0] exI [of _ "[]"]) simp
  then show ?thesis unfolding clean_elements_def by (intro resolve_settled) simp
qed

lemma resolve_names: "''..'' \<notin> set es \<Longrightarrow> resolve r kept es = rev kept @ es"
  by (induction es arbitrary: kept) auto

lemma resolve_replicate: "resolve False (replicate m ''..'') (replicate n ''..'' @ es) = resolve False (replicate (m + n) ''..'') es"
proof (induction n arbitrary: m)
  case (Suc n)
  from Suc [of "Suc m"] show ?case by (cases m) simp_all
qed simp

lemma resolve_settled_id: "settled False es \<Longrightarrow> resolve False [] es = es"
proof -
  assume "settled False es"
  then obtain n es' where es: "es = replicate n ''..'' @ es'" "''..'' \<notin> set es'" unfolding settled_def by blast
  show ?thesis using resolve_replicate [of 0 n es'] by (simp add: es resolve_names)
qed

lemma resolve_name: "e \<noteq> ''..'' \<Longrightarrow> resolve r kept (es @ [e]) = resolve r kept es @ [e]"
  by (induction r kept es rule: resolve.induct) (auto split: list.splits)

lemma split_on_nonempty [simp]: "split_on c s \<noteq> []"
  by (induction s) (auto split: list.split)

lemma split_on_snoc: "c \<notin> set e \<Longrightarrow> split_on c (s @ c # e) = split_on c s @ [e]"
proof (induction s)
  case Nil
  have "split_on c e = [e]" using Nil by (induction e) auto
  then show ?case by simp
next
  case (Cons x s)
  then show ?case by (auto split: list.split)
qed

lemma elements_snoc: "element e \<Longrightarrow> elements (p @ CHR ''/'' # e) = elements p @ [e]"
  by (simp add: elements_def split_on_snoc element_def)

lemma is_abs_append: "p \<noteq> [] \<Longrightarrow> is_abs (p @ q) = is_abs p"
  by (cases p) (auto simp: is_abs_def has_prefix_def)

lemma is_abs_element: "element e \<Longrightarrow> \<not> is_abs (e @ q)"
  by (cases e) (auto simp: is_abs_def has_prefix_def element_def)

lemma is_abs_path_of: "list_all element es \<Longrightarrow> is_abs (path_of r es) = r"
  by (cases es rule: join_slash.cases)
    (auto simp: path_of_def is_abs_def has_prefix_def dest: is_abs_element [of _ "[]", simplified is_abs_def has_prefix_def]
      is_abs_element [of _ "CHR ''/'' # s" for s, simplified is_abs_def has_prefix_def])

lemma is_abs_clean [simp]: "is_abs (clean p) = is_abs p"
  by (simp add: clean_def is_abs_path_of clean_elements_ok)

lemma clean_join: "p \<noteq> [] \<Longrightarrow> element e \<Longrightarrow> e \<noteq> ''..'' \<Longrightarrow> clean_elements (p @ CHR ''/'' # e) = clean_elements p @ [e]"
  by (simp add: clean_elements_def elements_snoc resolve_name is_abs_append)

lemma join_path_two: "p \<noteq> [] \<Longrightarrow> e \<noteq> [] \<Longrightarrow> join_path [p, e] = clean (p @ CHR ''/'' # e)"
  by (simp add: join_path_def)

lemma path_of_join:
  "p \<noteq> [] \<Longrightarrow> element e \<Longrightarrow> e \<noteq> ''..'' \<Longrightarrow> join_path [p, e] = path_of (is_abs p) (clean_elements p @ [e])"
  by (subst join_path_two) (auto simp: clean_def clean_join is_abs_append element_def)

text \<open>Relative paths of one element.\<close>

lemma common_prefix: "common bs ts = (bs', ts') \<Longrightarrow> \<exists>cs. bs = cs @ bs' \<and> ts = cs @ ts'"
  by (induction bs ts rule: common.induct) (auto split: if_splits; (metis append_Cons | blast))+

lemma join_slash_dir:
  "list_all element es \<Longrightarrow> es \<noteq> [] \<Longrightarrow> list_all element (es @ [e]) \<Longrightarrow>
     rev (dropWhile (\<lambda>c. c \<noteq> CHR ''/'') (rev (join_slash (es @ [e])))) = join_slash es @ ''/''"
proof -
  assume "es \<noteq> []" and e: "list_all element (es @ [e])"
  then have "join_slash (es @ [e]) = join_slash es @ CHR ''/'' # e"
    by (induction es rule: join_slash.induct) auto
  moreover from e have "CHR ''/'' \<notin> set e" by (simp add: element_def)
  then have "dropWhile (\<lambda>c. c \<noteq> CHR ''/'') (rev e @ CHR ''/'' # s) = CHR ''/'' # s" for s
    by (subst dropWhile_append2) auto
  ultimately show ?thesis by simp
qed

lemma elements_join: "list_all element es \<Longrightarrow> elements (join_slash es @ ''/'') = es"
proof (cases "es = []")
  case True
  then show ?thesis by (simp add: elements_def)
next
  case False
  assume ok: "list_all element es"
  have "split_on CHR ''/'' (join_slash es @ CHR ''/'' # []) = es @ [[]]"
    by (subst split_on_snoc) (simp_all add: split_join_slash [OF False ok])
  moreover have "filter (\<lambda>e. e \<noteq> [] \<and> e \<noteq> ''.'') es = es" using ok by (auto simp: filter_id_conv list_all_iff element_def)
  ultimately show ?thesis by (simp add: elements_def)
qed

lemma join_slash_ne:
  assumes "list_all element es" and "es \<noteq> []"
  shows "join_slash es \<noteq> [] \<and> join_slash es \<noteq> ''.'' \<and> \<not> is_abs (join_slash es)"
proof -
  obtain e fs where es: "es = e # fs" using assms(2) by (cases es) auto
  with assms(1) have e: "element e" by simp
  obtain q where "join_slash es = e @ q" "q = [] \<or> hd q = CHR ''/''" unfolding es by (cases fs) auto
  with e is_abs_element [OF e, of q] show ?thesis by (cases e) (auto simp: element_def)
qed

text \<open>A relative path that is its own last element names a child.\<close>

lemma rel_child:
  assumes rel: "rel_path base target = Some rel" and names: "rel \<noteq> ''.''" "rel \<noteq> ''..''" "\<not> has_prefix rel ''../''"
    and dir: "dir_of rel = ''.''"
  shows "element rel \<and> rel \<noteq> ''..'' \<and> is_abs target = is_abs base \<and> clean_elements target = clean_elements base @ [rel]"
proof -
  from rel obtain bs ts where abs: "is_abs target = is_abs base"
    and common: "common (clean_elements base) (clean_elements target) = (bs, ts)"
    and r: "rel = path_of False (replicate (length bs) ''..'' @ ts)"
    by (auto simp: rel_path_def split: if_splits prod.splits)
  have ok: "list_all element ts" using common_prefix [OF common] clean_elements_ok [of target] by auto
  have "bs = []"
  proof (rule ccontr)
    assume "bs \<noteq> []"
    then obtain n where n: "replicate (length bs) ''..'' @ ts = ''..'' # replicate n ''..'' @ ts" by (cases bs) auto
    show False
    proof (cases "replicate n ''..'' @ ts")
      case Nil
      with r n names(2) show False by (simp add: path_of_def)
    next
      case (Cons f fs)
      then have "rel = ''..'' @ CHR ''/'' # join_slash (f # fs)" using r n by (simp add: path_of_def)
      with names(3) show False by (simp add: has_prefix_def)
    qed
  qed
  with common_prefix [OF common] have target: "clean_elements target = clean_elements base @ ts" by auto
  from r \<open>bs = []\<close> have r: "rel = path_of False ts" by simp
  with names(1) have ne: "ts \<noteq> []" by (auto simp: path_of_def)
  obtain es e where ts: "ts = es @ [e]" using ne by (cases ts rule: rev_cases) auto
  have "es = []"
  proof (rule ccontr)
    assume es: "es \<noteq> []"
    have okes: "list_all element es" using ok ts by simp
    have "settled False es"
      using clean_settled [of target] unfolding target ts by (metis append.assoc settled_part)
    then have "clean_elements (join_slash es @ ''/'') = es"
      using join_slash_ne [OF okes es] by (simp add: clean_elements_def elements_join [OF okes] is_abs_append resolve_settled_id)
    moreover have "dir_of rel = clean (join_slash es @ ''/'')"
      using join_slash_dir [OF okes es] ok ts by (simp add: dir_of_def r path_of_def)
    ultimately have "dir_of rel = join_slash es"
      using join_slash_ne [OF okes es] es by (simp add: clean_def is_abs_append path_of_def)
    with dir join_slash_ne [OF okes es] show False by simp
  qed
  with ts r have "rel = e" by (simp add: path_of_def)
  with ok ts \<open>es = []\<close> names(2) abs target show ?thesis by simp
qed

section \<open>Children\<close>

lemma elements_join_slash: "es \<noteq> [] \<Longrightarrow> list_all element es \<Longrightarrow> elements (join_slash es) = es"
  by (auto simp: elements_def split_join_slash filter_id_conv list_all_iff element_def)

lemma resolve_settled_any: "settled r es \<Longrightarrow> resolve r [] es = es"
proof (cases r)
  case True
  assume "settled r es"
  with True have "''..'' \<notin> set es" unfolding settled_def by auto
  then show ?thesis by (simp add: resolve_names)
next
  case False
  assume "settled r es"
  with False show ?thesis by (simp add: resolve_settled_id)
qed

lemma elements_rooted: "elements (CHR ''/'' # s) = elements s"
  by (simp add: elements_def split: list.split)

lemma clean_elements_path_of:
  assumes "list_all element es" and "settled r es"
  shows "clean_elements (path_of r es) = es"
proof (cases "es = []")
  case True
  then show ?thesis by (cases r) (simp_all add: clean_elements_def path_of_def elements_def is_abs_def has_prefix_def)
next
  case False
  then have "elements (path_of r es) = es" using assms(1) by (simp add: path_of_def elements_rooted elements_join_slash)
  then show ?thesis using assms by (simp add: clean_elements_def is_abs_path_of resolve_settled_any)
qed

lemma clean_elements_clean [simp]: "clean_elements (clean p) = clean_elements p"
  unfolding clean_def by (rule clean_elements_path_of [OF clean_elements_ok clean_settled])

lemma clean_clean [simp]: "clean (clean p) = clean p"
  unfolding clean_def [of "clean p"] is_abs_clean clean_elements_clean by (simp only: clean_def [of p])

lemma join_slash_nil: "list_all element es \<Longrightarrow> join_slash es = [] \<longleftrightarrow> es = []"
  by (cases es rule: join_slash.cases) (auto simp: element_def)

lemma clean_nonempty [simp]: "clean p \<noteq> []"
  using clean_elements_ok [of p] by (simp add: clean_def path_of_def join_slash_nil)

lemma join_child:
  assumes "p \<noteq> []" and "element e" and "e \<noteq> ''..''"
  shows "clean_elements (join_path [p, e]) = clean_elements p @ [e]" "is_abs (join_path [p, e]) = is_abs p"
    "clean (join_path [p, e]) = join_path [p, e]" "join_path [p, e] \<noteq> []"
proof -
  have two: "join_path [p, e] = clean (p @ CHR ''/'' # e)" using assms by (simp add: join_path_two element_def)
  show "clean_elements (join_path [p, e]) = clean_elements p @ [e]" using assms by (simp add: two clean_join)
  show "is_abs (join_path [p, e]) = is_abs p" using assms by (simp add: two is_abs_append)
  show "clean (join_path [p, e]) = join_path [p, e]" by (simp add: two)
  show "join_path [p, e] \<noteq> []" by (simp add: two)
qed

lemma clean_eqI: "is_abs p = is_abs q \<Longrightarrow> clean_elements p = clean_elements q \<Longrightarrow> clean p = clean q"
  by (simp add: clean_def)

lemma last_slash: "CHR ''/'' \<notin> set e \<Longrightarrow> rev (dropWhile (\<lambda>c. c \<noteq> CHR ''/'') (rev (s @ CHR ''/'' # e))) = s @ ''/''"
proof -
  assume "CHR ''/'' \<notin> set e"
  then have "dropWhile (\<lambda>c. c \<noteq> CHR ''/'') (rev e @ CHR ''/'' # t) = CHR ''/'' # t" for t
    by (subst dropWhile_append2) auto
  then show ?thesis by simp
qed

lemma join_slash_snoc: "es \<noteq> [] \<Longrightarrow> join_slash (es @ [e]) = join_slash es @ CHR ''/'' # e"
  by (induction es rule: join_slash.induct) auto

text \<open>The directory and the last element of a child.\<close>

lemma path_of_snoc:
  assumes "list_all element es" and "settled r es"
  shows "\<exists>s. path_of r (es @ [e]) = s @ e \<and> (s = [] \<or> (\<exists>t. s = t @ ''/'')) \<and> is_abs s = r \<and> clean_elements s = es"
proof (cases "es = []")
  case True
  have "clean_elements ''/'' = []" "clean_elements [] = []"
    by (simp_all add: clean_elements_def elements_def is_abs_def has_prefix_def)
  moreover have "is_abs ''/''" "\<not> is_abs []" by (simp_all add: is_abs_def has_prefix_def)
  ultimately show ?thesis using True by (cases r) (force simp: path_of_def)+
next
  case False
  let ?s = "(if r then CHR ''/'' # join_slash es else join_slash es) @ ''/''"
  have "path_of r (es @ [e]) = ?s @ e" using False by (simp add: path_of_def join_slash_snoc)
  moreover have abs: "is_abs ?s = r"
    using join_slash_ne [OF assms(1) False] by (cases "join_slash es") (auto simp: is_abs_def has_prefix_def)
  moreover have "elements ?s = es"
    using elements_join [OF assms(1)] by (auto simp: elements_rooted)
  then have "clean_elements ?s = es" using abs resolve_settled_any [OF assms(2)] by (simp add: clean_elements_def)
  ultimately show ?thesis by blast
qed

lemma child_parts:
  assumes p: "p \<noteq> []" and e: "element e" "e \<noteq> ''..''"
  shows "dir_of (join_path [p, e]) = clean p" "base_of (join_path [p, e]) = e"
proof -
  obtain s where s: "join_path [p, e] = s @ e" "s = [] \<or> (\<exists>t. s = t @ ''/'')" "is_abs s = is_abs p" "clean_elements s = clean_elements p"
    using path_of_snoc [OF clean_elements_ok clean_settled, of p e] path_of_join [OF p e] by auto
  from e(1) have slash: "CHR ''/'' \<notin> set e" "e \<noteq> []" by (simp_all add: element_def)
  have "rev (dropWhile (\<lambda>c. c \<noteq> CHR ''/'') (rev (s @ e))) = s"
  proof (cases "s = []")
    case True
    from slash(1) have "\<forall>c \<in> set (rev e). c \<noteq> CHR ''/''" by auto
    then have "dropWhile (\<lambda>c. c \<noteq> CHR ''/'') (rev e) = []" unfolding dropWhile_eq_Nil_conv .
    with True show ?thesis by simp
  next
    case False
    with s(2) obtain t where "s = t @ ''/''" by blast
    with last_slash [OF slash(1), of t] show ?thesis by simp
  qed
  then show "dir_of (join_path [p, e]) = clean p" using s(3,4) by (simp add: dir_of_def s(1) clean_def)
  have "dropWhile (\<lambda>c. c = CHR ''/'') (rev (s @ e)) = rev (s @ e)" using slash
    by (cases e rule: rev_cases) auto
  moreover have "rev (takeWhile (\<lambda>c. c \<noteq> CHR ''/'') (rev (s @ e))) = e"
  proof (cases "s = []")
    case True
    moreover from slash(1) have "\<forall>c \<in> set (rev e). c \<noteq> CHR ''/''" by auto
    then have "takeWhile (\<lambda>c. c \<noteq> CHR ''/'') (rev e) = rev e" unfolding takeWhile_eq_all_conv .
    ultimately show ?thesis by (simp only: append_Nil rev_rev_ident)
  next
    case False
    with s(2) obtain t where "s = t @ ''/''" by blast
    moreover have "takeWhile (\<lambda>c. c \<noteq> CHR ''/'') (rev e @ CHR ''/'' # u) = rev e" for u
      using slash(1) by (subst takeWhile_append2) auto
    ultimately show ?thesis by simp
  qed
  ultimately show "base_of (join_path [p, e]) = e" using slash(2) by (simp add: base_of_def s(1) Let_def)
qed

lemma common_same: "common xs (xs @ ys) = ([], ys)"
  by (induction xs) (cases ys; simp)+

lemma rel_of_child:
  assumes "q = join_path [p, e]" and "p \<noteq> []" and "element e" and "e \<noteq> ''..''"
  shows "rel_path (clean p) q = Some e"
  using assms join_child [OF assms(2-4)] by (simp add: rel_path_def common_same path_of_def)

lemma dir_of_element: "element e \<Longrightarrow> dir_of e = ''.''"
proof -
  assume "element e"
  then have "\<forall>c \<in> set (rev e). c \<noteq> CHR ''/''" by (auto simp: element_def)
  then have drop: "dropWhile (\<lambda>c. c \<noteq> CHR ''/'') (rev e) = []" unfolding dropWhile_eq_Nil_conv .
  show ?thesis unfolding dir_of_def drop
    by (simp add: clean_def clean_elements_def elements_def is_abs_def has_prefix_def path_of_def)
qed

lemma element_no_prefix: "element e \<Longrightarrow> CHR ''/'' \<in> set p \<Longrightarrow> \<not> has_prefix e p"
proof
  assume "element e" "CHR ''/'' \<in> set p" "has_prefix e p"
  moreover from this obtain q where "e = p @ q" by (auto simp: has_prefix_def) (metis append_take_drop_id)
  ultimately show False by (auto simp: element_def)
qed

lemma clean_elements_slash: "t \<noteq> [] \<Longrightarrow> clean_elements (t @ ''/'') = clean_elements t"
proof -
  assume t: "t \<noteq> []"
  have "split_on CHR ''/'' (t @ ''/'') = split_on CHR ''/'' t @ [[]]" using split_on_snoc [of "CHR ''/''" "[]" t] by simp
  then show ?thesis using t by (simp add: clean_elements_def elements_def is_abs_append)
qed

text \<open>The directory of a path that ends with a name.\<close>

lemma dir_of_named:
  assumes s: "s = [] \<or> (\<exists>t. s = t @ ''/'')" and e: "element e" "e \<noteq> ''..''"
  shows "dir_of (s @ e) = clean s" "clean_elements (s @ e) = clean_elements s @ [e]" "is_abs (s @ e) = is_abs s"
proof -
  have no: "\<forall>c \<in> set (rev e). c \<noteq> CHR ''/''" and ne: "e \<noteq> []" using e(1) by (auto simp: element_def)
  have drop: "dropWhile (\<lambda>c. c \<noteq> CHR ''/'') (rev e) = []" using no unfolding dropWhile_eq_Nil_conv .
  have slash: "CHR ''/'' \<notin> set e" using e(1) by (simp add: element_def)
  from s show "dir_of (s @ e) = clean s"
  proof
    assume "s = []"
    then show ?thesis by (simp only: dir_of_def append_Nil drop rev.simps(1))
  next
    assume "\<exists>t. s = t @ ''/''"
    then obtain t where t: "s = t @ ''/''" by blast
    show ?thesis using last_slash [OF slash, of t] by (simp only: dir_of_def t append_assoc append_Cons append_Nil)
  qed
  show "is_abs (s @ e) = is_abs s"
  proof -
    have "is_abs ((t @ ''/'') @ e) = is_abs (t @ ''/'')" for t by (rule is_abs_append) simp
    moreover have "is_abs ([] @ e) = is_abs []" using is_abs_element [OF e(1), of "[]"] by (simp add: is_abs_def has_prefix_def)
    ultimately show ?thesis using s by blast
  qed
  show "clean_elements (s @ e) = clean_elements s @ [e]"
  proof (cases "s = []")
    case True
    have "split_on CHR ''/'' e = [e]" using no by (induction e) auto
    then have "elements e = [e]" using e(1) by (simp add: elements_def element_def)
    moreover have "\<not> is_abs e" using is_abs_element [OF e(1), of "[]"] by simp
    ultimately show ?thesis using True e(2) by (simp add: clean_elements_def) (simp add: elements_def)
  next
    case False
    with s obtain t where t: "s = t @ ''/''" by blast
    show ?thesis
    proof (cases "t = []")
      case True
      have "elements (CHR ''/'' # e) = [e]" "elements ''/'' = []"
        using elements_snoc [OF e(1), of "[]"] by (simp_all add: elements_def)
      moreover have "is_abs (CHR ''/'' # e)" "is_abs ''/''" by (simp_all add: is_abs_def has_prefix_def)
      ultimately show ?thesis using True t e(2) by (simp add: clean_elements_def)
    next
      case False
      with t e show ?thesis using clean_join [OF False e] clean_elements_slash [OF False] by simp
    qed
  qed
qed

lemma last_component:
  obtains s where "p = s @ rev (takeWhile (\<lambda>c. c \<noteq> CHR ''/'') (rev p))" "s = [] \<or> (\<exists>t. s = t @ ''/'')"
proof -
  let ?e = "takeWhile (\<lambda>c. c \<noteq> CHR ''/'') (rev p)" and ?r = "dropWhile (\<lambda>c. c \<noteq> CHR ''/'') (rev p)"
  have p: "p = rev ?r @ rev ?e" by (metis rev_append rev_rev_ident takeWhile_dropWhile_id)
  have "rev ?r = [] \<or> (\<exists>t. rev ?r = t @ ''/'')"
  proof (cases ?r)
    case (Cons c u)
    then have "c = CHR ''/''" using hd_dropWhile [of "\<lambda>c. c \<noteq> CHR ''/''" "rev p"] by auto
    with Cons show ?thesis by auto
  qed simp
  with p that show ?thesis by blast
qed

end
