(* ===== verification/Desktop_Host.thy ===== *)
theory Desktop_Host
  imports Node Wg_Conf Go_Path "HOL-Library.AList"
begin

text \<open>
  The host the desktop runtime of \<open>overlay/runtime\<close> works on: its own directory (two manifests
  and one directory per revision), and what it asks of the operating system through
  \<open>desktopBackend\<close>, in order. Every answer of the host is read from an environment by the
  number of the question. The trust checks of \<open>overlay/runtime/desktop.go\<close> are here too.
\<close>

section \<open>Data\<close>

record process_identity =
  pi_pid :: int
  pi_executable :: string
  pi_config :: string
  pi_sha256 :: string
  pi_revision :: string
  pi_start :: string

record manifest =
  dm_schema :: int
  dm_revision :: string
  dm_core :: string
  dm_adapter :: string
  dm_interface :: string
  dm_loopback :: string
  dm_xray_config :: string
  dm_wg_config :: string
  dm_wg_sha256 :: string
  dm_xray :: process_identity
  dm_manager :: "process_identity option"
  dm_wg_up :: bool
  dm_index :: int
  dm_stopped :: bool
  dm_applied :: gotime

record dependencies =
  dp_xray :: string
  dp_wg :: string
  dp_wg_quick :: string

record mesh_file =
  mf_config :: mesh_config
  mf_wg_config :: string
  mf_status :: string

text \<open>What the runtime does to the host, as it does it.\<close>

datatype host_event =
    Ran string "string list"
  | Started string "string list" string string
  | Stopping process_identity
  | Wrote string
  | RemovedTree string
  | RemovedFile string

text \<open>The directory of a revision is known by its name, its files by theirs.\<close>

record host =
  h_tick :: nat
  h_active :: "manifest file_state"
  h_good :: "manifest file_state"
  h_revs :: "(string \<times> (string \<times> byte list) list) list"
  h_log :: "host_event list"

record host_env =
  he_sha256 :: "byte list \<Rightarrow> byte list"
  he_json :: "json \<Rightarrow> byte list"
  he_mesh_json :: "mesh_file \<Rightarrow> byte list"
  he_mesh_parse :: "byte list \<Rightarrow> mesh_file option"
  he_paths_parse :: "byte list \<Rightarrow> peer_status list"
  he_state :: string
  he_foreign :: "string \<Rightarrow> byte list option"
  he_managed :: "nat \<Rightarrow> (string \<times> string) option"
  he_look :: "string \<Rightarrow> nat \<Rightarrow> error + string"
  he_privileged :: "nat \<Rightarrow> bool"
  he_index :: "string \<Rightarrow> nat \<Rightarrow> error + int"
  he_resolve :: "string \<Rightarrow> nat \<Rightarrow> (error + string) option"
  he_service :: "string \<Rightarrow> string \<Rightarrow> string \<Rightarrow> nat \<Rightarrow> error + bool \<times> bool"
  he_run :: "nat \<Rightarrow> error option"
  he_start :: "nat \<Rightarrow> error + int \<times> string"
  he_alive :: "process_identity \<Rightarrow> nat \<Rightarrow> error + bool"
  he_stop :: "nat \<Rightarrow> error option"
  he_available :: "string \<Rightarrow> nat \<Rightarrow> error + bool"
  he_owned :: "process_identity \<Rightarrow> string \<Rightarrow> nat \<Rightarrow> error + bool"
  he_rounds :: "nat \<Rightarrow> nat"
  he_ctx :: "nat \<Rightarrow> error option"
  he_read :: "nat \<Rightarrow> read_outcome"
  he_file :: "nat \<Rightarrow> error option"
  he_private :: "nat \<Rightarrow> bool"
  he_write :: "nat \<Rightarrow> write_outcome"
  he_secure :: "nat \<Rightarrow> string option"
  he_remove :: "nat \<Rightarrow> error option"
  he_left :: "nat \<Rightarrow> string \<Rightarrow> bool"
  he_list :: "nat \<Rightarrow> error option option"
  he_canonical :: "string \<Rightarrow> string"
  he_temp :: "nat \<Rightarrow> error + nat"
  he_self :: "nat \<Rightarrow> error + string"
  he_port :: "string \<Rightarrow> nat \<Rightarrow> error + string"
  he_now :: "nat \<Rightarrow> gotime"
  he_check :: "nat \<Rightarrow> check_env"

section \<open>Questions and effects\<close>

type_synonym 'a rt = "(host, 'a) step"

definition htick :: "host \<Rightarrow> host" where
  "htick h = h\<lparr>h_tick := Suc (h_tick h)\<rparr>"

definition ask :: "(nat \<Rightarrow> 'a) \<Rightarrow> 'a rt" where
  "ask f h = (Inr (f (h_tick h)), htick h)"

definition query :: "(nat \<Rightarrow> error + 'a) \<Rightarrow> 'a rt" where
  "query f h = (f (h_tick h), htick h)"

definition act :: "host_event \<Rightarrow> (nat \<Rightarrow> error + 'a) \<Rightarrow> 'a rt" where
  "act e f h = (f (h_tick h), htick (h\<lparr>h_log := h_log h @ [e]\<rparr>))"

text \<open>Short-circuit conjunction, and the discarded result of a call.\<close>

definition andW :: "bool rt \<Rightarrow> bool rt \<Rightarrow> bool rt" where
  "andW m n = bindW m (\<lambda>b. if b then n else ret False)"

definition dropW :: "'a rt \<Rightarrow> unit rt" where
  "dropW m = bindW (tryW m) (\<lambda>_. ret ())"

definition error_of :: "error + 'a \<Rightarrow> error option" where
  "error_of r = (case r of Inl e \<Rightarrow> Some e | Inr a \<Rightarrow> None)"

text \<open>Any error of \<open>m\<close> is replaced.\<close>

definition orfail :: "error \<Rightarrow> 'a rt \<Rightarrow> 'a rt" where
  "orfail e m = bindW (tryW m) (\<lambda>r. case r of Inl _ \<Rightarrow> raise e | Inr a \<Rightarrow> ret a)"

section \<open>The two manifests\<close>

definition read_manifest :: "read_outcome \<Rightarrow> manifest file_state \<Rightarrow> error + manifest option" where
  "read_manifest io f =
     (case f of
        Absent \<Rightarrow> Inr None
      | _ \<Rightarrow>
          if io = StatFails \<or> f = Exposed then Inl (fault CodeStateIO ''validate runtime metadata permissions'')
          else if io = OpenFails then Inl (fault CodeStateIO ''open runtime metadata'')
          else (case f of Doc m \<Rightarrow> Inr (Some m) | _ \<Rightarrow> Inl (fault CodeStateIO ''decode runtime metadata'')))"

definition load_active :: "host_env \<Rightarrow> manifest option rt" where
  "load_active E h = (read_manifest (he_read E (h_tick h)) (h_active h), htick h)"

definition load_good :: "host_env \<Rightarrow> manifest option rt" where
  "load_good E h = (read_manifest (he_read E (h_tick h)) (h_good h), htick h)"

text \<open>\<open>writeFile0600\<close>: what is there is replaced, or not, before the error.\<close>

definition write_artifact :: "write_outcome \<Rightarrow> 'a \<Rightarrow> 'a \<Rightarrow> error option \<times> 'a" where
  "write_artifact io new old =
     (case io of
        WriteOk \<Rightarrow> (None, new)
      | FailsBefore op \<Rightarrow> (Some (fault CodeStateIO op), old)
      | FailsAfter \<Rightarrow> (Some (fault CodeStateIO ''secure runtime artifact''), new))"

definition save_active :: "host_env \<Rightarrow> manifest \<Rightarrow> unit rt" where
  "save_active E m h =
     (case write_artifact (he_write E (h_tick h)) (Doc (m\<lparr>dm_schema := 1\<rparr>)) (h_active h) of
        (e, f) \<Rightarrow> (of_option e, htick (h\<lparr>h_active := f\<rparr>)))"

definition save_good :: "host_env \<Rightarrow> manifest \<Rightarrow> unit rt" where
  "save_good E m h =
     (case write_artifact (he_write E (h_tick h)) (Doc (m\<lparr>dm_schema := 1\<rparr>)) (h_good h) of
        (e, f) \<Rightarrow> (of_option e, htick (h\<lparr>h_good := f\<rparr>)))"

section \<open>Revision directories\<close>

definition runtime_dir :: "host_env \<Rightarrow> string" where
  "runtime_dir E = join_path [clean (he_state E), ''runtime'']"

definition revisions_dir :: "host_env \<Rightarrow> string" where
  "revisions_dir E = clean (join_path [runtime_dir E, ''revisions''])"

text \<open>An entry of the revisions directory.\<close>

definition revision_path :: "host_env \<Rightarrow> string \<Rightarrow> string" where
  "revision_path E name = join_path [join_path [runtime_dir E, ''revisions''], name]"

text \<open>The name of a directory that is a child of the revisions directory.\<close>

definition revision_name :: "host_env \<Rightarrow> string \<Rightarrow> string option" where
  "revision_name E directory =
     (case rel_path (revisions_dir E) directory of
        None \<Rightarrow> None
      | Some r \<Rightarrow>
          if r = ''.'' \<or> r = [] \<or> has_prefix r ''../'' \<or> r = ''..'' then None
          else if dir_of r \<noteq> ''.'' then None else Some r)"

definition revision_directory :: "host_env \<Rightarrow> manifest \<Rightarrow> string option" where
  "revision_directory E m =
     (let d = clean (dir_of (dm_xray_config m)) in map_option (\<lambda>_. d) (revision_name E d))"

text \<open>
  A path that ends with a slash or a dot element names no file. Otherwise a file is in a
  revision, or somewhere the runtime does not write.
\<close>

definition names_file :: "string \<Rightarrow> bool" where
  "names_file p \<longleftrightarrow> rev (takeWhile (\<lambda>c. c \<noteq> CHR ''/'') (rev p)) \<notin> {[], ''.'', ''..''}"

definition file_of :: "host_env \<Rightarrow> string \<Rightarrow> (string \<times> string) option" where
  "file_of E path =
     (if names_file path then map_option (\<lambda>n. (n, base_of (clean path))) (revision_name E (dir_of (clean path))) else None)"

definition file_at :: "host_env \<Rightarrow> host \<Rightarrow> string \<Rightarrow> byte list option" where
  "file_at E h path =
     (case file_of E path of
        Some (n, f) \<Rightarrow> Option.bind (map_of (h_revs h) n) (\<lambda>fs. map_of fs f)
      | None \<Rightarrow> if names_file path then he_foreign E (clean path) else None)"

definition put_file :: "host_env \<Rightarrow> string \<Rightarrow> byte list \<Rightarrow> host \<Rightarrow> host" where
  "put_file E path raw h =
     (case file_of E path of
        None \<Rightarrow> h
      | Some (n, f) \<Rightarrow>
          (let fs = (case map_of (h_revs h) n of None \<Rightarrow> [] | Some fs \<Rightarrow> fs)
           in h\<lparr>h_revs := AList.update n (AList.update f raw fs) (h_revs h)\<rparr>))"

definition private_file :: "host_env \<Rightarrow> string \<Rightarrow> bool rt" where
  "private_file E path h = (Inr (file_at E h path \<noteq> None \<and> he_private E (h_tick h)), htick h)"

definition private_directory :: "host_env \<Rightarrow> string \<Rightarrow> bool rt" where
  "private_directory E path h =
     (Inr ((\<exists>name \<in> set_option (revision_name E path). map_of (h_revs h) name \<noteq> None) \<and> he_private E (h_tick h)), htick h)"

definition read_file :: "host_env \<Rightarrow> string \<Rightarrow> byte list rt" where
  "read_file E path h =
     ((case he_file E (h_tick h) of
         Some e \<Rightarrow> Inl e
       | None \<Rightarrow> (case file_at E h path of None \<Rightarrow> Inl (Plain ''no such file'') | Some raw \<Rightarrow> Inr raw)), htick h)"

text \<open>\<open>secureDirectory\<close>: the operation that failed, if one did.\<close>

definition secure_directory :: "host_env \<Rightarrow> unit rt" where
  "secure_directory E = query (\<lambda>n. case he_secure E n of None \<Rightarrow> Inr () | Some op \<Rightarrow> Inl (fault CodeStateIO op))"

definition write_file :: "host_env \<Rightarrow> string \<Rightarrow> byte list \<Rightarrow> unit rt" where
  "write_file E path raw h =
     (case write_artifact (he_write E (h_tick h)) (put_file E path raw h) h of
        (e, h') \<Rightarrow> (of_option e, htick (h'\<lparr>h_log := h_log h' @ [Wrote path]\<rparr>)))"

text \<open>\<open>os.RemoveAll\<close> of a directory: where it fails, some of its files may be gone.\<close>

definition drop_revision :: "string \<Rightarrow> host \<Rightarrow> host" where
  "drop_revision name h = h\<lparr>h_revs := filter (\<lambda>(n, fs). n \<noteq> name) (h_revs h)\<rparr>"

definition thin_revision :: "(string \<Rightarrow> bool) \<Rightarrow> string \<Rightarrow> host \<Rightarrow> host" where
  "thin_revision left name h =
     h\<lparr>h_revs := map (\<lambda>(n, fs). (n, if n = name then filter (\<lambda>(f, raw). left f) fs else fs)) (h_revs h)\<rparr>"

definition on_revision :: "host_env \<Rightarrow> string \<Rightarrow> (string \<Rightarrow> host \<Rightarrow> host) \<Rightarrow> host \<Rightarrow> host" where
  "on_revision E path f h = (case revision_name E path of None \<Rightarrow> h | Some n \<Rightarrow> f n h)"

definition logged :: "host_event \<Rightarrow> host \<Rightarrow> host" where
  "logged e h = h\<lparr>h_log := h_log h @ [e]\<rparr>"

definition remove_tree :: "host_env \<Rightarrow> string \<Rightarrow> unit rt" where
  "remove_tree E path h =
     (case he_remove E (h_tick h) of
        Some e \<Rightarrow> (Inl e, htick (logged (RemovedTree path) (on_revision E path (thin_revision (he_left E (h_tick h))) h)))
      | None \<Rightarrow> (Inr (), htick (logged (RemovedTree path) (on_revision E path drop_revision h))))"

text \<open>\<open>os.Remove\<close> of a directory, which has to be empty; its error is dropped.\<close>

definition remove_empty :: "host_env \<Rightarrow> string \<Rightarrow> unit rt" where
  "remove_empty E path h =
     (Inr (), htick (on_revision E path
        (\<lambda>n h. if he_remove E (h_tick h) = None \<and> map_of (h_revs h) n = Some [] then drop_revision n h else h) h))"

text \<open>\<open>removeOwnedRegularFile\<close>, for the file of a revision and for the manifests.\<close>

definition drop_file :: "host_env \<Rightarrow> string \<Rightarrow> host \<Rightarrow> host" where
  "drop_file E path h =
     (if names_file path then on_revision E (dir_of (clean path)) (thin_revision (\<lambda>f. f \<noteq> base_of (clean path))) h else h)"

definition remove_owned :: "host_env \<Rightarrow> string \<Rightarrow> unit rt" where
  "remove_owned E path h =
     (if file_at E h path = None then (Inr (), htick h)
      else if \<not> he_private E (h_tick h) then (Inl (fault CodeStateIO ''validate owned runtime file''), htick h)
      else (case he_remove E (h_tick h) of
              Some e \<Rightarrow> (Inl (fault_cause CodeStateIO ''remove owned runtime file'' e), htick (logged (RemovedFile path) h))
            | None \<Rightarrow> (Inr (), htick (logged (RemovedFile path) (drop_file E path h)))))"

definition remove_manifest :: "host_env \<Rightarrow> nat \<Rightarrow> manifest file_state \<Rightarrow> (error + unit) \<times> manifest file_state" where
  "remove_manifest E n f =
     (case f of
        Absent \<Rightarrow> (Inr (), f)
      | Exposed \<Rightarrow> (Inl (fault CodeStateIO ''validate owned runtime file''), f)
      | _ \<Rightarrow>
          (case he_remove E n of
             Some e \<Rightarrow> (Inl (fault_cause CodeStateIO ''remove owned runtime file'' e), f)
           | None \<Rightarrow> (Inr (), Absent)))"

definition remove_active :: "host_env \<Rightarrow> unit rt" where
  "remove_active E h = (case remove_manifest E (h_tick h) (h_active h) of (r, f) \<Rightarrow> (r, htick (h\<lparr>h_active := f\<rparr>)))"

definition remove_good :: "host_env \<Rightarrow> unit rt" where
  "remove_good E h = (case remove_manifest E (h_tick h) (h_good h) of (r, f) \<Rightarrow> (r, htick (h\<lparr>h_good := f\<rparr>)))"

section \<open>The backend\<close>

definition lookup_xray :: "host_env \<Rightarrow> string rt" where
  "lookup_xray E = bindW (ask (he_managed E)) (\<lambda>m. case m of
       Some (path, version) \<Rightarrow> ret path
     | None \<Rightarrow> query (he_look E ''xray''))"

definition find_dependencies :: "host_env \<Rightarrow> dependencies rt" where
  "find_dependencies E =
     bindW (orfail (fault CodeRuntimeDependency ''locate Xray runtime'') (lookup_xray E)) (\<lambda>xray.
     bindW (orfail (fault CodeRuntimeDependency ''locate WireGuard runtime'') (query (he_look E ''wg''))) (\<lambda>wg.
     bindW (orfail (fault CodeRuntimeDependency ''locate WireGuard runtime'') (query (he_look E ''wg-quick''))) (\<lambda>quick.
       ret \<lparr>dp_xray = xray, dp_wg = wg, dp_wg_quick = quick\<rparr>)))"

definition run_command :: "host_env \<Rightarrow> string \<Rightarrow> string list \<Rightarrow> unit rt" where
  "run_command E command args = act (Ran command args) (\<lambda>n. of_option (he_run E n))"

text \<open>The backends return the identity of what they started.\<close>

fun config_argument :: "string list \<Rightarrow> string" where
  "config_argument (a # b # args) = (if a = ''-config'' then clean b else config_argument (b # args))"
| "config_argument _ = []"

definition started_identity :: "host_env \<Rightarrow> string \<Rightarrow> string list \<Rightarrow> string \<Rightarrow> string \<Rightarrow> int \<times> string \<Rightarrow> process_identity" where
  "started_identity E executable args revision sha answer =
     \<lparr>pi_pid = fst answer, pi_executable = he_canonical E executable, pi_config = config_argument args, pi_sha256 = sha,
      pi_revision = revision, pi_start = snd answer\<rparr>"

definition start_process :: "host_env \<Rightarrow> string \<Rightarrow> string list \<Rightarrow> string \<Rightarrow> string \<Rightarrow> process_identity rt" where
  "start_process E executable args revision sha =
     bindW (act (Started executable args revision sha) (he_start E)) (\<lambda>answer.
       ret (started_identity E executable args revision sha answer))"

definition stop_process :: "host_env \<Rightarrow> process_identity \<Rightarrow> unit rt" where
  "stop_process E p = act (Stopping p) (\<lambda>n. of_option (he_stop E n))"

definition service_state :: "host_env \<Rightarrow> string \<Rightarrow> string \<Rightarrow> string \<Rightarrow> (bool \<times> bool) rt" where
  "service_state E interface executable path = query (he_service E interface executable path)"

section \<open>The mesh file\<close>

definition load_mesh :: "host_env \<Rightarrow> string \<Rightarrow> mesh_file rt" where
  "load_mesh E path =
     bindW (private_file E path) (\<lambda>private. ifW (\<not> private) (Plain ''untrusted path manager file'')
     (bindW (read_file E path) (\<lambda>raw.
        case he_mesh_parse E raw of
          None \<Rightarrow> raise (Plain ''invalid character'')
        | Some f \<Rightarrow> bindW (ask (he_check E)) (\<lambda>k.
            case mesh_config_validate (ce_resolve k) (ce_now1 k) (ce_now2 k) (mf_config f) of
              Some e \<Rightarrow> raise e
            | None \<Rightarrow>
                ifW (mf_wg_config f \<noteq> join_path [dir_of path, mc_interface (mf_config f) @ ''.conf''] \<or>
                     mf_status f \<noteq> join_path [dir_of path, ''paths.json''])
                  (Plain ''invalid mesh artifact paths'') (ret f)))))"

definition mesh_matches :: "host_env \<Rightarrow> manifest \<Rightarrow> mesh_config option \<Rightarrow> bool rt" where
  "mesh_matches E m template =
     (case template of
        None \<Rightarrow> ret (dm_manager m = None)
      | Some t \<Rightarrow>
          (case dm_manager m of
             None \<Rightarrow> ret False
           | Some p \<Rightarrow> bindW (tryW (load_mesh E (pi_config p))) (\<lambda>r. case r of
                 Inl e \<Rightarrow> ret False
               | Inr f \<Rightarrow> ret (map (\<lambda>q. q\<lparr>LocalEndpoint := []\<rparr>) (mc_peers (mf_config f)) = mc_peers t \<and>
                   mc_network (mf_config f) = mc_network t \<and> mc_device (mf_config f) = mc_device t \<and>
                   mc_gateway_key (mf_config f) = mc_gateway_key t))))"

definition with_manager :: "manifest \<Rightarrow> process_identity \<Rightarrow> string \<Rightarrow> manifest" where
  "with_manager m p sha = m\<lparr>dm_manager := Some (p\<lparr>pi_sha256 := sha\<rparr>)\<rparr>"

definition refresh_mesh_expiry :: "host_env \<Rightarrow> manifest \<Rightarrow> process_identity \<Rightarrow> gotime \<Rightarrow> manifest rt" where
  "refresh_mesh_expiry E m p expires =
     bindW (load_mesh E (pi_config p)) (\<lambda>f.
       let raw = he_mesh_json E (f\<lparr>mf_config := (mf_config f)\<lparr>mc_expires := expires\<rparr>\<rparr>)
       in bindW (write_file E (pi_config p) raw) (\<lambda>_.
            ret (with_manager m p (hex_encode (he_sha256 E raw)))))"

primrec sockets_owned :: "host_env \<Rightarrow> process_identity \<Rightarrow> peer list \<Rightarrow> bool rt" where
  "sockets_owned E p [] = ret True"
| "sockets_owned E p (q # qs) =
     bindW (tryW (query (he_owned E p (LocalEndpoint q)))) (\<lambda>r.
       if r = Inr True then sockets_owned E p qs else ret False)"

definition mesh_sockets_owned :: "host_env \<Rightarrow> process_identity \<Rightarrow> bool rt" where
  "mesh_sockets_owned E p =
     bindW (tryW (load_mesh E (pi_config p))) (\<lambda>r. case r of
       Inl e \<Rightarrow> ret False
     | Inr f \<Rightarrow> sockets_owned E p (mc_peers (mf_config f)))"

text \<open>One round of the loop a poll interval; how many fit before the deadline is the host's.\<close>

primrec await_manager :: "host_env \<Rightarrow> process_identity \<Rightarrow> nat \<Rightarrow> unit rt" where
  "await_manager E p 0 = raise (Plain ''path manager sockets not ready'')"
| "await_manager E p (Suc n) =
     bindW (query (\<lambda>k. of_option (he_ctx E k))) (\<lambda>_.
     bindW (query (he_alive E p)) (\<lambda>alive.
     bindW (if alive then mesh_sockets_owned E p else ret False) (\<lambda>ready.
       if ready then ret () else await_manager E p n)))"

definition wait_for_path_manager :: "host_env \<Rightarrow> process_identity \<Rightarrow> unit rt" where
  "wait_for_path_manager E p = bindW (ask (he_rounds E)) (await_manager E p)"

section \<open>Trust\<close>

definition digest_is :: "host_env \<Rightarrow> string \<Rightarrow> string \<Rightarrow> bool rt" where
  "digest_is E path digest =
     bindW (tryW (read_file E path)) (\<lambda>r. ret (case r of Inl e \<Rightarrow> False | Inr raw \<Rightarrow> hex_encode (he_sha256 E raw) = digest))"

definition identity_trusted :: "manifest \<Rightarrow> string \<Rightarrow> string \<Rightarrow> bool" where
  "identity_trusted m xray directory \<longleftrightarrow>
     dm_schema m = 1 \<and> dm_core m = ''xray'' \<and> dm_adapter m = ''xray-core'' \<and>
     is_abs (pi_executable (dm_xray m)) \<and> clean (pi_executable (dm_xray m)) = clean xray \<and>
     clean (dm_xray_config m) = join_path [directory, ''xray.json''] \<and>
     clean (dm_wg_config m) = join_path [directory, dm_interface m @ ''.conf'']"

definition manager_trusted :: "host_env \<Rightarrow> manifest \<Rightarrow> string \<Rightarrow> bool rt" where
  "manager_trusted E m directory =
     (case dm_manager m of
        None \<Rightarrow> ret True
      | Some p \<Rightarrow>
          let path = join_path [directory, ''path-manager.json''] in
          bindW (tryW (query (he_self E))) (\<lambda>self.
            case self of
              Inl e \<Rightarrow> ret False
            | Inr executable \<Rightarrow>
                andW (ret (he_canonical E (pi_executable p) = he_canonical E executable \<and> pi_config p = path))
                  (andW (private_file E path)
                    (andW (ret (pi_revision p = dm_revision m)) (digest_is E path (pi_sha256 p))))))"

definition manifest_trusted :: "host_env \<Rightarrow> manifest \<Rightarrow> string \<Rightarrow> bool rt" where
  "manifest_trusted E m xray =
     (case revision_directory E m of
        None \<Rightarrow> ret False
      | Some directory \<Rightarrow>
          andW (ret (identity_trusted m xray directory))
            (andW (private_file E (dm_xray_config m)) (andW (private_file E (dm_wg_config m))
              (andW (digest_is E (dm_wg_config m) (dm_wg_sha256 m))
                (andW (manager_trusted E m directory)
                  (andW (private_directory E directory)
                    (ret (map_option fst (split_host_port (dm_loopback m)) = Some ''127.0.0.1''))))))))"

definition process_trusted :: "host_env \<Rightarrow> manifest \<Rightarrow> bool rt" where
  "process_trusted E m =
     (let p = dm_xray m in
      ifW (pi_pid p \<le> 0 \<or> pi_executable p = [] \<or> pi_config p \<noteq> dm_xray_config m \<or> pi_revision p \<noteq> dm_revision m)
        (fault CodeRuntimeProcessStale ''verify Xray process identity'')
      (bindW (orfail (fault CodeRuntimeProcessStale ''verify Xray config identity'') (read_file E (dm_xray_config m))) (\<lambda>raw.
       ifW (hex_encode (he_sha256 E raw) \<noteq> pi_sha256 p) (fault CodeRuntimeProcessStale ''verify Xray config identity'')
        (orfail (fault CodeRuntimeProcessStale ''verify Xray process identity'') (query (he_alive E p))))))"

primrec await_xray :: "host_env \<Rightarrow> manifest \<Rightarrow> nat \<Rightarrow> unit rt" where
  "await_xray E m 0 = raise (Sentinel DeadlineExceeded)"
| "await_xray E m (Suc n) =
     bindW (tryW (process_trusted E m)) (\<lambda>r.
     ifW (r \<noteq> Inr True) (Plain ''Xray process exited before readiness'')
     (bindW (query (he_owned E (dm_xray m) (dm_loopback m))) (\<lambda>owned.
       if owned then ret () else await_xray E m n)))"

text \<open>The first round is made before the deadline is looked at.\<close>

definition wait_for_xray :: "host_env \<Rightarrow> manifest \<Rightarrow> unit rt" where
  "wait_for_xray E m = bindW (ask (he_rounds E)) (\<lambda>n. await_xray E m (Suc n))"

section \<open>Old revisions\<close>

definition remove_revision :: "host_env \<Rightarrow> manifest \<Rightarrow> unit rt" where
  "remove_revision E m =
     (case revision_directory E m of
        None \<Rightarrow> ret ()
      | Some directory \<Rightarrow>
          bindW (tryW (remove_tree E directory)) (\<lambda>r.
            case r of Inl e \<Rightarrow> raise (fault_cause CodeStateIO ''remove failed runtime revision'' e) | Inr u \<Rightarrow> ret ()))"

primrec remove_entries :: "host_env \<Rightarrow> string set \<Rightarrow> string list \<Rightarrow> unit rt" where
  "remove_entries E keep [] = ret ()"
| "remove_entries E keep (name # names) =
     (let path = revision_path E name in
      if path \<in> keep then remove_entries E keep names
      else bindW (tryW (remove_tree E path)) (\<lambda>r. case r of
             Inl e \<Rightarrow> raise (fault_cause CodeStateIO ''remove obsolete runtime revision'' e)
           | Inr u \<Rightarrow> remove_entries E keep names))"

text \<open>The entries of the directory, in the order \<open>os.ReadDir\<close> gives them.\<close>

definition list_revisions :: "host_env \<Rightarrow> string list rt" where
  "list_revisions E h =
     ((case he_list E (h_tick h) of
         None \<Rightarrow> Inr (sort (map fst (h_revs h)))
       | Some None \<Rightarrow> Inr []
       | Some (Some e) \<Rightarrow> Inl (fault_cause CodeStateIO ''list runtime revisions'' e)), htick h)"

definition cleanup_retained_revisions :: "host_env \<Rightarrow> manifest \<Rightarrow> unit rt" where
  "cleanup_retained_revisions E m =
     bindW (load_good E) (\<lambda>good.
     bindW (list_revisions E) (\<lambda>names.
       remove_entries E (set_option (revision_directory E m) \<union>
         (case good of None \<Rightarrow> {} | Some g \<Rightarrow> set_option (revision_directory E g))) names))"

definition apply_result_of :: "config \<Rightarrow> apply_result" where
  "apply_result_of c = \<lparr>ap_revision = cf_revision c, ap_core = ''xray'', ap_adapter = ''xray-core''\<rparr>"

end
