(* ===== verification/Desktop.thy ===== *)
theory Desktop
  imports Desktop_Host
begin

text \<open>
  The desktop runtime, \<open>overlay/runtime/desktop.go\<close>: a configuration is put into a revision
  directory of its own, the Xray and path manager processes and the WireGuard interface are
  started from it, and the manifest says what is running. Replacing one revision by another
  is a transaction with a rollback; a change of the mesh peers alone is reconciled in place
  (\<open>overlay/runtime/path_manager.go\<close>).
\<close>

section \<open>Local sockets of the mesh\<close>

primrec allocate :: "host_env \<Rightarrow> string \<Rightarrow> string set \<Rightarrow> nat \<Rightarrow> string rt" where
  "allocate E network used 0 = raise (Plain ''cannot allocate distinct local sockets'')"
| "allocate E network used (Suc n) =
     bindW (query (he_port E network)) (\<lambda>a. if a \<notin> used then ret a else allocate E network used n)"

primrec allocate_peers :: "host_env \<Rightarrow> string set \<Rightarrow> peer list \<Rightarrow> peer list rt" where
  "allocate_peers E used [] = ret []"
| "allocate_peers E used (p # ps) =
     bindW (allocate E ''udp'' used 32) (\<lambda>a.
     bindW (allocate_peers E (insert a used) ps) (\<lambda>qs. ret (p\<lparr>LocalEndpoint := a\<rparr> # qs)))"

text \<open>The port of an endpoint, with every error dropped.\<close>

definition endpoint_port :: "string \<Rightarrow> int" where
  "endpoint_port e = (case split_host_port e of None \<Rightarrow> 0 | Some (h, p) \<Rightarrow> port_number p)"

definition with_mesh :: "config \<Rightarrow> mesh_config \<Rightarrow> config" where
  "with_mesh c m = c\<lparr>cf_mesh := Some m, cf_wireguard := (cf_wireguard c)\<lparr>wg_listen_port := endpoint_port (mc_wg m)\<rparr>\<rparr>"

definition checked_config :: "host_env \<Rightarrow> config \<Rightarrow> config rt" where
  "checked_config E c = bindW (ask (he_check E)) (\<lambda>k. case config_validate k c of Some e \<Rightarrow> raise e | None \<Rightarrow> ret c)"

definition allocate_mesh :: "host_env \<Rightarrow> config \<Rightarrow> mesh_config \<Rightarrow> config rt" where
  "allocate_mesh E c m =
     (let endpoint = wg_peer_endpoint (cf_wireguard c) in
      bindW (allocate E ''tcp'' {endpoint} 32) (\<lambda>relay.
      bindW (allocate E ''udp'' {endpoint, relay} 32) (\<lambda>wg.
      bindW (allocate_peers E {endpoint, relay, wg} (mc_peers m)) (\<lambda>peers.
        checked_config E (with_mesh c (m\<lparr>mc_relay := relay, mc_wg := wg, mc_peers := peers\<rparr>))))))"

section \<open>A revision\<close>

text \<open>\<open>os.MkdirTemp\<close>: a new directory, whose name ends with a number.\<close>

definition create_directory :: "host_env \<Rightarrow> string \<Rightarrow> string rt" where
  "create_directory E prefix h =
     (case he_temp E (h_tick h) of
        Inl e \<Rightarrow> (Inl e, htick h)
      | Inr n \<Rightarrow>
          (let name = prefix @ show_nat n in
           if map_of (h_revs h) name \<noteq> None then (Inl (Plain ''file exists''), htick h)
           else (Inr (revision_path E name), htick (h\<lparr>h_revs := h_revs h @ [(name, [])]\<rparr>))))"

definition on_failure :: "unit rt \<Rightarrow> 'a rt \<Rightarrow> 'a rt" where
  "on_failure undo m = bindW (tryW m) (\<lambda>r. case r of
       Inl e \<Rightarrow> bindW (dropW undo) (\<lambda>_. raise e)
     | Inr a \<Rightarrow> ret a)"

definition make_revision :: "host_env \<Rightarrow> string \<Rightarrow> string rt" where
  "make_revision E revision =
     bindW (secure_directory E) (\<lambda>_.
     bindW (tryW (create_directory E (hex_encode (take 8 (he_sha256 E (bytes_of revision))) @ ''-''))) (\<lambda>r.
       case r of
         Inl e \<Rightarrow> raise (fault_cause CodeStateIO ''create runtime revision'' e)
       | Inr directory \<Rightarrow>
           on_failure (remove_tree E directory)
             (bindW (tryW (secure_directory E)) (\<lambda>s. case s of
                Inl e \<Rightarrow> raise (fault_cause CodeStateIO ''secure runtime revision'' e)
              | Inr u \<Rightarrow> ret directory))))"

definition candidate_of :: "host_env \<Rightarrow> config \<Rightarrow> string \<Rightarrow> string \<Rightarrow> byte list \<Rightarrow> byte list \<Rightarrow> manifest" where
  "candidate_of E c xray directory profile wg =
     (let path = join_path [directory, ''xray.json''] in
      \<lparr>dm_schema = 1, dm_revision = cf_revision c, dm_core = ''xray'', dm_adapter = ''xray-core'',
       dm_interface = wg_interface (cf_wireguard c),
       dm_loopback = ''127.0.0.1:'' @ show_int (tr_local_port (cf_transport c)),
       dm_xray_config = path, dm_wg_config = join_path [directory, wg_interface (cf_wireguard c) @ ''.conf''],
       dm_wg_sha256 = hex_encode (he_sha256 E wg),
       dm_xray = \<lparr>pi_pid = 0, pi_executable = xray, pi_config = path, pi_sha256 = hex_encode (he_sha256 E profile),
         pi_revision = cf_revision c, pi_start = []\<rparr>,
       dm_manager = None, dm_wg_up = False, dm_index = 0, dm_stopped = False, dm_applied = zero_time\<rparr>)"

definition add_manager :: "host_env \<Rightarrow> mesh_config \<Rightarrow> string \<Rightarrow> manifest \<Rightarrow> manifest rt" where
  "add_manager E mesh directory m =
     (let path = join_path [directory, ''path-manager.json''];
          raw = he_mesh_json E \<lparr>mf_config = mesh, mf_wg_config = dm_wg_config m, mf_status = join_path [directory, ''paths.json'']\<rparr>
      in bindW (write_file E path raw) (\<lambda>_.
         bindW (query (he_self E)) (\<lambda>executable.
           ret (m\<lparr>dm_manager := Some \<lparr>pi_pid = 0, pi_executable = he_canonical E executable, pi_config = path,
             pi_sha256 = hex_encode (he_sha256 E raw), pi_revision = dm_revision m, pi_start = []\<rparr>\<rparr>))))"

definition fill_revision :: "host_env \<Rightarrow> config \<Rightarrow> string \<Rightarrow> string \<Rightarrow> string \<Rightarrow> manifest rt" where
  "fill_revision E c key xray directory =
     bindW (case cf_mesh c of None \<Rightarrow> ret c | Some m \<Rightarrow> allocate_mesh E c m) (\<lambda>k.
       let profile = he_json E (render_xray_config k);
           wg = bytes_of (render_wireguard_config k key);
           m = candidate_of E k xray directory profile wg
       in bindW (write_file E (dm_xray_config m) profile) (\<lambda>_.
          bindW (write_file E (dm_wg_config m) wg) (\<lambda>_.
            case cf_mesh k of None \<Rightarrow> ret m | Some mesh \<Rightarrow> add_manager E mesh directory m)))"

definition prepare :: "host_env \<Rightarrow> config \<Rightarrow> string \<Rightarrow> string \<Rightarrow> manifest rt" where
  "prepare E c key xray =
     bindW (make_revision E (cf_revision c)) (\<lambda>directory.
       on_failure (remove_tree E directory) (fill_revision E c key xray directory))"

section \<open>Starting\<close>

text \<open>Nothing of the name may be there.\<close>

definition check_free :: "host_env \<Rightarrow> manifest \<Rightarrow> dependencies \<Rightarrow> unit rt" where
  "check_free E m d =
     bindW (orfail (fault CodeRuntimeProcessStale ''inspect WireGuard tunnel service'')
              (service_state E (dm_interface m) (dp_wg_quick d) (dm_wg_config m))) (\<lambda>(present, owned).
     ifW (present \<and> \<not> owned) (fault CodeRuntimeProcessStale ''refuse unowned WireGuard tunnel service'')
     (ifW present (fault CodeRuntimeApplyFailed ''WireGuard tunnel service already exists'')
     (bindW (tryW (query (he_index E (dm_interface m)))) (\<lambda>index.
      ifW (index \<noteq> Inr 0) (fault CodeRuntimeApplyFailed ''WireGuard interface already exists or cannot be inspected'')
      (bindW (tryW (query (he_available E (dm_loopback m)))) (\<lambda>available.
       ifW (available \<noteq> Inr True) (fault CodeRuntimeApplyFailed ''reserve Xray loopback port'') (ret ())))))))"

definition start_xray :: "host_env \<Rightarrow> manifest \<Rightarrow> dependencies \<Rightarrow> manifest rt" where
  "start_xray E m d =
     bindW (orfail (fault CodeRuntimeApplyFailed ''start Xray runtime'')
              (start_process E (dp_xray d) [''run'', ''-config'', dm_xray_config m] (dm_revision m) (pi_sha256 (dm_xray m)))) (\<lambda>p.
       let m' = m\<lparr>dm_xray := p\<lparr>pi_config := dm_xray_config m, pi_revision := dm_revision m\<rparr>\<rparr>
       in bindW (tryW (wait_for_xray E m')) (\<lambda>r. case r of
            Inl e \<Rightarrow> bindW (dropW (stop_process E (dm_xray m'))) (\<lambda>_.
                       raise (fault CodeRuntimeApplyFailed ''verify Xray runtime''))
          | Inr u \<Rightarrow> ret m'))"

definition start_manager :: "host_env \<Rightarrow> manifest \<Rightarrow> manifest rt" where
  "start_manager E m =
     (case dm_manager m of
        None \<Rightarrow> ret m
      | Some p \<Rightarrow>
          bindW (tryW (start_process E (pi_executable p) [''path-manager'', ''-config'', pi_config p] (dm_revision m) (pi_sha256 p))) (\<lambda>r.
            case r of
              Inl e \<Rightarrow> bindW (dropW (stop_process E (dm_xray m))) (\<lambda>_.
                         raise (fault_cause CodeRuntimeApplyFailed ''start path manager'' e))
            | Inr q \<Rightarrow>
                let identity = q\<lparr>pi_config := pi_config p\<rparr> in
                bindW (tryW (wait_for_path_manager E identity)) (\<lambda>w. case w of
                    Inl e \<Rightarrow> bindW (dropW (stop_process E identity)) (\<lambda>_.
                               bindW (dropW (stop_process E (dm_xray m))) (\<lambda>_. raise e))
                  | Inr u \<Rightarrow> ret (m\<lparr>dm_manager := Some identity\<rparr>))))"

text \<open>The processes are stopped; the interface is not deleted by its name.\<close>

definition abandon :: "host_env \<Rightarrow> manifest \<Rightarrow> string \<Rightarrow> 'a rt" where
  "abandon E m op =
     bindW (case dm_manager m of None \<Rightarrow> ret () | Some p \<Rightarrow> dropW (stop_process E p)) (\<lambda>_.
     bindW (dropW (stop_process E (dm_xray m))) (\<lambda>_. raise (fault CodeRuntimeApplyFailed op)))"

section \<open>Stopping\<close>

definition take_down :: "host_env \<Rightarrow> manifest \<Rightarrow> dependencies \<Rightarrow> bool \<Rightarrow> unit rt" where
  "take_down E m d service =
     (if \<not> dm_wg_up m then ret ()
      else bindW (orfail (fault CodeRuntimeProcessStale ''verify WireGuard interface identity'') (query (he_index E (dm_interface m)))) (\<lambda>index.
        ifW (index \<noteq> 0 \<and> (dm_index m = 0 \<or> index \<noteq> dm_index m))
          (fault CodeRuntimeProcessStale ''verify WireGuard interface identity'')
        (if index \<noteq> 0 \<or> service
         then orfail (fault CodeRuntimeApplyFailed ''stop WireGuard runtime'') (run_command E (dp_wg_quick d) [''down'', dm_wg_config m])
         else ret ())))"

definition stop_manager :: "host_env \<Rightarrow> manifest \<Rightarrow> unit rt" where
  "stop_manager E m =
     (case dm_manager m of
        None \<Rightarrow> ret ()
      | Some p \<Rightarrow>
          bindW (tryW (stop_process E p)) (\<lambda>r. case r of
            Inl e \<Rightarrow> raise (fault_cause CodeRuntimeProcessStale ''stop path manager'' e)
          | Inr u \<Rightarrow> dropW (act (RemovedFile (join_path [runtime_dir E, ''overlay-status.json''])) (\<lambda>n. of_option (he_remove E n)))))"

definition service_refused :: "manifest \<Rightarrow> error + bool \<times> bool \<Rightarrow> bool" where
  "service_refused m r =
     (case r of Inl e \<Rightarrow> True | Inr (present, owned) \<Rightarrow> (present \<and> \<not> owned) \<or> (present \<and> \<not> dm_wg_up m))"

definition stop_manifest :: "host_env \<Rightarrow> manifest \<Rightarrow> dependencies \<Rightarrow> unit rt" where
  "stop_manifest E m d =
     bindW (manifest_trusted E m (dp_xray d)) (\<lambda>ours.
     ifW (\<not> ours) (fault CodeRuntimeProcessStale ''verify runtime metadata ownership'')
     (if dm_stopped m then ret ()
      else bindW (process_trusted E m) (\<lambda>alive.
           bindW (tryW (service_state E (dm_interface m) (dp_wg_quick d) (dm_wg_config m))) (\<lambda>service.
           ifW (service_refused m service) (fault CodeRuntimeProcessStale ''verify WireGuard tunnel service ownership'')
           (bindW (take_down E m d (case service of Inr (present, owned) \<Rightarrow> present | Inl e \<Rightarrow> False)) (\<lambda>_.
            bindW (stop_manager E m) (\<lambda>_.
              if alive then orfail (fault CodeRuntimeProcessStale ''stop Xray runtime'') (stop_process E (dm_xray m))
              else ret ())))))))"

section \<open>The interface, and the whole start\<close>

definition bring_up :: "host_env \<Rightarrow> manifest \<Rightarrow> dependencies \<Rightarrow> manifest rt" where
  "bring_up E m d =
     bindW (tryW (run_command E (dp_wg_quick d) [''up'', dm_wg_config m])) (\<lambda>up.
     if up \<noteq> Inr () then abandon E m ''start WireGuard runtime''
     else bindW (tryW (query (he_index E (dm_interface m)))) (\<lambda>index.
       case index of
         Inl e \<Rightarrow> abandon E m ''capture WireGuard interface identity''
       | Inr i \<Rightarrow>
           if i = 0 then abandon E m ''capture WireGuard interface identity''
           else let m' = m\<lparr>dm_index := i, dm_wg_up := True\<rparr> in
             bindW (tryW (run_command E (dp_wg d) [''show'', dm_interface m'])) (\<lambda>shown.
               if shown \<noteq> Inr () then
                 bindW (dropW (stop_manifest E m' d)) (\<lambda>_. raise (fault CodeRuntimeApplyFailed ''verify WireGuard runtime''))
               else bindW (ask (he_now E)) (\<lambda>now. ret (m'\<lparr>dm_applied := to_utc now, dm_stopped := False\<rparr>)))))"

definition start_manifest :: "host_env \<Rightarrow> manifest \<Rightarrow> dependencies \<Rightarrow> manifest rt" where
  "start_manifest E m d =
     bindW (check_free E m d) (\<lambda>_.
     bindW (start_xray E m d) (\<lambda>m1.
     bindW (start_manager E m1) (\<lambda>m2. bring_up E m2 d)))"

end
