(* ===== verification/Desktop_Apply.thy ===== *)
theory Desktop_Apply
  imports Desktop
begin

text \<open>
  The operations of the desktop runtime: \<open>Apply\<close> with its three ways to reach the requested
  revision (start the stopped one again, reconcile the mesh in place, replace it), \<open>Status\<close>,
  \<open>Down\<close>, \<open>Cleanup\<close> and \<open>Diagnose\<close>.
\<close>

section \<open>Rolling back\<close>

definition rollback :: "host_env \<Rightarrow> manifest \<Rightarrow> manifest option \<Rightarrow> dependencies \<Rightarrow> error \<Rightarrow> 'a rt" where
  "rollback E candidate previous d apply_error =
     bindW (if dm_wg_up candidate \<or> pi_pid (dm_xray candidate) > 0 then tryW (stop_manifest E candidate d) else ret (Inr ())) (\<lambda>stopped.
       case stopped of
         Inl e \<Rightarrow> raise (fault_cause CodeRuntimeRollbackFailed ''stop candidate runtime'' e)
       | Inr u \<Rightarrow>
           (case previous of
              None \<Rightarrow> raise (fault_cause CodeRuntimeApplyFailed ''apply desktop runtime'' apply_error)
            | Some p \<Rightarrow>
                bindW (orfail (fault CodeRuntimeRollbackFailed ''restore last-known-good runtime'') (start_manifest E p d)) (\<lambda>restored.
                bindW (tryW (save_active E restored)) (\<lambda>saved. case saved of
                    Inl e \<Rightarrow> bindW (dropW (stop_manifest E restored d)) (\<lambda>_.
                               raise (fault CodeRuntimeRollbackFailed ''restore last-known-good runtime''))
                  | Inr u \<Rightarrow> raise (fault_cause CodeRuntimeApplyFailed ''apply desktop runtime'' apply_error)))))"

section \<open>Health\<close>

definition manager_healthy :: "host_env \<Rightarrow> manifest \<Rightarrow> bool rt" where
  "manager_healthy E m =
     (case dm_manager m of
        None \<Rightarrow> ret True
      | Some p \<Rightarrow> bindW (query (he_alive E p)) (\<lambda>alive. if alive then mesh_sockets_owned E p else ret False))"

definition manifest_healthy :: "host_env \<Rightarrow> manifest \<Rightarrow> dependencies \<Rightarrow> bool rt" where
  "manifest_healthy E m d =
     (if dm_stopped m then ret False
      else bindW (manifest_trusted E m (dp_xray d)) (\<lambda>ours.
        ifW (\<not> ours) (fault CodeRuntimeProcessStale ''verify runtime metadata ownership'')
        (bindW (orfail (fault CodeRuntimeProcessStale ''verify WireGuard interface identity'') (query (he_index E (dm_interface m)))) (\<lambda>index.
         ifW (index \<noteq> 0 \<and> index \<noteq> dm_index m) (fault CodeRuntimeProcessStale ''verify WireGuard interface identity'')
         (if index = 0 then ret False
          else andW (process_trusted E m) (andW (manager_healthy E m)
            (bindW (tryW (query (he_owned E (dm_xray m) (dm_loopback m)))) (\<lambda>owned.
              if owned \<noteq> Inr True then ret False
              else bindW (tryW (run_command E (dp_wg d) [''show'', dm_interface m])) (\<lambda>shown. ret (shown = Inr ()))))))))))"

section \<open>Reconciling the mesh in place\<close>

text \<open>Peers that are still there keep their sockets, new ones get one of their own.\<close>

definition kept_socket :: "peer list \<Rightarrow> peer \<Rightarrow> string option" where
  "kept_socket old p =
     (case find (\<lambda>q. DeviceID q = DeviceID p) (rev old) of
        None \<Rightarrow> None
      | Some q \<Rightarrow> if PublicKey q = PublicKey p \<and> Address q = Address p then Some (LocalEndpoint q) else None)"

text \<open>Thirty-two tries; that none was free shows in the endpoint.\<close>

primrec try_socket :: "host_env \<Rightarrow> string set \<Rightarrow> nat \<Rightarrow> string option rt" where
  "try_socket E used 0 = ret None"
| "try_socket E used (Suc n) =
     bindW (query (he_port E ''udp'')) (\<lambda>a. if a \<notin> used then ret (Some a) else try_socket E used n)"

primrec place_peers :: "host_env \<Rightarrow> peer list \<Rightarrow> string set \<Rightarrow> peer list \<Rightarrow> peer list rt" where
  "place_peers E old used [] = ret []"
| "place_peers E old used (p # ps) =
     (case kept_socket old p of
        Some a \<Rightarrow> bindW (place_peers E old used ps) (\<lambda>qs. ret (p\<lparr>LocalEndpoint := a\<rparr> # qs))
      | None \<Rightarrow>
          bindW (try_socket E used 32) (\<lambda>a.
            let q = (case a of None \<Rightarrow> p | Some s \<Rightarrow> p\<lparr>LocalEndpoint := s\<rparr>) in
            ifW (LocalEndpoint q = []) (Plain ''cannot allocate new peer socket'')
            (bindW (place_peers E old (used \<union> set_option a) ps) (\<lambda>qs. ret (q # qs)))))"

definition same_network :: "mesh_config \<Rightarrow> mesh_config \<Rightarrow> bool" where
  "same_network old new \<longleftrightarrow> mc_network old = mc_network new \<and> mc_device old = mc_device new \<and>
     mc_gateway_key old = mc_gateway_key new \<and> mc_interface old = mc_interface new \<and>
     mc_overlay_cidr old = mc_overlay_cidr new"

text \<open>The files on disk are those of the new configuration with the old mesh.\<close>

definition only_mesh_changed :: "host_env \<Rightarrow> manifest \<Rightarrow> config \<Rightarrow> string \<Rightarrow> bool rt" where
  "only_mesh_changed E m c key =
     bindW (read_file E (dm_wg_config m)) (\<lambda>wg.
       if wg \<noteq> bytes_of (render_wireguard_config c key) then ret False
       else bindW (read_file E (dm_xray_config m)) (\<lambda>profile. ret (profile = he_json E (render_xray_config c))))"

definition reconciled :: "host_env \<Rightarrow> manifest \<Rightarrow> process_identity \<Rightarrow> config \<Rightarrow> byte list \<Rightarrow> byte list \<Rightarrow> manifest" where
  "reconciled E m p c mesh wg =
     m\<lparr>dm_revision := cf_revision c, dm_xray := (dm_xray m)\<lparr>pi_revision := cf_revision c\<rparr>,
       dm_manager := Some (p\<lparr>pi_revision := cf_revision c, pi_sha256 := hex_encode (he_sha256 E mesh)\<rparr>),
       dm_wg_sha256 := hex_encode (he_sha256 E wg)\<rparr>"

definition sync_path :: "manifest \<Rightarrow> string" where
  "sync_path m = join_path [dir_of (dm_wg_config m), ''mesh-sync.conf'']"

definition sync_bytes :: "byte list \<Rightarrow> byte list" where
  "sync_bytes raw = bytes_of (sync_config (string_of raw))"

definition drop_sync_file :: "host_env \<Rightarrow> manifest \<Rightarrow> unit rt" where
  "drop_sync_file E m h =
     (Inr (), htick (if he_remove E (h_tick h) = None then drop_file E (sync_path m) h else h))"

definition commit_mesh :: "host_env \<Rightarrow> manifest \<Rightarrow> process_identity \<Rightarrow> manifest \<Rightarrow> byte list \<Rightarrow> byte list \<Rightarrow> dependencies \<Rightarrow> unit rt" where
  "commit_mesh E m p candidate mesh wg d =
     bindW (write_file E (pi_config p) mesh) (\<lambda>_.
     bindW (case dm_manager candidate of None \<Rightarrow> ret () | Some q \<Rightarrow> wait_for_path_manager E q) (\<lambda>_.
     bindW (write_file E (dm_wg_config m) wg) (\<lambda>_.
     bindW (write_file E (sync_path m) (sync_bytes wg)) (\<lambda>_.
     bindW (run_command E (dp_wg d) [''syncconf'', dm_interface m, sync_path m]) (\<lambda>_.
       save_active E candidate)))))"

text \<open>What was there is written back and given to \<open>wg\<close> again; every error is reported.\<close>

definition undo_mesh :: "host_env \<Rightarrow> manifest \<Rightarrow> process_identity \<Rightarrow> byte list \<Rightarrow> byte list \<Rightarrow> dependencies \<Rightarrow> error \<Rightarrow> error option rt" where
  "undo_mesh E m p mesh wg d e =
     bindW (tryW (write_file E (pi_config p) mesh)) (\<lambda>r1.
     bindW (tryW (write_file E (dm_wg_config m) wg)) (\<lambda>r2.
       let first = join_errors [Some e, error_of r1, error_of r2] in
       bindW (tryW (write_file E (sync_path m) (sync_bytes wg))) (\<lambda>r3.
         if r3 \<noteq> Inr () then ret (join_errors [first, error_of r3])
         else bindW (tryW (run_command E (dp_wg d) [''syncconf'', dm_interface m, sync_path m])) (\<lambda>r4.
           ret (join_errors [first, error_of r4])))))"

definition transact_mesh :: "host_env \<Rightarrow> manifest \<Rightarrow> process_identity \<Rightarrow> manifest \<Rightarrow> byte list \<times> byte list \<Rightarrow> byte list \<times> byte list \<Rightarrow> dependencies \<Rightarrow> bool rt" where
  "transact_mesh E m p candidate old new d =
     bindW (tryW (commit_mesh E m p candidate (fst new) (snd new) d)) (\<lambda>r.
     bindW (case r of Inr u \<Rightarrow> ret None | Inl e \<Rightarrow> undo_mesh E m p (fst old) (snd old) d e) (\<lambda>err.
     bindW (drop_sync_file E m) (\<lambda>_.
       case err of None \<Rightarrow> ret True | Some e \<Rightarrow> raise e)))"

text \<open>
  The change of the mesh that can be made in place, if it is nothing else: the configuration
  with the old mesh and with the new one, and the new mesh file.
\<close>

definition plan_mesh :: "host_env \<Rightarrow> manifest \<Rightarrow> process_identity \<Rightarrow> config \<Rightarrow> mesh_config \<Rightarrow> string \<Rightarrow> (config \<times> config \<times> mesh_file) option rt" where
  "plan_mesh E m p c template key =
     bindW (load_mesh E (pi_config p)) (\<lambda>previous.
       let old = mf_config previous; c1 = with_mesh c old in
       if \<not> same_network old template then ret None
       else bindW (only_mesh_changed E m c1 key) (\<lambda>same.
         if \<not> same then ret None
         else bindW (place_peers E (mc_peers old)
                 ({mc_relay old, mc_wg old, wg_peer_endpoint (cf_wireguard c)} \<union> set (map LocalEndpoint (mc_peers old)))
                 (mc_peers template)) (\<lambda>peers.
           let new = old\<lparr>mc_expires := mc_expires template, mc_peers := peers\<rparr> in
           bindW (checked_config E (c1\<lparr>cf_mesh := Some new\<rparr>)) (\<lambda>c2.
             ret (Some (c1, c2, previous\<lparr>mf_config := new\<rparr>))))))"

text \<open>Whether the change could be made in place.\<close>

definition reconcile_mesh :: "host_env \<Rightarrow> manifest \<Rightarrow> process_identity \<Rightarrow> config \<Rightarrow> mesh_config \<Rightarrow> string \<Rightarrow> dependencies \<Rightarrow> bool rt" where
  "reconcile_mesh E m p c template key d =
     bindW (plan_mesh E m p c template key) (\<lambda>plan. case plan of
       None \<Rightarrow> ret False
     | Some (c1, c2, f) \<Rightarrow>
         let mesh = he_mesh_json E f; wg = bytes_of (render_wireguard_config c2 key)
         in bindW (read_file E (pi_config p)) (\<lambda>old_mesh.
              transact_mesh E m p (reconciled E m p c2 mesh wg)
                (old_mesh, bytes_of (render_wireguard_config c1 key)) (mesh, wg) d))"

section \<open>Apply\<close>

definition apply_checks :: "host_env \<Rightarrow> config \<Rightarrow> string \<Rightarrow> dependencies rt" where
  "apply_checks E c key =
     bindW (checked_config E c) (\<lambda>_.
     ifW (\<not> (\<exists>k \<in> set_option (std_decode (trim_space key)). length k = 32))
       (fault CodeInvalidConfig ''validate WireGuard private key'')
     (bindW (find_dependencies E) (\<lambda>d.
      bindW (ask (he_privileged E)) (\<lambda>privileged.
      ifW (\<not> privileged) (fault CodeRuntimePermission ''apply desktop runtime'')
      (bindW (secure_directory E) (\<lambda>_. ret d))))))"

text \<open>The revision that was stopped is the one asked for.\<close>

definition resume_stopped :: "host_env \<Rightarrow> manifest \<Rightarrow> config \<Rightarrow> dependencies \<Rightarrow> apply_result rt" where
  "resume_stopped E m c d =
     bindW (manifest_trusted E m (dp_xray d)) (\<lambda>ours.
     ifW (\<not> ours) (fault CodeRuntimeProcessStale ''verify stopped runtime metadata ownership'')
     (bindW (start_manifest E m d) (\<lambda>activated.
      bindW (on_failure (stop_manifest E activated d) (save_active E activated)) (\<lambda>_.
        ret (apply_result_of c)))))"

definition try_reconcile :: "host_env \<Rightarrow> manifest \<Rightarrow> config \<Rightarrow> string \<Rightarrow> dependencies \<Rightarrow> bool \<Rightarrow> (error \<Rightarrow> error) \<Rightarrow> bool rt" where
  "try_reconcile E m c key d wanted wrap =
     (case dm_manager m of
        None \<Rightarrow> ret False
      | Some p \<Rightarrow>
          (case cf_mesh c of
             None \<Rightarrow> ret False
           | Some t \<Rightarrow>
               bindW (mesh_matches E m (Some t)) (\<lambda>same.
                 if same \<noteq> wanted then ret False
                 else bindW (tryW (reconcile_mesh E m p c t key d)) (\<lambda>r.
                   case r of Inl e \<Rightarrow> raise (wrap e) | Inr handled \<Rightarrow> ret handled))))"

text \<open>The running revision is the one asked for.\<close>

definition keep_running :: "host_env \<Rightarrow> manifest \<Rightarrow> config \<Rightarrow> apply_result rt" where
  "keep_running E m c =
     bindW (case (cf_mesh c, dm_manager m) of
              (Some t, Some p) \<Rightarrow>
                bindW (refresh_mesh_expiry E m p (mc_expires t)) (\<lambda>fresh.
                bindW (save_active E fresh) (\<lambda>_. ret fresh))
            | _ \<Rightarrow> ret m) (\<lambda>now.
     bindW (cleanup_retained_revisions E now) (\<lambda>_. ret (apply_result_of c)))"

definition apply_healthy :: "host_env \<Rightarrow> manifest \<Rightarrow> config \<Rightarrow> string \<Rightarrow> dependencies \<Rightarrow> apply_result option rt" where
  "apply_healthy E m c key d =
     bindW (try_reconcile E m c key d False (fault_cause CodeRuntimeApplyFailed ''reconcile mesh peers'')) (\<lambda>handled.
     if handled then ret (Some (apply_result_of c))
     else bindW (if dm_revision m \<noteq> cf_revision c then try_reconcile E m c key d True (\<lambda>e. e) else ret False) (\<lambda>again.
     if again then ret (Some (apply_result_of c))
     else bindW (if dm_revision m = cf_revision c then mesh_matches E m (cf_mesh c) else ret False) (\<lambda>same.
     if same then bindW (keep_running E m c) (\<lambda>r. ret (Some r)) else ret None)))"

text \<open>\<open>None\<close>: the revision has to be replaced.\<close>

definition apply_to_active :: "host_env \<Rightarrow> manifest \<Rightarrow> config \<Rightarrow> string \<Rightarrow> dependencies \<Rightarrow> apply_result option rt" where
  "apply_to_active E m c key d =
     bindW (if dm_stopped m \<and> dm_revision m = cf_revision c then mesh_matches E m (cf_mesh c) else ret False) (\<lambda>resume.
     if resume then bindW (resume_stopped E m c d) (\<lambda>r. ret (Some r))
     else bindW (tryW (manifest_healthy E m d)) (\<lambda>health.
       case health of
         Inl e \<Rightarrow> ifW (fault_code_of e = CodeRuntimeProcessStale) e (ret None)
       | Inr healthy \<Rightarrow> if healthy then apply_healthy E m c key d else ret None))"

definition stop_previous :: "host_env \<Rightarrow> manifest \<Rightarrow> dependencies \<Rightarrow> unit rt" where
  "stop_previous E m d =
     bindW (manifest_trusted E m (dp_xray d)) (\<lambda>ours.
     ifW (\<not> ours) (fault CodeRuntimeProcessStale ''verify runtime metadata ownership'')
     (if dm_stopped m then ret ()
      else bindW (process_trusted E m) (\<lambda>_. stop_manifest E m d)))"

definition activate :: "host_env \<Rightarrow> manifest \<Rightarrow> manifest option \<Rightarrow> dependencies \<Rightarrow> manifest rt" where
  "activate E candidate previous d =
     bindW (orfail (fault CodeRuntimeApplyFailed ''test Xray config'')
              (run_command E (dp_xray d) [''run'', ''-test'', ''-config'', dm_xray_config candidate])) (\<lambda>_.
     bindW (case previous of None \<Rightarrow> ret () | Some p \<Rightarrow> stop_previous E p d) (\<lambda>_.
     bindW (tryW (start_manifest E candidate d)) (\<lambda>r. case r of
       Inl e \<Rightarrow> rollback E candidate previous d e
     | Inr activated \<Rightarrow>
         bindW (tryW (bindW (case previous of None \<Rightarrow> ret () | Some p \<Rightarrow> save_good E p) (\<lambda>_. save_active E activated))) (\<lambda>saved.
           case saved of Inl e \<Rightarrow> rollback E activated previous d e | Inr u \<Rightarrow> ret activated))))"

definition replace_revision :: "host_env \<Rightarrow> manifest option \<Rightarrow> config \<Rightarrow> string \<Rightarrow> dependencies \<Rightarrow> apply_result rt" where
  "replace_revision E previous c key d =
     bindW (prepare E c key (dp_xray d)) (\<lambda>candidate.
     bindW (on_failure (remove_revision E candidate) (activate E candidate previous d)) (\<lambda>activated.
     bindW (cleanup_retained_revisions E activated) (\<lambda>_. ret (apply_result_of c))))"

definition desktop_apply :: "host_env \<Rightarrow> config \<Rightarrow> string \<Rightarrow> apply_result rt" where
  "desktop_apply E c key =
     bindW (apply_checks E c key) (\<lambda>d.
     bindW (load_active E) (\<lambda>active.
     bindW (case active of None \<Rightarrow> ret None | Some m \<Rightarrow> apply_to_active E m c key d) (\<lambda>reached.
       case reached of
         Some r \<Rightarrow> ret r
       | None \<Rightarrow> replace_revision E active c key d)))"

section \<open>Status, Down, Cleanup and Diagnose\<close>

definition unavailable_status :: runtime_status where
  "unavailable_status = \<lparr>rt_paths = [], rt_available = False, rt_applied = False, rt_managed = False, rt_version = [],
     rt_revision = [], rt_core = [], rt_adapter = [], rt_interface = []\<rparr>"

definition manifest_status :: "host_env \<Rightarrow> manifest \<Rightarrow> dependencies \<Rightarrow> runtime_status \<Rightarrow> runtime_status rt" where
  "manifest_status E m d st =
     bindW (ask (he_resolve E (dm_interface m))) (\<lambda>resolved.
     bindW (tryW (manifest_healthy E m d)) (\<lambda>health.
     ifW (isl health \<and> fault_code_of (projl health) \<noteq> CodeRuntimeProcessStale) (projl health)
     (let st' = st\<lparr>rt_applied := (health = Inr True), rt_revision := dm_revision m, rt_core := dm_core m, rt_adapter := dm_adapter m,
             rt_interface := (case resolved of None \<Rightarrow> dm_interface m | Some (Inl e) \<Rightarrow> [] | Some (Inr n) \<Rightarrow> n)\<rparr> in
       if dm_manager m = None then ret st'
       else bindW (tryW (read_file E (join_path [dir_of (dm_wg_config m), ''paths.json'']))) (\<lambda>raw.
         ret (st'\<lparr>rt_paths := he_paths_parse E (case raw of Inl e \<Rightarrow> [] | Inr bs \<Rightarrow> bs)\<rparr>)))))"

definition desktop_status :: "host_env \<Rightarrow> runtime_status rt" where
  "desktop_status E =
     bindW (ask (he_managed E)) (\<lambda>managed.
       let st = (case managed of None \<Rightarrow> unavailable_status
                 | Some (path, version) \<Rightarrow> unavailable_status\<lparr>rt_managed := True, rt_version := version\<rparr>) in
       bindW (tryW (find_dependencies E)) (\<lambda>found.
         case found of
           Inl e \<Rightarrow> ret st
         | Inr d \<Rightarrow>
             bindW (ask (he_privileged E)) (\<lambda>privileged.
               if \<not> privileged then ret st
               else bindW (load_active E) (\<lambda>active.
                 let st' = st\<lparr>rt_available := True\<rparr> in
                 case active of None \<Rightarrow> ret st' | Some m \<Rightarrow> manifest_status E m d st'))))"

definition stopped_manifest :: "manifest \<Rightarrow> manifest" where
  "stopped_manifest m = m\<lparr>dm_stopped := True, dm_wg_up := False, dm_xray := (dm_xray m)\<lparr>pi_pid := 0, pi_start := []\<rparr>\<rparr>"

definition down_manifest :: "host_env \<Rightarrow> dependencies \<Rightarrow> manifest \<Rightarrow> unit rt" where
  "down_manifest E d m =
     bindW (manifest_trusted E m (dp_xray d)) (\<lambda>ours.
     ifW (\<not> ours) (fault CodeRuntimeProcessStale ''verify runtime metadata ownership'')
     (if dm_stopped m then ret ()
      else bindW (stop_manifest E m d) (\<lambda>_. save_active E (stopped_manifest m))))"

definition desktop_down :: "host_env \<Rightarrow> unit rt" where
  "desktop_down E =
     bindW (find_dependencies E) (\<lambda>d.
     bindW (ask (he_privileged E)) (\<lambda>privileged.
     ifW (\<not> privileged) (fault CodeRuntimePermission ''stop desktop runtime'')
     (bindW (load_active E) (\<lambda>active. case active of None \<Rightarrow> ret () | Some m \<Rightarrow> down_manifest E d m))))"

text \<open>A manifest that may be removed; the active one has to be stopped.\<close>

definition cleanup_check :: "host_env \<Rightarrow> bool \<Rightarrow> manifest option \<Rightarrow> manifest list rt" where
  "cleanup_check E active loaded =
     (case loaded of
        None \<Rightarrow> ret []
      | Some m \<Rightarrow>
          bindW (manifest_trusted E m (pi_executable (dm_xray m))) (\<lambda>ours.
          ifW (\<not> ours) (fault CodeRuntimeProcessStale ''verify cleanup metadata ownership'')
          (ifW (active \<and> \<not> dm_stopped m) (fault CodeRuntimeApplyFailed ''cleanup active runtime'') (ret [m]))))"

primrec cleanup_manifests :: "host_env \<Rightarrow> manifest list \<Rightarrow> unit rt" where
  "cleanup_manifests E [] = ret ()"
| "cleanup_manifests E (m # ms) =
     bindW (case revision_directory E m of
              None \<Rightarrow> ret ()
            | Some directory \<Rightarrow>
                bindW (remove_owned E (dm_xray_config m)) (\<lambda>_.
                bindW (remove_owned E (dm_wg_config m)) (\<lambda>_. remove_empty E directory))) (\<lambda>_.
     cleanup_manifests E ms)"

definition desktop_cleanup :: "host_env \<Rightarrow> unit rt" where
  "desktop_cleanup E =
     bindW (load_active E) (\<lambda>a. bindW (cleanup_check E True a) (\<lambda>first.
     bindW (load_good E) (\<lambda>g. bindW (cleanup_check E False g) (\<lambda>second.
     bindW (cleanup_manifests E (first @ second)) (\<lambda>_.
     bindW (remove_active E) (\<lambda>_.
     bindW (remove_good E) (\<lambda>_.
     bindW (ask (he_remove E)) (\<lambda>_. bindW (ask (he_remove E)) (\<lambda>_. ret ())))))))))"

definition interface_shown :: "host_env \<Rightarrow> manifest \<Rightarrow> string \<Rightarrow> bool rt" where
  "interface_shown E m wg =
     bindW (tryW (query (he_index E (dm_interface m)))) (\<lambda>index.
       if index \<noteq> Inr (dm_index m) then ret False
       else bindW (tryW (run_command E wg [''show'', dm_interface m])) (\<lambda>shown. ret (shown = Inr ())))"

definition dropped :: "bool rt \<Rightarrow> bool rt" where
  "dropped m = bindW (tryW m) (\<lambda>r. ret (r = Inr True))"

definition diagnose_manifest :: "host_env \<Rightarrow> manifest \<Rightarrow> error + string \<Rightarrow> error + string \<Rightarrow> (bool \<times> bool \<times> bool \<times> bool) rt" where
  "diagnose_manifest E m xray wg =
     bindW (manifest_trusted E m (case xray of Inl e \<Rightarrow> [] | Inr x \<Rightarrow> x)) (\<lambda>metadata.
     if \<not> (metadata \<and> (\<exists>x. xray = Inr x \<and> clean (pi_executable (dm_xray m)) = clean x)) then ret (metadata, False, False, False)
     else bindW (dropped (process_trusted E m)) (\<lambda>process.
       bindW (if process then dropped (query (he_owned E (dm_xray m) (dm_loopback m))) else ret False) (\<lambda>port.
       bindW (case wg of
                Inl e \<Rightarrow> ret False
              | Inr w \<Rightarrow> if \<not> dm_stopped m \<and> dm_index m > 0 then interface_shown E m w else ret False) (\<lambda>interface.
         ret (metadata, process, port, interface)))))"

definition desktop_diagnose :: "host_env \<Rightarrow> (string \<times> bool) list rt" where
  "desktop_diagnose E =
     bindW (tryW (lookup_xray E)) (\<lambda>xray.
     bindW (tryW (query (he_look E ''wg''))) (\<lambda>wg.
     bindW (tryW (query (he_look E ''wg-quick''))) (\<lambda>quick.
     bindW (andW (ret (\<not> isl xray \<and> \<not> isl wg \<and> \<not> isl quick)) (ask (he_privileged E))) (\<lambda>available.
     bindW (ask (he_privileged E)) (\<lambda>privileged.
     bindW (load_active E) (\<lambda>active.
     bindW (case active of None \<Rightarrow> ret (False, False, False, False) | Some m \<Rightarrow> diagnose_manifest E m xray wg)
       (\<lambda>(metadata, process, port, interface).
       ret [(''platform_runtime_available'', available), (''desktop_runtime_privileged'', privileged),
         (''xray_dependency_available'', \<not> isl xray), (''wireguard_dependency_available'', \<not> isl wg \<and> \<not> isl quick),
         (''runtime_metadata_valid'', metadata), (''xray_process_healthy'', process),
         (''xray_loopback_port_healthy'', port), (''wireguard_interface_healthy'', interface)])))))))"

end
