(* ===== verification/Desktop_Facts.thy ===== *)
theory Desktop_Facts
  imports Desktop_Apply
begin

text \<open>
  What the operations of the desktop runtime do to the host on every exit: the steps that only
  ask and act, the steps that also change files, and those that write a manifest, each for any
  relation closed under composition; and the paths of revisions and their files.
\<close>

section \<open>Paths\<close>

definition name_ok :: "string \<Rightarrow> bool" where
  "name_ok n \<longleftrightarrow> element n \<and> n \<noteq> ''..''"

lemma name_ok_literals [simp]:
  "name_ok ''runtime''" "name_ok ''revisions''" "name_ok ''xray.json''" "name_ok ''path-manager.json''"
  "name_ok ''mesh-sync.conf''" "name_ok ''paths.json''"
  by (simp_all add: name_ok_def element_def)

lemma join_name:
  assumes "p \<noteq> []" and "name_ok e"
  shows "clean_elements (join_path [p, e]) = clean_elements p @ [e]" "is_abs (join_path [p, e]) = is_abs p"
    "clean (join_path [p, e]) = join_path [p, e]" "join_path [p, e] \<noteq> []"
    "dir_of (join_path [p, e]) = clean p" "base_of (join_path [p, e]) = e"
  using assms join_child [of p e] child_parts [of p e] by (simp_all add: name_ok_def)

lemma runtime_dir_ne [simp]: "runtime_dir E \<noteq> []"
  by (simp add: runtime_dir_def join_name)

lemma revisions_base:
  "revisions_dir E = join_path [runtime_dir E, ''revisions'']" "revisions_dir E \<noteq> []"
  "clean (revisions_dir E) = revisions_dir E"
  by (simp_all add: revisions_dir_def join_name)

lemma revision_path_eq: "revision_path E n = join_path [revisions_dir E, n]"
  by (simp add: revision_path_def revisions_base(1))

lemma revision_path_facts:
  assumes "name_ok n"
  shows "clean_elements (revision_path E n) = clean_elements (runtime_dir E) @ [''revisions'', n]"
    "is_abs (revision_path E n) = is_abs (revisions_dir E)" "clean (revision_path E n) = revision_path E n"
    "revision_path E n \<noteq> []"
  using assms join_name [of "revisions_dir E" n] by (simp_all add: revision_path_eq revisions_base join_name)

lemma revision_name_path:
  assumes "name_ok n"
  shows "revision_name E (revision_path E n) = Some n"
proof -
  have "rel_path (revisions_dir E) (revision_path E n) = Some n"
    using rel_of_child [OF revision_path_eq revisions_base(2), of n E] assms
    by (simp add: revisions_base(3) name_ok_def)
  with assms show ?thesis
    by (simp add: revision_name_def name_ok_def dir_of_element element_no_prefix) (simp add: element_def)
qed

lemma revision_name_SomeD:
  assumes "revision_name E d = Some n"
  shows "name_ok n" "clean d = revision_path E n"
proof -
  from assms have "rel_path (revisions_dir E) d = Some n" "n \<noteq> ''.''" "n \<noteq> ''..''" "\<not> has_prefix n ''../''" "dir_of n = ''.''"
    by (auto simp: revision_name_def split: option.splits if_splits)
  from rel_child [OF this] have n: "element n" "n \<noteq> ''..''" and d: "is_abs d = is_abs (revisions_dir E)"
    "clean_elements d = clean_elements (revisions_dir E) @ [n]" by auto
  then show ok: "name_ok n" by (simp add: name_ok_def)
  have "clean d = clean (revision_path E n)"
    by (rule clean_eqI) (simp_all add: d revision_path_facts [OF ok] revision_path_eq join_name [OF revisions_base(2) ok])
  then show "clean d = revision_path E n" by (simp add: revision_path_facts [OF ok])
qed

lemma revision_name_clean [simp]: "revision_name E (clean d) = revision_name E d"
  by (simp add: revision_name_def rel_path_def)

lemma revision_directory_SomeD:
  assumes "revision_directory E m = Some d"
  obtains n where "name_ok n" "d = revision_path E n" "revision_name E (dir_of (dm_xray_config m)) = Some n"
  using assms revision_name_SomeD by (auto simp: revision_directory_def Let_def)

lemma revision_path_inj: "name_ok n \<Longrightarrow> name_ok k \<Longrightarrow> revision_path E n = revision_path E k \<longleftrightarrow> n = k"
  by (metis option.inject revision_name_path)

text \<open>The file of a revision.\<close>

definition file_path :: "host_env \<Rightarrow> string \<Rightarrow> string \<Rightarrow> string" where
  "file_path E n f = join_path [revision_path E n, f]"

lemma file_path_parts:
  assumes "name_ok n" and "name_ok f"
  shows "revision_name E (dir_of (file_path E n f)) = Some n" "base_of (file_path E n f) = f"
    "dir_of (file_path E n f) = revision_path E n" "clean (file_path E n f) = file_path E n f"
  using assms join_name [OF revision_path_facts(4) [OF assms(1)] assms(2)] revision_path_facts [OF assms(1)]
  by (simp_all add: file_path_def revision_name_path)

lemma names_file_path:
  assumes "name_ok n" and "name_ok f"
  shows "names_file (file_path E n f)"
proof -
  have f: "element f" "f \<noteq> ''..''" "revision_path E n \<noteq> []" using assms by (auto simp: name_ok_def revision_path_facts)
  obtain s where s: "file_path E n f = s @ f" "s = [] \<or> (\<exists>t. s = t @ ''/'')"
    using path_of_snoc [OF clean_elements_ok clean_settled, of "revision_path E n" f] path_of_join [OF f(3,1,2)]
    by (auto simp: file_path_def)
  have no: "CHR ''/'' \<notin> set (rev f)" using f(1) by (simp add: element_def)
  have all: "takeWhile (\<lambda>c. c \<noteq> CHR ''/'') (rev f) = rev f" using no by (subst takeWhile_eq_all_conv) auto
  have "takeWhile (\<lambda>c. c \<noteq> CHR ''/'') (rev f @ t) = rev f" if "t = [] \<or> hd t = CHR ''/''" for t
  proof (cases t)
    case Nil
    then show ?thesis by (simp only: append_Nil2 all)
  next
    case (Cons c u)
    with that have c: "c = CHR ''/''" by simp
    from no show ?thesis unfolding Cons c by (subst takeWhile_append2) auto
  qed
  moreover have "rev s = [] \<or> hd (rev s) = CHR ''/''" using s(2) by auto
  ultimately have "rev (takeWhile (\<lambda>c. c \<noteq> CHR ''/'') (rev (s @ f))) = f" unfolding rev_append by (simp only: rev_rev_ident)
  then show ?thesis using f(1,2) unfolding names_file_def s(1) by (simp add: element_def)
qed

text \<open>A path of a file of a revision, in any form.\<close>

definition file_in :: "host_env \<Rightarrow> string \<Rightarrow> string \<Rightarrow> string \<Rightarrow> bool" where
  "file_in E p n f \<longleftrightarrow> names_file p \<and> clean p = file_path E n f \<and> name_ok n \<and> name_ok f"

lemma file_in_of: "file_in E p n f \<Longrightarrow> file_of E p = Some (n, f)"
  by (simp add: file_of_def file_in_def file_path_parts revision_name_path)

lemma file_in_path: "name_ok n \<Longrightarrow> name_ok f \<Longrightarrow> file_in E (file_path E n f) n f"
  by (simp add: file_in_def names_file_path file_path_parts)

lemma file_in_dir:
  assumes "file_in E p n f"
  shows "dir_of p = revision_path E n"
proof -
  let ?e = "rev (takeWhile (\<lambda>c. c \<noteq> CHR ''/'') (rev p))"
  obtain s where s: "p = s @ ?e" "s = [] \<or> (\<exists>t. s = t @ ''/'')" by (rule last_component)
  have ok: "name_ok n" "name_ok f" and c: "clean p = join_path [revision_path E n, f]" and nm: "names_file p"
    using assms by (simp_all add: file_in_def file_path_def)
  have "CHR ''/'' \<notin> set ?e" by (auto dest: set_takeWhileD)
  with nm have e: "element ?e" "?e \<noteq> ''..''" by (simp_all add: names_file_def element_def)
  note parts = dir_of_named [OF s(2) e, folded s(1)]
  have "clean_elements p = clean_elements (revision_path E n) @ [f]" "is_abs p = is_abs (revision_path E n)"
    using join_name [OF revision_path_facts(4) [OF ok(1)] ok(2)] arg_cong [OF c, of clean_elements] arg_cong [OF c, of is_abs] by simp_all
  with parts have "clean s = clean (revision_path E n)" by (intro clean_eqI) simp_all
  with parts(1) show ?thesis by (simp add: revision_path_facts [OF ok(1)])
qed

lemma put_same: "file_in E p n f \<Longrightarrow> file_at E (put_file E p raw h) p = Some raw"
  by (simp add: file_at_def put_file_def file_in_of Let_def update_conv')

lemma put_other:
  assumes "file_in E q n g" and "file_in E p n f" and "f \<noteq> g"
  shows "file_at E (put_file E q raw h) p = file_at E h p"
  using assms by (simp add: file_at_def put_file_def file_in_of Let_def update_conv' split: option.split)

lemma drop_other:
  assumes "file_in E q n g" and "file_in E p n f" and "f \<noteq> g"
  shows "file_at E (drop_file E q h) p = file_at E h p"
proof -
  have "map_of (map (\<lambda>(k, fs). (k, if k = n then filter (\<lambda>(x, raw). x \<noteq> g) fs else fs)) xs) n =
      map_option (filter (\<lambda>(x, raw). x \<noteq> g)) (map_of xs n)"
    for xs :: "(string \<times> (string \<times> byte list) list) list"
    by (induction xs) auto
  moreover have "map_of (filter (\<lambda>(x, raw). x \<noteq> g) fs) f = map_of fs f" for fs :: "(string \<times> byte list) list"
    using assms(3) by (induction fs) auto
  moreover have "names_file q" "revision_name E (dir_of (clean q)) = Some n" "base_of (clean q) = g"
    using assms(1) by (simp_all add: file_in_def file_path_parts revision_name_path)
  ultimately show ?thesis using assms(2)
    by (cases "map_of (h_revs h) n") (simp_all add: file_at_def drop_file_def on_revision_def thin_revision_def file_in_of)
qed

lemma new_name_ok: "name_ok (hex_encode bs @ ''-'' @ show_nat k)"
proof -
  have "CHR ''/'' \<notin> set (hex_encode bs)"
    using hex_encode_lower [of bs] by (auto simp: list_all_iff is_lower_hex_def is_digit_def code_def)
  moreover have "CHR ''/'' \<notin> set (show_nat k)" using show_nat_digits [of k] by (auto simp: list_all_iff is_digit_def code_def)
  moreover have dash: "CHR ''-'' \<in> set (hex_encode bs @ ''-'' @ show_nat k)" by simp
  have "s \<noteq> ''.'' \<and> s \<noteq> ''..''" if "CHR ''-'' \<in> set s" for s using that by auto
  from this [OF dash] have "hex_encode bs @ ''-'' @ show_nat k \<noteq> ''.''" "hex_encode bs @ ''-'' @ show_nat k \<noteq> ''..''" by blast+
  ultimately show ?thesis by (simp add: name_ok_def element_def)
qed

section \<open>Steps that ask and act\<close>

lemma wp_bindI:
  assumes "\<And>a v. m w = (Inr a, v) \<Longrightarrow> wp (f a) Q F v" and "\<And>e v. m w = (Inl e, v) \<Longrightarrow> F e v"
  shows "wp (bindW m f) Q F w"
  using assms by (simp add: wp_bind wpI)

text \<open>
  A relation that holds over a question; one that also holds over an event that is not the
  removal of a directory or a write. The steps made of these keep it on every exit.
\<close>

fun plain_event :: "host_event \<Rightarrow> bool" where
  "plain_event (Wrote p) = False"
| "plain_event (RemovedTree p) = False"
| "plain_event e = True"

locale host_asks = step_preorder R
  for R :: "host \<Rightarrow> host \<Rightarrow> bool" +
  assumes R_htick: "R h (htick h)"
begin

lemma bind_value_keeps:
  assumes "keeps_rel R m" and "\<And>a h h'. m h = (Inr a, h') \<Longrightarrow> keeps_rel R (f a)"
  shows "keeps_rel R (bindW m f)"
proof (rule keeps_relI)
  fix h
  obtain r h' where step: "m h = (r, h')" by (metis prod.exhaust)
  from keeps_relD [OF assms(1) step] have first: "R h h'" .
  show "R h (snd (bindW m f h))"
  proof (cases r)
    case (Inr a)
    with assms(2) step have "R h' (snd (f a h'))" by (simp add: keeps_rel_def)
    with first Inr show ?thesis by (auto simp: bindW_def step intro: R_trans)
  qed (use first in \<open>simp add: bindW_def step\<close>)
qed

lemma prod_keeps [keeps]: "(\<And>a b. keeps_rel R (f a b)) \<Longrightarrow> keeps_rel R (case x of (a, b) \<Rightarrow> f a b)"
  by (simp split: prod.split)

lemma ask_keeps [keeps]: "keeps_rel R (ask f)"
  by (simp add: keeps_rel_def ask_def R_htick)

lemma query_keeps [keeps]: "keeps_rel R (query f)"
  by (simp add: keeps_rel_def query_def R_htick)

lemma andW_keeps [keeps]: "keeps_rel R m \<Longrightarrow> keeps_rel R n \<Longrightarrow> keeps_rel R (andW m n)"
  unfolding andW_def by (intro keeps)

lemma dropW_keeps [keeps]: "keeps_rel R m \<Longrightarrow> keeps_rel R (dropW m)"
  unfolding dropW_def by (intro keeps)

lemma orfail_keeps [keeps]: "keeps_rel R m \<Longrightarrow> keeps_rel R (orfail e m)"
  unfolding orfail_def by (intro keeps)

lemma on_failure_keeps [keeps]: "keeps_rel R u \<Longrightarrow> keeps_rel R m \<Longrightarrow> keeps_rel R (on_failure u m)"
  unfolding on_failure_def by (intro keeps)

lemma reads_keep [keeps]:
  "keeps_rel R (load_active E)" "keeps_rel R (load_good E)" "keeps_rel R (private_file E p)"
  "keeps_rel R (private_directory E p)" "keeps_rel R (read_file E p)" "keeps_rel R (list_revisions E)"
  by (simp_all add: keeps_rel_def R_htick load_active_def load_good_def private_file_def private_directory_def
    read_file_def list_revisions_def)

lemma questions_keep [keeps]: "keeps_rel R (service_state E i x c)" "keeps_rel R (secure_directory E)"
  unfolding service_state_def secure_directory_def by (intro keeps)+

lemma dependencies_keep [keeps]: "keeps_rel R (lookup_xray E)" "keeps_rel R (find_dependencies E)"
proof -
  show "keeps_rel R (lookup_xray E)" unfolding lookup_xray_def by (intro keeps)
  then show "keeps_rel R (find_dependencies E)" unfolding find_dependencies_def by (intro keeps)
qed

lemma load_mesh_keeps [keeps]: "keeps_rel R (load_mesh E p)"
  unfolding load_mesh_def by (intro keeps)

lemma mesh_matches_keeps [keeps]: "keeps_rel R (mesh_matches E m t)"
  unfolding mesh_matches_def by (intro keeps)

lemma sockets_owned_keeps [keeps]: "keeps_rel R (sockets_owned E p qs)"
proof (induction qs)
  case Nil
  show ?case unfolding sockets_owned.simps by (intro keeps)
next
  case (Cons q qs)
  show ?case unfolding sockets_owned.simps by (intro keeps Cons.IH)
qed

lemma mesh_sockets_keeps [keeps]: "keeps_rel R (mesh_sockets_owned E p)"
  unfolding mesh_sockets_owned_def by (intro keeps)

lemma await_manager_keeps [keeps]: "keeps_rel R (await_manager E p n)"
proof (induction n)
  case 0
  show ?case unfolding await_manager.simps by (intro keeps)
next
  case (Suc n)
  show ?case unfolding await_manager.simps by (intro keeps Suc.IH)
qed

lemma wait_manager_keeps [keeps]: "keeps_rel R (wait_for_path_manager E p)"
  unfolding wait_for_path_manager_def by (intro keeps)

lemma trusted_keeps [keeps]:
  "keeps_rel R (digest_is E p s)" "keeps_rel R (manager_trusted E m s)" "keeps_rel R (manifest_trusted E m x)"
proof -
  show digest: "keeps_rel R (digest_is E p s)" for p s unfolding digest_is_def by (intro keeps)
  show manager: "keeps_rel R (manager_trusted E m s)" for s unfolding manager_trusted_def Let_def by (intro keeps digest)
  show "keeps_rel R (manifest_trusted E m x)" unfolding manifest_trusted_def by (intro keeps digest manager)
qed

lemma process_trusted_keeps [keeps]: "keeps_rel R (process_trusted E m)"
  unfolding process_trusted_def Let_def by (intro keeps)

lemma await_xray_keeps [keeps]: "keeps_rel R (await_xray E m n)"
proof (induction n)
  case 0
  show ?case unfolding await_xray.simps by (intro keeps)
next
  case (Suc n)
  show ?case unfolding await_xray.simps by (intro keeps Suc.IH)
qed

lemma wait_xray_keeps [keeps]: "keeps_rel R (wait_for_xray E m)"
  unfolding wait_for_xray_def by (intro keeps)

lemma allocate_keeps [keeps]: "keeps_rel R (allocate E network used n)"
proof (induction n)
  case 0
  show ?case unfolding allocate.simps by (intro keeps)
next
  case (Suc n)
  show ?case unfolding allocate.simps by (intro keeps Suc.IH)
qed

lemma try_socket_keeps [keeps]: "keeps_rel R (try_socket E used n)"
proof (induction n)
  case 0
  show ?case unfolding try_socket.simps by (intro keeps)
next
  case (Suc n)
  show ?case unfolding try_socket.simps by (intro keeps Suc.IH)
qed

lemma allocate_peers_keeps [keeps]: "keeps_rel R (allocate_peers E used ps)"
proof (induction ps arbitrary: used)
  case Nil
  show ?case unfolding allocate_peers.simps by (intro keeps)
next
  case (Cons q qs)
  show ?case unfolding allocate_peers.simps by (intro keeps Cons.IH)
qed

lemma manager_healthy_keeps [keeps]: "keeps_rel R (manager_healthy E m)"
  unfolding manager_healthy_def by (intro keeps)

lemma checked_config_keeps [keeps]: "keeps_rel R (checked_config E c)"
  unfolding checked_config_def by (intro keeps)

lemma allocate_mesh_keeps [keeps]: "keeps_rel R (allocate_mesh E c m)"
  unfolding allocate_mesh_def Let_def by (intro keeps)

lemma place_peers_keeps [keeps]: "keeps_rel R (place_peers E old used ps)"
proof (induction ps arbitrary: used)
  case Nil
  show ?case unfolding place_peers.simps by (intro keeps)
next
  case (Cons q qs)
  show ?case unfolding place_peers.simps Let_def by (intro keeps Cons.IH)
qed

lemma check_free_keeps [keeps]: "keeps_rel R (check_free E m d)"
  unfolding check_free_def by (intro keeps)

lemma apply_checks_keep [keeps]: "keeps_rel R (apply_checks E c key)"
  unfolding apply_checks_def by (intro keeps)

lemma only_mesh_keeps [keeps]: "keeps_rel R (only_mesh_changed E m c key)"
  unfolding only_mesh_changed_def by (intro keeps)

lemma plan_mesh_keeps [keeps]: "keeps_rel R (plan_mesh E m p c t key)"
  unfolding plan_mesh_def Let_def by (intro keeps)

end

locale host_rel = host_asks R
  for R :: "host \<Rightarrow> host \<Rightarrow> bool" +
  assumes R_event: "plain_event e \<Longrightarrow> R h (logged e h)"
begin

lemma act_keeps: "plain_event e \<Longrightarrow> keeps_rel R (act e f)"
  using R_trans [OF R_event R_htick] by (simp add: keeps_rel_def act_def logged_def)

lemma backend_keeps [keeps]:
  "keeps_rel R (run_command E c args)" "keeps_rel R (start_process E c args r s)" "keeps_rel R (stop_process E p)"
  unfolding run_command_def start_process_def stop_process_def
  by (intro keeps act_keeps; simp)+

lemma take_down_keeps [keeps]: "keeps_rel R (take_down E m d s)"
  unfolding take_down_def by (intro keeps)

lemma stop_manager_keeps [keeps]: "keeps_rel R (stop_manager E m)"
  unfolding stop_manager_def by (intro keeps act_keeps) simp

lemma stop_manifest_keeps [keeps]: "keeps_rel R (stop_manifest E m d)"
  unfolding stop_manifest_def by (intro keeps)

lemma abandon_keeps [keeps]: "keeps_rel R (abandon E m op)"
  unfolding abandon_def by (intro keeps)

lemma start_stages_keep [keeps]:
  "keeps_rel R (start_xray E m d)" "keeps_rel R (start_manager E m)" "keeps_rel R (bring_up E m d)"
  unfolding start_xray_def start_manager_def bring_up_def Let_def by (intro keeps)+

lemma start_manifest_keeps [keeps]: "keeps_rel R (start_manifest E m d)"
  unfolding start_manifest_def by (intro keeps)

lemma health_keeps [keeps]: "keeps_rel R (manifest_healthy E m d)"
  unfolding manifest_healthy_def by (intro keeps)

lemma stop_previous_keeps [keeps]: "keeps_rel R (stop_previous E m d)"
  unfolding stop_previous_def by (intro keeps)

end

section \<open>Steps that change files\<close>

lemma create_directory_path:
  "create_directory E prefix h = (Inr d, h') \<Longrightarrow> \<exists>k. d = revision_path E (prefix @ show_nat k)"
  by (auto simp: create_directory_def Let_def split: sum.splits if_splits)

lemma on_failure_Inr: "on_failure u m h = (Inr a, h') \<longleftrightarrow> m h = (Inr a, h')"
  by (auto simp: on_failure_def guard_simps dropW_def)

lemma make_revision_path:
  assumes "make_revision E revision h = (Inr d, h')"
  obtains n where "name_ok n" "d = revision_path E n"
proof -
  from assms obtain g g' where "create_directory E (hex_encode (take 8 (he_sha256 E (bytes_of revision))) @ ''-'') g = (Inr d, g')"
    by (auto simp: make_revision_def guard_simps on_failure_Inr)
  from create_directory_path [OF this] that new_name_ok show ?thesis by auto
qed

text \<open>
  The path of a removed directory is named by \<open>ok\<close>; where a name in the revisions directory is
  not, the relation has to say nothing.
\<close>

locale host_files = host_rel R
  for R :: "host \<Rightarrow> host \<Rightarrow> bool" +
  fixes E :: host_env and ok :: "string \<Rightarrow> bool"
  assumes R_put: "R h (put_file E p raw h)"
    and R_wrote: "R h (logged (Wrote p) h)"
    and R_create: "map_of (h_revs h) n = None \<Longrightarrow> name_ok n \<Longrightarrow> R h (h\<lparr>h_revs := h_revs h @ [(n, [])]\<rparr>)"
    and R_drop: "R h (on_revision E p drop_revision h)"
    and R_thin: "R h (on_revision E p (thin_revision left) h)"
    and R_tree: "ok p \<Longrightarrow> R h (logged (RemovedTree p) h)"
    and ok_path: "name_ok n \<Longrightarrow> ok (revision_path E n)"
    and R_entry: "n \<in> set (map fst (h_revs h)) \<Longrightarrow> \<not> ok (revision_path E n) \<Longrightarrow> R h h'"
begin

lemma write_file_keeps [keeps]: "keeps_rel R (write_file E p raw)"
proof (rule keeps_relI)
  fix h
  have "R h (htick (logged (Wrote p) h))" "R h (htick (logged (Wrote p) (put_file E p raw h)))"
    using R_put R_wrote R_htick by (meson R_trans)+
  then show "R h (snd (write_file E p raw h))"
    by (auto simp: write_file_def write_artifact_def logged_def split: write_outcome.split)
qed

lemma create_directory_keeps:
  "(\<And>k. name_ok (prefix @ show_nat k)) \<Longrightarrow> keeps_rel R (create_directory E prefix)"
  by (rule keeps_relI) (auto simp: create_directory_def Let_def R_htick intro: R_trans [OF R_create R_htick] split: sum.split)

lemma remove_tree_keeps: "ok p \<Longrightarrow> keeps_rel R (remove_tree E p)"
  by (rule keeps_relI)
    (auto simp: remove_tree_def intro: R_trans [OF R_trans [OF R_thin R_tree] R_htick] R_trans [OF R_trans [OF R_drop R_tree] R_htick]
      split: option.split)

lemma remove_empty_keeps [keeps]: "keeps_rel R (remove_empty E p)"
proof (rule keeps_relI)
  fix h
  have "R h (on_revision E p (\<lambda>n h. if b n h then drop_revision n h else h) h)" for b
    using R_drop [of h p] R_refl [of h] by (auto simp: on_revision_def split: option.splits)
  then show "R h (snd (remove_empty E p h))" using R_htick by (simp add: remove_empty_def) (meson R_trans)
qed

lemma remove_owned_keeps [keeps]: "keeps_rel R (remove_owned E p)"
  by (rule keeps_relI)
    (auto simp: remove_owned_def drop_file_def R_htick intro: R_trans [OF R_trans [OF R_thin R_event] R_htick] R_trans [OF R_event R_htick]
      split: option.split)

lemma drop_sync_keeps [keeps]: "keeps_rel R (drop_sync_file E m)"
  by (rule keeps_relI) (auto simp: drop_sync_file_def drop_file_def R_htick intro: R_trans [OF R_thin R_htick])

lemma make_revision_keeps [keeps]: "keeps_rel R (make_revision E revision)"
proof -
  let ?create = "create_directory E (hex_encode (take 8 (he_sha256 E (bytes_of revision))) @ ''-'')"
  have name: "name_ok ((hex_encode (take 8 (he_sha256 E (bytes_of revision))) @ ''-'') @ show_nat k)" for k
    using new_name_ok by simp
  have "keeps_rel R (case r of
        Inl e \<Rightarrow> raise (fault_cause CodeStateIO ''create runtime revision'' e)
      | Inr directory \<Rightarrow>
          on_failure (remove_tree E directory)
            (bindW (tryW (secure_directory E)) (\<lambda>s. case s of
               Inl e \<Rightarrow> raise (fault_cause CodeStateIO ''secure runtime revision'' e)
             | Inr u \<Rightarrow> ret directory)))" if "tryW ?create h = (Inr r, h')" for r h h'
  proof -
    have "ok d" if d: "r = Inr d" for d
    proof -
      from \<open>tryW ?create h = (Inr r, h')\<close> d have "?create h = (Inr d, h')" by (simp add: guard_simps)
      from create_directory_path [OF this] show ?thesis using ok_path [OF name] by auto
    qed
    then show ?thesis by (cases r) (auto intro!: keeps remove_tree_keeps)
  qed
  then show ?thesis unfolding make_revision_def
    by (intro bindW_keeps [OF questions_keep(2)] bind_value_keeps tryW_keeps create_directory_keeps [OF name])
qed

lemma fill_revision_keeps [keeps]: "keeps_rel R (fill_revision E c key xray d)"
  unfolding fill_revision_def add_manager_def Let_def by (intro keeps)

lemma prepare_keeps [keeps]: "keeps_rel R (prepare E c key xray)"
  unfolding prepare_def
  by (intro bind_value_keeps keeps remove_tree_keeps) (metis make_revision_path ok_path)

lemma remove_revision_keeps [keeps]: "keeps_rel R (remove_revision E m)"
proof (cases "revision_directory E m")
  case (Some d)
  then obtain n where "name_ok n" "d = revision_path E n" by (rule revision_directory_SomeD)
  with ok_path have "ok d" by simp
  with Some show ?thesis unfolding remove_revision_def by simp (intro keeps remove_tree_keeps)
qed (simp add: remove_revision_def keeps)

lemma remove_entries_keeps: "\<forall>n \<in> set names. ok (revision_path E n) \<Longrightarrow> keeps_rel R (remove_entries E keep names)"
proof (induction names)
  case Nil
  show ?case unfolding remove_entries.simps by (intro keeps)
next
  case (Cons n names)
  then have "ok (revision_path E n)" "keeps_rel R (remove_entries E keep names)" by auto
  then show ?case unfolding remove_entries.simps Let_def by (intro keeps remove_tree_keeps)
qed

lemma cleanup_retained_keeps [keeps]: "keeps_rel R (cleanup_retained_revisions E m)"
proof -
  have listed: "keeps_rel R (bindW (list_revisions E) (remove_entries E keep))" for keep
  proof (rule keeps_relI)
    fix h
    show "R h (snd (bindW (list_revisions E) (remove_entries E keep) h))"
    proof (cases "\<forall>n \<in> set (map fst (h_revs h)). ok (revision_path E n)")
      case True
      have "R (htick h) (snd (remove_entries E keep names (htick h)))" if "set names \<subseteq> set (map fst (h_revs h))" for names
        using remove_entries_keeps [of names keep] True that by (auto simp: keeps_rel_def)
      from this [of "[]"] this [of "sort (map fst (h_revs h))"] show ?thesis using R_htick
        by (auto simp: bindW_def list_revisions_def intro: R_trans split: option.split)
    next
      case False
      with R_entry show ?thesis by blast
    qed
  qed
  show ?thesis unfolding cleanup_retained_revisions_def by (rule bindW_keeps [OF reads_keep(2)]) (rule listed)
qed

lemma refresh_expiry_keeps [keeps]: "keeps_rel R (refresh_mesh_expiry E m p expires)"
  unfolding refresh_mesh_expiry_def Let_def by (intro keeps)

lemma undo_mesh_keeps [keeps]: "keeps_rel R (undo_mesh E m p mesh wg d e)"
  unfolding undo_mesh_def Let_def by (intro keeps)

lemma cleanup_manifests_keeps [keeps]: "keeps_rel R (cleanup_manifests E ms)"
proof (induction ms)
  case Nil
  show ?case unfolding cleanup_manifests.simps by (intro keeps)
next
  case (Cons m ms)
  show ?case unfolding cleanup_manifests.simps by (intro keeps Cons.IH)
qed

end

section \<open>Steps that write a manifest\<close>

locale host_manifests = host_files R E ok
  for R :: "host \<Rightarrow> host \<Rightarrow> bool" and E :: host_env and ok :: "string \<Rightarrow> bool" +
  assumes R_active: "R h (h\<lparr>h_active := f\<rparr>)" and R_good: "R h (h\<lparr>h_good := f\<rparr>)"
begin

lemma save_keeps [keeps]: "keeps_rel R (save_active E m)" "keeps_rel R (save_good E m)"
  by (rule keeps_relI, auto simp: save_active_def save_good_def intro: R_trans [OF R_active R_htick] R_trans [OF R_good R_htick]
    split: prod.split)+

lemma remove_manifests_keep [keeps]: "keeps_rel R (remove_active E)" "keeps_rel R (remove_good E)"
  by (rule keeps_relI, auto simp: remove_active_def remove_good_def intro: R_trans [OF R_active R_htick] R_trans [OF R_good R_htick]
    split: prod.split)+

lemma commit_mesh_keeps [keeps]: "keeps_rel R (commit_mesh E m p q mesh wg d)"
  unfolding commit_mesh_def by (intro keeps)

lemma reconcile_keeps [keeps]: "keeps_rel R (reconcile_mesh E m p c t key d)"
  unfolding reconcile_mesh_def transact_mesh_def Let_def by (intro keeps)

lemma try_reconcile_keeps [keeps]: "keeps_rel R (try_reconcile E m c key d wanted wrap)"
  unfolding try_reconcile_def by (intro keeps)

lemma resume_keeps [keeps]: "keeps_rel R (resume_stopped E m c d)"
  unfolding resume_stopped_def by (intro keeps)

lemma keep_running_keeps [keeps]: "keeps_rel R (keep_running E m c)"
  unfolding keep_running_def by (intro keeps)

lemma apply_to_active_keeps [keeps]: "keeps_rel R (apply_to_active E m c key d)"
  unfolding apply_to_active_def apply_healthy_def by (intro keeps)

lemma rollback_keeps [keeps]: "keeps_rel R (rollback E m p d e)"
  unfolding rollback_def by (intro keeps)

lemma replace_keeps [keeps]: "keeps_rel R (replace_revision E p c key d)"
  unfolding replace_revision_def activate_def by (intro keeps)

lemma desktop_apply_keeps: "keeps_rel R (desktop_apply E c key)"
  unfolding desktop_apply_def by (intro keeps)

lemma desktop_down_keeps: "keeps_rel R (desktop_down E)"
  unfolding desktop_down_def down_manifest_def by (intro keeps)

lemma desktop_cleanup_keeps: "keeps_rel R (desktop_cleanup E)"
  unfolding desktop_cleanup_def cleanup_check_def by (intro keeps)

end

end
