(* ===== verification/Desktop_Runs.thy ===== *)
theory Desktop_Runs
  imports Desktop_Facts
begin

text \<open>
  What the desktop runtime promises: it removes revisions only, and never the one that is kept
  for a rollback; it stops only what the manifest proves to be its own; a configuration that is
  applied is the one recorded as active, with its files as they were recorded.
\<close>

section \<open>Only revisions are removed\<close>

definition names_ok :: "host \<Rightarrow> bool" where
  "names_ok h \<longleftrightarrow> distinct (map fst (h_revs h)) \<and> list_all name_ok (map fst (h_revs h))"

definition revision_of :: "host_env \<Rightarrow> string \<Rightarrow> bool" where
  "revision_of E p \<longleftrightarrow> (\<exists>n. name_ok n \<and> p = revision_path E n)"

definition removes_revisions :: "host_env \<Rightarrow> host \<Rightarrow> host \<Rightarrow> bool" where
  "removes_revisions E h h' \<longleftrightarrow> (names_ok h \<longrightarrow>
     names_ok h' \<and> (\<exists>es. h_log h' = h_log h @ es \<and> (\<forall>p. RemovedTree p \<in> set es \<longrightarrow> revision_of E p)))"

lemma removes_step:
  assumes "names_ok h \<Longrightarrow> names_ok h'" and "h_log h' = h_log h @ es"
    and "\<And>p. RemovedTree p \<in> set es \<Longrightarrow> revision_of E p"
  shows "removes_revisions E h h'"
  using assms by (auto simp: removes_revisions_def)

lemma removes_trans:
  assumes first: "removes_revisions E u v" and second: "removes_revisions E v w"
  shows "removes_revisions E u w"
  unfolding removes_revisions_def
proof (rule impI)
  assume "names_ok u"
  with first obtain es where v: "names_ok v" and es: "h_log v = h_log u @ es" "\<forall>p. RemovedTree p \<in> set es \<longrightarrow> revision_of E p"
    unfolding removes_revisions_def by blast
  with second obtain fs where fs: "names_ok w" "h_log w = h_log v @ fs" "\<forall>p. RemovedTree p \<in> set fs \<longrightarrow> revision_of E p"
    unfolding removes_revisions_def by blast
  with es show "names_ok w \<and> (\<exists>es. h_log w = h_log u @ es \<and> (\<forall>p. RemovedTree p \<in> set es \<longrightarrow> revision_of E p))"
    by (intro conjI exI [of _ "es @ fs"]) auto
qed

lemma update_names:
  "distinct (map fst xs) \<Longrightarrow> list_all P (map fst xs) \<Longrightarrow> P k \<Longrightarrow>
     distinct (map fst (AList.update k v xs)) \<and> list_all P (map fst (AList.update k v xs))"
  by (simp add: distinct_update) (auto simp: list_all_iff update_keys split: if_splits)

lemma put_names: "names_ok h \<Longrightarrow> names_ok (put_file E p raw h)"
proof -
  assume ok: "names_ok h"
  have "name_ok n" if "file_of E p = Some (n, f)" for n f
    using that revision_name_SomeD(1) by (auto simp: file_of_def split: if_splits)
  with ok update_names [of "h_revs h" name_ok] show ?thesis
    by (cases "file_of E p") (auto simp: put_file_def names_ok_def Let_def)
qed

lemma drop_names: "names_ok h \<Longrightarrow> names_ok (on_revision E p drop_revision h)"
  by (auto simp: on_revision_def drop_revision_def names_ok_def list_all_iff distinct_map_filter split: option.split)

lemma thin_keys [simp]: "map fst (h_revs (thin_revision left n h)) = map fst (h_revs h)"
  by (induction "h_revs h") (auto simp: thin_revision_def)

lemma thin_names: "names_ok h \<Longrightarrow> names_ok (on_revision E p (thin_revision left) h)"
  by (simp add: on_revision_def names_ok_def split: option.split)

lemma host_logs [simp]:
  "h_log (put_file E p raw h) = h_log h" "h_log (on_revision E p drop_revision h) = h_log h"
  "h_log (on_revision E p (thin_revision left) h) = h_log h" "h_log (htick h) = h_log h"
  "h_revs (htick h) = h_revs h" "h_revs (logged e h) = h_revs h" "h_log (logged e h) = h_log h @ [e]"
  "h_active (htick h) = h_active h" "h_good (htick h) = h_good h" "h_active (logged e h) = h_active h"
  "h_good (logged e h) = h_good h"
  "h_active (on_revision E p drop_revision h) = h_active h" "h_active (on_revision E p (thin_revision left) h) = h_active h"
  "h_good (on_revision E p drop_revision h) = h_good h" "h_good (on_revision E p (thin_revision left) h) = h_good h"
  "h_active (put_file E p raw h) = h_active h" "h_good (put_file E p raw h) = h_good h"
  by (simp_all add: put_file_def on_revision_def drop_revision_def thin_revision_def htick_def logged_def Let_def split: option.split)

lemma names_same [simp]: "names_ok (htick h) = names_ok h" "names_ok (logged e h) = names_ok h"
  by (simp_all add: names_ok_def)

interpretation removing: host_manifests "removes_revisions E" E "revision_of E"
proof (unfold_locales)
  fix u v w :: host and e p raw n f left
  show "removes_revisions E w w" by (rule removes_step [where es = "[]"]) auto
  show "removes_revisions E u w" if "removes_revisions E u v" and "removes_revisions E v w"
    using that by (rule removes_trans)
  show "removes_revisions E w (htick w)"
    by (rule removes_step [where es = "[]"]) simp_all
  show "removes_revisions E w (logged e w)" if "plain_event e"
    by (rule removes_step [where es = "[e]"]) (use that in \<open>auto\<close>)
  show "removes_revisions E w (put_file E p raw w)"
    by (rule removes_step [where es = "[]"]) (simp_all add: put_names)
  show "removes_revisions E w (logged (Wrote p) w)"
    by (rule removes_step [where es = "[Wrote p]"]) simp_all
  show "removes_revisions E w (w\<lparr>h_revs := h_revs w @ [(n, [])]\<rparr>)" if "map_of (h_revs w) n = None" and "name_ok n"
    by (rule removes_step [where es = "[]"]) (use that in \<open>auto simp: names_ok_def map_of_eq_None_iff\<close>)
  show "removes_revisions E w (on_revision E p drop_revision w)"
    by (rule removes_step [where es = "[]"]) (simp_all add: drop_names)
  show "removes_revisions E w (on_revision E p (thin_revision left) w)"
    by (rule removes_step [where es = "[]"]) (simp_all add: thin_names)
  show "removes_revisions E w (logged (RemovedTree p) w)" if "revision_of E p"
    by (rule removes_step [where es = "[RemovedTree p]"]) (use that in \<open>auto\<close>)
  show "revision_of E (revision_path E n)" if "name_ok n"
    using that by (auto simp: revision_of_def)
  show "removes_revisions E v w" if "n \<in> set (map fst (h_revs v))" and "\<not> revision_of E (revision_path E n)"
    using that by (auto simp: removes_revisions_def names_ok_def revision_of_def list_all_iff)
  show "removes_revisions E w (w\<lparr>h_active := f\<rparr>)" "removes_revisions E w (w\<lparr>h_good := f\<rparr>)"
    by (rule removes_step [where es = "[]"]; simp add: names_ok_def)+
qed


section \<open>What is kept for a rollback\<close>

text \<open>The files of one revision, and the manifests, before and after; the directory is not removed.\<close>

definition keeps_revision :: "host_env \<Rightarrow> string \<Rightarrow> host \<Rightarrow> host \<Rightarrow> bool" where
  "keeps_revision E n h h' \<longleftrightarrow> map_of (h_revs h') n = map_of (h_revs h) n \<and> h_active h' = h_active h \<and> h_good h' = h_good h \<and>
     (\<exists>es. h_log h' = h_log h @ es \<and> RemovedTree (revision_path E n) \<notin> set es)"

lemma keeps_revision_step:
  assumes "map_of (h_revs h') n = map_of (h_revs h) n" "h_active h' = h_active h" "h_good h' = h_good h"
    and "h_log h' = h_log h @ es" "RemovedTree (revision_path E n) \<notin> set es"
  shows "keeps_revision E n h h'"
  using assms by (auto simp: keeps_revision_def)

lemma keeps_revision_trans: "keeps_revision E n u v \<Longrightarrow> keeps_revision E n v w \<Longrightarrow> keeps_revision E n u w"
proof -
  assume u: "keeps_revision E n u v" and v: "keeps_revision E n v w"
  from u obtain es where es: "h_log v = h_log u @ es" "RemovedTree (revision_path E n) \<notin> set es" by (auto simp: keeps_revision_def)
  from v obtain fs where fs: "h_log w = h_log v @ fs" "RemovedTree (revision_path E n) \<notin> set fs" by (auto simp: keeps_revision_def)
  show ?thesis by (rule keeps_revision_step [where es = "es @ fs"]) (use u v es fs in \<open>auto simp: keeps_revision_def\<close>)
qed

interpretation retaining: host_rel "keeps_revision E n"
proof (unfold_locales)
  fix u v w :: host and e
  show "keeps_revision E n w w" by (rule keeps_revision_step [where es = "[]"]) auto
  show "keeps_revision E n u w" if "keeps_revision E n u v" and "keeps_revision E n v w"
    using that by (rule keeps_revision_trans)
  show "keeps_revision E n w (htick w)" by (rule keeps_revision_step [where es = "[]"]) simp_all
  show "keeps_revision E n w (logged e w)" if "plain_event e"
    by (rule keeps_revision_step [where es = "[e]"]) (use that in auto)
qed

lemma revision_path_clean: "clean (revision_path E x) = revision_path E x"
  using revisions_base(2) [of E] by (simp add: revision_path_eq join_path_def)

lemma map_of_other:
  "m \<noteq> n \<Longrightarrow> map_of (filter (\<lambda>(k, fs). k \<noteq> m) xs) n = map_of xs n"
  "m \<noteq> n \<Longrightarrow> map_of (map (\<lambda>(k, fs). (k, if k = m then f fs else fs)) xs) n = map_of xs n"
  by (induction xs) auto

lemma remove_tree_other:
  assumes "revision_name E p \<noteq> Some n" and "p \<noteq> revision_path E n"
  shows "keeps_revision E n h (snd (remove_tree E p h))"
proof -
  have "map_of (h_revs (on_revision E p drop_revision h)) n = map_of (h_revs h) n"
    "map_of (h_revs (on_revision E p (thin_revision left) h)) n = map_of (h_revs h) n" for left
    using assms(1) by (auto simp: on_revision_def drop_revision_def thin_revision_def map_of_other split: option.split)
  then show ?thesis using assms(2)
    by (cases "he_remove E (h_tick h)")
      (auto simp: remove_tree_def intro!: keeps_revision_step [where es = "[RemovedTree p]"])
qed

lemma remove_entries_other:
  assumes "name_ok n" and "revision_path E n \<in> keep"
  shows "keeps_rel (keeps_revision E n) (remove_entries E keep names)"
proof (induction names)
  case Nil
  show ?case unfolding remove_entries.simps by (intro keeps)
next
  case (Cons x names)
  have "keeps_rel (keeps_revision E n) (remove_tree E (revision_path E x))" if "revision_path E x \<notin> keep"
  proof (rule keeps_relI, rule remove_tree_other)
    show other: "revision_path E x \<noteq> revision_path E n" using assms(2) that by auto
    show "revision_name E (revision_path E x) \<noteq> Some n"
      using other revision_name_SomeD(2) [of E "revision_path E x" n] by (auto simp: revision_path_clean)
  qed
  then show ?case unfolding remove_entries.simps Let_def
    by (cases "revision_path E x \<in> keep") (auto intro!: keeps Cons.IH)
qed

lemma cleanup_retained_exact:
  assumes run: "cleanup_retained_revisions E m h = (r, h')" and k: "k = m \<or> h_good h = Doc k"
    and d: "revision_directory E k = Some d"
  obtains n where "name_ok n" "d = revision_path E n" "keeps_revision E n h h'"
proof -
  obtain n where n: "name_ok n" "d = revision_path E n" using d by (rule revision_directory_SomeD)
  have "keeps_revision E n h h'"
  proof (cases "read_manifest (he_read E (h_tick h)) (h_good h)")
    case (Inl e)
    with run show ?thesis
      by (auto simp: cleanup_retained_revisions_def bindW_def load_good_def intro!: retaining.R_htick)
  next
    case (Inr good)
    let ?keep = "set_option (revision_directory E m) \<union> (case good of None \<Rightarrow> {} | Some g \<Rightarrow> set_option (revision_directory E g))"
    have "revision_path E n \<in> ?keep"
      using k d n(2) Inr by (auto simp: read_manifest_def split: if_splits)
    from remove_entries_other [OF n(1) this] have "keeps_rel (keeps_revision E n) (bindW (list_revisions E) (remove_entries E ?keep))"
      by (intro keeps)
    moreover have "bindW (list_revisions E) (remove_entries E ?keep) (htick h) = (r, h')"
      using run Inr by (simp add: cleanup_retained_revisions_def bindW_def [of "load_good E"] load_good_def)
    ultimately have "keeps_revision E n (htick h) h'" by (rule keeps_relD)
    then show ?thesis by (rule keeps_revision_trans [OF retaining.R_htick])
  qed
  with n that show ?thesis by blast
qed

text \<open>
  Removing old revisions keeps what a rollback needs. On every exit of the cleanup the
  revision that is active and the last known good one still have every file they had, the
  manifests are untouched, and neither directory was removed.
\<close>

theorem retained_revisions_kept:
  assumes "cleanup_retained_revisions E m h = (r, h')" and "k = m \<or> h_good h = Doc k"
    and "revision_directory E k = Some d" and "name_ok f"
  shows "file_at E h' (join_path [d, f]) = file_at E h (join_path [d, f]) \<and> h_active h' = h_active h \<and> h_good h' = h_good h \<and>
    (\<exists>es. h_log h' = h_log h @ es \<and> RemovedTree d \<notin> set es)"
proof -
  obtain n where n: "name_ok n" "d = revision_path E n" "keeps_revision E n h h'"
    using cleanup_retained_exact [OF assms(1-3)] .
  have "file_of E (join_path [d, f]) = Some (n, f)"
    using file_in_of [OF file_in_path [OF n(1) assms(4)]] by (simp add: file_path_def n(2))
  with n show ?thesis by (simp add: file_at_def keeps_revision_def)
qed

section \<open>Only what is owned is stopped\<close>

definition file_digest :: "host_env \<Rightarrow> host \<Rightarrow> string \<Rightarrow> string \<Rightarrow> bool" where
  "file_digest E h path s \<longleftrightarrow> (\<exists>raw. file_at E h path = Some raw \<and> hex_encode (he_sha256 E raw) = s)"

definition manager_recorded :: "host_env \<Rightarrow> host \<Rightarrow> manifest \<Rightarrow> string \<Rightarrow> bool" where
  "manager_recorded E h m directory \<longleftrightarrow> (\<forall>p. dm_manager m = Some p \<longrightarrow>
     pi_config p = join_path [directory, ''path-manager.json''] \<and> pi_revision p = dm_revision m \<and>
     file_digest E h (pi_config p) (pi_sha256 p))"

text \<open>The manifest names a revision of this runtime, whose files are the recorded ones.\<close>

definition ours :: "host_env \<Rightarrow> host \<Rightarrow> manifest \<Rightarrow> string \<Rightarrow> bool" where
  "ours E h m xray \<longleftrightarrow> (\<exists>d. revision_directory E m = Some d \<and> identity_trusted m xray d \<and>
     file_digest E h (dm_wg_config m) (dm_wg_sha256 m) \<and> manager_recorded E h m d)"

text \<open>The process is the one the manifest started from this configuration.\<close>

definition process_recorded :: "host_env \<Rightarrow> host \<Rightarrow> manifest \<Rightarrow> bool" where
  "process_recorded E h m \<longleftrightarrow> pi_pid (dm_xray m) > 0 \<and> pi_config (dm_xray m) = dm_xray_config m \<and>
     pi_revision (dm_xray m) = dm_revision m \<and> file_digest E h (dm_xray_config m) (pi_sha256 (dm_xray m))"

text \<open>The host as it was, but for the number of questions.\<close>

definition quiet :: "host \<Rightarrow> host \<Rightarrow> bool" where
  "quiet h h' \<longleftrightarrow> h_revs h' = h_revs h \<and> h_log h' = h_log h \<and> h_active h' = h_active h \<and> h_good h' = h_good h"

interpretation quiet: host_asks quiet
  by unfold_locales (auto simp: quiet_def)

lemma quiet_file_at: "quiet h h' \<Longrightarrow> file_at E h' p = file_at E h p"
  by (simp add: quiet_def file_at_def cong: option.case_cong)

lemma quiet_digest: "quiet h h' \<Longrightarrow> file_digest E h' p s = file_digest E h p s"
  by (simp add: file_digest_def quiet_file_at)

lemma quiet_recorded: "quiet h h' \<Longrightarrow> manager_recorded E h' m d = manager_recorded E h m d"
  by (simp add: manager_recorded_def quiet_digest)

lemma quiet_process: "quiet h h' \<Longrightarrow> process_recorded E h' m = process_recorded E h m"
  by (simp add: process_recorded_def quiet_digest)

lemma andW_True: "andW m n h = (Inr True, h') \<longleftrightarrow> (\<exists>v. m h = (Inr True, v) \<and> n v = (Inr True, h'))"
  by (auto simp: andW_def guard_simps split: if_splits)

lemma andW_ret: "andW (ret b) n h = (Inr True, h') \<longleftrightarrow> b \<and> n h = (Inr True, h')"
  by (auto simp: andW_True)

lemma orfail_Inr [guard_simps]: "orfail e m h = (Inr a, h') \<longleftrightarrow> m h = (Inr a, h')"
  by (auto simp: orfail_def guard_simps)

lemma digest_is_True:
  assumes "digest_is E p s h = (Inr True, h')"
  shows "file_digest E h p s"
  using assms
  by (auto simp: digest_is_def guard_simps read_file_def file_digest_def split: option.splits sum.splits)

lemma manager_trusted_True:
  assumes "manager_trusted E m d h = (Inr True, h')"
  shows "manager_recorded E h m d"
  unfolding manager_recorded_def
proof (intro allI impI)
  fix p
  assume p: "dm_manager m = Some p"
  from assms obtain x v v' where s1: "query (he_self E) h = (Inr x, v)" and s2: "private_file E (pi_config p) v = (Inr True, v')"
    and pure: "pi_config p = join_path [d, ''path-manager.json'']" "pi_revision p = dm_revision m"
    and digest: "digest_is E (pi_config p) (pi_sha256 p) v' = (Inr True, h')"
    by (auto simp: manager_trusted_def p Let_def guard_simps andW_True)
  have self: "quiet h v'" using keeps_relD [OF quiet.query_keeps s1] keeps_relD [OF quiet.reads_keep(3) s2] by (rule quiet.R_trans)
  from pure digest_is_True [OF digest] quiet_digest [OF self]
  show "pi_config p = join_path [d, ''path-manager.json''] \<and> pi_revision p = dm_revision m \<and> file_digest E h (pi_config p) (pi_sha256 p)"
    by simp
qed

lemma manifest_trusted_True:
  assumes "manifest_trusted E m x h = (Inr True, h')"
  shows "ours E h m x"
proof -
  from assms obtain d where d: "revision_directory E m = Some d" by (auto simp: manifest_trusted_def split: option.splits)
  with assms obtain v1 v2 v3 v4 where pure: "identity_trusted m x d" and
    s1: "private_file E (dm_xray_config m) h = (Inr True, v1)" and s2: "private_file E (dm_wg_config m) v1 = (Inr True, v2)" and
    s3: "digest_is E (dm_wg_config m) (dm_wg_sha256 m) v2 = (Inr True, v3)" and s4: "manager_trusted E m d v3 = (Inr True, v4)"
    by (auto simp: manifest_trusted_def d andW_True)
  note q1 = keeps_relD [OF quiet.reads_keep(3) s1] and q2 = keeps_relD [OF quiet.reads_keep(3) s2]
    and q3 = keeps_relD [OF quiet.trusted_keeps(1) s3]
  have q: "quiet h v2" "quiet h v3" using q1 q2 q3 quiet.R_trans by blast+
  have "file_digest E h (dm_wg_config m) (dm_wg_sha256 m)" using digest_is_True [OF s3] quiet_digest [OF q(1)] by simp
  moreover have "manager_recorded E h m d"
    using manager_trusted_True [OF s4] by (simp add: quiet_recorded [OF q(2)])
  ultimately show ?thesis using d pure unfolding ours_def by blast
qed

lemma process_trusted_Inr:
  assumes "process_trusted E m h = (Inr b, h')"
  shows "process_recorded E h m \<and> (\<exists>n. he_alive E (dm_xray m) n = Inr b)"
  using assms
  by (auto simp: process_trusted_def process_recorded_def Let_def guard_simps read_file_def file_digest_def query_def
    split: option.splits)

text \<open>The events that are added.\<close>

definition logs :: "(host_event \<Rightarrow> bool) \<Rightarrow> host \<Rightarrow> host \<Rightarrow> bool" where
  "logs P h h' \<longleftrightarrow> (\<exists>es. h_log h' = h_log h @ es \<and> list_all P es)"

interpretation logging: host_asks "logs P"
proof (unfold_locales)
  fix u v w :: host
  show "logs P w w" "logs P w (htick w)" by (simp_all add: logs_def)
  show "logs P u w" if "logs P u v" and "logs P v w"
  proof -
    from that obtain es fs where "h_log v = h_log u @ es" "list_all P es" "h_log w = h_log v @ fs" "list_all P fs"
      by (auto simp: logs_def)
    then show ?thesis unfolding logs_def by (intro exI [of _ "es @ fs"]) simp
  qed
qed

lemma act_logs: "P e \<Longrightarrow> keeps_rel (logs P) (act e f)"
  by (simp add: keeps_rel_def act_def logs_def htick_def)

text \<open>What may be done to stop what the manifest describes, and what has to be known for it.\<close>

definition may_stop :: "host_env \<Rightarrow> manifest \<Rightarrow> dependencies \<Rightarrow> host_event \<Rightarrow> bool" where
  "may_stop E m d e \<longleftrightarrow>
     e = Ran (dp_wg_quick d) [''down'', dm_wg_config m] \<and> dm_wg_up m \<and>
       (\<exists>n. he_index E (dm_interface m) n = Inr (dm_index m) \<and> dm_index m \<noteq> 0 \<or>
          he_service E (dm_interface m) (dp_wg_quick d) (dm_wg_config m) n = Inr (True, True)) \<or>
     (\<exists>p. dm_manager m = Some p \<and> e = Stopping p) \<or>
     e = RemovedFile (join_path [runtime_dir E, ''overlay-status.json'']) \<or>
     e = Stopping (dm_xray m) \<and> (\<exists>n. he_alive E (dm_xray m) n = Inr True)"

lemma take_down_logs:
  assumes "s \<Longrightarrow> \<exists>n. he_service E (dm_interface m) (dp_wg_quick d) (dm_wg_config m) n = Inr (True, True)"
  shows "keeps_rel (logs (may_stop E m d)) (take_down E m d s)"
proof (cases "dm_wg_up m")
  case True
  let ?index = "orfail (fault CodeRuntimeProcessStale ''verify WireGuard interface identity'') (query (he_index E (dm_interface m)))"
  let ?down = "orfail (fault CodeRuntimeApplyFailed ''stop WireGuard runtime'') (run_command E (dp_wg_quick d) [''down'', dm_wg_config m])"
  have "keeps_rel (logs (may_stop E m d)) (ifW (i \<noteq> 0 \<and> (dm_index m = 0 \<or> i \<noteq> dm_index m))
      (fault CodeRuntimeProcessStale ''verify WireGuard interface identity'') (if i \<noteq> 0 \<or> s then ?down else ret ()))"
    if "?index h = (Inr i, h')" for i h h'
  proof (cases "i \<noteq> 0 \<and> (dm_index m = 0 \<or> i \<noteq> dm_index m)")
    case False
    from that have "he_index E (dm_interface m) (h_tick h) = Inr i" by (simp add: orfail_Inr query_def)
    with False True assms have "may_stop E m d (Ran (dp_wg_quick d) [''down'', dm_wg_config m])" if "i \<noteq> 0 \<or> s"
      using that by (auto simp: may_stop_def)
    then have "i \<noteq> 0 \<or> s \<Longrightarrow> keeps_rel (logs (may_stop E m d)) ?down"
      unfolding run_command_def by (intro logging.orfail_keeps act_logs)
    then have "keeps_rel (logs (may_stop E m d)) (if i \<noteq> 0 \<or> s then ?down else ret ())"
      by (cases "i \<noteq> 0 \<or> s") (simp_all add: keeps)
    then show ?thesis by (rule logging.ifW_keeps)
  qed (simp add: ifW_def keeps)
  then show ?thesis using True unfolding take_down_def by (simp, intro logging.bind_value_keeps logging.orfail_keeps logging.query_keeps)
qed (simp add: take_down_def keeps)

lemma stop_manager_logs: "keeps_rel (logs (may_stop E m d)) (stop_manager E m)"
  unfolding stop_manager_def stop_process_def
  by (cases "dm_manager m") (auto intro!: keeps act_logs simp: may_stop_def)

definition stops_owned :: "host_env \<Rightarrow> manifest \<Rightarrow> dependencies \<Rightarrow> host \<Rightarrow> host \<Rightarrow> bool" where
  "stops_owned E m d h h' \<longleftrightarrow> h_log h' = h_log h \<or>
     ours E h m (dp_xray d) \<and> process_recorded E h m \<and> \<not> dm_stopped m \<and> logs (may_stop E m d) h h'"

lemma stop_manifest_owned: "wp (stop_manifest E m d) (\<lambda>u. stops_owned E m d h) (\<lambda>e. stops_owned E m d h) h"
  unfolding stop_manifest_def
proof (rule wp_bindI)
  fix b v
  assume trust: "manifest_trusted E m (dp_xray d) h = (Inr b, v)"
  then have q1: "quiet h v" by (rule keeps_relD [OF quiet.trusted_keeps(3)])
  then have same1: "stops_owned E m d h v" by (simp add: quiet_def stops_owned_def)
  let ?rest = "\<lambda>alive. bindW (tryW (service_state E (dm_interface m) (dp_wg_quick d) (dm_wg_config m))) (\<lambda>service.
    ifW (service_refused m service) (fault CodeRuntimeProcessStale ''verify WireGuard tunnel service ownership'')
     (bindW (take_down E m d (case service of Inr (present, owned) \<Rightarrow> present | Inl e \<Rightarrow> False)) (\<lambda>_.
      bindW (stop_manager E m) (\<lambda>_.
        if alive then orfail (fault CodeRuntimeProcessStale ''stop Xray runtime'') (stop_process E (dm_xray m)) else ret ()))))"
  have "wp (bindW (process_trusted E m) ?rest) (\<lambda>u. stops_owned E m d h) (\<lambda>e. stops_owned E m d h) v"
    if b and run: "\<not> dm_stopped m"
  proof (rule wp_bindI)
    fix e v2
    assume "process_trusted E m v = (Inl e, v2)"
    from quiet.R_trans [OF q1 keeps_relD [OF quiet.process_trusted_keeps this]]
    show "stops_owned E m d h v2" by (simp add: quiet_def stops_owned_def)
  next
    fix alive v2
    assume process: "process_trusted E m v = (Inr alive, v2)"
    from trust \<open>b\<close> have ours: "ours E h m (dp_xray d)" by (auto dest: manifest_trusted_True)
    from process_trusted_Inr [OF process] have proc: "process_recorded E h m" "alive \<Longrightarrow> \<exists>n. he_alive E (dm_xray m) n = Inr True"
      by (auto simp: quiet_process [OF q1])
    have q2: "quiet h v2" using q1 keeps_relD [OF quiet.process_trusted_keeps process] by (rule quiet.R_trans)
    have xray: "alive \<Longrightarrow> keeps_rel (logs (may_stop E m d)) (stop_process E (dm_xray m))"
      using proc(2) unfolding stop_process_def by (intro act_logs) (auto simp: may_stop_def)
    have "keeps_rel (logs (may_stop E m d)) (?rest alive)"
    proof (rule logging.bind_value_keeps)
      fix service g g'
      assume answer: "tryW (service_state E (dm_interface m) (dp_wg_quick d) (dm_wg_config m)) g = (Inr service, g')"
      show "keeps_rel (logs (may_stop E m d)) (ifW (service_refused m service) (fault CodeRuntimeProcessStale ''verify WireGuard tunnel service ownership'')
         (bindW (take_down E m d (case service of Inr (present, owned) \<Rightarrow> present | Inl e \<Rightarrow> False)) (\<lambda>_.
          bindW (stop_manager E m) (\<lambda>_.
            if alive then orfail (fault CodeRuntimeProcessStale ''stop Xray runtime'') (stop_process E (dm_xray m)) else ret ()))))"
      proof (cases "service_refused m service")
        case False
        have "\<exists>n. he_service E (dm_interface m) (dp_wg_quick d) (dm_wg_config m) n = Inr (True, True)"
          if "case service of Inr (present, owned) \<Rightarrow> present | Inl e \<Rightarrow> False"
          using that answer False
          by (auto simp: guard_simps service_state_def query_def service_refused_def split: sum.splits prod.splits)
        note down = take_down_logs [OF this]
        have "keeps_rel (logs (may_stop E m d)) (if alive then orfail (fault CodeRuntimeProcessStale ''stop Xray runtime'') (stop_process E (dm_xray m)) else ret ())"
          using xray by (cases alive) (simp_all add: keeps logging.orfail_keeps)
        with down show ?thesis by (intro logging.ifW_keeps logging.bindW_keeps stop_manager_logs)
      qed (simp add: ifW_def keeps)
    qed (intro keeps)
    note rest = this
    have "stops_owned E m d h w" if "logs (may_stop E m d) v2 w" for w
      using that q2 ours proc run by (auto simp: stops_owned_def logs_def quiet_def)
    then show "wp (?rest alive) (\<lambda>u. stops_owned E m d h) (\<lambda>e. stops_owned E m d h) v2"
      by (intro wp_keeps [OF rest])
  qed
  with same1 show "wp (ifW (\<not> b) (fault CodeRuntimeProcessStale ''verify runtime metadata ownership'')
     (if dm_stopped m then ret () else bindW (process_trusted E m) ?rest)) (\<lambda>u. stops_owned E m d h) (\<lambda>e. stops_owned E m d h) v"
    by (simp add: wp_simps)
next
  fix e v
  assume "manifest_trusted E m (dp_xray d) h = (Inl e, v)"
  then have "quiet h v" by (rule keeps_relD [OF quiet.trusted_keeps(3)])
  then show "stops_owned E m d h v" by (simp add: quiet_def stops_owned_def)
qed

lemma load_active_Inr:
  "load_active E h = (Inr (Some m), h') \<Longrightarrow> h_active h = Doc m" "load_active E h = (Inr None, h') \<Longrightarrow> h_active h = Absent"
  by (auto simp: load_active_def read_manifest_def split: file_state.splits if_splits)

text \<open>The checks before \<open>Down\<close> looks at the manifest leave the host as it is.\<close>

lemma down_cases:
  assumes run: "desktop_down E h = (r, h')"
  obtains (quiet) "quiet h h'" "r \<noteq> Inr () \<or> h_active h = Absent \<or> (\<exists>m. h_active h = Doc m \<and> dm_stopped m)"
    | (stopping) d m v where "quiet h v" "h_active h = Doc m" "\<not> dm_stopped m"
        "bindW (stop_manifest E m d) (\<lambda>_. save_active E (stopped_manifest m)) v = (r, h')"
proof -
  let ?load = "\<lambda>d. bindW (load_active E) (\<lambda>active. case active of None \<Rightarrow> ret () | Some m \<Rightarrow> down_manifest E d m)"
  have "\<exists>d v. quiet h v \<and> (?load d v = (r, h') \<or> v = h' \<and> r \<noteq> Inr ())"
  proof -
    obtain x v where x: "find_dependencies E h = (x, v)" by (metis prod.exhaust)
    have v: "quiet h v" by (rule keeps_relD [OF quiet.dependencies_keep(2) x])
    show ?thesis
    proof (cases x)
      case (Inl e)
      with run v show ?thesis by (auto simp: desktop_down_def bindW_def x)
    next
      case (Inr d)
      with run have "ifW (\<not> he_privileged E (h_tick v)) (fault CodeRuntimePermission ''stop desktop runtime'') (?load d) (htick v) = (r, h')"
        by (simp add: desktop_down_def bindW_def [of "find_dependencies E"] bindW_def [of "ask (he_privileged E)"] x ask_def)
      with quiet.R_trans [OF v quiet.R_htick] show ?thesis by (auto simp: ifW_def split: if_splits)
    qed
  qed
  then obtain d v where run: "quiet h v" "?load d v = (r, h') \<or> v = h' \<and> r \<noteq> Inr ()" by blast
  show ?thesis
  proof (cases "v = h' \<and> r \<noteq> Inr ()")
    case True
    with run(1) that(1) show ?thesis by blast
  next
    case False
    with run(2) have "?load d v = (r, h')" by blast
    then show ?thesis
    proof (cases rule: bindW_cases)
      case (stopped e)
      with run(1) show ?thesis by (intro that(1)) (auto dest!: keeps_relD [OF quiet.reads_keep(1)] intro: quiet.R_trans)
    next
      case (went a u)
      have u: "quiet h u" using run(1) keeps_relD [OF quiet.reads_keep(1) went(1)] by (rule quiet.R_trans)
      show ?thesis
      proof (cases a)
        case None
        with went u load_active_Inr(2) run(1) show ?thesis by (intro that(1)) (auto simp: quiet_def)
      next
        case (Some m)
        with went(1) load_active_Inr(1) run(1) have m: "h_active h = Doc m" by (auto simp: quiet_def)
        from went(2) Some have "down_manifest E d m u = (r, h')" by simp
        then show ?thesis unfolding down_manifest_def
        proof (cases rule: bindW_cases)
          case (stopped e)
          with u show ?thesis by (intro that(1)) (auto dest!: keeps_relD [OF quiet.trusted_keeps(3)] intro: quiet.R_trans)
        next
          case (went b w)
          have w: "quiet h w" using u keeps_relD [OF quiet.trusted_keeps(3) went(1)] by (rule quiet.R_trans)
          with went(2) m show ?thesis
            by (cases "\<not> b \<or> dm_stopped m") (auto simp: ifW_def split: if_splits intro: that)
        qed
      qed
    qed
  qed
qed

lemma save_active_log [simp]: "h_log (snd (save_active E m h)) = h_log h" "h_revs (snd (save_active E m h)) = h_revs h"
  by (auto simp: save_active_def htick_def split: prod.split)

text \<open>
  C27. \<open>Down\<close> stops nothing it cannot prove to be its own. On every exit either nothing was done
  to the host, or the active manifest names a revision of this runtime whose files have the
  recorded digests, the Xray process is recorded for that configuration and revision, and
  everything done was on the manifest's own objects: its interface is taken down only with the
  recorded index or an owned service, its Xray process is stopped only if it was found alive.
\<close>

theorem desktop_down_only_owned:
  assumes "desktop_down E h = (r, h')"
  shows "h_log h' = h_log h \<or> (\<exists>m d. h_active h = Doc m \<and> \<not> dm_stopped m \<and> ours E h m (dp_xray d) \<and>
    process_recorded E h m \<and> (\<exists>es. h_log h' = h_log h @ es \<and> list_all (may_stop E m d) es))"
  using assms
proof (cases rule: down_cases)
  case quiet
  then show ?thesis by (simp add: quiet_def)
next
  case (stopping d m v)
  have same: "ours E v m x = ours E h m x" "process_recorded E v m = process_recorded E h m" for x
    using stopping(1) by (simp_all add: ours_def quiet_digest quiet_recorded quiet_process)
  obtain s w where s: "stop_manifest E m d v = (s, w)" by (metis prod.exhaust)
  from stopping(4) have "h_log h' = h_log w" by (auto simp: bindW_def s split: sum.splits) (metis save_active_log(1) snd_conv)
  moreover have "stops_owned E m d v w" using wpD [OF stop_manifest_owned s] by (simp split: sum.splits)
  ultimately show ?thesis using stopping(1-3) same by (auto simp: stops_owned_def logs_def quiet_def)
qed

end
