(* ===== verification/Desktop_Proven.thy ===== *)
theory Desktop_Proven
  imports Desktop_Runs
begin

text \<open>
  What holds after the desktop runtime succeeded: the configuration that was applied is the
  active one, its files are there as they were recorded, and \<open>Down\<close> leaves it stopped; and what
  a failed replacement leaves.
\<close>

section \<open>Files and manifests that stay\<close>

definition undisturbed :: "host \<Rightarrow> host \<Rightarrow> bool" where
  "undisturbed h h' \<longleftrightarrow> h_revs h' = h_revs h \<and> h_active h' = h_active h \<and> h_good h' = h_good h"

interpretation files: host_rel undisturbed
  by unfold_locales (auto simp: undisturbed_def)

definition intact :: "host_env \<Rightarrow> host \<Rightarrow> manifest \<Rightarrow> bool" where
  "intact E h m \<longleftrightarrow> (\<exists>d. revision_directory E m = Some d \<and> manager_recorded E h m d) \<and>
     file_digest E h (dm_wg_config m) (dm_wg_sha256 m) \<and> file_digest E h (dm_xray_config m) (pi_sha256 (dm_xray m))"

lemma same_files:
  assumes "h_revs h' = h_revs h"
  shows "file_digest E h' p s = file_digest E h p s" "manager_recorded E h' m d = manager_recorded E h m d"
    "intact E h' m = intact E h m" "ours E h' m x = ours E h m x" "process_recorded E h' m = process_recorded E h m"
proof -
  have at: "file_at E h' p = file_at E h p" for p using assms by (simp add: file_at_def cong: option.case_cong)
  then show digest: "file_digest E h' p s = file_digest E h p s" for p s by (simp add: file_digest_def)
  show "manager_recorded E h' m d = manager_recorded E h m d" for d by (simp add: manager_recorded_def digest)
  then show "intact E h' m = intact E h m" "ours E h' m x = ours E h m x" by (simp_all add: intact_def ours_def digest)
  show "process_recorded E h' m = process_recorded E h m" by (simp add: process_recorded_def digest)
qed

lemma ours_intact: "ours E h m x \<Longrightarrow> process_recorded E h m \<Longrightarrow> intact E h m"
  by (auto simp: ours_def process_recorded_def intact_def)

section \<open>A start that succeeded\<close>

lemma await_xray_Inr: "await_xray E m n h = (Inr u, h') \<Longrightarrow> process_recorded E h m"
proof (induction n arbitrary: h)
  case (Suc n)
  from Suc.prems obtain v where "process_trusted E m h = (Inr True, v)" by (auto simp: guard_simps)
  then show ?case by (simp add: process_trusted_Inr)
qed simp

text \<open>What a started manifest keeps of the one it was started from.\<close>

definition same_revision :: "manifest \<Rightarrow> manifest \<Rightarrow> bool" where
  "same_revision m m' \<longleftrightarrow> dm_revision m' = dm_revision m \<and> dm_xray_config m' = dm_xray_config m \<and>
     dm_wg_config m' = dm_wg_config m \<and> dm_wg_sha256 m' = dm_wg_sha256 m \<and> dm_interface m' = dm_interface m \<and>
     dm_core m' = dm_core m \<and> dm_adapter m' = dm_adapter m \<and> dm_loopback m' = dm_loopback m \<and>
     (dm_manager m' = None \<longleftrightarrow> dm_manager m = None)"

lemma start_process_Inr:
  "start_process E x args r s h = (Inr p, h') \<Longrightarrow> pi_sha256 p = s \<and> pi_revision p = r"
  by (auto simp: start_process_def guard_simps started_identity_def)

lemma start_xray_Inr:
  assumes "start_xray E m d h = (Inr m', h')"
  shows "same_revision m m' \<and> process_recorded E h m' \<and> dm_manager m' = dm_manager m \<and> pi_sha256 (dm_xray m') = pi_sha256 (dm_xray m)"
proof -
  from assms obtain p v where p: "start_process E (dp_xray d) [''run'', ''-config'', dm_xray_config m] (dm_revision m) (pi_sha256 (dm_xray m)) h = (Inr p, v)"
    and m': "m' = m\<lparr>dm_xray := p\<lparr>pi_config := dm_xray_config m, pi_revision := dm_revision m\<rparr>\<rparr>"
    and wait: "wait_for_xray E m' v = (Inr (), h')"
    by (auto simp: start_xray_def Let_def guard_simps split: sum.splits)
  have "undisturbed h v" by (rule keeps_relD [OF files.backend_keeps(2) p])
  then have revs: "h_revs v = h_revs h" by (simp add: undisturbed_def)
  from wait obtain n v' where "await_xray E m' (Suc n) v' = (Inr (), h')" "h_revs v' = h_revs v"
    by (auto simp: wait_for_xray_def guard_simps ask_def htick_def simp del: await_xray.simps)
  with await_xray_Inr [of E m' "Suc n" v' "()" h'] revs same_files(5) [of v' h E m'] have "process_recorded E h m'" by simp
  then show ?thesis using start_process_Inr [OF p] by (simp add: m' same_revision_def)
qed

lemma start_manager_Inr:
  assumes "start_manager E m h = (Inr m', h')"
  shows "same_revision m m' \<and> dm_xray m' = dm_xray m \<and>
    (\<forall>d g. manager_recorded E g m d \<longrightarrow> manager_recorded E g m' d)"
proof (cases "dm_manager m")
  case None
  with assms show ?thesis by (auto simp: start_manager_def same_revision_def)
next
  case (Some p)
  with assms obtain q v where m': "m' = m\<lparr>dm_manager := Some (q\<lparr>pi_config := pi_config p\<rparr>)\<rparr>"
    and q: "start_process E (pi_executable p) [''path-manager'', ''-config'', pi_config p] (dm_revision m) (pi_sha256 p) h = (Inr q, v)"
    by (auto simp: start_manager_def Let_def guard_simps split: sum.splits)
  from start_process_Inr [OF q] m' Some show ?thesis by (auto simp: same_revision_def manager_recorded_def)
qed

lemma bring_up_Inr:
  assumes "bring_up E m d h = (Inr m', h')"
  obtains i t where "m' = m\<lparr>dm_index := i, dm_wg_up := True, dm_applied := t, dm_stopped := False\<rparr>" "i \<noteq> 0"
  using assms
  by (auto simp: bring_up_def Let_def guard_simps abandon_def dropW_def ask_def split: if_splits sum.splits)

lemma start_manifest_Inr:
  assumes run: "start_manifest E m d h = (Inr m', h')"
  shows "same_revision m m' \<and> undisturbed h h' \<and> \<not> dm_stopped m' \<and> dm_wg_up m' \<and> process_recorded E h m' \<and>
    (\<forall>r. manager_recorded E h m r \<longrightarrow> manager_recorded E h m' r)"
proof -
  from run obtain v1 v2 v3 m1 m2 where s1: "check_free E m d h = (Inr (), v1)" and s2: "start_xray E m d v1 = (Inr m1, v2)"
    and s3: "start_manager E m1 v2 = (Inr m2, v3)" and s4: "bring_up E m2 d v3 = (Inr m', h')"
    by (auto simp: start_manifest_def guard_simps)
  note f = keeps_relD [OF files.start_manifest_keeps run] keeps_relD [OF files.check_free_keeps s1]
  from f(2) have revs: "h_revs v1 = h_revs h" by (simp add: undisturbed_def)
  obtain i t where up: "m' = m2\<lparr>dm_index := i, dm_wg_up := True, dm_applied := t, dm_stopped := False\<rparr>"
    using bring_up_Inr [OF s4] by blast
  have x: "same_revision m m1" "process_recorded E h m1" "dm_manager m1 = dm_manager m"
    using start_xray_Inr [OF s2] same_files(5) [OF revs] by auto
  have g: "same_revision m1 m2" "dm_xray m2 = dm_xray m1" "\<And>r. manager_recorded E h m1 r \<Longrightarrow> manager_recorded E h m2 r"
    using start_manager_Inr [OF s3] by auto
  have "same_revision m m'" using x(1) g(1) by (auto simp: same_revision_def up)
  moreover have "process_recorded E h m'" using x(2) g(1,2) by (simp add: process_recorded_def up same_revision_def)
  moreover have "manager_recorded E h m' r" if "manager_recorded E h m r" for r
  proof -
    from that x have "manager_recorded E h m1 r" by (auto simp: manager_recorded_def same_revision_def)
    from g(3) [OF this] show ?thesis by (auto simp: manager_recorded_def up)
  qed
  ultimately show ?thesis using f(1) by (simp add: up)
qed

lemma same_revision_directory: "same_revision m m' \<Longrightarrow> revision_directory E m' = revision_directory E m"
  by (simp add: same_revision_def revision_directory_def)

lemma started_intact:
  assumes "start_manifest E m d h = (Inr m', h')" and "revision_directory E m = Some r" and "manager_recorded E h m r"
    and "file_digest E h (dm_wg_config m) (dm_wg_sha256 m)"
  shows "intact E h' m' \<and> same_revision m m' \<and> undisturbed h h' \<and> \<not> dm_stopped m' \<and> dm_wg_up m'"
proof -
  from start_manifest_Inr [OF assms(1)] have s: "same_revision m m'" "undisturbed h h'" "\<not> dm_stopped m'" "dm_wg_up m'"
    "process_recorded E h m'" "manager_recorded E h m' r" using assms(3) by auto
  then have "intact E h m'" using assms(2,4) same_revision_directory [OF s(1)]
    by (auto simp: intact_def process_recorded_def same_revision_def)
  with s same_files(3) [of h' h E m'] show ?thesis by (auto simp: undisturbed_def)
qed

section \<open>What is recorded as applied\<close>

text \<open>The active manifest is of the configuration, running, and its files are the recorded ones.\<close>

definition applied :: "host_env \<Rightarrow> config \<Rightarrow> host \<Rightarrow> bool" where
  "applied E c h \<longleftrightarrow> (\<exists>m. h_active h = Doc m \<and> dm_revision m = cf_revision c \<and> \<not> dm_stopped m \<and>
     (dm_manager m = None \<longleftrightarrow> cf_mesh c = None) \<and> intact E h m)"

lemma save_active_Inr:
  "save_active E m h = (Inr u, h') \<Longrightarrow> h_active h' = Doc (m\<lparr>dm_schema := 1\<rparr>) \<and> h_revs h' = h_revs h \<and> h_good h' = h_good h"
  by (auto simp: save_active_def write_artifact_def htick_def split: prod.splits write_outcome.splits)

lemma schema_intact [simp]:
  "intact E h (m\<lparr>dm_schema := s\<rparr>) = intact E h m" "same_revision m (k\<lparr>dm_schema := s\<rparr>) = same_revision m k"
  by (simp_all add: intact_def manager_recorded_def revision_directory_def same_revision_def)

lemma saved_applied:
  assumes "save_active E m h = (Inr u, h')" and "intact E h m" and "dm_revision m = cf_revision c" and "\<not> dm_stopped m"
    and "dm_manager m = None \<longleftrightarrow> cf_mesh c = None"
  shows "applied E c h'"
  using save_active_Inr [OF assms(1)] assms(2-5) same_files(3) [of h' h E m] by (auto simp: applied_def)

lemma mesh_matches_True:
  "mesh_matches E m t h = (Inr True, h') \<Longrightarrow> dm_manager m = None \<longleftrightarrow> t = None"
  by (auto simp: mesh_matches_def guard_simps split: option.splits)

lemma resume_applied:
  assumes run: "resume_stopped E m c d h = (Inr a, h')" and rev: "dm_revision m = cf_revision c"
    and mesh: "dm_manager m = None \<longleftrightarrow> cf_mesh c = None"
  shows "a = apply_result_of c \<and> applied E c h'"
proof -
  from run obtain v v2 k where s1: "manifest_trusted E m (dp_xray d) h = (Inr True, v)" and s2: "start_manifest E m d v = (Inr k, v2)"
    and s3: "save_active E k v2 = (Inr (), h')" and a: "a = apply_result_of c"
    by (auto simp: resume_stopped_def guard_simps on_failure_Inr)
  have q: "quiet h v" by (rule keeps_relD [OF quiet.trusted_keeps(3) s1])
  from manifest_trusted_True [OF s1] obtain r where
    "revision_directory E m = Some r" "manager_recorded E v m r" "file_digest E v (dm_wg_config m) (dm_wg_sha256 m)"
    by (auto simp: ours_def quiet_digest [OF q] quiet_recorded [OF q])
  from started_intact [OF s2 this] have "intact E v2 k" "same_revision m k" "\<not> dm_stopped k" by auto
  with saved_applied [OF s3] a rev mesh show ?thesis by (simp add: same_revision_def)
qed

section \<open>A healthy revision\<close>

lemma manifest_healthy_True:
  assumes "manifest_healthy E m d h = (Inr True, h')"
  shows "ours E h m (dp_xray d) \<and> process_recorded E h m \<and> \<not> dm_stopped m \<and> undisturbed h h'"
proof -
  from assms obtain v1 v2 v3 i where s: "\<not> dm_stopped m" and s1: "manifest_trusted E m (dp_xray d) h = (Inr True, v1)"
    and s2: "query (he_index E (dm_interface m)) v1 = (Inr i, v2)" and s3: "process_trusted E m v2 = (Inr True, v3)"
    by (auto simp: manifest_healthy_def guard_simps andW_True split: if_splits)
  have q: "quiet h v2" using keeps_relD [OF quiet.trusted_keeps(3) s1] keeps_relD [OF quiet.query_keeps s2] by (rule quiet.R_trans)
  from process_trusted_Inr [OF s3] have "process_recorded E h m" by (simp add: quiet_process [OF q])
  with s manifest_trusted_True [OF s1] keeps_relD [OF files.health_keeps assms] show ?thesis by simp
qed

lemma revision_directory_same: "dm_xray_config m' = dm_xray_config m \<Longrightarrow> revision_directory E m' = revision_directory E m"
  by (simp add: revision_directory_def)

lemma revision_directory_manager [simp]:
  "revision_directory E (m\<lparr>dm_manager := x\<rparr>) = revision_directory E m"
  "revision_directory E (m\<lparr>dm_schema := s\<rparr>) = revision_directory E m"
  by (simp_all add: revision_directory_def)

text \<open>Where the files of a manifest are, in whatever form it writes their paths.\<close>

definition laid_out :: "host_env \<Rightarrow> manifest \<Rightarrow> string \<Rightarrow> bool" where
  "laid_out E m n \<longleftrightarrow> name_ok n \<and> revision_directory E m = Some (revision_path E n) \<and>
     file_in E (dm_xray_config m) n ''xray.json'' \<and> file_in E (dm_wg_config m) n (dm_interface m @ ''.conf'') \<and>
     (\<forall>p. dm_manager m = Some p \<longrightarrow> pi_config p = file_path E n ''path-manager.json'')"

lemma digest_names: "file_digest E h p s \<Longrightarrow> names_file p"
  by (auto simp: file_digest_def file_at_def file_of_def split: if_splits)

lemma ours_laid_out:
  assumes "ours E h m x" and "process_recorded E h m" and "name_ok (dm_interface m @ ''.conf'')"
  obtains n where "laid_out E m n"
proof -
  from assms(1) obtain d where d: "revision_directory E m = Some d" and id: "identity_trusted m x d"
    and wg: "file_digest E h (dm_wg_config m) (dm_wg_sha256 m)" and mgr: "manager_recorded E h m d" by (auto simp: ours_def)
  obtain n where n: "name_ok n" "d = revision_path E n" using d by (rule revision_directory_SomeD)
  have "laid_out E m n"
    using d n id mgr assms(3) digest_names [OF wg] assms(2)
    by (auto simp: laid_out_def file_in_def identity_trusted_def file_path_def manager_recorded_def process_recorded_def
      dest: digest_names)
  with that show ?thesis by blast
qed

lemma conf_names [simp]:
  "i @ ''.conf'' \<noteq> ''xray.json''" "i @ ''.conf'' \<noteq> ''path-manager.json''" "''xray.json'' \<noteq> i @ ''.conf''"
  "''path-manager.json'' \<noteq> i @ ''.conf''" "''mesh-sync.conf'' \<noteq> ''xray.json''" "''mesh-sync.conf'' \<noteq> ''path-manager.json''"
proof -
  have "last (i @ ''.conf'') \<noteq> last ''xray.json''" "last (i @ ''.conf'') \<noteq> last ''path-manager.json''" by simp_all
  then show "i @ ''.conf'' \<noteq> ''xray.json''" "i @ ''.conf'' \<noteq> ''path-manager.json''" "''xray.json'' \<noteq> i @ ''.conf''"
    "''path-manager.json'' \<noteq> i @ ''.conf''" by metis+
qed simp_all

lemma sync_conf_iff [simp]: "i @ ''.conf'' = ''mesh-sync.conf'' \<longleftrightarrow> i = ''mesh-sync''" "''mesh-sync.conf'' = i @ ''.conf'' \<longleftrightarrow> i = ''mesh-sync''"
proof -
  have "''mesh-sync.conf'' = ''mesh-sync'' @ ''.conf''" by simp
  then show "i @ ''.conf'' = ''mesh-sync.conf'' \<longleftrightarrow> i = ''mesh-sync''" "''mesh-sync.conf'' = i @ ''.conf'' \<longleftrightarrow> i = ''mesh-sync''"
    by (metis append_same_eq)+
qed

lemma write_file_Inr:
  assumes "write_file E p raw h = (Inr u, h')"
  shows "h_revs h' = h_revs (put_file E p raw h) \<and> h_active h' = h_active h \<and> h_good h' = h_good h"
  using assms by (auto simp: write_file_def write_artifact_def htick_def split: write_outcome.splits)

lemma same_at: "h_revs h' = h_revs h \<Longrightarrow> file_at E h' p = file_at E h p"
  by (simp add: file_at_def cong: option.case_cong)

text \<open>A file that was written, and one that was not.\<close>

lemma written:
  assumes "write_file E p raw h = (Inr u, h')" and "file_in E p n f"
  shows "file_at E h' p = Some raw" and "file_in E q n g \<Longrightarrow> f \<noteq> g \<Longrightarrow> file_at E h' q = file_at E h q"
  using write_file_Inr [OF assms(1)] put_same [OF assms(2), of raw h] put_other [OF assms(2), of q g raw h]
    same_at [of h' "put_file E p raw h" E] by auto

text \<open>Whether a manifest is intact shows in the files of its revision.\<close>

lemma laid_out_paths:
  assumes "laid_out E m n"
  shows "revision_directory E m = Some (revision_path E n)" "file_in E (dm_xray_config m) n ''xray.json''"
    "file_in E (dm_wg_config m) n (dm_interface m @ ''.conf'')" "file_in E (file_path E n ''path-manager.json'') n ''path-manager.json''"
    "file_in E (sync_path m) n ''mesh-sync.conf''"
    "dm_manager m = Some p \<Longrightarrow> pi_config p = file_path E n ''path-manager.json''"
proof -
  have n: "name_ok n" and wg: "file_in E (dm_wg_config m) n (dm_interface m @ ''.conf'')" using assms by (simp_all add: laid_out_def)
  then show "file_in E (dm_wg_config m) n (dm_interface m @ ''.conf'')" by blast
  have "sync_path m = file_path E n ''mesh-sync.conf''" by (simp add: sync_path_def file_path_def file_in_dir [OF wg])
  then show "file_in E (sync_path m) n ''mesh-sync.conf''" using n by (simp add: file_in_path)
qed (use assms in \<open>auto simp: laid_out_def file_in_path\<close>)

lemma intact_iff:
  assumes "laid_out E m n"
  shows "intact E h m \<longleftrightarrow> file_digest E h (dm_wg_config m) (dm_wg_sha256 m) \<and>
     file_digest E h (dm_xray_config m) (pi_sha256 (dm_xray m)) \<and>
     (\<forall>p. dm_manager m = Some p \<longrightarrow> pi_revision p = dm_revision m \<and>
        file_digest E h (file_path E n ''path-manager.json'') (pi_sha256 p))"
  using laid_out_paths [OF assms] by (auto simp: intact_def manager_recorded_def file_path_def)

lemma digest_cong: "file_at E h' p = file_at E h p \<Longrightarrow> file_digest E h' p s = file_digest E h p s"
  by (simp add: file_digest_def)

lemma keeps_intact:
  assumes "keeps_revision E n h h'" and "laid_out E m n" and "intact E h m"
  shows "intact E h' m"
proof -
  have "file_at E h' p = file_at E h p" if "file_in E p n f" for p f
    using assms(1) by (simp add: file_at_def file_in_of [OF that] keeps_revision_def)
  note same = digest_cong [OF this]
  show ?thesis using assms(3) laid_out_paths [OF assms(2)]
    by (auto simp: intact_iff [OF assms(2)] same)
qed

lemma written_digest:
  assumes "write_file E p raw h = (Inr u, h')" and "file_in E p n f" and "hex_encode (he_sha256 E raw) = s"
  shows "file_digest E h' p s"
  using written(1) [OF assms(1,2)] assms(3) by (simp add: file_digest_def)

lemma refresh_intact:
  assumes run: "refresh_mesh_expiry E m p t h = (Inr k, h')" and p: "dm_manager m = Some p" and at: "laid_out E m n"
    and intact: "intact E h m"
  shows "intact E h' k \<and> laid_out E k n \<and> same_revision m k \<and> dm_stopped k = dm_stopped m"
proof -
  note paths = laid_out_paths [OF at]
  have cfg: "pi_config p = file_path E n ''path-manager.json''" by (rule paths(6) [OF p])
  from run obtain f v raw where s1: "load_mesh E (pi_config p) h = (Inr f, v)" and s2: "write_file E (pi_config p) raw v = (Inr (), h')"
    and k: "k = with_manager m p (hex_encode (he_sha256 E raw))"
    by (auto simp: refresh_mesh_expiry_def Let_def guard_simps)
  have kat: "laid_out E k n" using at p by (auto simp: k with_manager_def laid_out_def)
  have in_p: "file_in E (pi_config p) n ''path-manager.json''" using paths(4) cfg by simp
  have q: "quiet h v" by (rule keeps_relD [OF quiet.load_mesh_keeps s1])
  have same: "file_digest E h' q s = file_digest E h q s" if "file_in E q n g" "g \<noteq> ''path-manager.json''" for q g s
    using written(2) [OF s2 in_p that(1)] that(2) by (simp add: file_digest_def quiet_file_at [OF q])
  have "intact E h' k"
    unfolding intact_iff [OF kat]
    using intact [unfolded intact_iff [OF at]] paths written_digest [OF s2 in_p refl] p cfg
    by (auto simp: same k with_manager_def)
  with kat p show ?thesis by (simp add: k with_manager_def same_revision_def)
qed

lemma laid_out_schema [simp]: "laid_out E (m\<lparr>dm_schema := s\<rparr>) n = laid_out E m n"
  by (simp add: laid_out_def)

text \<open>Old revisions are removed once the manifest is saved.\<close>

lemma cleanup_applied:
  assumes run: "cleanup_retained_revisions E m h = (r, h')" and active: "h_active h = Doc k" and k: "k = m \<or> k = m\<lparr>dm_schema := 1\<rparr>"
    and at: "laid_out E m n" and intact: "intact E h m" and rev: "dm_revision m = cf_revision c" "\<not> dm_stopped m"
    and mesh: "dm_manager m = None \<longleftrightarrow> cf_mesh c = None"
  shows "applied E c h'"
proof -
  obtain n' where n': "name_ok n'" "revision_path E n = revision_path E n'" "keeps_revision E n' h h'"
    using cleanup_retained_exact [OF run _ laid_out_paths(1) [OF at]] by blast
  moreover have "name_ok n" using at by (simp add: laid_out_def)
  ultimately have keep: "keeps_revision E n h h'" by (simp add: revision_path_inj)
  from keeps_intact [OF this at intact] have "intact E h' m" .
  moreover have "h_active h' = Doc k" using keep active by (simp add: keeps_revision_def)
  ultimately show ?thesis using k rev mesh by (auto simp: applied_def)
qed

lemma keep_running_applied:
  assumes run: "keep_running E m c h = (Inr a, h')" and intact: "intact E h m" and at: "laid_out E m n"
    and active: "h_active h = Doc m" and rev: "dm_revision m = cf_revision c" "\<not> dm_stopped m"
    and mesh: "dm_manager m = None \<longleftrightarrow> cf_mesh c = None"
  shows "a = apply_result_of c \<and> applied E c h'"
proof (cases "cf_mesh c")
  case None
  with run have "cleanup_retained_revisions E m h = (Inr (), h')" "a = apply_result_of c"
    by (auto simp: keep_running_def guard_simps)
  with cleanup_applied [OF _ active _ at intact rev mesh] show ?thesis by blast
next
  case (Some t)
  with mesh obtain p where p: "dm_manager m = Some p" by auto
  with run Some obtain k v1 v2 where s1: "refresh_mesh_expiry E m p (mc_expires t) h = (Inr k, v1)"
    and s2: "save_active E k v1 = (Inr (), v2)" and s3: "cleanup_retained_revisions E k v2 = (Inr (), h')" and a: "a = apply_result_of c"
    by (auto simp: keep_running_def guard_simps)
  from refresh_intact [OF s1 p at intact] have k: "intact E v1 k" "laid_out E k n" "same_revision m k" "\<not> dm_stopped k"
    using rev by auto
  note saved = save_active_Inr [OF s2]
  have "intact E v2 k" using k(1) same_files(3) [of v2 v1 E k] saved by simp
  then have "applied E c h'" using saved k(3,4) rev mesh
    by (intro cleanup_applied [OF s3 _ disjI2 [OF refl] k(2)]) (auto simp: same_revision_def)
  with a show ?thesis by blast
qed

section \<open>A mesh that was reconciled\<close>

lemma reconciled_intact:
  assumes "laid_out E m n" and "dm_manager m = Some p"
  shows "laid_out E (reconciled E m p c mesh wg) n"
    "intact E h (reconciled E m p c mesh wg) \<longleftrightarrow> file_digest E h (dm_wg_config m) (hex_encode (he_sha256 E wg)) \<and>
       file_digest E h (dm_xray_config m) (pi_sha256 (dm_xray m)) \<and>
       file_digest E h (file_path E n ''path-manager.json'') (hex_encode (he_sha256 E mesh))"
proof -
  show at: "laid_out E (reconciled E m p c mesh wg) n"
    using assms revision_directory_same [of "reconciled E m p c mesh wg" m E] by (auto simp: laid_out_def reconciled_def)
  show "intact E h (reconciled E m p c mesh wg) \<longleftrightarrow> file_digest E h (dm_wg_config m) (hex_encode (he_sha256 E wg)) \<and>
       file_digest E h (dm_xray_config m) (pi_sha256 (dm_xray m)) \<and>
       file_digest E h (file_path E n ''path-manager.json'') (hex_encode (he_sha256 E mesh))"
    unfolding intact_iff [OF at] by (simp add: reconciled_def)
qed

lemma commit_mesh_Inr:
  assumes run: "commit_mesh E m p (reconciled E m p c mesh wg) mesh wg d h = (Inr (), h')" and at: "laid_out E m n"
    and p: "dm_manager m = Some p" and intact: "intact E h m" and name: "dm_interface m \<noteq> ''mesh-sync''"
  shows "intact E h' (reconciled E m p c mesh wg) \<and> h_active h' = Doc ((reconciled E m p c mesh wg)\<lparr>dm_schema := 1\<rparr>)"
proof -
  let ?k = "reconciled E m p c mesh wg"
  note paths = laid_out_paths [OF at]
  have in_p: "file_in E (pi_config p) n ''path-manager.json''" using paths(4) paths(6) [OF p] by simp
  obtain q where q: "dm_manager ?k = Some q" by (simp add: reconciled_def)
  from run q obtain v1 v2 v3 v4 v5 where s1: "write_file E (pi_config p) mesh h = (Inr (), v1)"
    and s2: "wait_for_path_manager E q v1 = (Inr (), v2)" and s3: "write_file E (dm_wg_config m) wg v2 = (Inr (), v3)"
    and s4: "write_file E (sync_path m) (sync_bytes wg) v3 = (Inr (), v4)"
    and s5: "run_command E (dp_wg d) [''syncconf'', dm_interface m, sync_path m] v4 = (Inr (), v5)"
    and s6: "save_active E ?k v5 = (Inr (), h')"
    by (auto simp: commit_mesh_def guard_simps)
  have r2: "h_revs v2 = h_revs v1" using keeps_relD [OF files.wait_manager_keeps s2] by (simp add: undisturbed_def)
  have r5: "h_revs v5 = h_revs v4" using keeps_relD [OF files.backend_keeps(1) s5] by (simp add: undisturbed_def)
  note saved = save_active_Inr [OF s6]
  have revs: "file_at E h' q = file_at E v4 q" for q using same_at [of h' v5 E q] same_at [OF r5, of E q] saved by simp
  have xray: "file_at E h' (dm_xray_config m) = file_at E h (dm_xray_config m)"
    using revs written(2) [OF s4 paths(5) paths(2)] written(2) [OF s3 paths(3) paths(2)] same_at [OF r2]
      written(2) [OF s1 in_p paths(2)] by simp
  have wg: "file_at E h' (dm_wg_config m) = Some wg"
    using revs written(2) [OF s4 paths(5) paths(3)] written(1) [OF s3 paths(3)] name by simp
  have mesh: "file_at E h' (file_path E n ''path-manager.json'') = Some mesh"
    using revs written(2) [OF s4 paths(5) in_p] written(2) [OF s3 paths(3) in_p] same_at [OF r2] written(1) [OF s1 in_p]
      paths(6) [OF p] by simp
  have "file_digest E h' (dm_xray_config m) (pi_sha256 (dm_xray m))"
    using intact digest_cong [OF xray] by (simp add: intact_iff [OF at])
  with wg mesh have "intact E h' ?k" unfolding reconciled_intact(2) [OF at p] by (simp add: file_digest_def)
  with saved show ?thesis by simp
qed

lemma undo_mesh_fails:
  assumes "undo_mesh E m p mesh wg d e h = (Inr err, h')"
  shows "err \<noteq> None"
proof -
  have some: "join_errors (Some x # es) \<noteq> None" for x es by (simp add: join_errors_def)
  from assms obtain a b c where "err = join_errors [join_errors [Some e, a, b], c]"
    by (auto simp: undo_mesh_def Let_def guard_simps split: if_splits)
  with some show ?thesis by (metis not_None_eq)
qed

lemma transact_mesh_Inr:
  assumes "transact_mesh E m p k old new d h = (Inr b, h')"
  obtains v where "b" "commit_mesh E m p k (fst new) (snd new) d h = (Inr (), v)" "drop_sync_file E m v = (Inr (), h')"
proof -
  from assms obtain r v err v1 v2 where s1: "commit_mesh E m p k (fst new) (snd new) d h = (r, v)"
    and s2: "(case r of Inr u \<Rightarrow> ret None | Inl e \<Rightarrow> undo_mesh E m p (fst old) (snd old) d e) v = (Inr err, v1)"
    and s3: "drop_sync_file E m v1 = (Inr (), v2)" and s4: "(case err of None \<Rightarrow> ret True | Some e \<Rightarrow> raise e) v2 = (Inr b, h')"
    by (auto simp: transact_mesh_def bindW_Inr tryW_eq)
  from s4 have err: "err = None" "b" "v2 = h'" by (auto split: option.splits)
  with s2 undo_mesh_fails [of E m p "fst old" "snd old" d _ v err v1] have "\<exists>u. r = Inr u \<and> v1 = v" by (cases r) auto
  with s1 s3 err that show ?thesis by auto
qed

lemma checked_config_Inr:
  "checked_config E c h = (Inr k, h') \<Longrightarrow> k = c \<and> (\<exists>K. config_validate K c = None)"
  by (auto simp: checked_config_def guard_simps)

lemma quiet_intact: "quiet h h' \<Longrightarrow> intact E h' m = intact E h m"
  by (simp add: intact_def quiet_digest quiet_recorded)

lemma drop_sync_applied:
  assumes run: "drop_sync_file E m h = (Inr u, h')" and at: "laid_out E k n" and sync: "file_in E (sync_path m) n ''mesh-sync.conf''"
    and name: "dm_interface k \<noteq> ''mesh-sync''" and active: "h_active h = Doc (k\<lparr>dm_schema := 1\<rparr>)" and intact: "intact E h k"
    and rev: "dm_revision k = cf_revision c" "\<not> dm_stopped k" and mesh: "dm_manager k = None \<longleftrightarrow> cf_mesh c = None"
  shows "applied E c h'"
proof -
  have other: "file_at E h' q = file_at E h q" if "file_in E q n g" "''mesh-sync.conf'' \<noteq> g" for q g
  proof -
    have "h_revs h' = h_revs (drop_file E (sync_path m) h) \<or> h_revs h' = h_revs h"
      using run by (auto simp: drop_sync_file_def htick_def split: if_splits)
    with drop_other [OF sync that(1), of h] that(2) same_at [of h' h E q] same_at [of h' "drop_file E (sync_path m) h" E q]
    show ?thesis by auto
  qed
  note paths = laid_out_paths [OF at]
  have "intact E h' k"
    using intact name digest_cong [OF other [OF paths(2)]] digest_cong [OF other [OF paths(3)]] digest_cong [OF other [OF paths(4)]]
    by (simp add: intact_iff [OF at])
  moreover have "h_active h' = h_active h"
    using run by (auto simp: drop_sync_file_def drop_file_def htick_def on_revision_def thin_revision_def split: if_splits option.splits)
  ultimately show ?thesis using active rev mesh by (auto simp: applied_def)
qed

lemma plan_mesh_Inr:
  "plan_mesh E m p c t key h = (Inr (Some (c1, c2, f)), h') \<Longrightarrow> cf_revision c2 = cf_revision c \<and> cf_mesh c2 \<noteq> None"
  by (auto simp: plan_mesh_def Let_def guard_simps with_mesh_def dest!: checked_config_Inr split: if_splits)

lemma reconcile_mesh_Inr:
  assumes run: "reconcile_mesh E m p c t key d h = (Inr b, h')" and at: "laid_out E m n" and p: "dm_manager m = Some p"
    and intact: "intact E h m" and name: "dm_interface m \<noteq> ''mesh-sync''" and on: "\<not> dm_stopped m" and t: "cf_mesh c = Some t"
  shows "if b then applied E c h' else quiet h h'"
proof -
  from run obtain plan v1 where s1: "plan_mesh E m p c t key h = (Inr plan, v1)"
    and rest: "(case plan of None \<Rightarrow> ret False
     | Some (c1, c2, f) \<Rightarrow>
         let mesh = he_mesh_json E f; wg = bytes_of (render_wireguard_config c2 key)
         in bindW (read_file E (pi_config p)) (\<lambda>old_mesh.
              transact_mesh E m p (reconciled E m p c2 mesh wg)
                (old_mesh, bytes_of (render_wireguard_config c1 key)) (mesh, wg) d)) v1 = (Inr b, h')"
    unfolding reconcile_mesh_def bindW_Inr by blast
  have q1: "quiet h v1" by (rule keeps_relD [OF quiet.plan_mesh_keeps s1])
  show ?thesis
  proof (cases plan)
    case None
    with rest q1 show ?thesis by auto
  next
    case (Some x)
    obtain c1 c2 f where plan: "plan = Some (c1, c2, f)" using Some by (cases x) auto
    define mesh wg where "mesh = he_mesh_json E f" and "wg = bytes_of (render_wireguard_config c2 key)"
    from rest obtain old v2 where s2: "read_file E (pi_config p) v1 = (Inr old, v2)"
      and s3: "transact_mesh E m p (reconciled E m p c2 mesh wg) (old, bytes_of (render_wireguard_config c1 key)) (mesh, wg) d v2 = (Inr b, h')"
      by (auto simp: plan Let_def bindW_Inr mesh_def wg_def)
    have "intact E v2 m" using intact quiet.R_trans [OF q1 keeps_relD [OF quiet.reads_keep(5) s2]] by (simp add: quiet_intact)
    from transact_mesh_Inr [OF s3] obtain v3 where b: b
      and commit: "commit_mesh E m p (reconciled E m p c2 mesh wg) mesh wg d v2 = (Inr (), v3)" and s4: "drop_sync_file E m v3 = (Inr (), h')"
      by auto
    note k = commit_mesh_Inr [OF commit at p \<open>intact E v2 m\<close> name]
    have "applied E c h'"
      by (rule drop_sync_applied [OF s4 reconciled_intact(1) [OF at p] laid_out_paths(5) [OF at] _ conjunct2 [OF k] conjunct1 [OF k]])
        (use name on t plan_mesh_Inr [OF s1 [unfolded plan]] in \<open>auto simp: reconciled_def\<close>)
    with b show ?thesis by simp
  qed
qed

lemma try_reconcile_Inr:
  assumes run: "try_reconcile E m c key d wanted wrap h = (Inr b, h')" and at: "laid_out E m n"
    and intact: "intact E h m" and name: "dm_interface m \<noteq> ''mesh-sync''" and on: "\<not> dm_stopped m"
  shows "if b then applied E c h' else quiet h h'"
proof (cases "dm_manager m")
  case None
  with run show ?thesis by (auto simp: try_reconcile_def intro: quiet.R_refl)
next
  case p: (Some p)
  show ?thesis
  proof (cases "cf_mesh c")
    case None
    with p run show ?thesis by (auto simp: try_reconcile_def intro: quiet.R_refl)
  next
    case (Some t)
    with p run obtain same v where s1: "mesh_matches E m (Some t) h = (Inr same, v)"
      and s2: "(same \<noteq> wanted \<and> \<not> b \<and> v = h') \<or> (same = wanted \<and> reconcile_mesh E m p c t key d v = (Inr b, h'))"
      by (auto simp: try_reconcile_def guard_simps split: if_splits)
    have q: "quiet h v" by (rule keeps_relD [OF quiet.mesh_matches_keeps s1])
    from s2 show ?thesis
    proof
      assume "same = wanted \<and> reconcile_mesh E m p c t key d v = (Inr b, h')"
      with reconcile_mesh_Inr [OF _ at p _ name on Some, of key d v b h'] intact q show ?thesis
        by (auto simp: quiet_intact intro: quiet.R_trans)
    qed (use q in auto)
  qed
qed

lemma apply_healthy_Inr:
  assumes run: "apply_healthy E m c key d h = (Inr r, h')" and at: "laid_out E m n" and intact: "intact E h m"
    and name: "dm_interface m \<noteq> ''mesh-sync''" and on: "\<not> dm_stopped m" and active: "h_active h = Doc m"
  shows "\<forall>a. r = Some a \<longrightarrow> a = apply_result_of c \<and> applied E c h'"
proof (intro allI impI)
  fix a
  assume r: "r = Some a"
  from run obtain b1 v1 where s1: "try_reconcile E m c key d False (fault_cause CodeRuntimeApplyFailed ''reconcile mesh peers'') h = (Inr b1, v1)"
    and rest1: "(if b1 then ret (Some (apply_result_of c))
     else bindW (if dm_revision m \<noteq> cf_revision c then try_reconcile E m c key d True (\<lambda>e. e) else ret False) (\<lambda>again.
     if again then ret (Some (apply_result_of c))
     else bindW (if dm_revision m = cf_revision c then mesh_matches E m (cf_mesh c) else ret False) (\<lambda>same.
     if same then bindW (keep_running E m c) (\<lambda>r. ret (Some r)) else ret None))) v1 = (Inr r, h')"
    unfolding apply_healthy_def bindW_Inr by blast
  note t1 = try_reconcile_Inr [OF s1 at intact name on]
  show "a = apply_result_of c \<and> applied E c h'"
  proof (cases b1)
    case True
    with rest1 r t1 show ?thesis by auto
  next
    case False
    with rest1 obtain b2 v2 where s2: "(if dm_revision m \<noteq> cf_revision c then try_reconcile E m c key d True (\<lambda>e. e) else ret False) v1 = (Inr b2, v2)"
      and rest2: "(if b2 then ret (Some (apply_result_of c))
     else bindW (if dm_revision m = cf_revision c then mesh_matches E m (cf_mesh c) else ret False) (\<lambda>same.
     if same then bindW (keep_running E m c) (\<lambda>r. ret (Some r)) else ret None)) v2 = (Inr r, h')"
      by (auto simp: bindW_Inr)
    have q1: "quiet h v1" using t1 False by simp
    then have i1: "intact E v1 m" using intact by (simp add: quiet_intact)
    have t2: "if b2 then applied E c v2 else quiet v1 v2"
      using s2 try_reconcile_Inr [OF _ at i1 name on] by (auto split: if_splits intro: quiet.R_refl)
    show ?thesis
    proof (cases b2)
      case True
      with rest2 r t2 show ?thesis by auto
    next
      case False
      with rest2 r obtain v3 where rev: "dm_revision m = cf_revision c" and s3: "mesh_matches E m (cf_mesh c) v2 = (Inr True, v3)"
        and s4: "keep_running E m c v3 = (Inr a, h')"
        by (auto simp: bindW_Inr split: if_splits)
      from t2 False have "quiet v1 v2" by simp
      from quiet.R_trans [OF quiet.R_trans [OF q1 this] keeps_relD [OF quiet.mesh_matches_keeps s3]] have q: "quiet h v3" .
      show ?thesis
      proof (rule keep_running_applied [OF s4 _ at _ rev on mesh_matches_True [OF s3]])
        show "intact E v3 m" using intact by (simp add: quiet_intact [OF q])
        show "h_active v3 = Doc m" using q active by (simp add: quiet_def)
      qed
    qed
  qed
qed

lemma interface_name: "valid_interface i \<Longrightarrow> name_ok (i @ ''.conf'')"
proof -
  assume i: "valid_interface i"
  then have "\<forall>c \<in> set i. is_interface_char c" by (simp add: valid_interface_def match_all_def list_all_iff)
  moreover have "\<not> is_interface_char CHR ''/''"
    by (simp add: is_interface_char_def is_alnum_def is_digit_def is_lower_def is_upper_def code_def)
  ultimately have "CHR ''/'' \<notin> set i" by blast
  moreover have "s \<noteq> ''.'' \<and> s \<noteq> ''..''" if "5 \<le> length s" for s using that by auto
  then have "i @ ''.conf'' \<noteq> ''.''" "i @ ''.conf'' \<noteq> ''..''" by simp_all
  ultimately show ?thesis by (simp add: name_ok_def element_def)
qed

lemma apply_to_active_Inr:
  assumes run: "apply_to_active E m c key d h = (Inr (Some a), h')" and name: "valid_interface (dm_interface m)" "dm_interface m \<noteq> ''mesh-sync''"
    and active: "h_active h = Doc m"
  shows "a = apply_result_of c \<and> applied E c h'"
proof -
  let ?resume = "if dm_stopped m \<and> dm_revision m = cf_revision c then mesh_matches E m (cf_mesh c) else ret False"
  from run obtain resume v where s1: "?resume h = (Inr resume, v)"
    and rest: "(if resume then bindW (resume_stopped E m c d) (\<lambda>r. ret (Some r))
     else bindW (tryW (manifest_healthy E m d)) (\<lambda>health. case health of
         Inl e \<Rightarrow> ifW (fault_code_of e = CodeRuntimeProcessStale) e (ret None)
       | Inr healthy \<Rightarrow> if healthy then apply_healthy E m c key d else ret None)) v = (Inr (Some a), h')"
    unfolding apply_to_active_def bindW_Inr by blast
  have "keeps_rel quiet ?resume" by (intro keeps)
  from keeps_relD [OF this s1] have q1: "quiet h v" .
  show ?thesis
  proof (cases resume)
    case True
    with s1 have rev: "dm_revision m = cf_revision c" and s2: "mesh_matches E m (cf_mesh c) h = (Inr True, v)"
      by (auto split: if_splits)
    from rest True have "resume_stopped E m c d v = (Inr a, h')" by (auto simp: bindW_Inr)
    from resume_applied [OF this rev mesh_matches_True [OF s2]] show ?thesis .
  next
    case False
    obtain health v2 where health: "manifest_healthy E m d v = (health, v2)" by (metis prod.exhaust)
    from False rest have "(case health of
         Inl e \<Rightarrow> ifW (fault_code_of e = CodeRuntimeProcessStale) e (ret None)
       | Inr healthy \<Rightarrow> if healthy then apply_healthy E m c key d else ret None) v2 = (Inr (Some a), h')"
      by (simp add: bindW_def tryW_def health)
    then have s2: "manifest_healthy E m d v = (Inr True, v2)" and s3: "apply_healthy E m c key d v2 = (Inr (Some a), h')"
      using health by (cases health; simp add: ifW_def split: if_splits)+
    from manifest_healthy_True [OF s2] have own: "ours E v m (dp_xray d)" "process_recorded E v m" "\<not> dm_stopped m" and u: "undisturbed v v2"
      by auto
    obtain n where at: "laid_out E m n" using ours_laid_out [OF own(1,2) interface_name [OF name(1)]] .
    have "intact E v2 m" using ours_intact [OF own(1,2)] u same_files(3) [of v2 v E m] by (simp add: undisturbed_def)
    moreover have "h_active v2 = Doc m" using u q1 active by (simp add: undisturbed_def quiet_def)
    ultimately show ?thesis using apply_healthy_Inr [OF s3 at _ name(2) own(3)] by blast
  qed
qed

section \<open>A revision that was prepared and started\<close>

lemma allocate_mesh_Inr:
  "allocate_mesh E c m h = (Inr k, h') \<Longrightarrow> cf_revision k = cf_revision c \<and> cf_mesh k \<noteq> None \<and>
     wg_interface (cf_wireguard k) = wg_interface (cf_wireguard c)"
  by (auto simp: allocate_mesh_def Let_def guard_simps with_mesh_def dest!: checked_config_Inr)

lemma candidate_at:
  assumes "name_ok n" and "name_ok (wg_interface (cf_wireguard c) @ ''.conf'')"
  shows "laid_out E (candidate_of E c xray (revision_path E n) profile wg) n"
    "dm_xray_config (candidate_of E c xray (revision_path E n) profile wg) = file_path E n ''xray.json''"
    "dm_wg_config (candidate_of E c xray (revision_path E n) profile wg) = file_path E n (wg_interface (cf_wireguard c) @ ''.conf'')"
proof -
  have "revision_directory E m = Some (revision_path E n)" if "dm_xray_config m = file_path E n ''xray.json''" for m
    using that assms(1) by (simp add: revision_directory_def file_path_parts revision_path_facts revision_name_path Let_def)
  then show "laid_out E (candidate_of E c xray (revision_path E n) profile wg) n"
    "dm_xray_config (candidate_of E c xray (revision_path E n) profile wg) = file_path E n ''xray.json''"
    "dm_wg_config (candidate_of E c xray (revision_path E n) profile wg) = file_path E n (wg_interface (cf_wireguard c) @ ''.conf'')"
    using assms by (simp_all add: laid_out_def candidate_of_def file_path_def file_in_path [unfolded file_path_def] Let_def)
qed

lemma add_manager_Inr:
  assumes run: "add_manager E mesh (revision_path E n) m h = (Inr k, h')" and at: "laid_out E m n"
    and wg: "file_digest E h (dm_wg_config m) (dm_wg_sha256 m)" and xray: "file_digest E h (dm_xray_config m) (pi_sha256 (dm_xray m))"
  shows "laid_out E k n \<and> intact E h' k \<and> dm_revision k = dm_revision m \<and> dm_stopped k = dm_stopped m \<and> dm_manager k \<noteq> None"
proof -
  note paths = laid_out_paths [OF at]
  have path: "join_path [revision_path E n, ''path-manager.json''] = file_path E n ''path-manager.json''" by (simp add: file_path_def)
  from run obtain raw u v x where s1: "write_file E (file_path E n ''path-manager.json'') raw h = (Inr u, v)"
    and s2: "query (he_self E) v = (Inr x, h')"
    and k: "k = m\<lparr>dm_manager := Some \<lparr>pi_pid = 0, pi_executable = he_canonical E x, pi_config = file_path E n ''path-manager.json'',
        pi_sha256 = hex_encode (he_sha256 E raw), pi_revision = dm_revision m, pi_start = []\<rparr>\<rparr>"
    by (auto simp: add_manager_def Let_def guard_simps path)
  have q: "quiet v h'" by (rule keeps_relD [OF quiet.query_keeps s2])
  have kat: "laid_out E k n" using at by (simp add: k laid_out_def)
  have "intact E v k"
    unfolding intact_iff [OF kat]
    using wg xray digest_cong [OF written(2) [OF s1 paths(4) paths(3)]] digest_cong [OF written(2) [OF s1 paths(4) paths(2)]]
      written_digest [OF s1 paths(4) refl]
    by (simp add: k)
  with q kat show ?thesis by (simp add: quiet_intact [OF q]) (simp add: k)
qed

lemma fill_revision_Inr:
  assumes run: "fill_revision E c key xray (revision_path E n) h = (Inr m, h')" and n: "name_ok n"
    and i: "name_ok (wg_interface (cf_wireguard c) @ ''.conf'')"
  shows "laid_out E m n \<and> intact E h' m \<and> dm_revision m = cf_revision c \<and> \<not> dm_stopped m \<and> (dm_manager m = None \<longleftrightarrow> cf_mesh c = None)"
proof -
  from run obtain k v1 where s1: "(case cf_mesh c of None \<Rightarrow> ret c | Some m \<Rightarrow> allocate_mesh E c m) h = (Inr k, v1)"
    and rest: "(let profile = he_json E (render_xray_config k); wg = bytes_of (render_wireguard_config k key);
           m = candidate_of E k xray (revision_path E n) profile wg
       in bindW (write_file E (dm_xray_config m) profile) (\<lambda>_.
          bindW (write_file E (dm_wg_config m) wg) (\<lambda>_.
            case cf_mesh k of None \<Rightarrow> ret m | Some mesh \<Rightarrow> add_manager E mesh (revision_path E n) m))) v1 = (Inr m, h')"
    unfolding fill_revision_def bindW_Inr by blast
  have k: "cf_revision k = cf_revision c" "cf_mesh k = None \<longleftrightarrow> cf_mesh c = None" "name_ok (wg_interface (cf_wireguard k) @ ''.conf'')"
    using s1 i by (auto split: option.splits dest: allocate_mesh_Inr)
  define profile wg where "profile = he_json E (render_xray_config k)" and "wg = bytes_of (render_wireguard_config k key)"
  define m0 where "m0 = candidate_of E k xray (revision_path E n) profile wg"
  from rest have "bindW (write_file E (dm_xray_config m0) profile) (\<lambda>_. bindW (write_file E (dm_wg_config m0) wg) (\<lambda>_.
      case cf_mesh k of None \<Rightarrow> ret m0 | Some mesh \<Rightarrow> add_manager E mesh (revision_path E n) m0)) v1 = (Inr m, h')"
    by (simp only: Let_def m0_def profile_def wg_def)
  then obtain v2 v3 where s2: "write_file E (dm_xray_config m0) profile v1 = (Inr (), v2)"
    and s3: "write_file E (dm_wg_config m0) wg v2 = (Inr (), v3)"
    and s4: "(case cf_mesh k of None \<Rightarrow> ret m0 | Some mesh \<Rightarrow> add_manager E mesh (revision_path E n) m0) v3 = (Inr m, h')"
    by (auto simp: bindW_Inr)
  have at: "laid_out E m0 n" unfolding m0_def by (rule candidate_at(1) [OF n k(3)])
  note paths = laid_out_paths [OF at]
  have sha: "dm_wg_sha256 m0 = hex_encode (he_sha256 E wg)" "pi_sha256 (dm_xray m0) = hex_encode (he_sha256 E profile)"
    "dm_manager m0 = None" "dm_revision m0 = cf_revision k" "\<not> dm_stopped m0"
    by (simp_all add: m0_def candidate_of_def Let_def)
  have d: "file_digest E v3 (dm_wg_config m0) (dm_wg_sha256 m0)" "file_digest E v3 (dm_xray_config m0) (pi_sha256 (dm_xray m0))"
    using written_digest [OF s3 paths(3) sha(1) [symmetric]] written_digest [OF s2 paths(2) sha(2) [symmetric]]
      digest_cong [OF written(2) [OF s3 paths(3) paths(2)]] by simp_all
  show ?thesis
  proof (cases "cf_mesh k")
    case None
    with s4 have m: "m = m0" "h' = v3" by simp_all
    have "intact E v3 m0" using d sha(3) by (simp add: intact_iff [OF at])
    with at sha k None show ?thesis unfolding m by simp
  next
    case (Some mesh)
    with s4 have "add_manager E mesh (revision_path E n) m0 v3 = (Inr m, h')" by simp
    from add_manager_Inr [OF this at d] sha k Some show ?thesis by auto
  qed
qed

lemma prepare_Inr:
  assumes run: "prepare E c key xray h = (Inr m, h')" and i: "valid_interface (wg_interface (cf_wireguard c))"
  obtains n where "laid_out E m n" "intact E h' m" "dm_revision m = cf_revision c" "\<not> dm_stopped m" "dm_manager m = None \<longleftrightarrow> cf_mesh c = None"
proof -
  from run obtain d v where s1: "make_revision E (cf_revision c) h = (Inr d, v)" and s2: "fill_revision E c key xray d v = (Inr m, h')"
    by (auto simp: prepare_def bindW_Inr on_failure_Inr)
  obtain n where n: "name_ok n" "d = revision_path E n" using make_revision_path [OF s1] .
  note filled = fill_revision_Inr [OF s2 [unfolded n(2)] n(1) interface_name [OF i]]
  show ?thesis by (rule that [of n]) (use filled in blast)+
qed

lemma same_laid_out:
  assumes "laid_out E m n" and "same_revision m k" and "intact E h k"
  shows "laid_out E k n"
proof -
  have d: "revision_directory E k = Some (revision_path E n)"
    using same_revision_directory [OF assms(2)] laid_out_paths(1) [OF assms(1)] by simp
  with assms(3) have "\<forall>p. dm_manager k = Some p \<longrightarrow> pi_config p = file_path E n ''path-manager.json''"
    by (auto simp: intact_def manager_recorded_def file_path_def)
  with d assms(1,2) show ?thesis by (simp add: laid_out_def same_revision_def)
qed

lemma rollback_raises: "rollback E k p d e h \<noteq> (Inr x, h')"
  by (auto simp: rollback_def bindW_Inr tryW_eq split: sum.splits option.splits)

lemma activate_Inr:
  assumes run: "activate E m previous d h = (Inr k, h')" and at: "laid_out E m n" and intact: "intact E h m"
  shows "intact E h' k \<and> laid_out E k n \<and> same_revision m k \<and> \<not> dm_stopped k \<and> h_active h' = Doc (k\<lparr>dm_schema := 1\<rparr>)"
proof -
  let ?save = "\<lambda>a. bindW (case previous of None \<Rightarrow> ret () | Some p \<Rightarrow> save_good E p) (\<lambda>_. save_active E a)"
  from run obtain u1 v1 u2 v2 r v3 where s1: "run_command E (dp_xray d) [''run'', ''-test'', ''-config'', dm_xray_config m] h = (Inr u1, v1)"
    and s2: "(case previous of None \<Rightarrow> ret () | Some p \<Rightarrow> stop_previous E p d) v1 = (Inr u2, v2)"
    and s3: "tryW (start_manifest E m d) v2 = (Inr r, v3)"
    and rest: "(case r of Inl e \<Rightarrow> rollback E m previous d e
     | Inr activated \<Rightarrow> bindW (tryW (?save activated)) (\<lambda>saved.
           case saved of Inl e \<Rightarrow> rollback E activated previous d e | Inr u \<Rightarrow> ret activated)) v3 = (Inr k, h')"
    unfolding activate_def bindW_Inr orfail_Inr by blast
  from rest obtain a where r: "r = Inr a" by (cases r) (auto simp: rollback_raises)
  obtain saved v4 where s4: "?save a v3 = (saved, v4)" by (metis prod.exhaust)
  with rest r have "(case saved of Inl e \<Rightarrow> rollback E a previous d e | Inr u \<Rightarrow> ret a) v4 = (Inr k, h')"
    by (simp add: bindW_def [of "tryW m" for m] tryW_def)
  then obtain u where k: "a = k" "v4 = h'" and saved: "saved = Inr u" by (cases saved) (auto simp: rollback_raises)
  have start: "start_manifest E m d v2 = (Inr k, v3)" using s3 r k(1) by (simp add: tryW_eq)
  have "undisturbed v1 v2" using s2 by (cases previous) (auto intro: files.R_refl dest: keeps_relD [OF files.stop_previous_keeps])
  then have u: "undisturbed h v2" by (rule files.R_trans [OF keeps_relD [OF files.backend_keeps(1) s1]])
  have "intact E v2 m" using intact same_files(3) [of v2 h E m] u by (simp add: undisturbed_def)
  then obtain d' where "revision_directory E m = Some d'" "manager_recorded E v2 m d'" "file_digest E v2 (dm_wg_config m) (dm_wg_sha256 m)"
    by (auto simp: intact_def)
  from started_intact [OF start this] have st: "intact E v3 k" "same_revision m k" "\<not> dm_stopped k" by auto
  from s4 obtain v where g: "(case previous of None \<Rightarrow> ret () | Some p \<Rightarrow> save_good E p) v3 = (Inr (), v)" and a: "save_active E k v = (Inr (), h')"
    by (auto simp: bindW_Inr k saved)
  have "h_revs v = h_revs v3" using g
    by (auto simp: save_good_def htick_def write_artifact_def split: option.splits prod.splits write_outcome.splits)
  then have "h_revs h' = h_revs v3" using save_active_Inr [OF a] by simp
  then have "intact E h' k" using st(1) same_files(3) [of h' v3 E k] by simp
  with same_laid_out [OF at st(2)] st(2,3) save_active_Inr [OF a] show ?thesis by blast
qed

lemma replace_applied:
  assumes run: "replace_revision E previous c key d h = (Inr a, h')" and i: "valid_interface (wg_interface (cf_wireguard c))"
  shows "a = apply_result_of c \<and> applied E c h'"
proof -
  from run obtain m v1 k v2 where s1: "prepare E c key (dp_xray d) h = (Inr m, v1)" and s2: "activate E m previous d v1 = (Inr k, v2)"
    and s3: "cleanup_retained_revisions E k v2 = (Inr (), h')" and a: "a = apply_result_of c"
    by (auto simp: replace_revision_def bindW_Inr on_failure_Inr)
  obtain n where m: "laid_out E m n" "intact E v1 m" "dm_revision m = cf_revision c" "dm_manager m = None \<longleftrightarrow> cf_mesh c = None"
    using prepare_Inr [OF s1 i] .
  from activate_Inr [OF s2 m(1,2)] have k: "intact E v2 k" "laid_out E k n" "same_revision m k" "\<not> dm_stopped k"
    "h_active v2 = Doc (k\<lparr>dm_schema := 1\<rparr>)" by auto
  have "applied E c h'"
    by (rule cleanup_applied [OF s3 k(5) disjI2 [OF refl] k(2) k(1) _ k(4)]) (use k(3) m in \<open>auto simp: same_revision_def\<close>)
  with a show ?thesis by blast
qed

lemma apply_checks_Inr:
  assumes "apply_checks E c key h = (Inr d, h')"
  shows "quiet h h'" and "valid_interface (wg_interface (cf_wireguard c))"
proof -
  show "quiet h h'" by (rule keeps_relD [OF quiet.apply_checks_keep assms])
  from assms obtain k v where "checked_config E c h = (Inr k, v)" unfolding apply_checks_def bindW_Inr by blast
  from checked_config_Inr [OF this] show "valid_interface (wg_interface (cf_wireguard c))"
    by (auto simp: config_validate_None validate_wireguard_part_def Let_def split: if_splits)
qed


section \<open>After Down\<close>

lemma stop_manifest_files: "stop_manifest E m d h = (r, h') \<Longrightarrow> undisturbed h h'"
  by (rule keeps_relD [OF files.stop_manifest_keeps])

text \<open>
  After \<open>Down\<close> the runtime is recorded as stopped and can be started again. If it succeeds
  there was no active manifest, or the active one is now stopped and otherwise of the same
  revision with the same files, none of which changed; and a second \<open>Down\<close>, in any environment,
  does nothing to the host.
\<close>

theorem desktop_down_recorded:
  assumes run: "desktop_down E h = (Inr (), h')"
  shows "h_revs h' = h_revs h \<and>
    (h_active h = Absent \<and> h_active h' = Absent \<or>
     (\<exists>m m'. h_active h = Doc m \<and> h_active h' = Doc m' \<and> dm_stopped m' \<and> same_revision m m' \<and> dm_manager m' = dm_manager m)) \<and>
    (\<forall>E2 r h2. desktop_down E2 h' = (r, h2) \<longrightarrow> h_log h2 = h_log h' \<and> h_active h2 = h_active h')"
proof -
  have first: "h_revs h' = h_revs h \<and>
    (h_active h = Absent \<and> h_active h' = Absent \<or>
     (\<exists>m m'. h_active h = Doc m \<and> h_active h' = Doc m' \<and> dm_stopped m' \<and> same_revision m m' \<and> dm_manager m' = dm_manager m))"
    using run
  proof (cases rule: down_cases)
    case quiet
    then show ?thesis by (auto simp: quiet_def same_revision_def)
  next
    case (stopping d m v)
    from stopping(4) obtain u w where s1: "stop_manifest E m d v = (Inr u, w)" and s2: "save_active E (stopped_manifest m) w = (Inr (), h')"
      by (auto simp: bindW_Inr)
    from stop_manifest_files [OF s1] save_active_Inr [OF s2] stopping(1,2) show ?thesis
      by (auto simp: undisturbed_def quiet_def stopped_manifest_def same_revision_def)
  qed
  have second: "h_log h2 = h_log h' \<and> h_active h2 = h_active h'" if "desktop_down E2 h' = (r, h2)" for E2 r h2
    using that
  proof (cases rule: down_cases)
    case quiet
    then show ?thesis by (simp add: quiet_def)
  next
    case (stopping d m v)
    with first show ?thesis by auto
  qed
  with first show ?thesis by blast
qed

section \<open>A replacement that failed\<close>

lemma rollback_restores:
  assumes run: "rollback E k (Some p) d apply_error h = (r, h')"
  shows "\<exists>e. r = Inl e \<and> (fault_code_of e = CodeRuntimeApplyFailed \<longrightarrow>
    (\<exists>m. h_active h' = Doc m \<and> same_revision p m \<and> \<not> dm_stopped m \<and> dm_wg_up m))"
proof -
  let ?stop = "if dm_wg_up k \<or> pi_pid (dm_xray k) > 0 then tryW (stop_manifest E k d) else ret (Inr ())"
  obtain x w where "stop_manifest E k d h = (x, w)" by (metis prod.exhaust)
  then obtain s v where s: "?stop h = (Inr s, v)" by (cases "dm_wg_up k \<or> pi_pid (dm_xray k) > 0") (auto simp: tryW_def)
  show ?thesis
  proof (cases s)
    case (Inl e)
    with run s show ?thesis by (auto simp: rollback_def bindW_def)
  next
    case (Inr u)
    obtain x v2 where x: "start_manifest E p d v = (x, v2)" by (metis prod.exhaust)
    show ?thesis
    proof (cases x)
      case (Inl e)
      with run s Inr x show ?thesis by (auto simp: rollback_def bindW_def orfail_def tryW_def)
    next
      case restored: (Inr m)
      obtain y v3 where y: "save_active E m v2 = (y, v3)" by (metis prod.exhaust)
      from start_manifest_Inr [OF x [unfolded restored]] have m: "same_revision p m" "\<not> dm_stopped m" "dm_wg_up m" by auto
      show ?thesis
      proof (cases y)
        case (Inl e)
        with run s Inr x restored y show ?thesis
          by (auto simp: rollback_def bindW_def orfail_def tryW_def dropW_def split: prod.splits)
      next
        case (Inr w)
        with run s \<open>s = Inr u\<close> x restored y save_active_Inr [OF y [unfolded Inr]] m show ?thesis
          by (auto simp: rollback_def bindW_def orfail_def tryW_def)
      qed
    qed
  qed
qed

definition same_manifests :: "host \<Rightarrow> host \<Rightarrow> bool" where
  "same_manifests h h' \<longleftrightarrow> h_active h' = h_active h \<and> h_good h' = h_good h"

interpretation manifests: host_files same_manifests E "\<lambda>p. True"
  by unfold_locales (auto simp: same_manifests_def)

lemma undisturbed_manifests: "undisturbed h h' \<Longrightarrow> same_manifests h h'"
  by (simp add: undisturbed_def same_manifests_def)

lemma activate_Inl:
  assumes run: "activate E m (Some p) d h = (Inl e, h')" and active: "h_active h = Doc p" and code: "fault_code_of e = CodeRuntimeApplyFailed"
  shows "h_active h' = Doc p \<or> (\<exists>k. h_active h' = Doc k \<and> same_revision p k \<and> \<not> dm_stopped k \<and> dm_wg_up k)"
proof -
  let ?save = "\<lambda>a. bindW (save_good E p) (\<lambda>_. save_active E a)"
  let ?start = "bindW (tryW (start_manifest E m d)) (\<lambda>r. case r of
       Inl e \<Rightarrow> rollback E m (Some p) d e
     | Inr activated \<Rightarrow> bindW (tryW (?save activated)) (\<lambda>saved.
           case saved of Inl e \<Rightarrow> rollback E activated (Some p) d e | Inr u \<Rightarrow> ret activated))"
  let ?prepare = "bindW (orfail (fault CodeRuntimeApplyFailed ''test Xray config'')
              (run_command E (dp_xray d) [''run'', ''-test'', ''-config'', dm_xray_config m])) (\<lambda>_. stop_previous E p d)"
  have "bindW ?prepare (\<lambda>_. ?start) h = (Inl e, h')"
    using run by (auto simp: activate_def bindW_def split: prod.splits sum.splits)
  then show ?thesis
  proof (cases rule: bindW_cases)
    case (stopped e)
    have "keeps_rel undisturbed ?prepare" by (intro keeps)
    from keeps_relD [OF this stopped(1)] active show ?thesis by (simp add: undisturbed_def)
  next
    case (went u v)
    obtain r v2 where r: "start_manifest E m d v = (r, v2)" by (metis prod.exhaust)
    show ?thesis
    proof (cases r)
      case (Inl e')
      with went(2) r have "(rollback E m (Some p) d e' :: manifest rt) v2 = (Inl e, h')" by (simp add: bindW_def tryW_def)
      from rollback_restores [OF this] code show ?thesis by auto
    next
      case (Inr k)
      obtain s v3 where s: "?save k v2 = (s, v3)" by (metis prod.exhaust)
      show ?thesis
      proof (cases s)
        case (Inl e')
        with went(2) r Inr s have "(rollback E k (Some p) d e' :: manifest rt) v3 = (Inl e, h')" by (simp add: bindW_def [of "tryW x" for x] tryW_def)
        from rollback_restores [OF this] code show ?thesis by auto
      next
        case (Inr w)
        with went(2) r \<open>r = Inr k\<close> s show ?thesis by (simp add: bindW_def [of "tryW x" for x] tryW_def)
      qed
    qed
  qed
qed

lemma cleanup_code: "cleanup_retained_revisions E m h = (Inl e, h') \<Longrightarrow> fault_code_of e = CodeStateIO"
proof -
  have entries: "remove_entries E keep names h = (Inl e, h') \<Longrightarrow> fault_code_of e = CodeStateIO" for keep names h
    by (induction names arbitrary: h) (auto simp: Let_def bindW_def tryW_def split: prod.splits sum.splits if_splits)
  show "cleanup_retained_revisions E m h = (Inl e, h') \<Longrightarrow> fault_code_of e = CodeStateIO"
    unfolding cleanup_retained_revisions_def
    by (elim bindW_cases) (auto simp: load_good_def read_manifest_def list_revisions_def dest: entries
      split: file_state.splits if_splits option.splits)
qed


section \<open>Cleanup\<close>

text \<open>A log without the removal of a directory.\<close>

definition spares :: "host \<Rightarrow> host \<Rightarrow> bool" where
  "spares = logs (\<lambda>e. \<forall>p. e \<noteq> RemovedTree p)"

lemma spares_events: "(\<And>p. e \<noteq> RemovedTree p) \<Longrightarrow> h_log h' = h_log h @ [e] \<Longrightarrow> spares h h'"
  by (simp add: spares_def logs_def)

lemma spares_same: "h_log h' = h_log h \<Longrightarrow> spares h h'"
  by (simp add: spares_def logs_def)

interpretation sparing: host_rel spares
proof (unfold_locales)
  fix u v w :: host and e
  show "spares w w" "spares w (htick w)" by (simp_all add: spares_same)
  show "spares u w" if "spares u v" and "spares v w" using that unfolding spares_def by (rule logging.R_trans)
  show "spares w (logged e w)" if "plain_event e" using that by (intro spares_events) auto
qed

lemma drop_file_log [simp]: "h_log (drop_file E p h) = h_log h"
  by (simp add: drop_file_def)

lemma sparing_removals:
  "keeps_rel spares (remove_owned E p)" "keeps_rel spares (remove_empty E p)" "keeps_rel spares (remove_active E)" "keeps_rel spares (remove_good E)"
proof -
  show "keeps_rel spares (remove_owned E p)"
    by (rule keeps_relI) (auto simp: remove_owned_def intro: spares_same spares_events [where e = "RemovedFile p"] split: option.split)
  show "keeps_rel spares (remove_empty E p)"
    by (rule keeps_relI, rule spares_same) (simp add: remove_empty_def on_revision_def drop_revision_def split: option.split)
  show "keeps_rel spares (remove_active E)" "keeps_rel spares (remove_good E)"
    by (rule keeps_relI, rule spares_same, simp add: remove_active_def remove_good_def htick_def split: prod.split)+
qed

lemma cleanup_manifests_spares: "keeps_rel spares (cleanup_manifests E ms)"
proof (induction ms)
  case Nil
  show ?case unfolding cleanup_manifests.simps by (intro keeps)
next
  case (Cons m ms)
  show ?case unfolding cleanup_manifests.simps by (intro keeps sparing_removals Cons.IH)
qed

text \<open>
  \<open>Cleanup\<close> never removes a directory with its content, and does not touch a runtime that
  is up: on every exit no tree was removed, and while the active manifest is not stopped it
  fails with the host's files and manifests as they were.
\<close>

theorem desktop_cleanup_careful:
  assumes run: "desktop_cleanup E h = (r, h')"
  shows "(\<exists>es. h_log h' = h_log h @ es \<and> (\<forall>p. RemovedTree p \<notin> set es)) \<and>
    (\<forall>m. h_active h = Doc m \<and> \<not> dm_stopped m \<longrightarrow>
       r \<noteq> Inr () \<and> h_revs h' = h_revs h \<and> h_active h' = h_active h \<and> h_good h' = h_good h)"
proof (intro conjI allI impI)
  have "keeps_rel spares (desktop_cleanup E)"
    unfolding desktop_cleanup_def cleanup_check_def by (intro keeps sparing_removals cleanup_manifests_spares)
  from keeps_relD [OF this run] show "\<exists>es. h_log h' = h_log h @ es \<and> (\<forall>p. RemovedTree p \<notin> set es)"
    by (auto simp: spares_def logs_def list_all_iff)
next
  fix m
  assume m: "h_active h = Doc m \<and> \<not> dm_stopped m"
  have "keeps_rel quiet (cleanup_check E True (Some m))" unfolding cleanup_check_def by (intro keeps)
  note check = keeps_relD [OF this]
  have refused: "\<exists>e. x = Inl e" if "cleanup_check E True (Some m) v = (x, w)" for x v w
  proof (cases x)
    case (Inr a)
    with that m show ?thesis by (auto simp: cleanup_check_def guard_simps)
  qed simp
  let ?loaded = "read_manifest (he_read E (h_tick h)) (Doc m)"
  have load: "load_active E h = (?loaded, htick h)" using m by (simp add: load_active_def)
  have "quiet h h' \<and> (\<exists>e. r = Inl e)"
  proof (cases ?loaded)
    case (Inl e)
    with run quiet.R_htick [of h] show ?thesis by (auto simp: desktop_cleanup_def bindW_def load)
  next
    case (Inr a)
    then have a: "a = Some m" by (auto simp: read_manifest_def split: if_splits)
    obtain x w where x: "cleanup_check E True (Some m) (htick h) = (x, w)" by (metis prod.exhaust)
    with refused obtain e where "x = Inl e" by blast
    with run Inr a x have "h' = w" "r = Inl e" by (simp_all add: desktop_cleanup_def bindW_def load)
    with check [OF x] quiet.R_htick [of h] show ?thesis by (blast intro: quiet.R_trans)
  qed
  then show "r \<noteq> Inr ()" "h_revs h' = h_revs h" "h_active h' = h_active h" "h_good h' = h_good h" by (auto simp: quiet_def)
qed


end
