(* ===== verification/Desktop_Samples.thy ===== *)
theory Desktop_Samples
  imports Desktop_Proven
begin

text \<open>
  A host on which the properties of the desktop runtime are exercised: every question is
  answered well, but the interface is there only after a number of questions, and the loopback
  port is free only after a number of them. The stages of a run on it, and the witnesses.
\<close>

definition sample_rt :: "nat \<Rightarrow> nat \<Rightarrow> host_env" where
  "sample_rt up free = \<lparr>he_sha256 = (\<lambda>bs. take 8 (bs @ replicate 8 0)), he_json = (\<lambda>j. [1]), he_mesh_json = (\<lambda>f. [2]),
     he_mesh_parse = (\<lambda>bs. None), he_paths_parse = (\<lambda>bs. []), he_state = ''/s'', he_foreign = (\<lambda>p. None),
     he_managed = (\<lambda>n. None), he_look = (\<lambda>name n. Inr (''/bin/'' @ name)), he_privileged = (\<lambda>n. True),
     he_index = (\<lambda>i n. Inr (if n < up then 0 else 7)), he_resolve = (\<lambda>i n. None),
     he_service = (\<lambda>i x c n. Inr (False, False)), he_run = (\<lambda>n. None), he_start = (\<lambda>n. Inr (42, ''t'')),
     he_alive = (\<lambda>p n. Inr True), he_stop = (\<lambda>n. None), he_available = (\<lambda>a n. Inr (free \<le> n)),
     he_owned = (\<lambda>p a n. Inr True), he_rounds = (\<lambda>n. 1), he_ctx = (\<lambda>n. None), he_read = (\<lambda>n. ReadOk),
     he_file = (\<lambda>n. None), he_private = (\<lambda>n. True), he_write = (\<lambda>n. WriteOk), he_secure = (\<lambda>n. None),
     he_remove = (\<lambda>n. None), he_left = (\<lambda>n f. True), he_list = (\<lambda>n. None), he_canonical = clean,
     he_temp = (\<lambda>n. Inr 5), he_self = (\<lambda>n. Inr ''/bin/xc''), he_port = (\<lambda>s n. Inr ''127.0.0.1:9''),
     he_now = (\<lambda>n. zero_time), he_check = (\<lambda>n. \<lparr>ce_resolve = (\<lambda>s. True), ce_now1 = zero_time, ce_now2 = zero_time\<rparr>)\<rparr>"

lemma sample_rt_sels [simp]:
  "he_managed (sample_rt u f) n = None" "he_look (sample_rt u f) name n = Inr (''/bin/'' @ name)"
  "he_privileged (sample_rt u f) n" "he_index (sample_rt u f) i n = Inr (if n < u then 0 else 7)"
  "he_service (sample_rt u f) i x c n = Inr (False, False)" "he_run (sample_rt u f) n = None"
  "he_start (sample_rt u f) n = Inr (42, ''t'')" "he_alive (sample_rt u f) p n = Inr True" "he_stop (sample_rt u f) n = None"
  "he_available (sample_rt u f) a n = Inr (f \<le> n)" "he_owned (sample_rt u f) p a n = Inr True" "he_rounds (sample_rt u f) n = 1"
  "he_read (sample_rt u f) n = ReadOk" "he_file (sample_rt u f) n = None" "he_private (sample_rt u f) n"
  "he_write (sample_rt u f) n = WriteOk" "he_secure (sample_rt u f) n = None" "he_remove (sample_rt u f) n = None"
  "he_list (sample_rt u f) n = None" "he_canonical (sample_rt u f) = clean" "he_temp (sample_rt u f) n = Inr 5"
  "he_now (sample_rt u f) n = zero_time" "he_state (sample_rt u f) = ''/s''"
  by (simp_all add: sample_rt_def)

text \<open>The number of questions each stage asks.\<close>

lemmas stage_defs = bindW_def tryW_def ask_def query_def act_def ifW_def orfail_def andW_def htick_def

lemma sample_dependencies:
  "find_dependencies (sample_rt u f) h =
     (Inr \<lparr>dp_xray = ''/bin/xray'', dp_wg = ''/bin/wg'', dp_wg_quick = ''/bin/wg-quick''\<rparr>, h\<lparr>h_tick := h_tick h + 4\<rparr>)"
  by (simp add: find_dependencies_def lookup_xray_def stage_defs)

lemma sample_checks:
  assumes "config_validate (he_check (sample_rt u f) (h_tick h)) c = None" and "std_decode (trim_space key) = Some k" "length k = 32"
  shows "apply_checks (sample_rt u f) c key h =
     (Inr \<lparr>dp_xray = ''/bin/xray'', dp_wg = ''/bin/wg'', dp_wg_quick = ''/bin/wg-quick''\<rparr>, h\<lparr>h_tick := h_tick h + 7\<rparr>)"
  using assms by (simp add: apply_checks_def checked_config_def sample_dependencies secure_directory_def stage_defs)

lemma sample_write: "\<exists>v. write_file (sample_rt u f) p raw h = (Inr (), v) \<and> h_tick v = Suc (h_tick h)"
  by (simp add: write_file_def write_artifact_def of_option_def htick_def put_file_def Let_def split: option.split)

lemma put_tick [simp]: "h_tick (put_file E p raw h) = h_tick h"
  by (simp add: put_file_def Let_def split: option.split)

lemma sample_prepare:
  assumes "cf_mesh c = None"
    and fresh: "map_of (h_revs h) (hex_encode (take 8 (he_sha256 (sample_rt u f) (bytes_of (cf_revision c)))) @ ''-5'') = None"
  shows "\<exists>m v. prepare (sample_rt u f) c key x h = (Inr m, v) \<and> h_tick v = h_tick h + 5 \<and> dm_manager m = None"
proof -
  have five: "show_nat 5 = ''5''" by code_simp
  show ?thesis using assms
    by (simp add: prepare_def make_revision_def fill_revision_def on_failure_def secure_directory_def create_directory_def
      stage_defs write_file_def write_artifact_def of_option_def Let_def five) (simp add: candidate_of_def Let_def)
qed

lemma sample_process:
  assumes "file_digest (sample_rt u f) h (dm_xray_config m) (pi_sha256 (dm_xray m))" and "pi_pid (dm_xray m) > 0"
    and "pi_executable (dm_xray m) \<noteq> []" "pi_config (dm_xray m) = dm_xray_config m" "pi_revision (dm_xray m) = dm_revision m"
  shows "process_trusted (sample_rt u f) m h = (Inr True, h\<lparr>h_tick := h_tick h + 2\<rparr>)"
  using assms by (auto simp: file_digest_def process_trusted_def read_file_def stage_defs Let_def)

lemma digest_ignores [simp]:
  "file_digest E (h\<lparr>h_tick := t\<rparr>) p s = file_digest E h p s" "file_digest E (h\<lparr>h_log := l\<rparr>) p s = file_digest E h p s"
  using same_files(1) [of "h\<lparr>h_tick := t\<rparr>" h E p s] same_files(1) [of "h\<lparr>h_log := l\<rparr>" h E p s] by simp_all

lemma sample_start_xray:
  assumes "file_digest (sample_rt u f) h (dm_xray_config m) (pi_sha256 (dm_xray m))"
  shows "\<exists>k v. start_xray (sample_rt u f) m \<lparr>dp_xray = ''/bin/xray'', dp_wg = w, dp_wg_quick = q\<rparr> h = (Inr k, v) \<and>
    h_tick v = h_tick h + 5 \<and> dm_manager k = dm_manager m"
proof -
  let ?E = "sample_rt u f"
  let ?p = "started_identity ?E ''/bin/xray'' [''run'', ''-config'', dm_xray_config m] (dm_revision m) (pi_sha256 (dm_xray m)) (42, ''t'')"
  let ?m = "m\<lparr>dm_xray := ?p\<lparr>pi_config := dm_xray_config m, pi_revision := dm_revision m\<rparr>\<rparr>"
  let ?e = "Started ''/bin/xray'' [''run'', ''-config'', dm_xray_config m] (dm_revision m) (pi_sha256 (dm_xray m))"
  define v1 v2 where "v1 = htick (h\<lparr>h_log := h_log h @ [?e]\<rparr>)" and "v2 = htick v1"
  have start: "start_process ?E ''/bin/xray'' [''run'', ''-config'', dm_xray_config m] (dm_revision m) (pi_sha256 (dm_xray m)) h = (Inr ?p, v1)"
    by (simp add: start_process_def bindW_def act_def v1_def)
  have digest: "file_digest ?E v2 p s = file_digest ?E h p s" for p s by (simp add: v2_def v1_def htick_def)
  have "process_trusted ?E ?m v2 = (Inr True, v2\<lparr>h_tick := h_tick v2 + 2\<rparr>)"
    by (rule sample_process) (simp_all add: digest assms started_identity_def)
  then have "await_xray ?E ?m (Suc (Suc 0)) v2 = (Inr (), htick (v2\<lparr>h_tick := h_tick v2 + 2\<rparr>))"
    by (simp add: bindW_def tryW_def ifW_def query_def)
  moreover have "wait_for_xray ?E ?m v1 = await_xray ?E ?m (Suc (Suc 0)) v2"
    by (simp add: wait_for_xray_def bindW_def [of "ask x" for x] ask_def v2_def del: await_xray.simps)
  ultimately have "wait_for_xray ?E ?m v1 = (Inr (), htick (v2\<lparr>h_tick := h_tick v2 + 2\<rparr>))" by simp
  then have "start_xray ?E m \<lparr>dp_xray = ''/bin/xray'', dp_wg = w, dp_wg_quick = q\<rparr> h = (Inr ?m, htick (v2\<lparr>h_tick := h_tick v2 + 2\<rparr>))"
    by (simp add: start_xray_def orfail_def bindW_def tryW_def start Let_def)
  then show ?thesis by (simp add: v2_def v1_def htick_def)
qed

lemma sample_begin:
  assumes "file_digest (sample_rt u f) h (dm_xray_config m) (pi_sha256 (dm_xray m))" and "dm_manager m = None"
    and "h_tick h + 1 < u" "u \<le> h_tick h + 9" "f \<le> h_tick h + 2"
  shows "\<exists>k v. start_manifest (sample_rt u f) m \<lparr>dp_xray = ''/bin/xray'', dp_wg = w, dp_wg_quick = q\<rparr> h = (Inr k, v) \<and>
    h_tick v = h_tick h + 12"
proof -
  let ?E = "sample_rt u f" and ?d = "\<lparr>dp_xray = ''/bin/xray'', dp_wg = w, dp_wg_quick = q\<rparr>"
  have free: "check_free ?E m ?d h = (Inr (), h\<lparr>h_tick := h_tick h + 3\<rparr>)"
    using assms(3,5) by (simp add: check_free_def service_state_def stage_defs)
  obtain k v where x: "start_xray ?E m ?d (h\<lparr>h_tick := h_tick h + 3\<rparr>) = (Inr k, v)" "h_tick v = h_tick h + 8" "dm_manager k = None"
    using sample_start_xray [of u f "h\<lparr>h_tick := h_tick h + 3\<rparr>" m w q] assms(1,2) by auto
  then have "start_manager ?E k v = (Inr k, v)" by (simp add: start_manager_def)
  moreover have "\<exists>k' v'. bring_up ?E k ?d v = (Inr k', v') \<and> h_tick v' = h_tick v + 4"
    using assms(4) x(2) by (simp add: bring_up_def run_command_def stage_defs of_option_def Let_def)
  ultimately show ?thesis using x(1,2)
    by (auto simp: start_manifest_def bindW_def free)
qed

lemma sample_save: "\<exists>v. save_active (sample_rt u f) m h = (Inr (), v) \<and> h_good v = h_good h"
  "\<exists>v. save_good (sample_rt u f) m h = (Inr (), v)"
  by (simp_all add: save_active_def save_good_def write_artifact_def of_option_def htick_def)

lemma sample_remove_entries: "\<exists>v. remove_entries (sample_rt u f) keep names h = (Inr (), v)"
proof (induction names arbitrary: h)
  case (Cons n names)
  show ?case
  proof (cases "revision_path (sample_rt u f) n \<in> keep")
    case False
    obtain v where "remove_tree (sample_rt u f) (revision_path (sample_rt u f) n) h = (Inr (), v)" by (simp add: remove_tree_def)
    with Cons [of v] False show ?thesis by (simp add: Let_def bindW_def tryW_def)
  qed (use Cons in \<open>simp add: Let_def\<close>)
qed simp

lemma sample_cleanup: "h_good h = Absent \<Longrightarrow> \<exists>v. cleanup_retained_revisions (sample_rt u f) m h = (Inr (), v)"
  using sample_remove_entries
  by (simp add: cleanup_retained_revisions_def bindW_def load_good_def read_manifest_def list_revisions_def)

definition sample_key :: string where
  "sample_key = std_encode (replicate 32 7)"

lemma sample_key_ok: "std_decode (trim_space sample_key) = Some (replicate 32 7)"
  using trim_space_all_graphic [OF std_encode_graphic] by (simp add: sample_key_def)

lemma sample_compiled_facts:
  "config_validate K sample_compiled = None" "cf_mesh sample_compiled = None" "valid_interface (wg_interface (cf_wireguard sample_compiled))"
proof -
  show valid: "config_validate K sample_compiled = None" for K by (rule compile_valid [OF sample_compiles])
  show "cf_mesh sample_compiled = None" by (simp add: sample_compiled_def compiled_config_def Let_def sample_signed_def)
  from valid [of undefined] show "valid_interface (wg_interface (cf_wireguard sample_compiled))"
    by (auto simp: config_validate_None validate_wireguard_part_def Let_def split: if_splits)
qed

text \<open>The first \<open>Apply\<close>, with an old entry in the revisions directory.\<close>

definition sample_host :: host where
  "sample_host = \<lparr>h_tick = 0, h_active = Absent, h_good = Absent, h_revs = [(''old'', [(''xray.json'', [9])])], h_log = []\<rparr>"

lemma sample_apply: "\<exists>h'. desktop_apply (sample_rt 16 0) sample_compiled sample_key sample_host = (Inr (apply_result_of sample_compiled), h')"
proof -
  let ?E = "sample_rt 16 0" and ?c = sample_compiled
  let ?d = "\<lparr>dp_xray = ''/bin/xray'', dp_wg = ''/bin/wg'', dp_wg_quick = ''/bin/wg-quick''\<rparr>"
  let ?h = "sample_host\<lparr>h_tick := 8\<rparr>"
  have checks: "apply_checks ?E ?c sample_key sample_host = (Inr ?d, sample_host\<lparr>h_tick := 7\<rparr>)"
    using sample_checks [OF sample_compiled_facts(1) sample_key_ok, of 16 0 sample_host] by (simp add: sample_host_def)
  have load: "load_active ?E (sample_host\<lparr>h_tick := 7\<rparr>) = (Inr None, ?h)"
    by (simp add: load_active_def read_manifest_def sample_host_def htick_def)
  have name: "hex_encode bs @ ''-5'' \<noteq> ''old''" for bs
  proof -
    have "last (hex_encode bs @ ''-5'') \<noteq> last ''old''" by simp
    then show ?thesis by metis
  qed
  obtain m v where prep: "prepare ?E ?c sample_key ''/bin/xray'' ?h = (Inr m, v)" "h_tick v = 13" "dm_manager m = None"
    using sample_prepare [OF sample_compiled_facts(2), of ?h 16 0 sample_key "''/bin/xray''"] name
    by (auto simp: sample_host_def)
  obtain n where m: "laid_out ?E m n" "intact ?E v m" using prepare_Inr [OF prep(1) sample_compiled_facts(3)] by blast
  have man: "same_manifests ?h v" by (rule keeps_relD [OF manifests.prepare_keeps prep(1)])
  define v1 where "v1 = v\<lparr>h_tick := 14, h_log := h_log v @ [Ran ''/bin/xray'' [''run'', ''-test'', ''-config'', dm_xray_config m]]\<rparr>"
  have run: "run_command ?E ''/bin/xray'' [''run'', ''-test'', ''-config'', dm_xray_config m] v = (Inr (), v1)"
    using prep(2) by (simp add: run_command_def act_def htick_def of_option_def v1_def)
  have "file_digest ?E v1 (dm_xray_config m) (pi_sha256 (dm_xray m))" using m(2) by (simp add: intact_def v1_def)
  then obtain k v2 where start: "start_manifest ?E m ?d v1 = (Inr k, v2)"
    using sample_begin [of 16 0 v1 m "''/bin/wg''" "''/bin/wg-quick''"] prep(3) by (auto simp: v1_def)
  have good: "h_good v2 = Absent" using keeps_relD [OF files.start_manifest_keeps start] man
    by (simp add: undisturbed_def same_manifests_def v1_def sample_host_def)
  obtain v3 where save: "save_active ?E k v2 = (Inr (), v3)" "h_good v3 = Absent" using sample_save(1) [of 16 0 k v2] good by auto
  obtain v4 where clean: "cleanup_retained_revisions ?E k v3 = (Inr (), v4)" using sample_cleanup [OF save(2), of 16 0 k] by auto
  have "activate ?E m None ?d v = (Inr k, v3)"
    by (simp add: activate_def orfail_def bindW_def tryW_def run start save(1))
  then have "replace_revision ?E None ?c sample_key ?d ?h = (Inr (apply_result_of ?c), v4)"
    by (simp add: replace_revision_def bindW_def prep(1) on_failure_def tryW_def clean)
  then show ?thesis by (simp add: desktop_apply_def bindW_def checks load)
qed



section \<open>A runtime that is up\<close>

definition sample_dir :: "string \<Rightarrow> string" where
  "sample_dir n = revision_path (sample_rt 0 0) n"

definition sample_file :: "string \<Rightarrow> string \<Rightarrow> string" where
  "sample_file n f = file_path (sample_rt 0 0) n f"

lemma sample_path [simp]: "file_path (sample_rt u f) n x = sample_file n x" "revision_path (sample_rt u f) n = sample_dir n"
  by (simp_all only: sample_dir_def sample_file_def file_path_def revision_path_def runtime_dir_def sample_rt_sels)

lemma sample_file_eq: "sample_file n f = join_path [sample_dir n, f]"
  by (simp only: sample_file_def file_path_def sample_dir_def)

definition sample_manifest :: "bool \<Rightarrow> manifest" where
  "sample_manifest stopped = \<lparr>dm_schema = 1, dm_revision = ''r'', dm_core = ''xray'', dm_adapter = ''xray-core'', dm_interface = ''wg0'',
     dm_loopback = ''127.0.0.1:1'', dm_xray_config = sample_file ''r1'' ''xray.json'',
     dm_wg_config = sample_file ''r1'' ''wg0.conf'', dm_wg_sha256 = hex_encode (take 8 ([2] @ replicate 8 0)),
     dm_xray = \<lparr>pi_pid = 42, pi_executable = ''/bin/xray'', pi_config = sample_file ''r1'' ''xray.json'',
       pi_sha256 = hex_encode (take 8 ([1] @ replicate 8 0)), pi_revision = ''r'', pi_start = ''t''\<rparr>,
     dm_manager = None, dm_wg_up = True, dm_index = 7, dm_stopped = stopped, dm_applied = zero_time\<rparr>"

definition sample_up :: "bool \<Rightarrow> host" where
  "sample_up stopped = \<lparr>h_tick = 0, h_active = Doc (sample_manifest stopped), h_good = Absent,
     h_revs = [(''r1'', [(''xray.json'', [1]), (''wg0.conf'', [2])])], h_log = []\<rparr>"

lemma sample_trusted:
  assumes revs: "map_of (h_revs h) ''r1'' = Some [(''xray.json'', [1]), (''wg0.conf'', [2])]"
  shows "\<exists>v. manifest_trusted (sample_rt u f) (sample_manifest stopped) ''/bin/xray'' h = (Inr True, v) \<and> quiet h v \<and> h_tick v = h_tick h + 4"
proof -
  let ?E = "sample_rt u f" and ?m = "sample_manifest stopped"
  have names: "name_ok ''r1''" "name_ok ''xray.json''" "name_ok ''wg0.conf''" by (simp_all add: name_ok_def element_def)
  have in_x: "file_in ?E (dm_xray_config ?m) ''r1'' ''xray.json''" and in_w: "file_in ?E (dm_wg_config ?m) ''r1'' ''wg0.conf''"
    using file_in_path [OF names(1,2), of ?E] file_in_path [OF names(1,3), of ?E] by (simp_all add: sample_manifest_def)
  have at: "file_at ?E g (dm_xray_config ?m) = Some [1]" "file_at ?E g (dm_wg_config ?m) = Some [2]" if "h_revs g = h_revs h" for g
    using file_in_of [OF in_x] file_in_of [OF in_w] revs that by (simp_all add: file_at_def)
  have dir: "revision_directory ?E ?m = Some (revision_path ?E ''r1'')" "revision_name ?E (revision_path ?E ''r1'') = Some ''r1''"
    using file_in_dir [OF in_x] revision_name_path [OF names(1), of ?E] revision_path_facts(3) [OF names(1), of ?E]
    by (simp_all add: revision_directory_def Let_def)
  have id: "identity_trusted ?m ''/bin/xray'' (revision_path ?E ''r1'')"
    using in_x in_w by (simp add: identity_trusted_def file_in_def) (simp add: sample_manifest_def sample_file_eq is_abs_def has_prefix_def)
  have "split_host_port ''127.0.0.1:1'' = Some (''127.0.0.1'', ''1'')" by code_simp
  then have port: "map_option fst (split_host_port (dm_loopback ?m)) = Some ''127.0.0.1''" by (simp add: sample_manifest_def)
  have sha: "he_sha256 ?E raw = take 8 (raw @ replicate 8 0)" for raw by (simp add: sample_rt_def)
  have names_m: "dm_manager ?m = None" by (simp add: sample_manifest_def)
  have steps: "private_file ?E (dm_xray_config ?m) g = (Inr True, htick g)" "private_file ?E (dm_wg_config ?m) g = (Inr True, htick g)"
    "digest_is ?E (dm_wg_config ?m) (dm_wg_sha256 ?m) g = (Inr True, htick g)" "private_directory ?E (revision_path ?E ''r1'') g = (Inr True, htick g)"
    if "h_revs g = h_revs h" for g
  proof -
    note f = at(1) [OF that] at(2) [OF that]
    show "private_file ?E (dm_xray_config ?m) g = (Inr True, htick g)" "private_file ?E (dm_wg_config ?m) g = (Inr True, htick g)"
      by (simp_all only: private_file_def f sample_rt_sels) simp_all
    have "hex_encode (he_sha256 ?E [2]) = dm_wg_sha256 ?m" by (simp only: sha) (simp add: sample_manifest_def)
    then show "digest_is ?E (dm_wg_config ?m) (dm_wg_sha256 ?m) g = (Inr True, htick g)"
      by (simp only: digest_is_def bindW_def tryW_def read_file_def f sample_rt_sels) simp
    show "private_directory ?E (revision_path ?E ''r1'') g = (Inr True, htick g)"
      using revs by (simp only: private_directory_def dir(2) that) simp
  qed
  have "manifest_trusted ?E ?m ''/bin/xray'' h = (Inr True, htick (htick (htick (htick h))))"
    by (simp only: manifest_trusted_def dir(1) option.case andW_def bindW_def ret_simps prod.case sum.case id if_True steps
      host_logs manager_trusted_def names_m port) simp
  then show ?thesis by (simp add: quiet_def) (simp add: htick_def)
qed

lemma sample_digest:
  assumes "map_of (h_revs h) ''r1'' = Some [(''xray.json'', [1]), (''wg0.conf'', [2])]"
  shows "file_digest (sample_rt u f) h (dm_xray_config (sample_manifest stopped)) (pi_sha256 (dm_xray (sample_manifest stopped)))"
proof -
  have names: "name_ok ''r1''" "name_ok ''xray.json''" by (simp_all add: name_ok_def element_def)
  from file_in_of [OF file_in_path [OF names, of "sample_rt u f"]] assms show ?thesis
    by (simp add: file_digest_def file_at_def sample_manifest_def) (simp add: sample_rt_def)
qed

lemma sample_down: "\<exists>v. desktop_down (sample_rt 0 0) (sample_up False) = (Inr (), v) \<and> h_log v \<noteq> []"
proof -
  let ?E = "sample_rt 0 0" and ?m = "sample_manifest False"
  let ?d = "\<lparr>dp_xray = ''/bin/xray'', dp_wg = ''/bin/wg'', dp_wg_quick = ''/bin/wg-quick''\<rparr>"
  have m: "\<not> dm_stopped ?m" "dm_wg_up ?m" "dm_index ?m = 7" "dm_manager ?m = None" "pi_pid (dm_xray ?m) > 0"
    "pi_executable (dm_xray ?m) \<noteq> []" "pi_config (dm_xray ?m) = dm_xray_config ?m" "pi_revision (dm_xray ?m) = dm_revision ?m"
    by (simp_all add: sample_manifest_def)
  obtain v1 where t1: "manifest_trusted ?E ?m ''/bin/xray'' (sample_up False\<lparr>h_tick := 6\<rparr>) = (Inr True, v1)" and q1: "quiet (sample_up False\<lparr>h_tick := 6\<rparr>) v1"
    using sample_trusted [of "sample_up False\<lparr>h_tick := 6\<rparr>" 0 0 False] by (auto simp: sample_up_def)
  have r1: "map_of (h_revs v1) ''r1'' = Some [(''xray.json'', [1]), (''wg0.conf'', [2])]" using q1 by (simp add: quiet_def sample_up_def)
  obtain v2 where t2: "manifest_trusted ?E ?m ''/bin/xray'' v1 = (Inr True, v2)" and q2: "quiet v1 v2"
    using sample_trusted [OF r1, of 0 0 False] by auto
  have r2: "map_of (h_revs v2) ''r1'' = Some [(''xray.json'', [1]), (''wg0.conf'', [2])]" using q2 r1 by (simp add: quiet_def)
  note p = sample_process [OF sample_digest [OF r2] m(5-8)]
  have "stop_manifest ?E ?m ?d v1 = (Inr (), v2\<lparr>h_tick := h_tick v2 + 6, h_log := h_log v2 @
      [Ran ''/bin/wg-quick'' [''down'', dm_wg_config ?m], Stopping (dm_xray ?m)]\<rparr>)"
    by (simp add: stop_manifest_def bindW_def tryW_def ifW_def t2 p m service_state_def query_def service_refused_def take_down_def
      orfail_def run_command_def act_def of_option_def stop_manager_def stop_process_def htick_def)
  with t1 [unfolded sample_up_def, simplified] show ?thesis
    by (simp add: desktop_down_def sample_dependencies bindW_def ask_def ifW_def load_active_def read_manifest_def htick_def
      down_manifest_def save_active_def write_artifact_def of_option_def sample_up_def [of False] m)
qed

theorem desktop_down_only_owned_witness:
  "\<exists>v. desktop_down (sample_rt 0 0) (sample_up False) = (Inr (), v) \<and> (\<exists>d. ours (sample_rt 0 0) (sample_up False) (sample_manifest False) (dp_xray d) \<and>
     list_all (may_stop (sample_rt 0 0) (sample_manifest False) d) (h_log v))"
proof -
  obtain v where v: "desktop_down (sample_rt 0 0) (sample_up False) = (Inr (), v)" "h_log v \<noteq> []" using sample_down by blast
  with desktop_down_only_owned [OF v(1)] show ?thesis by (auto simp: sample_up_def)
qed

theorem desktop_down_recorded_witness:
  "\<exists>v m. desktop_down (sample_rt 0 0) (sample_up False) = (Inr (), v) \<and> h_active v = Doc m \<and> dm_stopped m"
proof -
  obtain v where v: "desktop_down (sample_rt 0 0) (sample_up False) = (Inr (), v)" using sample_down by blast
  with desktop_down_recorded [OF v] show ?thesis by (auto simp: sample_up_def)
qed


theorem desktop_cleanup_careful_witness:
  "\<exists>r v. desktop_cleanup (sample_rt 0 0) (sample_up False) = (r, v) \<and> r \<noteq> Inr () \<and> h_revs v = h_revs (sample_up False)"
proof -
  obtain r v where run: "desktop_cleanup (sample_rt 0 0) (sample_up False) = (r, v)" by (metis prod.exhaust)
  with desktop_cleanup_careful [OF run] show ?thesis by (auto simp: sample_up_def sample_manifest_def)
qed

theorem retained_revisions_kept_witness:
  "\<exists>r v. cleanup_retained_revisions (sample_rt 0 0) (sample_manifest False) (sample_up False) = (r, v) \<and>
     file_at (sample_rt 0 0) v (join_path [sample_dir ''r1'', ''xray.json'']) =
       file_at (sample_rt 0 0) (sample_up False) (join_path [sample_dir ''r1'', ''xray.json''])"
proof -
  obtain r v where run: "cleanup_retained_revisions (sample_rt 0 0) (sample_manifest False) (sample_up False) = (r, v)" by (metis prod.exhaust)
  have names: "name_ok ''r1''" "name_ok ''xray.json''" by (simp_all add: name_ok_def element_def)
  have in_x: "file_in (sample_rt 0 0) (dm_xray_config (sample_manifest False)) ''r1'' ''xray.json''"
    using file_in_path [OF names, of "sample_rt 0 0"] by (simp add: sample_manifest_def)
  have "revision_directory (sample_rt 0 0) (sample_manifest False) = Some (sample_dir ''r1'')"
    using file_in_dir [OF in_x] revision_name_path [OF names(1), of "sample_rt 0 0"] revision_path_facts(3) [OF names(1), of "sample_rt 0 0"]
    by (simp add: revision_directory_def Let_def)
  from retained_revisions_kept [OF run disjI1 [OF refl] this names(2)] run show ?thesis by blast
qed

text \<open>A revision that is prepared is a new one.\<close>

lemma put_revision_other:
  "file_in E p n f \<Longrightarrow> r \<noteq> n \<Longrightarrow> map_of (h_revs (put_file E p raw h)) r = map_of (h_revs h) r"
  by (simp add: put_file_def file_in_of Let_def update_conv')

lemma make_revision_new:
  assumes "make_revision E revision h = (Inr d, v)"
  obtains n where "name_ok n" "d = revision_path E n" "map_of (h_revs h) n = None" "\<And>r. r \<noteq> n \<Longrightarrow> map_of (h_revs v) r = map_of (h_revs h) r"
proof -
  let ?p = "hex_encode (take 8 (he_sha256 E (bytes_of revision))) @ ''-''"
  from assms obtain u v1 r v2 where s1: "secure_directory E h = (Inr u, v1)" and s2: "create_directory E ?p v1 = (r, v2)"
    and rest: "(case r of Inl e \<Rightarrow> raise (fault_cause CodeStateIO ''create runtime revision'' e)
       | Inr directory \<Rightarrow> on_failure (remove_tree E directory)
           (bindW (tryW (secure_directory E)) (\<lambda>s. case s of
              Inl e \<Rightarrow> raise (fault_cause CodeStateIO ''secure runtime revision'' e) | Inr u \<Rightarrow> ret directory))) v2 = (Inr d, v)"
    unfolding make_revision_def bindW_Inr tryW_eq by blast
  from rest obtain d' where r: "r = Inr d'" by (cases r) auto
  from rest [unfolded r] obtain s where s3: "secure_directory E v2 = (s, v)" and d: "d' = d" "\<exists>w. s = Inr w"
    by (auto simp: on_failure_Inr bindW_Inr tryW_eq sum_case_eq)
  then obtain w where s3: "secure_directory E v2 = (Inr w, v)" by blast
  note s2 = s2 [unfolded r d(1)]
  have q: "h_revs v1 = h_revs h" "h_revs v = h_revs v2"
    using keeps_relD [OF quiet.questions_keep(2) s1] keeps_relD [OF quiet.questions_keep(2) s3] by (simp_all add: quiet_def)
  from s2 obtain k where k: "d = revision_path E (?p @ show_nat k)" "map_of (h_revs v1) (?p @ show_nat k) = None"
    "h_revs v2 = h_revs v1 @ [(?p @ show_nat k, [])]"
    by (auto simp: create_directory_def Let_def htick_def split: sum.splits if_splits)
  show ?thesis
  proof (rule that)
    show "name_ok (?p @ show_nat k)" using new_name_ok by simp
    show "map_of (h_revs v) r = map_of (h_revs h) r" if "r \<noteq> ?p @ show_nat k" for r
      using that k(3) q by (simp add: map_add_def split: option.split)
  qed (use k q in simp_all)
qed

lemma prepare_other:
  assumes run: "prepare E c key x h = (Inr m, v)" and mesh: "cf_mesh c = None" and i: "valid_interface (wg_interface (cf_wireguard c))"
    and r: "map_of (h_revs h) r \<noteq> None"
  shows "map_of (h_revs v) r = map_of (h_revs h) r"
proof -
  from run obtain d v1 where s1: "make_revision E (cf_revision c) h = (Inr d, v1)" and s2: "fill_revision E c key x d v1 = (Inr m, v)"
    by (auto simp: prepare_def bindW_Inr on_failure_Inr)
  obtain n where n: "name_ok n" "d = revision_path E n" "map_of (h_revs h) n = None" "\<And>r. r \<noteq> n \<Longrightarrow> map_of (h_revs v1) r = map_of (h_revs h) r"
    using make_revision_new [OF s1] by blast
  from r n(3) have rn: "r \<noteq> n" by auto
  let ?m = "candidate_of E c x d (he_json E (render_xray_config c)) (bytes_of (render_wireguard_config c key))"
  from s2 mesh obtain u v2 u' where w1: "write_file E (dm_xray_config ?m) (he_json E (render_xray_config c)) v1 = (Inr u, v2)"
    and w2: "write_file E (dm_wg_config ?m) (bytes_of (render_wireguard_config c key)) v2 = (Inr u', v)"
    by (auto simp: fill_revision_def bindW_Inr Let_def)
  note paths = laid_out_paths [OF candidate_at(1) [OF n(1) interface_name [OF i],
     of E x "he_json E (render_xray_config c)" "bytes_of (render_wireguard_config c key)"], folded n(2)]
  have "map_of (h_revs v) r = map_of (h_revs v2) r" "map_of (h_revs v2) r = map_of (h_revs v1) r"
    using write_file_Inr [OF w1] write_file_Inr [OF w2] put_revision_other [OF paths(2) rn] put_revision_other [OF paths(3) rn] by simp_all
  with n(4) [OF rn] show ?thesis by simp
qed

text \<open>The new revision finds the loopback port taken; the stopped one is started again.\<close>

lemma sample_replace_fails:
  "\<exists>e v. replace_revision (sample_rt 20 14) (Some (sample_manifest True)) sample_compiled sample_key
     \<lparr>dp_xray = ''/bin/xray'', dp_wg = ''/bin/wg'', dp_wg_quick = ''/bin/wg-quick''\<rparr> (sample_up True) = (Inl e, v) \<and>
     fault_code_of e = CodeRuntimeApplyFailed"
proof -
  let ?E = "sample_rt 20 14" and ?c = sample_compiled and ?p = "sample_manifest True"
  let ?d = "\<lparr>dp_xray = ''/bin/xray'', dp_wg = ''/bin/wg'', dp_wg_quick = ''/bin/wg-quick''\<rparr>"
  have p: "dm_stopped ?p" "dm_manager ?p = None" by (simp_all add: sample_manifest_def)
  have name: "hex_encode bs @ ''-5'' \<noteq> ''r1''" for bs
  proof -
    have "last (hex_encode bs @ ''-5'') \<noteq> last ''r1''" by simp
    then show ?thesis by metis
  qed
  obtain m v where prep: "prepare ?E ?c sample_key ''/bin/xray'' (sample_up True) = (Inr m, v)" "h_tick v = 5" "dm_manager m = None"
    using sample_prepare [OF sample_compiled_facts(2), of "sample_up True" 20 14 sample_key "''/bin/xray''"] name
    by (auto simp: sample_up_def)
  have r1: "map_of (h_revs v) ''r1'' = Some [(''xray.json'', [1]), (''wg0.conf'', [2])]"
    using prepare_other [OF prep(1) sample_compiled_facts(2,3), of "''r1''"] by (simp add: sample_up_def)
  from prep(1) have idle: "\<not> dm_wg_up m" "pi_pid (dm_xray m) = 0"
    using sample_compiled_facts(2) by (auto simp: prepare_def fill_revision_def bindW_Inr on_failure_Inr Let_def candidate_of_def)
  define v1 where "v1 = v\<lparr>h_tick := 6, h_log := h_log v @ [Ran ''/bin/xray'' [''run'', ''-test'', ''-config'', dm_xray_config m]]\<rparr>"
  have run: "run_command ?E ''/bin/xray'' [''run'', ''-test'', ''-config'', dm_xray_config m] v = (Inr (), v1)"
    using prep(2) by (simp add: run_command_def act_def htick_def of_option_def v1_def)
  have r2: "map_of (h_revs v1) ''r1'' = Some [(''xray.json'', [1]), (''wg0.conf'', [2])]" using r1 by (simp add: v1_def)
  obtain v2 where t: "manifest_trusted ?E ?p ''/bin/xray'' v1 = (Inr True, v2)" "quiet v1 v2" "h_tick v2 = 10"
    using sample_trusted [OF r2, of 20 14 True] by (auto simp: v1_def)
  have stop: "stop_previous ?E ?p ?d v1 = (Inr (), v2)"
    by (simp add: stop_previous_def bindW_def t(1) ifW_def p)
  have start: "start_manifest ?E m ?d v2 = (Inl (fault CodeRuntimeApplyFailed ''reserve Xray loopback port''), v2\<lparr>h_tick := 13\<rparr>)"
    using t(3) by (simp add: start_manifest_def check_free_def service_state_def stage_defs)
  have r3: "map_of (h_revs (v2\<lparr>h_tick := 13\<rparr>)) ''r1'' = Some [(''xray.json'', [1]), (''wg0.conf'', [2])]"
    using t(2) r2 by (simp add: quiet_def)
  obtain k v3 where restart: "start_manifest ?E ?p ?d (v2\<lparr>h_tick := 13\<rparr>) = (Inr k, v3)"
    using sample_begin [OF sample_digest [OF r3] p(2), where u = 20 and f = 14 and w = "''/bin/wg''" and q = "''/bin/wg-quick''"] by auto
  obtain v4 where save: "save_active ?E k v3 = (Inr (), v4)" using sample_save(1) [of 20 14 k v3] by auto
  let ?e = "fault_cause CodeRuntimeApplyFailed ''apply desktop runtime'' (fault CodeRuntimeApplyFailed ''reserve Xray loopback port'')"
  have "(rollback ?E m (Some ?p) ?d (fault CodeRuntimeApplyFailed ''reserve Xray loopback port'') :: manifest rt) (v2\<lparr>h_tick := 13\<rparr>) = (Inl ?e, v4)"
    using idle by (simp add: rollback_def bindW_def orfail_def tryW_def restart save)
  then have "activate ?E m (Some ?p) ?d v = (Inl ?e, v4)"
    by (simp add: activate_def orfail_def bindW_def tryW_def run stop start)
  then show ?thesis
    by (auto simp: replace_revision_def bindW_def prep(1) on_failure_def dropW_def tryW_def split: prod.split)
qed


end
