(* ===== verification/Http_Client.thy ===== *)
theory Http_Client
  imports Messages
begin

text \<open>
  The transport of the control plane client (\<open>overlay/controlplane\<close>): the client, the request
  it builds, the checks on the response every contract call shares, and the error each status
  becomes. The network is a parameter: what the controller answers to the n-th request. The
  state of a call is the list of the requests that were sent.
\<close>

section \<open>Requests and responses\<close>

text \<open>\<open>hq_follow\<close>: redirects are followed, as the client that was given follows them.\<close>

record http_request =
  hq_method :: string
  hq_scheme :: string
  hq_host :: string
  hq_path :: string
  hq_query :: "(string \<times> string) list"
  hq_headers :: "(string \<times> string list) list"
  hq_body :: "byte list option"
  hq_follow :: bool

text \<open>The body as it is read: the bytes, and the error the reading ends with, if it does.\<close>

record http_response =
  hp_status :: int
  hp_headers :: "(string \<times> string list) list"
  hp_body :: "byte list"
  hp_broken :: "error option"

type_synonym transport = "nat \<Rightarrow> http_request \<Rightarrow> error + http_response"

type_synonym 'a web = "(http_request list, 'a) step"

definition send :: "transport \<Rightarrow> http_request \<Rightarrow> http_response web" where
  "send T q sent = (T (length sent) q, sent @ [q])"

record client =
  ct_url :: url
  ct_token :: string

text \<open>
  The parser of \<open>net/url\<close> does not tell why it refuses, so the error of a refused base URL has
  no cause. What else the code relies on: how \<open>net/url\<close> prints a URL, what \<open>http.NewRequest\<close> refuses,
  \<open>mime.ParseMediaType\<close>, SHA-256, and \<open>encoding/json\<close> for each type that is read or written
  (reading refuses unknown fields and more than one value).
\<close>

record web_lib =
  wl_text :: "url \<Rightarrow> string"
  wl_refused :: "http_request \<Rightarrow> error option"
  wl_media :: "string \<Rightarrow> string option"
  wl_sha256 :: "byte list \<Rightarrow> byte list"
  wl_signed :: signed_lib
  wl_cred :: cred_lib
  wl_error_body :: "byte list \<Rightarrow> string \<times> string"
  wl_session :: "byte list \<Rightarrow> session_response option"
  wl_rotation :: "byte list \<Rightarrow> rotate_response option"
  wl_revocation :: "byte list \<Rightarrow> revoke_response option"
  wl_exchange :: "byte list \<Rightarrow> exchange_response option"
  wl_ack :: "byte list \<Rightarrow> ack_response option"
  wl_create :: "byte list \<Rightarrow> create_response option"
  wl_pending :: "byte list \<Rightarrow> pending_response option"
  wl_register :: "byte list \<Rightarrow> error + register_response"
  wl_config :: "byte list \<Rightarrow> error + config"
  wl_nonce_json :: "string \<Rightarrow> byte list"
  wl_rotate_json :: "string \<Rightarrow> string \<Rightarrow> byte list"
  wl_exchange_json :: "exchange_request \<Rightarrow> byte list"
  wl_ack_json :: "string \<Rightarrow> string \<Rightarrow> gotime \<Rightarrow> byte list"
  wl_create_json :: "create_request \<Rightarrow> byte list"
  wl_register_json :: "register_request \<Rightarrow> byte list"

section \<open>Headers\<close>

text \<open>\<open>http.Header\<close> under its canonical keys: \<open>Get\<close>, \<open>Values\<close>, and \<open>Del\<close> followed by \<open>Add\<close>.\<close>

definition header_values :: "(string \<times> string list) list \<Rightarrow> string \<Rightarrow> string list" where
  "header_values h k = (case map_of h k of None \<Rightarrow> [] | Some vs \<Rightarrow> vs)"

definition header_get :: "(string \<times> string list) list \<Rightarrow> string \<Rightarrow> string" where
  "header_get h k = (case header_values h k of [] \<Rightarrow> [] | v # vs \<Rightarrow> v)"

definition header_put :: "string \<Rightarrow> string list \<Rightarrow> (string \<times> string list) list \<Rightarrow> (string \<times> string list) list" where
  "header_put k vs h = (if vs = [] then [] else [(k, vs)]) @ filter (\<lambda>x. fst x \<noteq> k) h"

lemma map_of_without: "map_of (filter (\<lambda>x. fst x \<noteq> k) h) j = (if j = k then None else map_of h j)"
  by (induction h) auto

lemma header_put_same [simp]: "header_values (header_put k vs h) k = vs"
  by (simp add: header_values_def header_put_def map_of_without)

lemma header_put_other [simp]: "j \<noteq> k \<Longrightarrow> header_values (header_put k vs h) j = header_values h j"
  by (simp add: header_values_def header_put_def map_of_without)

text \<open>
  \<open>strings.EqualFold\<close> with an ASCII word: ASCII letters and the two other letters that fold to
  ASCII ones, the Kelvin sign U+212A and the long s U+017F.
\<close>

fun fold_case :: "string \<Rightarrow> string" where
  "fold_case [] = []"
| "fold_case (c # cs) =
     (if is_upper c then char_of (code c + 32) # fold_case cs
      else if code c = 0xE2 \<and> map code (take 2 cs) = [0x84, 0xAA] then CHR ''k'' # fold_case (drop 2 cs)
      else if code c = 0xC5 \<and> map code (take 1 cs) = [0xBF] then CHR ''s'' # fold_case (drop 1 cs)
      else c # fold_case cs)"

definition header_contains_token :: "string list \<Rightarrow> string \<Rightarrow> bool" where
  "header_contains_token vs expected \<longleftrightarrow>
     list_ex (\<lambda>v. list_ex (\<lambda>t. fold_case (trim_space t) = fold_case expected) (split_on CHR '','' v)) vs"

section \<open>The client\<close>

definition new_client :: "url_parser \<Rightarrow> string \<Rightarrow> string \<Rightarrow> error + client" where
  "new_client U base token =
     (case U (trim_space base) of
        None \<Rightarrow> Inl (fault CodeInvalidInput ''create control plane client'')
      | Some p \<Rightarrow>
          if u_host p = [] \<or> u_has_user p \<or> u_raw_query p \<noteq> [] \<or> u_fragment p \<noteq> [] \<or>
             (u_scheme p \<noteq> ''http'' \<and> u_scheme p \<noteq> ''https'')
          then Inl (fault CodeInvalidInput ''create control plane client'')
          else Inr \<lparr>ct_url = p\<lparr>u_path := trim_right_slash (u_path p)\<rparr>, ct_token = trim_space token\<rparr>)"

definition api_prefix :: string where
  "api_prefix = ''/api/overlay/v1''"

definition request_to :: "client \<Rightarrow> string \<Rightarrow> string \<Rightarrow> (string \<times> string) list \<Rightarrow> http_request" where
  "request_to c verb path query =
     \<lparr>hq_method = verb, hq_scheme = u_scheme (ct_url c), hq_host = u_host (ct_url c),
      hq_path = trim_right_slash (u_path (ct_url c)) @ path, hq_query = query, hq_headers = [], hq_body = None,
      hq_follow = True\<rparr>"

section \<open>What a status becomes\<close>

datatype error_mode = Default | SignedCapability | InviteExchange | Enrollment | Registration | RegistrationCreate

definition status_error :: "int \<Rightarrow> error" where
  "status_error s =
     fault (if s = 401 then CodeAuthenticationFailed
            else if s = 403 then CodeAccessDenied
            else if s = 409 then CodeStateConflict
            else if s = 429 \<or> s = 502 \<or> s = 503 \<or> s = 504 then CodeControlPlaneUnavailable
            else CodeControlPlaneRejected) (''control plane HTTP '' @ show_int s)"

definition registration_error :: "web_lib \<Rightarrow> int \<Rightarrow> byte list \<Rightarrow> bool \<Rightarrow> error" where
  "registration_error L s raw creating =
     (if s = 401 then fault CodeRegistrationTokenInvalid ''exchange registration''
      else if s = 409 then
        (case wl_error_body L raw of (c, e) \<Rightarrow>
           if c = code_text CodeRegistrationConsumed \<or> e = code_text CodeRegistrationConsumed
           then fault CodeRegistrationConsumed ''exchange registration''
           else fault CodeRegistrationRejected ''exchange registration'')
      else if s = 410 then fault CodeRegistrationExpired ''exchange registration''
      else if s = 429 then
        (if creating then fault CodeRegistrationRateLimited ''create registration''
         else fault CodeControlPlaneUnavailable ''exchange registration'')
      else status_error s)"

definition contract_error :: "web_lib \<Rightarrow> error_mode \<Rightarrow> http_response \<Rightarrow> error" where
  "contract_error L mode p =
     (let s = hp_status p in
      if mode = Registration \<or> mode = RegistrationCreate
      then registration_error L s (take 65536 (hp_body p)) (mode = RegistrationCreate)
      else if mode = SignedCapability \<and> (s = 404 \<or> s = 503)
      then fault CodeSignedConfigUnavailable ''signed config capability unavailable''
      else if mode = InviteExchange \<and> s = 401 then fault CodeJoinInviteInvalid ''exchange join invite''
      else if mode = InviteExchange \<and> s = 403 then fault CodeJoinConstraint ''exchange join invite''
      else if mode = InviteExchange \<and> s = 409 then fault CodeStateConflict ''exchange join invite''
      else if mode = InviteExchange \<and> s = 429 then fault CodeJoinRateLimited ''exchange join invite''
      else if mode = Enrollment \<and> s = 401 then fault CodeEnrollmentExpired ''use enrollment session''
      else status_error s)"

section \<open>A contract call\<close>

text \<open>\<open>io.ReadAll\<close> of at most \<open>n\<close> bytes: what breaks after them is not seen.\<close>

definition read_all :: "nat \<Rightarrow> http_response \<Rightarrow> error + byte list" where
  "read_all n p =
     (if n \<le> length (hp_body p) then Inr (take n (hp_body p))
      else case hp_broken p of None \<Rightarrow> Inr (hp_body p) | Some e \<Rightarrow> Inl e)"

definition maximum_body :: nat where
  "maximum_body = 2097152"

definition json_media :: "web_lib \<Rightarrow> http_response \<Rightarrow> bool" where
  "json_media L p =
     (case wl_media L (header_get (hp_headers p) ''Content-Type'') of
        None \<Rightarrow> False | Some m \<Rightarrow> m = ''application/json'' \<or> has_suffix (to_lower m) ''+json'')"

definition basic_headers :: "byte list option \<Rightarrow> string \<Rightarrow> (string \<times> string list) list" where
  "basic_headers payload authorization =
     (if authorization \<noteq> [] then header_put ''Authorization'' [authorization] else id)
       ((if payload \<noteq> None then header_put ''Content-Type'' [''application/json''] else id)
         (header_put ''Accept'' [''application/json''] []))"

definition contract_request :: "client \<Rightarrow> string \<Rightarrow> string \<Rightarrow> (string \<times> string) list \<Rightarrow> byte list option \<Rightarrow> (string \<times> string list) list \<Rightarrow> string \<Rightarrow> http_request" where
  "contract_request c verb path query payload headers authorization =
     (request_to c verb path query)\<lparr>hq_body := payload,
       hq_headers := fold (\<lambda>(k, vs). header_put k vs) headers (basic_headers payload (trim_space authorization))\<rparr>"

definition contract_answer :: "web_lib \<Rightarrow> string \<Rightarrow> error_mode \<Rightarrow> http_response \<Rightarrow> error + int \<times> (string \<times> string list) list \<times> byte list" where
  "contract_answer L verb mode p =
     (if hp_status p = 304 \<and> verb = ''GET'' then Inr (304, hp_headers p, [])
      else if hp_status p < 200 \<or> hp_status p \<ge> 300 then Inl (contract_error L mode p)
      else if \<not> json_media L p then Inl (fault CodeInvalidResponse ''validate control plane content type'')
      else case read_all (maximum_body + 1) p of
          Inl e \<Rightarrow> Inl (fault_cause CodeInvalidResponse ''read control plane response'' e)
        | Inr raw \<Rightarrow>
            if length raw > maximum_body then Inl (fault CodeInvalidResponse ''reject oversized control plane response'')
            else Inr (hp_status p, hp_headers p, raw))"

definition do_contract_with_authorization ::
  "web_lib \<Rightarrow> transport \<Rightarrow> client \<Rightarrow> string \<Rightarrow> string \<Rightarrow> (string \<times> string) list \<Rightarrow> byte list option \<Rightarrow>
   (string \<times> string list) list \<Rightarrow> string \<Rightarrow> error_mode \<Rightarrow> (int \<times> (string \<times> string list) list \<times> byte list) web" where
  "do_contract_with_authorization L T c verb path query payload headers authorization mode =
     (let q = contract_request c verb path query payload headers authorization in
      case wl_refused L q of
        Some e \<Rightarrow> raise (fault_cause CodeInvalidInput ''create control plane request'' e)
      | None \<Rightarrow>
          bindW (tryW (send T q)) (\<lambda>r. case r of
            Inl e \<Rightarrow> raise (fault_cause CodeControlPlaneUnavailable ''request control plane'' e)
          | Inr p \<Rightarrow> of_result (contract_answer L verb mode p)))"

definition do_contract_with_bearer ::
  "web_lib \<Rightarrow> transport \<Rightarrow> client \<Rightarrow> string \<Rightarrow> string \<Rightarrow> (string \<times> string) list \<Rightarrow> byte list option \<Rightarrow>
   (string \<times> string list) list \<Rightarrow> string \<Rightarrow> error_mode \<Rightarrow> (int \<times> (string \<times> string list) list \<times> byte list) web" where
  "do_contract_with_bearer L T c verb path query payload headers bearer mode =
     do_contract_with_authorization L T c verb path query payload headers
       (if trim_space bearer \<noteq> [] then ''Bearer '' @ trim_space bearer else []) mode"

definition do_contract ::
  "web_lib \<Rightarrow> transport \<Rightarrow> client \<Rightarrow> string \<Rightarrow> string \<Rightarrow> (string \<times> string) list \<Rightarrow> byte list option \<Rightarrow>
   (string \<times> string list) list \<Rightarrow> bool \<Rightarrow> (int \<times> (string \<times> string list) list \<times> byte list) web" where
  "do_contract L T c verb path query payload headers signed_capability =
     do_contract_with_bearer L T c verb path query payload headers (ct_token c)
       (if signed_capability then SignedCapability else Default)"

section \<open>The calls of the legacy contract\<close>

definition do_json :: "web_lib \<Rightarrow> transport \<Rightarrow> client \<Rightarrow> string \<Rightarrow> string \<Rightarrow> (string \<times> string) list \<Rightarrow> byte list option \<Rightarrow>
    (byte list \<Rightarrow> error + 'a) \<Rightarrow> ('a \<times> (string \<times> string list) list) web" where
  "do_json L T c verb path query payload decode =
     (let q = (request_to c verb path query)\<lparr>hq_body := payload,
            hq_headers := basic_headers payload (if ct_token c \<noteq> [] then ''Bearer '' @ ct_token c else [])\<rparr> in
      case wl_refused L q of
        Some e \<Rightarrow> raise (fault_cause CodeInvalidInput ''create control plane request'' e)
      | None \<Rightarrow>
          bindW (tryW (send T q)) (\<lambda>r. case r of
            Inl e \<Rightarrow> raise (fault_cause CodeControlPlaneUnavailable ''request control plane'' e)
          | Inr p \<Rightarrow>
              ifW (hp_status p < 200 \<or> hp_status p \<ge> 300) (status_error (hp_status p))
              (case read_all maximum_body p of
                 Inl e \<Rightarrow> raise (fault_cause CodeInvalidResponse ''decode control plane response'' e)
               | Inr raw \<Rightarrow>
                   (case decode raw of
                      Inl e \<Rightarrow> raise (fault_cause CodeInvalidResponse ''decode control plane response'' e)
                    | Inr a \<Rightarrow> ret (a, hp_headers p)))))"

definition register_device_call :: "web_lib \<Rightarrow> transport \<Rightarrow> client \<Rightarrow> register_request \<Rightarrow> register_response web" where
  "register_device_call L T c request =
     bindW (do_json L T c ''POST'' (api_prefix @ ''/devices/register'') [] (Some (wl_register_json L request)) (wl_register L))
       (\<lambda>(response, headers). ret response)"

definition device_query :: "config_request \<Rightarrow> (string \<times> string) list" where
  "device_query r =
     (''device_id'', cq_device r) #
     (if cq_network r \<noteq> [] then [(''network_id'', cq_network r)] else []) @
     (if cq_node r \<noteq> [] then [(''node_id'', cq_node r)] else [])"

definition get_config :: "web_lib \<Rightarrow> transport \<Rightarrow> client \<Rightarrow> config_request \<Rightarrow> config web" where
  "get_config L T c request =
     bindW (do_json L T c ''GET'' (api_prefix @ ''/config'') (device_query request) None (wl_config L))
       (\<lambda>(config, headers). ret (config\<lparr>cf_etag := header_get headers ''ETag''\<rparr>))"

end
