(* ===== verification/Device_Client.thy ===== *)
theory Device_Client
  imports Http_Client
begin

text \<open>
  \<open>overlay/controlplane/device.go\<close>: the calls a device makes with its credential. A session is
  minted, the credential is rotated, the device is revoked. What is asked for is checked before
  a request is sent, what is answered before it is returned.
\<close>

section \<open>Checks\<close>

definition valid_opaque_secret :: "string \<Rightarrow> string \<Rightarrow> bool" where
  "valid_opaque_secret v p \<longleftrightarrow> v = trim_space v \<and> has_prefix v p \<and>
     (case rawurl_decode (trim_prefix v p) of None \<Rightarrow> False | Some b \<Rightarrow> length b = 32)"

definition maximum_session_lifetime :: int where
  "maximum_session_lifetime = 15 * minute"

definition clock_skew :: int where
  "clock_skew = 30 * second"

definition signing_key_usable :: "gotime \<Rightarrow> signing_key \<Rightarrow> bool" where
  "signing_key_usable now k \<longleftrightarrow> \<not> after (sk_not_before k) (add_dur (to_utc now) clock_skew) \<and>
     (case sk_not_after k of None \<Rightarrow> True | Some t \<Rightarrow> after t (to_utc now))"

definition current_signing_key_usable :: "gotime \<Rightarrow> signing_keys \<Rightarrow> bool" where
  "current_signing_key_usable now ks =
     (case find (\<lambda>k. sk_status k = ''current'') (ks_keys ks) of None \<Rightarrow> False | Some k \<Rightarrow> signing_key_usable now k)"

text \<open>Some key is in both rings, with the same identity and bytes, and usable in both.\<close>

definition signing_key_rings_overlap :: "signing_keys \<Rightarrow> signing_keys \<Rightarrow> gotime \<Rightarrow> bool" where
  "signing_key_rings_overlap trusted candidate now \<longleftrightarrow>
     list_ex (\<lambda>a. list_ex (\<lambda>b. sk_id a = sk_id b \<and> sk_public_key a = sk_public_key b \<and>
       signing_key_usable now a \<and> signing_key_usable now b) (ks_keys candidate)) (ks_keys trusted)"

definition valid_device_session_scope :: "string list \<Rightarrow> bool" where
  "valid_device_session_scope vs \<longleftrightarrow>
     vs = [''overlay:config:read'', ''overlay:config:ack''] \<or> vs = [''overlay:config:ack'', ''overlay:config:read'']"

definition canonical_window :: "int \<Rightarrow> gotime \<Rightarrow> gotime \<Rightarrow> gotime \<Rightarrow> bool" where
  "canonical_window longest issued expires now \<longleftrightarrow>
     utc issued \<and> nanosecond issued = 0 \<and> utc expires \<and> nanosecond expires = 0 \<and>
     \<not> after issued (add_dur now clock_skew) \<and> after expires now \<and> after expires issued \<and>
     sub_time expires issued \<le> longest"

definition canonical_session_window :: "gotime \<Rightarrow> gotime \<Rightarrow> gotime \<Rightarrow> bool" where
  "canonical_session_window = canonical_window maximum_session_lifetime"

definition canonical_credential_window :: "gotime \<Rightarrow> gotime \<Rightarrow> gotime \<Rightarrow> bool" where
  "canonical_credential_window = canonical_window (31 * day)"

definition valid_device_credential_scope :: "string list \<Rightarrow> bool" where
  "valid_device_credential_scope vs \<longleftrightarrow> length vs = 3 \<and>
     scan_unique (\<lambda>v. v) (\<lambda>v. v \<in> credential_scopes) {} vs \<and> credential_scopes \<subseteq> set vs"

definition digest_text :: "string \<Rightarrow> bool" where
  "digest_text s \<longleftrightarrow> match_all is_lower_hex 64 64 s"

definition validate_device_request :: "web_lib \<Rightarrow> client \<Rightarrow> cred_record \<Rightarrow> gotime \<Rightarrow> error option" where
  "validate_device_request L c rec now =
     (if u_scheme (ct_url c) \<noteq> ''https'' \<or>
         trim_right_slash (wl_text L (ct_url c)) \<noteq> trim_right_slash (cr_controller rec) \<or> cred_expired rec (to_utc now)
      then Some (fault CodeCredentialExpired ''validate device authorization'')
      else record_validate (wl_cred L) rec)"

definition map_device_authorization_error :: "error \<Rightarrow> error" where
  "map_device_authorization_error e =
     (if fault_code_of e = CodeAuthenticationFailed \<or> fault_code_of e = CodeAccessDenied
      then fault CodeCredentialInvalid ''authorize device request'' else e)"

definition valid_device_revoke_response :: "revoke_response \<Rightarrow> cred_record \<Rightarrow> bool" where
  "valid_device_revoke_response p rec \<longleftrightarrow>
     rv_revoked p \<and> ld_id (rv_device p) = cr_device rec \<and> ld_network (rv_device p) = cr_network rec \<and>
     ld_status (rv_device p) = ''revoked'' \<and> ld_state_version (rv_device p) \<noteq> 0 \<and> ld_key_version (rv_device p) \<noteq> 0 \<and>
     (case ld_revoked_at (rv_device p) of None \<Rightarrow> False | Some t \<Rightarrow> \<not> is_zero t) \<and> ld_revoked_reason (rv_device p) \<noteq> [] \<and>
     (if rv_policy_pending p then rv_policy_generation p = 0 \<and> rv_policy_digest p = []
      else rv_policy_generation p > 0 \<and> digest_text (rv_policy_digest p))"

text \<open>The time a call goes by: the one it was given, or the clock.\<close>

definition call_time :: "gotime \<Rightarrow> gotime \<Rightarrow> gotime" where
  "call_time given moment = (if is_zero given then to_utc moment else given)"

section \<open>The calls\<close>

definition idempotency_headers :: "web_lib \<Rightarrow> byte list \<Rightarrow> (string \<times> string list) list" where
  "idempotency_headers L payload = [(''Idempotency-Key'', [''sha256-'' @ hex_encode (wl_sha256 L payload)])]"

text \<open>A call with the device credential whose answer no cache may keep.\<close>

definition device_call :: "web_lib \<Rightarrow> transport \<Rightarrow> client \<Rightarrow> cred_record \<Rightarrow> string \<Rightarrow> byte list \<Rightarrow>
    (string \<times> string list) list \<Rightarrow> string \<Rightarrow> byte list web" where
  "device_call L T c rec path payload headers policy =
     bindW (tryW (do_contract_with_authorization L T c ''POST'' (api_prefix @ path) [] (Some payload) headers
         (''Device '' @ cr_credential rec) Default)) (\<lambda>r. case r of
       Inl e \<Rightarrow> raise (map_device_authorization_error e)
     | Inr (status, answered, raw) \<Rightarrow>
         ifW (\<not> header_contains_token (header_values answered ''Cache-Control'') ''no-store'')
           (fault CodeInvalidResponse policy) (ret raw))"

definition session_ok :: "cred_record \<Rightarrow> string \<Rightarrow> gotime \<Rightarrow> session_response \<Rightarrow> bool" where
  "session_ok rec nonce now p \<longleftrightarrow>
     sr_nonce p = nonce \<and> valid_opaque_secret (sr_token p) ''xenr_'' \<and> sr_token_type p = ''Bearer'' \<and>
     valid_device_session_scope (sr_scope p) \<and> sr_device p = cr_device rec \<and> sr_network p = cr_network rec \<and>
     canonical_session_window (sr_issued p) (sr_expires p) now \<and>
     keys_validate \<lparr>ks_keys = sr_keys p, ks_etag = []\<rparr> = None \<and>
     current_signing_key_usable now \<lparr>ks_keys = sr_keys p, ks_etag = []\<rparr> \<and>
     signing_key_rings_overlap (cr_keys rec) \<lparr>ks_keys = sr_keys p, ks_etag = []\<rparr> now"

definition mint_device_session :: "web_lib \<Rightarrow> transport \<Rightarrow> client \<Rightarrow> cred_record \<Rightarrow> string \<Rightarrow> gotime \<Rightarrow> gotime \<Rightarrow> session_response web" where
  "mint_device_session L T c rec nonce given moment =
     (let now = to_utc (call_time given moment) in
      ifW (validate_device_request L c rec now \<noteq> None \<or> \<not> valid_nonce nonce) (fault CodeInvalidInput ''mint device session'')
      (bindW (device_call L T c rec ''/device/session'' (wl_nonce_json L nonce) [] ''validate device session cache policy'') (\<lambda>raw.
         case wl_session L raw of
           None \<Rightarrow> raise (fault CodeDeviceSessionInvalid ''validate device session'')
         | Some p \<Rightarrow> ifW (\<not> session_ok rec nonce now p) (fault CodeDeviceSessionInvalid ''validate device session'') (ret p))))"

definition rotation_ok :: "cred_record \<Rightarrow> string \<Rightarrow> gotime \<Rightarrow> rotate_response \<Rightarrow> bool" where
  "rotation_ok rec new_id now p \<longleftrightarrow>
     ro_id p = new_id \<and> ro_replaces p = cr_id rec \<and> ro_token_type p = ''Device'' \<and>
     valid_device_credential_scope (ro_scope p) \<and> canonical_credential_window (ro_issued p) (ro_expires p) (to_utc now)"

definition rotate_device_credential :: "web_lib \<Rightarrow> transport \<Rightarrow> client \<Rightarrow> cred_record \<Rightarrow> string \<Rightarrow> string \<Rightarrow> gotime \<Rightarrow> gotime \<Rightarrow> rotate_response web" where
  "rotate_device_credential L T c rec new_id new_sha256 given moment =
     (let now = call_time given moment; payload = wl_rotate_json L new_id new_sha256 in
      ifW (validate_device_request L c rec now \<noteq> None \<or> \<not> credential_id_ok new_id \<or> \<not> digest_text new_sha256 \<or> new_id = cr_id rec)
        (fault CodeInvalidInput ''rotate device credential'')
      (bindW (device_call L T c rec ''/device/credential/rotate'' payload (idempotency_headers L payload)
          ''validate credential rotation cache policy'') (\<lambda>raw.
         case wl_rotation L raw of
           None \<Rightarrow> raise (fault CodeInvalidResponse ''validate credential rotation'')
         | Some p \<Rightarrow> ifW (\<not> rotation_ok rec new_id now p) (fault CodeInvalidResponse ''validate credential rotation'') (ret p))))"

definition revoke_device :: "web_lib \<Rightarrow> transport \<Rightarrow> client \<Rightarrow> cred_record \<Rightarrow> string \<Rightarrow> gotime \<Rightarrow> gotime \<Rightarrow> revoke_response web" where
  "revoke_device L T c rec nonce given moment =
     (let now = call_time given moment; payload = wl_nonce_json L nonce in
      ifW (validate_device_request L c rec now \<noteq> None \<or> \<not> valid_nonce nonce) (fault CodeInvalidInput ''revoke bound device'')
      (bindW (device_call L T c rec ''/device/revoke'' payload (idempotency_headers L payload)
          ''validate device revoke cache policy'') (\<lambda>raw.
         case wl_revocation L raw of
           None \<Rightarrow> raise (fault CodeInvalidResponse ''validate device revoke receipt'')
         | Some p \<Rightarrow> ifW (\<not> valid_device_revoke_response p rec) (fault CodeInvalidResponse ''validate device revoke receipt'') (ret p))))"

end
