(* ===== verification/Enroll_Client.thy ===== *)
theory Enroll_Client
  imports Device_Client
begin

text \<open>
  \<open>overlay/controlplane/enrollment.go\<close>, \<open>signed.go\<close> and \<open>registration.go\<close>: the exchange of a
  join token, the signed configurations of both versions, the policy artifact, the
  acknowledgements, the signing keys, and the registration with its polling.
\<close>

section \<open>Checks\<close>

definition maximum_enrollment_lifetime :: int where
  "maximum_enrollment_lifetime = hour + minute"

definition enrollment_device_id :: "string \<Rightarrow> bool" where
  "enrollment_device_id s \<longleftrightarrow>
     match_head_rest (\<lambda>c. is_lower c \<or> is_digit c) (\<lambda>c. is_lower c \<or> is_digit c \<or> c \<in> {CHR ''.'', CHR ''_'', CHR ''-''}) 0 127 s"

definition valid_wireguard_public_key :: "string \<Rightarrow> bool" where
  "valid_wireguard_public_key v \<longleftrightarrow> v = trim_space v \<and>
     (case std_decode v of None \<Rightarrow> False | Some k \<Rightarrow> length k = 32 \<and> std_encode k = v)"

definition enrollment_scopes :: "string set" where
  "enrollment_scopes = {''overlay:config:read'', ''overlay:config:ack'', ''overlay:device:revoke''}"

definition valid_enrollment_scope_3 :: "string list \<Rightarrow> bool" where
  "valid_enrollment_scope_3 vs \<longleftrightarrow> length vs = 3 \<and>
     scan_unique (\<lambda>v. v) (\<lambda>v. v \<in> enrollment_scopes) {} vs \<and> enrollment_scopes \<subseteq> set vs"

definition valid_ipv4_prefix :: "string \<Rightarrow> bool" where
  "valid_ipv4_prefix v \<longleftrightarrow> (case parse_prefix v of None \<Rightarrow> False | Some p \<Rightarrow> is4 (pfx_addr p))"

definition valid_ipv4_host_prefix :: "string \<Rightarrow> bool" where
  "valid_ipv4_host_prefix v \<longleftrightarrow> (case parse_prefix v of None \<Rightarrow> False | Some p \<Rightarrow> is4 (pfx_addr p) \<and> pfx_bits p = 32)"

definition valid_enrollment_platform :: "string \<Rightarrow> bool" where
  "valid_enrollment_platform p \<longleftrightarrow> p \<in> {''darwin'', ''windows'', ''linux'', ''ios'', ''android''}"

text \<open>What both ways to a session check of the answer: token, scope, lifetime, credential, networks.\<close>

definition exchange_body_ok :: "exchange_response \<Rightarrow> gotime \<Rightarrow> bool" where
  "exchange_body_ok p now \<longleftrightarrow>
     valid_opaque_secret (xr_token p) ''xenr_'' \<and> xr_token_type p = ''Bearer'' \<and> valid_enrollment_scope_3 (xr_scope p) \<and>
     utc (xr_expires p) \<and> after (xr_expires p) now \<and> sub_time (xr_expires p) now \<le> maximum_enrollment_lifetime \<and>
     (case parse_credential (dc_credential (xr_credential p)) of Inl e \<Rightarrow> False | Inr s \<Rightarrow> se_id s = dc_id (xr_credential p)) \<and>
     dc_token_type (xr_credential p) = ''Device'' \<and> valid_device_credential_scope (dc_scope (xr_credential p)) \<and>
     canonical_credential_window (dc_issued (xr_credential p)) (dc_expires (xr_credential p)) now \<and>
     nw_id (xr_network p) = dv_network (xr_device p) \<and>
     valid_ipv4_host_prefix (dv_address (xr_device p)) \<and> valid_ipv4_prefix (nw_cidr (xr_network p))"

section \<open>The join token\<close>

definition exchange_request_ok :: "client \<Rightarrow> exchange_request \<Rightarrow> bool" where
  "exchange_request_ok c q \<longleftrightarrow>
     u_scheme (ct_url c) = ''https'' \<and> valid_opaque_secret (xq_token q) ''xjt_'' \<and> enrollment_device_id (xq_device q) \<and>
     valid_enrollment_platform (xq_platform q) \<and> valid_wireguard_public_key (xq_public_key q) \<and>
     length (xq_name q) \<le> 255 \<and> length (xq_hostname q) \<le> 255"

definition exchange_answer_ok :: "exchange_request \<Rightarrow> gotime \<Rightarrow> exchange_response \<Rightarrow> bool" where
  "exchange_answer_ok q now p \<longleftrightarrow> exchange_body_ok p now \<and>
     dv_id (xr_device p) = xq_device q \<and> dv_platform (xr_device p) = xq_platform q \<and>
     dv_public_key (xr_device p) = xq_public_key q \<and> dv_network (xr_device p) \<noteq> []"

definition exchange_join_token :: "web_lib \<Rightarrow> transport \<Rightarrow> client \<Rightarrow> exchange_request \<Rightarrow> gotime \<Rightarrow> exchange_response web" where
  "exchange_join_token L T c q moment =
     ifW (\<not> exchange_request_ok c q) (fault CodeInvalidInput ''exchange join invite'')
     (let now = to_utc (call_time (xq_now q) moment) in
      bindW (do_contract_with_bearer L T c ''POST'' (api_prefix @ ''/join-tokens/exchange'') [] (Some (wl_exchange_json L q)) [] [] InviteExchange)
        (\<lambda>(status, headers, raw).
          ifW (header_get headers ''Cache-Control'' \<noteq> ''no-store'') (fault CodeInvalidResponse ''validate join exchange cache policy'')
          (case wl_exchange L raw of
             None \<Rightarrow> raise (fault CodeInvalidResponse ''decode join exchange'')
           | Some p \<Rightarrow>
               ifW (\<not> exchange_answer_ok q now p) (fault CodeInvalidResponse ''validate join exchange'')
               (case keys_validate \<lparr>ks_keys = xr_keys p, ks_etag = []\<rparr> of
                  Some e \<Rightarrow> raise e | None \<Rightarrow> ret p))))"

section \<open>Signed configurations\<close>

definition v2_media_type :: string where
  "v2_media_type = ''application/vnd.xconnect.signed-config.v2+json''"

text \<open>
  The part both routes share, with the words of their errors. Version 2 is asked for by its
  media type and must be answered by it.
\<close>

definition negotiated_config ::
  "web_lib \<Rightarrow> transport \<Rightarrow> client \<Rightarrow> string \<Rightarrow> config_request \<Rightarrow> string \<Rightarrow> error_mode \<Rightarrow> bool \<Rightarrow> string \<Rightarrow> signed_config web" where
  "negotiated_config L T c path q bearer mode v2 what =
     bindW (do_contract_with_bearer L T c ''GET'' (api_prefix @ path) (device_query q) None
         (if v2 then [(''Accept'', [v2_media_type])] else []) bearer mode)
       (\<lambda>(status, headers, raw).
         ifW (header_get headers ''Cache-Control'' \<noteq> ''private, no-store'' \<or> trim_space (header_get headers ''ETag'') = [] \<or>
              (v2 \<and> \<not> header_contains_token (header_values headers ''Vary'') ''Accept''))
           (fault CodeInvalidResponse (''validate '' @ what @ '' cache headers''))
         (ifW (v2 \<and> wl_media L (header_get headers ''Content-Type'') \<noteq> Some v2_media_type)
           (fault CodeInvalidResponse (''validate '' @ what @ '' v2 media type''))
         (bindW (of_result (decode_config (wl_signed L) raw)) (\<lambda>s.
          ifW (v2 \<noteq> (sc_schema s = 2)) (fault CodeInvalidSignedConfig (''validate '' @ what @ '' negotiated version''))
            (ret (s\<lparr>sc_etag := header_get headers ''ETag''\<rparr>))))))"

definition get_enrollment_signed_config :: "web_lib \<Rightarrow> transport \<Rightarrow> client \<Rightarrow> string \<Rightarrow> config_request \<Rightarrow> bool \<Rightarrow> signed_config web" where
  "get_enrollment_signed_config L T c token q v2 =
     ifW (\<not> valid_opaque_secret token ''xenr_'') (fault CodeEnrollmentUnavailable ''load enrollment session'')
       (negotiated_config L T c ''/enrollment/signed-config'' q token Enrollment v2 ''enrollment signed-config'')"

definition get_signed_config :: "web_lib \<Rightarrow> transport \<Rightarrow> client \<Rightarrow> config_request \<Rightarrow> bool \<Rightarrow> signed_config web" where
  "get_signed_config L T c q v2 =
     negotiated_config L T c ''/signed-config'' q (ct_token c) SignedCapability v2 ''signed-config''"

definition get_signing_keys :: "web_lib \<Rightarrow> transport \<Rightarrow> client \<Rightarrow> string \<Rightarrow> keys_response web" where
  "get_signing_keys L T c etag =
     bindW (do_contract L T c ''GET'' (api_prefix @ ''/signing-keys'') [] None
         (if trim_space etag \<noteq> [] then [(''If-None-Match'', [trim_space etag])] else []) True)
       (\<lambda>(status, headers, raw).
         if status = 304 then ret \<lparr>kr_keys = \<lparr>ks_keys = [], ks_etag = []\<rparr>, kr_etag = trim_space etag, kr_not_modified = True\<rparr>
         else
           (let answered = trim_space (header_get headers ''ETag'') in
            ifW (answered = [] \<or> header_get headers ''Cache-Control'' \<noteq> ''private, max-age=300'' \<or>
                 \<not> header_contains_token (header_values headers ''Vary'') ''Authorization'')
              (fault CodeInvalidResponse ''validate signing-key cache headers'')
            (bindW (of_result (decode_signing_keys (wl_signed L) raw)) (\<lambda>ks.
               ret \<lparr>kr_keys = ks\<lparr>ks_etag := answered\<rparr>, kr_etag = answered, kr_not_modified = False\<rparr>))))"

section \<open>The policy artifact\<close>

text \<open>
  The path is built from the signed reference, and a redirect is an error: the bearer goes
  nowhere else.
\<close>

definition policy_media_type :: string where
  "policy_media_type = ''application/vnd.xconnect.policy.v1+json''"

definition policy_request :: "client \<Rightarrow> string \<Rightarrow> policy_ref \<Rightarrow> http_request" where
  "policy_request c token p =
     (request_to c ''GET'' (policy_path (pr_generation p) (pr_digest p)) [])\<lparr>
       hq_headers := [(''Accept'', [policy_media_type]), (''Authorization'', [''Bearer '' @ token])], hq_follow := False\<rparr>"

definition maximum_policy_body :: nat where
  "maximum_policy_body = 4194304"

definition policy_answer :: "web_lib \<Rightarrow> http_response \<Rightarrow> error + byte list" where
  "policy_answer L p =
     (if hp_status p < 200 \<or> hp_status p \<ge> 300 then Inl (status_error (hp_status p))
      else if wl_media L (header_get (hp_headers p) ''Content-Type'') \<noteq> Some policy_media_type \<or>
              header_get (hp_headers p) ''Cache-Control'' \<noteq> ''private, no-store''
      then Inl (fault CodeInvalidResponse ''validate enrollment policy response'')
      else case read_all (maximum_policy_body + 1) p of
          Inl e \<Rightarrow> Inl (fault_cause CodeInvalidResponse ''read enrollment policy'' e)
        | Inr raw \<Rightarrow>
            if raw = [] \<or> length raw > maximum_policy_body
            then Inl (fault CodeInvalidResponse ''read enrollment policy'') else Inr raw)"

definition get_enrollment_policy_artifact :: "web_lib \<Rightarrow> transport \<Rightarrow> client \<Rightarrow> string \<Rightarrow> policy_ref \<Rightarrow> byte list web" where
  "get_enrollment_policy_artifact L T c token p =
     ifW (\<not> valid_opaque_secret token ''xenr_'' \<or> policy_ref_validate p \<noteq> None)
       (fault CodeEnrollmentUnavailable ''load enrollment policy'')
     (ifW (u_scheme (ct_url c) \<noteq> ''https'') (fault CodeInvalidInput ''create enrollment policy request'')
     (case wl_refused L (policy_request c token p) of
        Some e \<Rightarrow> raise (fault_cause CodeInvalidInput ''create enrollment policy request'' e)
      | None \<Rightarrow>
          bindW (tryW (send T (policy_request c token p))) (\<lambda>r. case r of
            Inl e \<Rightarrow> raise (fault_cause CodeControlPlaneUnavailable ''request enrollment policy'' e)
          | Inr a \<Rightarrow> of_result (policy_answer L a))))"

section \<open>Acknowledgements\<close>

record ack_request =
  aq_generation :: u64
  aq_config_id :: string
  aq_device :: string
  aq_applied :: gotime

definition ack_path :: "string \<Rightarrow> u64 \<Rightarrow> string" where
  "ack_path base generation = api_prefix @ base @ show_nat (unat generation) @ ''/ack''"

definition ack_named :: "ack_response \<Rightarrow> bool" where
  "ack_named p \<longleftrightarrow> ar_acked p \<and> ak_generation (ar_ack p) \<noteq> 0 \<and> trim_space (ak_config_id (ar_ack p)) \<noteq> [] \<and>
     trim_space (ak_device (ar_ack p)) \<noteq> []"

definition ack_enrollment_signed_config :: "web_lib \<Rightarrow> transport \<Rightarrow> client \<Rightarrow> string \<Rightarrow> ack_request \<Rightarrow> ack_response web" where
  "ack_enrollment_signed_config L T c token q =
     ifW (\<not> valid_opaque_secret token ''xenr_'' \<or> aq_generation q = 0 \<or> trim_space (aq_config_id q) = [] \<or>
          trim_space (aq_device q) = [] \<or> is_zero (aq_applied q))
       (fault CodeInvalidInput ''ack enrollment signed config'')
     (bindW (do_contract_with_bearer L T c ''POST'' (ack_path ''/enrollment/signed-config/'' (aq_generation q)) []
         (Some (wl_ack_json L (aq_config_id q) (aq_device q) (trunc_second (to_utc (aq_applied q))))) [] token Enrollment)
       (\<lambda>(status, headers, raw). case wl_ack L raw of
          None \<Rightarrow> raise (fault CodeInvalidResponse ''decode enrollment signed-config acknowledgement'')
        | Some p \<Rightarrow>
            ifW (\<not> ack_named p \<or> is_zero (ak_applied (ar_ack p)) \<or> is_zero (ak_received (ar_ack p)))
              (fault CodeInvalidResponse ''decode enrollment signed-config acknowledgement'') (ret p)))"

definition ack_signed_config :: "web_lib \<Rightarrow> transport \<Rightarrow> client \<Rightarrow> ack_request \<Rightarrow> ack_response web" where
  "ack_signed_config L T c q =
     ifW (aq_generation q = 0 \<or> trim_space (aq_config_id q) = [] \<or> trim_space (aq_device q) = [])
       (fault CodeInvalidInput ''ack signed config'')
     (bindW (do_contract L T c ''POST'' (ack_path ''/signed-config/'' (aq_generation q)) []
         (Some (wl_ack_json L (aq_config_id q) (aq_device q) (trunc_second (to_utc (aq_applied q))))) [] False)
       (\<lambda>(status, headers, raw). case wl_ack L raw of
          None \<Rightarrow> raise (fault CodeInvalidResponse ''decode signed-config acknowledgement'')
        | Some p \<Rightarrow> ifW (\<not> ack_named p) (fault CodeInvalidResponse ''decode signed-config acknowledgement'') (ret p)))"

section \<open>Registration\<close>

definition registration_poll_interval :: int where
  "registration_poll_interval = 5 * second"

definition registration_maximum_lifetime :: int where
  "registration_maximum_lifetime = 15 * minute"

definition registration_text_ok :: "string \<Rightarrow> bool" where
  "registration_text_ok v \<longleftrightarrow> length v \<le> 255 \<and> list_all (\<lambda>c. code c \<noteq> 13 \<and> code c \<noteq> 10 \<and> code c \<noteq> 0) v"

definition registration_request_ok :: "create_request \<Rightarrow> bool" where
  "registration_request_ok q \<longleftrightarrow>
     enrollment_device_id (nq_device q) \<and> enrollment_device_id (nq_network q) \<and>
     nq_platform q \<in> {''linux'', ''darwin'', ''windows''} \<and> valid_wireguard_public_key (nq_public_key q) \<and>
     registration_text_ok (nq_name q) \<and> registration_text_ok (nq_hostname q)"

text \<open>A registration that waits: how long it may, and how often it may be asked for.\<close>

definition waiting_ok :: "string \<Rightarrow> gotime \<Rightarrow> int \<Rightarrow> gotime \<Rightarrow> bool" where
  "waiting_ok status expires interval now \<longleftrightarrow>
     status = ''pending'' \<and> utc expires \<and> after expires now \<and> sub_time expires now \<le> registration_maximum_lifetime \<and>
     interval = registration_poll_interval div second"

definition create_registration_call :: "web_lib \<Rightarrow> transport \<Rightarrow> client \<Rightarrow> create_request \<Rightarrow> gotime \<Rightarrow> create_response web" where
  "create_registration_call L T c q moment =
     ifW (u_scheme (ct_url c) \<noteq> ''https'' \<or> ct_token c \<noteq> [] \<or> \<not> registration_request_ok q)
       (fault CodeInvalidInput ''create registration'')
     (bindW (do_contract_with_bearer L T c ''POST'' (api_prefix @ ''/registrations'') [] (Some (wl_create_json L q)) [] [] RegistrationCreate)
       (\<lambda>(status, headers, raw).
         ifW (status \<noteq> 201 \<or> header_get headers ''Cache-Control'' \<noteq> ''no-store'')
           (fault CodeInvalidResponse ''validate registration response'')
         (case wl_create L raw of
            None \<Rightarrow> raise (fault CodeInvalidResponse ''validate registration response'')
          | Some p \<Rightarrow>
              ifW (\<not> valid_registration_id (nr_id p) \<or> \<not> valid_opaque_secret (nr_token p) ''xrt_'' \<or>
                   \<not> waiting_ok (nr_status p) (nr_expires p) (nr_interval p) (to_utc moment))
                (fault CodeInvalidResponse ''validate registration response'') (ret p))))"

definition approved_exchange_ok :: "exchange_response \<Rightarrow> gotime \<Rightarrow> bool" where
  "approved_exchange_ok p now \<longleftrightarrow> exchange_body_ok p now \<and>
     dv_id (xr_device p) \<noteq> [] \<and> dv_network (xr_device p) \<noteq> [] \<and> dv_platform (xr_device p) \<noteq> [] \<and>
     dv_public_key (xr_device p) \<noteq> [] \<and> keys_validate \<lparr>ks_keys = xr_keys p, ks_etag = []\<rparr> = None"

definition poll_answer :: "web_lib \<Rightarrow> gotime \<Rightarrow> int \<Rightarrow> byte list \<Rightarrow> error + poll_response" where
  "poll_answer L now status raw =
     (if status = 202 then
        (case wl_pending L raw of
           None \<Rightarrow> Inl (fault CodeInvalidResponse ''validate pending registration'')
         | Some p \<Rightarrow>
             if waiting_ok (pn_status p) (pn_expires p) (pn_interval p) now
             then Inr \<lparr>pq_pending = Some p, pq_exchange = None\<rparr>
             else Inl (fault CodeInvalidResponse ''validate pending registration''))
      else if status = 200 then
        (case wl_exchange L raw of
           None \<Rightarrow> Inl (fault CodeInvalidResponse ''validate approved registration'')
         | Some p \<Rightarrow>
             if approved_exchange_ok p now then Inr \<lparr>pq_pending = None, pq_exchange = Some p\<rparr>
             else Inl (fault CodeInvalidResponse ''validate approved registration''))
      else Inl (fault CodeInvalidResponse ''validate registration exchange status''))"

definition exchange_registration :: "web_lib \<Rightarrow> transport \<Rightarrow> client \<Rightarrow> string \<Rightarrow> string \<Rightarrow> gotime \<Rightarrow> poll_response web" where
  "exchange_registration L T c registration token moment =
     ifW (u_scheme (ct_url c) \<noteq> ''https'' \<or> \<not> valid_registration_id registration \<or> \<not> valid_opaque_secret token ''xrt_'')
       (fault CodeInvalidInput ''exchange registration'')
     (bindW (do_contract_with_bearer L T c ''POST'' (api_prefix @ ''/registrations/'' @ registration @ ''/exchange'') [] None [] token Registration)
       (\<lambda>(status, headers, raw).
         ifW (header_get headers ''Cache-Control'' \<noteq> ''no-store'') (fault CodeInvalidResponse ''validate registration exchange cache policy'')
         (of_result (poll_answer L (to_utc moment) status raw))))"

end
