(* ===== verification/Admin_Client.thy ===== *)
theory Admin_Client
  imports Enroll_Client Policy
begin

text \<open>
  \<open>overlay/controlplane/admin.go\<close>: an operator creates a join invite or asks why a flow is
  allowed. \<open>overlay/controlplane/routes.go\<close>: the table of the routes, as the server side reads it.
\<close>

section \<open>Invites\<close>

record token_request =
  tq_network :: string
  tq_device :: string
  tq_platform :: string
  tq_seconds :: int

record join_token =
  jt_id :: string
  jt_uri :: string
  jt_network :: string
  jt_device :: string
  jt_platform :: string
  jt_uses :: int
  jt_expires :: gotime

record policy_metadata =
  pm_network :: string
  pm_revision :: u64
  pm_name :: string
  pm_artifact_sha256 :: string
  pm_compiler :: string
  pm_warnings :: "(string \<times> string \<times> string) list"
  pm_status :: string
  pm_generation :: u64
  pm_created :: gotime
  pm_validated :: "gotime option"
  pm_activated :: "gotime option"

record policy_question =
  po_network :: string
  po_source :: string
  po_destination :: string
  po_protocol :: string
  po_port :: int

record policy_explanation =
  px_action :: string
  px_rule :: string
  px_reason :: string
  px_protected :: bool
  px_sources :: "string list"
  px_destinations :: "string list"

record explain_result =
  xe_network :: string
  xe_revision :: u64
  xe_generation :: u64
  xe_answer :: policy_explanation

record admin_lib =
  al_web :: web_lib
  al_urls :: url_parser
  al_token :: "byte list \<Rightarrow> join_token option"
  al_metadata :: "byte list \<Rightarrow> policy_metadata option"
  al_explanation :: "byte list \<Rightarrow> policy_explanation option"
  al_token_json :: "token_request \<Rightarrow> byte list"
  al_question_json :: "policy_question \<Rightarrow> byte list"

definition admin_id :: "string \<Rightarrow> bool" where
  "admin_id s \<longleftrightarrow> match_head_rest is_alnum is_id_char 0 127 s"

definition valid_invite_platform :: "string \<Rightarrow> bool" where
  "valid_invite_platform p \<longleftrightarrow> p \<in> {''linux'', ''darwin'', ''windows'', ''ios'', ''android''}"

definition token_request_ok :: "token_request \<Rightarrow> bool" where
  "token_request_ok q \<longleftrightarrow> admin_id (tq_network q) \<and> (tq_device q = [] \<or> admin_id (tq_device q)) \<and>
     (tq_platform q = [] \<or> valid_invite_platform (tq_platform q)) \<and> 1 \<le> tq_seconds q \<and> tq_seconds q \<le> 86400"

definition join_token_ok :: "token_request \<Rightarrow> gotime \<Rightarrow> join_token \<Rightarrow> bool" where
  "join_token_ok q now t \<longleftrightarrow>
     admin_id (jt_id t) \<and> jt_network t = tq_network q \<and> (jt_device t = [] \<or> admin_id (jt_device t)) \<and>
     (jt_platform t = [] \<or> valid_invite_platform (jt_platform t)) \<and> (tq_device q = [] \<or> jt_device t = tq_device q) \<and>
     (tq_platform q = [] \<or> jt_platform t = tq_platform q) \<and> jt_uses t = 1 \<and> \<not> is_zero (jt_expires t) \<and>
     after (jt_expires t) (add_dur now (- minute)) \<and>
     \<not> after (jt_expires t) (add_dur now (tq_seconds q * second + minute))"

definition local_client :: "client \<Rightarrow> bool" where
  "local_client c \<longleftrightarrow> u_scheme (ct_url c) = ''http'' \<and>
     (u_hostname (ct_url c) = ''localhost'' \<or> u_hostname (ct_url c) = ''127.0.0.1'')"

definition trimmed_token_request :: "token_request \<Rightarrow> token_request" where
  "trimmed_token_request q = q\<lparr>tq_network := trim_space (tq_network q), tq_device := trim_space (tq_device q),
     tq_platform := trim_space (tq_platform q)\<rparr>"

definition create_join_token :: "admin_lib \<Rightarrow> transport \<Rightarrow> client \<Rightarrow> token_request \<Rightarrow> gotime \<Rightarrow> join_token web" where
  "create_join_token A T c request moment =
     (let q = trimmed_token_request request; L = al_web A in
      ifW (\<not> token_request_ok q) (fault CodeInvalidInput ''create join invite'')
      (bindW (do_contract L T c ''POST'' (api_prefix @ ''/join-tokens'') [] (Some (al_token_json A q)) [] False)
        (\<lambda>(status, headers, raw).
          ifW (\<not> header_contains_token (header_values headers ''Cache-Control'') ''no-store'')
            (fault CodeInvalidResponse ''validate join invite cache policy'')
          (case al_token A raw of
             None \<Rightarrow> raise (fault CodeInvalidResponse ''decode join invite'')
           | Some t \<Rightarrow>
               ifW (\<not> join_token_ok q (to_utc moment) t) (fault CodeInvalidResponse ''decode join invite'')
               (case parse_invite (al_urls A) (jt_uri t) (local_client c) of
                  Inl e \<Rightarrow> raise (fault CodeInvalidResponse ''validate join invite'')
                | Inr target \<Rightarrow>
                    ifW (trim_right_slash (tg_controller target) \<noteq> trim_right_slash (wl_text L (ct_url c)))
                      (fault CodeInvalidResponse ''validate join invite'') (ret t))))))"

section \<open>Explaining a policy\<close>

definition valid_policy_metadata_state :: "policy_metadata \<Rightarrow> bool" where
  "valid_policy_metadata_state m \<longleftrightarrow>
     (pm_status m = ''active'' \<and> pm_generation m > 0) \<or> (pm_status m = ''draft'' \<and> pm_generation m = 0)"

definition valid_policy_query :: "policy_question \<Rightarrow> bool" where
  "valid_policy_query q \<longleftrightarrow>
     po_source q \<noteq> [] \<and> po_destination q \<noteq> [] \<and> CHR ''@'' \<notin> set (po_source q) \<and> CHR ''@'' \<notin> set (po_destination q) \<and>
     (if po_protocol q = ''icmp'' then po_port q = 0
      else (po_protocol q = ''tcp'' \<or> po_protocol q = ''udp'') \<and> 1 \<le> po_port q \<and> po_port q \<le> 65535)"

text \<open>Devices in ascending order, none twice.\<close>

definition valid_device_list :: "string list \<Rightarrow> bool" where
  "valid_device_list ds \<longleftrightarrow> scan_ascending None (\<lambda>d. admin_id d \<and> CHR ''@'' \<notin> set d) {} ds"

definition valid_explanation :: "policy_explanation \<Rightarrow> bool" where
  "valid_explanation x \<longleftrightarrow>
     (px_action x = ''accept'' \<or> px_action x = ''deny'') \<and>
     (if px_reason x = ''protected control-plane flow''
      then px_protected x \<and> px_action x = ''accept'' \<and> px_rule x = ''_xconnect_control_plane''
      else if px_reason x = ''matched canonical rule'' then \<not> px_protected x \<and> px_rule x \<noteq> []
      else px_reason x = ''default deny'' \<and> \<not> px_protected x \<and> px_action x = ''deny'' \<and> px_rule x = [] \<and>
           px_sources x = [] \<and> px_destinations x = []) \<and>
     (px_rule x = [] \<or> admin_id (px_rule x)) \<and>
     valid_device_list (px_sources x) \<and> valid_device_list (px_destinations x)"

definition trimmed_question :: "policy_question \<Rightarrow> policy_question" where
  "trimmed_question q = q\<lparr>po_network := trim_space (po_network q), po_source := trim_space (po_source q),
     po_destination := trim_space (po_destination q), po_protocol := to_lower (trim_space (po_protocol q))\<rparr>"

definition policies_path :: "u64 \<Rightarrow> string" where
  "policies_path revision = api_prefix @ ''/policies/'' @ show_nat (unat revision)"

definition metadata_ok :: "u64 \<Rightarrow> policy_question \<Rightarrow> policy_metadata \<Rightarrow> bool" where
  "metadata_ok revision q m \<longleftrightarrow> pm_network m = po_network q \<and> pm_revision m = revision \<and>
     pm_compiler m = ''xconnect-acl-v1alpha1.1'' \<and> valid_policy_metadata_state m"

definition explain_policy :: "admin_lib \<Rightarrow> transport \<Rightarrow> client \<Rightarrow> u64 \<Rightarrow> policy_question \<Rightarrow> explain_result web" where
  "explain_policy A T c revision request =
     (let q = trimmed_question request; L = al_web A in
      ifW (revision = 0 \<or> \<not> admin_id (po_network q) \<or> \<not> valid_policy_query q)
        (fault CodeInvalidInput ''explain overlay policy'')
      (bindW (do_contract L T c ''GET'' (policies_path revision) [(''network_id'', po_network q)] None [] False)
        (\<lambda>(status1, headers1, raw1). case al_metadata A raw1 of
           None \<Rightarrow> raise (fault CodeInvalidResponse ''decode policy metadata'')
         | Some m \<Rightarrow>
             ifW (\<not> metadata_ok revision q m) (fault CodeInvalidResponse ''decode policy metadata'')
             (bindW (do_contract L T c ''POST'' (policies_path revision @ ''/explain'') [] (Some (al_question_json A q)) [] False)
               (\<lambda>(status2, headers2, raw2). case al_explanation A raw2 of
                  None \<Rightarrow> raise (fault CodeInvalidResponse ''decode policy explanation'')
                | Some x \<Rightarrow>
                    ifW (\<not> valid_explanation x) (fault CodeInvalidResponse ''decode policy explanation'')
                    (ret \<lparr>xe_network = po_network q, xe_revision = revision, xe_generation = pm_generation m,
                          xe_answer = x\<rparr>))))))"

section \<open>Routes\<close>

text \<open>Method and path; a segment that begins with a colon is to be filled in.\<close>

definition client_overlay_routes :: "(string \<times> string) list" where
  "client_overlay_routes =
     [(''GET'', ''/api/overlay/v1/signing-keys''),
      (''GET'', ''/api/overlay/v1/signed-config''),
      (''POST'', ''/api/overlay/v1/signed-config/:generation/ack''),
      (''POST'', ''/api/overlay/v1/join-tokens/exchange''),
      (''GET'', ''/api/overlay/v1/enrollment/signed-config''),
      (''POST'', ''/api/overlay/v1/enrollment/signed-config/:generation/ack''),
      (''POST'', ''/api/overlay/v1/device/session''),
      (''POST'', ''/api/overlay/v1/registrations''),
      (''POST'', ''/api/overlay/v1/registrations/:registrationID/exchange''),
      (''GET'', ''/api/overlay/v1/enrollment/policy-artifacts/:generation/:digest'')]"

definition build_signed_config_ack_path :: "u64 \<Rightarrow> string" where
  "build_signed_config_ack_path g = ''/api/overlay/v1/signed-config/'' @ show_nat (unat g) @ ''/ack''"

definition build_enrollment_signed_config_ack_path :: "u64 \<Rightarrow> string" where
  "build_enrollment_signed_config_ack_path g = ''/api/overlay/v1/enrollment/signed-config/'' @ show_nat (unat g) @ ''/ack''"

definition build_registrations_exchange_path :: "string \<Rightarrow> string" where
  "build_registrations_exchange_path r = ''/api/overlay/v1/registrations/'' @ r @ ''/exchange''"

definition build_policy_artifact_path :: "u64 \<Rightarrow> string \<Rightarrow> string" where
  "build_policy_artifact_path g digest =
     ''/api/overlay/v1/enrollment/policy-artifacts/'' @ show_nat (unat g) @ ''/'' @ digest"

end
