(* ===== verification/Client_Runs.thy ===== *)
theory Client_Runs
  imports Admin_Client Register
begin

text \<open>
  What the control plane client promises: where credentials and bearers are sent, which answers
  are accepted, that a configuration of the other version is never taken, what a refused poll
  means for the registration that waits, and that what is accepted can be stored.
\<close>

section \<open>Requests that are sent\<close>

text \<open>A call only appends requests, and all of them are of this kind.\<close>

definition sends :: "(http_request \<Rightarrow> bool) \<Rightarrow> http_request list \<Rightarrow> http_request list \<Rightarrow> bool" where
  "sends P s s' \<longleftrightarrow> (\<exists>qs. s' = s @ qs \<and> (\<forall>q \<in> set qs. P q))"

interpretation sending: step_preorder "sends P" for P
proof
  show "sends P w w" for w by (auto simp: sends_def)
next
  fix u v w
  assume "sends P u v" "sends P v w"
  then obtain qs rs where "v = u @ qs" "w = v @ rs" "\<forall>q \<in> set qs. P q" "\<forall>q \<in> set rs. P q" by (auto simp: sends_def)
  then show "sends P u w" unfolding sends_def by (intro exI [of _ "qs @ rs"]) auto
qed

lemma split_keeps [keeps]: "(\<And>a b. keeps_rel R (f a b)) \<Longrightarrow> keeps_rel R (case x of (a, b) \<Rightarrow> f a b)"
  by (cases x) simp

lemma send_sends: "P q \<Longrightarrow> keeps_rel (sends P) (send T q)"
  by (auto simp: keeps_rel_def send_def sends_def)

lemma contract_sends:
  assumes "P (contract_request c verb path query payload headers authorization)"
  shows "keeps_rel (sends P) (do_contract_with_authorization L T c verb path query payload headers authorization mode)"
  unfolding do_contract_with_authorization_def Let_def
  by (intro keeps sending.sum_keeps sending.option_keeps send_sends assms)

lemma basic_authorization: "header_values (basic_headers payload a) ''Authorization'' = (if a \<noteq> [] then [a] else [])"
  by (auto simp: basic_headers_def header_values_def header_put_def)

lemma contract_request_parts:
  "hq_scheme (contract_request c verb path query payload headers a) = u_scheme (ct_url c)"
  "hq_host (contract_request c verb path query payload headers a) = u_host (ct_url c)"
  "hq_method (contract_request c verb path query payload headers a) = verb"
  "hq_path (contract_request c verb path query payload headers a) = trim_right_slash (u_path (ct_url c)) @ path"
  by (simp_all add: contract_request_def request_to_def)

lemma contract_authorization:
  "''Authorization'' \<notin> fst ` set headers \<Longrightarrow>
     header_values (hq_headers (contract_request c verb path query payload headers a)) ''Authorization'' =
       (if trim_space a \<noteq> [] then [trim_space a] else [])"
proof -
  assume h: "''Authorization'' \<notin> fst ` set headers"
  have "header_values (fold (\<lambda>(k, vs). header_put k vs) headers b) ''Authorization'' = header_values b ''Authorization''" for b
    using h by (induction headers arbitrary: b) auto
  then show ?thesis by (simp add: contract_request_def basic_authorization)
qed

text \<open>White space at neither end.\<close>

lemma trim_space_ends:
  assumes "graphic c" and "graphic (last (c # t))"
  shows "trim_space (c # t) = c # t"
proof -
  obtain d u where r: "rev (c # t) = d # u" by (metis list.exhaust rev_is_Nil_conv list.distinct(1))
  then have "d = last (c # t)" by (metis hd_rev list.sel(1))
  with assms(2) have "trim_left_rev (d # u) = d # u" by (simp add: trim_left_rev_graphic)
  with r show ?thesis unfolding trim_space_def trim_left_graphic [OF assms(1)] by (metis rev_rev_ident)
qed

lemma credential_authorization:
  assumes "parse_credential v = Inr s"
  shows "trim_space (''Device '' @ v) = ''Device '' @ v"
proof -
  obtain i d where v: "v = ''xdc_'' @ i @ ''.'' @ rawurl_encode d" and "length d = 32"
    using parse_credential_Inr [OF assms] by blast
  then have ne: "rawurl_encode d \<noteq> []" using rawurl_length by fastforce
  then have "graphic (last (rawurl_encode d))" using rawurl_encode_graphic [of d] by (simp add: list_all_iff)
  moreover have "last (''Device '' @ v) = last (rawurl_encode d)" using ne by (simp add: v)
  moreover have "graphic (CHR ''D'')" by (simp add: graphic_def code_def)
  ultimately show ?thesis using trim_space_ends [of "CHR ''D''" "''evice '' @ v"] by simp
qed

section \<open>The device credential\<close>

text \<open>A request that may carry the credential: over TLS, to the controller it was issued by.\<close>

definition to_controller :: "web_lib \<Rightarrow> client \<Rightarrow> cred_record \<Rightarrow> gotime \<Rightarrow> http_request \<Rightarrow> bool" where
  "to_controller L c rec now q \<longleftrightarrow> \<not> cred_expired rec now \<and>
     hq_scheme q = ''https'' \<and> hq_host q = u_host (ct_url c) \<and>
     trim_right_slash (wl_text L (ct_url c)) = trim_right_slash (cr_controller rec) \<and>
     header_values (hq_headers q) ''Authorization'' = [''Device '' @ cr_credential rec]"

lemma to_utc_twice [simp]: "to_utc (to_utc t) = to_utc t"
  by (simp add: to_utc_def)

lemma validate_device_request_utc [simp]: "validate_device_request L c rec (to_utc t) = validate_device_request L c rec t"
  by (simp add: validate_device_request_def)

lemma device_call_sends:
  assumes "validate_device_request L c rec now = None" and "''Authorization'' \<notin> fst ` set headers"
  shows "keeps_rel (sends (to_controller L c rec now)) (device_call L T c rec path payload headers policy)"
proof -
  have live: "\<not> cred_expired rec now" using assms(1) by (auto simp: validate_device_request_def cred_expired_def split: if_splits)
  have ok: "u_scheme (ct_url c) = ''https''" "record_validate (wl_cred L) rec = None"
    "trim_right_slash (wl_text L (ct_url c)) = trim_right_slash (cr_controller rec)"
    using assms(1) by (auto simp: validate_device_request_def split: if_splits)
  then obtain s where "parse_credential (cr_credential rec) = Inr s" by (auto simp: record_validate_None)
  note trimmed = credential_authorization [OF this]
  have "to_controller L c rec now (contract_request c verb path query payload headers (''Device '' @ cr_credential rec))" for verb path query payload
    unfolding to_controller_def contract_authorization [OF assms(2)] contract_request_parts trimmed using ok live by simp
  note contract = contract_sends [where P = "to_controller L c rec now", OF this]
  show ?thesis unfolding device_call_def by (intro keeps sending.sum_keeps contract)
qed

lemma ifW_keeps_when:
  assumes "\<not> b \<Longrightarrow> keeps_rel (sends P) m"
  shows "keeps_rel (sends P) (ifW b e m)"
  using assms by (cases b) (simp_all add: ifW_def sending.raise_keeps)

lemma no_authorization: "''Authorization'' \<notin> fst ` set (idempotency_headers L payload)" "''Authorization'' \<notin> fst ` set []"
  by (simp_all add: idempotency_headers_def)


section \<open>What a call returns\<close>

lemma contract_Inr:
  assumes "do_contract_with_authorization L T c verb path query payload headers a mode sent = (Inr (status, answered, raw), sent')"
  shows "\<exists>p. T (length sent) (contract_request c verb path query payload headers a) = Inr p \<and>
    contract_answer L verb mode p = Inr (status, answered, raw)"
proof -
  let ?q = "contract_request c verb path query payload headers a"
  from assms have "wl_refused L ?q = None"
    by (auto simp: do_contract_with_authorization_def Let_def split: option.splits)
  with assms have run: "bindW (tryW (send T ?q)) (\<lambda>r. case r of
      Inl e \<Rightarrow> raise (fault_cause CodeControlPlaneUnavailable ''request control plane'' e)
    | Inr p \<Rightarrow> of_result (contract_answer L verb mode p)) sent = (Inr (status, answered, raw), sent')"
    by (simp add: do_contract_with_authorization_def Let_def)
  then show ?thesis by (cases "T (length sent) ?q") (auto simp: bindW_def tryW_def send_def)
qed

lemma contract_answer_Inr:
  "contract_answer L verb mode p = Inr (status, answered, raw) \<Longrightarrow>
     status = hp_status p \<and> answered = hp_headers p \<and> length raw \<le> maximum_body \<and>
     (200 \<le> status \<and> status < 300 \<or> status = 304 \<and> verb = ''GET'' \<and> raw = [])"
  by (auto simp: contract_answer_def Let_def maximum_body_def split: if_splits sum.splits)

lemma device_call_Inr:
  assumes "device_call L T c rec path payload headers policy sent = (Inr raw, sent')"
  obtains p where "T (length sent) (contract_request c ''POST'' (api_prefix @ path) [] (Some payload) headers (''Device '' @ cr_credential rec)) = Inr p"
    "contract_answer L ''POST'' Default p = Inr (hp_status p, hp_headers p, raw)"
proof -
  from assms obtain status answered where "do_contract_with_authorization L T c ''POST'' (api_prefix @ path) [] (Some payload) headers
      (''Device '' @ cr_credential rec) Default sent = (Inr (status, answered, raw), sent')"
    by (fastforce simp: device_call_def bindW_Inr tryW_eq ifW_Inr sum_case_eq)
  from contract_Inr [OF this] contract_answer_Inr that show thesis by blast
qed

section \<open>Versions of the signed configuration\<close>

lemma negotiated_Inr:
  assumes "negotiated_config L T c path q bearer mode v2 what sent = (Inr s, sent')"
  shows "(sc_schema s = 2) = v2 \<and> signed_validate s = None \<and>
    (\<exists>raw s0. decode_config (wl_signed L) raw = Inr s0 \<and> s = s0\<lparr>sc_etag := sc_etag s\<rparr>)"
proof -
  from assms obtain headers raw s0 sent1 where d: "decode_config (wl_signed L) raw = Inr s0" and v: "v2 = (sc_schema s0 = 2)"
    and s: "s = s0\<lparr>sc_etag := header_get headers ''ETag''\<rparr>"
    by (auto simp: negotiated_config_def bindW_Inr ifW_Inr)
  from d have "signed_validate s0 = None" by (auto simp: decode_config_def split: if_splits option.splits)
  with d v s show ?thesis by auto
qed

text \<open>
  C18. A signed configuration is never taken in another version than the one asked for, on either
  route: what \<open>GetSignedConfig\<close>, \<open>GetSignedConfigV2\<close> and their enrollment counterparts return is
  of version 2 exactly if version 2 was asked for, and passes the validation of signed
  configurations. There is no fallback: any other answer is an error.
\<close>

theorem signed_config_never_downgraded:
  assumes "get_signed_config L T c q v2 sent = (Inr s, sent') \<or>
    get_enrollment_signed_config L T c token q v2 sent = (Inr s, sent')"
  shows "(sc_schema s = 2 \<longleftrightarrow> v2) \<and> signed_validate s = None"
  using assms negotiated_Inr by (fastforce simp: get_signed_config_def get_enrollment_signed_config_def ifW_Inr)

section \<open>The policy artifact\<close>

lemma send_Inr: "send T q sent = (r, sent') \<longleftrightarrow> r = T (length sent) q \<and> sent' = sent @ [q]"
  by (auto simp: send_def)

text \<open>
  C19. The bearer of an enrollment fetches a policy artifact only from the controller: the one
  request that may be sent goes over TLS to the host of the client, under its base path, to the
  path the signed reference names, and follows no redirect. What is returned is not empty and not
  longer than what the policy consumer takes.
\<close>

theorem policy_bearer_confined:
  assumes "get_enrollment_policy_artifact L T c token p sent = (r, sent')"
  shows "sends (\<lambda>q. hq_scheme q = ''https'' \<and> hq_host q = u_host (ct_url c) \<and> \<not> hq_follow q \<and>
       hq_path q = trim_right_slash (u_path (ct_url c)) @ pr_path p \<and>
       header_values (hq_headers q) ''Authorization'' = [''Bearer '' @ token]) sent sent' \<and>
     length sent' \<le> Suc (length sent) \<and> (case r of Inl e \<Rightarrow> True | Inr raw \<Rightarrow> raw \<noteq> [] \<and> length raw \<le> MaximumBody)"
proof (cases "valid_opaque_secret token ''xenr_'' \<and> policy_ref_validate p = None \<and> u_scheme (ct_url c) = ''https'' \<and>
    wl_refused L (policy_request c token p) = None")
  case False
  then obtain e where "r = Inl e" "sent' = sent"
    using assms by (auto simp: get_enrollment_policy_artifact_def ifW_def split: if_splits option.splits)
  then show ?thesis using sending.R_refl by auto
next
  case True
  then have path: "policy_path (pr_generation p) (pr_digest p) = pr_path p" by (auto simp: policy_ref_validate_def split: if_splits)
  from True assms have run: "bindW (tryW (send T (policy_request c token p))) (\<lambda>r. case r of
      Inl e \<Rightarrow> raise (fault_cause CodeControlPlaneUnavailable ''request enrollment policy'' e)
    | Inr a \<Rightarrow> of_result (policy_answer L a)) sent = (r, sent')"
    by (simp add: get_enrollment_policy_artifact_def ifW_def)
  then have sent: "sent' = sent @ [policy_request c token p]"
    by (cases "T (length sent) (policy_request c token p)") (auto simp: bindW_def tryW_def send_def)
  have "case r of Inl e \<Rightarrow> True | Inr raw \<Rightarrow> raw \<noteq> [] \<and> length raw \<le> MaximumBody"
    using run by (cases "T (length sent) (policy_request c token p)")
      (auto simp: bindW_def tryW_def send_def policy_answer_def maximum_policy_body_def MaximumBody_def split: sum.splits if_splits)
  with True path show ?thesis
    by (auto simp: sent sends_def policy_request_def request_to_def header_values_def)
qed

section \<open>The registration that waits\<close>

definition poll_request :: "client \<Rightarrow> string \<Rightarrow> string \<Rightarrow> http_request" where
  "poll_request c registration token =
     contract_request c ''POST'' (api_prefix @ ''/registrations/'' @ registration @ ''/exchange'') [] None []
       (if trim_space token \<noteq> [] then ''Bearer '' @ trim_space token else [])"

lemma registration_error_final:
  "fault_code_of (registration_error L s raw False) \<in> set final_codes \<longleftrightarrow> s \<in> {401, 409, 410}"
  by (auto simp: registration_error_def status_error_def final_codes_def Let_def split: prod.splits if_splits)

text \<open>
  C20. What the controller refuses decides whether a waiting registration gives up. If the answer
  to a poll is not a success, the error of the call is one of those the polling loop stops at
  exactly for the statuses 401 (the token is not valid), 409 (rejected or consumed) and 410
  (expired); after any other status, 429 and the failures of a gateway among them, the loop asks
  again.
\<close>

theorem poll_stops_exactly_on_refusal:
  assumes "u_scheme (ct_url c) = ''https''" and "valid_registration_id registration" and "valid_opaque_secret token ''xrt_''"
    and "wl_refused L (poll_request c registration token) = None"
    and "T (length sent) (poll_request c registration token) = Inr p" and "hp_status p < 200 \<or> hp_status p \<ge> 300"
  shows "\<exists>e. exchange_registration L T c registration token moment sent = (Inl e, sent @ [poll_request c registration token]) \<and>
    (fault_code_of e \<in> set final_codes \<longleftrightarrow> hp_status p \<in> {401, 409, 410})"
proof -
  let ?e = "registration_error L (hp_status p) (take 65536 (hp_body p)) False"
  have "contract_answer L ''POST'' Registration p = Inl ?e"
    using assms(6) by (auto simp: contract_answer_def contract_error_def)
  then have "exchange_registration L T c registration token moment sent = (Inl ?e, sent @ [poll_request c registration token])"
    using assms(1-5)
    by (simp add: exchange_registration_def ifW_def do_contract_with_bearer_def do_contract_with_authorization_def
      poll_request_def bindW_def tryW_def send_def Let_def)
  then show ?thesis using registration_error_final by blast
qed

section \<open>What is accepted can be stored\<close>

lemma exchange_Inr:
  assumes "exchange_join_token L T c q moment sent = (Inr x, sent')"
  shows "exchange_request_ok c q" "exchange_answer_ok q (to_utc (call_time (xq_now q) moment)) x"
    "keys_validate \<lparr>ks_keys = xr_keys x, ks_etag = []\<rparr> = None"
  using assms by (auto simp: exchange_join_token_def ifW_Inr bindW_Inr Let_def option_case_eq)

lemma valid_id_text: "valid_id s \<Longrightarrow> trim_space s \<noteq> []"
  by (cases s) (auto simp: valid_id_def trim_space_graphic_nonempty is_alnum_graphic)

lemma platform_text: "valid_platform p \<Longrightarrow> trim_space p \<noteq> []"
  unfolding valid_platform_def
  by (elim insertE emptyE) (simp_all add: trim_space_graphic_nonempty graphic_def code_def)

lemma window_canonical:
  assumes "canonical_window n issued expires now" and "nanos now \<ge> 0"
  shows "canonical_time expires \<and> after expires issued \<and> sub_time expires issued \<le> n"
  using assms by (auto simp: canonical_window_def canonical_time_def after_def is_zero_def zero_time_def second_def)

lemma window_issued:
  assumes "canonical_window (31 * day) issued expires now" and "nanos now \<ge> 0"
  shows "canonical_time issued"
  using assms
  by (auto simp: canonical_window_def canonical_time_def after_def is_zero_def zero_time_def sub_time_def saturate_def durations)

text \<open>
  A join token is not spent in vain: the answer the client accepts for it passes the checks
  of the credential store and of the state directory. The credential record and the session a
  join builds from it are valid, if the controller is, the device and network have identifiers of
  the length the store asks for, and the session is built before it expires.
\<close>

theorem exchanged_token_storable:
  assumes run: "exchange_join_token L T c q moment sent = (Inr x, sent')"
    and asked: "cp_device cp = xq_device q" "cp_platform cp = xq_platform q" "cp_public_key cp = xq_public_key q"
    and server: "valid_https_controller K (cp_server cp)" "trim_space (cp_server cp) \<noteq> []"
    and ids: "valid_id (xq_device q)" "valid_id (dv_network (xr_device x))"
    and time: "nanos (call_time (xq_now q) moment) \<ge> 0" "nanos created > nanos zero_time" "after (xr_expires x) created"
  shows "record_validate K (exchanged_record cp x) = None \<and>
    validate_enrollment_secret ((exchanged_session cp x created)\<lparr>en_schema := 1\<rparr>) = None"
proof -
  note answer = exchange_Inr [OF run]
  let ?now = "to_utc (call_time (xq_now q) moment)"
  have now: "nanos ?now \<ge> 0" using time(1) by simp
  from answer(2) have body: "exchange_body_ok x ?now" and same: "dv_id (xr_device x) = xq_device q"
    "dv_platform (xr_device x) = xq_platform q" "dv_public_key (xr_device x) = xq_public_key q" by (simp_all add: exchange_answer_ok_def)
  from answer(1) have platform: "valid_platform (xq_platform q)" and key: "valid_wireguard_public_key (xq_public_key q)"
    by (simp_all add: exchange_request_ok_def valid_enrollment_platform_def valid_platform_def)
  have window: "canonical_window (31 * day) (dc_issued (xr_credential x)) (dc_expires (xr_credential x)) ?now"
    using body by (simp add: exchange_body_ok_def canonical_credential_window_def)
  have keytext: "wg_key_text (xq_public_key q)" "valid_wireguard_key (xq_public_key q)"
    using key by (auto simp: valid_wireguard_public_key_def wg_key_text_def valid_wireguard_key_def split: option.splits)
  have scope: "valid_scope (dc_scope (xr_credential x))"
    using body by (simp add: exchange_body_ok_def valid_device_credential_scope_def valid_scope_def credential_scopes_def)
  have cred: "\<exists>s. parse_credential (dc_credential (xr_credential x)) = Inr s \<and> se_id s = dc_id (xr_credential x)"
    using body by (auto simp: exchange_body_ok_def split: sum.splits)
  have "record_validate K (exchanged_record cp x) = None"
    unfolding record_validate_None
    using server(1) ids asked body platform keytext scope cred answer(3) window_canonical [OF window now] window_issued [OF window now]
    by (auto simp: exchanged_record_def exchange_body_ok_def maximum_lifetime_def)
  moreover have "trim_space (xq_platform q) \<noteq> []" by (rule platform_text [OF platform])
  moreover have "valid_enrollment_scope (xr_scope x)"
    using body by (auto simp: exchange_body_ok_def valid_enrollment_scope_3_def valid_enrollment_scope_def enrollment_scopes_def scan_unique_iff)
  moreover have "has_prefix (xr_token x) ''xenr_''" "\<exists>b. rawurl_decode (trim_prefix (xr_token x) ''xenr_'') = Some b \<and> length b = 32"
    using body by (auto simp: exchange_body_ok_def valid_opaque_secret_def split: option.splits)
  moreover have "\<not> is_zero (xr_expires x)" "\<not> is_zero (to_utc created)" using time by (auto simp: is_zero_def after_def)
  ultimately show ?thesis
    using server(2) ids asked same keytext(2) body time(3) answer(3) valid_id_text [OF ids(1)] valid_id_text [OF ids(2)]
    by (auto simp: validate_enrollment_secret_def exchanged_session_def exchange_body_ok_def after_def split: option.splits)
qed

text \<open>
  The client asks for shorter identifiers than the store: a device of one or two characters is
  let through, and what its token was spent for is refused afterwards.
\<close>

theorem short_device_refused_late:
  "enrollment_device_id ''n1'' \<and> (cp_device cp = ''n1'' \<longrightarrow> record_validate K (exchanged_record cp x) \<noteq> None)"
proof -
  have "enrollment_device_id ''n1''" "\<not> valid_id ''n1''" by code_simp+
  then show ?thesis by (auto simp: record_validate_def exchanged_record_def)
qed

text \<open>The session that was minted goes the same way.\<close>

lemma mint_Inr:
  assumes "mint_device_session L T c rec nonce given moment sent = (Inr p, sent')"
  shows "validate_device_request L c rec (call_time given moment) = None" "session_ok rec nonce (to_utc (call_time given moment)) p"
  using assms by (auto simp: mint_device_session_def ifW_Inr bindW_Inr Let_def option_case_eq)


section \<open>The table of the routes\<close>

fun fills :: "string list \<Rightarrow> string list \<Rightarrow> bool" where
  "fills [] path = (path = [])"
| "fills (t # ts) [] = False"
| "fills (t # ts) (p # ps) = ((if take 1 t = '':'' then p \<noteq> [] else t = p) \<and> fills ts ps)"

definition listed :: "string \<Rightarrow> string \<Rightarrow> bool" where
  "listed verb path \<longleftrightarrow> list_ex (\<lambda>(m, t). m = verb \<and> fills (split_on CHR ''/'' t) (split_on CHR ''/'' path)) client_overlay_routes"

text \<open>A request to a listed route of the client's base.\<close>

definition at_route :: "client \<Rightarrow> string \<Rightarrow> string \<Rightarrow> http_request \<Rightarrow> bool" where
  "at_route c verb path q \<longleftrightarrow> listed verb path \<and> hq_method q = verb \<and> hq_path q = trim_right_slash (u_path (ct_url c)) @ path"

lemma split_on_prefix:
  "c \<notin> set s \<Longrightarrow> split_on c (s @ c # t) = s # split_on c t"
  by (induction s) auto

lemma split_on_none: "c \<notin> set s \<Longrightarrow> split_on c s = [s]"
  by (induction s) auto

lemma show_nat_segment: "CHR ''/'' \<notin> set (show_nat n)"
proof -
  have "\<not> is_digit (CHR ''/'')" by (simp add: is_digit_def code_def)
  with show_nat_digits [of n] show ?thesis by blast
qed

lemma listed_fixed:
  "listed ''GET'' ''/api/overlay/v1/signing-keys''" "listed ''GET'' ''/api/overlay/v1/signed-config''"
  "listed ''POST'' ''/api/overlay/v1/join-tokens/exchange''" "listed ''GET'' ''/api/overlay/v1/enrollment/signed-config''"
  "listed ''POST'' ''/api/overlay/v1/device/session''" "listed ''POST'' ''/api/overlay/v1/registrations''"
  by code_simp+

lemma listed_built:
  "listed ''POST'' (build_signed_config_ack_path g)" "listed ''POST'' (build_enrollment_signed_config_ack_path g)"
  "CHR ''/'' \<notin> set r \<Longrightarrow> r \<noteq> [] \<Longrightarrow> listed ''POST'' (build_registrations_exchange_path r)"
  "CHR ''/'' \<notin> set d \<Longrightarrow> d \<noteq> [] \<Longrightarrow> listed ''GET'' (build_policy_artifact_path g d)"
  using split_on_prefix [OF show_nat_segment [of "unat g"]]
  by (simp_all add: listed_def client_overlay_routes_def build_signed_config_ack_path_def build_enrollment_signed_config_ack_path_def
    build_registrations_exchange_path_def build_policy_artifact_path_def split_on_prefix split_on_none)

lemma contract_at_route:
  assumes "listed verb path"
  shows "keeps_rel (sends (at_route c verb path)) (do_contract_with_authorization L T c verb path query payload headers a mode)"
  by (rule contract_sends) (simp add: at_route_def contract_request_parts assms)

lemmas call_defs = do_contract_def do_contract_with_bearer_def negotiated_config_def device_call_def Let_def

lemma route_paths:
  "api_prefix @ ''/signing-keys'' = ''/api/overlay/v1/signing-keys''" "api_prefix @ ''/signed-config'' = ''/api/overlay/v1/signed-config''"
  "api_prefix @ ''/join-tokens/exchange'' = ''/api/overlay/v1/join-tokens/exchange''"
  "api_prefix @ ''/enrollment/signed-config'' = ''/api/overlay/v1/enrollment/signed-config''"
  "api_prefix @ ''/device/session'' = ''/api/overlay/v1/device/session''" "api_prefix @ ''/registrations'' = ''/api/overlay/v1/registrations''"
  "ack_path ''/signed-config/'' g = build_signed_config_ack_path g"
  "ack_path ''/enrollment/signed-config/'' g = build_enrollment_signed_config_ack_path g"
  "api_prefix @ ''/registrations/'' @ r @ ''/exchange'' = build_registrations_exchange_path r"
  "policy_path g d = build_policy_artifact_path g d"
  by (simp_all add: api_prefix_def ack_path_def build_signed_config_ack_path_def build_enrollment_signed_config_ack_path_def
    build_registrations_exchange_path_def build_policy_artifact_path_def policy_path_def)

lemma registration_segment:
  assumes "valid_registration_id r"
  shows "CHR ''/'' \<notin> set r" "r \<noteq> []"
proof -
  from assms have pre: "has_prefix r ''xreg_''" and chars: "list_all is_b64url_char (trim_prefix r ''xreg_'')"
    by (auto simp: valid_registration_id_def match_all_def)
  obtain s where r: "r = ''xreg_'' @ s" using has_prefix_eq [OF pre] by blast
  have "\<not> is_b64url_char (CHR ''/'')" by code_simp
  then have "CHR ''/'' \<notin> set s" using chars by (auto simp: r list_all_iff trim_prefix_def has_prefix_def)
  then show "CHR ''/'' \<notin> set r" by (simp add: r)
  show "r \<noteq> []" using pre by (auto simp: has_prefix_def)
qed

lemma digest_segment:
  assumes "policy_ref_validate p = None"
  shows "CHR ''/'' \<notin> set (pr_digest p)" "pr_digest p \<noteq> []"
proof -
  from assms have d: "match_all is_lower_hex 64 64 (pr_digest p)"
    by (auto simp: policy_ref_validate_def valid_digest_def split: if_splits)
  have "\<not> is_lower_hex (CHR ''/'')" by code_simp
  with d show "CHR ''/'' \<notin> set (pr_digest p)" by (auto simp: match_all_def list_all_iff)
  show "pr_digest p \<noteq> []" using d by (auto simp: match_all_def)
qed


lemmas route_keeps = keeps sending.sum_keeps sending.option_keeps split_keeps ifW_keeps_when contract_at_route listed_fixed listed_built

lemma unlisted_policy_keeps:
  "keeps_rel (sends (at_route c ''GET'' (build_policy_artifact_path (pr_generation p) (pr_digest p)))) (get_enrollment_policy_artifact L T c token p)"
proof -
  have "at_route c ''GET'' (build_policy_artifact_path (pr_generation p) (pr_digest p)) (policy_request c token p)"
    if "policy_ref_validate p = None"
    using listed_built(4) [OF digest_segment [OF that]] by (simp add: at_route_def policy_request_def request_to_def route_paths)
  then show ?thesis unfolding get_enrollment_policy_artifact_def
    by (intro ifW_keeps_when keeps sending.option_keeps sending.sum_keeps send_sends) auto
qed

text \<open>
  The enrollment client and the table of routes agree: every request of the ten calls goes,
  under the base path of the client, to the path the table's own builder makes for it, with the
  method of a listed route whose placeholders it fills with one segment each.
\<close>

theorem client_uses_listed_routes:
  "sends (at_route c ''GET'' ''/api/overlay/v1/signing-keys'') sent (snd (get_signing_keys L T c etag sent)) \<and>
   sends (at_route c ''GET'' ''/api/overlay/v1/signed-config'') sent (snd (get_signed_config L T c cq v2 sent)) \<and>
   sends (at_route c ''POST'' (build_signed_config_ack_path (aq_generation aq))) sent (snd (ack_signed_config L T c aq sent)) \<and>
   sends (at_route c ''POST'' ''/api/overlay/v1/join-tokens/exchange'') sent (snd (exchange_join_token L T c xq moment sent)) \<and>
   sends (at_route c ''GET'' ''/api/overlay/v1/enrollment/signed-config'') sent (snd (get_enrollment_signed_config L T c token cq v2 sent)) \<and>
   sends (at_route c ''POST'' (build_enrollment_signed_config_ack_path (aq_generation aq))) sent
     (snd (ack_enrollment_signed_config L T c token aq sent)) \<and>
   sends (at_route c ''POST'' ''/api/overlay/v1/device/session'') sent (snd (mint_device_session L T c rec nonce given moment sent)) \<and>
   sends (at_route c ''POST'' ''/api/overlay/v1/registrations'') sent (snd (create_registration_call L T c nq moment sent)) \<and>
   sends (at_route c ''POST'' (build_registrations_exchange_path r)) sent (snd (exchange_registration L T c r token moment sent)) \<and>
   sends (at_route c ''GET'' (build_policy_artifact_path (pr_generation p) (pr_digest p))) sent
     (snd (get_enrollment_policy_artifact L T c token p sent))"
proof -
  have "keeps_rel (sends (at_route c ''GET'' ''/api/overlay/v1/signing-keys'')) (get_signing_keys L T c etag)"
    unfolding get_signing_keys_def call_defs route_paths by (intro route_keeps)
  moreover have "keeps_rel (sends (at_route c ''GET'' ''/api/overlay/v1/signed-config'')) (get_signed_config L T c cq v2)"
    unfolding get_signed_config_def call_defs route_paths by (intro route_keeps)
  moreover have "keeps_rel (sends (at_route c ''POST'' (build_signed_config_ack_path (aq_generation aq)))) (ack_signed_config L T c aq)"
    unfolding ack_signed_config_def call_defs route_paths by (intro route_keeps)
  moreover have "keeps_rel (sends (at_route c ''POST'' ''/api/overlay/v1/join-tokens/exchange'')) (exchange_join_token L T c xq moment)"
    unfolding exchange_join_token_def call_defs route_paths by (intro route_keeps)
  moreover have "keeps_rel (sends (at_route c ''GET'' ''/api/overlay/v1/enrollment/signed-config'')) (get_enrollment_signed_config L T c token cq v2)"
    unfolding get_enrollment_signed_config_def call_defs route_paths by (intro route_keeps)
  moreover have "keeps_rel (sends (at_route c ''POST'' (build_enrollment_signed_config_ack_path (aq_generation aq))))
      (ack_enrollment_signed_config L T c token aq)"
    unfolding ack_enrollment_signed_config_def call_defs route_paths by (intro route_keeps)
  moreover have "keeps_rel (sends (at_route c ''POST'' ''/api/overlay/v1/device/session'')) (mint_device_session L T c rec nonce given moment)"
    unfolding mint_device_session_def call_defs route_paths by (intro route_keeps)
  moreover have "keeps_rel (sends (at_route c ''POST'' ''/api/overlay/v1/registrations'')) (create_registration_call L T c nq moment)"
    unfolding create_registration_call_def call_defs route_paths by (intro route_keeps)
  moreover have "keeps_rel (sends (at_route c ''POST'' (build_registrations_exchange_path r))) (exchange_registration L T c r token moment)"
    unfolding exchange_registration_def call_defs route_paths by (intro route_keeps registration_segment) auto
  ultimately show ?thesis using unlisted_policy_keeps [of c p L T token] by (simp add: keeps_rel_def)
qed

text \<open>Two calls of the client are in no listed route.\<close>

theorem lifecycle_routes_unlisted:
  "\<not> listed ''POST'' (api_prefix @ ''/device/revoke'') \<and> \<not> listed ''POST'' (api_prefix @ ''/device/credential/rotate'')"
  by code_simp

section \<open>Explaining a policy\<close>

text \<open>
  The protected flow of the control plane is named by a rule whose identifier begins with an
  underscore, which no identifier may: its explanation is always refused.
\<close>

theorem protected_flow_never_explained:
  "px_reason x = ''protected control-plane flow'' \<Longrightarrow> \<not> valid_explanation x"
proof -
  have "\<not> admin_id ''_xconnect_control_plane''" by code_simp
  then show "px_reason x = ''protected control-plane flow'' \<Longrightarrow> \<not> valid_explanation x"
    by (auto simp: valid_explanation_def)
qed

end
