(* ===== verification/Client_Samples.thy ===== *)
theory Client_Samples
  imports Client_Runs
begin

text \<open>
  Runs of the control plane client on concrete answers, for the properties with hypotheses.
\<close>

definition sample_client :: client where
  "sample_client = \<lparr>ct_url = sample_url, ct_token = []\<rparr>"

definition opaque :: "string \<Rightarrow> string" where
  "opaque p = p @ rawurl_encode (replicate 32 5)"

definition sample_session :: session_response where
  "sample_session = \<lparr>sr_nonce = ''01234567-89ab-4cde-8f01-23456789abcd'', sr_token = opaque ''xenr_'', sr_token_type = ''Bearer'',
     sr_issued = \<lparr>nanos = 20 * second, utc = True\<rparr>, sr_expires = \<lparr>nanos = 600 * second, utc = True\<rparr>,
     sr_scope = [''overlay:config:read'', ''overlay:config:ack''], sr_device = ''dev'', sr_network = ''net'',
     sr_keys = ks_keys sample_keys\<rparr>"

definition sample_exchange :: exchange_response where
  "sample_exchange = \<lparr>xr_token = opaque ''xenr_'', xr_token_type = ''Bearer'',
     xr_expires = \<lparr>nanos = 600 * second, utc = True\<rparr>,
     xr_scope = [''overlay:config:read'', ''overlay:config:ack'', ''overlay:device:revoke''],
     xr_credential = \<lparr>dc_id = se_id (sample_secret 1), dc_credential = se_value (sample_secret 1), dc_token_type = ''Device'',
       dc_issued = \<lparr>nanos = 10 * second, utc = True\<rparr>, dc_expires = \<lparr>nanos = 10 * second + 20 * day, utc = True\<rparr>,
       dc_scope = [''overlay:session:mint'', ''overlay:credential:rotate'', ''overlay:device:revoke'']\<rparr>,
     xr_device = zero_device\<lparr>dv_id := ''dev'', dv_network := ''net'', dv_platform := ''linux'',
       dv_public_key := std_encode (replicate 32 3), dv_address := ''10.9.0.2/32''\<rparr>,
     xr_network = zero_network\<lparr>nw_id := ''net'', nw_cidr := ''10.9.0.0/16''\<rparr>, xr_keys = ks_keys sample_keys\<rparr>"

definition sample_web :: web_lib where
  "sample_web = \<lparr>wl_text = (\<lambda>_. ''https://z''), wl_refused = (\<lambda>_. None), wl_media = (\<lambda>m. if m = [] then None else Some m),
     wl_sha256 = (\<lambda>m. take 32 (m @ replicate 32 0)), wl_signed = sample_lib\<lparr>sl_strict_config := \<lambda>_. Some sample_signed\<rparr>,
     wl_cred = sample_cred_lib, wl_error_body = (\<lambda>_. ([], [])), wl_session = (\<lambda>_. Some sample_session),
     wl_rotation = (\<lambda>_. None), wl_revocation = (\<lambda>_. None), wl_exchange = (\<lambda>_. Some sample_exchange), wl_ack = (\<lambda>_. None),
     wl_create = (\<lambda>_. None), wl_pending = (\<lambda>_. None), wl_register = (\<lambda>_. Inl (Plain ''register'')),
     wl_config = (\<lambda>_. Inl (Plain ''config'')), wl_nonce_json = bytes_of, wl_rotate_json = (\<lambda>i s. bytes_of s),
     wl_exchange_json = (\<lambda>_. []), wl_ack_json = (\<lambda>_ _ _. []), wl_create_json = (\<lambda>_. []), wl_register_json = (\<lambda>_. [])\<rparr>"

definition sample_answer :: "int \<Rightarrow> string \<Rightarrow> string \<Rightarrow> http_response" where
  "sample_answer status media cache = \<lparr>hp_status = status,
     hp_headers = [(''Content-Type'', [media]), (''Cache-Control'', [cache]), (''ETag'', [''e''])],
     hp_body = bytes_of ''schema_version'', hp_broken = None\<rparr>"

lemmas client_defs = do_contract_def do_contract_with_bearer_def do_contract_with_authorization_def contract_answer_def json_media_def
  read_all_def maximum_body_def header_get_def header_values_def bindW_def tryW_def ifW_def send_def Let_def

lemma sample_body: "length (bytes_of ''schema_version'') = 14" "bytes_of ''schema_version'' \<noteq> []"
  by (simp_all add: bytes_of_def)

lemma opaque_valid: "list_all graphic p \<Longrightarrow> valid_opaque_secret (opaque p) p"
  unfolding valid_opaque_secret_def opaque_def
  by (simp add: trim_space_all_graphic rawurl_encode_graphic)

lemma opaque_sample: "valid_opaque_secret (opaque ''xenr_'') ''xenr_''" "valid_opaque_secret (opaque ''xrt_'') ''xrt_''"
  "valid_opaque_secret (opaque ''xjt_'') ''xjt_''"
  by (rule opaque_valid, simp add: graphic_def code_def)+

lemma sample_contract:
  assumes "media = ''application/json''" and "200 \<le> status" "status < 300"
  shows "do_contract_with_authorization sample_web (\<lambda>_ _. Inr (sample_answer status media cache)) c verb path query payload headers a mode sent =
    (Inr (status, hp_headers (sample_answer status media cache), bytes_of ''schema_version''),
     sent @ [contract_request c verb path query payload headers a])"
  using assms sample_body by (auto simp: do_contract_with_authorization_def contract_answer_def json_media_def read_all_def maximum_body_def
    header_get_def header_values_def bindW_def tryW_def send_def Let_def sample_web_def sample_answer_def)

lemma sample_headers:
  "header_get (hp_headers (sample_answer s m c)) ''Cache-Control'' = c"
  "header_values (hp_headers (sample_answer s m c)) ''Cache-Control'' = [c]"
  "header_get (hp_headers (sample_answer s m c)) ''ETag'' = ''e''"
  "header_get (hp_headers (sample_answer s m c)) ''Content-Type'' = m"
  by (simp_all add: sample_answer_def header_get_def header_values_def)

lemma sample_decoded: "decode_config (wl_signed sample_web) (bytes_of ''schema_version'') = Inr sample_signed"
proof -
  have "no_forbidden_fields (sample_lib\<lparr>sl_strict_config := \<lambda>_. Some sample_signed\<rparr>) (bytes_of ''schema_version'')" by code_simp
  then show ?thesis by (simp add: decode_config_def sample_web_def sample_signed_valid)
qed

theorem signed_config_never_downgraded_witness:
  "\<exists>s sent. get_signed_config sample_web (\<lambda>_ _. Inr (sample_answer 200 ''application/json'' ''private, no-store'')) sample_client
     \<lparr>cq_device = ''dev'', cq_network = [], cq_node = []\<rparr> False [] = (Inr s, sent) \<and> sc_schema s \<noteq> 2 \<and> signed_validate s = None"
proof -
  have e: "trim_space ''e'' \<noteq> []" by (simp add: trim_space_graphic_nonempty graphic_def code_def)
  obtain s sent where "get_signed_config sample_web (\<lambda>_ _. Inr (sample_answer 200 ''application/json'' ''private, no-store'')) sample_client
     \<lparr>cq_device = ''dev'', cq_network = [], cq_node = []\<rparr> False [] = (Inr s, sent)"
    using e sample_decoded
    by (simp add: get_signed_config_def negotiated_config_def do_contract_with_bearer_def sample_contract bindW_def ifW_def sample_headers)
      (simp add: sample_signed_def)
  with signed_config_never_downgraded [OF disjI1 [OF this]] show ?thesis by auto
qed

definition sample_policy_ref :: policy_ref where
  "sample_policy_ref = \<lparr>pr_generation = 2, pr_digest = replicate 64 (CHR ''a''),
     pr_path = policy_path 2 (replicate 64 (CHR ''a'')), pr_media_type = ''application/vnd.xconnect.policy.v1+json''\<rparr>"

lemma sample_policy_ref_valid: "policy_ref_validate sample_policy_ref = None"
  by (simp add: policy_ref_validate_def sample_policy_ref_def valid_digest_def match_all_def list_all_iff is_lower_hex_def code_def)

theorem policy_bearer_confined_witness:
  "\<exists>raw sent. get_enrollment_policy_artifact sample_web (\<lambda>_ _. Inr (sample_answer 200 policy_media_type ''private, no-store''))
     sample_client (opaque ''xenr_'') sample_policy_ref [] = (Inr raw, sent) \<and> length sent \<le> 1 \<and> length raw \<le> MaximumBody \<and>
     (\<forall>q \<in> set sent. hq_host q = ''z'' \<and> \<not> hq_follow q)"
proof -
  have answer: "policy_answer sample_web (sample_answer 200 policy_media_type ''private, no-store'') = Inr (bytes_of ''schema_version'')"
    using sample_body by (simp add: policy_answer_def sample_headers)
      (simp add: sample_answer_def sample_web_def policy_media_type_def read_all_def maximum_policy_body_def)
  obtain raw sent where run: "get_enrollment_policy_artifact sample_web (\<lambda>_ _. Inr (sample_answer 200 policy_media_type ''private, no-store''))
     sample_client (opaque ''xenr_'') sample_policy_ref [] = (Inr raw, sent)"
    using opaque_sample(1) sample_policy_ref_valid answer
    by (simp add: get_enrollment_policy_artifact_def ifW_def bindW_def tryW_def send_def sample_client_def sample_url_def sample_web_def)
  from policy_bearer_confined [OF run] run show ?thesis
    by (auto simp: sends_def sample_client_def sample_url_def)
qed

theorem poll_stops_exactly_on_refusal_witness:
  "\<exists>e sent. exchange_registration sample_web (\<lambda>_ _. Inr (sample_answer 410 [] [])) sample_client ''xreg_a'' (opaque ''xrt_'') zero_time [] =
     (Inl e, sent) \<and> fault_code_of e \<in> set final_codes"
proof -
  have id: "valid_registration_id ''xreg_a''" by code_simp
  have "u_scheme (ct_url sample_client) = ''https''" "wl_refused sample_web q = None" for q
    by (simp_all add: sample_client_def sample_url_def sample_web_def)
  then show ?thesis
    using poll_stops_exactly_on_refusal [of sample_client "''xreg_a''" "opaque ''xrt_''" sample_web
      "\<lambda>_ _. Inr (sample_answer 410 [] [])" "[]" "sample_answer 410 [] []" zero_time] id opaque_sample(2)
    by (auto simp: sample_answer_def)
qed

lemma client_sample_key: "valid_wireguard_public_key (std_encode (replicate 32 3))"
  by (simp add: valid_wireguard_public_key_def trim_space_all_graphic std_encode_graphic)

definition sample_exchange_request :: exchange_request where
  "sample_exchange_request = \<lparr>xq_token = opaque ''xjt_'', xq_device = ''dev'', xq_name = [], xq_platform = ''linux'', xq_hostname = [],
     xq_public_key = std_encode (replicate 32 3), xq_now = \<lparr>nanos = 20 * second, utc = True\<rparr>\<rparr>"

definition sample_checkpoint :: checkpoint where
  "sample_checkpoint = \<lparr>cp_schema = 0, cp_server = ''https://z'', cp_device = ''dev'', cp_device_name = [], cp_platform = ''linux'',
     cp_hostname = [], cp_network = [], cp_node = [], cp_private_key = [], cp_public_key = std_encode (replicate 32 3),
     cp_phase = PhaseStarted, cp_config = None, cp_contract = [], cp_config_id = [], cp_generation = 0, cp_invite = True,
     cp_enrollment_expires = zero_time, cp_last_error = [], cp_updated = zero_time\<rparr>"

lemma sample_networks: "valid_ipv4_prefix ''10.9.0.0/16''" "valid_ipv4_host_prefix ''10.9.0.2/32''"
  by code_simp+

lemma sample_call_time: "call_time \<lparr>nanos = 20 * second, utc = True\<rparr> t = \<lparr>nanos = 20 * second, utc = True\<rparr>"
  by (simp add: call_time_def is_zero_def zero_time_def second_def)

lemma sample_exchange_ok:
  "exchange_request_ok sample_client sample_exchange_request"
  "exchange_answer_ok sample_exchange_request \<lparr>nanos = 20 * second, utc = True\<rparr> sample_exchange"
proof -
  have "enrollment_device_id ''dev''" by code_simp
  then show "exchange_request_ok sample_client sample_exchange_request"
    using opaque_sample(3) client_sample_key
    by (simp add: exchange_request_ok_def sample_exchange_request_def sample_client_def sample_url_def valid_enrollment_platform_def)
  have scopes: "valid_device_credential_scope [''overlay:session:mint'', ''overlay:credential:rotate'', ''overlay:device:revoke'']"
    "valid_enrollment_scope_3 [''overlay:config:read'', ''overlay:config:ack'', ''overlay:device:revoke'']"
    by (simp_all add: valid_device_credential_scope_def credential_scopes_def valid_enrollment_scope_3_def enrollment_scopes_def)
  have window: "canonical_credential_window \<lparr>nanos = 10 * second, utc = True\<rparr> \<lparr>nanos = 10 * second + 20 * day, utc = True\<rparr>
      \<lparr>nanos = 20 * second, utc = True\<rparr>"
    by (simp add: canonical_credential_window_def canonical_window_def nanosecond_def after_def add_dur_def clock_skew_def
      sub_time_def saturate_def durations)
  have body: "exchange_body_ok sample_exchange \<lparr>nanos = 20 * second, utc = True\<rparr>"
    unfolding exchange_body_ok_def sample_exchange_def
    using opaque_sample(1) scopes window sample_networks
    by (simp add: sample_parsed after_def sub_time_def saturate_def maximum_enrollment_lifetime_def durations)
  then show "exchange_answer_ok sample_exchange_request \<lparr>nanos = 20 * second, utc = True\<rparr> sample_exchange"
    by (simp add: exchange_answer_ok_def sample_exchange_request_def) (simp add: sample_exchange_def)
qed

lemma sample_ring: "keys_validate \<lparr>ks_keys = ks_keys sample_keys, ks_etag = []\<rparr> = None"
  using sample_keys_valid by (simp add: keys_validate_iff)

lemma sample_exchanged:
  "\<exists>sent. exchange_join_token sample_web (\<lambda>_ _. Inr (sample_answer 200 ''application/json'' ''no-store'')) sample_client
     sample_exchange_request zero_time [] = (Inr sample_exchange, sent)"
proof -
  have now: "to_utc (call_time (xq_now sample_exchange_request) zero_time) = \<lparr>nanos = 20 * second, utc = True\<rparr>"
    by (simp add: sample_exchange_request_def sample_call_time to_utc_def)
  have "wl_exchange sample_web raw = Some sample_exchange" for raw by (simp add: sample_web_def)
  moreover have "xr_keys sample_exchange = ks_keys sample_keys" by (simp add: sample_exchange_def)
  ultimately show ?thesis
    using sample_exchange_ok sample_ring
    by (simp add: exchange_join_token_def do_contract_with_bearer_def sample_contract bindW_def ifW_def sample_headers now)
qed

theorem exchanged_token_storable_witness:
  "record_validate sample_cred_lib (exchanged_record sample_checkpoint sample_exchange) = None \<and>
   validate_enrollment_secret ((exchanged_session sample_checkpoint sample_exchange \<lparr>nanos = 20 * second, utc = True\<rparr>)\<lparr>en_schema := 1\<rparr>) = None"
proof -
  obtain sent where run: "exchange_join_token sample_web (\<lambda>_ _. Inr (sample_answer 200 ''application/json'' ''no-store'')) sample_client
     sample_exchange_request zero_time [] = (Inr sample_exchange, sent)" using sample_exchanged by blast
  show ?thesis
  proof (rule exchanged_token_storable [OF run])
    show "trim_space (cp_server sample_checkpoint) \<noteq> []"
      by (simp add: sample_checkpoint_def trim_space_graphic_nonempty graphic_def code_def)
    show "nanos (call_time (xq_now sample_exchange_request) zero_time) \<ge> 0"
      by (simp add: sample_exchange_request_def sample_call_time) (simp add: second_def)
  qed (simp_all add: sample_checkpoint_def sample_exchange_request_def sample_url_ok sample_ids, simp_all add: sample_exchange_def
      sample_ids zero_time_def after_def second_def)
qed


end
