(* ===== verification/Os_Host.thy ===== *)
theory Os_Host
  imports Desktop_Host
begin

text \<open>
  What the three backends of \<open>overlay/runtime\<close> share: the questions they put to the operating
  system, in order, and the effects they have on processes; \<open>canonicalPath\<close>; and \<open>Stop\<close>, which
  the Linux and the macOS backend write the same way around their own \<open>ProcessAlive\<close>. Every
  answer of the system is read from an environment by the number of the question. A contract
  says what \<open>Stop\<close> relies on, and what follows for the signals it sends.
\<close>

section \<open>Questions and effects\<close>

datatype signal = SIGTERM | SIGKILL

datatype os_event =
    Signalled nat int signal
  | Executed nat string "string list"
  | Spawned nat string "string list"
  | Terminated nat

record os =
  os_tick :: nat
  os_log :: "os_event list"

record os_env =
  oe_cwd :: "nat \<Rightarrow> string option"
  oe_eval :: "string \<Rightarrow> nat \<Rightarrow> string option"
  oe_readlink :: "string \<Rightarrow> nat \<Rightarrow> error + string"
  oe_read :: "string \<Rightarrow> nat \<Rightarrow> error + byte list"
  oe_scan :: "string \<Rightarrow> nat \<Rightarrow> error + byte list \<times> error option"
  oe_dir :: "string \<Rightarrow> nat \<Rightarrow> error + string list"
  oe_run :: "string \<Rightarrow> string list \<Rightarrow> nat \<Rightarrow> error option"
  oe_output :: "string \<Rightarrow> string list \<Rightarrow> nat \<Rightarrow> error + byte list"
  oe_spawn :: "string \<Rightarrow> string list \<Rightarrow> nat \<Rightarrow> error + int"
  oe_find :: "int \<Rightarrow> nat \<Rightarrow> error option"
  oe_signal :: "int \<Rightarrow> signal \<Rightarrow> nat \<Rightarrow> error option"
  oe_release :: "int \<Rightarrow> nat \<Rightarrow> error option"
  oe_listen :: "string \<Rightarrow> nat \<Rightarrow> error option"
  oe_interfaces :: "nat \<Rightarrow> error + (string \<times> int) list"
  oe_look :: "string \<Rightarrow> nat \<Rightarrow> error + string"
  oe_rounds :: "nat \<Rightarrow> nat"
  oe_pid :: int
  oe_nanos :: "nat \<Rightarrow> int"

type_synonym 'a sys = "(os, 'a) step"

definition next_tick :: "os \<Rightarrow> os" where
  "next_tick w = w\<lparr>os_tick := Suc (os_tick w)\<rparr>"

definition asks :: "(nat \<Rightarrow> 'a) \<Rightarrow> 'a sys" where
  "asks f w = (Inr (f (os_tick w)), next_tick w)"

definition queries :: "(nat \<Rightarrow> error + 'a) \<Rightarrow> 'a sys" where
  "queries f w = (f (os_tick w), next_tick w)"

definition does :: "(nat \<Rightarrow> os_event) \<Rightarrow> (nat \<Rightarrow> error + 'a) \<Rightarrow> 'a sys" where
  "does e f w = (f (os_tick w), next_tick (w\<lparr>os_log := os_log w @ [e (os_tick w)]\<rparr>))"

lemma next_tick_simps [simp]: "os_tick (next_tick w) = Suc (os_tick w)" "os_log (next_tick w) = os_log w"
  by (simp_all add: next_tick_def)

lemma asks_eq [simp]: "asks f w = (Inr (f (os_tick w)), next_tick w)"
  by (simp add: asks_def)

lemma queries_eq [simp]: "queries f w = (f (os_tick w), next_tick w)"
  by (simp add: queries_def)

section \<open>Paths\<close>

text \<open>\<open>filepath.Abs\<close> fails only without a working directory; a path that cannot be resolved is kept.\<close>

definition absolute_path :: "string option \<Rightarrow> string \<Rightarrow> string option" where
  "absolute_path cwd p = (if is_abs p then Some (clean p) else map_option (\<lambda>d. join_path [d, p]) cwd)"

definition canonical_path :: "os_env \<Rightarrow> string \<Rightarrow> string sys" where
  "canonical_path E p =
     bindW (asks (oe_cwd E)) (\<lambda>cwd.
       let path = (case absolute_path cwd p of None \<Rightarrow> p | Some a \<Rightarrow> a) in
       bindW (asks (oe_eval E path)) (\<lambda>r. ret (clean (case r of None \<Rightarrow> path | Some q \<Rightarrow> q))))"

text \<open>What it answers at a time.\<close>

definition canonical_at :: "os_env \<Rightarrow> string \<Rightarrow> nat \<Rightarrow> string" where
  "canonical_at E p n =
     (let path = (case absolute_path (oe_cwd E n) p of None \<Rightarrow> p | Some a \<Rightarrow> a)
      in clean (case oe_eval E path (Suc n) of None \<Rightarrow> path | Some q \<Rightarrow> q))"

lemma canonical_path_eq [simp]: "canonical_path E p w = (Inr (canonical_at E p (os_tick w)), next_tick (next_tick w))"
  by (simp add: canonical_path_def canonical_at_def bindW_def Let_def)

section \<open>Text of the system\<close>

text \<open>\<open>strings.Fields\<close>: the parts between runs of white-space runes.\<close>

fun space_length :: "string \<Rightarrow> nat" where
  "space_length (a # s) =
     (if space1 (code a) then 1
      else if (case s of b # _ \<Rightarrow> space2 (code a) (code b) | [] \<Rightarrow> False) then 2
      else if (case s of b # c # _ \<Rightarrow> space3 (code a) (code b) (code c) | _ \<Rightarrow> False) then 3
      else 0)"
| "space_length [] = 0"

definition flush :: "string \<Rightarrow> string list" where
  "flush cur = (if cur = [] then [] else [rev cur])"

function fields_from :: "string \<Rightarrow> string \<Rightarrow> string list" where
  "fields_from cur [] = flush cur"
| "fields_from cur (c # s) =
     (let n = space_length (c # s) in
      if n = 0 then fields_from (c # cur) s
      else flush cur @ fields_from [] (drop (n - 1) s))"
  by pat_completeness auto
termination by (relation "measure (\<lambda>(cur, s). length s)") auto

definition text_fields :: "string \<Rightarrow> string list" where
  "text_fields s = fields_from [] s"

text \<open>\<open>strconv.ParseUint\<close> with 16 bits, in base ten and sixteen.\<close>

definition parse_uint16 :: "string \<Rightarrow> nat option" where
  "parse_uint16 s = (case read_nat s of None \<Rightarrow> None | Some n \<Rightarrow> if n < 2 ^ 16 then Some n else None)"

fun hex_number_from :: "nat \<Rightarrow> string \<Rightarrow> nat option" where
  "hex_number_from acc [] = Some acc"
| "hex_number_from acc (c # cs) = (case hex_value c of None \<Rightarrow> None | Some d \<Rightarrow> hex_number_from (16 * acc + d) cs)"

definition parse_hex16 :: "string \<Rightarrow> nat option" where
  "parse_hex16 s = (if s = [] then None else case hex_number_from 0 s of None \<Rightarrow> None | Some n \<Rightarrow> if n < 2 ^ 16 then Some n else None)"

text \<open>\<open>strconv.Atoi\<close> on a 64-bit machine.\<close>

definition atoi :: "string \<Rightarrow> int option" where
  "atoi s =
     (let (negative, digits) = (case s of c # t \<Rightarrow> if c = CHR ''-'' then (True, t) else if c = CHR ''+'' then (False, t) else (False, s)
                                | [] \<Rightarrow> (False, []))
      in case read_nat digits of None \<Rightarrow> None
         | Some n \<Rightarrow> let v = (if negative then - int n else int n) in if - (2 ^ 63) \<le> v \<and> v < 2 ^ 63 then Some v else None)"

section \<open>Stop\<close>

definition send_signal :: "os_env \<Rightarrow> int \<Rightarrow> signal \<Rightarrow> unit sys" where
  "send_signal E pid s = does (\<lambda>n. Signalled n pid s) (\<lambda>n. of_option (oe_signal E pid s n))"

text \<open>The loop until the deadline: whether the process is still there when it ends.\<close>

primrec await_exit :: "bool sys \<Rightarrow> nat \<Rightarrow> bool sys" where
  "await_exit alive 0 = ret True"
| "await_exit alive (Suc n) = bindW alive (\<lambda>a. if a then await_exit alive n else ret False)"

text \<open>\<open>SIGTERM\<close> to a process that has just ended is no failure.\<close>

definition signal_failed :: "error + unit \<Rightarrow> error option" where
  "signal_failed s = (case s of Inl e \<Rightarrow> if errors_is e ErrProcessDone then None else Some e | Inr u \<Rightarrow> None)"

definition kill_remaining :: "os_env \<Rightarrow> bool sys \<Rightarrow> int \<Rightarrow> unit sys" where
  "kill_remaining E alive pid =
     bindW (asks (oe_rounds E)) (\<lambda>n.
     bindW (await_exit alive n) (\<lambda>still.
       if \<not> still then ret ()
       else bindW alive (\<lambda>b. if b then send_signal E pid SIGKILL else ret ())))"

definition stop_checked :: "os_env \<Rightarrow> bool sys \<Rightarrow> int \<Rightarrow> unit sys" where
  "stop_checked E alive pid =
     bindW alive (\<lambda>a. if \<not> a then ret () else
     bindW (queries (\<lambda>n. of_option (oe_find E pid n))) (\<lambda>_.
     bindW (tryW (send_signal E pid SIGTERM)) (\<lambda>s.
       case signal_failed s of Some e \<Rightarrow> raise e | None \<Rightarrow> kill_remaining E alive pid)))"

section \<open>The contract of a process check\<close>

text \<open>
  \<open>seen k m\<close>: the answers from number \<open>k\<close> to before \<open>m\<close> show the process that was started. A
  signal is justified if it follows such an inspection at once; there are at most two.
\<close>

definition signals_justified :: "(nat \<Rightarrow> nat \<Rightarrow> bool) \<Rightarrow> nat \<Rightarrow> int \<Rightarrow> os_event list \<Rightarrow> bool" where
  "signals_justified seen start pid sent \<longleftrightarrow>
     sent = [] \<or>
     (\<exists>k m. start \<le> k \<and> seen k m \<and> sent = [Signalled (Suc m) pid SIGTERM]) \<or>
     (\<exists>k m k' m'. start \<le> k \<and> seen k m \<and> m < k' \<and> seen k' m' \<and>
        sent = [Signalled (Suc m) pid SIGTERM, Signalled m' pid SIGKILL])"

locale process_check =
  fixes alive :: "bool sys" and seen :: "nat \<Rightarrow> nat \<Rightarrow> bool"
  assumes quiet: "alive w = (r, v) \<Longrightarrow> os_log v = os_log w \<and> os_tick w \<le> os_tick v"
    and proven: "alive w = (Inr True, v) \<Longrightarrow> seen (os_tick w) (os_tick v)"
begin

lemma await_quiet: "await_exit alive n w = (r, v) \<Longrightarrow> os_log v = os_log w \<and> os_tick w \<le> os_tick v"
proof (induction n arbitrary: w)
  case (Suc n)
  from Suc.prems have run: "bindW alive (\<lambda>a. if a then await_exit alive n else ret False) w = (r, v)" by simp
  from run show ?case
  proof (cases rule: bindW_cases)
    case (stopped e)
    then show ?thesis using quiet by blast
  next
    case (went a u)
    from quiet [OF went(1)] have first: "os_log u = os_log w" "os_tick w \<le> os_tick u" by auto
    show ?thesis
    proof (cases a)
      case True
      with went(2) have "await_exit alive n u = (r, v)" by simp
      from Suc.IH [OF this] first show ?thesis by simp
    next
      case False
      with went(2) first show ?thesis by simp
    qed
  qed
qed simp

lemma kill_justified:
  assumes "kill_remaining E alive pid w = (r, v)"
  shows "os_log v = os_log w \<or>
    (\<exists>k m. os_tick w \<le> k \<and> seen k m \<and> os_log v = os_log w @ [Signalled m pid SIGKILL])"
proof -
  let ?last = "\<lambda>still. if \<not> still then ret () else bindW alive (\<lambda>b. if b then send_signal E pid SIGKILL else ret ())"
  have "bindW (await_exit alive (oe_rounds E (os_tick w))) ?last (next_tick w) = (r, v)"
    using assms by (simp add: kill_remaining_def bindW_def)
  then show ?thesis
  proof (cases rule: bindW_cases)
    case (stopped e)
    from await_quiet [OF stopped(1)] show ?thesis by simp
  next
    case (went still u)
    from await_quiet [OF went(1)] have wait: "os_log u = os_log w" "os_tick w \<le> os_tick u" by auto
    show ?thesis
    proof (cases still)
      case False
      with went(2) wait show ?thesis by simp
    next
      case True
      with went(2) have "bindW alive (\<lambda>b. if b then send_signal E pid SIGKILL else ret ()) u = (r, v)" by simp
      then show ?thesis
      proof (cases rule: bindW_cases)
        case (stopped e)
        from quiet [OF stopped(1)] wait show ?thesis by simp
      next
        case (went b x)
        from quiet [OF went(1)] wait have now: "os_log x = os_log w" by simp
        show ?thesis
        proof (cases b)
          case True
          with proven [of u x] went(1) have "seen (os_tick u) (os_tick x)" by simp
          moreover have "os_log v = os_log w @ [Signalled (os_tick x) pid SIGKILL]"
            using went(2) True now by (auto simp: send_signal_def does_def)
          ultimately show ?thesis using wait by blast
        qed (use went(2) now in simp)
      qed
    qed
  qed
qed

lemma stop_justified:
  assumes "stop_checked E alive pid w = (r, v)"
  shows "\<exists>sent. os_log v = os_log w @ sent \<and> signals_justified seen (os_tick w) pid sent"
proof -
  let ?none = "\<exists>sent. os_log v = os_log w @ sent \<and> signals_justified seen (os_tick w) pid sent"
  have none: ?none if "os_log v = os_log w" using that by (simp add: signals_justified_def)
  from assms show ?thesis unfolding stop_checked_def
  proof (cases rule: bindW_cases)
    case (stopped e)
    from quiet [OF stopped(1)] show ?thesis by (intro none) simp
  next
    case (went a u)
    from quiet [OF went(1)] have first: "os_log u = os_log w" by simp
    show ?thesis
    proof (cases a)
      case False
      with went(2) first show ?thesis by (intro none) simp
    next
      case True
      with proven [of w u] went(1) have evidence: "seen (os_tick w) (os_tick u)" by simp
      let ?n = "Suc (os_tick u)"
      let ?x = "next_tick ((next_tick u)\<lparr>os_log := os_log u @ [Signalled ?n pid SIGTERM]\<rparr>)"
      show ?thesis
      proof (cases "oe_find E pid (os_tick u)")
        case (Some e)
        with went(2) True first show ?thesis by (intro none) (auto simp: bindW_def of_option_def)
      next
        case None
        have "(case signal_failed (of_option (oe_signal E pid SIGTERM ?n)) of Some e \<Rightarrow> raise e
            | None \<Rightarrow> kill_remaining E alive pid) ?x = (r, v)"
          using went(2) True None by (auto simp: bindW_def tryW_def send_signal_def does_def of_option_def)
        then consider (failed) "os_log v = os_log ?x" | (on) "kill_remaining E alive pid ?x = (r, v)"
          by (auto split: option.splits)
        then show ?thesis
        proof cases
          case failed
          with evidence first show ?thesis unfolding signals_justified_def by auto
        next
          case on
          from kill_justified [OF on] show ?thesis
          proof
            assume "os_log v = os_log ?x"
            with evidence first show ?thesis unfolding signals_justified_def by auto
          next
            assume "\<exists>k m. os_tick ?x \<le> k \<and> seen k m \<and> os_log v = os_log ?x @ [Signalled m pid SIGKILL]"
            then obtain k m where last: "os_tick ?x \<le> k" "seen k m" "os_log v = os_log ?x @ [Signalled m pid SIGKILL]" by blast
            then have "os_tick u < k" by simp
            with evidence last(2) have "signals_justified seen (os_tick w) pid [Signalled ?n pid SIGTERM, Signalled m pid SIGKILL]"
              unfolding signals_justified_def by blast
            with last(3) first show ?thesis by auto
          qed
        qed
      qed
    qed
  qed
qed

end

end
