(* ===== verification/Linux_Backend.thy ===== *)
theory Linux_Backend
  imports Os_Host
begin

text \<open>
  The Linux backend, \<open>overlay/runtime/desktop_os.go\<close>: processes are started as transient systemd
  units and recognised by what \<open>/proc\<close> says of them; a socket belongs to a process if its inode
  is among the open files of the process.
\<close>

section \<open>Questions\<close>

definition linux_look_path :: "os_env \<Rightarrow> string \<Rightarrow> string sys" where
  "linux_look_path E name = bindW (queries (oe_look E name)) (canonical_path E)"

definition index_of :: "(string \<times> int) list \<Rightarrow> string \<Rightarrow> int" where
  "index_of interfaces name = (case map_of interfaces name of None \<Rightarrow> 0 | Some i \<Rightarrow> i)"

definition linux_interface_index :: "os_env \<Rightarrow> string \<Rightarrow> int sys" where
  "linux_interface_index E name = bindW (queries (oe_interfaces E)) (\<lambda>l. ret (index_of l name))"

definition execute :: "os_env \<Rightarrow> string \<Rightarrow> string list \<Rightarrow> unit sys" where
  "execute E name args = does (\<lambda>n. Executed n name args) (\<lambda>n. of_option (oe_run E name args n))"

definition linux_run :: "os_env \<Rightarrow> string \<Rightarrow> string list \<Rightarrow> unit sys" where
  "linux_run E name args = execute E name args"

definition linux_loopback_available :: "os_env \<Rightarrow> string \<Rightarrow> bool sys" where
  "linux_loopback_available E address =
     bindW (asks (oe_listen E address)) (\<lambda>e. case e of
       None \<Rightarrow> ret True
     | Some x \<Rightarrow> if errors_is x ErrAddrInUse then ret False else raise x)"

section \<open>The identity of a process\<close>

text \<open>Field 22 of \<open>/proc/pid/stat\<close>: the second field is the name in parentheses, which may hold anything.\<close>

definition start_token_of :: "byte list \<Rightarrow> error + string" where
  "start_token_of raw =
     (case split_last CHR '')'' (string_of raw) of
        None \<Rightarrow> Inl (Plain ''invalid process stat'')
      | Some (name, rest) \<Rightarrow>
          if length rest \<le> 1 then Inl (Plain ''invalid process stat'')
          else let fs = text_fields (drop 1 rest) in
            if length fs \<le> 19 then Inl (Plain ''incomplete process stat'') else Inr (fs ! 19))"

definition proc_path :: "int \<Rightarrow> string \<Rightarrow> string" where
  "proc_path pid name = join_path [''/proc'', show_int pid, name]"

definition linux_process_start_token :: "os_env \<Rightarrow> int \<Rightarrow> string sys" where
  "linux_process_start_token E pid =
     bindW (queries (oe_read E (proc_path pid ''stat''))) (\<lambda>raw. of_result (start_token_of raw))"

fun contains_config_argument :: "string list \<Rightarrow> string \<Rightarrow> bool" where
  "contains_config_argument (a # b # args) expected =
     (a = ''-config'' \<and> clean b = clean expected \<or> contains_config_argument (b # args) expected)"
| "contains_config_argument _ expected = False"

definition nul :: char where "nul = CHR 0x00"

text \<open>The arguments of a command line end with a zero byte each.\<close>

definition arguments_of :: "byte list \<Rightarrow> string list" where
  "arguments_of raw = split_on nul (rev (dropWhile (\<lambda>c. c = nul) (rev (string_of raw))))"

definition incomplete :: "process_identity \<Rightarrow> bool" where
  "incomplete p \<longleftrightarrow> pi_pid p \<le> 0 \<or> pi_start p = [] \<or> pi_executable p = [] \<or> pi_config p = []"

text \<open>A process that is not there is no error; one that is another process is.\<close>

definition gone_or :: "error \<Rightarrow> (error \<Rightarrow> error) \<Rightarrow> bool sys" where
  "gone_or e f = (if errors_is e ErrNotExist then ret False else raise (f e))"

definition linux_process_alive :: "os_env \<Rightarrow> process_identity \<Rightarrow> bool sys" where
  "linux_process_alive E p =
     ifW (incomplete p) (Plain ''incomplete process identity'')
     (bindW (tryW (queries (oe_readlink E (proc_path (pi_pid p) ''exe'')))) (\<lambda>link. case link of
        Inl e \<Rightarrow> gone_or e (\<lambda>e. e)
      | Inr executable \<Rightarrow>
          bindW (canonical_path E executable) (\<lambda>have.
          bindW (canonical_path E (pi_executable p)) (\<lambda>want.
          ifW (have \<noteq> want) (Plain ''executable identity mismatch'')
          (bindW (tryW (linux_process_start_token E (pi_pid p))) (\<lambda>token. case token of
             Inl e \<Rightarrow> gone_or e (\<lambda>_. Plain ''process start identity mismatch'')
           | Inr t \<Rightarrow>
               ifW (t \<noteq> pi_start p) (Plain ''process start identity mismatch'')
               (bindW (queries (oe_read E (proc_path (pi_pid p) ''cmdline''))) (\<lambda>raw.
                ifW (\<not> contains_config_argument (arguments_of raw) (pi_config p)) (Plain ''process config identity mismatch'')
                (ret True)))))))))"

definition linux_stop :: "os_env \<Rightarrow> process_identity \<Rightarrow> unit sys" where
  "linux_stop E p = stop_checked E (linux_process_alive E p) (pi_pid p)"

section \<open>Start\<close>

definition systemd_run_arguments :: "string \<Rightarrow> string \<Rightarrow> string list \<Rightarrow> string list" where
  "systemd_run_arguments unit executable args =
     [''--unit'', unit, ''--collect'', ''--quiet'', ''--property=Type=exec'', ''--property=Restart=no'',
      ''--property=StandardOutput=null'', ''--property=StandardError=null'', ''--'', executable] @ args"

definition main_pid_of :: "byte list \<Rightarrow> int option" where
  "main_pid_of raw = (case atoi (trim_space (string_of raw)) of Some pid \<Rightarrow> if 0 < pid then Some pid else None | None \<Rightarrow> None)"

primrec await_main_pid :: "os_env \<Rightarrow> string \<Rightarrow> nat \<Rightarrow> int sys" where
  "await_main_pid E unit 0 = raise (Plain ''systemd runtime did not publish a main PID'')"
| "await_main_pid E unit (Suc n) =
     bindW (tryW (queries (oe_output E ''systemctl'' [''show'', ''--property=MainPID'', ''--value'', unit]))) (\<lambda>r.
       case (case r of Inl e \<Rightarrow> None | Inr raw \<Rightarrow> main_pid_of raw) of
         Some pid \<Rightarrow> ret pid | None \<Rightarrow> await_main_pid E unit n)"

definition systemd_main_pid :: "os_env \<Rightarrow> string \<Rightarrow> int sys" where
  "systemd_main_pid E unit = bindW (asks (oe_rounds E)) (await_main_pid E unit)"

definition stop_unit :: "os_env \<Rightarrow> string \<Rightarrow> error \<Rightarrow> 'a sys" where
  "stop_unit E unit e = bindW (tryW (execute E ''systemctl'' [''stop'', unit])) (\<lambda>_. raise e)"

definition linux_start :: "os_env \<Rightarrow> string \<Rightarrow> string list \<Rightarrow> string \<Rightarrow> string \<Rightarrow> process_identity sys" where
  "linux_start E executable args revision digest =
     bindW (asks (oe_nanos E)) (\<lambda>now.
       let unit = ''xconnect-one-xray-'' @ show_int (oe_pid E) @ ''-'' @ show_int now in
       bindW (execute E ''systemd-run'' (systemd_run_arguments unit executable args)) (\<lambda>_.
       bindW (tryW (systemd_main_pid E unit)) (\<lambda>main. case main of
         Inl e \<Rightarrow> stop_unit E unit e
       | Inr pid \<Rightarrow>
           bindW (canonical_path E executable) (\<lambda>path.
           bindW (tryW (linux_process_start_token E pid)) (\<lambda>token. case token of
             Inl e \<Rightarrow> stop_unit E unit e
           | Inr t \<Rightarrow> ret \<lparr>pi_pid = pid, pi_executable = path, pi_config = config_argument args, pi_sha256 = digest,
                pi_revision = revision, pi_start = t\<rparr>)))))"

section \<open>Sockets\<close>

definition trim_suffix :: "string \<Rightarrow> string \<Rightarrow> string" where
  "trim_suffix s p = (if has_suffix s p then take (length s - length p) s else s)"

definition socket_inode :: "error + string \<Rightarrow> string option" where
  "socket_inode r = (case r of Inl e \<Rightarrow> None
     | Inr target \<Rightarrow> if has_prefix target ''socket:['' \<and> has_suffix target '']''
         then Some (trim_suffix (trim_prefix target ''socket:['') '']'') else None)"

primrec read_inodes :: "os_env \<Rightarrow> int \<Rightarrow> string list \<Rightarrow> string set sys" where
  "read_inodes E pid [] = ret {}"
| "read_inodes E pid (f # fs) =
     bindW (tryW (queries (oe_readlink E (join_path [''/proc'', show_int pid, ''fd'', f])))) (\<lambda>r.
     bindW (read_inodes E pid fs) (\<lambda>inodes.
       ret (case socket_inode r of None \<Rightarrow> inodes | Some i \<Rightarrow> insert i inodes)))"

definition process_socket_inodes :: "os_env \<Rightarrow> int \<Rightarrow> string set sys" where
  "process_socket_inodes E pid = bindW (queries (oe_dir E (proc_path pid ''fd''))) (read_inodes E pid)"

text \<open>\<open>bufio.Scanner\<close>: lines without their ends, and an error where a line does not fit its buffer.\<close>

definition scan_lines :: "string \<Rightarrow> string list" where
  "scan_lines s = (let ls = split_on CHR 0x0A s in if last ls = [] then butlast ls else ls)"

definition drop_cr :: "string \<Rightarrow> string" where
  "drop_cr l = (if l \<noteq> [] \<and> last l = CHR 0x0D then butlast l else l)"

definition udp_row :: "string set \<Rightarrow> nat \<Rightarrow> string \<Rightarrow> bool" where
  "udp_row inodes port line =
     (let fs = text_fields line in
      if length fs < 10 \<or> fs ! 1 = ''local_address'' then False
      else let parts = split_on CHR '':'' (fs ! 1) in
        if length parts \<noteq> 2 \<or> parts ! 0 \<noteq> ''0100007F'' then False
        else parse_hex16 (parts ! 1) = Some port \<and> fs ! 9 \<in> inodes)"

fun scan_rows :: "(string \<Rightarrow> bool) \<Rightarrow> error option \<Rightarrow> string list \<Rightarrow> error + bool" where
  "scan_rows hit failed [] = (case failed of Some e \<Rightarrow> Inl e | None \<Rightarrow> Inr False)"
| "scan_rows hit failed (l # ls) =
     (if 65536 \<le> length l then Inl (Plain ''bufio.Scanner: token too long'')
      else if hit (drop_cr l) then Inr True else scan_rows hit failed ls)"

definition linux_loopback_owned :: "os_env \<Rightarrow> process_identity \<Rightarrow> string \<Rightarrow> bool sys" where
  "linux_loopback_owned E p address =
     (case split_host_port address of
        None \<Rightarrow> raise (Plain ''invalid address'')
      | Some (host, port_value) \<Rightarrow>
          (case parse_uint16 port_value of
             None \<Rightarrow> raise (Plain ''invalid syntax'')
           | Some port \<Rightarrow>
               bindW (process_socket_inodes E (pi_pid p)) (\<lambda>inodes.
               bindW (queries (oe_scan E ''/proc/net/udp'')) (\<lambda>(raw, failed).
                 of_result (scan_rows (udp_row inodes port) failed (scan_lines (string_of raw)))))))"

section \<open>What the checks show\<close>

text \<open>The seven answers from number \<open>k\<close> on that show a process to be the one of an identity.\<close>

definition linux_seen :: "os_env \<Rightarrow> process_identity \<Rightarrow> nat \<Rightarrow> nat \<Rightarrow> bool" where
  "linux_seen E p k m \<longleftrightarrow>
     \<not> incomplete p \<and> m = k + 7 \<and>
     (\<exists>executable. oe_readlink E (proc_path (pi_pid p) ''exe'') k = Inr executable \<and>
        canonical_at E executable (k + 1) = canonical_at E (pi_executable p) (k + 3)) \<and>
     (\<exists>raw. oe_read E (proc_path (pi_pid p) ''stat'') (k + 5) = Inr raw \<and> start_token_of raw = Inr (pi_start p)) \<and>
     (\<exists>raw. oe_read E (proc_path (pi_pid p) ''cmdline'') (k + 6) = Inr raw \<and>
        contains_config_argument (arguments_of raw) (pi_config p))"

lemma contains_config_argument_iff:
  "contains_config_argument args expected \<longleftrightarrow>
     (\<exists>i. Suc i < length args \<and> args ! i = ''-config'' \<and> clean (args ! Suc i) = clean expected)"
proof (induction args expected rule: contains_config_argument.induct)
  case (1 a b args expected)
  have "(\<exists>i. Suc i < length (a # b # args) \<and> (a # b # args) ! i = ''-config'' \<and> clean ((a # b # args) ! Suc i) = clean expected) \<longleftrightarrow>
    a = ''-config'' \<and> clean b = clean expected \<or>
    (\<exists>i. Suc i < length (b # args) \<and> (b # args) ! i = ''-config'' \<and> clean ((b # args) ! Suc i) = clean expected)"
    (is "(\<exists>i. ?P i) \<longleftrightarrow> ?now \<or> (\<exists>i. ?Q i)")
  proof
    assume "\<exists>i. ?P i"
    then obtain i where "?P i" by blast
    then show "?now \<or> (\<exists>i. ?Q i)" by (cases i) auto
  next
    assume "?now \<or> (\<exists>i. ?Q i)"
    then show "\<exists>i. ?P i"
    proof
      assume ?now
      then have "?P 0" by simp
      then show ?thesis by blast
    next
      assume "\<exists>i. ?Q i"
      then obtain i where "?Q i" by blast
      then have "?P (Suc i)" by simp
      then show ?thesis by blast
    qed
  qed
  with 1 show ?case by simp
qed simp_all

text \<open>No check has an effect, and the clock of the answers only goes on.\<close>

definition silent :: "os \<Rightarrow> os \<Rightarrow> bool" where
  "silent w v \<longleftrightarrow> os_log v = os_log w \<and> os_tick w \<le> os_tick v"

interpretation silence: step_preorder silent
  by unfold_locales (auto simp: silent_def)

lemma queries_silent [keeps]: "keeps_rel silent (queries f)"
  by (simp add: keeps_rel_def silent_def)

lemma asks_silent [keeps]: "keeps_rel silent (asks f)"
  by (simp add: keeps_rel_def silent_def)

lemma canonical_silent [keeps]: "keeps_rel silent (canonical_path E q)"
  by (simp add: keeps_rel_def silent_def)

lemmas silence_keeps = silence.ret_keeps silence.raise_keeps silence.of_result_keeps silence.bindW_keeps silence.tryW_keeps
  silence.ifW_keeps silence.if_keeps silence.sum_keeps silence.option_keeps queries_silent asks_silent canonical_silent

lemma linux_alive_silent: "keeps_rel silent (linux_process_alive E p)"
  unfolding linux_process_alive_def gone_or_def linux_process_start_token_def by (intro silence_keeps)

lemma linux_alive_iff:
  "linux_process_alive E p w = (Inr True, v) \<longleftrightarrow>
     linux_seen E p (os_tick w) (os_tick v) \<and> v = w\<lparr>os_tick := os_tick w + 7\<rparr>"
  by (auto simp: linux_process_alive_def linux_seen_def gone_or_def linux_process_start_token_def guard_simps
      next_tick_def eval_nat_numeral split: if_splits)

interpretation linux: process_check "linux_process_alive E p" "linux_seen E p" for E p
proof
  fix w r v
  assume run: "linux_process_alive E p w = (r, v)"
  show "os_log v = os_log w \<and> os_tick w \<le> os_tick v"
    using keeps_relD [OF linux_alive_silent run] by (simp add: silent_def)
next
  fix w v
  assume "linux_process_alive E p w = (Inr True, v)"
  then show "linux_seen E p (os_tick w) (os_tick v)" using linux_alive_iff by blast
qed

text \<open>
  C31. The Linux backend signals only the process it started: every signal of \<open>Stop\<close> goes to
  the recorded process id, directly after an inspection of \<open>/proc\<close> in which the executable, the
  start time and the \<open>-config\<close> argument were those of the identity. There is at most one
  \<open>SIGTERM\<close>, and after it at most one \<open>SIGKILL\<close>, which needs an inspection of its own.
\<close>

theorem linux_stop_only_started:
  assumes "linux_stop E p w = (r, w')"
  shows "\<exists>sent. os_log w' = os_log w @ sent \<and> signals_justified (linux_seen E p) (os_tick w) (pi_pid p) sent"
  using assms unfolding linux_stop_def by (rule linux.stop_justified)

section \<open>Who owns a socket\<close>

lemma read_inodes_found:
  "read_inodes E pid fs w = (Inr inodes, v) \<Longrightarrow> i \<in> inodes \<Longrightarrow>
     \<exists>f n. f \<in> set fs \<and> socket_inode (oe_readlink E (join_path [''/proc'', show_int pid, ''fd'', f]) n) = Some i"
proof (induction fs arbitrary: w inodes v)
  case (Cons f fs)
  let ?r = "oe_readlink E (join_path [''/proc'', show_int pid, ''fd'', f]) (os_tick w)"
  from Cons.prems(1) obtain rest u where rest: "read_inodes E pid fs (next_tick w) = (Inr rest, u)"
    and here: "inodes = (case socket_inode ?r of None \<Rightarrow> rest | Some j \<Rightarrow> insert j rest)"
    by (auto simp: guard_simps)
  show ?case
  proof (cases "socket_inode ?r = Some i")
    case False
    with here Cons.prems(2) have "i \<in> rest" by (auto split: option.splits)
    from Cons.IH [OF rest this] show ?thesis by (metis list.set_intros(2))
  qed auto
qed simp

lemma scan_rows_true: "scan_rows hit failed ls = Inr True \<Longrightarrow> \<exists>l \<in> set ls. hit (drop_cr l)"
  by (induction ls) (auto split: option.splits if_splits)

theorem linux_loopback_owned_evidence:
  assumes "linux_loopback_owned E p address w = (Inr True, v)"
  shows "\<exists>host given port n raw failed line fs inode f m.
    split_host_port address = Some (host, given) \<and> parse_uint16 given = Some port \<and>
    oe_scan E ''/proc/net/udp'' n = Inr (raw, failed) \<and> line \<in> set (scan_lines (string_of raw)) \<and>
    fs = text_fields (drop_cr line) \<and> 10 \<le> length fs \<and> fs ! 9 = inode \<and>
    (\<exists>digits. split_on CHR '':'' (fs ! 1) = [''0100007F'', digits] \<and> parse_hex16 digits = Some port) \<and>
    socket_inode (oe_readlink E (join_path [''/proc'', show_int (pi_pid p), ''fd'', f]) m) = Some inode"
proof -
  from assms obtain host given port where address: "split_host_port address = Some (host, given)" "parse_uint16 given = Some port"
    by (auto simp: linux_loopback_owned_def split: option.splits)
  with assms obtain names inodes u raw failed where
    inodes: "read_inodes E (pi_pid p) names (next_tick w) = (Inr inodes, u)"
    and scan: "oe_scan E ''/proc/net/udp'' (os_tick u) = Inr (raw, failed)"
    and rows: "scan_rows (udp_row inodes port) failed (scan_lines (string_of raw)) = Inr True"
    by (auto simp: linux_loopback_owned_def process_socket_inodes_def guard_simps)
  from scan_rows_true [OF rows] obtain line where line: "line \<in> set (scan_lines (string_of raw))" "udp_row inodes port (drop_cr line)"
    by blast
  let ?fs = "text_fields (drop_cr line)"
  from line(2) have ten: "10 \<le> length ?fs" and parts: "length (split_on CHR '':'' (?fs ! 1)) = 2" "split_on CHR '':'' (?fs ! 1) ! 0 = ''0100007F''"
    and port: "parse_hex16 (split_on CHR '':'' (?fs ! 1) ! 1) = Some port" and found: "?fs ! 9 \<in> inodes"
    by (auto simp: udp_row_def Let_def split: if_splits)
  from parts have "split_on CHR '':'' (?fs ! 1) = [''0100007F'', split_on CHR '':'' (?fs ! 1) ! 1]"
    by (cases "split_on CHR '':'' (?fs ! 1)" rule: remdups_adj.cases) auto
  with port have digits: "\<exists>digits. split_on CHR '':'' (?fs ! 1) = [''0100007F'', digits] \<and> parse_hex16 digits = Some port" by blast
  from read_inodes_found [OF inodes found] obtain f m
    where "socket_inode (oe_readlink E (join_path [''/proc'', show_int (pi_pid p), ''fd'', f]) m) = Some (?fs ! 9)" by blast
  with address scan line(1) ten digits show ?thesis by blast
qed

section \<open>A process of its own\<close>

definition sample_os :: os_env where
  "sample_os =
     \<lparr>oe_cwd = (\<lambda>n. None), oe_eval = (\<lambda>p n. Some p),
      oe_readlink = (\<lambda>p n. if p = ''/proc/7/exe'' then Inr ''/x'' else Inl (Sentinel ErrNotExist)),
      oe_read = (\<lambda>p n. if p = ''/proc/7/stat''
          then Inr (bytes_of ''7 (x) S 1 2 3 4 5 6 7 8 9 10 11 12 13 14 15 16 17 18 99 20'')
        else if p = ''/proc/7/cmdline'' then Inr (bytes_of (''/x'' @ nul # ''-config'' @ nul # ''/c'' @ [nul]))
        else Inl (Sentinel ErrNotExist)),
      oe_scan = (\<lambda>p n. Inl (Sentinel ErrNotExist)), oe_dir = (\<lambda>p n. Inr []), oe_run = (\<lambda>c a n. None),
      oe_output = (\<lambda>c a n. Inr []), oe_spawn = (\<lambda>c a n. Inr 7), oe_find = (\<lambda>p n. None), oe_signal = (\<lambda>p s n. None),
      oe_release = (\<lambda>p n. None), oe_listen = (\<lambda>a n. None), oe_interfaces = (\<lambda>n. Inr []), oe_look = (\<lambda>c n. Inr c),
      oe_rounds = (\<lambda>n. 1), oe_pid = 1, oe_nanos = (\<lambda>n. 0)\<rparr>"

definition sample_started :: process_identity where
  "sample_started = \<lparr>pi_pid = 7, pi_executable = ''/x'', pi_config = ''/c'', pi_sha256 = [], pi_revision = [], pi_start = ''99''\<rparr>"

definition sample_boot :: os where
  "sample_boot = \<lparr>os_tick = 0, os_log = []\<rparr>"

lemma sample_paths: "proc_path 7 ''exe'' = ''/proc/7/exe''" "proc_path 7 ''stat'' = ''/proc/7/stat''" "proc_path 7 ''cmdline'' = ''/proc/7/cmdline''"
  by code_simp+

lemma sample_stat: "start_token_of (bytes_of ''7 (x) S 1 2 3 4 5 6 7 8 9 10 11 12 13 14 15 16 17 18 99 20'') = Inr ''99''"
  unfolding start_token_of_def string_of_bytes_of by code_simp

lemma sample_arguments: "arguments_of (bytes_of (''/x'' @ nul # ''-config'' @ nul # ''/c'' @ [nul])) = [''/x'', ''-config'', ''/c'']"
  unfolding arguments_of_def string_of_bytes_of by code_simp

lemma sample_found: "linux_seen sample_os sample_started n (n + 7)"
  by (simp add: linux_seen_def sample_started_def incomplete_def sample_paths sample_os_def canonical_at_def sample_stat sample_arguments [simplified])

lemma sample_alive: "linux_process_alive sample_os sample_started w = (Inr True, w\<lparr>os_tick := os_tick w + 7\<rparr>)"
  by (simp add: linux_alive_iff sample_found)

lemma linux_stop_run: "os_log (snd (linux_stop sample_os sample_started sample_boot)) = [Signalled 8 7 SIGTERM, Signalled 24 7 SIGKILL]"
  by (simp add: linux_stop_def stop_checked_def kill_remaining_def bindW_def tryW_def sample_alive sample_boot_def
      sample_started_def [THEN arg_cong [where f=pi_pid]] send_signal_def does_def signal_failed_def of_option_def
      next_tick_def sample_os_def [THEN arg_cong [where f=oe_find]] sample_os_def [THEN arg_cong [where f=oe_signal]]
      sample_os_def [THEN arg_cong [where f=oe_rounds]])

corollary linux_stop_only_started_witness:
  "\<exists>sent. os_log (snd (linux_stop sample_os sample_started sample_boot)) = os_log sample_boot @ sent \<and>
     signals_justified (linux_seen sample_os sample_started) 0 7 sent \<and> length sent = 2"
  using linux_stop_only_started [of sample_os sample_started sample_boot, OF prod.collapse [symmetric]] linux_stop_run
  by (auto simp: sample_boot_def sample_started_def)

end
