(* ===== verification/Darwin_Backend.thy ===== *)
theory Darwin_Backend
  imports Linux_Backend
begin

text \<open>
  The macOS backend, \<open>overlay/runtime/desktop_os_darwin.go\<close>: processes are recognised by what
  \<open>ps\<close> prints of them, and the \<open>utun\<close> interface behind a WireGuard name is read from the files
  \<open>wireguard-go\<close> leaves in a directory that only root controls.
\<close>

section \<open>Data\<close>

text \<open>\<open>os.FileInfo\<close>: the type bits of the mode, its permission bits, the owner, the time in seconds.\<close>

record file_info =
  fi_dir :: bool
  fi_link :: bool
  fi_socket :: bool
  fi_regular :: bool
  fi_perm :: "32 word"
  fi_uid :: "nat option"
  fi_mtime :: int

datatype 'a command_result = Finished 'a | ExitError | ExecError error

record darwin_env =
  de_os :: os_env
  de_sha256 :: "byte list \<Rightarrow> byte list"
  de_dir :: string
  de_lstat :: "string \<Rightarrow> nat \<Rightarrow> error + file_info"
  de_stat :: "string \<Rightarrow> nat \<Rightarrow> error + file_info"
  de_open :: "string \<Rightarrow> nat \<Rightarrow> error option"
  de_fstat :: "string \<Rightarrow> nat \<Rightarrow> error + file_info"
  de_contents :: "string \<Rightarrow> nat \<Rightarrow> error + byte list"
  de_environ :: "nat \<Rightarrow> string list"
  de_ps :: "string list \<Rightarrow> string list \<Rightarrow> nat \<Rightarrow> byte list command_result"
  de_lsof :: "string list \<Rightarrow> nat \<Rightarrow> unit command_result"
  de_euid :: "nat \<Rightarrow> nat"

section \<open>The directory of WireGuard\<close>

definition darwin_interface_name_ok :: "string \<Rightarrow> bool" where
  "darwin_interface_name_ok =
     match_all (\<lambda>c. is_alnum c \<or> c = CHR ''_'' \<or> c = CHR ''='' \<or> c = CHR ''+'' \<or> c = CHR ''.'' \<or> c = CHR ''-'') 1 15"

text \<open>The pattern \<open>^utun[0-9]+$\<close>.\<close>

definition darwin_real_name_ok :: "string \<Rightarrow> bool" where
  "darwin_real_name_ok s \<longleftrightarrow> has_prefix s ''utun'' \<and> drop 4 s \<noteq> [] \<and> list_all is_digit (drop 4 s)"

definition darwin_root_owned :: "file_info \<Rightarrow> bool" where
  "darwin_root_owned i \<longleftrightarrow> fi_uid i = Some 0"

definition darwin_directory_error :: "file_info \<Rightarrow> error option" where
  "darwin_directory_error i =
     (if \<not> fi_dir i \<or> fi_link i \<or> \<not> darwin_root_owned i \<or> fi_perm i AND 0x12 \<noteq> 0
      then Some (Plain ''WireGuard runtime directory is not root-controlled'') else None)"

definition darwin_owned_error :: "file_info \<Rightarrow> bool \<Rightarrow> error option" where
  "darwin_owned_error i socket =
     (if fi_link i \<or> \<not> darwin_root_owned i \<or>
         \<not> (if socket then fi_perm i = 0x180 \<or> fi_perm i = 0x1C0 else fi_perm i = 0x100 \<or> fi_perm i = 0x180)
      then Some (Plain ''path is symlinked or has unsafe ownership/permissions'')
      else if socket then (if \<not> fi_socket i then Some (Plain ''WireGuard control path is not a socket'') else None)
      else (if \<not> fi_regular i then Some (Plain ''WireGuard mapping path is not a regular file'') else None))"

definition parse_darwin_real_name :: "byte list \<Rightarrow> error + string" where
  "parse_darwin_real_name raw =
     (let name = string_of (if raw \<noteq> [] \<and> last raw = 0x0A then butlast raw else raw) in
      if darwin_real_name_ok name then Inr name else Inl (Plain ''invalid Darwin WireGuard real interface mapping''))"

text \<open>The difference of two \<open>int64\<close>.\<close>

definition darwin_mapping_fresh :: "file_info \<Rightarrow> file_info \<Rightarrow> bool" where
  "darwin_mapping_fresh mapping socket =
     (let delta = signed_take_bit 63 (fi_mtime socket - fi_mtime mapping) in - 1 \<le> delta \<and> delta \<le> 1)"

definition darwin_read_file :: "darwin_env \<Rightarrow> string \<Rightarrow> byte list sys" where
  "darwin_read_file D path =
     bindW (queries (\<lambda>n. of_option (de_open D path n))) (\<lambda>_.
     bindW (queries (de_fstat D path)) (\<lambda>info.
     bindW (of_result (of_option (darwin_owned_error info False))) (\<lambda>_.
     bindW (queries (\<lambda>n. map_sum (\<lambda>e. e) (take 64) (de_contents D path n))) (\<lambda>raw.
       ifW (length raw = 64) (Plain ''WireGuard interface mapping is too large'') (ret raw)))))"

text \<open>An error is wrapped with what was tried.\<close>

definition wrapping :: "string \<Rightarrow> 'a sys \<Rightarrow> 'a sys" where
  "wrapping what m = bindW (tryW m) (\<lambda>r. case r of Inl e \<Rightarrow> raise (Wrapped what e) | Inr a \<Rightarrow> ret a)"

definition darwin_wireguard_interface :: "darwin_env \<Rightarrow> string \<Rightarrow> string sys" where
  "darwin_wireguard_interface D logical =
     ifW (\<not> darwin_interface_name_ok logical) (Plain ''invalid WireGuard logical interface name'')
     (let dir = (if de_dir D = [] then ''/var/run/wireguard'' else de_dir D);
          mapping = join_path [dir, logical @ ''.name''] in
      bindW (queries (de_lstat D dir)) (\<lambda>info.
      bindW (of_result (of_option (darwin_directory_error info))) (\<lambda>_.
      bindW (wrapping ''read WireGuard interface mapping'' (queries (de_lstat D mapping))) (\<lambda>mi.
      bindW (wrapping ''validate WireGuard interface mapping'' (of_result (of_option (darwin_owned_error mi False)))) (\<lambda>_.
      bindW (wrapping ''read WireGuard interface mapping'' (darwin_read_file D mapping)) (\<lambda>raw.
      bindW (of_result (parse_darwin_real_name raw)) (\<lambda>real.
      bindW (wrapping ''read WireGuard control socket'' (queries (de_lstat D (join_path [dir, real @ ''.sock''])))) (\<lambda>si.
      bindW (wrapping ''validate WireGuard control socket'' (of_result (of_option (darwin_owned_error si True)))) (\<lambda>_.
        ifW (\<not> darwin_mapping_fresh mi si) (Plain ''stale WireGuard interface mapping'') (ret real))))))))))"

definition darwin_interface_index :: "darwin_env \<Rightarrow> string \<Rightarrow> int sys" where
  "darwin_interface_index D name =
     ifW (\<not> darwin_interface_name_ok name) (Plain ''invalid WireGuard interface name'')
     (bindW (queries (oe_interfaces (de_os D))) (\<lambda>interfaces.
       case map_of interfaces name of
         Some i \<Rightarrow> ret i
       | None \<Rightarrow>
           bindW (tryW (darwin_wireguard_interface D name)) (\<lambda>r. case r of
             Inl e \<Rightarrow> if errors_is e ErrNotExist then ret 0 else raise e
           | Inr real \<Rightarrow> ret (index_of interfaces real))))"

definition darwin_show_args :: "darwin_env \<Rightarrow> string \<Rightarrow> string list \<Rightarrow> string list sys" where
  "darwin_show_args D name args =
     (if base_of name \<noteq> ''wg'' \<or> length args < 2 \<or> args ! 0 \<noteq> ''show'' \<or> args ! 1 = ''interfaces'' \<or> args ! 1 = ''all''
      then ret args
      else bindW (darwin_wireguard_interface D (args ! 1)) (\<lambda>real. ret (args[1 := real])))"

definition darwin_run :: "darwin_env \<Rightarrow> string \<Rightarrow> string list \<Rightarrow> unit sys" where
  "darwin_run D name args = bindW (darwin_show_args D name args) (execute (de_os D) name)"

section \<open>Tools\<close>

primrec look_directories :: "darwin_env \<Rightarrow> string \<Rightarrow> string list \<Rightarrow> string sys" where
  "look_directories D name [] = raise (Sentinel ErrNotExist)"
| "look_directories D name (d # ds) =
     (let candidate = join_path [d, name] in
      bindW (tryW (queries (de_stat D candidate))) (\<lambda>r.
        case r of
          Inl e \<Rightarrow> look_directories D name ds
        | Inr info \<Rightarrow> if fi_regular info then canonical_path (de_os D) candidate else look_directories D name ds))"

definition look_path_darwin :: "darwin_env \<Rightarrow> string \<Rightarrow> string sys" where
  "look_path_darwin D name =
     bindW (tryW (queries (oe_look (de_os D) name))) (\<lambda>r. case r of
       Inr path \<Rightarrow> canonical_path (de_os D) path
     | Inl e \<Rightarrow> bindW (asks (de_euid D)) (\<lambda>uid.
         ifW (uid \<noteq> 0) (Sentinel ErrNotExist) (look_directories D name [''/opt/homebrew/bin'', ''/usr/local/bin''])))"

definition darwin_look_path :: "darwin_env \<Rightarrow> string \<Rightarrow> string sys" where
  "darwin_look_path D name = bindW (look_path_darwin D name) (canonical_path (de_os D))"

section \<open>The identity of a process\<close>

definition darwin_environment :: "string list \<Rightarrow> string \<Rightarrow> string \<Rightarrow> string list" where
  "darwin_environment environ locale timezone =
     filter (\<lambda>e. \<not> has_prefix e ''LC_ALL='' \<and> \<not> has_prefix e ''TZ='') environ @
     (if locale \<noteq> [] then [''LC_ALL='' @ locale] else []) @ (if timezone \<noteq> [] then [''TZ='' @ timezone] else [])"

definition ps_answer :: "byte list command_result \<Rightarrow> error + string" where
  "ps_answer r = (case r of
       ExitError \<Rightarrow> Inl (Sentinel ErrNotExist)
     | ExecError e \<Rightarrow> Inl e
     | Finished raw \<Rightarrow> let v = trim_space (string_of raw) in if v = [] then Inl (Sentinel ErrNotExist) else Inr v)"

definition darwin_ps_locale :: "darwin_env \<Rightarrow> int \<Rightarrow> string \<Rightarrow> string \<times> string \<Rightarrow> string sys" where
  "darwin_ps_locale D pid field = (\<lambda>(locale, timezone).
     bindW (asks (de_environ D)) (\<lambda>environ.
       queries (\<lambda>n. ps_answer (de_ps D [''-ww'', ''-p'', show_int pid, ''-o'', field] (darwin_environment environ locale timezone) n))))"

definition darwin_ps :: "darwin_env \<Rightarrow> int \<Rightarrow> string \<Rightarrow> string sys" where
  "darwin_ps D pid field = darwin_ps_locale D pid field ([], [])"

definition darwin_start_token :: "darwin_env \<Rightarrow> string \<Rightarrow> string \<Rightarrow> string" where
  "darwin_start_token D started command = hex_encode (de_sha256 D (bytes_of (started @ CHR 0x0A # command)))"

definition darwin_process_start_token :: "darwin_env \<Rightarrow> int \<Rightarrow> string sys" where
  "darwin_process_start_token D pid =
     bindW (darwin_ps_locale D pid ''lstart='' (''C'', ''UTC'')) (\<lambda>started.
     bindW (darwin_ps D pid ''command='') (\<lambda>command. ret (darwin_start_token D started command)))"

definition darwin_start_token_matches :: "darwin_env \<Rightarrow> string \<Rightarrow> string list \<Rightarrow> string \<Rightarrow> bool" where
  "darwin_start_token_matches D want starts command = list_ex (\<lambda>s. darwin_start_token D s command = want) starts"

definition start_locales :: "(string \<times> string) list" where
  "start_locales = [(''C'', ''UTC''), (''C'', ''Asia/Shanghai''), (''zh_CN.UTF-8'', ''UTC''), (''zh_CN.UTF-8'', ''Asia/Shanghai''),
     (''en_US.UTF-8'', ''UTC''), (''en_US.UTF-8'', ''Asia/Shanghai'')]"

definition contains_string :: "string list \<Rightarrow> string \<Rightarrow> bool" where
  "contains_string values s \<longleftrightarrow> list_ex (\<lambda>c. c = s) values"

primrec start_times_from :: "darwin_env \<Rightarrow> int \<Rightarrow> string list \<Rightarrow> (string \<times> string) list \<Rightarrow> string list sys" where
  "start_times_from D pid starts [] = ret starts"
| "start_times_from D pid starts (c # cs) =
     bindW (tryW (darwin_ps_locale D pid ''lstart='' c)) (\<lambda>r.
       start_times_from D pid (case r of Inl e \<Rightarrow> starts | Inr s \<Rightarrow> if contains_string starts s then starts else starts @ [s]) cs)"

definition darwin_process_start_times :: "darwin_env \<Rightarrow> int \<Rightarrow> string \<Rightarrow> string list sys" where
  "darwin_process_start_times D pid fallback = start_times_from D pid [fallback] start_locales"

definition darwin_process_alive :: "darwin_env \<Rightarrow> process_identity \<Rightarrow> bool sys" where
  "darwin_process_alive D p =
     ifW (incomplete p) (Plain ''incomplete process identity'')
     (bindW (tryW (darwin_ps D (pi_pid p) ''command='')) (\<lambda>r. case r of
        Inl e \<Rightarrow> gone_or e (\<lambda>e. e)
      | Inr command \<Rightarrow>
          let fs = text_fields command in
          ifW (fs = []) (Plain ''executable identity mismatch'')
          (bindW (canonical_path (de_os D) (hd fs)) (\<lambda>have.
           bindW (canonical_path (de_os D) (pi_executable p)) (\<lambda>want.
           ifW (have \<noteq> want) (Plain ''executable identity mismatch'')
           (bindW (tryW (darwin_ps D (pi_pid p) ''lstart='')) (\<lambda>r. case r of
              Inl e \<Rightarrow> gone_or e (\<lambda>_. Plain ''process start identity mismatch'')
            | Inr started \<Rightarrow>
                bindW (darwin_process_start_times D (pi_pid p) started) (\<lambda>starts.
                ifW (\<not> darwin_start_token_matches D (pi_start p) starts command) (Plain ''process start identity mismatch'')
                (ret True)))))))))"

definition darwin_stop :: "darwin_env \<Rightarrow> process_identity \<Rightarrow> unit sys" where
  "darwin_stop D p = stop_checked (de_os D) (darwin_process_alive D p) (pi_pid p)"

section \<open>Start and sockets\<close>

text \<open>A child that cannot be identified is killed, and so is one that cannot be released.\<close>

definition darwin_start :: "darwin_env \<Rightarrow> string \<Rightarrow> string list \<Rightarrow> string \<Rightarrow> string \<Rightarrow> process_identity sys" where
  "darwin_start D executable args revision digest =
     (let E = de_os D in
      bindW (does (\<lambda>n. Spawned n executable args) (oe_spawn E executable args)) (\<lambda>pid.
      bindW (canonical_path E executable) (\<lambda>path.
      bindW (tryW (darwin_process_start_token D pid)) (\<lambda>token. case token of
        Inl e \<Rightarrow> bindW (tryW (send_signal E pid SIGKILL)) (\<lambda>_.
                 bindW (tryW (queries (\<lambda>n. of_option (oe_release E pid n)))) (\<lambda>_. raise e))
      | Inr t \<Rightarrow>
          bindW (tryW (queries (\<lambda>n. of_option (oe_release E pid n)))) (\<lambda>released. case released of
            Inl e \<Rightarrow> bindW (tryW (send_signal E pid SIGKILL)) (\<lambda>_. raise e)
          | Inr u \<Rightarrow> ret \<lparr>pi_pid = pid, pi_executable = path, pi_config = config_argument args, pi_sha256 = digest,
                pi_revision = revision, pi_start = t\<rparr>)))))"

definition darwin_loopback_owned :: "darwin_env \<Rightarrow> process_identity \<Rightarrow> string \<Rightarrow> bool sys" where
  "darwin_loopback_owned D p address =
     (case split_host_port address of
        None \<Rightarrow> raise (Plain ''invalid address'')
      | Some hp \<Rightarrow>
          bindW (asks (de_lsof D [''-nP'', ''-a'', ''-p'', show_int (pi_pid p), ''-iUDP@'' @ address])) (\<lambda>r. case r of
            Finished u \<Rightarrow> ret True | ExitError \<Rightarrow> ret False | ExecError e \<Rightarrow> raise e))"

section \<open>What the checks show\<close>

definition ps_at :: "darwin_env \<Rightarrow> int \<Rightarrow> string \<Rightarrow> string \<times> string \<Rightarrow> nat \<Rightarrow> error + string" where
  "ps_at D pid field lt n =
     ps_answer (de_ps D [''-ww'', ''-p'', show_int pid, ''-o'', field] (darwin_environment (de_environ D n) (fst lt) (snd lt)) (Suc n))"

lemma darwin_ps_locale_eq [simp]:
  "darwin_ps_locale D pid field lt w = (ps_at D pid field lt (os_tick w), next_tick (next_tick w))"
  by (cases lt) (simp add: darwin_ps_locale_def ps_at_def bindW_def)

text \<open>The answers from number \<open>k\<close> to before \<open>m\<close> that show a process to be the one of an identity.\<close>

definition darwin_seen :: "darwin_env \<Rightarrow> process_identity \<Rightarrow> nat \<Rightarrow> nat \<Rightarrow> bool" where
  "darwin_seen D p k m \<longleftrightarrow>
     \<not> incomplete p \<and>
     (\<exists>command started n lt.
        ps_at D (pi_pid p) ''command='' ([], []) k = Inr command \<and> text_fields command \<noteq> [] \<and>
        canonical_at (de_os D) (hd (text_fields command)) (k + 2) = canonical_at (de_os D) (pi_executable p) (k + 4) \<and>
        k < n \<and> n < m \<and> lt \<in> insert ([], []) (set start_locales) \<and>
        ps_at D (pi_pid p) ''lstart='' lt n = Inr started \<and> darwin_start_token D started command = pi_start p)"

lemma contains_string_iff: "contains_string values s \<longleftrightarrow> s \<in> set values"
  by (simp add: contains_string_def list_ex_iff)

lemma ps_silent: "keeps_rel silent (darwin_ps_locale D pid field lt)"
  by (simp add: keeps_rel_def silent_def)

lemma start_times_silent: "keeps_rel silent (start_times_from D pid starts cs)"
proof (induction cs arbitrary: starts)
  case (Cons c cs)
  show ?case unfolding start_times_from.simps by (intro silence_keeps ps_silent Cons.IH)
qed (simp add: silence.ret_keeps)

lemma darwin_alive_silent: "keeps_rel silent (darwin_process_alive D p)"
  unfolding darwin_process_alive_def gone_or_def Let_def darwin_ps_def darwin_process_start_times_def
  by (intro silence_keeps ps_silent start_times_silent)

lemma start_times_from_seen:
  "start_times_from D pid starts cs w = (Inr started_at, v) \<Longrightarrow> s \<in> set started_at \<Longrightarrow>
     s \<in> set starts \<or> (\<exists>n lt. os_tick w \<le> n \<and> n < os_tick v \<and> lt \<in> set cs \<and> ps_at D pid ''lstart='' lt n = Inr s)"
proof (induction cs arbitrary: starts w)
  case (Cons c cs)
  let ?r = "ps_at D pid ''lstart='' c (os_tick w)"
  let ?starts = "case ?r of Inl e \<Rightarrow> starts | Inr s \<Rightarrow> if contains_string starts s then starts else starts @ [s]"
  from Cons.prems(1) have run: "start_times_from D pid ?starts cs (next_tick (next_tick w)) = (Inr started_at, v)"
    by (auto simp: guard_simps)
  have "os_tick w + 2 \<le> os_tick v"
    using keeps_relD [OF start_times_silent run] by (simp add: silent_def)
  from Cons.IH [OF run Cons.prems(2)] show ?case
  proof
    assume "s \<in> set ?starts"
    then consider "s \<in> set starts" | "?r = Inr s" by (auto split: sum.splits if_splits)
    then show ?thesis
    proof cases
      case 2
      with \<open>os_tick w + 2 \<le> os_tick v\<close> show ?thesis by (intro disjI2 exI [of _ "os_tick w"] exI [of _ c]) simp
    qed simp
  next
    assume "\<exists>n lt. os_tick (next_tick (next_tick w)) \<le> n \<and> n < os_tick v \<and> lt \<in> set cs \<and> ps_at D pid ''lstart='' lt n = Inr s"
    then obtain n lt where at: "os_tick (next_tick (next_tick w)) \<le> n" "n < os_tick v" "lt \<in> set cs" "ps_at D pid ''lstart='' lt n = Inr s"
      by blast
    then have "os_tick w \<le> n" "lt \<in> set (c # cs)" by simp_all
    with at show ?thesis by blast
  qed
qed simp

lemma darwin_alive_seen:
  assumes "darwin_process_alive D p w = (Inr True, v)"
  shows "darwin_seen D p (os_tick w) (os_tick v)"
proof -
  let ?u = "next_tick (next_tick (next_tick (next_tick (next_tick (next_tick (next_tick (next_tick w)))))))"
  from assms obtain command started starts where complete: "\<not> incomplete p"
    and command: "ps_at D (pi_pid p) ''command='' ([], []) (os_tick w) = Inr command" "text_fields command \<noteq> []"
    and path: "canonical_at (de_os D) (hd (text_fields command)) (os_tick w + 2) = canonical_at (de_os D) (pi_executable p) (os_tick w + 4)"
    and started: "ps_at D (pi_pid p) ''lstart='' ([], []) (os_tick w + 6) = Inr started"
    and started_at: "start_times_from D (pi_pid p) [started] start_locales ?u = (Inr starts, v)"
    and match: "darwin_start_token_matches D (pi_start p) starts command"
    by (auto simp: darwin_process_alive_def darwin_ps_def darwin_process_start_times_def gone_or_def guard_simps Let_def
        eval_nat_numeral split: if_splits)
  have u: "os_tick ?u = os_tick w + 8" by simp
  have later: "os_tick w + 8 \<le> os_tick v"
    using keeps_relD [OF start_times_silent started_at] u by (simp add: silent_def)
  from match obtain s where s: "s \<in> set starts" "darwin_start_token D s command = pi_start p"
    by (auto simp: darwin_start_token_matches_def list_ex_iff)
  from start_times_from_seen [OF started_at s(1)] obtain n lt where "os_tick w < n" "n < os_tick v"
    "lt \<in> insert ([], []) (set start_locales)" "ps_at D (pi_pid p) ''lstart='' lt n = Inr s"
  proof
    assume "s \<in> set [started]"
    then show thesis using that [of "os_tick w + 6" "([], [])"] started later by simp
  next
    assume "\<exists>n lt. os_tick ?u \<le> n \<and> n < os_tick v \<and> lt \<in> set start_locales \<and> ps_at D (pi_pid p) ''lstart='' lt n = Inr s"
    then obtain n lt where at: "os_tick ?u \<le> n" "n < os_tick v" "lt \<in> set start_locales" "ps_at D (pi_pid p) ''lstart='' lt n = Inr s"
      by blast
    with u have "os_tick w < n" by simp
    with at show thesis by (intro that [of n lt]) simp_all
  qed
  with complete command path s(2) show ?thesis unfolding darwin_seen_def by blast
qed

interpretation darwin: process_check "darwin_process_alive D p" "darwin_seen D p" for D p
proof
  fix w r v
  assume run: "darwin_process_alive D p w = (r, v)"
  show "os_log v = os_log w \<and> os_tick w \<le> os_tick v"
    using keeps_relD [OF darwin_alive_silent run] by (simp add: silent_def)
qed (rule darwin_alive_seen)

theorem darwin_stop_only_started:
  assumes "darwin_stop D p w = (r, w')"
  shows "\<exists>sent. os_log w' = os_log w @ sent \<and> signals_justified (darwin_seen D p) (os_tick w) (pi_pid p) sent"
  using assms unfolding darwin_stop_def by (rule darwin.stop_justified)

section \<open>The interface behind a name\<close>

lemma wrapping_Inr: "wrapping what m w = (Inr a, v) \<longleftrightarrow> m w = (Inr a, v)"
  by (auto simp: wrapping_def bindW_def tryW_def split: prod.splits sum.splits)

lemma darwin_owned_none:
  "darwin_owned_error i socket = None \<longleftrightarrow>
     \<not> fi_link i \<and> fi_uid i = Some 0 \<and>
     (if socket then fi_socket i \<and> (fi_perm i = 0x180 \<or> fi_perm i = 0x1C0)
      else fi_regular i \<and> (fi_perm i = 0x100 \<or> fi_perm i = 0x180))"
  by (auto simp: darwin_owned_error_def darwin_root_owned_def)

lemma map_sum_Inr: "map_sum (\<lambda>e. e) f r = Inr b \<longleftrightarrow> (\<exists>a. r = Inr a \<and> b = f a)"
  by (cases r) auto

lemma char_ten: "char_of (10 :: nat) = CHR 0x0A"
  by code_simp

lemma newline_at_end: "raw \<noteq> [] \<Longrightarrow> last raw = 0x0A \<Longrightarrow> string_of raw = string_of (butlast raw) @ [CHR 0x0A]"
proof -
  assume "raw \<noteq> []" "last raw = 0x0A"
  then have raw: "raw = butlast raw @ [0x0A]" by (metis append_butlast_last_id)
  have "string_of (butlast raw @ [0x0A]) = string_of (butlast raw) @ [CHR 0x0A]" by (simp add: string_of_def char_ten)
  then show ?thesis using raw by simp
qed

text \<open>
  A name is translated only by files of root: the directory is root's and closed to others, the
  mapping and the control socket are private to root, and the mapping is as old as the socket.
\<close>

theorem darwin_interface_trusted:
  assumes "darwin_wireguard_interface D logical w = (Inr real, v)"
  shows "\<exists>dir n info mi fi raw si. dir = (if de_dir D = [] then ''/var/run/wireguard'' else de_dir D) \<and>
    darwin_interface_name_ok logical \<and> darwin_real_name_ok real \<and>
    de_lstat D dir n = Inr info \<and> fi_dir info \<and> \<not> fi_link info \<and> fi_uid info = Some 0 \<and> fi_perm info AND 0x12 = 0 \<and>
    de_lstat D (join_path [dir, logical @ ''.name'']) (n + 1) = Inr mi \<and> darwin_owned_error mi False = None \<and>
    de_fstat D (join_path [dir, logical @ ''.name'']) (n + 3) = Inr fi \<and> darwin_owned_error fi False = None \<and>
    de_contents D (join_path [dir, logical @ ''.name'']) (n + 4) = Inr raw \<and>
    string_of raw \<in> {real, real @ [CHR 0x0A]} \<and> length raw < 64 \<and>
    de_lstat D (join_path [dir, real @ ''.sock'']) (n + 5) = Inr si \<and> darwin_owned_error si True = None \<and>
    darwin_mapping_fresh mi si"
proof -
  let ?dir = "if de_dir D = [] then ''/var/run/wireguard'' else de_dir D"
  let ?n = "os_tick w" and ?mapping = "join_path [?dir, logical @ ''.name'']"
  from assms obtain info mi fi raw si where name: "darwin_interface_name_ok logical"
    and info: "de_lstat D ?dir ?n = Inr info" "darwin_directory_error info = None"
    and mi: "de_lstat D ?mapping (?n + 1) = Inr mi" "darwin_owned_error mi False = None"
    and fi: "de_fstat D ?mapping (?n + 3) = Inr fi" "darwin_owned_error fi False = None"
    and raw: "de_contents D ?mapping (?n + 4) = Inr raw" "min (length raw) 64 \<noteq> 64"
    and real: "parse_darwin_real_name raw = Inr real"
    and si: "de_lstat D (join_path [?dir, real @ ''.sock'']) (?n + 5) = Inr si" "darwin_owned_error si True = None"
    and fresh: "darwin_mapping_fresh mi si"
    unfolding darwin_wireguard_interface_def darwin_read_file_def Let_def guard_simps wrapping_Inr
    by (auto simp: guard_simps map_sum_Inr eval_nat_numeral) 
  from raw(2) have short: "length raw < 64" by simp
  from real have parsed: "darwin_real_name_ok real" "string_of raw \<in> {real, real @ [CHR 0x0A]}"
    by (auto simp: parse_darwin_real_name_def Let_def newline_at_end split: if_splits)
  from info(2) have control: "fi_dir info" "\<not> fi_link info" "fi_uid info = Some 0" "fi_perm info AND 0x12 = 0"
    by (auto simp: darwin_directory_error_def darwin_root_owned_def split: if_splits)
  show ?thesis
    by (rule exI [of _ ?dir], rule exI [of _ ?n], intro exI conjI refl; (rule name parsed info(1) control mi fi raw(1) short si fresh)?)
qed

section \<open>A path with a blank\<close>

lemma fields_from_solid:
  "list_all (\<lambda>c. \<not> space1 (code c)) cur \<Longrightarrow> f \<in> set (fields_from cur s) \<Longrightarrow> list_all (\<lambda>c. \<not> space1 (code c)) f"
proof (induction cur s rule: fields_from.induct)
  case (2 cur c s)
  let ?n = "space_length (c # s)"
  show ?case
  proof (cases "?n = 0")
    case True
    then have "\<not> space1 (code c)" by (auto split: if_splits)
    with 2 True show ?thesis by (simp add: Let_def del: space_length.simps)
  next
    case False
    with 2(4) have "f \<in> set (flush cur) \<or> f \<in> set (fields_from [] (drop (?n - 1) s))"
      by (simp add: Let_def del: space_length.simps)
    then show ?thesis
    proof
      assume "f \<in> set (flush cur)"
      with 2(3) show ?thesis by (auto simp: flush_def list_all_iff split: if_splits)
    next
      assume "f \<in> set (fields_from [] (drop (?n - 1) s))"
      from 2(2) [OF refl False _ this] show ?thesis by simp
    qed
  qed
qed (auto simp: flush_def list_all_iff split: if_splits)

text \<open>
  The executable is taken to be the first blank-separated part of the command line that \<open>ps\<close>
  prints. Where no symbolic link leads from a path without a blank to one with a blank, a process
  whose executable has a blank in its path is never recognised as the one that was started.
\<close>

theorem darwin_blank_executable_refused:
  assumes links: "\<And>q n. CHR '' '' \<notin> set q \<Longrightarrow> CHR '' '' \<notin> set (canonical_at (de_os D) q n)"
    and blank: "\<And>n. CHR '' '' \<in> set (canonical_at (de_os D) (pi_executable p) n)"
  shows "darwin_process_alive D p w \<noteq> (Inr True, v)"
proof
  assume "darwin_process_alive D p w = (Inr True, v)"
  from darwin_alive_seen [OF this] obtain command where command: "text_fields command \<noteq> []"
    "canonical_at (de_os D) (hd (text_fields command)) (os_tick w + 2) = canonical_at (de_os D) (pi_executable p) (os_tick w + 4)"
    unfolding darwin_seen_def by blast
  have "hd (text_fields command) \<in> set (fields_from [] command)"
    using hd_in_set [OF command(1)] by (simp add: text_fields_def)
  from fields_from_solid [OF _ this] have "list_all (\<lambda>c. \<not> space1 (code c)) (hd (text_fields command))" by simp
  moreover have "space1 (code CHR '' '')" by code_simp
  ultimately have "CHR '' '' \<notin> set (hd (text_fields command))" by (auto simp: list_all_iff)
  from links [OF this] command(2) blank show False by metis
qed

end
