(* ===== verification/Bootstrap.thy ===== *)
theory Bootstrap
  imports Darwin_Backend Http_Client
begin

text \<open>
  The managed runtime, \<open>overlay/runtime/bootstrap*.go\<close>: the Xray program of a pinned release is
  downloaded, checked against a pinned digest, taken out of its archive and put into the state
  directory with a manifest; the tools of the system are installed by its package manager. The
  archive format, SHA-256, the JSON codec, HTTP and the package managers are parameters.
\<close>

section \<open>Data\<close>

record artifact =
  ar_version :: string
  ar_name :: string
  ar_sha256 :: string

record managed =
  mm_schema :: int
  mm_platform :: string
  mm_arch :: string
  mm_version :: string
  mm_asset :: string
  mm_archive_sha :: string
  mm_binary_sha :: string
  mm_path :: string
  mm_source :: string
  mm_wireguard :: bool
  mm_installed :: gotime

record bootstrap_options =
  bo_state :: string
  bo_base :: string
  bo_packages :: bool

record bootstrap_result =
  br_schema :: int
  br_platform :: string
  br_arch :: string
  br_version :: string
  br_path :: string
  br_sha256 :: string
  br_wireguard :: bool
  br_installed :: gotime
  br_already :: bool

text \<open>The program at the managed path, with the permissions it has.\<close>

datatype binary_file = NoBinary | Irregular | Program "32 word" "byte list"

datatype install_event = Fetched string | Commanded string "string list"

record install =
  in_tick :: nat
  in_manifest :: "managed file_state"
  in_binary :: binary_file
  in_log :: "install_event list"

record zip_entry =
  ze_name :: string
  ze_dir :: bool
  ze_size :: nat
  ze_open :: "error option"
  ze_contents :: "byte list"
  ze_failure :: "error option"
  ze_close :: "error option"

record archive_response =
  rp_status :: int
  rp_length :: int
  rp_body :: "byte list"
  rp_failure :: "error option"

record boot_env =
  bt_goos :: string
  bt_goarch :: string
  bt_urls :: url_parser
  bt_url_text :: "url \<Rightarrow> string"
  bt_sha256 :: "byte list \<Rightarrow> byte list"
  bt_zip :: "byte list \<Rightarrow> error + zip_entry list"
  bt_request :: "string \<Rightarrow> error option"
  bt_get :: "string \<Rightarrow> nat \<Rightarrow> error + archive_response"
  bt_uid :: "nat \<Rightarrow> nat"
  bt_elevated :: "nat \<Rightarrow> bool"
  bt_look :: "string \<Rightarrow> nat \<Rightarrow> error + string"
  bt_stat :: "string \<Rightarrow> nat \<Rightarrow> error + file_info"
  bt_getenv :: "string \<Rightarrow> nat \<Rightarrow> string"
  bt_canonical :: "string \<Rightarrow> string"
  bt_join :: "string list \<Rightarrow> string"
  bt_run :: "string \<Rightarrow> string list \<Rightarrow> nat \<Rightarrow> error option"
  bt_read :: "nat \<Rightarrow> read_outcome"
  bt_lstat :: "nat \<Rightarrow> bool"
  bt_foreign :: "string \<Rightarrow> nat \<Rightarrow> binary_file"
  bt_binary_write :: "nat \<Rightarrow> string option"
  bt_write :: "nat \<Rightarrow> write_outcome"
  bt_now :: "nat \<Rightarrow> gotime"

type_synonym 'a boot = "(install, 'a) step"

definition in_next :: "install \<Rightarrow> install" where
  "in_next w = w\<lparr>in_tick := Suc (in_tick w)\<rparr>"

definition looks :: "(nat \<Rightarrow> install \<Rightarrow> error + 'a) \<Rightarrow> 'a boot" where
  "looks f w = (f (in_tick w) w, in_next w)"

definition performs :: "install_event \<Rightarrow> (nat \<Rightarrow> error + 'a) \<Rightarrow> 'a boot" where
  "performs e f w = (f (in_tick w), in_next (w\<lparr>in_log := in_log w @ [e]\<rparr>))"

section \<open>Paths and the manifest\<close>

definition managed_directory :: "string \<Rightarrow> string" where
  "managed_directory state = join_path [state, ''managed-runtime'']"

definition managed_manifest_path :: "string \<Rightarrow> string" where
  "managed_manifest_path state = join_path [managed_directory state, ''manifest.json'']"

definition managed_xray_path :: "string \<Rightarrow> string \<Rightarrow> string" where
  "managed_xray_path goos state =
     join_path [managed_directory state, ''bin'', if goos = ''windows'' then ''xray.exe'' else ''xray'']"

text \<open>\<open>strings.EqualFold\<close>\<close>

definition equal_fold :: "string \<Rightarrow> string \<Rightarrow> bool" where
  "equal_fold s t \<longleftrightarrow> fold_case s = fold_case t"

definition binary_at :: "boot_env \<Rightarrow> string \<Rightarrow> string \<Rightarrow> nat \<Rightarrow> install \<Rightarrow> binary_file" where
  "binary_at E state path n w = (if path = managed_xray_path (bt_goos E) state then in_binary w else bt_foreign E path n)"

definition manifest_plausible :: "boot_env \<Rightarrow> string \<Rightarrow> managed \<Rightarrow> bool" where
  "manifest_plausible E state m \<longleftrightarrow>
     mm_schema m = 1 \<and> mm_platform m = bt_goos E \<and> mm_arch m = bt_goarch E \<and> mm_version m \<noteq> [] \<and> mm_asset m \<noteq> [] \<and>
     length (mm_archive_sha m) = 64 \<and> length (mm_binary_sha m) = 64 \<and>
     clean (mm_path m) = clean (managed_xray_path (bt_goos E) state) \<and>
     (case bt_urls E (mm_source m) of
        None \<Rightarrow> False
      | Some u \<Rightarrow> u_scheme u = ''https'' \<and> u_host u \<noteq> [] \<and> \<not> u_has_user u \<and> u_raw_query u = [] \<and> u_fragment u = []) \<and>
     mm_wireguard m \<and> \<not> is_zero (mm_installed m)"

definition mode_ok :: "boot_env \<Rightarrow> 32 word \<Rightarrow> bool" where
  "mode_ok E perm \<longleftrightarrow> bt_goos E = ''windows'' \<or> perm = 0x1C0"

definition digest_matches :: "boot_env \<Rightarrow> byte list \<Rightarrow> string \<Rightarrow> bool" where
  "digest_matches E raw expected \<longleftrightarrow> equal_fold (hex_encode (bt_sha256 E raw)) expected"

definition load_managed :: "boot_env \<Rightarrow> string \<Rightarrow> managed option boot" where
  "load_managed E state =
     bindW (looks (\<lambda>n w. Inr (case in_manifest w of Doc m \<Rightarrow> if bt_read E n = ReadOk then Some m else None | _ \<Rightarrow> None))) (\<lambda>f.
       case f of
         None \<Rightarrow> ret None
       | Some m \<Rightarrow>
           if \<not> manifest_plausible E state m then ret None
           else bindW (looks (\<lambda>n w. Inr (if bt_lstat E n then binary_at E state (mm_path m) n w else NoBinary))) (\<lambda>info.
             if (case info of Program perm c \<Rightarrow> \<not> mode_ok E perm | _ \<Rightarrow> True) then ret None
             else bindW (looks (\<lambda>n w. Inr (if bt_read E n = ReadOk then binary_at E state (mm_path m) n w else NoBinary))) (\<lambda>file.
               case file of
                 Program perm c \<Rightarrow> if digest_matches E c (mm_binary_sha m) then ret (Some m) else ret None
               | _ \<Rightarrow> ret None)))"

definition resolve_managed_xray :: "boot_env \<Rightarrow> string \<Rightarrow> string option boot" where
  "resolve_managed_xray E state = bindW (load_managed E state) (\<lambda>m. ret (map_option (\<lambda>m. bt_canonical E (mm_path m)) m))"

definition bootstrap_result_of :: "managed \<Rightarrow> bool \<Rightarrow> bootstrap_result" where
  "bootstrap_result_of m already =
     \<lparr>br_schema = mm_schema m, br_platform = mm_platform m, br_arch = mm_arch m, br_version = mm_version m, br_path = mm_path m,
      br_sha256 = mm_binary_sha m, br_wireguard = mm_wireguard m, br_installed = mm_installed m, br_already = already\<rparr>"

definition current_managed_runtime :: "boot_env \<Rightarrow> string \<Rightarrow> artifact \<Rightarrow> string \<Rightarrow> string \<Rightarrow> string \<Rightarrow> bootstrap_result option boot" where
  "current_managed_runtime E state a platform arch source =
     bindW (load_managed E state) (\<lambda>f. ret (case f of
         None \<Rightarrow> None
       | Some m \<Rightarrow>
           if mm_platform m \<noteq> platform \<or> mm_arch m \<noteq> arch \<or> mm_version m \<noteq> ar_version a \<or> mm_asset m \<noteq> ar_name a \<or>
              \<not> equal_fold (mm_archive_sha m) (ar_sha256 a) \<or>
              clean (mm_path m) \<noteq> clean (managed_xray_path (bt_goos E) state) \<or> mm_source m \<noteq> source
           then None else Some (bootstrap_result_of m True)))"

section \<open>Download and archive\<close>

definition download_limit :: nat where "download_limit = 128 * 2 ^ 20"

definition release_base :: "boot_env \<Rightarrow> string \<Rightarrow> error + url" where
  "release_base E raw =
     (case bt_urls E (trim_space raw) of
        None \<Rightarrow> Inl (fault CodeInvalidInput ''validate managed runtime release base URL'')
      | Some u \<Rightarrow>
          if u_scheme u \<noteq> ''https'' \<or> u_host u = [] \<or> u_has_user u \<or> u_raw_query u \<noteq> [] \<or> u_fragment u \<noteq> []
          then Inl (fault CodeInvalidInput ''validate managed runtime release base URL'') else Inr u)"

definition received :: "boot_env \<Rightarrow> string \<Rightarrow> archive_response \<Rightarrow> error + byte list" where
  "received E expected r =
     (if rp_status r < 200 \<or> rp_status r \<ge> 300 \<or> rp_length r > int download_limit
      then Inl (fault CodeRuntimeDependency ''download managed runtime'')
      else let raw = take (download_limit + 1) (rp_body r);
               failure = (if length raw > download_limit then None else rp_failure r) in
        if failure \<noteq> None \<or> raw = [] \<or> length raw > download_limit
        then Inl (Fault CodeRuntimeDependency ''read managed runtime archive'' failure)
        else if \<not> digest_matches E raw expected then Inl (fault CodeRuntimeDependency ''verify managed runtime archive checksum'')
        else Inr raw)"

definition download_managed_runtime :: "boot_env \<Rightarrow> string \<Rightarrow> string \<Rightarrow> byte list boot" where
  "download_managed_runtime E source expected =
     (case bt_request E source of
        Some e \<Rightarrow> raise (fault_cause CodeRuntimeDependency ''create managed runtime request'' e)
      | None \<Rightarrow>
          bindW (tryW (performs (Fetched source) (bt_get E source))) (\<lambda>r. case r of
            Inl e \<Rightarrow> raise (fault_cause CodeRuntimeDependency ''download managed runtime'' e)
          | Inr response \<Rightarrow> of_result (received E expected response)))"

definition entry_contents :: "zip_entry \<Rightarrow> error + byte list" where
  "entry_contents e =
     (if ze_size e = 0 \<or> ze_size e > download_limit then Inl (fault CodeRuntimeDependency ''validate managed Xray binary size'')
      else case ze_open e of
        Some x \<Rightarrow> Inl (fault_cause CodeRuntimeDependency ''open managed Xray binary'' x)
      | None \<Rightarrow>
          let raw = take (download_limit + 1) (ze_contents e);
              failure = (if length raw > download_limit then None else ze_failure e) in
          if failure \<noteq> None \<or> ze_close e \<noteq> None \<or> raw = [] \<or> length raw > download_limit
          then Inl (Fault CodeRuntimeDependency ''read managed Xray binary'' (join_errors [failure, ze_close e]))
          else Inr raw)"

fun first_xray :: "zip_entry list \<Rightarrow> error + byte list" where
  "first_xray [] = Inl (fault CodeRuntimeDependency ''locate managed Xray binary'')"
| "first_xray (e # es) =
     (let name = to_lower (base_of (ze_name e)) in
      if (name \<noteq> ''xray'' \<and> name \<noteq> ''xray.exe'') \<or> ze_dir e then first_xray es else entry_contents e)"

definition extract_xray_binary :: "boot_env \<Rightarrow> byte list \<Rightarrow> error + byte list" where
  "extract_xray_binary E archive =
     (case bt_zip E archive of
        Inl e \<Rightarrow> Inl (fault_cause CodeRuntimeDependency ''open managed Xray archive'' e)
      | Inr entries \<Rightarrow> first_xray entries)"

section \<open>Installation\<close>

text \<open>The old program stays until the new one is complete.\<close>

definition write_managed_executable :: "boot_env \<Rightarrow> byte list \<Rightarrow> unit boot" where
  "write_managed_executable E raw w =
     (case bt_binary_write E (in_tick w) of
        Some op \<Rightarrow> (Inl (fault CodeStateIO op), in_next w)
      | None \<Rightarrow> (Inr (), in_next (w\<lparr>in_binary := Program 0x1C0 raw\<rparr>)))"

definition write_managed_manifest :: "boot_env \<Rightarrow> managed \<Rightarrow> unit boot" where
  "write_managed_manifest E m w =
     (case write_artifact (bt_write E (in_tick w)) (Doc m) (in_manifest w) of
        (e, f) \<Rightarrow> (of_option e, in_next (w\<lparr>in_manifest := f\<rparr>)))"

definition provision :: "boot_env \<Rightarrow> bootstrap_options \<Rightarrow> artifact \<Rightarrow> string \<Rightarrow> string \<Rightarrow> bootstrap_result boot" where
  "provision E opts a platform arch =
     bindW (of_result (release_base E (bo_base opts))) (\<lambda>base.
       let source = trim_right_slash (bt_url_text E base) @ ''/'' @ ar_version a @ ''/'' @ ar_name a in
       bindW (current_managed_runtime E (bo_state opts) a platform arch source) (\<lambda>existing.
         case existing of
           Some r \<Rightarrow> ret (r\<lparr>br_already := True\<rparr>)
         | None \<Rightarrow>
             bindW (download_managed_runtime E source (ar_sha256 a)) (\<lambda>archive.
             bindW (of_result (extract_xray_binary E archive)) (\<lambda>binary.
             bindW (write_managed_executable E binary) (\<lambda>_.
             bindW (looks (\<lambda>n w. Inr (bt_now E n))) (\<lambda>now.
               let m = \<lparr>mm_schema = 1, mm_platform = platform, mm_arch = arch, mm_version = ar_version a, mm_asset = ar_name a,
                        mm_archive_sha = ar_sha256 a, mm_binary_sha = hex_encode (bt_sha256 E binary),
                        mm_path = managed_xray_path (bt_goos E) (bo_state opts), mm_source = source, mm_wireguard = True,
                        mm_installed = to_utc now\<rparr>
               in bindW (write_managed_manifest E m) (\<lambda>_. ret (bootstrap_result_of m False))))))))"

definition artifact_ok :: "artifact \<Rightarrow> bool" where
  "artifact_ok a \<longleftrightarrow> ar_version a \<noteq> [] \<and> ar_name a \<noteq> [] \<and> length (ar_sha256 a) = 64"

definition install_managed_xray :: "boot_env \<Rightarrow> bootstrap_options \<Rightarrow> artifact \<Rightarrow> string \<Rightarrow> string \<Rightarrow> bootstrap_result boot" where
  "install_managed_xray E opts a platform arch =
     ifW (\<not> artifact_ok a \<or> platform = [] \<or> arch = []) (fault CodeInvalidInput ''select managed Xray artifact'')
     (provision E opts a platform arch)"

section \<open>The tools of the system\<close>

primrec missing_commands :: "(string \<Rightarrow> string boot) \<Rightarrow> string list \<Rightarrow> nat boot" where
  "missing_commands look [] = ret 0"
| "missing_commands look (c # cs) =
     bindW (tryW (look c)) (\<lambda>r. bindW (missing_commands look cs) (\<lambda>n. ret (case r of Inl e \<Rightarrow> Suc n | Inr p \<Rightarrow> n)))"

definition command :: "boot_env \<Rightarrow> string \<Rightarrow> string list \<Rightarrow> unit boot" where
  "command E name args = performs (Commanded name args) (\<lambda>n. of_option (bt_run E name args n))"

definition or_fault :: "string \<Rightarrow> 'a boot \<Rightarrow> 'a boot" where
  "or_fault op m = bindW (tryW m) (\<lambda>r. case r of Inl e \<Rightarrow> raise (fault CodeRuntimeDependency op) | Inr a \<Rightarrow> ret a)"

definition or_fault_cause :: "string \<Rightarrow> 'a boot \<Rightarrow> 'a boot" where
  "or_fault_cause op m = bindW (tryW m) (\<lambda>r. case r of Inl e \<Rightarrow> raise (fault_cause CodeRuntimeDependency op e) | Inr a \<Rightarrow> ret a)"

definition look_exec :: "boot_env \<Rightarrow> string \<Rightarrow> string boot" where
  "look_exec E name = looks (\<lambda>n w. bt_look E name n)"

definition ensure_linux :: "boot_env \<Rightarrow> bool \<Rightarrow> unit boot" where
  "ensure_linux E packages =
     (let required = [''wg'', ''wg-quick'', ''systemctl'', ''systemd-run''] in
      bindW (missing_commands (look_exec E) required) (\<lambda>n.
        if n = 0 then ret ()
        else if \<not> packages then raise (fault CodeRuntimeDependency ''locate Linux WireGuard/systemd runtime'')
        else bindW (or_fault ''install Linux runtime packages on unsupported distribution'' (look_exec E ''apt-get'')) (\<lambda>apt.
             bindW (or_fault ''update Linux package metadata'' (command E apt [''update''])) (\<lambda>_.
             bindW (or_fault ''install Linux runtime packages''
                      (command E apt [''install'', ''-y'', ''--no-install-recommends'', ''wireguard-tools'', ''iproute2''])) (\<lambda>_.
             bindW (missing_commands (look_exec E) required) (\<lambda>k.
               if k \<noteq> 0 then raise (fault CodeRuntimeDependency ''verify Linux WireGuard/systemd runtime'') else ret ()))))))"

definition regular_at :: "boot_env \<Rightarrow> string \<Rightarrow> bool boot" where
  "regular_at E path = looks (\<lambda>n w. Inr (case bt_stat E path n of Inl e \<Rightarrow> False | Inr i \<Rightarrow> fi_regular i))"

primrec first_regular :: "boot_env \<Rightarrow> string list \<Rightarrow> string option boot" where
  "first_regular E [] = ret None"
| "first_regular E (p # ps) = bindW (regular_at E p) (\<lambda>b. if b then ret (Some p) else first_regular E ps)"

definition look_darwin :: "boot_env \<Rightarrow> string \<Rightarrow> string boot" where
  "look_darwin E name =
     bindW (tryW (look_exec E name)) (\<lambda>r. case r of
       Inr path \<Rightarrow> ret (bt_canonical E path)
     | Inl e \<Rightarrow> bindW (looks (\<lambda>n w. Inr (bt_uid E n))) (\<lambda>uid.
         ifW (uid \<noteq> 0) (Sentinel ErrNotExist)
         (bindW (first_regular E [join_path [''/opt/homebrew/bin'', name], join_path [''/usr/local/bin'', name]]) (\<lambda>c.
           case c of None \<Rightarrow> raise (Sentinel ErrNotExist) | Some p \<Rightarrow> ret (bt_canonical E p)))))"

definition trusted_brew :: "boot_env \<Rightarrow> (string \<times> nat) boot" where
  "trusted_brew E =
     bindW (tryW (look_darwin E ''brew'')) (\<lambda>r.
     bindW (case r of Inr p \<Rightarrow> ret (Inr p)
            | Inl e \<Rightarrow> bindW (first_regular E [''/opt/homebrew/bin/brew'', ''/usr/local/bin/brew'']) (\<lambda>c.
                ret (case c of None \<Rightarrow> Inl e | Some p \<Rightarrow> Inr p))) (\<lambda>found.
     bindW (of_result found) (\<lambda>brew.
     bindW (looks (\<lambda>n w. Inr (bt_stat E brew n))) (\<lambda>s. case s of
       Inl e \<Rightarrow> raise (Plain ''permission denied'')
     | Inr i \<Rightarrow>
         ifW (\<not> fi_regular i \<or> fi_perm i AND 0x12 \<noteq> 0) (Plain ''permission denied'')
         (case fi_uid i of
            None \<Rightarrow> raise (Plain ''permission denied'')
          | Some u \<Rightarrow> if u = 0 then raise (Plain ''permission denied'') else ret (clean brew, u))))))"

definition ensure_darwin :: "boot_env \<Rightarrow> bool \<Rightarrow> unit boot" where
  "ensure_darwin E packages =
     (let required = [''wg'', ''wg-quick'', ''wireguard-go''] in
      bindW (missing_commands (look_darwin E) required) (\<lambda>n.
        if n = 0 then ret ()
        else if \<not> packages then raise (fault CodeRuntimeDependency ''locate macOS WireGuard runtime'')
        else bindW (or_fault_cause ''locate user-owned Homebrew'' (trusted_brew E)) (\<lambda>(brew, owner).
             bindW (or_fault_cause ''locate sudo for Homebrew'' (look_darwin E ''sudo'')) (\<lambda>sudo.
             bindW (or_fault ''install macOS WireGuard runtime''
                      (command E sudo [''-H'', ''-u'', ''#'' @ show_nat owner, brew, ''install'', ''wireguard-tools'', ''wireguard-go''])) (\<lambda>_.
             bindW (missing_commands (look_darwin E) required) (\<lambda>k.
               if k \<noteq> 0 then raise (fault CodeRuntimeDependency ''verify macOS WireGuard runtime'') else ret ()))))))"

definition look_windows :: "boot_env \<Rightarrow> string \<Rightarrow> string boot" where
  "look_windows E name =
     bindW (tryW (look_exec E name)) (\<lambda>r. case r of
       Inr path \<Rightarrow> ret path
     | Inl e \<Rightarrow> bindW (looks (\<lambda>n w. Inr (bt_getenv E ''ProgramFiles'' n))) (\<lambda>v.
         let files = (if v = [] then ''C:'' @ CHR 0x5C # ''Program Files'' else v);
             candidate = bt_join E [files, ''WireGuard'', name]
         in bindW (regular_at E candidate) (\<lambda>b. if b then ret candidate else raise (Sentinel ErrNotExist))))"

definition ensure_windows :: "boot_env \<Rightarrow> bool \<Rightarrow> unit boot" where
  "ensure_windows E packages =
     (let required = [''wireguard.exe'', ''wg.exe''] in
      bindW (missing_commands (look_windows E) required) (\<lambda>n.
        if n = 0 then ret ()
        else if \<not> packages then raise (fault CodeRuntimeDependency ''locate WireGuard for Windows'')
        else bindW (or_fault_cause ''locate winget for WireGuard installation'' (look_exec E ''winget.exe'')) (\<lambda>winget.
             bindW (or_fault ''install WireGuard for Windows''
                      (command E winget [''install'', ''--id'', ''WireGuard.WireGuard'', ''--exact'', ''--silent'',
                        ''--accept-package-agreements'', ''--accept-source-agreements''])) (\<lambda>_.
             bindW (missing_commands (look_windows E) required) (\<lambda>k.
               if k \<noteq> 0 then raise (fault CodeRuntimeDependency ''verify WireGuard for Windows'') else ret ())))))"

section \<open>Bootstrap\<close>

definition xray_version :: string where "xray_version = ''v26.3.27''"

definition release_address :: string where
  "release_address = ''https://github.com/XTLS/Xray-core/releases/download''"

definition linux_artifact :: "string \<Rightarrow> artifact option" where
  "linux_artifact arch =
     (if arch = ''amd64'' then Some \<lparr>ar_version = xray_version, ar_name = ''Xray-linux-64.zip'',
        ar_sha256 = ''23cd9af937744d97776ee35ecad4972cf4b2109d1e0fe6be9930467608f7c8ae''\<rparr>
      else if arch = ''arm64'' then Some \<lparr>ar_version = xray_version, ar_name = ''Xray-linux-arm64-v8a.zip'',
        ar_sha256 = ''4d30283ae614e3057f730f67cd088a42be6fdf91f8639d82cb69e48cde80413c''\<rparr>
      else None)"

definition darwin_artifact :: "string \<Rightarrow> artifact option" where
  "darwin_artifact arch =
     (if arch = ''amd64'' then Some \<lparr>ar_version = xray_version, ar_name = ''Xray-macos-64.zip'',
        ar_sha256 = ''f5b0471d3459eff1b82e48af0aeac186abcc3298210070afbbbd8437a4e8b203''\<rparr>
      else if arch = ''arm64'' then Some \<lparr>ar_version = xray_version, ar_name = ''Xray-macos-arm64-v8a.zip'',
        ar_sha256 = ''2e93a67e8aa1936ecefb307e120830fcbd4c643ab9b1c46a2d0838d5f8409eaf''\<rparr>
      else None)"

definition windows_artifact :: "string \<Rightarrow> artifact option" where
  "windows_artifact arch =
     (if arch = ''amd64'' then Some \<lparr>ar_version = xray_version, ar_name = ''Xray-windows-64.zip'',
        ar_sha256 = ''d004c39288ce9ada487c6f398c7c545f7d749e44bdfdd59dbc9f865afba4e1ad''\<rparr>
      else None)"

text \<open>The dependencies are those of production: none of them is missing.\<close>

definition bootstrap_linux :: "boot_env \<Rightarrow> bootstrap_options \<Rightarrow> artifact \<Rightarrow> bootstrap_result boot" where
  "bootstrap_linux E opts a =
     bindW (looks (\<lambda>n w. Inr (bt_uid E n))) (\<lambda>uid.
     ifW (uid \<noteq> 0) (fault CodeRuntimePermission ''bootstrap managed runtime'')
     (ifW (\<not> artifact_ok a) (fault CodeInvalidInput ''select managed Xray artifact'')
     (bindW (ensure_linux E (bo_packages opts)) (\<lambda>_. provision E opts a ''linux'' (bt_goarch E)))))"

definition bootstrap_darwin :: "boot_env \<Rightarrow> bootstrap_options \<Rightarrow> artifact \<Rightarrow> bootstrap_result boot" where
  "bootstrap_darwin E opts a =
     bindW (looks (\<lambda>n w. Inr (bt_uid E n))) (\<lambda>uid.
     ifW (uid \<noteq> 0) (fault CodeRuntimePermission ''bootstrap managed runtime'')
     (bindW (ensure_darwin E (bo_packages opts)) (\<lambda>_. install_managed_xray E opts a ''darwin'' (bt_goarch E))))"

definition bootstrap_windows :: "boot_env \<Rightarrow> bootstrap_options \<Rightarrow> artifact \<Rightarrow> bootstrap_result boot" where
  "bootstrap_windows E opts a =
     bindW (looks (\<lambda>n w. Inr (bt_elevated E n))) (\<lambda>elevated.
     ifW (\<not> elevated) (fault CodeRuntimePermission ''bootstrap managed runtime'')
     (bindW (ensure_windows E (bo_packages opts)) (\<lambda>_. install_managed_xray E opts a ''windows'' (bt_goarch E))))"

definition no_artifact :: "'a boot" where
  "no_artifact = raise (fault CodeRuntimeUnavailable ''select managed Xray artifact'')"

definition bootstrap_platform :: "boot_env \<Rightarrow> bootstrap_options \<Rightarrow> bootstrap_result boot" where
  "bootstrap_platform E opts =
     (if bt_goos E = ''linux'' then (case linux_artifact (bt_goarch E) of None \<Rightarrow> no_artifact | Some a \<Rightarrow> bootstrap_linux E opts a)
      else if bt_goos E = ''darwin'' then (case darwin_artifact (bt_goarch E) of None \<Rightarrow> no_artifact | Some a \<Rightarrow> bootstrap_darwin E opts a)
      else if bt_goos E = ''windows'' then (case windows_artifact (bt_goarch E) of None \<Rightarrow> no_artifact | Some a \<Rightarrow> bootstrap_windows E opts a)
      else raise (fault CodeRuntimeUnavailable ''bootstrap managed runtime on this platform''))"

definition bootstrap :: "boot_env \<Rightarrow> bootstrap_options \<Rightarrow> bootstrap_result boot" where
  "bootstrap E opts =
     (let state = clean (trim_space (bo_state opts));
          opts' = opts\<lparr>bo_state := state, bo_base := (if trim_space (bo_base opts) = [] then release_address else bo_base opts)\<rparr>
      in ifW (state = ''.'' \<or> \<not> is_abs state) (fault CodeInvalidInput ''bootstrap runtime state directory'')
         (bootstrap_platform E opts'))"

end
