(* ===== verification/Bootstrap_Runs.thy ===== *)
theory Bootstrap_Runs
  imports Bootstrap
begin

text \<open>
  What \<open>Bootstrap\<close> may leave on the host: before the archive is verified nothing changes, and
  after it only the program of the pinned archive and a manifest that names its digest.
\<close>

section \<open>Steps that leave the files alone\<close>

definition same_files :: "install \<Rightarrow> install \<Rightarrow> bool" where
  "same_files w v \<longleftrightarrow> in_binary v = in_binary w \<and> in_manifest v = in_manifest w"

interpretation untouched: step_preorder same_files
  by unfold_locales (auto simp: same_files_def)

lemma looks_same: "keeps_rel same_files (looks f)"
  by (simp add: keeps_rel_def looks_def in_next_def same_files_def)

lemma performs_same: "keeps_rel same_files (performs e f)"
  by (simp add: keeps_rel_def performs_def in_next_def same_files_def)

lemma prod_same: "(\<And>a b. keeps_rel same_files (f a b)) \<Longrightarrow> keeps_rel same_files (case p of (a, b) \<Rightarrow> f a b)"
  by (simp split: prod.split)

lemma binary_file_same:
  "keeps_rel same_files a \<Longrightarrow> keeps_rel same_files b \<Longrightarrow> (\<And>p c. keeps_rel same_files (f p c)) \<Longrightarrow>
     keeps_rel same_files (case x of NoBinary \<Rightarrow> a | Irregular \<Rightarrow> b | Program p c \<Rightarrow> f p c)"
  by (simp split: binary_file.split)

lemmas same_keeps = untouched.ret_keeps untouched.raise_keeps untouched.of_result_keeps untouched.bindW_keeps untouched.tryW_keeps
  untouched.ifW_keeps untouched.if_keeps untouched.sum_keeps untouched.option_keeps looks_same performs_same prod_same binary_file_same

lemma load_managed_same: "keeps_rel same_files (load_managed E state)"
  unfolding load_managed_def by (intro same_keeps)

lemma current_same: "keeps_rel same_files (current_managed_runtime E state a platform arch source)"
  unfolding current_managed_runtime_def by (intro same_keeps load_managed_same)

lemma download_same: "keeps_rel same_files (download_managed_runtime E source expected)"
  unfolding download_managed_runtime_def by (intro same_keeps)

lemma look_exec_same: "keeps_rel same_files (look_exec E name)"
  unfolding look_exec_def by (intro same_keeps)

lemma first_regular_same: "keeps_rel same_files (first_regular E ps)"
proof (induction ps)
  case Nil
  show ?case unfolding first_regular.simps by (intro same_keeps)
next
  case (Cons p ps)
  show ?case unfolding first_regular.simps regular_at_def by (intro same_keeps Cons.IH)
qed

lemma look_darwin_same: "keeps_rel same_files (look_darwin E name)"
  unfolding look_darwin_def by (intro same_keeps look_exec_same first_regular_same)

lemma look_windows_same: "keeps_rel same_files (look_windows E name)"
  unfolding look_windows_def Let_def regular_at_def by (intro same_keeps look_exec_same)

lemma missing_same:
  assumes look: "\<And>c. keeps_rel same_files (look c)"
  shows "keeps_rel same_files (missing_commands look cs)"
proof (induction cs)
  case Nil
  show ?case unfolding missing_commands.simps by (intro same_keeps)
next
  case (Cons c cs)
  show ?case unfolding missing_commands.simps by (intro same_keeps look Cons.IH)
qed

lemma or_fault_same: "keeps_rel same_files m \<Longrightarrow> keeps_rel same_files (or_fault op m)"
  unfolding or_fault_def by (intro same_keeps)

lemma or_fault_cause_same: "keeps_rel same_files m \<Longrightarrow> keeps_rel same_files (or_fault_cause op m)"
  unfolding or_fault_cause_def by (intro same_keeps)

lemma trusted_brew_same: "keeps_rel same_files (trusted_brew E)"
  unfolding trusted_brew_def by (intro same_keeps look_darwin_same first_regular_same)

lemmas tool_keeps = or_fault_same or_fault_cause_same missing_same look_exec_same look_darwin_same look_windows_same trusted_brew_same

lemma ensure_linux_same: "keeps_rel same_files (ensure_linux E packages)"
  unfolding ensure_linux_def Let_def command_def by (intro same_keeps tool_keeps)

lemma ensure_darwin_same: "keeps_rel same_files (ensure_darwin E packages)"
  unfolding ensure_darwin_def Let_def command_def by (intro same_keeps tool_keeps)

lemma ensure_windows_same: "keeps_rel same_files (ensure_windows E packages)"
  unfolding ensure_windows_def Let_def command_def by (intro same_keeps tool_keeps)

section \<open>What an installation leaves\<close>

text \<open>A program out of an archive with the digest of the artifact.\<close>

definition released_program :: "boot_env \<Rightarrow> artifact \<Rightarrow> byte list \<Rightarrow> bool" where
  "released_program E a program \<longleftrightarrow>
     (\<exists>archive. digest_matches E archive (ar_sha256 a) \<and> extract_xray_binary E archive = Inr program)"

definition manifest_of :: "boot_env \<Rightarrow> artifact \<Rightarrow> byte list \<Rightarrow> managed \<Rightarrow> bool" where
  "manifest_of E a program m \<longleftrightarrow>
     mm_archive_sha m = ar_sha256 a \<and> mm_version m = ar_version a \<and> mm_binary_sha m = hex_encode (bt_sha256 E program)"

definition installed :: "boot_env \<Rightarrow> artifact \<Rightarrow> install \<Rightarrow> install \<Rightarrow> bool" where
  "installed E a w v \<longleftrightarrow>
     same_files w v \<or>
     (\<exists>program. released_program E a program \<and> in_binary v = Program 0x1C0 program \<and>
        (in_manifest v = in_manifest w \<or> (\<exists>m. in_manifest v = Doc m \<and> manifest_of E a program m)))"

text \<open>A fresh installation that is reported is complete.\<close>

definition complete :: "boot_env \<Rightarrow> artifact \<Rightarrow> bootstrap_result \<Rightarrow> install \<Rightarrow> bool" where
  "complete E a r v \<longleftrightarrow>
     br_already r \<or>
     (\<exists>program m. released_program E a program \<and> in_binary v = Program 0x1C0 program \<and>
        in_manifest v = Doc m \<and> manifest_of E a program m \<and> r = bootstrap_result_of m False)"

lemma download_checked:
  "download_managed_runtime E source expected w = (Inr archive, v) \<Longrightarrow> digest_matches E archive expected"
  by (auto simp: download_managed_runtime_def received_def guard_simps Let_def split: option.splits if_splits)

lemma same_installed: "same_files w v \<Longrightarrow> installed E a w v"
  by (simp add: installed_def)

lemma installed_after: "same_files w u \<Longrightarrow> installed E a u v \<Longrightarrow> installed E a w v"
  by (auto simp: installed_def same_files_def)

text \<open>The two writes, after the archive has been verified.\<close>

lemma writes_leave:
  assumes "released_program E a program"
  shows "wp (bindW (write_managed_executable E program) (\<lambda>_.
      bindW (looks (\<lambda>n w. Inr (bt_now E n))) (\<lambda>now.
        let m = \<lparr>mm_schema = 1, mm_platform = platform, mm_arch = arch, mm_version = ar_version a, mm_asset = ar_name a,
                 mm_archive_sha = ar_sha256 a, mm_binary_sha = hex_encode (bt_sha256 E program),
                 mm_path = path, mm_source = source, mm_wireguard = True, mm_installed = to_utc now\<rparr>
        in bindW (write_managed_manifest E m) (\<lambda>_. ret (bootstrap_result_of m False)))))
    (\<lambda>r v. installed E a w v \<and> complete E a r v) (\<lambda>e v. installed E a w v) w"
proof (cases "bt_binary_write E (in_tick w)")
  case (Some op)
  then show ?thesis
    by (simp add: wp_def bindW_def write_managed_executable_def installed_def same_files_def in_next_def)
next
  case None
  show ?thesis
  proof (cases "bt_write E (Suc (Suc (in_tick w)))")
    case WriteOk
    with None assms show ?thesis
      unfolding complete_def installed_def
      by (auto simp: wp_def bindW_def write_managed_executable_def write_managed_manifest_def write_artifact_def looks_def
          of_option_def in_next_def manifest_of_def Let_def)
  next
    case (FailsBefore op)
    with None assms show ?thesis
      unfolding installed_def
      by (auto simp: wp_def bindW_def write_managed_executable_def write_managed_manifest_def write_artifact_def looks_def
          of_option_def in_next_def manifest_of_def Let_def)
  next
    case FailsAfter
    with None assms show ?thesis
      unfolding installed_def
      by (auto simp: wp_def bindW_def write_managed_executable_def write_managed_manifest_def write_artifact_def looks_def
          of_option_def in_next_def manifest_of_def Let_def)
  qed
qed

lemma current_already:
  "current_managed_runtime E state a platform arch source w = (Inr (Some r), v) \<Longrightarrow> br_already r"
  by (auto simp: current_managed_runtime_def guard_simps bootstrap_result_of_def split: option.splits if_splits)

lemma provision_leaves:
  "wp (provision E opts a platform arch) (\<lambda>r v. installed E a w v \<and> complete E a r v) (\<lambda>e v. installed E a w v) w"
proof -
  let ?Q = "\<lambda>r v. installed E a w v \<and> complete E a r v" and ?F = "\<lambda>e v. installed E a w v"
  show ?thesis
  proof (cases "release_base E (bo_base opts)")
    case (Inl e)
    then show ?thesis by (simp add: provision_def wp_simps installed_def same_files_def)
  next
    case (Inr base)
    let ?source = "trim_right_slash (bt_url_text E base) @ ''/'' @ ar_version a @ ''/'' @ ar_name a"
    show ?thesis
      unfolding provision_def wp_bind wp_of_result Inr sum.case Let_def [of ?source]
    proof (rule wpI)
      fix e v
      assume "current_managed_runtime E (bo_state opts) a platform arch ?source w = (Inl e, v)"
      from keeps_relD [OF current_same this] show "installed E a w v" by (rule same_installed)
    next
      fix existing v
      assume current: "current_managed_runtime E (bo_state opts) a platform arch ?source w = (Inr existing, v)"
      note same = keeps_relD [OF current_same current]
      show "wp (case existing of
           Some r \<Rightarrow> ret (r\<lparr>br_already := True\<rparr>)
         | None \<Rightarrow>
             bindW (download_managed_runtime E ?source (ar_sha256 a)) (\<lambda>archive.
             bindW (of_result (extract_xray_binary E archive)) (\<lambda>binary.
             bindW (write_managed_executable E binary) (\<lambda>_.
             bindW (looks (\<lambda>n w. Inr (bt_now E n))) (\<lambda>now.
               let m = \<lparr>mm_schema = 1, mm_platform = platform, mm_arch = arch, mm_version = ar_version a, mm_asset = ar_name a,
                        mm_archive_sha = ar_sha256 a, mm_binary_sha = hex_encode (bt_sha256 E binary),
                        mm_path = managed_xray_path (bt_goos E) (bo_state opts), mm_source = ?source, mm_wireguard = True,
                        mm_installed = to_utc now\<rparr>
               in bindW (write_managed_manifest E m) (\<lambda>_. ret (bootstrap_result_of m False))))))) ?Q ?F v"
      proof (cases existing)
        case (Some r)
        with same show ?thesis by (simp add: wp_ret same_installed complete_def)
      next
        case None
        show ?thesis unfolding None option.case wp_bind [of "download_managed_runtime E ?source (ar_sha256 a)"]
        proof (rule wpI)
          fix e u
          assume "download_managed_runtime E ?source (ar_sha256 a) v = (Inl e, u)"
          from keeps_relD [OF download_same this] same show "installed E a w u" by (blast intro: same_installed installed_after)
        next
          fix archive u
          assume down: "download_managed_runtime E ?source (ar_sha256 a) v = (Inr archive, u)"
          have here: "same_files w u"
            using keeps_relD [OF download_same down] same by (blast intro: untouched.R_trans)
          show "wp (bindW (of_result (extract_xray_binary E archive)) (\<lambda>binary.
             bindW (write_managed_executable E binary) (\<lambda>_.
             bindW (looks (\<lambda>n w. Inr (bt_now E n))) (\<lambda>now.
               let m = \<lparr>mm_schema = 1, mm_platform = platform, mm_arch = arch, mm_version = ar_version a, mm_asset = ar_name a,
                        mm_archive_sha = ar_sha256 a, mm_binary_sha = hex_encode (bt_sha256 E binary),
                        mm_path = managed_xray_path (bt_goos E) (bo_state opts), mm_source = ?source, mm_wireguard = True,
                        mm_installed = to_utc now\<rparr>
               in bindW (write_managed_manifest E m) (\<lambda>_. ret (bootstrap_result_of m False)))))) ?Q ?F u"
          proof (cases "extract_xray_binary E archive")
            case (Inl e)
            with here show ?thesis by (simp add: wp_simps same_installed)
          next
            case (Inr program)
            have "released_program E a program"
              unfolding released_program_def using download_checked [OF down] Inr by blast
            from writes_leave [OF this] show ?thesis
              unfolding wp_bind [of "of_result _"] wp_of_result Inr sum.case
              by (rule wp_conseq) (use here in \<open>blast intro: installed_after\<close>)+
          qed
        qed
      qed
    qed
  qed
qed

section \<open>The whole bootstrap\<close>

definition pinned_artifact :: "boot_env \<Rightarrow> artifact option" where
  "pinned_artifact E =
     (if bt_goos E = ''linux'' then linux_artifact (bt_goarch E)
      else if bt_goos E = ''darwin'' then darwin_artifact (bt_goarch E)
      else if bt_goos E = ''windows'' then windows_artifact (bt_goarch E) else None)"

lemma after_same:
  assumes m: "keeps_rel same_files m"
    and f: "\<And>b v. wp (f b) (\<lambda>r x. installed E a v x \<and> complete E a r x) (\<lambda>e x. installed E a v x) v"
  shows "wp (bindW m f) (\<lambda>r v. installed E a w v \<and> complete E a r v) (\<lambda>e v. installed E a w v) w"
  unfolding wp_bind
proof (rule wp_keeps [OF m])
  fix b v assume same: "same_files w v"
  show "wp (f b) (\<lambda>r v. installed E a w v \<and> complete E a r v) (\<lambda>e v. installed E a w v) v"
    by (rule wp_conseq [OF f]) (use same in \<open>blast intro: installed_after\<close>)+
qed (rule same_installed)

lemma refused_leaves:
  "(\<And>v. wp m (\<lambda>r x. installed E a v x \<and> complete E a r x) (\<lambda>e x. installed E a v x) v) \<Longrightarrow>
   wp (ifW b e m) (\<lambda>r v. installed E a w v \<and> complete E a r v) (\<lambda>e v. installed E a w v) w"
  by (simp add: wp_ifW same_installed same_files_def)

lemma platform_leaves:
  "wp (bootstrap_linux E opts a) (\<lambda>r v. installed E a w v \<and> complete E a r v) (\<lambda>e v. installed E a w v) w"
  "wp (bootstrap_darwin E opts a) (\<lambda>r v. installed E a w v \<and> complete E a r v) (\<lambda>e v. installed E a w v) w"
  "wp (bootstrap_windows E opts a) (\<lambda>r v. installed E a w v \<and> complete E a r v) (\<lambda>e v. installed E a w v) w"
  unfolding bootstrap_linux_def bootstrap_darwin_def bootstrap_windows_def install_managed_xray_def
  by (intro after_same refused_leaves provision_leaves looks_same ensure_linux_same ensure_darwin_same ensure_windows_same)+

text \<open>
  C32. \<open>Bootstrap\<close> runs only what was released. Whatever fails, the program in the state directory
  and the manifest stay as they were, or the program is the one extracted from an archive whose
  SHA-256 is the digest pinned for this platform and architecture, with owner-only permissions,
  and a new manifest names the digests of that archive and that program. A success that is not
  "already provisioned" has both in place and reports that manifest.
\<close>

theorem bootstrap_installs_only_pinned:
  assumes "bootstrap E opts w = (r, w')"
  shows "same_files w w' \<and> (\<forall>b. r = Inr b \<longrightarrow> br_already b) \<or>
    (\<exists>a. pinned_artifact E = Some a \<and> installed E a w w' \<and> (\<forall>b. r = Inr b \<longrightarrow> complete E a b w'))"
proof -
  let ?state = "clean (trim_space (bo_state opts))"
  let ?opts = "opts\<lparr>bo_state := ?state, bo_base := (if trim_space (bo_base opts) = [] then release_address else bo_base opts)\<rparr>"
  have other: ?thesis if "w' = w \<and> (\<exists>e. r = Inl e)" using that by (auto simp: same_files_def)
  show ?thesis
  proof (cases "?state = ''.'' \<or> \<not> is_abs ?state")
    case True
    with assms show ?thesis by (intro other) (auto simp: bootstrap_def Let_def ifW_def)
  next
    case False
    with assms have run: "bootstrap_platform E ?opts w = (r, w')" by (simp add: bootstrap_def Let_def ifW_def)
    show ?thesis
    proof (cases "pinned_artifact E")
      case None
      with run show ?thesis
        by (intro other) (auto simp: bootstrap_platform_def pinned_artifact_def no_artifact_def split: if_split_asm)
    next
      case (Some a)
      with run have "bootstrap_linux E ?opts a w = (r, w') \<or> bootstrap_darwin E ?opts a w = (r, w') \<or>
        bootstrap_windows E ?opts a w = (r, w')"
        by (simp add: bootstrap_platform_def pinned_artifact_def split: if_splits)
      then have "case r of Inl e \<Rightarrow> installed E a w w' | Inr b \<Rightarrow> installed E a w w' \<and> complete E a b w'"
        using wpD [OF platform_leaves(1)] wpD [OF platform_leaves(2)] wpD [OF platform_leaves(3)] by blast
      with Some show ?thesis by (cases r) auto
    qed
  qed
qed

section \<open>An installation\<close>

definition sample_release :: url where
  "sample_release = \<lparr>u_scheme = ''https'', u_opaque = [], u_has_user = False, u_host = ''h'', u_hostname = ''h'', u_port = [],
     u_path = [], u_escaped_path = [], u_raw_query = [], u_query = [], u_fragment = []\<rparr>"

definition sample_digest :: string where
  "sample_digest = ''23cd9af937744d97776ee35ecad4972cf4b2109d1e0fe6be9930467608f7c8ae''"

definition sample_download :: boot_env where
  "sample_download =
     \<lparr>bt_goos = ''linux'', bt_goarch = ''amd64'', bt_urls = (\<lambda>s. Some sample_release), bt_url_text = (\<lambda>u. ''https://h''),
      bt_sha256 = (\<lambda>b. case hex_decode sample_digest of Some d \<Rightarrow> d | None \<Rightarrow> []),
      bt_zip = (\<lambda>b. Inr [\<lparr>ze_name = ''xray'', ze_dir = False, ze_size = 1, ze_open = None, ze_contents = [7],
         ze_failure = None, ze_close = None\<rparr>]),
      bt_request = (\<lambda>u. None), bt_get = (\<lambda>u n. Inr \<lparr>rp_status = 200, rp_length = 1, rp_body = [1], rp_failure = None\<rparr>),
      bt_uid = (\<lambda>n. 0), bt_elevated = (\<lambda>n. True), bt_look = (\<lambda>c n. Inr c), bt_stat = (\<lambda>p n. Inl (Sentinel ErrNotExist)),
      bt_getenv = (\<lambda>v n. []), bt_canonical = (\<lambda>p. p), bt_join = concat, bt_run = (\<lambda>c a n. None), bt_read = (\<lambda>n. ReadOk),
      bt_lstat = (\<lambda>n. True), bt_foreign = (\<lambda>p n. NoBinary), bt_binary_write = (\<lambda>n. None), bt_write = (\<lambda>n. WriteOk),
      bt_now = (\<lambda>n. zero_time)\<rparr>"

definition sample_empty :: install where
  "sample_empty = \<lparr>in_tick = 0, in_manifest = Absent, in_binary = NoBinary, in_log = []\<rparr>"

definition sample_options :: bootstrap_options where
  "sample_options = \<lparr>bo_state = ''/s'', bo_base = [], bo_packages = False\<rparr>"

lemma sample_state: "clean ''/s'' = ''/s''" "trim_space ''/s'' = ''/s''" "is_abs ''/s''"
  by code_simp+

lemma sample_digest_matches: "digest_matches sample_download raw sample_digest"
proof -
  have "hex_encode (case hex_decode sample_digest of Some d \<Rightarrow> d | None \<Rightarrow> []) = sample_digest" by code_simp
  then show ?thesis by (simp add: digest_matches_def equal_fold_def sample_download_def)
qed

lemma sample_extracted: "extract_xray_binary sample_download raw = Inr [7]"
proof -
  have "to_lower (base_of ''xray'') = ''xray''" by code_simp
  then show ?thesis by (simp add: extract_xray_binary_def sample_download_def entry_contents_def download_limit_def)
qed

lemma sample_download_fields:
  "bt_goos sample_download = ''linux''" "bt_goarch sample_download = ''amd64''"
  "bt_urls sample_download s = Some sample_release" "bt_url_text sample_download u = ''https://h''"
  "bt_request sample_download s = None"
  "bt_get sample_download s n = Inr \<lparr>rp_status = 200, rp_length = 1, rp_body = [1], rp_failure = None\<rparr>"
  "bt_uid sample_download n = 0" "bt_look sample_download s n = Inr s" "bt_read sample_download n = ReadOk"
  "bt_binary_write sample_download n = None" "bt_write sample_download n = WriteOk" "bt_now sample_download n = zero_time"
  by (simp_all add: sample_download_def)

lemma sample_installation: "\<exists>b. fst (bootstrap sample_download sample_options sample_empty) = Inr b \<and> \<not> br_already b"
  by (simp add: bootstrap_def sample_options_def sample_state bootstrap_platform_def linux_artifact_def bootstrap_linux_def
      ifW_def bindW_def tryW_def looks_def in_next_def sample_empty_def artifact_ok_def xray_version_def ensure_linux_def look_exec_def
      provision_def release_base_def sample_release_def current_managed_runtime_def load_managed_def
      download_managed_runtime_def performs_def received_def download_limit_def sample_digest_matches [unfolded sample_digest_def]
      sample_extracted write_managed_executable_def write_managed_manifest_def write_artifact_def of_option_def bootstrap_result_of_def
      sample_download_fields Let_def)

corollary bootstrap_installs_only_pinned_witness:
  "\<exists>program. in_binary (snd (bootstrap sample_download sample_options sample_empty)) = Program 0x1C0 program \<and>
     released_program sample_download \<lparr>ar_version = xray_version, ar_name = ''Xray-linux-64.zip'', ar_sha256 = sample_digest\<rparr> program"
proof -
  have pinned: "pinned_artifact sample_download = Some \<lparr>ar_version = xray_version, ar_name = ''Xray-linux-64.zip'', ar_sha256 = sample_digest\<rparr>"
    by (simp add: pinned_artifact_def sample_download_def linux_artifact_def sample_digest_def)
  from sample_installation show ?thesis
    using bootstrap_installs_only_pinned [of sample_download sample_options sample_empty, OF prod.collapse [symmetric]] pinned
    by (auto simp: complete_def)
qed

end
