(* ===== verification/Windows_Backend.thy ===== *)
theory Windows_Backend
  imports Bootstrap
begin

text \<open>
  The Windows backend, \<open>overlay/runtime/desktop_windows.go\<close>: a tunnel is a Windows service that
  must belong to this program before it is touched, a process is recognised through a handle that
  is kept open while it is inspected and ended, and a file is private if its security descriptor
  grants access to the system, the administrators and its owner, and to nobody else. The Windows
  calls and the Windows rules for file paths (\<open>path/filepath\<close> of that build) are parameters.
\<close>

section \<open>The system\<close>

datatype service_answer = NoService | MarkedForDelete | OpenError error | ConfigError error | Service string

datatype handle_answer = ProcessGone | HandleError error | Handle

datatype image_answer = Image string | Insufficient nat | ImageError error

datatype wait_answer = WaitError error | Signaled | TimedOut | OtherWait

record windows_env =
  we_os :: os_env
  we_clean :: "string \<Rightarrow> string"
  we_base :: "string \<Rightarrow> string"
  we_ext :: "string \<Rightarrow> string"
  we_join :: "string list \<Rightarrow> string"
  we_abs :: "string \<Rightarrow> nat \<Rightarrow> string option"
  we_getenv :: "string \<Rightarrow> nat \<Rightarrow> string"
  we_stat :: "string \<Rightarrow> nat \<Rightarrow> error + file_info"
  we_connect :: "nat \<Rightarrow> error option"
  we_service :: "string \<Rightarrow> nat \<Rightarrow> service_answer"
  we_decompose :: "string \<Rightarrow> string list option"
  we_close :: "nat \<Rightarrow> error option"
  we_ctx :: "nat \<Rightarrow> error"
  we_open :: "int \<Rightarrow> nat \<Rightarrow> handle_answer"
  we_exit_code :: "int \<Rightarrow> nat \<Rightarrow> error + nat"
  we_image :: "int \<Rightarrow> nat \<Rightarrow> nat \<Rightarrow> image_answer"
  we_created :: "int \<Rightarrow> nat \<Rightarrow> error + 32 word \<times> 32 word"
  we_terminate :: "int \<Rightarrow> nat \<Rightarrow> error option"
  we_access_denied :: "error \<Rightarrow> bool"
  we_wait :: "int \<Rightarrow> nat \<Rightarrow> wait_answer"
  we_udp_table :: "nat \<Rightarrow> error + byte list"

section \<open>Names and paths\<close>

definition windows_tool_name :: "string \<Rightarrow> string" where
  "windows_tool_name name =
     (let n = to_lower name in
      if n = ''xray'' then ''xray.exe'' else if n = ''wg'' then ''wg.exe'' else if n = ''wg-quick'' then ''wireguard.exe'' else name)"

definition windows_canonical :: "windows_env \<Rightarrow> string \<Rightarrow> string sys" where
  "windows_canonical W p =
     bindW (asks (we_abs W p)) (\<lambda>a.
       let path = (case a of None \<Rightarrow> p | Some q \<Rightarrow> q) in
       bindW (asks (oe_eval (we_os W) path)) (\<lambda>r. ret (to_lower (we_clean W (case r of None \<Rightarrow> path | Some q \<Rightarrow> q)))))"

definition same_windows_path :: "windows_env \<Rightarrow> string \<Rightarrow> string \<Rightarrow> bool" where
  "same_windows_path W l r \<longleftrightarrow> equal_fold (we_clean W l) (we_clean W r)"

definition windows_program_files :: "windows_env \<Rightarrow> string sys" where
  "windows_program_files W =
     bindW (asks (we_getenv W ''ProgramFiles'')) (\<lambda>v.
       ret (if trim_space v = [] then ''C:'' @ CHR 0x5C # ''Program Files'' else trim_space v))"

definition windows_candidate :: "windows_env \<Rightarrow> string \<Rightarrow> error \<Rightarrow> string sys" where
  "windows_candidate W tool e =
     (if tool \<noteq> ''wireguard.exe'' \<and> tool \<noteq> ''wg.exe'' then raise e
      else bindW (windows_program_files W) (\<lambda>files.
        let candidate = we_join W [files, ''WireGuard'', tool] in
        bindW (tryW (queries (we_stat W candidate))) (\<lambda>s. case s of
          Inl _ \<Rightarrow> raise e | Inr info \<Rightarrow> if fi_regular info then ret candidate else raise e)))"

definition windows_look_path :: "windows_env \<Rightarrow> string \<Rightarrow> string sys" where
  "windows_look_path W name =
     (let tool = windows_tool_name name in
      bindW (tryW (queries (oe_look (we_os W) tool))) (\<lambda>r.
      bindW (case r of Inr p \<Rightarrow> ret p | Inl e \<Rightarrow> windows_candidate W tool e) (\<lambda>path.
      bindW (queries (we_stat W path)) (\<lambda>info.
        ifW (\<not> fi_regular info) (Plain ''runtime executable is not a regular file'') (windows_canonical W path)))))"

definition tunnel_char :: "char \<Rightarrow> bool" where
  "tunnel_char c \<longleftrightarrow> is_alnum c \<or> c = CHR ''_'' \<or> c = CHR ''='' \<or> c = CHR ''+'' \<or> c = CHR ''-'' \<or> c = CHR ''.''"

definition windows_tunnel_name :: "string \<Rightarrow> error + string" where
  "windows_tunnel_name name =
     (if name = [] \<or> length name > 15 \<or> \<not> list_all tunnel_char name then Inl (Plain ''invalid WireGuard tunnel name'') else Inr name)"

definition trim_suffix_of :: "string \<Rightarrow> string \<Rightarrow> string" where
  "trim_suffix_of s p = trim_suffix s p"

definition windows_tunnel_of_path :: "windows_env \<Rightarrow> string \<Rightarrow> error + string" where
  "windows_tunnel_of_path W path =
     (let base = we_base W path in
      if length base \<le> length ''.conf'' \<or> \<not> equal_fold (we_ext W base) ''.conf''
      then Inl (Plain ''WireGuard tunnel configuration must end in .conf'')
      else windows_tunnel_name (trim_suffix_of base (we_ext W base)))"

definition windows_service_args :: "windows_env \<Rightarrow> bool \<Rightarrow> string \<Rightarrow> error + string list \<times> string" where
  "windows_service_args W up path =
     bindR (windows_tunnel_of_path W path) (\<lambda>tunnel.
       if up then Inr ([''/installtunnelservice'', path], tunnel) else Inr ([''/uninstalltunnelservice'', tunnel], tunnel))"

section \<open>The tunnel service\<close>

definition tunnel_service_name :: "string \<Rightarrow> string" where
  "tunnel_service_name tunnel = ''WireGuardTunnel$'' @ tunnel"

definition service_owned :: "windows_env \<Rightarrow> string \<Rightarrow> string \<Rightarrow> string \<Rightarrow> bool" where
  "service_owned W line executable path =
     (case we_decompose W line of
        Some [program, mode, argument] \<Rightarrow>
          same_windows_path W program executable \<and> equal_fold mode ''/tunnelservice'' \<and> same_windows_path W argument path
      | _ \<Rightarrow> False)"

definition windows_service_state :: "windows_env \<Rightarrow> string \<Rightarrow> string \<Rightarrow> string \<Rightarrow> (bool \<times> bool) sys" where
  "windows_service_state W interface executable path =
     bindW (of_result (windows_tunnel_name interface)) (\<lambda>tunnel.
     bindW (queries (\<lambda>n. of_option (we_connect W n))) (\<lambda>_.
     bindW (asks (we_service W (tunnel_service_name tunnel))) (\<lambda>s. case s of
         NoService \<Rightarrow> ret (False, False)
       | MarkedForDelete \<Rightarrow> ret (True, False)
       | OpenError e \<Rightarrow> raise e
       | ConfigError e \<Rightarrow> raise e
       | Service line \<Rightarrow> ret (True, service_owned W line executable path))))"

definition tunnel_service_exists :: "windows_env \<Rightarrow> string \<Rightarrow> bool sys" where
  "tunnel_service_exists W tunnel =
     bindW (of_result (windows_tunnel_name tunnel)) (\<lambda>name.
     bindW (queries (\<lambda>n. of_option (we_connect W n))) (\<lambda>_.
     bindW (asks (we_service W (tunnel_service_name name))) (\<lambda>s. case s of
         NoService \<Rightarrow> ret False
       | MarkedForDelete \<Rightarrow> ret True
       | OpenError e \<Rightarrow> raise e
       | _ \<Rightarrow> bindW (queries (\<lambda>n. of_option (we_close W n))) (\<lambda>_. ret True))))"

section \<open>Commands\<close>

definition windows_interface_index :: "windows_env \<Rightarrow> string \<Rightarrow> int sys" where
  "windows_interface_index W name = linux_interface_index (we_os W) name"

primrec await_interface :: "windows_env \<Rightarrow> string \<Rightarrow> nat \<Rightarrow> unit sys" where
  "await_interface W name 0 = queries (\<lambda>n. Inl (we_ctx W n))"
| "await_interface W name (Suc k) =
     bindW (windows_interface_index W name) (\<lambda>i. if 0 < i then ret () else await_interface W name k)"

text \<open>The first look is before the context is asked.\<close>

definition wait_for_interface :: "windows_env \<Rightarrow> string \<Rightarrow> unit sys" where
  "wait_for_interface W name = bindW (asks (oe_rounds (we_os W))) (\<lambda>n. await_interface W name (Suc n))"

primrec await_gone :: "windows_env \<Rightarrow> string \<Rightarrow> nat \<Rightarrow> unit sys" where
  "await_gone W name 0 = queries (\<lambda>n. Inl (we_ctx W n))"
| "await_gone W name (Suc k) =
     bindW (windows_interface_index W name) (\<lambda>i.
     bindW (tunnel_service_exists W name) (\<lambda>present.
       if i = 0 \<and> \<not> present then ret () else await_gone W name k))"

definition wait_for_gone :: "windows_env \<Rightarrow> string \<Rightarrow> unit sys" where
  "wait_for_gone W name = bindW (asks (oe_rounds (we_os W))) (\<lambda>n. await_gone W name (Suc n))"

definition install_tunnel :: "windows_env \<Rightarrow> string \<Rightarrow> string \<Rightarrow> unit sys" where
  "install_tunnel W executable path =
     bindW (of_result (windows_service_args W True path)) (\<lambda>(args, tunnel).
     bindW (execute (we_os W) executable args) (\<lambda>_.
     bindW (tryW (wait_for_interface W tunnel)) (\<lambda>r. case r of
         Inr u \<Rightarrow> ret ()
       | Inl e \<Rightarrow>
           bindW (tryW (execute (we_os W) executable [''/uninstalltunnelservice'', tunnel])) (\<lambda>c.
           bindW (case c of Inl x \<Rightarrow> ret (Inr ()) | Inr u \<Rightarrow> tryW (wait_for_gone W tunnel)) (\<lambda>_. raise e)))))"

definition uninstall_tunnel :: "windows_env \<Rightarrow> string \<Rightarrow> string \<Rightarrow> unit sys" where
  "uninstall_tunnel W executable path =
     bindW (of_result (windows_service_args W False path)) (\<lambda>(args, tunnel).
     bindW (tryW (execute (we_os W) executable args)) (\<lambda>r. case r of
         Inr u \<Rightarrow> wait_for_gone W tunnel
       | Inl e \<Rightarrow>
           bindW (tryW (windows_interface_index W tunnel)) (\<lambda>i.
           bindW (tryW (tunnel_service_exists W tunnel)) (\<lambda>present.
             if i = Inr 0 \<and> present = Inr False then ret () else raise e))))"

definition windows_run :: "windows_env \<Rightarrow> string \<Rightarrow> string list \<Rightarrow> unit sys" where
  "windows_run W name args =
     (if equal_fold (we_base W name) ''wireguard.exe'' \<and> args \<noteq> [] \<and> to_lower (hd args) = ''up'' then
        ifW (length args \<noteq> 2) (Plain ''invalid WireGuard tunnel start arguments'') (install_tunnel W name (args ! 1))
      else if equal_fold (we_base W name) ''wireguard.exe'' \<and> args \<noteq> [] \<and> to_lower (hd args) = ''down'' then
        ifW (length args \<noteq> 2) (Plain ''invalid WireGuard tunnel stop arguments'') (uninstall_tunnel W name (args ! 1))
      else execute (we_os W) name args)"

section \<open>Processes\<close>

definition windows_token :: "32 word \<times> 32 word \<Rightarrow> string" where
  "windows_token t = hex_encode (be32 (unat (fst t))) @ hex_encode (be32 (unat (snd t)))"

text \<open>The buffer grows while the system asks for a longer one; no path has more than 32767 characters.\<close>

primrec image_loop :: "windows_env \<Rightarrow> int \<Rightarrow> nat \<Rightarrow> nat \<Rightarrow> string sys" where
  "image_loop W pid room 0 = raise (Plain ''image name too long'')"
| "image_loop W pid room (Suc k) =
     bindW (asks (we_image W pid room)) (\<lambda>r. case r of
         Image s \<Rightarrow> windows_canonical W s
       | ImageError e \<Rightarrow> raise e
       | Insufficient needed \<Rightarrow> if needed \<le> room then raise (Plain ''insufficient buffer'') else image_loop W pid (needed + 1) k)"

definition windows_process_executable :: "windows_env \<Rightarrow> int \<Rightarrow> string sys" where
  "windows_process_executable W pid = image_loop W pid 260 32768"

definition windows_process_matches :: "windows_env \<Rightarrow> process_identity \<Rightarrow> bool sys" where
  "windows_process_matches W p =
     bindW (queries (we_exit_code W (pi_pid p))) (\<lambda>code.
       if code \<noteq> 259 then ret False
       else bindW (windows_process_executable W (pi_pid p)) (\<lambda>executable.
            ifW (\<not> same_windows_path W executable (pi_executable p)) (Plain ''executable identity mismatch'')
            (bindW (queries (we_created W (pi_pid p))) (\<lambda>t.
             ifW (windows_token t \<noteq> pi_start p) (Plain ''process start identity mismatch'') (ret True)))))"

definition windows_process_alive :: "windows_env \<Rightarrow> process_identity \<Rightarrow> bool sys" where
  "windows_process_alive W p =
     ifW (incomplete p) (Plain ''incomplete process identity'')
     (bindW (asks (we_open W (pi_pid p))) (\<lambda>h. case h of
         ProcessGone \<Rightarrow> ret False | HandleError e \<Rightarrow> raise e | Handle \<Rightarrow> windows_process_matches W p))"

definition windows_terminate :: "windows_env \<Rightarrow> int \<Rightarrow> unit sys" where
  "windows_terminate W pid = does Terminated (\<lambda>n. of_option (we_terminate W pid n))"

definition windows_await :: "windows_env \<Rightarrow> int \<Rightarrow> unit sys" where
  "windows_await W pid =
     bindW (asks (we_wait W pid)) (\<lambda>r. case r of
         WaitError e \<Rightarrow> raise e
       | Signaled \<Rightarrow> ret ()
       | TimedOut \<Rightarrow> raise (Plain ''Xray process did not stop before timeout'')
       | OtherWait \<Rightarrow> raise (Plain ''Xray process stop wait failed''))"

definition windows_stop :: "windows_env \<Rightarrow> process_identity \<Rightarrow> unit sys" where
  "windows_stop W p =
     ifW (pi_pid p \<le> 0 \<or> pi_start p = [] \<or> pi_executable p = []) (Plain ''incomplete process identity'')
     (bindW (asks (we_open W (pi_pid p))) (\<lambda>h. case h of
         ProcessGone \<Rightarrow> ret ()
       | HandleError e \<Rightarrow> raise e
       | Handle \<Rightarrow>
           bindW (windows_process_matches W p) (\<lambda>alive.
             if \<not> alive then ret ()
             else bindW (tryW (windows_terminate W (pi_pid p))) (\<lambda>t. case t of
                 Inl e \<Rightarrow> if \<not> we_access_denied W e then raise e else windows_await W (pi_pid p)
               | Inr u \<Rightarrow> windows_await W (pi_pid p)))))"

definition windows_process_token :: "windows_env \<Rightarrow> int \<Rightarrow> string sys" where
  "windows_process_token W pid =
     bindW (asks (we_open W pid)) (\<lambda>h. case h of
         ProcessGone \<Rightarrow> raise (Plain ''process is gone'')
       | HandleError e \<Rightarrow> raise e
       | Handle \<Rightarrow> bindW (queries (we_created W pid)) (\<lambda>t. ret (windows_token t)))"

definition windows_start :: "windows_env \<Rightarrow> string \<Rightarrow> string list \<Rightarrow> string \<Rightarrow> string \<Rightarrow> process_identity sys" where
  "windows_start W executable args revision digest =
     (let E = we_os W in
      bindW (does (\<lambda>n. Spawned n executable args) (oe_spawn E executable args)) (\<lambda>pid.
      bindW (windows_canonical W executable) (\<lambda>path.
      bindW (tryW (windows_process_token W pid)) (\<lambda>token. case token of
        Inl e \<Rightarrow> bindW (tryW (send_signal E pid SIGKILL)) (\<lambda>_. raise e)
      | Inr t \<Rightarrow>
          bindW (tryW (queries (\<lambda>n. of_option (oe_release E pid n)))) (\<lambda>released. case released of
            Inl e \<Rightarrow> bindW (tryW (send_signal E pid SIGKILL)) (\<lambda>_. raise e)
          | Inr u \<Rightarrow> ret \<lparr>pi_pid = pid, pi_executable = path, pi_config = config_argument args, pi_sha256 = digest,
                pi_revision = revision, pi_start = t\<rparr>)))))"

section \<open>The table of UDP sockets\<close>

definition of_le :: "byte list \<Rightarrow> nat" where
  "of_le bs = of_be (rev bs)"

definition slice :: "nat \<Rightarrow> nat \<Rightarrow> 'a list \<Rightarrow> 'a list" where
  "slice lo hi xs = take (hi - lo) (drop lo xs)"

text \<open>A row of 20 bytes: the port at 4 in network order, the process at 16.\<close>

definition udp_row_of :: "byte list \<Rightarrow> nat \<Rightarrow> nat \<times> nat" where
  "udp_row_of table i =
     (let offset = 4 + i * 20 in (of_be (slice (offset + 4) (offset + 6) table), of_le (slice (offset + 16) (offset + 20) table)))"

definition udp_owner :: "byte list \<Rightarrow> nat \<Rightarrow> nat \<Rightarrow> error + bool" where
  "udp_owner table port pid =
     (if length table < 4 then Inl (Plain ''invalid UDP table'')
      else let count = of_le (take 4 table) in
        if count > (length table - 4) div 20 then Inl (Plain ''invalid UDP table row count'')
        else Inr (list_ex (\<lambda>i. udp_row_of table i = (port, pid)) [0..<count]))"

definition windows_loopback_owned :: "windows_env \<Rightarrow> process_identity \<Rightarrow> string \<Rightarrow> bool sys" where
  "windows_loopback_owned W p address =
     ifW (pi_pid p \<le> 0) (Plain ''invalid Xray process identity'')
     (case split_host_port address of
        None \<Rightarrow> raise (Plain ''invalid loopback address'')
      | Some (host, given) \<Rightarrow>
          ifW (host \<noteq> ''127.0.0.1'') (Plain ''invalid loopback address'')
          (case parse_uint16 given of
             None \<Rightarrow> raise (Plain ''invalid syntax'')
           | Some port \<Rightarrow>
               bindW (queries (we_udp_table W)) (\<lambda>table.
                 of_result (udp_owner table port (nat (pi_pid p mod 2 ^ 32))))))"

section \<open>Private files\<close>

text \<open>\<open>strings.Cut\<close>: around the first occurrence.\<close>

fun cut_at :: "string \<Rightarrow> string \<Rightarrow> (string \<times> string) option" where
  "cut_at sub [] = (if sub = [] then Some ([], []) else None)"
| "cut_at sub (c # s) =
     (if has_prefix (c # s) sub then Some ([], drop (length sub) (c # s))
      else map_option (\<lambda>(a, b). (c # a, b)) (cut_at sub s))"

text \<open>\<open>strings.Count(s, sub) = 1\<close>, and \<open>strings.Replace(s, sub, "", 1)\<close>.\<close>

definition occurs_once :: "string \<Rightarrow> string \<Rightarrow> bool" where
  "occurs_once sub s = (case cut_at sub s of None \<Rightarrow> False | Some (a, b) \<Rightarrow> cut_at sub b = None)"

definition without_first :: "string \<Rightarrow> string \<Rightarrow> string" where
  "without_first sub s = (case cut_at sub s of None \<Rightarrow> s | Some (a, b) \<Rightarrow> a @ b)"

definition marker_end :: "string \<Rightarrow> nat \<Rightarrow> string \<Rightarrow> nat" where
  "marker_end s acc marker =
     (case cut_at marker (drop 2 s) of None \<Rightarrow> acc | Some (a, b) \<Rightarrow> if length a + 2 < acc then length a + 2 else acc)"

definition sddl_owner :: "string \<Rightarrow> string" where
  "sddl_owner s =
     (if \<not> has_prefix s ''O:'' then []
      else slice 2 (foldl (marker_end s) (length s) [''G:'', ''D:'', ''S:'']) s)"

definition ace_of :: "string \<Rightarrow> string" where
  "ace_of sid = ''(A;;FA;;;'' @ sid @ '')''"

definition matches_private_dacl :: "string \<Rightarrow> bool" where
  "matches_private_dacl s =
     (let owner = sddl_owner s in
      if owner = [] then False
      else case cut_at ''D:'' s of
          None \<Rightarrow> False
        | Some (head, dacl) \<Rightarrow>
            if \<not> has_prefix dacl ''P'' then False
            else let body = trim_prefix (trim_prefix dacl ''P'') ''AI'' in
              if \<not> occurs_once (ace_of ''SY'') body then False
              else let body1 = without_first (ace_of ''SY'') body in
                if \<not> occurs_once (ace_of ''BA'') body1 then False
                else let body2 = without_first (ace_of ''BA'') body1 in
                  body2 = ace_of ''OW'' \<or> body2 = ace_of owner)"

text \<open>The check of the state directory, \<open>overlay/state/permissions_windows.go\<close>: the owner by the alias only.\<close>

fun strip_entries :: "string list \<Rightarrow> string \<Rightarrow> string option" where
  "strip_entries [] body = Some body"
| "strip_entries (a # as) body = (if \<not> occurs_once a body then None else strip_entries as (without_first a body))"

definition matches_state_dacl :: "string \<Rightarrow> bool" where
  "matches_state_dacl s =
     (case cut_at ''D:'' s of
        None \<Rightarrow> False
      | Some (head, dacl) \<Rightarrow>
          if \<not> has_prefix dacl ''P'' then False
          else strip_entries [ace_of ''SY'', ace_of ''BA'', ace_of ''OW''] (trim_prefix (trim_prefix dacl ''P'') ''AI'') = Some [])"

end
