(* ===== verification/Windows_Facts.thy ===== *)
theory Windows_Facts
  imports Windows_Backend "HOL-Library.Multiset"
begin

text \<open>
  The Windows backend ends only the process it started, trusts only its own tunnel service, finds
  the owner of a socket in the system's table, and takes a file for private exactly if its access
  list grants full access to the system, the administrators and the owner.
\<close>

section \<open>Processes\<close>

lemma windows_canonical_silent: "keeps_rel silent (windows_canonical W p)"
  unfolding windows_canonical_def Let_def by (intro silence_keeps)

lemma image_silent:
  "(\<And>s. keeps_rel silent (f s)) \<Longrightarrow> (\<And>n. keeps_rel silent (g n)) \<Longrightarrow> (\<And>e. keeps_rel silent (h e)) \<Longrightarrow>
     keeps_rel silent (case r of Image s \<Rightarrow> f s | Insufficient n \<Rightarrow> g n | ImageError e \<Rightarrow> h e)"
  by (simp split: image_answer.split)

lemma image_loop_silent: "keeps_rel silent (image_loop W pid room k)"
proof (induction k arbitrary: room)
  case 0
  show ?case unfolding image_loop.simps by (intro silence_keeps)
next
  case (Suc k)
  show ?case unfolding image_loop.simps by (intro silence_keeps image_silent windows_canonical_silent Suc.IH)
qed

lemma windows_matches_silent: "keeps_rel silent (windows_process_matches W p)"
  unfolding windows_process_matches_def windows_process_executable_def by (intro silence_keeps image_loop_silent)

text \<open>
  The answers from number \<open>k\<close> to before \<open>m\<close>, all of one open handle, that show the process to be
  running and to be the one of an identity.
\<close>

definition windows_seen :: "windows_env \<Rightarrow> process_identity \<Rightarrow> nat \<Rightarrow> nat \<Rightarrow> bool" where
  "windows_seen W p k m \<longleftrightarrow>
     k + 2 < m \<and> we_open W (pi_pid p) k = Handle \<and> we_exit_code W (pi_pid p) (k + 1) = Inr 259 \<and>
     (\<exists>executable w v. windows_process_executable W (pi_pid p) w = (Inr executable, v) \<and>
        os_tick w = k + 2 \<and> os_tick v + 1 = m \<and> same_windows_path W executable (pi_executable p)) \<and>
     (\<exists>t. we_created W (pi_pid p) (m - 1) = Inr t \<and> windows_token t = pi_start p)"

lemma windows_matches_seen:
  assumes "windows_process_matches W p w = (Inr True, v)" and "we_open W (pi_pid p) k = Handle" and "os_tick w = k + 1"
  shows "windows_seen W p k (os_tick v)"
proof -
  from assms(1) obtain executable u t where exit: "we_exit_code W (pi_pid p) (os_tick w) = Inr 259"
    and path: "windows_process_executable W (pi_pid p) (next_tick w) = (Inr executable, u)" "same_windows_path W executable (pi_executable p)"
    and created: "we_created W (pi_pid p) (os_tick u) = Inr t" "windows_token t = pi_start p" and v: "v = next_tick u"
    by (auto simp: windows_process_matches_def guard_simps split: if_splits)
  have "os_tick (next_tick w) \<le> os_tick u"
    using keeps_relD [OF image_loop_silent] path(1) unfolding windows_process_executable_def silent_def by blast
  then have "k + 2 < os_tick v" using v assms(3) by simp
  moreover have "os_tick v - 1 = os_tick u" using v by simp
  ultimately show ?thesis
    unfolding windows_seen_def using assms(2,3) exit path created v
    by (auto intro!: exI [of _ executable]) (metis assms(3) next_tick_simps(1) Suc_eq_plus1)
qed

theorem windows_stop_only_started:
  assumes "windows_stop W p w = (r, w')"
  shows "os_log w' = os_log w \<or>
    (\<exists>m. os_log w' = os_log w @ [Terminated m] \<and> windows_seen W p (os_tick w) m \<and> 0 < pi_pid p)"
proof (cases "pi_pid p \<le> 0 \<or> pi_start p = [] \<or> pi_executable p = [] \<or> we_open W (pi_pid p) (os_tick w) \<noteq> Handle")
  case True
  with assms show ?thesis
    by (cases "we_open W (pi_pid p) (os_tick w)") (auto simp: windows_stop_def ifW_def bindW_def split: if_splits)
next
  case False
  let ?go = "\<lambda>alive. if \<not> alive then ret ()
     else bindW (tryW (windows_terminate W (pi_pid p))) (\<lambda>t. case t of
         Inl e \<Rightarrow> if \<not> we_access_denied W e then raise e else windows_await W (pi_pid p)
       | Inr u \<Rightarrow> windows_await W (pi_pid p))"
  from False assms have run: "bindW (windows_process_matches W p) ?go (next_tick w) = (r, w')"
    by (simp add: windows_stop_def ifW_def bindW_def)
  from run show ?thesis
  proof (cases rule: bindW_cases)
    case (stopped e)
    from keeps_relD [OF windows_matches_silent stopped(1)] show ?thesis by (simp add: silent_def)
  next
    case (went alive u)
    from keeps_relD [OF windows_matches_silent went(1)] have log: "os_log u = os_log w" by (simp add: silent_def)
    show ?thesis
    proof (cases alive)
      case False
      with went(2) log show ?thesis by simp
    next
      case True
      let ?x = "next_tick (u\<lparr>os_log := os_log u @ [Terminated (os_tick u)]\<rparr>)"
      have "keeps_rel silent (windows_await W (pi_pid p))"
        by (simp add: windows_await_def keeps_rel_def silent_def bindW_def split: wait_answer.split)
      then have quiet: "windows_await W (pi_pid p) ?x = (r, w') \<Longrightarrow> os_log w' = os_log ?x"
        using keeps_relD [of silent "windows_await W (pi_pid p)"] by (metis silent_def)
      have "os_log w' = os_log ?x"
        using went(2) True quiet
        by (auto simp: bindW_def tryW_def windows_terminate_def does_def of_option_def split: option.splits if_splits)
      with log have "os_log w' = os_log w @ [Terminated (os_tick u)]" by simp
      moreover have "windows_seen W p (os_tick w) (os_tick u)"
        using windows_matches_seen [of W p "next_tick w" u "os_tick w"] went(1) True False by simp
      ultimately show ?thesis using False by auto
    qed
  qed
qed

section \<open>Services and sockets\<close>

theorem windows_service_trusted:
  assumes "windows_service_state W interface executable path w = (Inr (present, True), v)"
  shows "present \<and> (\<exists>n line program mode argument.
    we_service W (''WireGuardTunnel$'' @ interface) n = Service line \<and> we_decompose W line = Some [program, mode, argument] \<and>
    same_windows_path W program executable \<and> equal_fold mode ''/tunnelservice'' \<and> same_windows_path W argument path)"
proof -
  let ?s = "we_service W (''WireGuardTunnel$'' @ interface) (os_tick w + 1)"
  from assms obtain line where line: "?s = Service line" and owned: "service_owned W line executable path" and present
    by (auto simp: windows_service_state_def guard_simps windows_tunnel_name_def tunnel_service_name_def
        split: if_splits service_answer.splits)
  from owned obtain program mode argument where "we_decompose W line = Some [program, mode, argument]"
    "same_windows_path W program executable" "equal_fold mode ''/tunnelservice''" "same_windows_path W argument path"
    by (auto simp: service_owned_def split: option.splits list.splits)
  with line \<open>present\<close> show ?thesis by blast
qed

theorem udp_owner_iff:
  "udp_owner table port pid = Inr True \<longleftrightarrow>
     4 \<le> length table \<and> 4 + 20 * of_le (take 4 table) \<le> length table \<and>
     (\<exists>i < of_le (take 4 table). of_be (slice (8 + 20 * i) (10 + 20 * i) table) = port \<and>
        of_le (slice (20 + 20 * i) (24 + 20 * i) table) = pid)"
proof -
  have rows: "c \<le> (n - 4) div 20 \<longleftrightarrow> 4 + 20 * c \<le> n" if "4 \<le> n" for c n :: nat
    using that by (simp add: less_eq_div_iff_mult_less_eq mult.commute) arith
  show ?thesis
    by (auto simp: udp_owner_def Let_def list_ex_iff udp_row_of_def rows not_less add.commute mult.commute)
qed

section \<open>Private files\<close>

text \<open>An entry of an access list: parentheses at its ends and nowhere else.\<close>

definition entry :: "string \<Rightarrow> bool" where
  "entry a \<longleftrightarrow> (\<exists>b. a = CHR ''('' # b @ '')'' \<and> CHR ''('' \<notin> set b \<and> CHR '')'' \<notin> set b)"

lemma entry_ace: "CHR ''('' \<notin> set sid \<Longrightarrow> CHR '')'' \<notin> set sid \<Longrightarrow> entry (ace_of sid)"
  unfolding entry_def ace_of_def by (intro exI [of _ "''A;;FA;;;'' @ sid"]) simp

lemma ace_of_inject [simp]: "ace_of s = ace_of t \<longleftrightarrow> s = t"
  by (simp add: ace_of_def)

lemma entry_nonempty: "entry a \<Longrightarrow> a \<noteq> []"
  by (auto simp: entry_def)

lemma first_of:
  "a \<notin> set p \<Longrightarrow> takeWhile (\<lambda>x. x \<noteq> a) (p @ a # q) = p \<and> tl (dropWhile (\<lambda>x. x \<noteq> a) (p @ a # q)) = q"
  by (induction p) auto

lemma cut_at_start: "a \<noteq> [] \<Longrightarrow> cut_at a (a @ s) = Some ([], s)"
  by (cases a) (simp_all add: has_prefix_def)

lemma entry_prefix:
  assumes "entry a" and "entry x"
  shows "has_prefix (x @ s) a \<longleftrightarrow> x = a"
proof
  from assms obtain b c where a: "a = CHR ''('' # b @ '')''" and x: "x = CHR ''('' # c @ '')''"
    and "CHR '')'' \<notin> set b" "CHR '')'' \<notin> set c" by (auto simp: entry_def)
  then have cut: "takeWhile (\<lambda>d. d \<noteq> CHR '')'') (b @ CHR '')'' # u) = b" "takeWhile (\<lambda>d. d \<noteq> CHR '')'') (c @ CHR '')'' # u) = c" for u
    by (simp_all add: first_of)
  assume "has_prefix (x @ s) a"
  from has_prefix_eq [OF this] a x obtain t where "c @ CHR '')'' # s = b @ CHR '')'' # t" by auto
  with cut have "c = b" by metis
  with a x show "x = a" by simp
next
  assume "x = a"
  then show "has_prefix (x @ s) a" by simp
qed

lemma cut_skip:
  assumes "entry a" and "CHR ''('' \<notin> set y"
  shows "cut_at a (y @ s) = map_option (\<lambda>(p, q). (y @ p, q)) (cut_at a s)"
  using assms(2)
proof (induction y)
  case Nil
  show ?case by (cases "cut_at a s") auto
next
  case (Cons c y)
  from assms(1) obtain b where a: "a = CHR ''('' # b" by (auto simp: entry_def)
  with Cons.prems have "\<not> has_prefix ((c # y) @ s) a" by (auto simp: has_prefix_def)
  with Cons show ?case by (cases "cut_at a s") auto
qed

lemma cut_entry:
  assumes "entry a" and "entry x"
  shows "cut_at a (x @ s) = (if x = a then Some ([], s) else map_option (\<lambda>(p, q). (x @ p, q)) (cut_at a s))"
proof -
  from assms(2) obtain c where x: "x = CHR ''('' # c @ '')''" "CHR ''('' \<notin> set c" by (auto simp: entry_def)
  have first: "cut_at a (x @ s) = (if x = a then Some ([], s) else map_option (\<lambda>(p, q). (CHR ''('' # p, q)) (cut_at a ((c @ '')'') @ s)))"
    using entry_prefix [OF assms, of s] by (auto simp: x(1))
  show ?thesis
  proof (cases "x = a")
    case False
    have "CHR ''('' \<notin> set (c @ '')'')" using x(2) by simp
    from cut_skip [OF assms(1) this, of s] False x(1) show ?thesis
      unfolding first by (cases "cut_at a s") auto
  qed (simp add: cut_at_start entry_nonempty [OF assms(1)])
qed

lemma cut_entries:
  assumes "entry a" and "list_all entry xs"
  shows "cut_at a (concat xs) =
    (if a \<in> set xs then Some (concat (takeWhile (\<lambda>x. x \<noteq> a) xs), concat (tl (dropWhile (\<lambda>x. x \<noteq> a) xs))) else None)"
  using assms(2)
proof (induction xs)
  case Nil
  show ?case using entry_nonempty [OF assms(1)] by simp
next
  case (Cons x xs)
  then show ?case by (auto simp: cut_entry [OF assms(1)])
qed

lemma occurs_once_entries:
  assumes "entry a" and "list_all entry xs"
  shows "occurs_once a (concat xs) \<longleftrightarrow> count (mset xs) a = 1"
proof (cases "a \<in> set xs")
  case True
  then obtain p q where xs: "xs = p @ a # q" "a \<notin> set p" by (meson split_list_first)
  with assms(2) have "list_all entry q" by simp
  then have "occurs_once a (concat xs) \<longleftrightarrow> a \<notin> set q"
    using first_of [OF xs(2), of q] True xs(1) cut_entries [OF assms(1), of q] cut_entries [OF assms]
    by (simp add: occurs_once_def)
  moreover have "count (mset xs) a = 1 \<longleftrightarrow> a \<notin> set q"
    using xs by (simp add: count_mset_0_iff)
  ultimately show ?thesis by simp
next
  case False
  then show ?thesis by (simp add: occurs_once_def cut_entries assms count_mset_0_iff [THEN iffD2])
qed

lemma without_first_entries:
  assumes "entry a" and "list_all entry xs"
  shows "without_first a (concat xs) = concat (remove1 a xs)"
proof (cases "a \<in> set xs")
  case True
  have "remove1 a xs = takeWhile (\<lambda>x. x \<noteq> a) xs @ tl (dropWhile (\<lambda>x. x \<noteq> a) xs)" using True by (induction xs) auto
  with True show ?thesis by (simp add: without_first_def cut_entries assms)
next
  case False
  then show ?thesis by (simp add: without_first_def cut_entries assms remove1_idem)
qed

lemma concat_single:
  assumes "entry a" and "list_all entry xs"
  shows "concat xs = a \<longleftrightarrow> xs = [a]"
proof
  assume eq: "concat xs = a"
  with entry_nonempty [OF assms(1)] obtain x ys where xs: "xs = x # ys" by (cases xs) auto
  with assms(2) have x: "entry x" and ys: "list_all entry ys" by auto
  from eq xs have "has_prefix (x @ concat ys) a" using has_prefix_append [of a "[]"] by simp
  with entry_prefix [OF assms(1) x] have "x = a" by simp
  with eq xs have "concat ys = []" by simp
  with ys have "ys = []" by (cases ys) (auto dest: entry_nonempty)
  with xs \<open>x = a\<close> show "xs = [a]" by simp
qed simp

text \<open>The parts of a descriptor with an owner and a protected access list.\<close>

definition descriptor :: "string \<Rightarrow> string \<Rightarrow> string list \<Rightarrow> string" where
  "descriptor owner flags entries = ''O:'' @ owner @ ''D:P'' @ flags @ concat entries"

lemma cut_sound: "cut_at sub s = Some (a, b) \<Longrightarrow> s = a @ sub @ b"
proof (induction sub s arbitrary: a rule: cut_at.induct)
  case (2 sub c s)
  then show ?case by (auto split: if_splits) (metis append_take_drop_id has_prefix_def length_drop)+
qed (auto split: if_splits)

lemma cut_marker:
  assumes "CHR '':'' \<notin> set owner" and "d \<noteq> CHR '':''"
  shows "cut_at [d, CHR '':''] (owner @ d # CHR '':'' # s) = Some (owner, s)"
  using assms(1)
proof (induction owner)
  case (Cons c owner)
  have "\<not> has_prefix ((c # owner) @ d # CHR '':'' # s) [d, CHR '':'']"
    using Cons.prems assms(2) by (cases owner) (auto simp: has_prefix_def)
  with Cons show ?case by simp
qed (simp add: has_prefix_def)

lemma other_marker:
  assumes "CHR '':'' \<notin> set owner" and "c \<noteq> d" and "d \<noteq> CHR '':''"
    and cut: "cut_at [c, CHR '':''] (owner @ d # CHR '':'' # s) = Some (a, b)"
  shows "length owner < length a"
proof (rule ccontr)
  let ?t = "owner @ d # CHR '':'' # s"
  assume "\<not> length owner < length a"
  then have le: "length a \<le> length owner" by simp
  have t: "?t = a @ [c, CHR '':''] @ b" by (rule cut_sound [OF cut])
  then have "?t ! Suc (length a) = (a @ [c, CHR '':''] @ b) ! Suc (length a)" "?t ! length a = (a @ [c, CHR '':''] @ b) ! length a"
    by simp_all
  then have colon: "?t ! Suc (length a) = CHR '':''" and head: "?t ! length a = c" by (simp_all add: nth_append)
  show False
  proof (cases "length a = length owner")
    case True
    with head assms(2) show False by (simp add: nth_append)
  next
    case False
    with le consider "Suc (length a) < length owner" | "Suc (length a) = length owner" by linarith
    then show False
    proof cases
      case 1
      with colon assms(1) show False by (auto simp: nth_append in_set_conv_nth)
    next
      case 2
      with colon assms(3) show False by (simp add: nth_append)
    qed
  qed
qed

lemma later_marker:
  assumes "CHR '':'' \<notin> set owner" and "c \<noteq> CHR ''D''" and "length owner + 2 \<le> n"
  shows "length owner + 2 \<le> marker_end (''O:'' @ owner @ ''D:'' @ s) n [c, CHR '':'']"
    and "marker_end (''O:'' @ owner @ ''D:'' @ s) (length owner + 2) [c, CHR '':''] = length owner + 2"
  using other_marker [OF assms(1,2)] assms(3)
  by (auto simp: marker_end_def split: option.split) (metis less_imp_le_nat linorder_not_less)+

lemma sddl_owner_descriptor:
  assumes "CHR '':'' \<notin> set owner"
  shows "sddl_owner (descriptor owner flags entries) = owner"
proof -
  let ?rest = "CHR ''P'' # flags @ concat entries"
  let ?s = "''O:'' @ owner @ ''D:'' @ ?rest" and ?k = "length owner + 2"
  have s: "descriptor owner flags entries = ?s" by (simp add: descriptor_def)
  have long: "?k \<le> length ?s" by simp
  let ?g = "marker_end ?s (length ?s) ''G:''"
  have g: "?k \<le> ?g" using later_marker(1) [OF assms _ long, of "CHR ''G''" ?rest] by simp
  have d: "marker_end ?s ?g ''D:'' = ?k"
    using g cut_marker [OF assms, of "CHR ''D''" ?rest] by (simp add: marker_end_def)
  have last: "marker_end ?s ?k ''S:'' = ?k" using later_marker(2) [OF assms, of "CHR ''S''" ?k ?rest] by simp
  have "foldl (marker_end ?s) (length ?s) [''G:'', ''D:'', ''S:''] = ?k"
    unfolding foldl.simps d last ..
  moreover have "has_prefix ?s ''O:''" by (simp add: has_prefix_def)
  ultimately show ?thesis unfolding s sddl_owner_def by (simp add: slice_def)
qed

lemma no_flags: "list_all entry xs \<Longrightarrow> trim_prefix (concat xs) ''AI'' = concat xs"
  by (cases xs) (auto simp: entry_def trim_prefix_def has_prefix_def)

text \<open>The body of the access list, by its entries.\<close>

lemma private_body:
  assumes wf: "list_all entry xs" and x: "entry x"
  shows "occurs_once (ace_of ''SY'') (concat xs) \<and>
      occurs_once (ace_of ''BA'') (without_first (ace_of ''SY'') (concat xs)) \<and>
      without_first (ace_of ''BA'') (without_first (ace_of ''SY'') (concat xs)) = x \<longleftrightarrow>
    x \<noteq> ace_of ''SY'' \<and> x \<noteq> ace_of ''BA'' \<and> mset xs = {#ace_of ''SY'', ace_of ''BA'', x#}"
proof -
  let ?S = "ace_of ''SY''" and ?B = "ace_of ''BA''"
  have SB: "entry ?S" "entry ?B" "?S \<noteq> ?B" by (simp_all add: entry_ace)
  have wf1: "list_all entry (remove1 ?S xs)" and wf2: "list_all entry (remove1 ?B (remove1 ?S xs))"
    using wf by (auto simp: list_all_iff dest: notin_set_remove1 set_remove1_subset [THEN subsetD])
  have left: "mset xs - {#?S#} - {#?B#} = {#x#} \<longleftrightarrow> remove1 ?B (remove1 ?S xs) = [x]"
    using mset_single_iff [of "remove1 ?B (remove1 ?S xs)" x] by simp
  have "occurs_once ?S (concat xs) \<and> occurs_once ?B (without_first ?S (concat xs)) \<and>
      without_first ?B (without_first ?S (concat xs)) = x \<longleftrightarrow>
    count (mset xs) ?S = 1 \<and> count (mset xs - {#?S#}) ?B = 1 \<and> mset xs - {#?S#} - {#?B#} = {#x#}"
    using occurs_once_entries [OF SB(1) wf] occurs_once_entries [OF SB(2) wf1] without_first_entries [OF SB(1) wf]
      without_first_entries [OF SB(2) wf1] concat_single [OF x wf2]
    unfolding left by simp
  also have "\<dots> \<longleftrightarrow> x \<noteq> ?S \<and> x \<noteq> ?B \<and> mset xs = {#?S, ?B, x#}"
  proof
    assume *: "count (mset xs) ?S = 1 \<and> count (mset xs - {#?S#}) ?B = 1 \<and> mset xs - {#?S#} - {#?B#} = {#x#}"
    then have first: "?S \<in># mset xs" and second: "?B \<in># mset xs - {#?S#}" by (metis count_eq_zero_iff zero_neq_one)+
    have "mset xs = add_mset ?S (add_mset ?B (mset xs - {#?S#} - {#?B#}))"
      by (simp only: insert_DiffM [OF first] insert_DiffM [OF second])
    also have "mset xs - {#?S#} - {#?B#} = {#x#}" using * by blast
    finally have xs: "mset xs = {#?S, ?B, x#}" .
    from * have "count {#?S, ?B, x#} ?S = 1" "count ({#?S, ?B, x#} - {#?S#}) ?B = 1" unfolding xs by blast+
    then have "x \<noteq> ?S" "x \<noteq> ?B" using SB(3) by (auto split: if_splits)
    then show "x \<noteq> ?S \<and> x \<noteq> ?B \<and> mset xs = {#?S, ?B, x#}" using xs by simp
  next
    assume "x \<noteq> ?S \<and> x \<noteq> ?B \<and> mset xs = {#?S, ?B, x#}"
    with SB(3) show "count (mset xs) ?S = 1 \<and> count (mset xs - {#?S#}) ?B = 1 \<and> mset xs - {#?S#} - {#?B#} = {#x#}" by auto
  qed
  finally show ?thesis .
qed



text \<open>
  The form with the owner's own name is refused where the owner is the group of administrators, as
  it is by default for the files of an elevated process.
\<close>

theorem administrators_named_twice:
  "\<not> matches_private_dacl (descriptor ''BA'' [] [ace_of ''SY'', ace_of ''BA'', ace_of ''BA''])"
  by code_simp

text \<open>
  The state directory accepts exactly the alias form, so a descriptor that names the owner passes
  the check of the runtime directory and fails the one of the state directory.
\<close>

theorem state_dacl_exact:
  assumes "CHR '':'' \<notin> set owner" and "flags = [] \<or> flags = ''AI''" and wf: "list_all entry entries"
  shows "matches_state_dacl (descriptor owner flags entries) \<longleftrightarrow>
    mset entries = {#ace_of ''SY'', ace_of ''BA'', ace_of ''OW''#}"
proof -
  let ?b = "concat entries" and ?S = "ace_of ''SY''" and ?B = "ace_of ''BA''" and ?O = "ace_of ''OW''"
  have E: "entry ?S" "entry ?B" "entry ?O" by (simp_all add: entry_ace)
  have cut: "cut_at ''D:'' (descriptor owner flags entries) = Some (''O:'' @ owner, ''P'' @ flags @ ?b)"
    using cut_marker [of owner "CHR ''D''" "''P'' @ flags @ ?b"] assms(1) by (simp add: descriptor_def has_prefix_def)
  have body: "trim_prefix (trim_prefix (''P'' @ flags @ ?b) ''P'') ''AI'' = ?b"
    using assms(2,3) trim_prefix_append [of "''P''" "flags @ ?b"] trim_prefix_append [of "''AI''" ?b] no_flags by auto
  let ?ys = "remove1 ?B (remove1 ?S entries)"
  have wf1: "list_all entry (remove1 ?S entries)" and wf2: "list_all entry ?ys"
    using wf by (auto simp: list_all_iff dest: notin_set_remove1 set_remove1_subset [THEN subsetD])
  have two: "without_first ?B (without_first ?S ?b) = concat ?ys"
    by (simp add: without_first_entries [OF E(1) wf] without_first_entries [OF E(2) wf1])
  have last: "occurs_once ?O (concat ?ys) \<and> without_first ?O (concat ?ys) = [] \<longleftrightarrow> concat ?ys = ?O"
  proof
    assume *: "occurs_once ?O (concat ?ys) \<and> without_first ?O (concat ?ys) = []"
    then obtain a b where "cut_at ?O (concat ?ys) = Some (a, b)" "a @ b = []"
      by (auto simp: occurs_once_def without_first_def split: option.splits)
    with cut_sound [of ?O "concat ?ys" a b] show "concat ?ys = ?O" by simp
  next
    assume eq: "concat ?ys = ?O"
    have "cut_at ?O ?O = Some ([], [])" using cut_at_start [of ?O "[]"] entry_nonempty [OF E(3)] by simp
    moreover have "cut_at ?O [] = None" using entry_nonempty [OF E(3)] by simp
    ultimately show "occurs_once ?O (concat ?ys) \<and> without_first ?O (concat ?ys) = []"
      unfolding eq occurs_once_def without_first_def by simp
  qed
  have "matches_state_dacl (descriptor owner flags entries) \<longleftrightarrow>
    occurs_once ?S ?b \<and> occurs_once ?B (without_first ?S ?b) \<and> without_first ?B (without_first ?S ?b) = ?O"
    unfolding matches_state_dacl_def cut option.case prod.case body
    using has_prefix_append [of "''P''" "flags @ ?b"] two last by auto
  then show ?thesis using private_body [OF wf E(3)] by simp
qed

end
