(* ===== verification/Status_Report.thy ===== *)
theory Status_Report
  imports Lifecycle
begin

text \<open>
  \<open>overlay/usecase/status.go\<close>: what the commands \<open>status\<close> and \<open>diagnose\<close> report, and the runtimes
  of \<open>overlay/runtime/runtime.go\<close> and \<open>fake.go\<close> that stand where no desktop runtime does. A
  report reads the state directory, the credential store and the runtime, and changes none.
\<close>

section \<open>Results\<close>

record credential_status =
  cs_backend :: string
  cs_present :: bool
  cs_id :: string
  cs_expires :: gotime
  cs_expired :: bool
  cs_rotation_due :: bool
  cs_pending :: bool

record generation_status =
  gs_state :: u64
  gs_revision :: string
  gs_policy :: u64
  gs_policy_expired :: bool

record status_result =
  st_joined :: bool
  st_device :: string
  st_network :: string
  st_revision :: string
  st_generations :: generation_status
  st_runtime :: runtime_status
  st_credential :: credential_status

record diagnostic_result =
  dr_code :: string
  dr_healthy :: bool
  dr_generation :: u64
  dr_revision :: string

definition diagnostic :: "string \<Rightarrow> bool \<Rightarrow> diagnostic_result" where
  "diagnostic code_name healthy = \<lparr>dr_code = code_name, dr_healthy = healthy, dr_generation = 0, dr_revision = []\<rparr>"

text \<open>What a report asks besides the node: the backend's name, the runtime's checks, a file's permissions.\<close>

record report_env =
  re_backend :: string
  re_diagnose :: "nat \<Rightarrow> error + (string \<times> bool) list"
  re_private :: "nat \<Rightarrow> bool"

section \<open>The credential\<close>

definition no_credential :: "string \<Rightarrow> credential_status" where
  "no_credential backend = \<lparr>cs_backend = backend, cs_present = False, cs_id = [], cs_expires = zero_time, cs_expired = False,
     cs_rotation_due = False, cs_pending = False\<rparr>"

definition inspect_credential :: "env \<Rightarrow> report_env \<Rightarrow> gotime \<Rightarrow> credential_status io" where
  "inspect_credential E R now =
     (if \<not> ev_has_creds E then ret (no_credential ''unavailable'')
      else bindW (optional CredentialNotFound (creds_load E)) (\<lambda>r. ret (case r of
          None \<Rightarrow> no_credential (re_backend R)
        | Some c \<Rightarrow> \<lparr>cs_backend = re_backend R, cs_present = True, cs_id = cr_id c, cs_expires = cr_expires c,
            cs_expired = cred_expired c now, cs_rotation_due = rotation_due c now, cs_pending = cr_pending c \<noteq> None\<rparr>)))"

section \<open>Status\<close>

definition joined :: "last_known \<Rightarrow> runtime_status \<Rightarrow> bool" where
  "joined lk st \<longleftrightarrow>
     lk_phase lk = PhaseAcknowledged \<and> rt_applied st \<and> rt_revision st = cf_revision (lk_config lk) \<and>
     rt_core st = ''xray'' \<and> supported_adapter_id (rt_adapter st)"

text \<open>The policy counts if it is of the network that was joined.\<close>

definition policy_generation :: "env \<Rightarrow> last_known \<Rightarrow> generation_status \<Rightarrow> generation_status io" where
  "policy_generation E lk g =
     bindW (optional StateNotFound (disk_read E load_policy_state)) (\<lambda>p. case p of
       Some q \<Rightarrow>
         if po_network q = lk_network lk then
           bindW (clock E) (\<lambda>now.
             ret (g\<lparr>gs_policy := po_generation q, gs_policy_expired := \<not> after (po_expires q) now\<rparr>))
         else ret g
     | None \<Rightarrow> ret g)"

definition status_with_credential :: "env \<Rightarrow> report_env \<Rightarrow> status_result io" where
  "status_with_credential E R =
     bindW (optional StateNotFound (disk_read E load_last_known)) (\<lambda>l.
     bindW (runtime_state E ''read runtime status'') (\<lambda>st.
     bindW (clock E) (\<lambda>now.
     bindW (inspect_credential E R now) (\<lambda>c.
       let g = \<lparr>gs_state = (case l of None \<Rightarrow> 0 | Some lk \<Rightarrow> lk_generation lk), gs_revision = rt_revision st, gs_policy = 0,
                gs_policy_expired = False\<rparr> in
       case l of
         None \<Rightarrow> ret \<lparr>st_joined = False, st_device = [], st_network = [], st_revision = [], st_generations = g,
                    st_runtime = st, st_credential = c\<rparr>
       | Some lk \<Rightarrow>
           bindW (policy_generation E lk g) (\<lambda>g.
             ret \<lparr>st_joined = joined lk st, st_device = lk_device lk, st_network = lk_network lk,
               st_revision = cf_revision (lk_config lk), st_generations = g, st_runtime = st, st_credential = c\<rparr>)))))"

section \<open>Diagnose\<close>

definition state_checks :: "report_env \<Rightarrow> last_known option \<Rightarrow> diagnostic_result list io" where
  "state_checks R l =
     (case l of
        None \<Rightarrow> ret [diagnostic ''last_known_state_present'' False]
      | Some lk \<Rightarrow>
          bindW (call [] (\<lambda>n. Inr (re_private R n))) (\<lambda>private.
            ret [diagnostic ''last_known_state_present'' True,
              diagnostic ''state_file_permissions_0600'' private,
              diagnostic ''proxy_core_xray'' True,
              (diagnostic ''state_generation'' (0 < lk_generation lk \<or> lk_contract lk = ''legacy''))
                \<lparr>dr_generation := lk_generation lk\<rparr>]))"

definition policy_check :: "env \<Rightarrow> last_known option \<Rightarrow> diagnostic_result io" where
  "policy_check E l =
     bindW (optional StateNotFound (disk_read E load_policy_state)) (\<lambda>p. case p of
       None \<Rightarrow> ret (diagnostic ''policy_generation'' False)
     | Some q \<Rightarrow>
         (case l of
            Some lk \<Rightarrow>
              if po_network q = lk_network lk then
                bindW (clock E) (\<lambda>now. ret ((diagnostic ''policy_generation'' (after (po_expires q) now))\<lparr>dr_generation := po_generation q\<rparr>))
              else ret ((diagnostic ''policy_generation'' False)\<lparr>dr_generation := po_generation q\<rparr>)
          | None \<Rightarrow> ret ((diagnostic ''policy_generation'' False)\<lparr>dr_generation := po_generation q\<rparr>)))"

definition diagnose_with_credential :: "env \<Rightarrow> report_env \<Rightarrow> diagnostic_result list io" where
  "diagnose_with_credential E R =
     bindW (optional StateNotFound (disk_read E load_last_known)) (\<lambda>l.
     bindW (state_checks R l) (\<lambda>first.
     bindW (tryW (call [] (re_diagnose R))) (\<lambda>d. case d of
         Inl e \<Rightarrow> raise (fault_cause CodeRuntimeStatusFailed ''diagnose runtime'' e)
       | Inr items \<Rightarrow>
           bindW (runtime_state E ''diagnose runtime generation'') (\<lambda>st.
           bindW (clock E) (\<lambda>now.
           bindW (inspect_credential E R now) (\<lambda>c.
           bindW (policy_check E l) (\<lambda>p.
             ret (first @ map (\<lambda>(code_name, healthy). diagnostic code_name healthy) items @
               [(diagnostic ''runtime_revision'' (rt_revision st \<noteq> []))\<lparr>dr_revision := rt_revision st\<rparr>,
                diagnostic ''credential_storage_available'' (ev_has_creds E),
                diagnostic ''device_credential_present'' (cs_present c),
                diagnostic ''device_credential_not_expired'' (cs_present c \<and> \<not> cs_expired c), p]))))))))"

section \<open>Runtimes without a desktop\<close>

text \<open>The requests of \<open>ProtectedHost\<close> go to the native host, if there is one.\<close>

definition unavailable :: "string \<Rightarrow> error" where
  "unavailable op = fault CodeRuntimeUnavailable op"

definition protected_host :: "'a io option \<Rightarrow> 'a io" where
  "protected_host ipc = (case ipc of None \<Rightarrow> raise (unavailable ''request protected host runtime'') | Some m \<Rightarrow> m)"

definition no_status :: runtime_status where
  "no_status = \<lparr>rt_paths = [], rt_available = False, rt_applied = False, rt_managed = False, rt_version = [], rt_revision = [],
     rt_core = [], rt_adapter = [], rt_interface = []\<rparr>"

definition protected_status :: "runtime_status io option \<Rightarrow> runtime_status io" where
  "protected_status ipc = (case ipc of None \<Rightarrow> ret no_status | Some m \<Rightarrow> m)"

definition protected_diagnose :: "string \<Rightarrow> (string \<times> bool) list io option \<Rightarrow> (string \<times> bool) list io" where
  "protected_diagnose boundary ipc =
     (case ipc of Some m \<Rightarrow> m | None \<Rightarrow> ret [(''platform_runtime_available'', False), (boundary, True)])"

definition unavailable_apply :: "apply_result io" where
  "unavailable_apply = raise (unavailable ''apply runtime profile'')"

definition unavailable_runtime_status :: "runtime_status io" where
  "unavailable_runtime_status = ret no_status"

definition unavailable_diagnostics :: "bool \<Rightarrow> (string \<times> bool) list io" where
  "unavailable_diagnostics protected =
     ret ((''platform_runtime_available'', False) # (if protected then [(''protected_host_runtime_required'', True)] else []))"

text \<open>The runtime of the tests: errors and answers are set, calls are counted.\<close>

record fake =
  fk_apply_error :: "error option"
  fk_status_error :: "error option"
  fk_diagnose_error :: "error option"
  fk_down_error :: "error option"
  fk_cleanup_error :: "error option"
  fk_status :: runtime_status
  fk_diagnostics :: "(string \<times> bool) list"
  fk_apply_calls :: int
  fk_status_calls :: int
  fk_diagnose_calls :: int
  fk_down_calls :: int
  fk_cleanup_calls :: int
  fk_last :: "(config \<times> string) option"

definition fake_down :: "fake \<Rightarrow> error option \<times> fake" where
  "fake_down f =
     (let f = f\<lparr>fk_down_calls := fk_down_calls f + 1\<rparr> in
      case fk_down_error f of
        Some e \<Rightarrow> (Some e, f)
      | None \<Rightarrow> (None, f\<lparr>fk_status := (fk_status f)\<lparr>rt_applied := False\<rparr>\<rparr>))"

definition fake_cleanup :: "fake \<Rightarrow> error option \<times> fake" where
  "fake_cleanup f = (fk_cleanup_error f, f\<lparr>fk_cleanup_calls := fk_cleanup_calls f + 1\<rparr>)"

definition fake_apply :: "config \<Rightarrow> string \<Rightarrow> fake \<Rightarrow> (error + apply_result) \<times> fake" where
  "fake_apply c key f =
     (let f = f\<lparr>fk_apply_calls := fk_apply_calls f + 1, fk_last := Some (c, key)\<rparr> in
      case fk_apply_error f of
        Some e \<Rightarrow> (Inl e, f)
      | None \<Rightarrow> (Inr \<lparr>ap_revision = cf_revision c, ap_core = ''xray'', ap_adapter = ''libXray''\<rparr>,
          f\<lparr>fk_status := no_status\<lparr>rt_available := True, rt_applied := True, rt_revision := cf_revision c, rt_core := ''xray'',
            rt_adapter := ''libXray'', rt_interface := wg_interface (cf_wireguard c)\<rparr>\<rparr>))"

definition fake_runtime_status :: "fake \<Rightarrow> (error + runtime_status) \<times> fake" where
  "fake_runtime_status f =
     (case fk_status_error f of Some e \<Rightarrow> Inl e | None \<Rightarrow> Inr (fk_status f), f\<lparr>fk_status_calls := fk_status_calls f + 1\<rparr>)"

definition fake_diagnose :: "fake \<Rightarrow> (error + (string \<times> bool) list) \<times> fake" where
  "fake_diagnose f =
     (case fk_diagnose_error f of Some e \<Rightarrow> Inl e | None \<Rightarrow> Inr (fk_diagnostics f), f\<lparr>fk_diagnose_calls := fk_diagnose_calls f + 1\<rparr>)"

section \<open>A report changes nothing\<close>

definition only_read :: "world \<Rightarrow> world \<Rightarrow> bool" where
  "only_read w v \<longleftrightarrow> w_disk v = w_disk w \<and> w_creds v = w_creds w \<and> w_log v = w_log w"

interpretation reading: preorder_rel only_read
  by unfold_locales (auto simp: only_read_def)

lemma optional_reads: "keeps_rel only_read m \<Longrightarrow> keeps_rel only_read (optional x m)"
  unfolding optional_def
  by (intro reading.bindW_keeps reading.tryW_keeps reading.sum_keeps reading.if_keeps reading.ret_keeps reading.raise_keeps)

lemmas reads = reading.bindW_keeps reading.tryW_keeps reading.sum_keeps reading.if_keeps reading.ret_keeps reading.raise_keeps
  reading.option_keeps reading.disk_read_keeps reading.clock_keeps reading.creds_load_keeps reading.silent_call_keeps optional_reads

lemma inspect_reads: "keeps_rel only_read (inspect_credential E R now)"
  unfolding inspect_credential_def by (intro reads)

theorem reports_only_read:
  shows "keeps_rel only_read (status_with_credential E R)" and "keeps_rel only_read (diagnose_with_credential E R)"
  unfolding status_with_credential_def diagnose_with_credential_def policy_generation_def runtime_state_def state_checks_def
    policy_check_def Let_def
  by (intro reads inspect_reads)+

text \<open>
  A device that is reported as joined has acknowledged its configuration, and the runtime says it
  runs exactly that revision.
\<close>

theorem joined_is_in_force:
  assumes "status_with_credential E R w = (Inr s, w')" and "st_joined s"
  shows "\<exists>lk n m. load_last_known (ev_read E n) (w_disk w) = Inr lk \<and> lk_phase lk = PhaseAcknowledged \<and>
    ev_status E m = Inr (st_runtime s) \<and> rt_applied (st_runtime s) \<and> rt_revision (st_runtime s) = cf_revision (lk_config lk) \<and>
    rt_core (st_runtime s) = ''xray'' \<and> st_revision s = rt_revision (st_runtime s)"
proof -
  from assms obtain lk where lk: "load_last_known (ev_read E (w_tick w)) (w_disk w) = Inr lk"
    and "ev_status E (Suc (w_tick w)) = Inr (st_runtime s)" "joined lk (st_runtime s)"
    and "st_revision s = cf_revision (lk_config lk)"
    by (auto simp: status_with_credential_def optional_def runtime_state_def guard_simps Let_def
        split: if_splits option.splits sum.splits)
  then show ?thesis unfolding joined_def by metis
qed

text \<open>The runtime of the tests keeps the contract of a runtime: what it applied is what it reports.\<close>

theorem fake_reports_applied:
  assumes "fake_apply c key f = (Inr a, f')" and "fk_status_error f = None"
  shows "\<exists>st. fst (fake_runtime_status f') = Inr st \<and> rt_applied st \<and> rt_revision st = ap_revision a \<and> rt_core st = ap_core a \<and>
    rt_adapter st = ap_adapter a \<and> ap_revision a = cf_revision c"
  using assms by (auto simp: fake_apply_def fake_runtime_status_def Let_def split: option.splits)

end
