(* ===== verification/Zero_Lab.thy ===== *)
theory Zero_Lab
  imports Admin_Client Credential Darwin_Backend
begin

text \<open>
  The experimental single-device controller, \<open>internal/zerolab/server.go\<close>: invites, the exchange
  of an invite for a credential and a session, signed configurations and their acknowledgement.
  Requests are served one at a time under a mutex; the state is written to disk before an answer
  that depends on it is given. HTTP, JSON, the primitives, the clock, the disk and the helper that
  updates the gateway are parameters.
\<close>

section \<open>Data\<close>

record lab_options =
  lo_url :: string
  lo_admin :: string
  lo_seed :: "byte list"
  lo_network :: string
  lo_cidr :: string
  lo_address :: string
  lo_gateway_key :: string
  lo_gateway_host :: string
  lo_server_name :: string
  lo_vless :: string
  lo_port :: int

record invite_state =
  iv_hash :: string
  iv_id :: string
  iv_device :: string
  iv_platform :: string
  iv_expires :: gotime

record lab_session =
  ls_hash :: string
  ls_expires :: gotime

record lab_state =
  lb_version :: int
  lb_binding :: string
  lb_key :: signing_key
  lb_invite :: "invite_state option"
  lb_device :: "device option"
  lb_pending :: string
  lb_cred_id :: string
  lb_cred_hash :: string
  lb_cred_issued :: gotime
  lb_cred_expires :: gotime
  lb_sessions :: "lab_session list"
  lb_config :: "signed_config option"
  lb_ack :: "config_ack option"

text \<open>The server, with what its state file holds and the peers the gateway was given.\<close>

record server =
  sv_tick :: nat
  sv_state :: lab_state
  sv_disk :: lab_state
  sv_failed :: bool
  sv_peers :: "(string \<times> string) list"

datatype save_outcome = SaveOk | SaveLost | SaveUnsynced

record lab_ack_request =
  la_config :: string
  la_device :: string
  la_applied :: gotime

text \<open>What is found where the state is to be kept: the directory, the lock file, whether the lock is free.\<close>

record lab_place =
  lp_euid :: nat
  lp_mkdir :: bool
  lp_dir :: "error + file_info"
  lp_lock :: "error + file_info"
  lp_open :: bool
  lp_free :: bool

record lab_env =
  le_place :: lab_place
  le_now :: "nat \<Rightarrow> gotime"
  le_random :: "nat \<Rightarrow> byte list option"
  le_secret :: "nat \<Rightarrow> secret option"
  le_save :: "nat \<Rightarrow> save_outcome"
  le_peer :: "nat \<Rightarrow> bool"
  le_check :: "nat \<Rightarrow> check_env"
  le_cred :: cred_lib
  le_signed :: signed_lib
  le_public :: "byte list \<Rightarrow> byte list"
  le_sign :: "byte list \<Rightarrow> byte list \<Rightarrow> byte list"
  le_escape :: "string \<Rightarrow> string"
  le_urls :: url_parser
  le_token_request :: "byte list \<Rightarrow> token_request option"
  le_exchange :: "byte list \<Rightarrow> exchange_request option"
  le_nonce :: "byte list \<Rightarrow> string option"
  le_ack :: "byte list \<Rightarrow> lab_ack_request option"

record lab_request =
  lq_tls :: bool
  lq_method :: string
  lq_path :: string
  lq_authorization :: string
  lq_accept :: string
  lq_if_none_match :: string
  lq_query :: "(string \<times> string list) list"
  lq_body :: "byte list"

datatype lab_answer =
    Refused nat
  | NotModified
  | Healthy
  | Invited join_token
  | Exchanged exchange_response
  | Minted session_response
  | Configured signed_config
  | Acknowledged ack_response
  | Keyed signing_key

section \<open>Helpers\<close>

definition lab_hash :: "lab_env \<Rightarrow> string \<Rightarrow> string" where
  "lab_hash E s = hex_encode (cl_sha256 (le_cred E) (bytes_of s))"

definition lab_id :: "string \<Rightarrow> bool" where
  "lab_id s \<longleftrightarrow>
     match_head_rest (\<lambda>c. is_lower c \<or> is_digit c) (\<lambda>c. is_lower c \<or> is_digit c \<or> c \<in> {CHR ''.'', CHR ''_'', CHR ''-''}) 2 127 s"

definition lab_uuid :: "string \<Rightarrow> bool" where
  "lab_uuid s \<longleftrightarrow>
     length s = 36 \<and> list_all (\<lambda>i. if i \<in> {8, 13, 18, 23} then s ! i = CHR ''-'' else is_hex (s ! i)) [0..<36]"

definition lab_key :: "string \<Rightarrow> bool" where
  "lab_key s \<longleftrightarrow>
     (case std_decode s of None \<Rightarrow> False
      | Some b \<Rightarrow> length b = 32 \<and> std_encode b = s \<and> s \<noteq> std_encode (replicate 32 0))"

definition lab_platform :: "string \<Rightarrow> bool" where
  "lab_platform s \<longleftrightarrow> s \<in> {''linux'', ''darwin'', ''windows'', ''ios'', ''android''}"

text \<open>\<open>now()\<close> is read anew wherever the code calls it.\<close>

definition ticked :: "server \<Rightarrow> server" where
  "ticked s = s\<lparr>sv_tick := Suc (sv_tick s)\<rparr>"

definition lab_now :: "lab_env \<Rightarrow> server \<Rightarrow> gotime" where
  "lab_now E s = trunc_second (to_utc (le_now E (sv_tick s)))"

definition lab_token :: "lab_env \<Rightarrow> string \<Rightarrow> server \<Rightarrow> string option" where
  "lab_token E prefix s = map_option (\<lambda>b. prefix @ rawurl_encode b) (le_random E (sv_tick s))"

definition mentions :: "string \<Rightarrow> string \<Rightarrow> bool" where
  "mentions s sub \<longleftrightarrow> list_ex (\<lambda>i. has_prefix (drop i s) sub) [0 ..< Suc (length s)]"

definition query_get :: "(string \<times> string list) list \<Rightarrow> string \<Rightarrow> string" where
  "query_get q k = (case map_of q k of Some (v # _) \<Rightarrow> v | _ \<Rightarrow> [])"

text \<open>A body is decoded if it fits the limit; anything else is refused with 400.\<close>

definition decode_body :: "(byte list \<Rightarrow> 'a option) \<Rightarrow> lab_request \<Rightarrow> 'a option" where
  "decode_body f r = (if length (lq_body r) > 16384 then None else f (lq_body r))"

text \<open>
  The write of the state, with an error before or after the file is in place. After an error the
  server refuses everything.
\<close>

definition save_lab :: "lab_env \<Rightarrow> server \<Rightarrow> bool \<times> server" where
  "save_lab E s =
     (case le_save E (sv_tick s) of
        SaveOk \<Rightarrow> (True, ticked (s\<lparr>sv_disk := sv_state s\<rparr>))
      | SaveLost \<Rightarrow> (False, ticked s)
      | SaveUnsynced \<Rightarrow> (False, ticked (s\<lparr>sv_disk := sv_state s\<rparr>)))"

definition commit_lab :: "lab_env \<Rightarrow> server \<Rightarrow> bool \<times> server" where
  "commit_lab E s = (case save_lab E s of (ok, s') \<Rightarrow> (ok, if ok then s' else s'\<lparr>sv_failed := True\<rparr>))"

definition committed :: "lab_env \<Rightarrow> server \<Rightarrow> (server \<Rightarrow> lab_answer \<times> server) \<Rightarrow> lab_answer \<times> server" where
  "committed E s k = (case commit_lab E s of (ok, s') \<Rightarrow> if ok then k s' else (Refused 503, s'))"

section \<open>Sessions\<close>

fun live_sessions :: "lab_env \<Rightarrow> lab_session list \<Rightarrow> server \<Rightarrow> lab_session list \<times> server" where
  "live_sessions E [] s = ([], s)"
| "live_sessions E (v # vs) s =
     (case live_sessions E vs (ticked s) of (live, s') \<Rightarrow> ((if after (ls_expires v) (lab_now E s) then v # live else live), s'))"

definition new_session :: "lab_env \<Rightarrow> server \<Rightarrow> string option \<times> server" where
  "new_session E s =
     (case lab_token E ''xenr_'' s of
        None \<Rightarrow> (None, ticked s)
      | Some token \<Rightarrow>
          (case live_sessions E (lb_sessions (sv_state s)) (ticked s) of (live, s') \<Rightarrow>
             (let sessions = (if length live \<ge> 32 then drop (length live - 31) live else live) @
                    [\<lparr>ls_hash = lab_hash E token, ls_expires = add_dur (lab_now E s') (15 * minute)\<rparr>]
              in (Some token, ticked (s'\<lparr>sv_state := (sv_state s')\<lparr>lb_sessions := sessions\<rparr>\<rparr>)))))"

fun session_found :: "lab_env \<Rightarrow> string \<Rightarrow> lab_session list \<Rightarrow> server \<Rightarrow> bool \<times> server" where
  "session_found E h [] s = (False, s)"
| "session_found E h (v # vs) s =
     (if ls_hash v = h then
        (if after (ls_expires v) (lab_now E s) then (True, ticked s) else session_found E h vs (ticked s))
      else session_found E h vs s)"

definition authorized :: "lab_env \<Rightarrow> lab_request \<Rightarrow> server \<Rightarrow> bool \<times> server" where
  "authorized E r s =
     (if lb_device (sv_state s) = None \<or> \<not> has_prefix (lq_authorization r) ''Bearer '' then (False, s)
      else session_found E (lab_hash E (trim_prefix (lq_authorization r) ''Bearer '')) (lb_sessions (sv_state s)) s)"

section \<open>Invites\<close>

definition admin_allowed :: "lab_env \<Rightarrow> lab_options \<Rightarrow> lab_request \<Rightarrow> bool" where
  "admin_allowed E o' r \<longleftrightarrow> lab_hash E (lq_authorization r) = lab_hash E (''Bearer '' @ lo_admin o')"

definition invite_request_ok :: "lab_options \<Rightarrow> token_request \<Rightarrow> bool" where
  "invite_request_ok o' q \<longleftrightarrow>
     tq_network q = lo_network o' \<and> (tq_device q = [] \<or> lab_id (tq_device q)) \<and> (tq_platform q = [] \<or> lab_platform (tq_platform q)) \<and>
     1 \<le> tq_seconds q \<and> tq_seconds q \<le> 86400"

definition create_invite :: "lab_env \<Rightarrow> lab_options \<Rightarrow> lab_request \<Rightarrow> server \<Rightarrow> lab_answer \<times> server" where
  "create_invite E o' r s =
     (if \<not> admin_allowed E o' r then (Refused 401, s)
      else case decode_body (le_token_request E) r of
          None \<Rightarrow> (Refused 400, s)
        | Some q \<Rightarrow>
            if \<not> invite_request_ok o' q then (Refused 400, s)
            else if lb_device (sv_state s) \<noteq> None \<or> lb_pending (sv_state s) \<noteq> [] then (Refused 409, s)
            else case lab_token E ''xjt_'' s of
                None \<Rightarrow> (Refused 503, ticked s)
              | Some token \<Rightarrow>
                  let s1 = ticked s;
                      iv = \<lparr>iv_hash = lab_hash E token, iv_id = ''join_'' @ take 24 (lab_hash E token), iv_device = tq_device q,
                             iv_platform = tq_platform q, iv_expires = add_dur (lab_now E s1) (tq_seconds q * second)\<rparr>;
                      s2 = ticked (s1\<lparr>sv_state := (sv_state s1)\<lparr>lb_invite := Some iv\<rparr>\<rparr>)
                  in committed E s2 (\<lambda>s'.
                       (Invited \<lparr>jt_id = iv_id iv, jt_uri = ''xconnect://join/'' @ token @ ''?controller='' @ le_escape E (lo_url o'),
                          jt_network = lo_network o', jt_device = tq_device q, jt_platform = tq_platform q, jt_uses = 1,
                          jt_expires = iv_expires iv\<rparr>, s')))"

section \<open>The exchange of an invite\<close>

definition exchange_allowed :: "invite_state \<Rightarrow> exchange_request \<Rightarrow> bool" where
  "exchange_allowed iv q \<longleftrightarrow>
     lab_id (xq_device q) \<and> lab_platform (xq_platform q) \<and> lab_key (xq_public_key q) \<and> length (xq_name q) \<le> 255 \<and>
     length (xq_hostname q) \<le> 255 \<and> (iv_device iv = [] \<or> iv_device iv = xq_device q) \<and>
     (iv_platform iv = [] \<or> iv_platform iv = xq_platform q)"

definition peer_binding :: "lab_env \<Rightarrow> exchange_request \<Rightarrow> string" where
  "peer_binding E q = lab_hash E (xq_device q @ CHR 0x00 # xq_platform q @ CHR 0x00 # xq_public_key q)"

definition lab_device :: "lab_options \<Rightarrow> exchange_request \<Rightarrow> gotime \<Rightarrow> device" where
  "lab_device o' q t = \<lparr>dv_id = xq_device q, dv_user = [], dv_network = lo_network o', dv_role = [], dv_name = xq_name q,
     dv_platform = xq_platform q, dv_hostname = xq_hostname q, dv_public_key = xq_public_key q, dv_address = lo_address o',
     dv_created = t, dv_updated = t, dv_last_seen = None\<rparr>"

definition lab_network :: "lab_options \<Rightarrow> network" where
  "lab_network o' = zero_network\<lparr>nw_id := lo_network o', nw_display_name := ''Experimental lab'', nw_cidr := lo_cidr o'\<rparr>"

definition lab_verifier :: "lab_env \<Rightarrow> string \<Rightarrow> string" where
  "lab_verifier E v = (case verifier (le_cred E) v of Inl e \<Rightarrow> [] | Inr h \<Rightarrow> h)"

definition enrolled :: "lab_env \<Rightarrow> lab_options \<Rightarrow> exchange_request \<Rightarrow> secret \<Rightarrow> gotime \<Rightarrow> lab_state \<Rightarrow> lab_state" where
  "enrolled E o' q secret t st = st\<lparr>lb_device := Some (lab_device o' q t), lb_cred_id := se_id secret,
     lb_cred_hash := lab_verifier E (se_value secret), lb_cred_issued := t, lb_cred_expires := add_dur t (30 * day),
     lb_invite := None, lb_pending := []\<rparr>"

definition exchange_answer :: "lab_options \<Rightarrow> exchange_request \<Rightarrow> secret \<Rightarrow> gotime \<Rightarrow> string \<Rightarrow> signing_key \<Rightarrow> exchange_response" where
  "exchange_answer o' q secret t token key =
     \<lparr>xr_token = token, xr_token_type = ''Bearer'', xr_expires = add_dur t (15 * minute),
      xr_scope = [''overlay:config:read'', ''overlay:config:ack'', ''overlay:device:revoke''],
      xr_credential = \<lparr>dc_id = se_id secret, dc_credential = se_value secret, dc_token_type = ''Device'', dc_issued = t,
        dc_expires = add_dur t (30 * day), dc_scope = [''overlay:session:mint'', ''overlay:credential:rotate'', ''overlay:device:revoke'']\<rparr>,
      xr_device = lab_device o' q t, xr_network = lab_network o', xr_keys = [key]\<rparr>"

text \<open>The gateway is told only after the intent to give it this key is on disk.\<close>

definition finish_exchange :: "lab_env \<Rightarrow> lab_options \<Rightarrow> exchange_request \<Rightarrow> secret \<Rightarrow> server \<Rightarrow> lab_answer \<times> server" where
  "finish_exchange E o' q secret s =
     (let s1 = ticked (s\<lparr>sv_peers := sv_peers s @ [(xq_public_key q, lo_address o')]\<rparr>) in
      if \<not> le_peer E (sv_tick s) then (Refused 503, s1)
      else let t = lab_now E s1;
               s2 = ticked (s1\<lparr>sv_state := enrolled E o' q secret t (sv_state s1)\<rparr>)
           in case new_session E s2 of
                (None, s3) \<Rightarrow> (Refused 503, s3\<lparr>sv_failed := True\<rparr>)
              | (Some token, s3) \<Rightarrow> committed E s3 (\<lambda>s'. (Exchanged (exchange_answer o' q secret t token (lb_key (sv_state s'))), s')))"

definition exchange_invite :: "lab_env \<Rightarrow> lab_options \<Rightarrow> lab_request \<Rightarrow> server \<Rightarrow> lab_answer \<times> server" where
  "exchange_invite E o' r s =
     (case decode_body (le_exchange E) r of
        None \<Rightarrow> (Refused 400, s)
      | Some q \<Rightarrow>
          (case lb_invite (sv_state s) of
             None \<Rightarrow> (Refused 401, s)
           | Some iv \<Rightarrow>
               let s1 = ticked s in
               if \<not> after (iv_expires iv) (lab_now E s) \<or> lab_hash E (xq_token q) \<noteq> iv_hash iv then (Refused 401, s1)
               else if lb_device (sv_state s1) \<noteq> None then (Refused 409, s1)
               else if \<not> exchange_allowed iv q then (Refused 403, s1)
               else case le_secret E (sv_tick s1) of
                   None \<Rightarrow> (Refused 503, ticked s1)
                 | Some secret \<Rightarrow>
                     let s2 = ticked s1; binding = peer_binding E q in
                     if lb_pending (sv_state s2) \<noteq> [] \<and> lb_pending (sv_state s2) \<noteq> binding then (Refused 409, s2)
                     else committed E (s2\<lparr>sv_state := (sv_state s2)\<lparr>lb_pending := binding\<rparr>\<rparr>)
                            (\<lambda>s'. finish_exchange E o' q secret s')))"

section \<open>A session of the device\<close>

definition device_allowed :: "lab_env \<Rightarrow> lab_request \<Rightarrow> server \<Rightarrow> bool" where
  "device_allowed E r s \<longleftrightarrow>
     has_prefix (lq_authorization r) ''Device '' \<and>
     (case verifier (le_cred E) (trim_prefix (lq_authorization r) ''Device '') of
        Inl e \<Rightarrow> False
      | Inr h \<Rightarrow> lb_device (sv_state s) \<noteq> None \<and> after (lb_cred_expires (sv_state s)) (lab_now E s) \<and> h = lb_cred_hash (sv_state s))"

definition serve_session :: "lab_env \<Rightarrow> lab_options \<Rightarrow> lab_request \<Rightarrow> server \<Rightarrow> lab_answer \<times> server" where
  "serve_session E o' r s =
     (if \<not> device_allowed E r s then (Refused 401, ticked s)
      else let s1 = ticked s in
        case decode_body (le_nonce E) r of
          None \<Rightarrow> (Refused 400, s1)
        | Some nonce \<Rightarrow>
            if \<not> valid_nonce nonce then (Refused 400, s1)
            else case new_session E s1 of
                (None, s2) \<Rightarrow> (Refused 503, s2)
              | (Some token, s2) \<Rightarrow> committed E s2 (\<lambda>s'.
                  (Minted \<lparr>sr_nonce = nonce, sr_token = token, sr_token_type = ''Bearer'', sr_issued = lab_now E s',
                     sr_expires = ls_expires (last (lb_sessions (sv_state s'))), sr_scope = [''overlay:config:read'', ''overlay:config:ack''],
                     sr_device = (case lb_device (sv_state s') of Some d \<Rightarrow> dv_id d | None \<Rightarrow> []), sr_network = lo_network o',
                     sr_keys = [lb_key (sv_state s')]\<rparr>, ticked s')))"

section \<open>Configurations\<close>

definition lab_config :: "lab_env \<Rightarrow> lab_options \<Rightarrow> device \<Rightarrow> u64 \<Rightarrow> gotime \<Rightarrow> gotime \<Rightarrow> string \<Rightarrow> signed_config" where
  "lab_config E o' d generation issued expires key =
     (let loop = \<lparr>ep_host = ''127.0.0.1'', ep_port = 51830\<rparr> in
      \<lparr>sc_schema = 1, sc_id = ''cfg_lab_'' @ show_nat (unat generation), sc_network = lo_network o', sc_device = dv_id d,
       sc_generation = generation, sc_issued = issued, sc_expires = expires, sc_core = ''xray'',
       sc_transport = \<lparr>tp_kind = ''vless-xhttp'', tp_loopback = loop,
         tp_remote = \<lparr>re_host = lo_gateway_host o', re_port = lo_port o', re_server_name = lo_server_name o'\<rparr>,
         tp_auth_id = lo_vless o', tp_path = [], tp_mode = [], tp_host = []\<rparr>,
       sc_wireguard = \<lparr>sw_interface = ''wg-xco'', sw_addresses = [lo_address o'], sw_mtu = 1280,
         sw_peers = [\<lparr>gp_gateway = ''gw_lab'', gp_public_key = lo_gateway_key o', gp_allowed_ips = [lo_cidr o'], gp_endpoint = loop,
           gp_keepalive = 25\<rparr>]\<rparr>,
       sc_policy = None, sc_mesh = None, sc_signature = \<lparr>sg_algorithm = ''Ed25519'', sg_key_id = key, sg_value = []\<rparr>, sc_etag = []\<rparr>)"

definition sign_lab :: "lab_env \<Rightarrow> lab_options \<Rightarrow> signed_config \<Rightarrow> signed_config option" where
  "sign_lab E o' c =
     map_option (\<lambda>payload. c\<lparr>sc_signature := (sc_signature c)\<lparr>sg_value := std_encode (le_sign E (lo_seed o') payload)\<rparr>\<rparr>)
       (signing_bytes (le_signed E) c)"

definition renew_config :: "lab_env \<Rightarrow> lab_options \<Rightarrow> device \<Rightarrow> server \<Rightarrow> lab_answer \<times> server" where
  "renew_config E o' d s =
     (let generation = (case lb_config (sv_state s) of None \<Rightarrow> 1 | Some c \<Rightarrow> sc_generation c + 1);
          issued = lab_now E s; s1 = ticked s; expires = add_dur (lab_now E s1) hour; s2 = ticked s1
      in case sign_lab E o' (lab_config E o' d generation issued expires (sk_id (lb_key (sv_state s2)))) of
           None \<Rightarrow> (Refused 503, s2)
         | Some c \<Rightarrow>
             (case compile (le_signed E) (le_check E (sv_tick s2)) c of
                Inl e \<Rightarrow> (Refused 503, ticked s2)
              | Inr k \<Rightarrow>
                  let s3 = ticked s2
                  in committed E (s3\<lparr>sv_state := (sv_state s3)\<lparr>lb_config := Some c, lb_ack := None\<rparr>\<rparr>) (\<lambda>s'. (Configured c, s'))))"

definition serve_config :: "lab_env \<Rightarrow> lab_options \<Rightarrow> lab_request \<Rightarrow> server \<Rightarrow> lab_answer \<times> server" where
  "serve_config E o' r s =
     (case authorized E r s of (ok, s1) \<Rightarrow>
        (case (ok, lb_device (sv_state s1)) of
           (True, Some d) \<Rightarrow>
             if query_get (lq_query r) ''device_id'' \<noteq> dv_id d \<or>
                (query_get (lq_query r) ''network_id'' \<noteq> [] \<and> query_get (lq_query r) ''network_id'' \<noteq> lo_network o') \<or>
                (query_get (lq_query r) ''node_id'' \<noteq> [] \<and> query_get (lq_query r) ''node_id'' \<noteq> ''gw_lab'')
             then (Refused 403, s1)
             else if mentions (lq_accept r) v2_media_type then (Refused 406, s1)
             else let s2 = ticked (s1\<lparr>sv_peers := sv_peers s1 @ [(dv_public_key d, lo_address o')]\<rparr>) in
               if \<not> le_peer E (sv_tick s1) then (Refused 503, s2)
               else (case lb_config (sv_state s2) of
                   None \<Rightarrow> renew_config E o' d s2
                 | Some c \<Rightarrow>
                     if \<not> after (sc_expires c) (add_dur (lab_now E s2) (5 * minute)) then renew_config E o' d (ticked s2)
                     else (Configured c, ticked s2))
         | _ \<Rightarrow> (Refused 401, s1)))"

definition lab_ack_path :: "u64 \<Rightarrow> string" where
  "lab_ack_path g = ''/enrollment/signed-config/'' @ show_nat (unat g) @ ''/ack''"

definition ack_allowed :: "lab_env \<Rightarrow> string \<Rightarrow> lab_ack_request \<Rightarrow> device \<Rightarrow> signed_config \<Rightarrow> server \<Rightarrow> bool" where
  "ack_allowed E path q d c s \<longleftrightarrow>
     path = lab_ack_path (sc_generation c) \<and> la_config q = sc_id c \<and> la_device q = dv_id d \<and> canonical_time (la_applied q) \<and>
     \<not> after (la_applied q) (add_dur (lab_now E s) (30 * second))"

definition serve_ack :: "lab_env \<Rightarrow> lab_request \<Rightarrow> string \<Rightarrow> server \<Rightarrow> lab_answer \<times> server" where
  "serve_ack E r path s =
     (case authorized E r s of (ok, s1) \<Rightarrow>
        (case (ok, lb_device (sv_state s1)) of
           (True, Some d) \<Rightarrow>
             (case decode_body (le_ack E) r of
                None \<Rightarrow> (Refused 400, s1)
              | Some q \<Rightarrow>
                  (case lb_config (sv_state s1) of
                     None \<Rightarrow> (Refused 409, s1)
                   | Some c \<Rightarrow>
                       if \<not> ack_allowed E path q d c s1 then (Refused 409, ticked s1)
                       else let s2 = ticked s1 in
                         (case lb_ack (sv_state s2) of
                            Some a \<Rightarrow> (Acknowledged \<lparr>ar_acked = True, ar_duplicate = True, ar_ack = a\<rparr>, s2)
                          | None \<Rightarrow>
                              let a = \<lparr>ak_device = la_device q, ak_config_id = la_config q, ak_generation = sc_generation c,
                                       ak_applied = la_applied q, ak_received = lab_now E s2\<rparr>;
                                  s3 = ticked (s2\<lparr>sv_state := (sv_state s2)\<lparr>lb_ack := Some a\<rparr>\<rparr>)
                              in committed E s3 (\<lambda>s'. (Acknowledged \<lparr>ar_acked = True, ar_duplicate = False, ar_ack = a\<rparr>, s')))))
         | _ \<Rightarrow> (Refused 401, s1)))"

section \<open>Requests\<close>

definition serve_keys :: "lab_env \<Rightarrow> lab_options \<Rightarrow> lab_request \<Rightarrow> server \<Rightarrow> lab_answer \<times> server" where
  "serve_keys E o' r s =
     (case (if admin_allowed E o' r then (True, s) else authorized E r s) of (ok, s1) \<Rightarrow>
        if \<not> ok then (Refused 401, s1)
        else if lq_if_none_match r = CHR 0x22 # sk_id (lb_key (sv_state s1)) @ [CHR 0x22] then (NotModified, s1)
        else (Keyed (lb_key (sv_state s1)), s1))"

definition serve :: "lab_env \<Rightarrow> lab_options \<Rightarrow> lab_request \<Rightarrow> server \<Rightarrow> lab_answer \<times> server" where
  "serve E o' r s =
     (if \<not> lq_tls r then (Refused 400, s)
      else if sv_failed s then (Refused 503, s)
      else if lq_path r \<noteq> ''/healthz'' \<and> \<not> has_prefix (lq_path r) ''/api/overlay/v1/'' then (Refused 404, s)
      else let path = trim_prefix (lq_path r) ''/api/overlay/v1''; m = lq_method r in
        if m = ''GET'' \<and> lq_path r = ''/healthz'' then (Healthy, s)
        else if m = ''POST'' \<and> path = ''/join-tokens'' then create_invite E o' r s
        else if m = ''POST'' \<and> path = ''/join-tokens/exchange'' then exchange_invite E o' r s
        else if m = ''POST'' \<and> path = ''/device/session'' then serve_session E o' r s
        else if m = ''GET'' \<and> path = ''/enrollment/signed-config'' then serve_config E o' r s
        else if m = ''POST'' \<and> has_prefix path ''/enrollment/signed-config/'' \<and> has_suffix path ''/ack'' then serve_ack E r path s
        else if m = ''GET'' \<and> path = ''/signing-keys'' then serve_keys E o' r s
        else (Refused 404, s))"

section \<open>Files and the helper\<close>

definition owned_by :: "nat \<Rightarrow> file_info \<Rightarrow> bool" where
  "owned_by euid i \<longleftrightarrow> fi_uid i = Some euid"

definition private_file :: "nat \<Rightarrow> file_info \<Rightarrow> bool" where
  "private_file euid i \<longleftrightarrow> fi_regular i \<and> fi_perm i = 0x180 \<and> owned_by euid i"

definition read_secret :: "nat \<Rightarrow> error + file_info \<Rightarrow> error + byte list \<Rightarrow> error + string" where
  "read_secret euid info contents =
     (if (case info of Inl e \<Rightarrow> True | Inr i \<Rightarrow> \<not> private_file euid i)
      then Inl (Plain ''secret file must be owner-owned regular mode 0600'')
      else case contents of
          Inl e \<Rightarrow> Inl (Plain ''cannot read secret file'')
        | Inr raw \<Rightarrow> if length raw > 4096 then Inl (Plain ''cannot read secret file'') else Inr (trim_space (string_of raw)))"

text \<open>The helper is run with the key and the address as its arguments, without a shell.\<close>

definition command_peer_updater :: "os_env \<Rightarrow> string \<Rightarrow> string \<Rightarrow> string \<Rightarrow> unit sys" where
  "command_peer_updater E path key address =
     ifW (\<not> is_abs path \<or> \<not> lab_key key) (Plain ''invalid peer helper input'')
     (ifW (case parse_prefix address of None \<Rightarrow> True | Some p \<Rightarrow> \<not> is4 (pfx_addr p) \<or> pfx_bits p \<noteq> 32) (Plain ''invalid peer address'')
     (bindW (tryW (execute E path [key, address])) (\<lambda>r. case r of
        Inl e \<Rightarrow> raise (Plain ''gateway peer update failed'') | Inr u \<Rightarrow> ret ())))"

definition lab_unsafe :: error where
  "lab_unsafe = Plain ''lab state unavailable or unsafe''"

definition place_error :: "lab_place \<Rightarrow> error option" where
  "place_error p =
     (if \<not> lp_mkdir p then Some lab_unsafe
      else if (case lp_dir p of Inl e \<Rightarrow> True | Inr i \<Rightarrow> \<not> fi_dir i \<or> fi_perm i \<noteq> 0x1C0 \<or> \<not> owned_by (lp_euid p) i) then Some lab_unsafe
      else if (case lp_lock p of Inl e \<Rightarrow> \<not> errors_is e ErrNotExist | Inr i \<Rightarrow> \<not> private_file (lp_euid p) i) then Some lab_unsafe
      else if \<not> lp_open p then Some lab_unsafe
      else if \<not> lp_free p then Some (Plain ''lab state already in use'')
      else None)"

section \<open>Start\<close>

text \<open>\<open>n == n.Masked()\<close>: no bit beyond the prefix is set.\<close>

definition is_masked :: "prefix \<Rightarrow> bool" where
  "is_masked n \<longleftrightarrow> bits_value (octets (pfx_addr n)) mod 2 ^ (bit_len (pfx_addr n) - pfx_bits n) = 0"

definition options_ok :: "lab_env \<Rightarrow> lab_options \<Rightarrow> bool" where
  "options_ok E o' \<longleftrightarrow>
     (case le_urls E (lo_url o') of
        None \<Rightarrow> False
      | Some u \<Rightarrow> u_scheme u = ''https'' \<and> u_host u \<noteq> [] \<and> \<not> u_has_user u \<and> u_raw_query u = [] \<and> u_fragment u = [] \<and> u_path u = []) \<and>
     length (lo_admin o') \<ge> 32 \<and> length (lo_seed o') = 32 \<and> lab_id (lo_network o') \<and>
     (case (parse_prefix (lo_cidr o'), parse_prefix (lo_address o')) of
        (Some n, Some a) \<Rightarrow> is4 (pfx_addr n) \<and> is_masked n \<and> is4 (pfx_addr a) \<and> pfx_bits a = 32 \<and> Go_Net.contains n (pfx_addr a)
      | _ \<Rightarrow> False) \<and>
     lab_key (lo_gateway_key o') \<and> lo_gateway_host o' \<noteq> [] \<and> lo_server_name o' \<noteq> [] \<and> 1 \<le> lo_port o' \<and> lo_port o' \<le> 65535 \<and>
     lab_uuid (lo_vless o')"

text \<open>The options a state file is bound to.\<close>

definition lab_binding :: "lab_env \<Rightarrow> lab_options \<Rightarrow> string" where
  "lab_binding E o' = lab_hash E (concat (map (\<lambda>p. p @ [CHR 0x00])
     [lo_url o', lo_network o', lo_cidr o', lo_address o', lo_gateway_key o', lo_gateway_host o', show_int (lo_port o'),
      lo_server_name o', lo_vless o']) @ std_encode (lo_seed o'))"

definition lab_signing_key :: "lab_env \<Rightarrow> lab_options \<Rightarrow> gotime \<Rightarrow> signing_key" where
  "lab_signing_key E o' now =
     (let public = le_public E (lo_seed o') in
      \<lparr>sk_id = ''lab_'' @ take 24 (lab_hash E (string_of public)), sk_algorithm = ''Ed25519'', sk_public_key = std_encode public,
       sk_status = ''current'', sk_not_before = add_dur now (- minute), sk_not_after = None\<rparr>)"

definition fresh_lab :: "string \<Rightarrow> signing_key \<Rightarrow> lab_state" where
  "fresh_lab binding key = \<lparr>lb_version = 1, lb_binding = binding, lb_key = key, lb_invite = None, lb_device = None, lb_pending = [],
     lb_cred_id = [], lb_cred_hash = [], lb_cred_issued = zero_time, lb_cred_expires = zero_time, lb_sessions = [], lb_config = None,
     lb_ack = None\<rparr>"

text \<open>
  The state file as it is found: absent, not to be trusted (another owner or mode, unreadable, too
  long, no JSON), or holding a state, with the fields the file leaves out filled in by the server.
\<close>

datatype lab_file = NoLabFile | UnsafeLabFile | LabFile lab_state

definition load_lab :: "lab_env \<Rightarrow> lab_options \<Rightarrow> lab_file \<Rightarrow> server option" where
  "load_lab E o' f =
     (let binding = lab_binding E o' in
      case f of
        UnsafeLabFile \<Rightarrow> None
      | LabFile st \<Rightarrow> if lb_version st \<noteq> 1 \<or> lb_binding st \<noteq> binding then None
          else Some \<lparr>sv_tick = 0, sv_state = st, sv_disk = st, sv_failed = False, sv_peers = []\<rparr>
      | NoLabFile \<Rightarrow>
          let st = fresh_lab binding (lab_signing_key E o' (trunc_second (to_utc (le_now E 0))))
          in if le_save E 1 = SaveOk then Some \<lparr>sv_tick = 2, sv_state = st, sv_disk = st, sv_failed = False, sv_peers = []\<rparr>
             else None)"

definition open_lab :: "lab_env \<Rightarrow> lab_options \<Rightarrow> lab_file \<Rightarrow> error + server" where
  "open_lab E o' f =
     (if \<not> options_ok E o' then Inl (Plain ''invalid explicit lab configuration'')
      else case place_error (le_place E) of
          Some e \<Rightarrow> Inl e
        | None \<Rightarrow>
            (case load_lab E o' f of
               None \<Rightarrow> Inl lab_unsafe
             | Some s \<Rightarrow> if keys_validate \<lparr>ks_keys = [lb_key (sv_state s)], ks_etag = []\<rparr> \<noteq> None then Inl lab_unsafe else Inr s))"

end
