(* ===== verification/Zero_Lab_Runs.thy ===== *)
theory Zero_Lab_Runs
  imports Zero_Lab Client_Samples
begin

text \<open>
  The single-device controller over any sequence of requests, failed writes and restarts: what is on
  disk, who may change it, and which keys the gateway is given.
\<close>

section \<open>Reachable servers\<close>

text \<open>A new lab, a request, or a restart from what is on disk; the gateway keeps the peers it was given.\<close>

inductive lab_reach :: "lab_env \<Rightarrow> lab_options \<Rightarrow> server \<Rightarrow> bool" for E o' where
  fresh: "open_lab E o' NoLabFile = Inr s \<Longrightarrow> lab_reach E o' s"
| request: "lab_reach E o' s \<Longrightarrow> serve E o' r s = (a, s') \<Longrightarrow> lab_reach E o' s'"
| restart: "lab_reach E o' s \<Longrightarrow> open_lab E o' (LabFile (sv_disk s)) = Inr s' \<Longrightarrow>
    lab_reach E o' (s'\<lparr>sv_tick := sv_tick s, sv_peers := sv_peers s\<rparr>)"

definition binding_text :: "string \<Rightarrow> string \<Rightarrow> string \<Rightarrow> string" where
  "binding_text d p k = d @ CHR 0x00 # p @ CHR 0x00 # k"

text \<open>The device and key a state is tied to: the enrolled device, or the exchange that is under way.\<close>

definition lab_bound :: "lab_env \<Rightarrow> lab_state \<Rightarrow> string" where
  "lab_bound E st = (case lb_device st of
      Some d \<Rightarrow> lab_hash E (binding_text (dv_id d) (dv_platform d) (dv_public_key d)) | None \<Rightarrow> lb_pending st)"

definition peer_bound :: "lab_env \<Rightarrow> lab_options \<Rightarrow> string \<Rightarrow> string \<times> string \<Rightarrow> bool" where
  "peer_bound E o' B ka \<longleftrightarrow> snd ka = lo_address o' \<and> (\<exists>d p. lab_id d \<and> lab_platform p \<and> B = lab_hash E (binding_text d p (fst ka)))"

definition lab_good :: "lab_env \<Rightarrow> lab_options \<Rightarrow> lab_state \<Rightarrow> (string \<times> string) list \<Rightarrow> bool" where
  "lab_good E o' st peers \<longleftrightarrow>
     lb_version st = 1 \<and> lb_binding st = lab_binding E o' \<and> keys_validate \<lparr>ks_keys = [lb_key st], ks_etag = []\<rparr> = None \<and>
     (\<forall>d. lb_device st = Some d \<longrightarrow> lb_invite st = None \<and> lb_pending st = [] \<and> lab_id (dv_id d) \<and> lab_platform (dv_platform d)) \<and>
     list_all (peer_bound E o' (lab_bound E st)) peers"

definition openable :: "lab_env \<Rightarrow> lab_options \<Rightarrow> bool" where
  "openable E o' \<longleftrightarrow> options_ok E o' \<and> place_error (le_place E) = None"

definition lab_inv :: "lab_env \<Rightarrow> lab_options \<Rightarrow> server \<Rightarrow> bool" where
  "lab_inv E o' s \<longleftrightarrow> openable E o' \<and> lab_good E o' (sv_disk s) (sv_peers s) \<and> (sv_failed s \<or> sv_state s = sv_disk s)"

text \<open>A device once on disk stays, with its credential.\<close>

definition stays :: "lab_state \<Rightarrow> lab_state \<Rightarrow> bool" where
  "stays st st' \<longleftrightarrow> (\<forall>d. lb_device st = Some d \<longrightarrow>
     lb_device st' = Some d \<and> lb_cred_id st' = lb_cred_id st \<and> lb_cred_hash st' = lb_cred_hash st \<and>
     lb_cred_issued st' = lb_cred_issued st \<and> lb_cred_expires st' = lb_cred_expires st)"

fun refusal :: "lab_answer \<Rightarrow> bool" where
  "refusal (Refused n) = True"
| "refusal _ = False"

text \<open>What every exit of a handler that began with \<open>st\<close> on disk is to give.\<close>

definition lab_out :: "lab_env \<Rightarrow> lab_options \<Rightarrow> lab_state \<Rightarrow> lab_answer \<times> server \<Rightarrow> bool" where
  "lab_out E o' st res \<longleftrightarrow> lab_inv E o' (snd res) \<and> stays st (sv_disk (snd res)) \<and> (refusal (fst res) \<or> \<not> sv_failed (snd res))"

definition lab_ground :: "lab_env \<Rightarrow> lab_options \<Rightarrow> lab_state \<Rightarrow> server \<Rightarrow> bool" where
  "lab_ground E o' st s \<longleftrightarrow>
     openable E o' \<and> lab_good E o' (sv_disk s) (sv_peers s) \<and> \<not> sv_failed s \<and> stays st (sv_disk s)"

definition lab_ready :: "lab_env \<Rightarrow> lab_options \<Rightarrow> lab_state \<Rightarrow> server \<Rightarrow> bool" where
  "lab_ready E o' st s \<longleftrightarrow> lab_ground E o' st s \<and> sv_state s = sv_disk s"

section \<open>The composition rules\<close>

lemma ticked_sels [simp]:
  "sv_state (ticked s) = sv_state s" "sv_disk (ticked s) = sv_disk s" "sv_failed (ticked s) = sv_failed s" "sv_peers (ticked s) = sv_peers s"
  by (simp_all add: ticked_def)

lemma lab_ground_upd [simp]:
  "lab_ground E o' st (ticked s) = lab_ground E o' st s" "lab_ground E o' st (s\<lparr>sv_tick := n\<rparr>) = lab_ground E o' st s"
  "lab_ground E o' st (s\<lparr>sv_state := x\<rparr>) = lab_ground E o' st s"
  by (simp_all add: lab_ground_def)

lemma lab_ready_upd [simp]:
  "lab_ready E o' st (ticked s) = lab_ready E o' st s" "lab_ready E o' st (s\<lparr>sv_tick := n\<rparr>) = lab_ready E o' st s"
  by (simp_all add: lab_ready_def)

lemma lab_out_ready: "lab_ready E o' st s \<Longrightarrow> lab_out E o' st (a, s)"
  by (simp add: lab_out_def lab_ready_def lab_ground_def lab_inv_def)

lemma lab_readyD:
  "lab_ready E o' st s \<Longrightarrow> lab_ground E o' st s \<and> sv_state s = sv_disk s \<and> lab_good E o' (sv_disk s) (sv_peers s)"
  by (auto simp: lab_ready_def lab_ground_def)

lemma stays_refl [simp]: "stays st st"
  by (simp add: stays_def)

lemma stays_trans: "stays a b \<Longrightarrow> stays b c \<Longrightarrow> stays a c"
  unfolding stays_def by metis

lemma lab_out_committed:
  assumes "lab_ground E o' st s" "lab_good E o' (sv_state s) (sv_peers s)" "stays (sv_disk s) (sv_state s)"
    "\<And>s'. lab_ready E o' st s' \<Longrightarrow> sv_state s' = sv_state s \<Longrightarrow> sv_peers s' = sv_peers s \<Longrightarrow> lab_out E o' st (k s')"
  shows "lab_out E o' st (committed E s k)"
proof -
  have st: "stays st (sv_state s)" using assms(1,3) stays_trans by (simp add: lab_ground_def) blast
  note L = committed_def commit_lab_def save_lab_def lab_ground_def lab_ready_def lab_inv_def
  show ?thesis
  proof (cases "le_save E (sv_tick s)")
    case SaveOk
    have "lab_ready E o' st (ticked (s\<lparr>sv_disk := sv_state s\<rparr>))" using assms(1,2) st by (simp add: L)
    from assms(4) [OF this] show ?thesis by (simp add: committed_def commit_lab_def save_lab_def SaveOk)
  next
    case SaveLost
    then show ?thesis using assms(1) by (simp add: L lab_out_def)
  next
    case SaveUnsynced
    then show ?thesis using assms(1,2) st by (simp add: L lab_out_def)
  qed
qed

lemma lab_good_same:
  assumes "lab_good E o' st peers" "lb_version st' = lb_version st" "lb_binding st' = lb_binding st" "lb_key st' = lb_key st"
    "lb_device st' = lb_device st" "lb_pending st' = lb_pending st" "lb_device st = None \<or> lb_invite st' = lb_invite st"
  shows "lab_good E o' st' peers"
  using assms by (cases "lb_device st") (auto simp: lab_good_def lab_bound_def)

lemma if_cases_out: "(b \<Longrightarrow> lab_out E o' st x) \<Longrightarrow> (\<not> b \<Longrightarrow> lab_out E o' st y) \<Longrightarrow> lab_out E o' st (if b then x else y)"
  by simp

lemma option_cases_out:
  "(m = None \<Longrightarrow> lab_out E o' st x) \<Longrightarrow> (\<And>a. m = Some a \<Longrightarrow> lab_out E o' st (f a)) \<Longrightarrow>
    lab_out E o' st (case m of None \<Rightarrow> x | Some a \<Rightarrow> f a)"
  by (simp split: option.split)

section \<open>Sessions\<close>

lemma live_sessions_tick: "live_sessions E vs s = (ws, s') \<Longrightarrow> \<exists>n. s' = s\<lparr>sv_tick := n\<rparr>"
proof (induction vs arbitrary: s ws)
  case Nil
  then show ?case by (auto intro: exI [of _ "sv_tick s"])
next
  case (Cons v vs)
  then show ?case by (auto simp: ticked_def split: prod.splits) fastforce
qed

lemma session_found_tick: "session_found E h vs s = (b, s') \<Longrightarrow> \<exists>n. s' = s\<lparr>sv_tick := n\<rparr>"
proof (induction vs arbitrary: s)
  case Nil
  then show ?case by (auto intro: exI [of _ "sv_tick s"])
next
  case (Cons v vs)
  then show ?case by (fastforce simp: ticked_def split: if_splits)
qed

lemma authorized_tick: "authorized E r s = (b, s') \<Longrightarrow> \<exists>n. s' = s\<lparr>sv_tick := n\<rparr>"
  unfolding authorized_def by (auto split: if_splits dest: session_found_tick intro: exI [of _ "sv_tick s"])

lemma new_session_cases:
  assumes "new_session E s = (t, s')"
  obtains (Lost) "t = None" "s' = ticked s"
  | (Given) token n v where "t = Some token" "s' = s\<lparr>sv_tick := n, sv_state := (sv_state s)\<lparr>lb_sessions := v\<rparr>\<rparr>"
proof (cases "lab_token E ''xenr_'' s")
  case None
  then show ?thesis using assms Lost by (simp add: new_session_def)
next
  case (Some token)
  obtain l u where l: "live_sessions E (lb_sessions (sv_state s)) (ticked s) = (l, u)" by fastforce
  obtain n where u: "u = s\<lparr>sv_tick := n\<rparr>" using live_sessions_tick [OF l] by (auto simp: ticked_def)
  from assms have "t = Some token" "s' = s\<lparr>sv_tick := sv_tick s', sv_state := sv_state s'\<rparr>"
    "sv_state s' = (sv_state s)\<lparr>lb_sessions := lb_sessions (sv_state s')\<rparr>"
    unfolding new_session_def Some option.case l prod.case Let_def by (auto simp: u ticked_def)
  then show ?thesis using Given by metis
qed

section \<open>Every handler\<close>

lemma create_invite_out:
  assumes "lab_ready E o' st s"
  shows "lab_out E o' st (create_invite E o' r s)"
proof -
  note R = lab_readyD [OF assms]
  show ?thesis
    unfolding create_invite_def Let_def
    using assms R
    by (auto split: option.split intro!: lab_out_ready lab_out_committed elim!: lab_good_same simp: stays_def)
qed

lemma peer_good:
  assumes "lab_good E o' st peers" "peer_bound E o' (lab_bound E st) p"
  shows "lab_good E o' st (peers @ [p])"
  using assms by (simp add: lab_good_def)

lemma enrolled_good:
  assumes "lab_good E o' st peers" "lb_device st = None" "lb_pending st = peer_binding E q" "lab_id (xq_device q)" "lab_platform (xq_platform q)"
  shows "lab_good E o' (enrolled E o' q secret t st) peers"
  using assms by (simp add: lab_good_def lab_bound_def enrolled_def lab_device_def peer_binding_def binding_text_def)

lemma finish_exchange_out:
  assumes R: "lab_ready E o' st s"
    and q: "lb_device (sv_disk s) = None" "lb_pending (sv_disk s) = peer_binding E q" "lab_id (xq_device q)" "lab_platform (xq_platform q)"
  shows "lab_out E o' st (finish_exchange E o' q secret s)"
proof -
  let ?s1 = "ticked (s\<lparr>sv_peers := sv_peers s @ [(xq_public_key q, lo_address o')]\<rparr>)"
  let ?s2 = "ticked (?s1\<lparr>sv_state := enrolled E o' q secret (lab_now E ?s1) (sv_state ?s1)\<rparr>)"
  note D = lab_readyD [OF R]
  have g1: "lab_good E o' (sv_disk s) (sv_peers s @ [(xq_public_key q, lo_address o')])"
    using D q by (intro peer_good) (auto simp: lab_bound_def peer_bound_def peer_binding_def binding_text_def)
  with D have r1: "lab_ready E o' st ?s1" by (auto simp: lab_ready_def lab_ground_def)
  note D1 = lab_readyD [OF r1]
  have g2: "lab_good E o' (enrolled E o' q secret t (sv_disk s)) (sv_peers s @ [(xq_public_key q, lo_address o')])" for t
    using g1 q by (intro enrolled_good) simp_all
  obtain tok s3 where n: "new_session E ?s2 = (tok, s3)" by fastforce
  from n show ?thesis
  proof (cases rule: new_session_cases)
    case Lost
    then show ?thesis using r1 D1 n
      by (auto simp: finish_exchange_def Let_def lab_out_ready lab_out_def lab_inv_def lab_ground_def)
  next
    case (Given token k v)
    have "lab_good E o' (sv_state s3) (sv_peers s3)"
      by (simp add: Given D) (rule lab_good_same [OF g2 [of "lab_now E ?s1"]], auto)
    then show ?thesis using r1 D1 n Given q D
      by (auto simp: finish_exchange_def Let_def stays_def intro!: lab_out_ready lab_out_committed)
  qed
qed

text \<open>A SHA-256 digest has 32 bytes.\<close>

definition digests :: "lab_env \<Rightarrow> bool" where
  "digests E \<longleftrightarrow> (\<forall>b. length (cl_sha256 (le_cred E) b) = 32)"

lemma lab_hash_length: "digests E \<Longrightarrow> length (lab_hash E x) = 64"
  by (simp add: lab_hash_def digests_def)

lemma lab_hash_empty: "digests E \<Longrightarrow> ([] = lab_hash E x) = False"
  using lab_hash_length [of E x] by auto

lemma pending_good:
  assumes "lab_good E o' st peers" "digests E" "lb_device st = None" "lb_pending st \<noteq> [] \<longrightarrow> lb_pending st = b"
  shows "lab_good E o' (st\<lparr>lb_pending := b\<rparr>) peers"
proof -
  have "peers = []" if "lb_pending st = []"
    using assms that
    by (cases peers) (auto simp: lab_good_def lab_bound_def peer_bound_def lab_hash_empty)
  then show ?thesis using assms by (cases "lb_pending st = []") (auto simp: lab_good_def lab_bound_def)
qed

lemma bind_out:
  assumes R: "lab_ready E o' st s" and "digests E" and x: "exchange_allowed iv q"
    and p: "lb_pending (sv_state s) \<noteq> [] \<longrightarrow> lb_pending (sv_state s) = peer_binding E q" and d: "lb_device (sv_state s) = None"
  shows "lab_out E o' st (committed E (s\<lparr>sv_state := (sv_state s)\<lparr>lb_pending := peer_binding E q\<rparr>\<rparr>)
    (\<lambda>s'. finish_exchange E o' q secret s'))"
proof (rule lab_out_committed)
  note D = lab_readyD [OF R]
  show "lab_ground E o' st (s\<lparr>sv_state := (sv_state s)\<lparr>lb_pending := peer_binding E q\<rparr>\<rparr>)" using D by simp
  show "lab_good E o' (sv_state (s\<lparr>sv_state := (sv_state s)\<lparr>lb_pending := peer_binding E q\<rparr>\<rparr>))
      (sv_peers (s\<lparr>sv_state := (sv_state s)\<lparr>lb_pending := peer_binding E q\<rparr>\<rparr>))"
    using D pending_good [OF _ assms(2) d p] by simp
  show "stays (sv_disk (s\<lparr>sv_state := (sv_state s)\<lparr>lb_pending := peer_binding E q\<rparr>\<rparr>))
      (sv_state (s\<lparr>sv_state := (sv_state s)\<lparr>lb_pending := peer_binding E q\<rparr>\<rparr>))"
    using D by (simp add: stays_def)
next
  fix s' assume r: "lab_ready E o' st s'" and e: "sv_state s' = sv_state (s\<lparr>sv_state := (sv_state s)\<lparr>lb_pending := peer_binding E q\<rparr>\<rparr>)"
  have e': "sv_disk s' = (sv_state s)\<lparr>lb_pending := peer_binding E q\<rparr>" using e lab_readyD [OF r] by simp
  show "lab_out E o' st (finish_exchange E o' q secret s')"
    using x d by (intro finish_exchange_out [OF r]) (simp_all add: e' exchange_allowed_def)
qed

lemma exchange_invite_out:
  assumes R: "lab_ready E o' st s" and "digests E"
  shows "lab_out E o' st (exchange_invite E o' r s)"
proof (cases "decode_body (le_exchange E) r")
  case None
  then show ?thesis using R by (simp add: exchange_invite_def lab_out_ready)
next
  case (Some q)
  have B: "lab_out E o' st (committed E (ticked (ticked s)\<lparr>sv_state := sv_state s\<lparr>lb_pending := peer_binding E q\<rparr>\<rparr>) (finish_exchange E o' q secret))"
    if "exchange_allowed iv q" "lb_device (sv_state s) = None" "lb_pending (sv_state s) = [] \<or> lb_pending (sv_state s) = peer_binding E q" for iv secret
    using bind_out [of E o' st "ticked (ticked s)" iv q secret] that assms by auto
  show ?thesis
  proof (cases "lb_invite (sv_state s)")
    case None
    then show ?thesis using R Some by (simp add: exchange_invite_def lab_out_ready)
  next
    case I: (Some iv)
    show ?thesis unfolding exchange_invite_def Some I option.case Let_def ticked_sels
      using R by (intro if_cases_out option_cases_out lab_out_ready B) simp_all
  qed
qed

lemma serve_session_out:
  assumes R: "lab_ready E o' st s"
  shows "lab_out E o' st (serve_session E o' r s)"
proof -
  note D = lab_readyD [OF R]
  have "lab_out E o' st (case new_session E (ticked s) of (None, s2) \<Rightarrow> (Refused 503, s2)
      | (Some token, s2) \<Rightarrow> committed E s2 (k token))"
    if k: "\<And>token s'. lab_ready E o' st s' \<Longrightarrow> lab_out E o' st (k token s')" for k
  proof -
    obtain t s2 where n: "new_session E (ticked s) = (t, s2)" by fastforce
    from n show ?thesis
    proof (cases rule: new_session_cases)
      case Lost
      then show ?thesis using n R by (simp add: lab_out_ready)
    next
      case (Given token m v)
      have "lab_good E o' (sv_state s2) (sv_peers s2)"
        using D by (simp add: Given) (rule lab_good_same [of _ _ "sv_disk s"], auto)
      then show ?thesis using Given n D by (auto simp: stays_def intro!: lab_out_committed k)
    qed
  qed
  then show ?thesis
    unfolding serve_session_def Let_def
    using R by (intro if_cases_out option_cases_out lab_out_ready) (simp_all add: lab_out_ready)
qed

lemma renew_config_out:
  assumes R: "lab_ready E o' st s"
  shows "lab_out E o' st (renew_config E o' d s)"
proof -
  note D = lab_readyD [OF R]
  have B: "lab_out E o' st (committed E (u\<lparr>sv_state := z\<lparr>lb_config := x, lb_ack := y\<rparr>\<rparr>) (Pair a))"
    if "lab_ready E o' st u" "sv_state u = z" for u x y z a
    using lab_readyD [OF that(1)] that(2)
    by (intro lab_out_committed lab_out_ready) (auto simp: stays_def intro: lab_good_same)
  show ?thesis
    unfolding renew_config_def Let_def
    using R by (auto intro!: option_cases_out lab_out_ready B split: sum.split)
qed

lemma serve_config_out:
  assumes R: "lab_ready E o' st s"
  shows "lab_out E o' st (serve_config E o' r s)"
proof -
  obtain b s1 where a: "authorized E r s = (b, s1)" by fastforce
  obtain n where s1: "s1 = s\<lparr>sv_tick := n\<rparr>" using authorized_tick [OF a] by blast
  have R1: "lab_ready E o' st s1" using R by (simp add: s1)
  have P: "lab_ready E o' st (s1\<lparr>sv_peers := sv_peers s1 @ [(dv_public_key d, lo_address o')]\<rparr>)"
    if "lb_device (sv_state s1) = Some d" for d
    using lab_readyD [OF R1] that R1
    by (auto simp: lab_ready_def lab_ground_def lab_good_def lab_bound_def peer_bound_def)
  show ?thesis
  proof (cases "b \<and> lb_device (sv_state s1) \<noteq> None")
    case False
    then show ?thesis using R1 a by (auto simp: serve_config_def lab_out_ready split: option.split bool.split)
  next
    case True
    then obtain d where d: "b = True" "lb_device (sv_state s1) = Some d" by auto
    show ?thesis
      unfolding serve_config_def a prod.case d option.case bool.case Let_def
      using R1 P [OF d(2)] by (intro if_cases_out option_cases_out lab_out_ready renew_config_out) simp_all
  qed
qed

lemma serve_ack_out:
  assumes R: "lab_ready E o' st s"
  shows "lab_out E o' st (serve_ack E r path s)"
proof -
  obtain b s1 where a: "authorized E r s = (b, s1)" by fastforce
  obtain n where s1: "s1 = s\<lparr>sv_tick := n\<rparr>" using authorized_tick [OF a] by blast
  have R1: "lab_ready E o' st s1" using R by (simp add: s1)
  have B: "lab_out E o' st (committed E (ticked (u\<lparr>sv_state := z\<lparr>lb_ack := y\<rparr>\<rparr>)) (Pair an))"
    if "lab_ready E o' st u" "sv_state u = z" for u y z an
    using lab_readyD [OF that(1)] that(2)
    by (intro lab_out_committed lab_out_ready) (auto simp: stays_def intro: lab_good_same)
  show ?thesis
  proof (cases "b \<and> lb_device (sv_state s1) \<noteq> None")
    case False
    then show ?thesis using R1 a by (auto simp: serve_ack_def lab_out_ready split: option.split bool.split)
  next
    case True
    then obtain d where d: "b = True" "lb_device (sv_state s1) = Some d" by auto
    show ?thesis
      unfolding serve_ack_def a prod.case d option.case bool.case Let_def
      using R1 by (intro if_cases_out option_cases_out lab_out_ready B) simp_all
  qed
qed

lemma serve_keys_out:
  assumes R: "lab_ready E o' st s"
  shows "lab_out E o' st (serve_keys E o' r s)"
proof -
  obtain b s1 where a: "authorized E r s = (b, s1)" by fastforce
  then obtain n where "s1 = s\<lparr>sv_tick := n\<rparr>" using authorized_tick by blast
  then show ?thesis using R a by (auto simp: serve_keys_def intro!: lab_out_ready)
qed

lemma lab_inv_ready: "lab_inv E o' s \<Longrightarrow> \<not> sv_failed s \<Longrightarrow> lab_ready E o' (sv_disk s) s"
  by (auto simp: lab_inv_def lab_ready_def lab_ground_def)

lemma serve_out:
  assumes I: "lab_inv E o' s" and "digests E"
  shows "lab_out E o' (sv_disk s) (serve E o' r s)"
proof (cases "sv_failed s")
  case True
  then show ?thesis using I by (auto simp: serve_def lab_out_def)
next
  case False
  note R = lab_inv_ready [OF I False]
  show ?thesis unfolding serve_def Let_def using R assms(2) False
    by (intro if_cases_out lab_out_ready create_invite_out exchange_invite_out serve_session_out serve_config_out serve_ack_out serve_keys_out)
      auto
qed

lemma open_lab_file:
  assumes "open_lab E o' (LabFile st) = Inr s"
  shows "openable E o' \<and> s = \<lparr>sv_tick = 0, sv_state = st, sv_disk = st, sv_failed = False, sv_peers = []\<rparr> \<and>
    lb_version st = 1 \<and> lb_binding st = lab_binding E o' \<and> keys_validate \<lparr>ks_keys = [lb_key st], ks_etag = []\<rparr> = None"
  using assms by (auto simp: open_lab_def load_lab_def openable_def Let_def split: if_splits option.splits)

lemma open_lab_fresh:
  assumes "open_lab E o' NoLabFile = Inr s"
  shows "lab_inv E o' s"
  using assms
  by (auto simp: open_lab_def load_lab_def openable_def Let_def fresh_lab_def lab_inv_def lab_good_def lab_bound_def split: if_splits option.splits)

lemma lab_reach_inv:
  assumes "lab_reach E o' s" "digests E"
  shows "lab_inv E o' s"
  using assms
proof (induction rule: lab_reach.induct)
  case (fresh s)
  then show ?case by (simp add: open_lab_fresh)
next
  case (request s r a s')
  then show ?case using serve_out [of E o' s r] by (simp add: lab_out_def)
next
  case (restart s s')
  then show ?case using open_lab_file [OF restart.hyps(2)] by (simp add: lab_inv_def)
qed

section \<open>Who changes the state\<close>

text \<open>The administrator, the bearer of the invite in force, the enrolled device, or one of its sessions.\<close>

definition invite_shown :: "lab_env \<Rightarrow> lab_request \<Rightarrow> server \<Rightarrow> bool" where
  "invite_shown E r s \<longleftrightarrow> (\<exists>iv q. lb_invite (sv_state s) = Some iv \<and> decode_body (le_exchange E) r = Some q \<and>
     lab_hash E (xq_token q) = iv_hash iv \<and> after (iv_expires iv) (lab_now E s))"

definition lab_authority :: "lab_env \<Rightarrow> lab_options \<Rightarrow> lab_request \<Rightarrow> server \<Rightarrow> bool" where
  "lab_authority E o' r s \<longleftrightarrow> admin_allowed E o' r \<or> invite_shown E r s \<or> device_allowed E r s \<or> fst (authorized E r s)"

definition same_lab :: "server \<Rightarrow> server \<Rightarrow> bool" where
  "same_lab s s' \<longleftrightarrow> sv_state s' = sv_state s \<and> sv_disk s' = sv_disk s \<and> sv_failed s' = sv_failed s \<and> sv_peers s' = sv_peers s"

lemma same_lab_tick [simp]: "same_lab s s" "same_lab s (ticked s)" "same_lab s (s\<lparr>sv_tick := n\<rparr>)"
  by (simp_all add: same_lab_def)

lemma authorized_same: "same_lab s (snd (authorized E r s))"
  by (metis authorized_tick same_lab_tick(3) surjective_pairing)

lemma unauthorised_same:
  assumes "\<not> lab_authority E o' r s"
  shows "same_lab s (snd (serve E o' r s))"
proof -
  note A = assms [unfolded lab_authority_def de_Morgan_disj]
  obtain s1 where a: "authorized E r s = (False, s1)" using A by (cases "authorized E r s") auto
  have s1: "same_lab s s1" using authorized_same [of s E r] by (simp add: a)
  have "same_lab s (snd (create_invite E o' r s))" using A by (simp add: create_invite_def)
  moreover have "same_lab s (snd (exchange_invite E o' r s))"
    using A unfolding exchange_invite_def Let_def by (auto simp: invite_shown_def split: option.split)
  moreover have "same_lab s (snd (serve_session E o' r s))" using A by (simp add: serve_session_def)
  moreover have "same_lab s (snd (serve_config E o' r s))" using s1 by (simp add: serve_config_def a)
  moreover have "same_lab s (snd (serve_ack E r p s))" for p using s1 by (simp add: serve_ack_def a)
  moreover have "same_lab s (snd (serve_keys E o' r s))" using s1 A by (simp add: serve_keys_def a)
  ultimately show ?thesis by (simp add: serve_def Let_def)
qed

section \<open>The properties\<close>

text \<open>
  C37. A restart from the state file right after any answer that is not a refusal succeeds and finds
  exactly the state that the answer was given from: no invite, credential, session, configuration
  or acknowledgement is answered for that a crash would undo.
\<close>
theorem lab_answers_survive:
  assumes "digests E" "lab_reach E o' s" "serve E o' r s = (a, s')" "\<not> refusal a"
  shows "\<exists>s''. open_lab E o' (LabFile (sv_disk s')) = Inr s'' \<and> sv_state s'' = sv_state s' \<and> \<not> sv_failed s''"
proof -
  have "lab_out E o' (sv_disk s) (a, s')"
    using serve_out [OF lab_reach_inv [OF assms(2,1)] assms(1), of r] assms(3) by simp
  then have "lab_inv E o' s'" "\<not> sv_failed s'" using assms(4) by (auto simp: lab_out_def)
  then show ?thesis by (auto simp: lab_inv_def lab_good_def openable_def open_lab_def load_lab_def Let_def)
qed


lemma split_at:
  assumes "c \<notin> set u" "c \<notin> set v" "u @ c # w = v @ c # x"
  shows "u = v \<and> w = x"
proof -
  have "takeWhile (\<lambda>y. y \<noteq> c) (u @ c # w) = u" "takeWhile (\<lambda>y. y \<noteq> c) (v @ c # x) = v"
    using assms(1,2) by (auto simp: takeWhile_append2 takeWhile_tail)
  then have "u = v" using assms(3) by simp
  then show ?thesis using assms(3) by simp
qed

lemma binding_text_key:
  assumes "binding_text d p k = binding_text d' p' k'" "lab_id d" "lab_id d'" "lab_platform p" "lab_platform p'"
  shows "k = k'"
proof -
  have nul: "CHR 0x00 \<notin> set x" if "lab_id x" for x
    using that by (cases x) (auto simp: lab_id_def list_all_iff is_lower_def is_digit_def code_def)
  have nul': "CHR 0x00 \<notin> set x" if "lab_platform x" for x
    using that by (auto simp: lab_platform_def)
  have "d = d' \<and> p @ CHR 0x00 # k = p' @ CHR 0x00 # k'"
    by (rule split_at [OF nul [OF assms(2)] nul [OF assms(3)] assms(1) [unfolded binding_text_def]])
  then show ?thesis using split_at [OF nul' [OF assms(4)] nul' [OF assms(5)]] by blast
qed


text \<open>
  Once the exchange has been written, or has begun and its invite has expired, neither a new invite
  nor the old one is accepted: an answer that was lost on the way cannot be asked for again.
\<close>

definition spent :: "lab_env \<Rightarrow> server \<Rightarrow> bool" where
  "spent E s \<longleftrightarrow> lb_device (sv_state s) \<noteq> None \<or>
     (lb_pending (sv_state s) \<noteq> [] \<and> (\<forall>iv. lb_invite (sv_state s) = Some iv \<longrightarrow> \<not> after (iv_expires iv) (lab_now E s)))"

theorem lab_retry_refused:
  assumes "digests E" "lab_reach E o' s" "\<not> sv_failed s" "spent E s"
  shows "(\<exists>n. fst (create_invite E o' r s) = Refused n) \<and> (\<exists>n. fst (exchange_invite E o' r s) = Refused n)"
proof -
  have "lb_invite (sv_state s) = None" if "lb_device (sv_state s) \<noteq> None"
    using lab_reach_inv [OF assms(2,1)] assms(3) that by (auto simp: lab_inv_def lab_good_def)
  then show ?thesis using assms(4)
    unfolding create_invite_def exchange_invite_def Let_def spent_def by (auto split: option.split)
qed

section \<open>A run: a new lab, an invite, an exchange\<close>

definition lab_url :: url where
  "lab_url = \<lparr>u_scheme = ''https'', u_opaque = [], u_has_user = False, u_host = ''zero'', u_hostname = ''zero'', u_port = [], u_path = [],
     u_escaped_path = [], u_raw_query = [], u_query = [], u_fragment = []\<rparr>"

definition lab_exchange_request :: exchange_request where
  "lab_exchange_request = \<lparr>xq_token = ''xjt_'', xq_device = ''dev-1'', xq_name = ''n'', xq_platform = ''linux'', xq_hostname = ''h'',
     xq_public_key = std_encode (replicate 32 3), xq_now = zero_time\<rparr>"

definition lab_directory :: file_info where
  "lab_directory = \<lparr>fi_dir = True, fi_link = False, fi_socket = False, fi_regular = False, fi_perm = 0x1C0, fi_uid = Some 0, fi_mtime = 0\<rparr>"

definition sample_lab :: lab_env where
  "sample_lab = \<lparr>le_place = \<lparr>lp_euid = 0, lp_mkdir = True, lp_dir = Inr lab_directory, lp_lock = Inl (Sentinel ErrNotExist),
       lp_open = True, lp_free = True\<rparr>, le_now = (\<lambda>_. \<lparr>nanos = 100 * second, utc = True\<rparr>), le_random = (\<lambda>_. Some []), le_secret = (\<lambda>_. Some (sample_secret 1)),
     le_save = (\<lambda>_. SaveOk), le_peer = (\<lambda>_. True), le_check = (\<lambda>_. \<lparr>ce_resolve = (\<lambda>_. True), ce_now1 = zero_time, ce_now2 = zero_time\<rparr>),
     le_cred = sample_cred_lib\<lparr>cl_sha256 := \<lambda>_. replicate 32 0\<rparr>, le_signed = sample_lib, le_public = (\<lambda>_. replicate 32 7),
     le_sign = (\<lambda>_ _. []), le_escape = (\<lambda>s. s), le_urls = (\<lambda>_. Some lab_url),
     le_token_request = (\<lambda>_. Some \<lparr>tq_network = ''net'', tq_device = [], tq_platform = [], tq_seconds = 60\<rparr>),
     le_exchange = (\<lambda>_. Some lab_exchange_request), le_nonce = (\<lambda>_. None), le_ack = (\<lambda>_. None)\<rparr>"

definition sample_options :: lab_options where
  "sample_options = \<lparr>lo_url = ''https://zero'', lo_admin = replicate 32 CHR ''a'', lo_seed = replicate 32 9, lo_network = ''net'',
     lo_cidr = ''10.9.0.0/16'', lo_address = ''10.9.0.2/32'', lo_gateway_key = std_encode (replicate 32 5), lo_gateway_host = ''gw'',
     lo_server_name = ''gw'', lo_vless = ''01234567-89ab-4cde-8f01-23456789abcd'', lo_port = 443\<rparr>"

definition lab_post :: "string \<Rightarrow> lab_request" where
  "lab_post path = \<lparr>lq_tls = True, lq_method = ''POST'', lq_path = ''/api/overlay/v1'' @ path, lq_authorization = [], lq_accept = [],
     lq_if_none_match = [], lq_query = [], lq_body = []\<rparr>"

definition lab_new :: server where
  "lab_new = (let st = fresh_lab (lab_binding sample_lab sample_options)
       (lab_signing_key sample_lab sample_options (trunc_second (to_utc (le_now sample_lab 0))))
     in \<lparr>sv_tick = 2, sv_state = st, sv_disk = st, sv_failed = False, sv_peers = []\<rparr>)"

definition lab_invited :: server where
  "lab_invited = snd (serve sample_lab sample_options (lab_post ''/join-tokens'') lab_new)"

definition lab_enrolled :: server where
  "lab_enrolled = snd (serve sample_lab sample_options (lab_post ''/join-tokens/exchange'') lab_invited)"

lemma hex_zeros: "hex_encode (replicate n 0) = replicate (n + n) CHR ''0''"
proof -
  have "hex_digit 0 = CHR ''0''" by code_simp
  then show ?thesis by (induction n) simp_all
qed

lemma sample_lab_hash: "lab_hash sample_lab x = replicate 64 CHR ''0''"
  by (simp add: lab_hash_def sample_lab_def hex_zeros)

lemma sample_digests: "digests sample_lab"
  by (simp add: digests_def sample_lab_def)

lemma sample_lab_sels:
  "le_now sample_lab i = \<lparr>nanos = 100 * second, utc = True\<rparr>" "le_save sample_lab i = SaveOk" "le_public sample_lab b = replicate 32 7"
  "le_random sample_lab i = Some []" "le_peer sample_lab i" "le_secret sample_lab i = Some (sample_secret 1)"
  "le_token_request sample_lab b = Some \<lparr>tq_network = ''net'', tq_device = [], tq_platform = [], tq_seconds = 60\<rparr>"
  "le_exchange sample_lab b = Some lab_exchange_request" "le_urls sample_lab x = Some lab_url"
  by (simp_all add: sample_lab_def)

lemma sample_lab_key: "n \<noteq> 0 \<Longrightarrow> lab_key (std_encode (replicate 32 n))"
proof -
  assume n: "n \<noteq> 0"
  have "std_encode (replicate 32 n) \<noteq> std_encode (replicate 32 0)"
  proof
    assume "std_encode (replicate 32 n) = std_encode (replicate 32 0)"
    then have "Some (replicate 32 n) = Some (replicate 32 0)" by (metis std_decode_encode)
    then show False using n by simp
  qed
  then show ?thesis by (simp add: lab_key_def)
qed

lemma sample_options_ok: "options_ok sample_lab sample_options"
proof -
  have "lab_uuid ''01234567-89ab-4cde-8f01-23456789abcd''"
    by (simp add: lab_uuid_def upt_rec is_hex_def hex_value_def is_digit_def code_def)
  then show ?thesis
    by (simp add: options_ok_def sample_lab_sels sample_options_def lab_url_def sample_lab_key)
       (simp add: lab_id_def eval_net is_masked_def is_lower_def)
qed

lemma sample_lab_keys: "keys_validate \<lparr>ks_keys = [lb_key (sv_state lab_new)], ks_etag = []\<rparr> = None"
  by (simp add: lab_new_def Let_def fresh_lab_def lab_signing_key_def sample_lab_hash keys_validate_iff key_ok_def eval_id
      sample_key_texts is_zero_def zero_time_def sample_lab_sels add_dur_def trunc_second_def durations list_all_iff)

lemma lab_new_opened: "open_lab sample_lab sample_options NoLabFile = Inr lab_new"
proof -
  have "place_error (le_place sample_lab) = None"
    by (simp add: place_error_def sample_lab_def lab_directory_def owned_by_def)
  then show ?thesis
    using sample_lab_keys by (simp add: open_lab_def load_lab_def sample_options_ok lab_new_def Let_def sample_lab_sels)
qed

lemma serve_posts:
  "serve sample_lab sample_options (lab_post ''/join-tokens'') s =
     (if sv_failed s then (Refused 503, s) else create_invite sample_lab sample_options (lab_post ''/join-tokens'') s)"
  "serve sample_lab sample_options (lab_post ''/join-tokens/exchange'') s =
     (if sv_failed s then (Refused 503, s) else exchange_invite sample_lab sample_options (lab_post ''/join-tokens/exchange'') s)"
  by (simp_all add: serve_def lab_post_def has_prefix_def trim_prefix_def)

lemma lab_new_sels:
  "sv_failed lab_new = False" "lb_device (sv_state lab_new) = None" "lb_pending (sv_state lab_new) = []"
  "sv_peers lab_new = []"
  by (simp_all add: lab_new_def Let_def fresh_lab_def)

lemma sample_option_sels:
  "lo_network sample_options = ''net''" "lo_address sample_options = ''10.9.0.2/32''" "lo_url sample_options = ''https://zero''"
  by (simp_all add: sample_options_def)

lemma lab_post_body: "lq_body (lab_post path) = []"
  by (simp add: lab_post_def)

lemmas lab_run = serve_posts sample_lab_hash decode_body_def sample_lab_sels sample_option_sels lab_post_body lab_token_def
  committed_def commit_lab_def save_lab_def lab_now_def trunc_second_def add_dur_def second_def after_def

lemma lab_invited_run:
  "\<not> refusal (fst (serve sample_lab sample_options (lab_post ''/join-tokens'') lab_new))"
  "sv_failed lab_invited = False" "lb_device (sv_state lab_invited) = None" "lb_pending (sv_state lab_invited) = []"
  "sv_peers lab_invited = []"
  "lb_invite (sv_state lab_invited) = Some \<lparr>iv_hash = replicate 64 CHR ''0'', iv_id = ''join_'' @ replicate 24 CHR ''0'',
     iv_device = [], iv_platform = [], iv_expires = \<lparr>nanos = 160000000000, utc = True\<rparr>\<rparr>"
  by (simp_all add: lab_invited_def lab_run lab_new_sels create_invite_def admin_allowed_def invite_request_ok_def Let_def)

lemma lab_exchange_fits: "exchange_allowed \<lparr>iv_hash = h, iv_id = i, iv_device = [], iv_platform = [], iv_expires = t\<rparr> lab_exchange_request"
  by (simp add: exchange_allowed_def lab_exchange_request_def sample_lab_key lab_platform_def lab_id_def is_lower_def is_digit_def code_def)

lemma lab_new_reach: "lab_reach sample_lab sample_options lab_new"
  by (rule lab_reach.fresh [OF lab_new_opened])

lemma lab_invited_reach: "lab_reach sample_lab sample_options lab_invited"
  unfolding lab_invited_def by (rule lab_reach.request [OF lab_new_reach prod.collapse [symmetric]])

lemma lab_enrolled_reach: "lab_reach sample_lab sample_options lab_enrolled"
  unfolding lab_enrolled_def by (rule lab_reach.request [OF lab_invited_reach prod.collapse [symmetric]])

lemma new_session_sample:
  "\<exists>t. fst (new_session sample_lab s) = Some t" "sv_peers (snd (new_session sample_lab s)) = sv_peers s"
  "lb_device (sv_state (snd (new_session sample_lab s))) = lb_device (sv_state s)"
  "sv_failed (snd (new_session sample_lab s)) = sv_failed s"
proof -
  obtain t u where n: "new_session sample_lab s = (t, u)" by fastforce
  have "\<exists>x. t = Some x"
    using n by (auto simp: new_session_def lab_token_def sample_lab_sels Let_def split: prod.splits)
  then show "\<exists>t. fst (new_session sample_lab s) = Some t" by (simp add: n)
  show "sv_peers (snd (new_session sample_lab s)) = sv_peers s" "sv_failed (snd (new_session sample_lab s)) = sv_failed s"
    "lb_device (sv_state (snd (new_session sample_lab s))) = lb_device (sv_state s)"
    using n by (auto elim: new_session_cases)
qed

lemma finish_exchange_sample:
  "finish_exchange sample_lab o' q c s =
     (let s1 = ticked (s\<lparr>sv_peers := sv_peers s @ [(xq_public_key q, lo_address o')]\<rparr>);
          n = new_session sample_lab (ticked (s1\<lparr>sv_state := enrolled sample_lab o' q c (lab_now sample_lab s1) (sv_state s1)\<rparr>))
      in (Exchanged (exchange_answer o' q c (lab_now sample_lab s1) (the (fst n)) (lb_key (sv_state (snd n)))),
          ticked ((snd n)\<lparr>sv_disk := sv_state (snd n)\<rparr>)))"
proof -
  let ?s1 = "ticked (s\<lparr>sv_peers := sv_peers s @ [(xq_public_key q, lo_address o')]\<rparr>)"
  obtain t u where n: "new_session sample_lab (ticked (?s1\<lparr>sv_state := enrolled sample_lab o' q c (lab_now sample_lab ?s1) (sv_state ?s1)\<rparr>)) = (Some t, u)"
    using new_session_sample(1) by (metis prod.collapse)
  show ?thesis
    unfolding finish_exchange_def Let_def n by (simp add: n sample_lab_sels committed_def commit_lab_def save_lab_def)
qed

lemma lab_enrolled_run:
  "\<not> refusal (fst (serve sample_lab sample_options (lab_post ''/join-tokens/exchange'') lab_invited))"
  "sv_peers lab_enrolled = [(std_encode (replicate 32 3), ''10.9.0.2/32'')]" "lb_device (sv_state lab_enrolled) \<noteq> None"
  "sv_failed lab_enrolled = False"
  by (simp_all add: lab_enrolled_def lab_run lab_invited_run exchange_invite_def finish_exchange_sample lab_exchange_fits Let_def
      new_session_sample enrolled_def)
     (simp add: lab_exchange_request_def)

lemma lab_answers_survive_witness:
  "\<exists>s''. open_lab sample_lab sample_options (LabFile (sv_disk lab_enrolled)) = Inr s'' \<and> sv_state s'' = sv_state lab_enrolled \<and>
     \<not> sv_failed s''"
  unfolding lab_enrolled_def
  by (rule lab_answers_survive [OF sample_digests lab_invited_reach prod.collapse [symmetric] lab_enrolled_run(1)])



lemma lab_retry_refused_witness:
  "(\<exists>n. fst (create_invite sample_lab sample_options (lab_post ''/join-tokens'') lab_enrolled) = Refused n) \<and>
   (\<exists>n. fst (exchange_invite sample_lab sample_options (lab_post ''/join-tokens'') lab_enrolled) = Refused n)"
  using lab_retry_refused [OF sample_digests lab_enrolled_reach, of "lab_post ''/join-tokens''"] lab_enrolled_run
  by (simp add: spent_def)

end
