(* ===== verification/Command_Line.thy ===== *)
theory Command_Line
  imports Register Admin_Client Bootstrap Sync_Loop
begin

text \<open>
  The command line, \<open>cmd/xconnect/main.go\<close>: the commands, their flags as the package \<open>flag\<close> parses
  them, and what \<open>join\<close> and \<open>sync\<close> make of them before a use case runs. Files, environment
  variables and the parsers of numbers and durations are parameters.
\<close>

section \<open>Flags\<close>

text \<open>A flag without a value of its own, or one whose value a parser accepts.\<close>

datatype flag_kind = Switch | Valued "string \<Rightarrow> bool"

type_synonym flag_set = "string \<Rightarrow> flag_kind option"

definition parse_bool_ok :: "string \<Rightarrow> bool" where
  "parse_bool_ok s \<longleftrightarrow>
     s \<in> {''1'', ''t'', ''T'', ''TRUE'', ''true'', ''True'', ''0'', ''f'', ''F'', ''FALSE'', ''false'', ''False''}"

text \<open>\<open>name=value\<close> or \<open>name\<close>\<close>

definition flag_text :: "string \<Rightarrow> string \<times> string option" where
  "flag_text body =
     (takeWhile (\<lambda>c. c \<noteq> CHR ''='') body,
      case dropWhile (\<lambda>c. c \<noteq> CHR ''='') body of [] \<Rightarrow> None | _ # v \<Rightarrow> Some v)"

definition flag_body :: "string \<Rightarrow> string" where
  "flag_body s = drop (if s ! 1 = CHR ''-'' then 2 else 1) s"

definition bad_flag :: "string \<Rightarrow> bool" where
  "bad_flag body \<longleftrightarrow> body = [] \<or> hd body = CHR ''-'' \<or> hd body = CHR ''=''"

definition with_flag :: "string \<Rightarrow> string \<Rightarrow> ((string \<times> string) list \<times> string list) option \<Rightarrow> ((string \<times> string) list \<times> string list) option" where
  "with_flag n v r = map_option (\<lambda>(set_flags, rest). ((n, v) # set_flags, rest)) r"

text \<open>\<open>FlagSet.Parse\<close>: the flags in the order they are set, and the arguments after them.\<close>

fun parse_flags :: "flag_set \<Rightarrow> string list \<Rightarrow> ((string \<times> string) list \<times> string list) option" where
  "parse_flags F [] = Some ([], [])"
| "parse_flags F [s] =
     (if length s < 2 \<or> hd s \<noteq> CHR ''-'' then Some ([], [s])
      else if s = ''--'' then Some ([], [])
      else if bad_flag (flag_body s) then None
      else case (flag_text (flag_body s), F (fst (flag_text (flag_body s)))) of
          ((n, v), Some Switch) \<Rightarrow>
            (let t = (case v of None \<Rightarrow> ''true'' | Some t \<Rightarrow> t) in if parse_bool_ok t then Some ([(n, t)], []) else None)
        | ((n, Some v), Some (Valued ok)) \<Rightarrow> if ok v then Some ([(n, v)], []) else None
        | _ \<Rightarrow> None)"
| "parse_flags F (s # a # rest) =
     (if length s < 2 \<or> hd s \<noteq> CHR ''-'' then Some ([], s # a # rest)
      else if s = ''--'' then Some ([], a # rest)
      else if bad_flag (flag_body s) then None
      else case (flag_text (flag_body s), F (fst (flag_text (flag_body s)))) of
          ((n, v), Some Switch) \<Rightarrow>
            (let t = (case v of None \<Rightarrow> ''true'' | Some t \<Rightarrow> t) in
             if parse_bool_ok t then with_flag n t (parse_flags F (a # rest)) else None)
        | ((n, Some v), Some (Valued ok)) \<Rightarrow> if ok v then with_flag n v (parse_flags F (a # rest)) else None
        | ((n, None), Some (Valued ok)) \<Rightarrow> if ok a then with_flag n a (parse_flags F rest) else None
        | _ \<Rightarrow> None)"

text \<open>The last setting of a flag counts.\<close>

definition flag_value :: "(string \<times> string) list \<Rightarrow> string \<Rightarrow> string \<Rightarrow> string" where
  "flag_value fs n given = (case map_of (rev fs) n of None \<Rightarrow> given | Some v \<Rightarrow> v)"

definition flag_on :: "(string \<times> string) list \<Rightarrow> string \<Rightarrow> bool" where
  "flag_on fs n \<longleftrightarrow> flag_value fs n ''false'' \<in> {''1'', ''t'', ''T'', ''TRUE'', ''true'', ''True''}"

definition flags_of :: "string list \<Rightarrow> string list \<Rightarrow> flag_set" where
  "flags_of texts switches n =
     (if n \<in> set switches then Some Switch else if n \<in> set texts then Some (Valued (\<lambda>_. True)) else None)"

section \<open>What a command asks\<close>

record command_env =
  cm_home :: "string option"
  cm_goos :: string
  cm_hostname :: string
  cm_device_id :: string
  cm_getenv :: "string \<Rightarrow> string"
  cm_open :: "string \<Rightarrow> error option"
  cm_read :: "string \<Rightarrow> error + byte list"
  cm_urls :: url_parser
  cm_duration :: "string \<Rightarrow> int option"
  cm_int :: "string \<Rightarrow> int option"
  cm_uint :: "string \<Rightarrow> u64 option"
  cm_bootstrap :: "bootstrap_options \<Rightarrow> error option"

definition default_state_directory :: "command_env \<Rightarrow> string" where
  "default_state_directory E = (case cm_home E of None \<Rightarrow> ''.xconnect-one'' | Some h \<Rightarrow> join_path [h, ''.xconnect-one''])"

definition accounts_server :: string where
  "accounts_server = ''https://accounts.svc.plus''"

section \<open>Commands\<close>

datatype platform_runtime = LinuxDesktop | MacDesktop | WindowsDesktop | ProtectedTunnelHost | NoRuntime

definition platform_runtime_of :: "string \<Rightarrow> platform_runtime" where
  "platform_runtime_of goos =
     (if goos = ''linux'' then LinuxDesktop else if goos = ''darwin'' then MacDesktop else if goos = ''windows'' then WindowsDesktop
      else if goos = ''ios'' \<or> goos = ''android'' then ProtectedTunnelHost else NoRuntime)"

definition commands :: "string list" where
  "commands = [''path-manager'', ''register'', ''join'', ''sync'', ''up'', ''down'', ''leave'', ''status'', ''diagnose'', ''runtime'',
     ''credential'', ''admin'', ''policy'']"

definition dispatch :: "string list \<Rightarrow> error + string \<times> string list" where
  "dispatch args =
     (case args of
        [] \<Rightarrow> Inl (fault CodeInvalidInput ''expected register, join, sync, up, down, leave, status, diagnose, runtime, credential, admin, or policy'')
      | c # rest \<Rightarrow> if c \<in> set commands then Inr (c, rest) else Inl (fault CodeInvalidInput ''unknown command''))"

text \<open>The commands that take the state directory and at most one switch.\<close>

definition state_command :: "command_env \<Rightarrow> string \<Rightarrow> string list \<Rightarrow> string list \<Rightarrow> error + string \<times> (string \<times> string) list" where
  "state_command E op switches args =
     (case parse_flags (flags_of [''state-dir''] switches) args of
        Some (fs, []) \<Rightarrow> Inr (flag_value fs ''state-dir'' (default_state_directory E), fs)
      | _ \<Rightarrow> Inl (fault CodeInvalidInput op))"

definition leave_command :: "command_env \<Rightarrow> string list \<Rightarrow> error + string \<times> bool" where
  "leave_command E args =
     bindR (state_command E ''parse leave arguments'' [''local-only''] args) (\<lambda>(dir, fs). Inr (dir, flag_on fs ''local-only''))"

definition sync_flags :: "command_env \<Rightarrow> flag_set" where
  "sync_flags E n =
     (if n = ''interval'' then Some (Valued (\<lambda>v. cm_duration E v \<noteq> None))
      else flags_of [''state-dir'', ''runtime-release-base-url''] [''signed-config-v2'', ''bootstrap'', ''watch''] n)"

record sync_command_result =
  sy_state :: string
  sy_v2 :: bool
  sy_watch :: "int option"
  sy_bootstrap :: "bootstrap_options option"

definition bootstrap_asked :: "command_env \<Rightarrow> string \<Rightarrow> (string \<times> string) list \<Rightarrow> bootstrap_options option" where
  "bootstrap_asked E dir fs =
     (if flag_on fs ''bootstrap''
      then Some \<lparr>bo_state = dir, bo_base = flag_value fs ''runtime-release-base-url'' (cm_getenv E ''XCONNECT_RUNTIME_RELEASE_BASE_URL''),
             bo_packages = True\<rparr>
      else None)"

definition sync_command :: "command_env \<Rightarrow> string list \<Rightarrow> error + sync_command_result" where
  "sync_command E args =
     (case parse_flags (sync_flags E) args of
        Some (fs, []) \<Rightarrow>
          (let dir = flag_value fs ''state-dir'' (default_state_directory E);
               interval = (case map_of (rev fs) ''interval'' of None \<Rightarrow> DefaultSyncInterval | Some v \<Rightarrow> the (cm_duration E v));
               watch = flag_on fs ''watch''
           in checkR (if watch then validate_sync_interval interval else None)
                (Inr \<lparr>sy_state = dir, sy_v2 = flag_on fs ''signed-config-v2'', sy_watch = (if watch then Some interval else None),
                   sy_bootstrap = bootstrap_asked E dir fs\<rparr>))
      | _ \<Rightarrow> Inl (fault CodeInvalidInput ''parse sync arguments''))"

section \<open>Join\<close>

definition read_token :: "command_env \<Rightarrow> string \<Rightarrow> error + string" where
  "read_token E path =
     (if trim_space path = [] then Inr (trim_space (cm_getenv E ''XCONNECT_TOKEN''))
      else case cm_open E path of
          Some e \<Rightarrow> Inl (fault_cause CodeAuthenticationFailed ''read access token'' e)
        | None \<Rightarrow>
            (case cm_read E path of
               Inl e \<Rightarrow> Inl (fault_cause CodeAuthenticationFailed ''read access token'' e)
             | Inr raw \<Rightarrow> Inr (trim_space (string_of (take (2 ^ 20) raw)))))"

definition read_join_invite :: "command_env \<Rightarrow> string \<Rightarrow> error + string" where
  "read_join_invite E path =
     (case cm_open E path of
        Some e \<Rightarrow> Inl (fault_cause CodeJoinInviteInvalid ''read join invite'' e)
      | None \<Rightarrow>
          (case cm_read E path of
             Inl e \<Rightarrow> Inl (fault_cause CodeJoinInviteInvalid ''read join invite'' e)
           | Inr raw \<Rightarrow>
               let v = trim_space (string_of (take (16 * 2 ^ 10) raw)) in
               if v = [] then Inl (fault CodeJoinInviteInvalid ''read join invite'') else Inr v))"

record join_target =
  jg_controller :: string
  jg_network :: string
  jg_node :: string
  jg_token :: string

definition resolve_join_target :: "url_parser \<Rightarrow> string \<Rightarrow> string \<Rightarrow> bool \<Rightarrow> error + join_target" where
  "resolve_join_target U given fallback insecure =
     (if has_prefix given ''xconnect:'' then
        bindR (parse_invite U given insecure) (\<lambda>t. Inr \<lparr>jg_controller = tg_controller t, jg_network = [], jg_node = [], jg_token = tg_join_token t\<rparr>)
      else let v = trim_space given in
        if v = [] then Inr \<lparr>jg_controller = trim_right_slash (trim_space fallback), jg_network = [], jg_node = [], jg_token = []\<rparr>
        else case U v of
            None \<Rightarrow> Inl (fault CodeInvalidInput ''parse join target'')
          | Some p \<Rightarrow>
              if list_ex (\<lambda>k. k \<in> fst ` set (u_query p)) [''token'', ''access_token'', ''refresh_token'', ''private_key'']
              then Inl (fault CodeInvalidInput ''parse invite URL'')
              else if u_scheme p \<noteq> ''http'' \<and> u_scheme p \<noteq> ''https'' then Inl (fault CodeInvalidInput ''parse join target'')
              else if u_raw_query p \<noteq> [] then Inl (fault CodeInvalidInput ''parse join target'')
              else Inr \<lparr>jg_controller = trim_right_slash v, jg_network = [], jg_node = [], jg_token = []\<rparr>)"

definition move_leading_target :: "string list \<Rightarrow> string list" where
  "move_leading_target args =
     (case args of [] \<Rightarrow> [] | a # rest \<Rightarrow> if has_prefix a ''-'' then args else rest @ [a])"

definition join_flags :: flag_set where
  "join_flags = flags_of [''server'', ''state-dir'', ''device-id'', ''name'', ''network-id'', ''node-id'', ''config-contract'',
     ''runtime-release-base-url'', ''invite-file'', ''token-file''] [''bootstrap'', ''allow-insecure-localhost'']"

text \<open>The argument that names where to join: given, or read from a file, but not both.\<close>

definition join_argument :: "command_env \<Rightarrow> (string \<times> string) list \<Rightarrow> string list \<Rightarrow> error + string" where
  "join_argument E fs rest =
     (let given = (case rest of [] \<Rightarrow> [] | v # _ \<Rightarrow> v); file = flag_value fs ''invite-file'' [] in
      if length rest > 1 then Inl (fault CodeInvalidInput ''parse join target'')
      else if trim_space file = [] then Inr given
      else if given \<noteq> [] then Inl (fault CodeInvalidInput ''join accepts either an invite argument or --invite-file'')
      else read_join_invite E file)"

definition join_contract :: "(string \<times> string) list \<Rightarrow> join_target \<Rightarrow> error + string" where
  "join_contract fs t =
     bindR (parse_config_contract (flag_value fs ''config-contract'' ''auto'')) (\<lambda>c.
       if jg_token t = [] then Inr c
       else if c = ''legacy'' then Inl (fault CodeConfigDowngradeBlocked ''join invite requires signed config'') else Inr ''signed'')"

record join_call =
  jn_client :: client
  jn_contract :: string
  jn_state :: string
  jn_request :: join_request

definition or_target :: "string \<Rightarrow> string \<Rightarrow> string" where
  "or_target given of_target = (if given = [] then of_target else given)"

definition join_request_of_flags :: "command_env \<Rightarrow> (string \<times> string) list \<Rightarrow> join_target \<Rightarrow> join_request" where
  "join_request_of_flags E fs t =
     \<lparr>jq_server = jg_controller t, jq_device = flag_value fs ''device-id'' (cm_device_id E), jq_device_name = flag_value fs ''name'' [],
      jq_platform = cm_goos E, jq_hostname = cm_hostname E, jq_network = or_target (flag_value fs ''network-id'' []) (jg_network t),
      jq_node = or_target (flag_value fs ''node-id'' []) (jg_node t), jq_token = jg_token t\<rparr>"

definition join_command :: "command_env \<Rightarrow> string list \<Rightarrow> error + join_call" where
  "join_command E args =
     (case parse_flags join_flags (move_leading_target args) of
        None \<Rightarrow> Inl (fault CodeInvalidInput ''parse join arguments'')
      | Some (fs, rest) \<Rightarrow>
          bindR (join_argument E fs rest) (\<lambda>given.
          bindR (resolve_join_target (cm_urls E) given (flag_value fs ''server'' accounts_server) (flag_on fs ''allow-insecure-localhost'')) (\<lambda>t.
            let dir = flag_value fs ''state-dir'' (default_state_directory E) in
            checkR (case bootstrap_asked E dir fs of None \<Rightarrow> None | Some opts \<Rightarrow> cm_bootstrap E opts)
              (bindR (if jg_token t = [] then read_token E (flag_value fs ''token-file'' []) else Inr []) (\<lambda>token.
               bindR (join_contract fs t) (\<lambda>contract.
               bindR (new_client (cm_urls E) (jg_controller t) token) (\<lambda>client.
                 Inr \<lparr>jn_client = client, jn_contract = contract, jn_state = dir, jn_request = join_request_of_flags E fs t\<rparr>)))))))"

section \<open>The other commands\<close>

text \<open>A state directory that follows the word \<open>bootstrap\<close>, \<open>rotate\<close> or \<open>migrate-to-protected\<close>.\<close>

definition runtime_command :: "command_env \<Rightarrow> string list \<Rightarrow> error + bootstrap_options" where
  "runtime_command E args =
     (case args of
        [] \<Rightarrow> Inl (fault CodeInvalidInput ''expected runtime bootstrap'')
      | a # rest \<Rightarrow>
          if a \<noteq> ''bootstrap'' then Inl (fault CodeInvalidInput ''expected runtime bootstrap'')
          else case parse_flags (flags_of [''state-dir'', ''release-base-url''] [''install-system-packages'']) rest of
              Some (fs, []) \<Rightarrow> Inr \<lparr>bo_state = flag_value fs ''state-dir'' (default_state_directory E),
                bo_base = flag_value fs ''release-base-url'' (cm_getenv E ''XCONNECT_RUNTIME_RELEASE_BASE_URL''),
                bo_packages = (map_of (rev fs) ''install-system-packages'' = None \<or> flag_on fs ''install-system-packages'')\<rparr>
            | _ \<Rightarrow> Inl (fault CodeInvalidInput ''parse runtime bootstrap arguments''))"

datatype credential_action = Rotate | MigrateToProtected

definition migrate_command :: "command_env \<Rightarrow> string list \<Rightarrow> error + credential_action \<times> string" where
  "migrate_command E args =
     bindR (state_command E ''parse protected credential migration arguments'' [] args) (\<lambda>(dir, fs). Inr (MigrateToProtected, dir))"

definition credential_command :: "command_env \<Rightarrow> string list \<Rightarrow> error + credential_action \<times> string" where
  "credential_command E args =
     (case args of
        [] \<Rightarrow> Inl (fault CodeInvalidInput ''expected credential rotate or migrate-to-protected'')
      | a # rest \<Rightarrow>
          if a = ''migrate-to-protected'' then migrate_command E rest
          else if a \<noteq> ''rotate'' then Inl (fault CodeInvalidInput ''expected credential rotate or migrate-to-protected'')
          else bindR (state_command E ''parse credential rotate arguments'' [] rest) (\<lambda>(dir, fs). Inr (Rotate, dir)))"

text \<open>\<open>register\<close>: the client without an account token, the state directory and the request.\<close>

definition register_command :: "command_env \<Rightarrow> string list \<Rightarrow> error + client \<times> string \<times> registration_request" where
  "register_command E args =
     (case parse_flags (flags_of [''controller'', ''network'', ''state-dir'', ''device-id'', ''name''] []) args of
        Some (fs, []) \<Rightarrow>
          (let controller = flag_value fs ''controller'' []; network = flag_value fs ''network'' [] in
           if trim_space controller = [] \<or> trim_space network = []
           then Inl (fault CodeInvalidInput ''register requires controller and network'')
           else bindR (new_client (cm_urls E) controller []) (\<lambda>c.
             Inr (c, flag_value fs ''state-dir'' (default_state_directory E),
               \<lparr>rr_controller = controller, rr_device = flag_value fs ''device-id'' (cm_device_id E),
                rr_device_name = flag_value fs ''name'' [], rr_network = network, rr_platform = cm_goos E, rr_hostname = cm_hostname E\<rparr>)))
      | _ \<Rightarrow> Inl (fault CodeInvalidInput ''parse register arguments''))"

definition admin_flags :: "command_env \<Rightarrow> flag_set" where
  "admin_flags E n =
     (if n = ''expires-in'' then Some (Valued (\<lambda>v. cm_int E v \<noteq> None))
      else flags_of [''server'', ''token-file'', ''network-id'', ''device-id'', ''platform'', ''output''] [] n)"

text \<open>\<open>admin invite create\<close>: the client, the request, and whether only the URI is printed.\<close>

definition admin_command :: "command_env \<Rightarrow> string list \<Rightarrow> error + client \<times> token_request \<times> bool" where
  "admin_command E args =
     (if take 2 args \<noteq> [''invite'', ''create''] then Inl (fault CodeInvalidInput ''expected admin invite create'')
      else case parse_flags (admin_flags E) (drop 2 args) of
          Some (fs, []) \<Rightarrow>
            (let output = flag_value fs ''output'' ''json'' in
             if output \<noteq> ''json'' \<and> output \<noteq> ''uri'' then Inl (fault CodeInvalidInput ''select invite output'')
             else bindR (read_token E (flag_value fs ''token-file'' [])) (\<lambda>token.
               bindR (new_client (cm_urls E) (flag_value fs ''server'' accounts_server) token) (\<lambda>c.
                 Inr (c, \<lparr>tq_network = flag_value fs ''network-id'' [], tq_device = flag_value fs ''device-id'' [],
                    tq_platform = flag_value fs ''platform'' [],
                    tq_seconds = (case map_of (rev fs) ''expires-in'' of None \<Rightarrow> 900 | Some v \<Rightarrow> the (cm_int E v))\<rparr>,
                   output = ''uri''))))
        | _ \<Rightarrow> Inl (fault CodeInvalidInput ''parse invite create arguments''))"

definition policy_flags :: "command_env \<Rightarrow> flag_set" where
  "policy_flags E n =
     (if n = ''revision'' then Some (Valued (\<lambda>v. cm_uint E v \<noteq> None))
      else if n = ''port'' then Some (Valued (\<lambda>v. cm_int E v \<noteq> None))
      else flags_of [''server'', ''token-file'', ''network-id'', ''source'', ''destination'', ''protocol''] [] n)"

definition policy_command :: "command_env \<Rightarrow> string list \<Rightarrow> error + client \<times> u64 \<times> policy_question" where
  "policy_command E args =
     (if take 1 args \<noteq> [''explain''] then Inl (fault CodeInvalidInput ''expected policy explain'')
      else case parse_flags (policy_flags E) (drop 1 args) of
          Some (fs, []) \<Rightarrow>
            bindR (read_token E (flag_value fs ''token-file'' [])) (\<lambda>token.
            bindR (new_client (cm_urls E) (flag_value fs ''server'' accounts_server) token) (\<lambda>c.
              Inr (c, case map_of (rev fs) ''revision'' of None \<Rightarrow> 0 | Some v \<Rightarrow> the (cm_uint E v),
                \<lparr>po_network = flag_value fs ''network-id'' [], po_source = flag_value fs ''source'' [],
                 po_destination = flag_value fs ''destination'' [], po_protocol = flag_value fs ''protocol'' [],
                 po_port = (case map_of (rev fs) ''port'' of None \<Rightarrow> 0 | Some v \<Rightarrow> the (cm_int E v))\<rparr>)))
        | _ \<Rightarrow> Inl (fault CodeInvalidInput ''parse policy explain arguments''))"

section \<open>The client of a stored credential\<close>

text \<open>
  \<open>sync\<close>, \<open>leave\<close> and \<open>credential rotate\<close> talk to the controller of the credential that was loaded,
  without an account token. A second argument of \<open>sync\<close> is the outcome of its bootstrap.
\<close>

definition credential_client :: "url_parser \<Rightarrow> string \<Rightarrow> error + cred_record \<Rightarrow> error option \<Rightarrow> error + client" where
  "credential_client U op loaded provisioned =
     (case loaded of
        Inl e \<Rightarrow> if errors_is e CredentialNotFound then Inl (fault CodeCredentialMissing op) else Inl e
      | Inr rec \<Rightarrow> checkR provisioned (new_client U (cr_controller rec) []))"

definition leave_client :: "url_parser \<Rightarrow> bool \<Rightarrow> error + cred_record \<Rightarrow> error + client option" where
  "leave_client U only loaded =
     (if only then Inr None
      else case loaded of
          Inr rec \<Rightarrow> bindR (new_client U (cr_controller rec) []) (\<lambda>c. Inr (Some c))
        | Inl e \<Rightarrow> if errors_is e CredentialNotFound then Inr None else Inl e)"

text \<open>The first synchronisation of \<open>sync --watch\<close> ends the command for these errors, others are a warning.\<close>

definition first_sync_stops :: "error \<Rightarrow> bool" where
  "first_sync_stops e \<longleftrightarrow> fault_code_of e \<in>
     {CodeAuthenticationFailed, CodeAccessDenied, CodeCredentialExpired, CodeCredentialMissing, CodeNotJoined}"

section \<open>What they guarantee\<close>

text \<open>
  An invite is joined under the signed contract only, and the access
  token of the account is not handed to that controller.
\<close>

theorem join_invite_stays_signed:
  assumes "join_command E args = Inr c" "jq_token (jn_request c) \<noteq> []"
  shows "jn_contract c = ''signed'' \<and> ct_token (jn_client c) = []"
  using assms
  by (auto simp: join_command_def join_contract_def join_request_of_flags_def new_client_def Let_def trim_space_Nil
      split: option.splits prod.splits if_splits)

text \<open>The errors that end the daemon but not its first synchronisation.\<close>

lemma first_sync_misses_invalid: "is_fatal e \<and> \<not> first_sync_stops e \<longleftrightarrow> fault_code_of e = CodeCredentialInvalid"
  unfolding is_fatal_def first_sync_stops_def by auto

end
