(* ===== verification/App_Bridge.thy ===== *)
theory App_Bridge
  imports Command_Line
begin

text \<open>
  The bridge for applications, \<open>cmd/xconnect/app_bridge.go\<close>: requests and answers are lines of JSON,
  each request becomes one command line. The JSON decoder is a parameter, for each type that is
  read; so is the runner of commands, which changes a state of its own.
\<close>

section \<open>Data\<close>

record bridge_request =
  bq_version :: string
  bq_id :: string
  bq_method :: string
  bq_params :: "byte list"

text \<open>\<open>bridge_result\<close>: the fixed list of capabilities, or what a command has written.\<close>

datatype bridge_result = Capabilities | Output "byte list"

record bridge_response =
  bs_version :: string
  bs_id :: string
  bs_result :: "bridge_result option"
  bs_error :: "string option"

record bridge_join =
  bj_state :: string
  bj_invite :: string
  bj_device :: string
  bj_name :: string
  bj_network :: string
  bj_node :: string

record bridge_lib =
  bl_request :: "byte list \<Rightarrow> bridge_request option"
  bl_object :: "byte list \<Rightarrow> bool"
  bl_versions :: "byte list \<Rightarrow> string list option"
  bl_join :: "byte list \<Rightarrow> bridge_join option"
  bl_state :: "byte list \<Rightarrow> string option"
  bl_sync :: "byte list \<Rightarrow> (string \<times> bool) option"
  bl_leave :: "byte list \<Rightarrow> (string \<times> bool) option"
  bl_trim :: "byte list \<Rightarrow> byte list"
  bl_urls :: url_parser

section \<open>Texts\<close>

definition optional_text_ok :: "string \<Rightarrow> bool" where
  "optional_text_ok v \<longleftrightarrow> length v \<le> 4096 \<and> list_all (\<lambda>c. c \<noteq> CHR 0x0D \<and> c \<noteq> CHR 0x0A \<and> c \<noteq> CHR 0x00) v"

definition required_text_ok :: "string \<Rightarrow> bool" where
  "required_text_ok v \<longleftrightarrow> optional_text_ok v \<and> trim_space v \<noteq> []"

definition state_dir_ok :: "string \<Rightarrow> bool" where
  "state_dir_ok v \<longleftrightarrow> required_text_ok v \<and> is_abs v"

definition bridge_code_ok :: "string \<Rightarrow> bool" where
  "bridge_code_ok v \<longleftrightarrow> v \<noteq> [] \<and> length v \<le> 80 \<and> list_all (\<lambda>c. is_lower c \<or> is_digit c \<or> c = CHR ''_'') v"

section \<open>Command lines\<close>

definition optional_flag :: "string \<Rightarrow> string \<Rightarrow> string list" where
  "optional_flag name v = (if v = [] then [] else [''--'' @ name, v])"

definition join_args :: "bridge_lib \<Rightarrow> bridge_join \<Rightarrow> string list option" where
  "join_args L p =
     (if \<not> state_dir_ok (bj_state p) \<or> \<not> required_text_ok (bj_invite p) \<or> \<not> optional_text_ok (bj_device p) \<or>
         \<not> optional_text_ok (bj_name p) \<or> \<not> optional_text_ok (bj_network p) \<or> \<not> optional_text_ok (bj_node p)
      then None
      else case parse_invite (bl_urls L) (bj_invite p) False of
          Inl e \<Rightarrow> None
        | Inr t \<Rightarrow> Some ([''join'', ''--state-dir'', bj_state p] @ optional_flag ''device-id'' (bj_device p) @
            optional_flag ''name'' (bj_name p) @ optional_flag ''network-id'' (bj_network p) @
            optional_flag ''node-id'' (bj_node p) @ [bj_invite p]))"

definition state_args :: "string \<Rightarrow> string \<Rightarrow> bool \<Rightarrow> string \<Rightarrow> string list option" where
  "state_args command_name switch on dir =
     (if \<not> state_dir_ok dir then None
      else Some ([command_name, ''--state-dir'', dir] @ (if on then [''--'' @ switch] else [])))"

definition or_invalid :: "string list option \<Rightarrow> string + string list" where
  "or_invalid r = (case r of None \<Rightarrow> Inl ''bridge_invalid_params'' | Some args \<Rightarrow> Inr args)"

definition bridge_args :: "bridge_lib \<Rightarrow> string \<Rightarrow> byte list \<Rightarrow> string + string list" where
  "bridge_args L m raw =
     (if m = ''join'' then or_invalid (Option.bind (bl_join L raw) (join_args L))
      else if m = ''sync'' then or_invalid (Option.bind (bl_sync L raw) (\<lambda>(dir, v2). state_args ''sync'' ''signed-config-v2'' v2 dir))
      else if m = ''status'' \<or> m = ''diagnose'' then or_invalid (Option.bind (bl_state L raw) (state_args m [] False))
      else if m = ''leave'' then or_invalid (Option.bind (bl_leave L raw) (\<lambda>(dir, local). state_args ''leave'' ''local-only'' local dir))
      else Inl ''bridge_unsupported_method'')"

section \<open>Answers\<close>

definition bridge_failure :: "string \<Rightarrow> string \<Rightarrow> bridge_response" where
  "bridge_failure i c =
     \<lparr>bs_version = ''1'', bs_id = i, bs_result = None,
      bs_error = Some (if bridge_code_ok c then c else code_text CodeInvalidResponse)\<rparr>"

definition bridge_success :: "string \<Rightarrow> bridge_result \<Rightarrow> bridge_response" where
  "bridge_success i r = \<lparr>bs_version = ''1'', bs_id = i, bs_result = Some r, bs_error = None\<rparr>"

definition request_id_ok :: "string \<Rightarrow> bool" where
  "request_id_ok i \<longleftrightarrow> i \<noteq> [] \<and> length i \<le> 128 \<and> list_all (\<lambda>c. c \<noteq> CHR 0x0D \<and> c \<noteq> CHR 0x0A \<and> c \<noteq> CHR 0x00) i"

definition decode_bridge_request :: "bridge_lib \<Rightarrow> byte list \<Rightarrow> bridge_request option" where
  "decode_bridge_request L raw =
     (case bl_request L raw of
        None \<Rightarrow> None
      | Some q \<Rightarrow> if bq_params q = [] \<or> \<not> bl_object L (bq_params q) then None else Some q)"

definition decode_bridge_result :: "bridge_lib \<Rightarrow> byte list \<Rightarrow> byte list option" where
  "decode_bridge_result L raw =
     (let v = bl_trim L raw in if v = [] \<or> \<not> bl_object L v then None else Some v)"

type_synonym 's runner = "string list \<Rightarrow> 's \<Rightarrow> (error option \<times> byte list) \<times> 's"

definition run_bridged :: "bridge_lib \<Rightarrow> 's runner \<Rightarrow> string \<Rightarrow> string list \<Rightarrow> 's \<Rightarrow> bridge_response \<times> 's" where
  "run_bridged L run i args s =
     (case run args s of ((e, out), s') \<Rightarrow>
        (case e of
           Some x \<Rightarrow> bridge_failure i (code_text (fault_code_of x))
         | None \<Rightarrow>
             (case decode_bridge_result L out of
                None \<Rightarrow> bridge_failure i ''bridge_invalid_result'' | Some v \<Rightarrow> bridge_success i (Output v)), s'))"

definition handle_bridge_request :: "bridge_lib \<Rightarrow> 's runner \<Rightarrow> byte list \<Rightarrow> 's \<Rightarrow> bridge_response \<times> 's" where
  "handle_bridge_request L run raw s =
     (case decode_bridge_request L raw of
        None \<Rightarrow> (bridge_failure [] ''bridge_invalid_request'', s)
      | Some q \<Rightarrow>
          if bq_version q \<noteq> ''1'' then (bridge_failure (bq_id q) ''bridge_unsupported_version'', s)
          else if \<not> request_id_ok (bq_id q) then (bridge_failure [] ''bridge_invalid_request'', s)
          else if bq_method q = ''negotiate'' then
            ((case bl_versions L (bq_params q) of
                None \<Rightarrow> bridge_failure (bq_id q) ''bridge_invalid_params''
              | Some vs \<Rightarrow> if ''1'' \<in> set vs then bridge_success (bq_id q) Capabilities
                           else bridge_failure (bq_id q) ''bridge_invalid_params''), s)
          else case bridge_args L (bq_method q) (bq_params q) of
              Inl e \<Rightarrow> (bridge_failure (bq_id q) e, s)
            | Inr args \<Rightarrow> run_bridged L run (bq_id q) args s)"

text \<open>
  The loop over the lines, each as it stands before its line feed: their answers, the state, and whether it ends well. A line of 64 KiB or
  more ends it with an answer, and so does an answer that cannot be written.
\<close>

fun serve_bridge :: "bridge_lib \<Rightarrow> 's runner \<Rightarrow> (nat \<Rightarrow> bool) \<Rightarrow> nat \<Rightarrow> byte list list \<Rightarrow> 's \<Rightarrow> bridge_response list \<times> 's \<times> bool" where
  "serve_bridge L run written k [] s = ([], s, True)"
| "serve_bridge L run written k (l # ls) s =
     (if 65536 \<le> length l then (if written k then [bridge_failure [] ''bridge_invalid_request''] else [], s, False)
      else case handle_bridge_request L run l s of (r, s') \<Rightarrow>
        if \<not> written k then ([], s', False)
        else case serve_bridge L run written (Suc k) ls s' of (rs, t, ok) \<Rightarrow> (r # rs, t, ok))"

section \<open>A request is carried out as it is\<close>

text \<open>What a join request sets, and what \<open>net/url\<close> says of a URL with a scheme.\<close>

definition asked_flags :: "bridge_join \<Rightarrow> (string \<times> string) list" where
  "asked_flags p = filter (\<lambda>(n, v). v \<noteq> []) [(''state-dir'', bj_state p), (''device-id'', bj_device p), (''name'', bj_name p),
     (''network-id'', bj_network p), (''node-id'', bj_node p)]"

definition scheme_first :: "url_parser \<Rightarrow> bool" where
  "scheme_first U \<longleftrightarrow> (\<forall>v p. U v = Some p \<and> u_scheme p \<noteq> [] \<longrightarrow> v \<noteq> [] \<and> hd v \<noteq> CHR ''-'')"

definition plain_name :: "string \<Rightarrow> bool" where
  "plain_name n \<longleftrightarrow> n \<noteq> [] \<and> hd n \<noteq> CHR ''-'' \<and> CHR ''='' \<notin> set n"

lemma plain_flag:
  assumes "plain_name n"
  shows "flag_body (CHR ''-'' # CHR ''-'' # n) = n" "flag_text n = (n, None)" "\<not> bad_flag n"
proof -
  from assms obtain c t where n: "n = c # t" "c \<noteq> CHR ''-''" "c \<noteq> CHR ''=''" "CHR ''='' \<notin> set n"
    by (cases n) (auto simp: plain_name_def)
  show "flag_body (CHR ''-'' # CHR ''-'' # n) = n" by (simp add: flag_body_def)
  have all: "\<forall>x \<in> set n. x \<noteq> CHR ''=''" using n(4) by blast
  then have tw: "takeWhile (\<lambda>x. x \<noteq> CHR ''='') n = n" and dw: "dropWhile (\<lambda>x. x \<noteq> CHR ''='') n = []"
    by (simp_all add: takeWhile_eq_all_conv dropWhile_eq_Nil_conv)
  then show "flag_text n = (n, None)" unfolding flag_text_def tw dw by simp
  show "\<not> bad_flag n" using n by (simp add: bad_flag_def)
qed

text \<open>A flag with its value, and a switch, at the head of the arguments.\<close>

lemma parse_value:
  assumes "plain_name n" "F n = Some (Valued ok)" "ok v"
  shows "parse_flags F ((CHR ''-'' # CHR ''-'' # n) # v # rest) = with_flag n v (parse_flags F rest)"
  using assms plain_flag [OF assms(1)] by (auto simp: plain_name_def)

lemma parse_switch:
  assumes "plain_name n" "F n = Some Switch"
  shows "parse_flags F ((CHR ''-'' # CHR ''-'' # n) # rest) = with_flag n ''true'' (parse_flags F rest)"
  using assms plain_flag [OF assms(1)]
  by (cases rest) (auto simp: plain_name_def with_flag_def parse_bool_ok_def)

lemma parse_operand: "a = [] \<or> hd a \<noteq> CHR ''-'' \<Longrightarrow> parse_flags F (a # rest) = Some ([], a # rest)"
  by (cases rest) auto

lemma parse_optional:
  assumes "plain_name n" "F n = Some (Valued (\<lambda>_. True))" "parse_flags F rest = Some (fs, r)"
  shows "parse_flags F (optional_flag n v @ rest) = Some ((if v = [] then [] else [(n, v)]) @ fs, r)"
  using assms by (simp add: optional_flag_def parse_value with_flag_def del: parse_flags.simps)

lemma plain_names:
  "plain_name ''state-dir''" "plain_name ''device-id''" "plain_name ''name''" "plain_name ''network-id''" "plain_name ''node-id''"
  "plain_name ''signed-config-v2''" "plain_name ''local-only''"
  by (simp_all add: plain_name_def)

text \<open>The command line of a command with a state directory and a switch.\<close>

lemma parse_state:
  assumes "F ''state-dir'' = Some (Valued (\<lambda>_. True))" "on \<longrightarrow> plain_name switch \<and> F switch = Some Switch"
  shows "parse_flags F (''--state-dir'' # dir # (if on then [''--'' @ switch] else [])) =
    Some ((''state-dir'', dir) # (if on then [(switch, ''true'')] else []), [])"
proof -
  have "parse_flags F (if on then [''--'' @ switch] else []) = Some (if on then [(switch, ''true'')] else [], [])"
    using assms(2) by (auto simp: parse_switch with_flag_def simp del: parse_flags.simps(2,3))
  then show ?thesis
    using parse_value [of "''state-dir''" F "\<lambda>_. True" dir, OF plain_names(1) assms(1)] by (simp add: with_flag_def del: parse_flags.simps)
qed

lemma join_args_parse:
  assumes "join_args L p = Some args" "scheme_first (bl_urls L)"
  shows "state_dir_ok (bj_state p) \<and> hd args = ''join'' \<and>
    parse_flags join_flags (move_leading_target (tl args)) = Some (asked_flags p, [bj_invite p])"
proof -
  from assms(1) obtain t where a: "state_dir_ok (bj_state p)" "parse_invite (bl_urls L) (bj_invite p) False = Inr t"
      "args = [''join'', ''--state-dir'', bj_state p] @ optional_flag ''device-id'' (bj_device p) @
            optional_flag ''name'' (bj_name p) @ optional_flag ''network-id'' (bj_network p) @
            optional_flag ''node-id'' (bj_node p) @ [bj_invite p]"
    by (auto simp: join_args_def split: if_splits sum.splits)
  from a(2) obtain u where "bl_urls L (bj_invite p) = Some u" "u_scheme u = ''xconnect''"
    by (auto simp: parse_invite_def split: if_splits option.splits)
  then have "hd (bj_invite p) \<noteq> CHR ''-''" using assms(2) by (auto simp: scheme_first_def)
  then have r0: "parse_flags join_flags [bj_invite p] = Some ([], [bj_invite p])" by (simp add: parse_operand)
  have F: "join_flags ''state-dir'' = Some (Valued (\<lambda>_. True))" "join_flags ''device-id'' = Some (Valued (\<lambda>_. True))"
    "join_flags ''name'' = Some (Valued (\<lambda>_. True))" "join_flags ''network-id'' = Some (Valued (\<lambda>_. True))"
    "join_flags ''node-id'' = Some (Valued (\<lambda>_. True))"
    by (simp_all add: join_flags_def flags_of_def)
  note r1 = parse_optional [OF plain_names(5) F(5) r0, of "bj_node p"]
  note r2 = parse_optional [OF plain_names(4) F(4) r1, of "bj_network p"]
  note r3 = parse_optional [OF plain_names(3) F(3) r2, of "bj_name p"]
  note r4 = parse_optional [OF plain_names(2) F(2) r3, of "bj_device p"]
  have "bj_state p \<noteq> []" using a(1) by (auto simp: state_dir_ok_def required_text_ok_def)
  moreover have "parse_flags join_flags (''--state-dir'' # bj_state p # rest) = with_flag ''state-dir'' (bj_state p) (parse_flags join_flags rest)" for rest
    using parse_value [of "''state-dir''" join_flags "\<lambda>_. True" "bj_state p", OF plain_names(1) F(1)] by (simp del: parse_flags.simps)
  ultimately have "parse_flags join_flags (tl args) = Some (asked_flags p, [bj_invite p])"
    by (simp add: a(3) r4 with_flag_def asked_flags_def del: parse_flags.simps)
  then show ?thesis using a by (simp add: move_leading_target_def has_prefix_def del: parse_flags.simps)
qed

lemma state_args_parse:
  assumes "state_args c switch on dir = Some args" "F ''state-dir'' = Some (Valued (\<lambda>_. True))"
    "on \<longrightarrow> plain_name switch \<and> F switch = Some Switch"
  shows "state_dir_ok dir \<and> hd args = c \<and>
    parse_flags F (tl args) = Some ((''state-dir'', dir) # (if on then [(switch, ''true'')] else []), [])"
  using assms(1) parse_state [OF assms(2,3), of dir]
  by (auto simp: state_args_def simp del: parse_flags.simps split: if_splits)

lemma flag_values:
  "flag_value [(''state-dir'', dir)] ''state-dir'' d = dir" "n \<noteq> ''state-dir'' \<Longrightarrow> flag_on [(''state-dir'', dir)] n = False"
  "flag_value [(''state-dir'', dir), (s, t)] ''state-dir'' d = (if s = ''state-dir'' then t else dir)"
  "n \<noteq> ''state-dir'' \<Longrightarrow> s \<noteq> n \<Longrightarrow> flag_on [(''state-dir'', dir), (s, t)] n = False"
  "flag_on [(''state-dir'', dir), (n, ''true'')] n"
  by (simp_all add: flag_value_def flag_on_def)

lemma sync_args_parse:
  assumes "state_args ''sync'' ''signed-config-v2'' v2 dir = Some args"
  shows "hd args = ''sync'' \<and> sync_command E (tl args) =
    Inr \<lparr>sy_state = dir, sy_v2 = v2, sy_watch = None, sy_bootstrap = None\<rparr>"
proof -
  have F: "sync_flags E ''state-dir'' = Some (Valued (\<lambda>_. True))" "v2 \<longrightarrow> plain_name ''signed-config-v2'' \<and> sync_flags E ''signed-config-v2'' = Some Switch"
    by (simp_all add: sync_flags_def flags_of_def plain_names)
  from state_args_parse [OF assms F] show ?thesis
    by (cases v2) (simp_all add: sync_command_def flag_values bootstrap_asked_def del: parse_flags.simps)
qed

lemma leave_args_parse:
  assumes "state_args ''leave'' ''local-only'' only dir = Some args"
  shows "hd args = ''leave'' \<and> leave_command E (tl args) = Inr (dir, only)"
proof -
  have F: "flags_of [''state-dir''] [''local-only''] ''state-dir'' = Some (Valued (\<lambda>_. True))"
    "only \<longrightarrow> plain_name ''local-only'' \<and> flags_of [''state-dir''] [''local-only''] ''local-only'' = Some Switch"
    by (simp_all add: flags_of_def plain_names)
  from state_args_parse [OF assms F] show ?thesis
    by (cases only) (simp_all add: leave_command_def state_command_def flag_values del: parse_flags.simps)
qed

lemma report_args_parse:
  assumes "state_args m [] False dir = Some args"
  shows "hd args = m \<and> state_command E op [] (tl args) = Inr (dir, [(''state-dir'', dir)])"
  using state_args_parse [OF assms, of "flags_of [''state-dir''] []"]
  by (simp add: state_command_def flag_values flags_of_def del: parse_flags.simps)

lemma or_invalid_Inr: "or_invalid (Option.bind x f) = Inr a \<longleftrightarrow> (\<exists>p. x = Some p \<and> f p = Some a)"
  by (cases x) (auto simp: or_invalid_def split: option.splits)

lemma bridge_args_of:
  "bridge_args L ''join'' raw = or_invalid (Option.bind (bl_join L raw) (join_args L))"
  "bridge_args L ''sync'' raw = or_invalid (Option.bind (bl_sync L raw) (\<lambda>(dir, v2). state_args ''sync'' ''signed-config-v2'' v2 dir))"
  "m = ''status'' \<or> m = ''diagnose'' \<Longrightarrow> bridge_args L m raw = or_invalid (Option.bind (bl_state L raw) (state_args m [] False))"
  "bridge_args L ''leave'' raw = or_invalid (Option.bind (bl_leave L raw) (\<lambda>(dir, only). state_args ''leave'' ''local-only'' only dir))"
  by (simp_all add: bridge_args_def) (elim disjE; simp)

lemma bridge_methods:
  assumes "bridge_args L m raw = Inr args"
  shows "m = ''join'' \<or> m = ''sync'' \<or> (m = ''status'' \<or> m = ''diagnose'') \<or> m = ''leave''"
proof (rule ccontr)
  assume "\<not> ?thesis"
  then have "m \<noteq> ''join''" "m \<noteq> ''sync''" "\<not> (m = ''status'' \<or> m = ''diagnose'')" "m \<noteq> ''leave''" by blast+
  then have "bridge_args L m raw = Inl ''bridge_unsupported_method''"
    unfolding bridge_args_def by (simp only: if_False)
  then show False using assms by simp
qed

text \<open>
  C40. A request of an application is carried out as it is asked. Whatever texts its parameters
  hold, the command line that is made of them is read back by the command as those very
  parameters: none of them becomes a flag, a command or an operand of its own, and the state
  directory is an absolute path. It assumes only that a URL with a scheme does not begin with a dash.
\<close>

theorem bridge_request_carried_out:
  assumes "bridge_args L m raw = Inr args" "scheme_first (bl_urls L)"
  shows
    "m = ''join'' \<and> (\<exists>p. bl_join L raw = Some p \<and> state_dir_ok (bj_state p) \<and> hd args = ''join'' \<and>
        parse_flags join_flags (move_leading_target (tl args)) = Some (asked_flags p, [bj_invite p])) \<or>
     m = ''sync'' \<and> (\<exists>dir v2. bl_sync L raw = Some (dir, v2) \<and> state_dir_ok dir \<and> hd args = ''sync'' \<and>
        sync_command E (tl args) = Inr \<lparr>sy_state = dir, sy_v2 = v2, sy_watch = None, sy_bootstrap = None\<rparr>) \<or>
     (m = ''status'' \<or> m = ''diagnose'') \<and> (\<exists>dir. bl_state L raw = Some dir \<and> state_dir_ok dir \<and> hd args = m \<and>
        state_command E op [] (tl args) = Inr (dir, [(''state-dir'', dir)])) \<or>
     m = ''leave'' \<and> (\<exists>dir only. bl_leave L raw = Some (dir, only) \<and> state_dir_ok dir \<and> hd args = ''leave'' \<and>
        leave_command E (tl args) = Inr (dir, only))"
proof -
  have valid: "state_dir_ok dir" if "state_args c s on dir = Some x" for c s on dir x
    using that by (simp add: state_args_def split: if_splits)
  consider "m = ''join''" | "m = ''sync''" | "m = ''status'' \<or> m = ''diagnose''" | "m = ''leave''"
    using bridge_methods [OF assms(1)] by argo
  then show ?thesis
  proof cases
    case 1
    obtain p where p: "bl_join L raw = Some p" "join_args L p = Some args"
      using assms(1) unfolding 1 bridge_args_of(1) or_invalid_Inr by blast
    show ?thesis by (intro disjI1 conjI exI [of _ p] 1 p(1)) (use join_args_parse [OF p(2) assms(2)] in simp_all)
  next
    case 2
    obtain dir v2 where p: "bl_sync L raw = Some (dir, v2)" "state_args ''sync'' ''signed-config-v2'' v2 dir = Some args"
      using assms(1) unfolding 2 bridge_args_of(2) or_invalid_Inr by fastforce
    note q = sync_args_parse [OF p(2), of E] valid [OF p(2)]
    show ?thesis
      by (intro disjI2 [OF disjI1] conjI exI [of _ dir] exI [of _ v2] 2 p(1) valid [OF p(2)] conjunct1 [OF q(1)] conjunct2 [OF q(1)])
  next
    case 3
    obtain dir where p: "bl_state L raw = Some dir" "state_args m [] False dir = Some args"
      using assms(1) unfolding bridge_args_of(3) [OF 3] or_invalid_Inr by blast
    note q = report_args_parse [OF p(2), of E op]
    show ?thesis
      by (rule disjI2 [OF disjI2 [OF disjI1]])
        (intro conjI exI [of _ dir] 3 p(1) valid [OF p(2)] conjunct1 [OF q] conjunct2 [OF q])
  next
    case 4
    obtain dir only where p: "bl_leave L raw = Some (dir, only)" "state_args ''leave'' ''local-only'' only dir = Some args"
      using assms(1) unfolding 4 bridge_args_of(4) or_invalid_Inr by fastforce
    note q = leave_args_parse [OF p(2), of E]
    show ?thesis
      by (rule disjI2 [OF disjI2 [OF disjI2]])
        (intro conjI exI [of _ dir] exI [of _ only] 4 p(1) valid [OF p(2)] conjunct1 [OF q] conjunct2 [OF q])
  qed
qed

text \<open>A join with an invite, whose device name looks like a flag.\<close>

definition sample_bridge :: bridge_lib where
  "sample_bridge = \<lparr>bl_request = (\<lambda>_. None), bl_object = (\<lambda>_. False), bl_versions = (\<lambda>_. None),
     bl_join = (\<lambda>_. Some \<lparr>bj_state = ''/s'', bj_invite = ''u'', bj_device = [], bj_name = ''--server=x'', bj_network = [], bj_node = []\<rparr>),
     bl_state = (\<lambda>_. None), bl_sync = (\<lambda>_. None), bl_leave = (\<lambda>_. None), bl_trim = id, bl_urls = (\<lambda>v. if v = [] \<or> hd v = CHR ''-'' then None else sample_urls v)\<rparr>"

lemma sample_bridge_args:
  "bridge_args sample_bridge ''join'' [] = Inr [''join'', ''--state-dir'', ''/s'', ''--name'', ''--server=x'', ''u'']"
proof -
  have tok: "valid_join_token sample_token" unfolding valid_join_token_iff sample_token_def
    by (intro exI [of _ "replicate 32 5"]) simp
  have tr: "trim_space ''u'' = ''u''" "trim_space ''/s'' = ''/s''" by (simp_all add: trim_space_all_graphic graphic_def code_def)
  have pa: "trim_prefix (''/'' @ sample_token) ''/'' = sample_token" by (rule trim_prefix_append)
  show ?thesis
    using tok pa
    by (simp add: sample_bridge_def bridge_args_def or_invalid_def join_args_def state_dir_ok_def required_text_ok_def
        optional_text_ok_def optional_flag_def is_abs_def has_prefix_def parse_invite_def tr sample_urls_def sample_url_def parse_controller_def)
qed

lemma sample_bridge_urls: "scheme_first (bl_urls sample_bridge)"
  by (auto simp: scheme_first_def sample_bridge_def split: if_splits)

lemma bridge_request_carried_out_witness:
  "\<exists>p. bl_join sample_bridge [] = Some p \<and>
     parse_flags join_flags (move_leading_target [''--state-dir'', ''/s'', ''--name'', ''--server=x'', ''u'']) =
       Some (asked_flags p, [bj_invite p])"
proof -
  from bridge_request_carried_out [OF sample_bridge_args sample_bridge_urls]
  have "\<exists>p. bl_join sample_bridge [] = Some p \<and> state_dir_ok (bj_state p) \<and>
     hd [''join'', ''--state-dir'', ''/s'', ''--name'', ''--server=x'', ''u''] = ''join'' \<and>
     parse_flags join_flags (move_leading_target (tl [''join'', ''--state-dir'', ''/s'', ''--name'', ''--server=x'', ''u''])) =
       Some (asked_flags p, [bj_invite p])" by (simp del: parse_flags.simps)
  then show ?thesis by (simp del: parse_flags.simps) blast
qed

text \<open>
  No text of an error, of a command or of a request leaves the bridge as an error: an answer has
  either a result or a code of at most 80 lower-case letters, digits and underscores, and its
  identifier is the one of the request or empty.
\<close>

lemma bridge_failure_code:
  "\<exists>c. bs_error (bridge_failure i x) = Some c \<and> bridge_code_ok c" "bs_result (bridge_failure i x) = None" "bs_id (bridge_failure i x) = i"
proof -
  have "bridge_code_ok (code_text CodeInvalidResponse)" by code_simp
  then show "\<exists>c. bs_error (bridge_failure i x) = Some c \<and> bridge_code_ok c" by (simp add: bridge_failure_def)
qed (simp_all add: bridge_failure_def)

definition answer_ok :: "bridge_response \<Rightarrow> bool" where
  "answer_ok r \<longleftrightarrow> (\<exists>c. bs_error r = Some c \<and> bridge_code_ok c \<and> bs_result r = None) \<or> bs_error r = None \<and> bs_result r \<noteq> None"

theorem bridge_answers_codes_only:
  assumes "handle_bridge_request L run raw s = (r, s')"
  shows "answer_ok r \<and> (bs_id r = [] \<or> (\<exists>q. decode_bridge_request L raw = Some q \<and> bs_id r = bq_id q))"
proof -
  have f: "answer_ok (bridge_failure i x)" for i x using bridge_failure_code [of i x] by (auto simp: answer_ok_def)
  have g: "answer_ok (bridge_success i x)" "bs_id (bridge_success i x) = i" for i x by (simp_all add: answer_ok_def bridge_success_def)
  show ?thesis
    using assms
    by (auto simp: handle_bridge_request_def run_bridged_def f g bridge_failure_code(3) split: option.splits if_splits sum.splits prod.splits)
qed

end
