(* ===== verification/Spec2Isabelle.thy ===== *)
theory Spec2Isabelle
  imports Path_Runs Signed_Config Policy Invite Credential State_Store Floors Session_Runs Lifecycle_Runs Join_Runs Register_Runs
    Sync_Loop Op_Lock Desktop_Samples Client_Samples Linux_Backend Darwin_Backend Bootstrap_Runs Windows_Facts Status_Report
    Zero_Lab_Runs App_Bridge
begin

text \<open>
  XConnect One is the node of an overlay network: it enrols a device with a controller, fetches and
  verifies signed configurations, runs Xray and WireGuard with them, and finds direct paths between
  the devices of a mesh. The theories model its Go sources; every path below is under \<open>src/\<close>.

  \<^bold>\<open>The parts and how they interact.\<close>
  The use cases (\<open>overlay/usecase\<close>) are what the commands run. Each of them reads and writes the
  state directory (\<open>overlay/state\<close>) and the credential store (\<open>overlay/credential\<close>), asks the
  controller through the client (\<open>overlay/controlplane\<close>), checks what it answers
  (\<open>overlay/signedconfig\<close>, \<open>overlay/policy\<close>, \<open>overlay/invite\<close>, \<open>overlay/model\<close>) and hands the compiled
  configuration to a runtime (\<open>overlay/runtime\<close>). The desktop runtime renders the files of a
  revision, starts Xray and WireGuard through the backend of the operating system, and for a mesh
  the path manager (\<open>overlay/pathmanager\<close>), whose peers exchange frames (\<open>overlay/pathwire\<close>). The
  single-device controller (\<open>internal/zerolab\<close>) is the other end of the client's requests.

  \<^bold>\<open>Shared theories.\<close> Prelude (bytes, results, loops with a set of seen keys, rule collections);
  Go_Strings, Go_Encoding, Go_Net, Go_Time, Go_Path (what the sources use of \<open>strings\<close>, \<open>strconv\<close>,
  \<open>encoding\<close>, \<open>net/netip\<close>, \<open>time\<close>, \<open>path/filepath\<close>); Fault (\<open>overlay/fault/fault.go\<close>, the codes and
  the errors as a datatype); Steps (a step of a stateful program is a function from a state to a
  result, \<open>Inl\<close> an error or \<open>Inr\<close> a value, and the next state; composition rules for relations that
  every exit keeps, and the locale \<open>step_preorder\<close>); Weakest (preconditions of composed steps);
  Contracts (the locales \<open>replay_guard\<close>, \<open>kept\<close>, \<open>single_store\<close>, \<open>document\<close>, \<open>rising_floor\<close>).

  \<^bold>\<open>The path manager.\<close> Pathwire models \<open>wire.go\<close> (frames, their MAC, the LAN and the stream form);
  Mesh_Config \<open>config.go\<close>; Peer_State the replay guard (epochs, the 64-bit window) and Path_Manager
  the other sections of \<open>manager.go\<close> that run under its mutex. Path_Runs interleaves these sections
  as an inductive step relation and shows, for every reachable state: only authentic, fresh frames
  are delivered, an address is used only after a probe to it was answered, and what is refused
  leaves the peers as they are. \<open>frames: replay_guard\<close> is interpreted on the code's guard.

  \<^bold>\<open>Configurations and documents.\<close> Model_Config (\<open>model/config.go\<close>), Signed_Config
  (\<open>signedconfig/contract.go\<close>: validation, key sets, signing bytes, \<open>Verify\<close>, \<open>Compile\<close>), Policy
  (\<open>policy/consumer.go\<close>), Invite (\<open>invite/parser.go\<close>), Credential (\<open>credential/*.go\<close>: records,
  rotation, the memory, protected and file stores as \<open>single_store\<close>s), State_Store (\<open>state/store.go\<close>,
  \<open>state/lifecycle.go\<close>: every file of the state directory as an option, with the outcome of each
  system call as an argument), Floors (generations only rise: \<open>rising_floor\<close> for configurations and
  policies), Op_Lock (the operation lock as an interleaving of processes; exclusive without
  recovery, and the race of recovery as a theorem).

  \<^bold>\<open>Use cases.\<close> Node holds the state they share: the files, the credential, a log of the requests to
  the controller and the runtime, and a counter; the environment answers call by call, so every
  theorem holds for every controller, runtime, clock and file system. Device_Session (\<open>Sync\<close>,
  \<open>Rotate\<close>), Lifecycle (\<open>Up\<close>, \<open>Down\<close>, \<open>Leave\<close>), Messages and Join (\<open>join.go\<close>), Register
  (\<open>register.go\<close>), Sync_Loop (the daemon), Status_Report (\<open>status\<close>, \<open>diagnose\<close>, the runtimes without
  a desktop and the fake of the tests). Session_Runs, Lifecycle_Runs, Join_Runs and Register_Runs
  prove what holds on every exit: nothing is acknowledged that was not verified and seen to run, no
  credential, approval, nonce or checkpoint is lost, floors never fall, nothing falls back to an
  unsigned configuration, and registering ends.

  \<^bold>\<open>The client.\<close> Http_Client (\<open>client.go\<close>: one request and the reading of its answer), Device_Client
  (\<open>device.go\<close>), Enroll_Client (\<open>enrollment.go\<close>, \<open>signed.go\<close>, \<open>registration.go\<close>), Admin_Client
  (\<open>admin.go\<close>, \<open>routes.go\<close>). Client_Runs shows where a credential or a bearer may be sent, that a
  configuration is taken only in the version asked for, and that what is accepted can be stored;
  Client_Samples holds the concrete runs.

  \<^bold>\<open>The desktop runtime.\<close> Desktop_Host (the host: revisions, manifests, processes, interfaces, and a
  log of what was done to it), Wg_Conf (the rendered files), Desktop and Desktop_Apply (\<open>Apply\<close>,
  \<open>Status\<close>, \<open>Down\<close>, \<open>Cleanup\<close>, \<open>Diagnose\<close>, \<open>desktop.go\<close> and \<open>path_manager.go\<close>). Desktop_Facts has
  the locales \<open>host_asks\<close>, \<open>host_rel\<close>, \<open>host_files\<close>, \<open>host_manifests\<close>, each extending the one before: a
  relation between hosts that the elementary steps keep is kept by every operation. Desktop_Runs
  and Desktop_Proven interpret them and show what is in force after \<open>Apply\<close>, what a failed
  replacement leaves, and that nothing of others is stopped or removed; Desktop_Samples has the
  runs of the witnesses.

  \<^bold>\<open>The backends.\<close> Os_Host (an operating system that answers questions in turn and keeps a log of
  commands and signals, \<open>Stop\<close>, and the locale \<open>process_check\<close>: what a check that finds a process
  alive has seen), Linux_Backend (\<open>desktop_os.go\<close>), Darwin_Backend (\<open>desktop_os_darwin.go\<close>),
  Windows_Backend and Windows_Facts (\<open>desktop_windows.go\<close>, \<open>state/permissions_windows.go\<close>). Each
  backend is an interpretation of \<open>process_check\<close> or has the corresponding theorem: a signal follows
  an inspection that identified the process. Bootstrap and Bootstrap_Runs (\<open>bootstrap*.go\<close>): the
  managed Xray is replaced only by the content of the pinned archive.

  \<^bold>\<open>The single-device controller.\<close> Zero_Lab (\<open>internal/zerolab/server.go\<close>: the options, the state and
  its file, every handler with its writes) and Zero_Lab_Runs (reachable servers over requests,
  failed writes and restarts: an answer survives a restart, who may change what, one key for the
  lab's address).

  \<^bold>\<open>The command line.\<close> Command_Line (\<open>cmd/xconnect/main.go\<close>: the flags as the package \<open>flag\<close>
  parses them, the dispatch, and for each command the client, directory and request it makes of its
  arguments: an invite is joined under the signed contract only) and App_Bridge
  (\<open>cmd/xconnect/app_bridge.go\<close>: requests of an application as lines of JSON; each becomes a command
  line that is read back as the very parameters of the request, and errors leave it as codes only).

  \<^bold>\<open>Bounds and fuel.\<close> \<open>Register\<close>'s polling takes a number of rounds; while the clock does not go back
  there is one after which it has returned (\<open>register_returns\<close>). \<open>Sync_Loop\<close> is meant to run for ever:
  its properties hold for every number of rounds. The waits of the runtime for a process, an
  interface or a path report (\<open>he_rounds\<close>, \<open>oe_rounds\<close>) and \<open>Stop\<close> take the number of looks before the
  deadline from the environment, which is what a clock decides. Looking for a free port is bounded
  by the 32 tries of the code. The Windows image name is asked for at most 32768 times: the buffer
  grows by at least one with every answer, and no path is longer than 32767 characters.

  \<^bold>\<open>Parameters.\<close> SHA-256, Ed25519, HMAC and random bytes; \<open>encoding/json\<close>, \<open>net/url\<close>, \<open>net/http\<close>,
  \<open>archive/zip\<close>, \<open>mime\<close>; name resolution and clocks; the outcome of every system call; on Windows
  \<open>path/filepath\<close> and the calls into the system. Hypotheses on them are named in the statements
  (the length of a digest, the freshness of a nonce) and are shown to hold for a concrete function.

  \<^bold>\<open>Not modelled.\<close> The default device identifier and the JSON output of the commands, which are the
  calls of the use cases on what Command_Line gives; the \<open>main\<close> of the single-device controller. The
  key stores of macOS and Windows. Sockets, goroutines and timers of the path manager outside its
  mutex. The raw Windows calls that set an access list, move a file or read the UDP table.
\<close>

end
